(* ===== verification/Rate.thy ===== *)
theory Rate
  imports Complex_Main
begin

text \<open>
  \<open>common/rate.c\<close>: how many events per second a counter has seen.  \<open>gettimeofday\<close> is an argument
  (\<open>None\<close> where it fails).  The quotient is exact here; a C \<open>double\<close> rounds it.
\<close>

record timeval =
  tv_sec :: int
  tv_usec :: int

record rate =
  r_count :: int
  r_tv :: timeval
  r_tv_last :: timeval

definition RATE_INTERVAL :: int where "RATE_INTERVAL = 100"

definition rate_get :: "rate \<Rightarrow> rat \<times> rate" where
  "rate_get r =
     (if r_count r \<le> 1 then (0, r)
      else
        let seconds = tv_sec (r_tv_last r) - tv_sec (r_tv r);
            (r, seconds) =
              (if tv_usec (r_tv_last r) \<le> tv_usec (r_tv r)
               then (r\<lparr>r_tv := (r_tv r)\<lparr>tv_usec := tv_usec (r_tv r) - 1000000\<rparr>\<rparr>, seconds - 1)
               else (r, seconds));
            seconds =
              (if 500000 \<le> tv_usec (r_tv_last r) - tv_usec (r_tv r) then seconds + 1 else seconds)
        in if seconds \<le> 0 then (0, r) else (of_int (r_count r - 1) / of_int seconds, r))"

definition rate_tick :: "timeval option \<Rightarrow> rate \<Rightarrow> rat \<times> rate" where
  "rate_tick now r =
     (if r_count r = 0 then
        (case now of None \<Rightarrow> (0, r) | Some t \<Rightarrow> (0, r\<lparr>r_tv := t, r_count := 1\<rparr>))
      else case now of
        None \<Rightarrow> (0, r)
      | Some t \<Rightarrow>
          let r = r\<lparr>r_tv_last := t, r_count := r_count r + 1\<rparr>
          in if r_count r mod RATE_INTERVAL = 0 then
               let (rate, r) = rate_get r in (rate, r\<lparr>r_count := 1, r_tv := r_tv_last r\<rparr>)
             else (0, r))"

section \<open>Elapsed time\<close>

definition usecs :: "timeval \<Rightarrow> int" where
  "usecs t = 1000000 * tv_sec t + tv_usec t"

definition tv_ok :: "timeval \<Rightarrow> bool" where
  "tv_ok t \<longleftrightarrow> 0 \<le> tv_usec t \<and> tv_usec t < 1000000"

text \<open>The elapsed time in seconds, rounded half up.\<close>

definition elapsed :: "rate \<Rightarrow> int" where
  "elapsed r = (usecs (r_tv_last r) - usecs (r_tv r) + 500000) div 1000000"

lemma elapsed_eq:
  assumes "1000000 * q \<le> usecs (r_tv_last r) - usecs (r_tv r) + 500000"
    and "usecs (r_tv_last r) - usecs (r_tv r) + 500000 < 1000000 * (q + 1)"
  shows "elapsed r = q"
  unfolding elapsed_def using assms by (intro int_div_pos_eq [where r = "usecs (r_tv_last r) - usecs (r_tv r) + 500000 - 1000000 * q"]) simp_all

lemma elapsed_cases:
  assumes "tv_ok (r_tv r)" and "tv_ok (r_tv_last r)"
  shows "elapsed r =
    (let s = tv_sec (r_tv_last r) - tv_sec (r_tv r); u = tv_usec (r_tv_last r) - tv_usec (r_tv r)
     in if u \<le> 0 then (if u < - 500000 then s - 1 else s) else (if 500000 \<le> u then s + 1 else s))"
  unfolding Let_def
  by (rule elapsed_eq) (use assms in \<open>auto simp: tv_ok_def usecs_def\<close>)

text \<open>
  Between two proper times, \<open>rate_get\<close> is the number of events after the first, divided by the
  elapsed seconds rounded half up, and zero where that is no positive number.
\<close>

lemma rate_get_value:
  assumes "tv_ok (r_tv r)" and "tv_ok (r_tv_last r)"
  shows "fst (rate_get r) =
    (if r_count r \<le> 1 \<or> elapsed r \<le> 0 then 0 else of_int (r_count r - 1) / of_int (elapsed r))"
  unfolding elapsed_cases [OF assms] by (auto simp: rate_get_def Let_def)

lemma rate_get_value_witness:
  "fst (rate_get \<lparr>r_count = 100, r_tv = \<lparr>tv_sec = 10, tv_usec = 900000\<rparr>,
     r_tv_last = \<lparr>tv_sec = 14, tv_usec = 100000\<rparr>\<rparr>) = 33"
  using rate_get_value [of "\<lparr>r_count = 100, r_tv = \<lparr>tv_sec = 10, tv_usec = 900000\<rparr>,
     r_tv_last = \<lparr>tv_sec = 14, tv_usec = 100000\<rparr>\<rparr>"]
  by (simp add: tv_ok_def elapsed_def usecs_def)

text \<open>
  The borrow of a million microseconds is left in \<open>r_tv\<close>: asked again, the same counter
  gives another rate.
\<close>

lemma rate_get_not_idempotent:
  "let r = \<lparr>r_count = 100, r_tv = \<lparr>tv_sec = 10, tv_usec = 900000\<rparr>,
             r_tv_last = \<lparr>tv_sec = 14, tv_usec = 100000\<rparr>\<rparr>
   in fst (rate_get r) = 33 \<and> fst (rate_get (snd (rate_get r))) = 99 / 4"
  by (simp add: rate_get_def)

section \<open>The counter\<close>

lemma rate_get_count: "r_count (snd (rate_get r)) = r_count r"
  by (simp add: rate_get_def Let_def)

text \<open>The counter stays between 0 and 99, however often it ticks and whatever the clock says.\<close>

lemma rate_tick_bounds:
  assumes "0 \<le> r_count r" and "r_count r < RATE_INTERVAL"
  shows "0 \<le> r_count (snd (rate_tick now r)) \<and> r_count (snd (rate_tick now r)) < RATE_INTERVAL"
proof -
  have "(r_count r + 1) mod 100 \<noteq> 0 \<Longrightarrow> r_count r + 1 < 100"
    using assms by (cases "r_count r = 99") (simp_all add: RATE_INTERVAL_def)
  then show ?thesis
    using assms
    by (auto simp: rate_tick_def Let_def RATE_INTERVAL_def split: option.splits prod.splits)
qed

lemma rate_tick_bounds_witness:
  "0 \<le> r_count (snd (rate_tick None \<lparr>r_count = 99, r_tv = \<lparr>tv_sec = 0, tv_usec = 0\<rparr>, r_tv_last = \<lparr>tv_sec = 0, tv_usec = 0\<rparr>\<rparr>))"
  using rate_tick_bounds [of "\<lparr>r_count = 99, r_tv = \<lparr>tv_sec = 0, tv_usec = 0\<rparr>, r_tv_last = \<lparr>tv_sec = 0, tv_usec = 0\<rparr>\<rparr>" None]
  by (simp add: RATE_INTERVAL_def)

end
