(* ===== verification/Prelude.thy ===== *)
theory Prelude
  imports Main "HOL-Library.Word" "HOL-Library.State_Monad"
begin

text \<open>
  The vocabulary the component theories share.  A C string is the list of its characters up
  to (and without) the terminating NUL.  The functions of the C library that the sources call
  on strings and numbers (\<open>ctype.h\<close>, \<open>string.h\<close>, \<open>strtol\<close>, \<open>atoi\<close>, the \<open>%d\<close>, \<open>%u\<close> and
  \<open>%x\<close> conversions) are modelled here for the C locale, with \<open>int\<close> of 32 and \<open>long\<close> of 64
  bits.  Outcomes of a C function that may end the process or run into undefined behaviour are
  values of \<open>outcome\<close>.  Code that threads state through many calls is written in the state
  monad of the library; the lemma collections of the last section compose facts about it.
\<close>

unbundle bit_operations_syntax

named_theorems rel_intros \<open>composition rules for two-state relations of monadic code\<close>
named_theorems os_simps \<open>run equations of the system calls when no fault is scheduled\<close>
named_theorems frame_simps \<open>what a system call leaves unchanged\<close>

section \<open>Outcomes\<close>

text \<open>A function returns, calls \<open>exit\<close>, or does something C gives no meaning to (a read
  through a null pointer, a copy past the end of an array).\<close>

datatype 'a outcome = Ret 'a | Exit int | Undefined

fun is_ret :: "'a outcome \<Rightarrow> bool" where
  "is_ret (Ret _) = True"
| "is_ret _ = False"

text \<open>The values of \<open>errno\<close> the sources tell apart.\<close>

datatype errno = ENONE | ENOENT | EEXIST | ETIMEDOUT | EOTHER

section \<open>Characters\<close>

definition code_of :: "char \<Rightarrow> nat" where
  "code_of c = of_char c"

definition chr :: "nat \<Rightarrow> char" where
  "chr n = char_of n"

definition NUL :: char where "NUL = CHR 0x00"
definition TAB :: char where "TAB = CHR 0x09"
definition LF :: char where "LF = CHR 0x0A"
definition CR :: char where "CR = CHR 0x0D"

lemmas ctrl_defs = NUL_def TAB_def LF_def CR_def

definition crlf :: string where "crlf = [CR, LF]"

lemma ctrl_distinct [simp]:
  "NUL \<noteq> TAB" "NUL \<noteq> LF" "NUL \<noteq> CR" "TAB \<noteq> NUL" "TAB \<noteq> LF" "TAB \<noteq> CR"
  "LF \<noteq> NUL" "LF \<noteq> TAB" "LF \<noteq> CR" "CR \<noteq> NUL" "CR \<noteq> TAB" "CR \<noteq> LF"
  by (simp_all add: ctrl_defs)

lemma code_of_less [simp]: "code_of c < 256"
  by (simp add: code_of_def)

lemma code_of_chr [simp]: "n < 256 \<Longrightarrow> code_of (chr n) = n"
  by (simp add: code_of_def chr_def)

lemma chr_code_of [simp]: "chr (code_of c) = c"
  by (simp add: code_of_def chr_def)

lemma code_of_inject [simp]: "code_of a = code_of b \<longleftrightarrow> a = b"
  by (metis chr_code_of)

definition isdigit :: "char \<Rightarrow> bool" where
  "isdigit c \<longleftrightarrow> 48 \<le> code_of c \<and> code_of c \<le> 57"

definition isspace :: "char \<Rightarrow> bool" where
  "isspace c \<longleftrightarrow> code_of c = 32 \<or> 9 \<le> code_of c \<and> code_of c \<le> 13"

definition isalpha :: "char \<Rightarrow> bool" where
  "isalpha c \<longleftrightarrow> 65 \<le> code_of c \<and> code_of c \<le> 90 \<or> 97 \<le> code_of c \<and> code_of c \<le> 122"

definition tolower :: "char \<Rightarrow> char" where
  "tolower c = (if 65 \<le> code_of c \<and> code_of c \<le> 90 then chr (code_of c + 32) else c)"

definition digit_char :: "nat \<Rightarrow> char" where
  "digit_char d = chr (48 + d)"

definition digit_val :: "char \<Rightarrow> nat" where
  "digit_val c = code_of c - 48"

lemma digit_char_isdigit [simp]: "d < 10 \<Longrightarrow> isdigit (digit_char d)"
  by (simp add: digit_char_def isdigit_def)

lemma digit_val_char [simp]: "d < 10 \<Longrightarrow> digit_val (digit_char d) = d"
  by (simp add: digit_char_def digit_val_def)

lemma digit_chars [simp]:
  "digit_char 0 = CHR ''0''" "digit_char (Suc 0) = CHR ''1''" "digit_char 2 = CHR ''2''"
  "digit_char 3 = CHR ''3''" "digit_char 4 = CHR ''4''" "digit_char 5 = CHR ''5''"
  "digit_char 6 = CHR ''6''" "digit_char 7 = CHR ''7''" "digit_char 8 = CHR ''8''"
  "digit_char 9 = CHR ''9''"
  by (simp_all add: digit_char_def chr_def char_of_def bit_iff_odd)

lemma isdigit_not_isspace: "isdigit c \<Longrightarrow> \<not> isspace c"
  by (auto simp: isdigit_def isspace_def)

section \<open>Strings\<close>

text \<open>The list of a C string's characters holds no NUL.\<close>

definition cstr :: "string \<Rightarrow> bool" where
  "cstr s \<longleftrightarrow> NUL \<notin> set s"

lemma cstr_simps [simp]:
  "cstr []" "cstr (c # s) \<longleftrightarrow> c \<noteq> NUL \<and> cstr s" "cstr (s @ t) \<longleftrightarrow> cstr s \<and> cstr t"
  by (auto simp: cstr_def)

text \<open>\<open>strcasecmp(a, b) == 0\<close> and \<open>strncmp(s, p, strlen(p)) == 0\<close>.\<close>

definition strcaseeq :: "string \<Rightarrow> string \<Rightarrow> bool" where
  "strcaseeq a b \<longleftrightarrow> map tolower a = map tolower b"

definition starts_with :: "string \<Rightarrow> string \<Rightarrow> bool" where
  "starts_with s p \<longleftrightarrow> take (length p) s = p"

definition starts_with_nocase :: "string \<Rightarrow> string \<Rightarrow> bool" where
  "starts_with_nocase s p \<longleftrightarrow> map tolower (take (length p) s) = map tolower p"

lemma starts_with_append [simp]: "starts_with (p @ s) p"
  by (simp add: starts_with_def)

lemma starts_withD: "starts_with s p \<Longrightarrow> \<exists>r. s = p @ r"
  by (metis starts_with_def append_take_drop_id)

text \<open>\<open>strchr\<close>: the position of the first occurrence.\<close>

fun strchr :: "string \<Rightarrow> char \<Rightarrow> nat option" where
  "strchr [] c = None"
| "strchr (x # s) c = (if x = c then Some 0 else map_option Suc (strchr s c))"

lemma strchr_None [simp]: "strchr s c = None \<longleftrightarrow> c \<notin> set s"
  by (induction s) auto

lemma strchr_SomeD:
  "strchr s c = Some i \<Longrightarrow> i < length s \<and> s ! i = c \<and> c \<notin> set (take i s)"
  by (induction s arbitrary: i) (auto split: if_splits)

lemma strchr_split:
  "strchr s c = Some i \<Longrightarrow> s = take i s @ c # drop (Suc i) s"
  by (metis strchr_SomeD id_take_nth_drop)

lemma strchr_append [simp]: "c \<notin> set a \<Longrightarrow> strchr (a @ c # b) c = Some (length a)"
  by (induction a) auto

text \<open>\<open>strstr\<close>: the suffix that starts at the first occurrence.\<close>

fun strstr :: "string \<Rightarrow> string \<Rightarrow> string option" where
  "strstr [] p = (if p = [] then Some [] else None)"
| "strstr (x # s) p = (if starts_with (x # s) p then Some (x # s) else strstr s p)"

lemma strstr_SomeD: "strstr s p = Some t \<Longrightarrow> starts_with t p \<and> (\<exists>a. s = a @ t)"
proof (induction s arbitrary: t)
  case Nil
  then show ?case by (auto simp: starts_with_def split: if_splits)
next
  case (Cons x s)
  then show ?case by (fastforce split: if_splits intro: exI [of _ "x # a" for a])
qed

section \<open>Numbers in text\<close>

fun digits_val :: "nat \<Rightarrow> string \<Rightarrow> nat" where
  "digits_val n [] = n"
| "digits_val n (c # s) = (if isdigit c then digits_val (10 * n + digit_val c) s else n)"

text \<open>
  \<open>strtol(s, &end, 10)\<close>: value, rest of the input at \<open>end\<close>, and whether the value was out of
  range (\<open>errno\<close> is set and the value clamped).  Without a digit \<open>end\<close> is \<open>s\<close>.
\<close>

definition LONG_MAX :: int where "LONG_MAX = 2 ^ 63 - 1"
definition LONG_MIN :: int where "LONG_MIN = - (2 ^ 63)"

definition strtol :: "string \<Rightarrow> int \<times> string \<times> bool" where
  "strtol s =
     (let t = dropWhile isspace s;
          neg = (t \<noteq> [] \<and> hd t = CHR ''-'');
          u = (if t \<noteq> [] \<and> (hd t = CHR ''-'' \<or> hd t = CHR ''+'') then tl t else t)
      in if u = [] \<or> \<not> isdigit (hd u) then (0, s, False)
         else let v = (if neg then - int (digits_val 0 u) else int (digits_val 0 u))
              in (max LONG_MIN (min LONG_MAX v), dropWhile isdigit u,
                  v < LONG_MIN \<or> LONG_MAX < v))"

text \<open>A conversion to \<open>int\<close> keeps the low 32 bits; \<open>atoi\<close> is \<open>(int)strtol(s, NULL, 10)\<close>.\<close>

definition to_int :: "int \<Rightarrow> int" where
  "to_int x = signed_take_bit 31 x"

definition atoi :: "string \<Rightarrow> int" where
  "atoi s = to_int (fst (strtol s))"

lemma to_int_id [simp]: "- (2 ^ 31) \<le> x \<Longrightarrow> x < 2 ^ 31 \<Longrightarrow> to_int x = x"
  by (simp add: to_int_def signed_take_bit_int_eq_self)

lemma to_int_bounds: "- (2 ^ 31) \<le> to_int x \<and> to_int x < 2 ^ 31"
  unfolding to_int_def
  using signed_take_bit_int_greater_eq_minus_exp [of 31 x] signed_take_bit_int_less_exp [of 31 x]
  by simp

text \<open>The \<open>%d\<close> (and \<open>%lu\<close>) and \<open>%x\<close> conversions.\<close>

fun show_nat :: "nat \<Rightarrow> string" where
  "show_nat n = (if n < 10 then [digit_char n] else show_nat (n div 10) @ [digit_char (n mod 10)])"

definition show_int :: "int \<Rightarrow> string" where
  "show_int i = (if i < 0 then CHR ''-'' # show_nat (nat (- i)) else show_nat (nat i))"

definition hex_char :: "nat \<Rightarrow> char" where
  "hex_char d = ''0123456789abcdef'' ! d"

fun show_hex :: "nat \<Rightarrow> string" where
  "show_hex n = (if n < 16 then [hex_char n] else show_hex (n div 16) @ [hex_char (n mod 16)])"

declare show_nat.simps [simp del] show_hex.simps [simp del]

lemma show_nat_digits: "\<forall>c \<in> set (show_nat n). isdigit c"
proof (induction n rule: show_nat.induct)
  case (1 n)
  then show ?case by (subst show_nat.simps) auto
qed

lemma show_nat_nonempty [simp]: "show_nat n \<noteq> []"
  by (subst show_nat.simps) auto

lemma digits_val_append:
  "\<forall>c \<in> set a. isdigit c \<Longrightarrow> digits_val n (a @ b) = digits_val (digits_val n a) b"
  by (induction a arbitrary: n) auto

lemma digits_val_show_nat [simp]: "digits_val 0 (show_nat n) = n"
proof (induction n rule: show_nat.induct)
  case (1 n)
  show ?case
  proof (cases "n < 10")
    case True
    then show ?thesis by (subst show_nat.simps) simp
  next
    case False
    then have "digits_val 0 (show_nat n) = digits_val 0 (show_nat (n div 10) @ [digit_char (n mod 10)])"
      by (subst show_nat.simps) simp
    also have "\<dots> = digits_val (n div 10) [digit_char (n mod 10)]"
      using False "1" by (simp add: digits_val_append show_nat_digits)
    also have "\<dots> = n" by simp
    finally show ?thesis .
  qed
qed

lemma digits_val_show_nat_rest:
  "b = [] \<or> \<not> isdigit (hd b) \<Longrightarrow> digits_val 0 (show_nat n @ b) = n"
  by (cases b) (simp_all add: digits_val_append show_nat_digits)

lemma isdigit_not_sign: "isdigit c \<Longrightarrow> c \<noteq> CHR ''-'' \<and> c \<noteq> CHR ''+''"
  by (auto simp: isdigit_def code_of_def)

lemma strtol_show_nat:
  assumes "int n \<le> LONG_MAX" and "b = [] \<or> \<not> isdigit (hd b)"
  shows "strtol (show_nat n @ b) = (int n, b, False)"
proof -
  have hd: "isdigit (hd (show_nat n @ b))"
    using show_nat_digits [of n] by (cases "show_nat n") auto
  have sp: "dropWhile isspace (show_nat n @ b) = show_nat n @ b"
    using hd by (cases "show_nat n @ b") (auto simp: isdigit_not_isspace)
  have rest: "dropWhile isdigit (show_nat n @ b) = b"
    using assms(2) show_nat_digits [of n] by (cases b) (auto simp: dropWhile_append)
  show ?thesis
    using hd isdigit_not_sign [OF hd] assms
    by (simp add: strtol_def sp rest digits_val_show_nat_rest LONG_MIN_def Let_def)
qed

lemma atoi_show_int:
  assumes "- (2 ^ 31) \<le> i" and "i < 2 ^ 31"
  shows "atoi (show_int i) = i"
proof (cases "i < 0")
  case False
  then show ?thesis
    using assms strtol_show_nat [of "nat i" "[]"]
    by (simp add: atoi_def show_int_def LONG_MAX_def)
next
  case True
  have hd: "isdigit (hd (show_nat (nat (- i))))"
    using show_nat_digits [of "nat (- i)"] by (cases "show_nat (nat (- i))") auto
  have ns: "\<not> isspace CHR ''-''" by (simp add: isspace_def code_of_def)
  show ?thesis
    using True hd ns assms
    by (simp add: atoi_def show_int_def strtol_def Let_def LONG_MIN_def LONG_MAX_def)
qed

lemma show_nat_no_NUL [simp]: "cstr (show_nat n)"
  using show_nat_digits [of n] by (auto simp: cstr_def isdigit_def code_of_def ctrl_defs)

section \<open>Bounded buffers\<close>

text \<open>
  \<open>snprintf(buf, n, ...) >= n\<close> is how the sources detect that the text \<open>s\<close> and its NUL do
  not fit: the text is used only when it fits.
\<close>

definition snprintf :: "nat \<Rightarrow> string \<Rightarrow> string option" where
  "snprintf n s = (if n \<le> length s then None else Some s)"

lemma snprintf_Some [simp]: "snprintf n s = Some t \<longleftrightarrow> t = s \<and> length s < n"
  by (auto simp: snprintf_def)

lemma snprintf_fits [simp]: "length s < n \<Longrightarrow> snprintf n s = Some s"
  by simp

lemma snprintf_None [simp]: "snprintf n s = None \<longleftrightarrow> n \<le> length s"
  by (simp add: snprintf_def)

section \<open>Two-state relations of monadic code\<close>

text \<open>
  \<open>state_io_rel R m\<close> (of the library) says that every run of \<open>m\<close> goes from a state to an
  \<open>R\<close>-related one.  For a preorder \<open>R\<close> it composes along the code.
\<close>

locale io_preorder =
  fixes R :: "'s \<Rightarrow> 's \<Rightarrow> bool"
  assumes R_refl: "R s s"
    and R_trans: "R s t \<Longrightarrow> R t u \<Longrightarrow> R s u"
begin

lemma rel_return: "state_io_rel R (State_Monad.return x)"
  by (auto simp: R_refl)

lemma rel_get: "state_io_rel R State_Monad.get"
  by (auto simp: R_refl)

lemma rel_bind:
  assumes "state_io_rel R m" and "\<And>a. state_io_rel R (f a)"
  shows "state_io_rel R (State_Monad.bind m f)"
proof
  fix b s u
  assume "run_state (State_Monad.bind m f) s = (b, u)"
  then obtain a t where "run_state m s = (a, t)" and "run_state (f a) t = (b, u)"
    by (auto split: prod.splits)
  then show "R s u" using assms by (meson R_trans state_io_relD)
qed

lemma rel_if:
  "(b \<Longrightarrow> state_io_rel R m) \<Longrightarrow> (\<not> b \<Longrightarrow> state_io_rel R n) \<Longrightarrow> state_io_rel R (if b then m else n)"
  by simp

lemma rel_let: "(\<And>x. x = e \<Longrightarrow> state_io_rel R (f x)) \<Longrightarrow> state_io_rel R (let x = e in f x)"
  by simp

lemma rel_option:
  "(e = None \<Longrightarrow> state_io_rel R m) \<Longrightarrow> (\<And>x. e = Some x \<Longrightarrow> state_io_rel R (f x)) \<Longrightarrow>
     state_io_rel R (case e of None \<Rightarrow> m | Some x \<Rightarrow> f x)"
  by (cases e) auto

lemma rel_prod:
  "(\<And>x y. e = (x, y) \<Longrightarrow> state_io_rel R (f x y)) \<Longrightarrow> state_io_rel R (case e of (x, y) \<Rightarrow> f x y)"
  by (cases e) auto

lemma rel_bool:
  "state_io_rel R m \<Longrightarrow> state_io_rel R n \<Longrightarrow> state_io_rel R (case b of True \<Rightarrow> m | False \<Rightarrow> n)"
  by (cases b) auto

lemma rel_list:
  "state_io_rel R m \<Longrightarrow> (\<And>x xs. e = x # xs \<Longrightarrow> state_io_rel R (f x xs)) \<Longrightarrow>
     state_io_rel R (case e of [] \<Rightarrow> m | x # xs \<Rightarrow> f x xs)"
  by (cases e) auto

lemma rel_outcome:
  "(\<And>x. state_io_rel R (f x)) \<Longrightarrow> (\<And>x. state_io_rel R (g x)) \<Longrightarrow> state_io_rel R m \<Longrightarrow>
     state_io_rel R (case e of Ret x \<Rightarrow> f x | Exit x \<Rightarrow> g x | Undefined \<Rightarrow> m)"
  by (cases e) auto

lemmas rel_basic = rel_return rel_get rel_bind rel_if rel_let rel_option rel_prod rel_bool rel_list rel_outcome

end

section \<open>First match in a list\<close>

text \<open>
  A search through a list that stops at the first entry that is a hit: the lookups in
  the configuration's lists.
\<close>

locale first_match =
  fixes lookup :: "'e list \<Rightarrow> 'r option" and hit :: "'e \<Rightarrow> 'r option"
  assumes lookup_nil: "lookup [] = None"
    and lookup_cons: "lookup (e # es) = (case hit e of Some r \<Rightarrow> Some r | None \<Rightarrow> lookup es)"
begin

lemma lookup_append: "lookup (xs @ ys) = (case lookup xs of Some r \<Rightarrow> Some r | None \<Rightarrow> lookup ys)"
  by (induction xs) (simp_all add: lookup_nil lookup_cons split: option.splits)

lemma lookup_None: "lookup es = None \<longleftrightarrow> (\<forall>e \<in> set es. hit e = None)"
  by (induction es) (simp_all add: lookup_nil lookup_cons split: option.splits)

lemma lookup_Some:
  "lookup es = Some r \<longleftrightarrow>
     (\<exists>pre e post. es = pre @ e # post \<and> hit e = Some r \<and> (\<forall>x \<in> set pre. hit x = None))"
proof
  assume "lookup es = Some r"
  then show "\<exists>pre e post. es = pre @ e # post \<and> hit e = Some r \<and> (\<forall>x \<in> set pre. hit x = None)"
  proof (induction es)
    case Nil
    then show ?case by (simp add: lookup_nil)
  next
    case (Cons e es)
    show ?case
    proof (cases "hit e")
      case None
      then have "lookup es = Some r" using Cons.prems by (simp add: lookup_cons)
      from Cons.IH [OF this] obtain pre x post where
        "es = pre @ x # post" "hit x = Some r" "\<forall>y \<in> set pre. hit y = None" by blast
      then show ?thesis using None by (intro exI [of _ "e # pre"] exI [of _ x] exI [of _ post]) simp
    next
      case (Some q)
      then show ?thesis using Cons.prems
        by (intro exI [of _ "[]"] exI [of _ e] exI [of _ es]) (simp add: lookup_cons)
    qed
  qed
next
  assume "\<exists>pre e post. es = pre @ e # post \<and> hit e = Some r \<and> (\<forall>x \<in> set pre. hit x = None)"
  then obtain pre e post where "es = pre @ e # post" "hit e = Some r" "\<forall>x \<in> set pre. hit x = None"
    by blast
  moreover from this have "lookup pre = None" by (simp add: lookup_None)
  ultimately show "lookup es = Some r" by (simp add: lookup_append lookup_cons)
qed

lemma lookup_mem: "lookup es = Some r \<Longrightarrow> \<exists>e \<in> set es. hit e = Some r"
  by (auto simp: lookup_Some)

end

section \<open>Codecs\<close>

text \<open>
  An encoder whose output the decoder reads back, on the values a predicate allows.  Two
  allowed values with one encoding are then the same value.
\<close>

locale codec =
  fixes valid :: "'a \<Rightarrow> bool" and enc :: "'a \<Rightarrow> 'b" and dec :: "'b \<Rightarrow> 'a option"
  assumes dec_enc: "valid x \<Longrightarrow> dec (enc x) = Some x"
begin

lemma enc_inject: "valid x \<Longrightarrow> valid y \<Longrightarrow> enc x = enc y \<longleftrightarrow> x = y"
  by (metis dec_enc option.inject)

lemma enc_inj_on: "inj_on enc {x. valid x}"
  by (rule inj_onI) (simp add: enc_inject)

end

end
