(* ===== verification/Fbase64.thy ===== *)
theory Fbase64
  imports Prelude
begin

text \<open>
  The base-64 variant of \<open>common/fbase64.c\<close>: the four encoding and six decoding tables as the
  source lists them, the encoder \<open>fbase64_e\<close> and the decoder \<open>fbase64_d\<close>.  The alphabet
  ends in \<open>+\<close> and \<open>-\<close> (a \<open>/\<close> could not be part of a file name); the decoding tables also read
  \<open>/\<close> as 63.  The lemmas relate every pair of tables to the bits it carries, and give the size
  and the round trip.
\<close>

type_synonym byte = "8 word"

section \<open>Tables\<close>

definition etab_high6 :: string where
  "etab_high6 =
     ''AAAABBBBCCCCDDDDEEEEFFFFGGGGHHHHIIIIJJJJKKKKLLLLMMMMNNNNOOOOPPPP'' @
     ''QQQQRRRRSSSSTTTTUUUUVVVVWWWWXXXXYYYYZZZZaaaabbbbccccddddeeeeffff'' @
     ''gggghhhhiiiijjjjkkkkllllmmmmnnnnooooppppqqqqrrrrssssttttuuuuvvvv'' @
     ''wwwwxxxxyyyyzzzz0000111122223333444455556666777788889999++++----''"

definition etab_high24 :: string where
  "etab_high24 =
     ''AQgwAQgwAQgwAQgwBRhxBRhxBRhxBRhxCSiyCSiyCSiyCSiyDTjzDTjzDTjzDTjz'' @
     ''EUk0EUk0EUk0EUk0FVl1FVl1FVl1FVl1GWm2GWm2GWm2GWm2HXn3HXn3HXn3HXn3'' @
     ''IYo4IYo4IYo4IYo4JZp5JZp5JZp5JZp5Kaq6Kaq6Kaq6Kaq6Lbr7Lbr7Lbr7Lbr7'' @
     ''Mcs8Mcs8Mcs8Mcs8Ndt9Ndt9Ndt9Ndt9Oeu+Oeu+Oeu+Oeu+Pfv-Pfv-Pfv-Pfv-''"

definition etab_low42 :: string where
  "etab_low42 =
     ''AEIMQUYcgkosw048AEIMQUYcgkosw048AEIMQUYcgkosw048AEIMQUYcgkosw048'' @
     ''BFJNRVZdhlptx159BFJNRVZdhlptx159BFJNRVZdhlptx159BFJNRVZdhlptx159'' @
     ''CGKOSWaeimquy26+CGKOSWaeimquy26+CGKOSWaeimquy26+CGKOSWaeimquy26+'' @
     ''DHLPTXbfjnrvz37-DHLPTXbfjnrvz37-DHLPTXbfjnrvz37-DHLPTXbfjnrvz37-''"

definition etab_low6 :: string where
  "etab_low6 =
     ''ABCDEFGHIJKLMNOPQRSTUVWXYZabcdefghijklmnopqrstuvwxyz0123456789+-'' @
     ''ABCDEFGHIJKLMNOPQRSTUVWXYZabcdefghijklmnopqrstuvwxyz0123456789+-'' @
     ''ABCDEFGHIJKLMNOPQRSTUVWXYZabcdefghijklmnopqrstuvwxyz0123456789+-'' @
     ''ABCDEFGHIJKLMNOPQRSTUVWXYZabcdefghijklmnopqrstuvwxyz0123456789+-''"

definition dtab_high6 :: "byte list" where
  "dtab_high6 =
    [0, 0, 0, 0, 0, 0, 0, 0, 0, 0, 0, 0, 0, 0, 0, 0,
     0, 0, 0, 0, 0, 0, 0, 0, 0, 0, 0, 0, 0, 0, 0, 0,
     0, 0, 0, 0, 0, 0, 0, 0, 0, 0, 0, 248, 0, 252, 0, 252,
     208, 212, 216, 220, 224, 228, 232, 236, 240, 244, 0, 0, 0, 0, 0, 0,
     0, 0, 4, 8, 12, 16, 20, 24, 28, 32, 36, 40, 44, 48, 52, 56,
     60, 64, 68, 72, 76, 80, 84, 88, 92, 96, 100, 0, 0, 0, 0, 0,
     0, 104, 108, 112, 116, 120, 124, 128, 132, 136, 140, 144, 148, 152, 156, 160,
     164, 168, 172, 176, 180, 184, 188, 192, 196, 200, 204, 0, 0, 0, 0, 0,
     0, 0, 0, 0, 0, 0, 0, 0, 0, 0, 0, 0, 0, 0, 0, 0,
     0, 0, 0, 0, 0, 0, 0, 0, 0, 0, 0, 0, 0, 0, 0, 0,
     0, 0, 0, 0, 0, 0, 0, 0, 0, 0, 0, 0, 0, 0, 0, 0,
     0, 0, 0, 0, 0, 0, 0, 0, 0, 0, 0, 0, 0, 0, 0, 0,
     0, 0, 0, 0, 0, 0, 0, 0, 0, 0, 0, 0, 0, 0, 0, 0,
     0, 0, 0, 0, 0, 0, 0, 0, 0, 0, 0, 0, 0, 0, 0, 0,
     0, 0, 0, 0, 0, 0, 0, 0, 0, 0, 0, 0, 0, 0, 0, 0,
     0, 0, 0, 0, 0, 0, 0, 0, 0, 0, 0, 0, 0, 0, 0, 0]"

definition dtab_high2 :: "byte list" where
  "dtab_high2 =
    [0, 0, 0, 0, 0, 0, 0, 0, 0, 0, 0, 0, 0, 0, 0, 0,
     0, 0, 0, 0, 0, 0, 0, 0, 0, 0, 0, 0, 0, 0, 0, 0,
     0, 0, 0, 0, 0, 0, 0, 0, 0, 0, 0, 3, 0, 3, 0, 3,
     3, 3, 3, 3, 3, 3, 3, 3, 3, 3, 0, 0, 0, 0, 0, 0,
     0, 0, 0, 0, 0, 0, 0, 0, 0, 0, 0, 0, 0, 0, 0, 0,
     0, 1, 1, 1, 1, 1, 1, 1, 1, 1, 1, 0, 0, 0, 0, 0,
     0, 1, 1, 1, 1, 1, 1, 2, 2, 2, 2, 2, 2, 2, 2, 2,
     2, 2, 2, 2, 2, 2, 2, 3, 3, 3, 3, 0, 0, 0, 0, 0,
     0, 0, 0, 0, 0, 0, 0, 0, 0, 0, 0, 0, 0, 0, 0, 0,
     0, 0, 0, 0, 0, 0, 0, 0, 0, 0, 0, 0, 0, 0, 0, 0,
     0, 0, 0, 0, 0, 0, 0, 0, 0, 0, 0, 0, 0, 0, 0, 0,
     0, 0, 0, 0, 0, 0, 0, 0, 0, 0, 0, 0, 0, 0, 0, 0,
     0, 0, 0, 0, 0, 0, 0, 0, 0, 0, 0, 0, 0, 0, 0, 0,
     0, 0, 0, 0, 0, 0, 0, 0, 0, 0, 0, 0, 0, 0, 0, 0,
     0, 0, 0, 0, 0, 0, 0, 0, 0, 0, 0, 0, 0, 0, 0, 0,
     0, 0, 0, 0, 0, 0, 0, 0, 0, 0, 0, 0, 0, 0, 0, 0]"

definition dtab_high4 :: "byte list" where
  "dtab_high4 =
    [0, 0, 0, 0, 0, 0, 0, 0, 0, 0, 0, 0, 0, 0, 0, 0,
     0, 0, 0, 0, 0, 0, 0, 0, 0, 0, 0, 0, 0, 0, 0, 0,
     0, 0, 0, 0, 0, 0, 0, 0, 0, 0, 0, 224, 0, 240, 0, 240,
     64, 80, 96, 112, 128, 144, 160, 176, 192, 208, 0, 0, 0, 0, 0, 0,
     0, 0, 16, 32, 48, 64, 80, 96, 112, 128, 144, 160, 176, 192, 208, 224,
     240, 0, 16, 32, 48, 64, 80, 96, 112, 128, 144, 0, 0, 0, 0, 0,
     0, 160, 176, 192, 208, 224, 240, 0, 16, 32, 48, 64, 80, 96, 112, 128,
     144, 160, 176, 192, 208, 224, 240, 0, 16, 32, 48, 0, 0, 0, 0, 0,
     0, 0, 0, 0, 0, 0, 0, 0, 0, 0, 0, 0, 0, 0, 0, 0,
     0, 0, 0, 0, 0, 0, 0, 0, 0, 0, 0, 0, 0, 0, 0, 0,
     0, 0, 0, 0, 0, 0, 0, 0, 0, 0, 0, 0, 0, 0, 0, 0,
     0, 0, 0, 0, 0, 0, 0, 0, 0, 0, 0, 0, 0, 0, 0, 0,
     0, 0, 0, 0, 0, 0, 0, 0, 0, 0, 0, 0, 0, 0, 0, 0,
     0, 0, 0, 0, 0, 0, 0, 0, 0, 0, 0, 0, 0, 0, 0, 0,
     0, 0, 0, 0, 0, 0, 0, 0, 0, 0, 0, 0, 0, 0, 0, 0,
     0, 0, 0, 0, 0, 0, 0, 0, 0, 0, 0, 0, 0, 0, 0, 0]"

definition dtab_low4 :: "byte list" where
  "dtab_low4 =
    [0, 0, 0, 0, 0, 0, 0, 0, 0, 0, 0, 0, 0, 0, 0, 0,
     0, 0, 0, 0, 0, 0, 0, 0, 0, 0, 0, 0, 0, 0, 0, 0,
     0, 0, 0, 0, 0, 0, 0, 0, 0, 0, 0, 15, 0, 15, 0, 15,
     13, 13, 13, 13, 14, 14, 14, 14, 15, 15, 0, 0, 0, 0, 0, 0,
     0, 0, 0, 0, 0, 1, 1, 1, 1, 2, 2, 2, 2, 3, 3, 3,
     3, 4, 4, 4, 4, 5, 5, 5, 5, 6, 6, 0, 0, 0, 0, 0,
     0, 6, 6, 7, 7, 7, 7, 8, 8, 8, 8, 9, 9, 9, 9, 10,
     10, 10, 10, 11, 11, 11, 11, 12, 12, 12, 12, 0, 0, 0, 0, 0,
     0, 0, 0, 0, 0, 0, 0, 0, 0, 0, 0, 0, 0, 0, 0, 0,
     0, 0, 0, 0, 0, 0, 0, 0, 0, 0, 0, 0, 0, 0, 0, 0,
     0, 0, 0, 0, 0, 0, 0, 0, 0, 0, 0, 0, 0, 0, 0, 0,
     0, 0, 0, 0, 0, 0, 0, 0, 0, 0, 0, 0, 0, 0, 0, 0,
     0, 0, 0, 0, 0, 0, 0, 0, 0, 0, 0, 0, 0, 0, 0, 0,
     0, 0, 0, 0, 0, 0, 0, 0, 0, 0, 0, 0, 0, 0, 0, 0,
     0, 0, 0, 0, 0, 0, 0, 0, 0, 0, 0, 0, 0, 0, 0, 0,
     0, 0, 0, 0, 0, 0, 0, 0, 0, 0, 0, 0, 0, 0, 0, 0]"

definition dtab_low2 :: "byte list" where
  "dtab_low2 =
    [0, 0, 0, 0, 0, 0, 0, 0, 0, 0, 0, 0, 0, 0, 0, 0,
     0, 0, 0, 0, 0, 0, 0, 0, 0, 0, 0, 0, 0, 0, 0, 0,
     0, 0, 0, 0, 0, 0, 0, 0, 0, 0, 0, 128, 0, 192, 0, 192,
     0, 64, 128, 192, 0, 64, 128, 192, 0, 64, 0, 0, 0, 0, 0, 0,
     0, 0, 64, 128, 192, 0, 64, 128, 192, 0, 64, 128, 192, 0, 64, 128,
     192, 0, 64, 128, 192, 0, 64, 128, 192, 0, 64, 0, 0, 0, 0, 0,
     0, 128, 192, 0, 64, 128, 192, 0, 64, 128, 192, 0, 64, 128, 192, 0,
     64, 128, 192, 0, 64, 128, 192, 0, 64, 128, 192, 0, 0, 0, 0, 0,
     0, 0, 0, 0, 0, 0, 0, 0, 0, 0, 0, 0, 0, 0, 0, 0,
     0, 0, 0, 0, 0, 0, 0, 0, 0, 0, 0, 0, 0, 0, 0, 0,
     0, 0, 0, 0, 0, 0, 0, 0, 0, 0, 0, 0, 0, 0, 0, 0,
     0, 0, 0, 0, 0, 0, 0, 0, 0, 0, 0, 0, 0, 0, 0, 0,
     0, 0, 0, 0, 0, 0, 0, 0, 0, 0, 0, 0, 0, 0, 0, 0,
     0, 0, 0, 0, 0, 0, 0, 0, 0, 0, 0, 0, 0, 0, 0, 0,
     0, 0, 0, 0, 0, 0, 0, 0, 0, 0, 0, 0, 0, 0, 0, 0,
     0, 0, 0, 0, 0, 0, 0, 0, 0, 0, 0, 0, 0, 0, 0, 0]"

definition dtab_low6 :: "byte list" where
  "dtab_low6 =
    [0, 0, 0, 0, 0, 0, 0, 0, 0, 0, 0, 0, 0, 0, 0, 0,
     0, 0, 0, 0, 0, 0, 0, 0, 0, 0, 0, 0, 0, 0, 0, 0,
     0, 0, 0, 0, 0, 0, 0, 0, 0, 0, 0, 62, 0, 63, 0, 63,
     52, 53, 54, 55, 56, 57, 58, 59, 60, 61, 0, 0, 0, 0, 0, 0,
     0, 0, 1, 2, 3, 4, 5, 6, 7, 8, 9, 10, 11, 12, 13, 14,
     15, 16, 17, 18, 19, 20, 21, 22, 23, 24, 25, 0, 0, 0, 0, 0,
     0, 26, 27, 28, 29, 30, 31, 32, 33, 34, 35, 36, 37, 38, 39, 40,
     41, 42, 43, 44, 45, 46, 47, 48, 49, 50, 51, 0, 0, 0, 0, 0,
     0, 0, 0, 0, 0, 0, 0, 0, 0, 0, 0, 0, 0, 0, 0, 0,
     0, 0, 0, 0, 0, 0, 0, 0, 0, 0, 0, 0, 0, 0, 0, 0,
     0, 0, 0, 0, 0, 0, 0, 0, 0, 0, 0, 0, 0, 0, 0, 0,
     0, 0, 0, 0, 0, 0, 0, 0, 0, 0, 0, 0, 0, 0, 0, 0,
     0, 0, 0, 0, 0, 0, 0, 0, 0, 0, 0, 0, 0, 0, 0, 0,
     0, 0, 0, 0, 0, 0, 0, 0, 0, 0, 0, 0, 0, 0, 0, 0,
     0, 0, 0, 0, 0, 0, 0, 0, 0, 0, 0, 0, 0, 0, 0, 0,
     0, 0, 0, 0, 0, 0, 0, 0, 0, 0, 0, 0, 0, 0, 0, 0]"

section \<open>Encoding and decoding\<close>

text \<open>Space the macros of \<open>fbase64.h\<close> reserve, the NUL of the encoding included.\<close>

definition SZ_FBASE64_E :: "nat \<Rightarrow> nat" where
  "SZ_FBASE64_E x = (x + 2) div 3 * 4 + 1"

definition SZ_FBASE64_D :: "int \<Rightarrow> int" where
  "SZ_FBASE64_D x = (x * 3) div 4"

definition tab :: "'a list \<Rightarrow> byte \<Rightarrow> 'a" where
  "tab t b = t ! unat b"

text \<open>The characters written at \<open>e\<close>, the NUL included.\<close>

fun fbase64_e :: "byte list \<Rightarrow> string" where
  "fbase64_e (d0 # d1 # d2 # d) =
     tab etab_high6 d0 # tab etab_high24 ((d0 AND 0x03) OR (d1 AND 0xF0)) #
     tab etab_low42 ((d1 AND 0x0F) OR (d2 AND 0xC0)) # tab etab_low6 d2 # fbase64_e d"
| "fbase64_e [d0, d1] =
     [tab etab_high6 d0, tab etab_high24 ((d0 AND 0x03) OR (d1 AND 0xF0)),
      tab etab_low42 (d1 AND 0x0F), CHR ''='', NUL]"
| "fbase64_e [d0] = [tab etab_high6 d0, tab etab_high24 (d0 AND 0x03), CHR ''='', CHR ''='', NUL]"
| "fbase64_e [] = [NUL]"

text \<open>
  The decoder reads groups of four characters.  A character of code 128 or more is negative as
  a \<open>char\<close>, so the table would be read before its start: no result.  Nor is there one where
  \<open>elen\<close> runs past the characters there are.
\<close>

definition dtab :: "byte list \<Rightarrow> char \<Rightarrow> byte" where
  "dtab t c = t ! code_of c"

fun fbase64_d :: "string \<Rightarrow> nat \<Rightarrow> byte list option" where
  "fbase64_d e elen =
     (if elen < 4 then Some []
      else case e of
        e0 # e1 # e2 # e3 # r \<Rightarrow>
          if \<exists>c \<in> set [e0, e1, e2, e3]. 128 \<le> code_of c then None
          else map_option (\<lambda>d.
                 (dtab dtab_high6 e0 OR dtab dtab_high2 e1) #
                 (dtab dtab_high4 e1 OR dtab dtab_low4 e2) #
                 (dtab dtab_low2 e2 OR dtab dtab_low6 e3) # d) (fbase64_d r (elen - 4))
      | _ \<Rightarrow> None)"

declare fbase64_d.simps [simp del]

section \<open>What the tables compute\<close>

text \<open>The 64 characters; every encoding table indexes them by six of the bits it is given.\<close>

definition alphabet :: string where
  "alphabet = ''ABCDEFGHIJKLMNOPQRSTUVWXYZabcdefghijklmnopqrstuvwxyz0123456789+-''"

lemma length_alphabet: "length alphabet = 64"
  by (simp add: alphabet_def)

lemma nth_concat_rows:
  "\<forall>r \<in> set rs. length r = k \<Longrightarrow> n < k * length rs \<Longrightarrow> concat rs ! n = rs ! (n div k) ! (n mod k)"
proof (induction rs arbitrary: n)
  case Nil
  then show ?case by simp
next
  case (Cons r rs)
  show ?case
  proof (cases "n < k")
    case True
    then show ?thesis using Cons.prems by (simp add: nth_append)
  next
    case False
    have "0 < k" using Cons.prems by (cases k) simp_all
    then have "n div k = Suc ((n - k) div k)" "n mod k = (n - k) mod k"
      using False by (simp_all add: le_div_geq le_mod_geq not_less)
    then show ?thesis using False Cons by (simp add: nth_append)
  qed
qed

lemma etab_rows:
  "etab_high6 = concat (map (replicate 4) alphabet)"
  "etab_high24 = concat (map (\<lambda>h. concat (replicate 4 (map (\<lambda>l. alphabet ! (16 * l + h)) [0..<4]))) [0..<16])"
  "etab_low42 = concat (map (\<lambda>h. concat (replicate 4 (map (\<lambda>l. alphabet ! (4 * l + h)) [0..<16]))) [0..<4])"
  "etab_low6 = concat (replicate 4 alphabet)"
  by (simp_all add: etab_high6_def etab_high24_def etab_low42_def etab_low6_def alphabet_def
      upt_rec numeral_eq_Suc replicate_Suc)


lemma unat_byte [simp]: "unat (b :: byte) < 256"
  using unsigned_less [of b] by simp

lemma tab_high6: "tab etab_high6 b = alphabet ! (unat b div 4)"
proof -
  have "unat b < 4 * length (map (replicate 4) alphabet)"
    using unat_byte [of b] by (simp add: length_alphabet)
  from nth_concat_rows [OF _ this] show ?thesis
    unfolding tab_def etab_rows using unat_byte [of b] by (simp add: length_alphabet)
qed

lemma tab_high24: "tab etab_high24 b = alphabet ! (16 * (unat b mod 4) + unat b div 16)"
proof -
  have d: "unat b div 16 < 16" "unat b mod 16 < 16" by (simp_all add: less_mult_imp_div_less)
  have "etab_high24 ! unat b =
      concat (replicate 4 (map (\<lambda>l. alphabet ! (16 * l + unat b div 16)) [0..<4])) ! (unat b mod 16)"
    unfolding etab_rows
    by (subst nth_concat_rows [where k = 16]) (use d in \<open>auto simp: length_concat sum_list_replicate\<close>)
  also have "\<dots> = alphabet ! (16 * (unat b mod 4) + unat b div 16)"
    using d by (subst nth_concat_rows [where k = 4]) (auto simp: mod_mod_cancel)
  finally show ?thesis by (simp add: tab_def)
qed

lemma tab_low42: "tab etab_low42 b = alphabet ! (4 * (unat b mod 16) + unat b div 64)"
proof -
  have d: "unat b div 64 < 4" "unat b mod 64 < 64" by (simp_all add: less_mult_imp_div_less)
  have "etab_low42 ! unat b =
      concat (replicate 4 (map (\<lambda>l. alphabet ! (4 * l + unat b div 64)) [0..<16])) ! (unat b mod 64)"
    unfolding etab_rows
    by (subst nth_concat_rows [where k = 64]) (use d in \<open>auto simp: length_concat sum_list_replicate\<close>)
  also have "\<dots> = alphabet ! (4 * (unat b mod 16) + unat b div 64)"
    using d by (subst nth_concat_rows [where k = 16]) (auto simp: mod_mod_cancel)
  finally show ?thesis by (simp add: tab_def)
qed

lemma tab_low6: "tab etab_low6 b = alphabet ! (unat b mod 64)"
proof -
  have "unat b < 64 * length (replicate 4 alphabet)" using unat_byte [of b] by simp
  from nth_concat_rows [OF _ this] show ?thesis
    unfolding tab_def etab_rows using unat_byte [of b] by (simp add: length_alphabet)
qed

lemma dtab_alphabet_maps:
  "map (dtab dtab_high6) alphabet = map (\<lambda>i. word_of_nat (4 * i)) [0..<64]"
  "map (dtab dtab_high2) alphabet = map (\<lambda>i. word_of_nat (i div 16)) [0..<64]"
  "map (dtab dtab_high4) alphabet = map (\<lambda>i. word_of_nat (16 * (i mod 16))) [0..<64]"
  "map (dtab dtab_low4) alphabet = map (\<lambda>i. word_of_nat (i div 4)) [0..<64]"
  "map (dtab dtab_low2) alphabet = map (\<lambda>i. word_of_nat (64 * (i mod 4))) [0..<64]"
  "map (dtab dtab_low6) alphabet = map (\<lambda>i. word_of_nat i) [0..<64]"
  by (simp_all add: alphabet_def dtab_def code_of_def upt_rec
      dtab_high6_def dtab_high2_def dtab_high4_def dtab_low4_def dtab_low2_def dtab_low6_def)

lemma dtab_alphabet:
  assumes "i < 64"
  shows "dtab dtab_high6 (alphabet ! i) = word_of_nat (4 * i)"
    and "dtab dtab_high2 (alphabet ! i) = word_of_nat (i div 16)"
    and "dtab dtab_high4 (alphabet ! i) = word_of_nat (16 * (i mod 16))"
    and "dtab dtab_low4 (alphabet ! i) = word_of_nat (i div 4)"
    and "dtab dtab_low2 (alphabet ! i) = word_of_nat (64 * (i mod 4))"
    and "dtab dtab_low6 (alphabet ! i) = word_of_nat i"
  using assms dtab_alphabet_maps [THEN arg_cong [where f = "\<lambda>xs. xs ! i"]]
  by (simp_all add: length_alphabet)

lemma alphabet_ascii: "\<forall>c \<in> set alphabet. code_of c < 128 \<and> c \<noteq> NUL \<and> c \<noteq> CHR ''=''"
  by (simp add: alphabet_def code_of_def ctrl_defs)

section \<open>Size, characters and round trip\<close>

lemma index_bounds:
  fixes b :: byte
  shows "unat b div 4 < 64" "16 * (unat b mod 4) + unat b div 16 < 64"
    "4 * (unat b mod 16) + unat b div 64 < 64" "unat b mod 64 < 64"
proof -
  have "unat b div 4 < 64" "unat b div 16 < 16" "unat b div 64 < 4"
    by (simp_all add: less_mult_imp_div_less)
  moreover have "unat b mod 4 < 4" "unat b mod 16 < 16" "unat b mod 64 < 64" by simp_all
  ultimately show "unat b div 4 < 64" "16 * (unat b mod 4) + unat b div 16 < 64"
    "4 * (unat b mod 16) + unat b div 64 < 64" "unat b mod 64 < 64" by linarith+
qed

lemma etab_in_alphabet:
  "tab etab_high6 b \<in> set alphabet" "tab etab_high24 b \<in> set alphabet"
  "tab etab_low42 b \<in> set alphabet" "tab etab_low6 b \<in> set alphabet"
  unfolding tab_high6 tab_high24 tab_low42 tab_low6
  using index_bounds [of b] by (auto intro!: nth_mem simp: length_alphabet)

lemma mask_bits:
  fixes b :: byte
  shows "word_of_nat (4 * (unat b div 4)) = b AND 0xFC"
    "word_of_nat (unat b mod 4) = b AND 3"
    "word_of_nat (16 * (unat b div 16)) = b AND 0xF0"
    "word_of_nat (unat b mod 16) = b AND 0x0F"
    "word_of_nat (64 * (unat b div 64)) = b AND 0xC0"
    "word_of_nat (unat b mod 64) = b AND 0x3F"
proof -
  have push: "push_bit n (drop_bit n b) = b AND NOT (mask n)" for n
    by (rule bit_word_eqI) (auto simp: bit_simps)
  have dv: "word_of_nat (unat b div unat c) = b div c" for c
    by (metis of_nat_unat ucast_id unat_div)
  have md: "word_of_nat (unat b mod unat c) = b mod c" for c
    by (metis of_nat_unat ucast_id unat_mod)
  have neg: "(0xFC :: byte) = - 4" "(0xF0 :: byte) = - 16" "(0xC0 :: byte) = - 64" by simp_all
  have m: "b AND 3 = take_bit 2 b" "b AND 0x0F = take_bit 4 b" "b AND 0x3F = take_bit 6 b"
    "b AND 0xFC = push_bit 2 (drop_bit 2 b)" "b AND 0xF0 = push_bit 4 (drop_bit 4 b)"
    "b AND 0xC0 = push_bit 6 (drop_bit 6 b)"
    by (simp_all add: take_bit_eq_mask push mask_eq_exp_minus_1 neg)
  show  "word_of_nat (4 * (unat b div 4)) = b AND 0xFC"
    "word_of_nat (unat b mod 4) = b AND 3"
    "word_of_nat (16 * (unat b div 16)) = b AND 0xF0"
    "word_of_nat (unat b mod 16) = b AND 0x0F"
    "word_of_nat (64 * (unat b div 64)) = b AND 0xC0"
    "word_of_nat (unat b mod 64) = b AND 0x3F"
   unfolding m using dv [of 4] dv [of 16] dv [of 64] md [of 4] md [of 16] md [of 64]
    by (simp_all add: take_bit_eq_mod drop_bit_eq_div push_bit_eq_mult mult.commute)
qed
lemma dec_enc_bits:
  "dtab dtab_high6 (tab etab_high6 b) = b AND 0xFC"
  "dtab dtab_high2 (tab etab_high24 b) = b AND 0x03"
  "dtab dtab_high4 (tab etab_high24 b) = b AND 0xF0"
  "dtab dtab_low4 (tab etab_low42 b) = b AND 0x0F"
  "dtab dtab_low2 (tab etab_low42 b) = b AND 0xC0"
  "dtab dtab_low6 (tab etab_low6 b) = b AND 0x3F"
  using unat_byte [of b] index_bounds [of b]
  by (simp_all add: tab_high6 tab_high24 tab_low42 tab_low6 dtab_alphabet mask_bits [symmetric]
      less_mult_imp_div_less)

lemma pad: "\<not> 128 \<le> code_of CHR ''=''"
  by (simp add: code_of_def)

lemma dtab_pad:
  "dtab dtab_low4 CHR ''='' = 0" "dtab dtab_low2 CHR ''='' = 0" "dtab dtab_low6 CHR ''='' = 0"
  by (simp_all add: dtab_def code_of_def dtab_low4_def dtab_low2_def dtab_low6_def)

lemma length_fbase64_e: "length (fbase64_e d) = SZ_FBASE64_E (length d)"
proof (induction d rule: fbase64_e.induct)
  case (1 d0 d1 d2 d)
  have "(length d + 5) div 3 = Suc ((length d + 2) div 3)" by simp
  then show ?case using 1 by (simp add: SZ_FBASE64_E_def add.commute)
qed (simp_all add: SZ_FBASE64_E_def)

lemma etab_ascii [simp]:
  "\<not> 128 \<le> code_of (tab etab_high6 b)" "\<not> 128 \<le> code_of (tab etab_high24 b)"
  "\<not> 128 \<le> code_of (tab etab_low42 b)" "\<not> 128 \<le> code_of (tab etab_low6 b)"
  using etab_in_alphabet [of b] alphabet_ascii by (auto simp: not_le)

lemma fbase64_e_shape:
  "\<exists>s. fbase64_e d = s @ [NUL] \<and> set s \<subseteq> insert CHR ''='' (set alphabet)"
proof (induction d rule: fbase64_e.induct)
  case (1 d0 d1 d2 d)
  then obtain s where "fbase64_e d = s @ [NUL]" "set s \<subseteq> insert CHR ''='' (set alphabet)" by auto
  then show ?case
    by (intro exI [of _ "butlast (fbase64_e (d0 # d1 # d2 # d))"]) (auto simp: etab_in_alphabet)
qed (auto simp: etab_in_alphabet intro!: exI)

lemma lt8: "(n::nat) < 8 \<longleftrightarrow> n \<in> {0,1,2,3,4,5,6,7}" by auto
lemma mask_apart:
  fixes d :: byte
  shows "(d AND 0x0F) AND 0xC0 = 0" and "(d AND 0x03) AND 0xF0 = 0"
  by (rule bit_word_eqI; auto simp: lt8 bit_simps)+

lemma enc_group:
  fixes d0 d1 d2 :: byte
  shows "(d0 AND 0xFC) OR ((d0 AND 0x03) OR (d1 AND 0xF0)) AND 0x03 = d0"
    and "((d0 AND 0x03) OR (d1 AND 0xF0)) AND 0xF0 OR ((d1 AND 0x0F) OR (d2 AND 0xC0)) AND 0x0F = d1"
    and "((d1 AND 0x0F) OR (d2 AND 0xC0)) AND 0xC0 OR (d2 AND 0x3F) = d2"
  by (rule bit_word_eqI; auto simp: lt8 bit_simps)+

lemma fbase64_d_e:
  "fbase64_d (butlast (fbase64_e d)) (length (fbase64_e d) - 1) =
     Some (d @ replicate ((3 - length d mod 3) mod 3) 0)"
proof (induction d rule: fbase64_e.induct)
  case (1 d0 d1 d2 d)
  obtain s where s: "fbase64_e d = s @ [NUL]" using fbase64_e_shape by blast
  show ?case using 1 s
    by (subst fbase64_d.simps) (simp add: dec_enc_bits enc_group)
next
  case (2 d0 d1)
  show ?case
    using enc_group(1) [of d0 d1] enc_group(2) [of d0 d1 0] pad
    by (subst fbase64_d.simps) (simp add: dec_enc_bits dtab_pad fbase64_d.simps mask_apart)
next
  case (3 d0)
  show ?case
    using enc_group(1) [of d0 0] pad
    by (subst fbase64_d.simps)
      (simp add: dec_enc_bits dtab_pad fbase64_d.simps numeral_2_eq_2 mask_apart)
qed (simp add: fbase64_d.simps)

text \<open>
  C35.  \<open>fbase64_d\<close> gives back the bytes \<open>fbase64_e\<close> encoded, followed by one zero byte for each
  \<open>=\<close> of the padding; the encoding fills exactly the space \<open>SZ_FBASE64_E\<close> reserves, its NUL
  included, and the NUL is its only one.
\<close>

theorem fbase64_roundtrip:
  "fbase64_d (butlast (fbase64_e d)) (length (fbase64_e d) - 1) =
     Some (d @ replicate ((3 - length d mod 3) mod 3) 0) \<and>
   length (fbase64_e d) = SZ_FBASE64_E (length d) \<and>
   last (fbase64_e d) = NUL \<and> cstr (butlast (fbase64_e d))"
proof -
  obtain s where "fbase64_e d = s @ [NUL]" "set s \<subseteq> insert CHR ''='' (set alphabet)"
    using fbase64_e_shape by blast
  moreover have "NUL \<notin> insert CHR ''='' (set alphabet)"
    using alphabet_ascii by (auto simp: ctrl_defs)
  ultimately have "last (fbase64_e d) = NUL" "cstr (butlast (fbase64_e d))"
    unfolding cstr_def by auto
  then show ?thesis using fbase64_d_e [of d] length_fbase64_e [of d] by blast
qed

text \<open>Among byte strings of one length the encoding is injective.\<close>

interpretation b64: codec "\<lambda>d. length d = n" fbase64_e
  "\<lambda>e. map_option (take n) (fbase64_d (butlast e) (length e - 1))" for n
proof unfold_locales
  fix d :: "byte list"
  assume "length d = n"
  then show "map_option (take n) (fbase64_d (butlast (fbase64_e d)) (length (fbase64_e d) - 1)) = Some d"
    using fbase64_d_e [of d] by simp
qed

end
