(* ===== verification/Mkcookie.thy ===== *)
theory Mkcookie
  imports Fbase64
begin

text \<open>
  \<open>common/mkcookie.c\<close>: the characters a cookie may hold (\<open>validchars\<close>), a fresh cookie of a
  given buffer size (\<open>mkcookie\<close>), and the path of a cookie's file below the database directory
  (\<open>mkcookiepath\<close>).  The bytes \<open>RAND_bytes\<close> of the OpenSSL library will deliver are an
  argument, the entropy pool: a call takes its bytes from the front and fails when they run out.
\<close>

definition MAXCOOKIELEN :: nat where "MAXCOOKIELEN = 1024"

section \<open>Valid characters\<close>

definition valid_tab :: "nat list" where
  "valid_tab =
    [0, 0, 0, 0, 0, 0, 0, 0, 0, 0, 0, 0, 0, 0, 0, 0, 0, 0, 0, 0, 0, 0, 0, 0, 0, 0, 0, 0, 0, 0, 0, 0,
     0, 0, 0, 0, 0, 0, 0, 0, 0, 0, 0, 1, 0, 1, 1, 0, 1, 1, 1, 1, 1, 1, 1, 1, 1, 1, 0, 0, 0, 1, 0, 0,
     1, 1, 1, 1, 1, 1, 1, 1, 1, 1, 1, 1, 1, 1, 1, 1, 1, 1, 1, 1, 1, 1, 1, 1, 1, 1, 1, 0, 0, 0, 0, 1,
     0, 1, 1, 1, 1, 1, 1, 1, 1, 1, 1, 1, 1, 1, 1, 1, 1, 1, 1, 1, 1, 1, 1, 1, 1, 1, 1, 0, 0, 0, 0, 0,
     0, 0, 0, 0, 0, 0, 0, 0, 0, 0, 0, 0, 0, 0, 0, 0, 0, 0, 0, 0, 0, 0, 0, 0, 0, 0, 0, 0, 0, 0, 0, 0,
     0, 0, 0, 0, 0, 0, 0, 0, 0, 0, 0, 0, 0, 0, 0, 0, 0, 0, 0, 0, 0, 0, 0, 0, 0, 0, 0, 0, 0, 0, 0, 0,
     0, 0, 0, 0, 0, 0, 0, 0, 0, 0, 0, 0, 0, 0, 0, 0, 0, 0, 0, 0, 0, 0, 0, 0, 0, 0, 0, 0, 0, 0, 0, 0,
     0, 0, 0, 0, 0, 0, 0, 0, 0, 0, 0, 0, 0, 0, 0, 0, 0, 0, 0, 0, 0, 0, 0, 0, 0, 0, 0, 0, 0, 0, 0, 0]"

definition validchars :: "string \<Rightarrow> bool" where
  "validchars s \<longleftrightarrow> (\<forall>c \<in> set s. valid_tab ! code_of c \<noteq> 0)"

lemma validchars_simps [simp]:
  "validchars []" "validchars (a @ b) \<longleftrightarrow> validchars a \<and> validchars b"
  by (auto simp: validchars_def)

lemma valid_alphabet: "\<forall>c \<in> set alphabet. valid_tab ! code_of c \<noteq> 0"
  by (simp add: alphabet_def code_of_def valid_tab_def)

lemma valid_equals: "valid_tab ! code_of CHR ''='' \<noteq> 0"
  by (simp add: code_of_def valid_tab_def)

lemma valid_slash: "valid_tab ! code_of CHR ''/'' = 0"
  by (simp add: code_of_def valid_tab_def)

lemma valid_nul: "valid_tab ! code_of NUL = 0"
  by (simp add: code_of_def valid_tab_def ctrl_defs)

lemma validchars_no_slash: "validchars s \<Longrightarrow> CHR ''/'' \<notin> set s"
  using valid_slash by (auto simp: validchars_def)

lemma validchars_cstr: "validchars s \<Longrightarrow> cstr s"
  using valid_nul by (auto simp: validchars_def cstr_def)

section \<open>Fresh cookies\<close>

definition RAND_bytes :: "byte list \<Rightarrow> nat \<Rightarrow> byte list option \<times> byte list" where
  "RAND_bytes pool n = (if n \<le> length pool then (Some (take n pool), drop n pool) else (None, pool))"

text \<open>Return code, the characters written to \<open>buf\<close> (NUL included), and the pool left.\<close>

definition mkcookie :: "int \<Rightarrow> byte list \<Rightarrow> int \<times> string option \<times> byte list" where
  "mkcookie len pool =
     (let len = len - 3;
          randbytes = SZ_FBASE64_D len
      in if randbytes \<le> 0 \<or> 1024 < randbytes then (-1, None, pool)
         else case RAND_bytes pool (nat randbytes) of
           (None, pool') \<Rightarrow> (-2, None, pool')
         | (Some tmp, pool') \<Rightarrow> (0, Some (fbase64_e tmp), pool'))"

lemma mkcookie_ok_iff:
  "mkcookie len pool = (0, Some b, pool') \<longleftrightarrow>
     (let n = SZ_FBASE64_D (len - 3)
      in 0 < n \<and> n \<le> 1024 \<and> n \<le> int (length pool) \<and> b = fbase64_e (take (nat n) pool) \<and>
         pool' = drop (nat n) pool)"
  by (auto simp: mkcookie_def RAND_bytes_def Let_def split: if_splits)

lemma mkcookie_result:
  "mkcookie len pool = (rc, r, pool') \<Longrightarrow> (rc = 0) = (r \<noteq> None) \<and> (rc \<noteq> 0 \<longrightarrow> pool' = pool)"
  by (auto simp: mkcookie_def RAND_bytes_def Let_def split: if_splits)

lemma mkcookie_fits_aux:
  assumes "0 < SZ_FBASE64_D (len - 3)"
  shows "int (SZ_FBASE64_E (nat (SZ_FBASE64_D (len - 3)))) \<le> len"
proof -
  obtain k where k: "SZ_FBASE64_D (len - 3) = int k" using assms by (metis zero_less_imp_eq_int)
  then have "int ((k + 2) div 3 * 4 + 1) = (int k + 2) div 3 * 4 + 1" by (simp add: zdiv_int)
  also have "\<dots> \<le> len" using k unfolding SZ_FBASE64_D_def by presburger
  finally show ?thesis by (simp add: k SZ_FBASE64_E_def)
qed

text \<open>
  \<open>mkcookie\<close> never writes past the buffer it is told about, NUL included; what it writes
  are characters \<open>validchars\<close> accepts.  (The three bytes the code gives away with
  the comment \<open>XXX why?\<close> are what this takes: two would be too few.)
\<close>

lemma mkcookie_fits:
  assumes "mkcookie len pool = (0, Some b, pool')"
  shows "int (length b) \<le> len \<and> b \<noteq> [] \<and> last b = NUL \<and> validchars (butlast b)"
proof -
  let ?d = "take (nat (SZ_FBASE64_D (len - 3))) pool"
  have b: "b = fbase64_e ?d" "0 < SZ_FBASE64_D (len - 3)" "SZ_FBASE64_D (len - 3) \<le> int (length pool)"
    using assms by (simp_all add: mkcookie_ok_iff Let_def)
  obtain s where s: "fbase64_e ?d = s @ [NUL]" "set s \<subseteq> insert CHR ''='' (set alphabet)"
    using fbase64_e_shape by blast
  have "length ?d = nat (SZ_FBASE64_D (len - 3))" using b by simp
  then have "int (length b) \<le> len"
    using mkcookie_fits_aux [OF b(2)] length_fbase64_e [of ?d] b(1) by simp
  then show ?thesis
    using s b valid_alphabet valid_equals by (auto simp: validchars_def)
qed

lemma mkcookie_fits_witness:
  "int (length ''AAAA'' + 1) \<le> 7 \<and> ''AAAA'' @ [NUL] \<noteq> [] \<and>
   last (''AAAA'' @ [NUL]) = NUL \<and> validchars (butlast (''AAAA'' @ [NUL]))"
proof -
  have "mkcookie 7 [0, 0, 0] = (0, Some (''AAAA'' @ [NUL]), [])"
    by (simp add: mkcookie_ok_iff SZ_FBASE64_D_def tab_def etab_high6_def etab_high24_def
        etab_low42_def etab_low6_def numeral_3_eq_3)
  from mkcookie_fits [OF this] show ?thesis by simp
qed

text \<open>
  Two cookies of one size are equal only if the random bytes they were made from are: no
  entropy is lost in the encoding.
\<close>

lemma mkcookie_inject:
  assumes "mkcookie len p = (0, Some b, p')" and "mkcookie len q = (0, Some b, q')"
  shows "take (nat (SZ_FBASE64_D (len - 3))) p = take (nat (SZ_FBASE64_D (len - 3))) q"
proof -
  let ?n = "nat (SZ_FBASE64_D (len - 3))"
  have "length (take ?n p) = ?n" "length (take ?n q) = ?n"
    and "fbase64_e (take ?n p) = fbase64_e (take ?n q)"
    using assms by (auto simp: mkcookie_ok_iff Let_def)
  then show ?thesis using b64.enc_inject by blast
qed

lemma mkcookie_inject_witness:
  "take (nat (SZ_FBASE64_D 4)) [0, 0, 0 :: byte] = take (nat (SZ_FBASE64_D 4)) [0, 0, 0, 7]"
proof -
  have "mkcookie 7 [0, 0, 0] = (0, Some (''AAAA'' @ [NUL]), [])"
    "mkcookie 7 [0, 0, 0, 7] = (0, Some (''AAAA'' @ [NUL]), [7])"
    by (simp_all add: mkcookie_ok_iff SZ_FBASE64_D_def tab_def etab_high6_def etab_high24_def
        etab_low42_def etab_low6_def numeral_3_eq_3)
  from mkcookie_inject [OF this] show ?thesis by simp
qed

section \<open>The path of a cookie\<close>

text \<open>
  \<open>p\<close> is the text from the first \<open>=\<close> on.  The result is the text in \<open>buf\<close>, or nothing where the
  code returns -1.
\<close>

definition mkcookiepath :: "string option \<Rightarrow> int \<Rightarrow> string \<Rightarrow> nat \<Rightarrow> string option" where
  "mkcookiepath prefix hashlen cookie len =
     (if strchr cookie CHR ''/'' \<noteq> None then None
      else if MAXCOOKIELEN \<le> length cookie then None
      else case strchr cookie CHR ''='' of
        None \<Rightarrow> None
      | Some prefixlen \<Rightarrow>
          let p = drop prefixlen cookie
          in if length cookie - prefixlen \<le> 2 then None
             else if hashlen = 0 then
               (case prefix of None \<Rightarrow> snprintf len cookie
                | Some d \<Rightarrow> snprintf len (d @ ''/'' @ cookie))
             else if hashlen = 1 then
               (case prefix of None \<Rightarrow> snprintf len ([p ! 1] @ ''/'' @ cookie)
                | Some d \<Rightarrow> snprintf len (d @ ''/'' @ [p ! 1] @ ''/'' @ cookie))
             else if hashlen = 2 then
               (case prefix of None \<Rightarrow> snprintf len ([p ! 1, p ! 2] @ ''/'' @ cookie)
                | Some d \<Rightarrow> snprintf len (d @ ''/'' @ [p ! 1, p ! 2] @ ''/'' @ cookie))
             else None)"

text \<open>What a cookie must look like to name a file.\<close>

definition cookie_ok :: "string \<Rightarrow> bool" where
  "cookie_ok c \<longleftrightarrow> CHR ''/'' \<notin> set c \<and> length c < MAXCOOKIELEN \<and>
     (\<exists>n v. c = n @ CHR ''='' # v \<and> CHR ''='' \<notin> set n \<and> 2 \<le> length v)"

definition cookie_dir :: "string option \<Rightarrow> int \<Rightarrow> string \<Rightarrow> string" where
  "cookie_dir prefix hashlen cookie =
     (case prefix of None \<Rightarrow> '''' | Some d \<Rightarrow> d @ ''/'') @
     (if hashlen = 0 then ''''
      else take (nat hashlen) (tl (dropWhile (\<lambda>c. c \<noteq> CHR ''='') cookie)) @ ''/'')"

lemma cookie_ok_strchr:
  "cookie_ok c \<longleftrightarrow> CHR ''/'' \<notin> set c \<and> length c < MAXCOOKIELEN \<and>
     (\<exists>i. strchr c CHR ''='' = Some i \<and> 2 < length c - i)"
proof
  assume "cookie_ok c"
  then show "CHR ''/'' \<notin> set c \<and> length c < MAXCOOKIELEN \<and>
     (\<exists>i. strchr c CHR ''='' = Some i \<and> 2 < length c - i)"
    by (auto simp: cookie_ok_def)
next
  assume *: "CHR ''/'' \<notin> set c \<and> length c < MAXCOOKIELEN \<and>
     (\<exists>i. strchr c CHR ''='' = Some i \<and> 2 < length c - i)"
  then obtain i where i: "strchr c CHR ''='' = Some i" "2 < length c - i" by blast
  have "c = take i c @ CHR ''='' # drop (Suc i) c" "CHR ''='' \<notin> set (take i c)"
    using strchr_split [OF i(1)] strchr_SomeD [OF i(1)] by simp_all
  moreover have "2 \<le> length (drop (Suc i) c)" using i(2) by simp
  ultimately show "cookie_ok c" unfolding cookie_ok_def using * by blast
qed

lemma dropWhile_upto: "a \<notin> set n \<Longrightarrow> dropWhile (\<lambda>x. x \<noteq> a) (n @ a # v) = a # v"
  by (induction n) auto

lemma mkcookiepath_iff:
  "mkcookiepath prefix h c len = Some b \<longleftrightarrow>
     h \<in> {0, 1, 2} \<and> cookie_ok c \<and> b = cookie_dir prefix h c @ c \<and> length b < len"
proof (cases "cookie_ok c")
  case False
  then show ?thesis
    unfolding mkcookiepath_def cookie_ok_strchr by (auto split: option.splits simp: Let_def)
next
  case True
  then obtain n v where c: "c = n @ CHR ''='' # v" "CHR ''='' \<notin> set n" "2 \<le> length v"
    unfolding cookie_ok_def by blast
  then obtain x y w where v: "v = x # y # w" by (cases v; cases "tl v") auto
  have slash: "CHR ''/'' \<notin> set c" and len: "length c < MAXCOOKIELEN"
    using True by (simp_all add: cookie_ok_def)
  have p: "strchr c CHR ''='' = Some (length n)" "drop (length n) c = CHR ''='' # v"
    "length c - length n = length v + 1" "dropWhile (\<lambda>a. a \<noteq> CHR ''='') c = CHR ''='' # v"
    using c by (simp_all add: dropWhile_upto)
  show ?thesis
    using True slash len unfolding mkcookiepath_def cookie_dir_def
    by (auto simp: p v Let_def split: option.splits)
qed

text \<open>
  \<open>mkcookiepath\<close> answers exactly for a cookie without \<open>/\<close>, shorter than \<open>MAXCOOKIELEN\<close>, with
  at least two characters after its first \<open>=\<close>, hash length 0, 1 or 2 and a path that fits the
  buffer; the path is the directory, the hash directory and the cookie.
\<close>

lemma mkcookiepath_spec:
  "mkcookiepath prefix h c len =
     (if h \<in> {0, 1, 2} \<and> cookie_ok c \<and> length (cookie_dir prefix h c @ c) < len
      then Some (cookie_dir prefix h c @ c) else None)"
proof (cases "mkcookiepath prefix h c len")
  case None
  then show ?thesis using mkcookiepath_iff [of prefix h c len] by (metis option.distinct(1))
next
  case (Some b)
  then show ?thesis using mkcookiepath_iff [of prefix h c len b] by metis
qed

lemma last_component:
  assumes "CHR ''/'' \<notin> set c" and "CHR ''/'' \<notin> set c'"
    and "d @ ''/'' @ c = d' @ ''/'' @ c'"
  shows "c = c'"
proof -
  have "takeWhile (\<lambda>x. x \<noteq> CHR ''/'') (rev (d @ ''/'' @ c)) = rev c"
    if "CHR ''/'' \<notin> set c" for d c :: string
    using that by (simp add: takeWhile_append)
  then show ?thesis using assms by (metis rev_rev_ident)
qed

lemma cookie_dir_slash:
  "prefix \<noteq> None \<or> h \<noteq> 0 \<Longrightarrow> \<exists>d. cookie_dir prefix h c = d @ ''/''"
  by (auto simp: cookie_dir_def)

lemma mkcookiepath_inject_aux:
  assumes "mkcookiepath prefix h c len = Some b" and "mkcookiepath prefix h c' len' = Some b"
  shows "c = c'"
proof (cases "prefix = None \<and> h = 0")
  case True
  then show ?thesis using assms by (simp add: mkcookiepath_iff cookie_dir_def)
next
  case False
  obtain d d' where "b = d @ ''/'' @ c" "b = d' @ ''/'' @ c'"
    using False assms cookie_dir_slash unfolding mkcookiepath_iff by (metis append_assoc)
  moreover have "CHR ''/'' \<notin> set c" "CHR ''/'' \<notin> set c'"
    using assms by (auto simp: mkcookiepath_iff cookie_ok_def)
  ultimately show ?thesis using last_component by metis
qed

text \<open>
  The file a path leads to, where no directory is a symbolic link: the names on the way from the root, the last one first.  A
  relative path starts from the working directory, empty names and \<open>.\<close> stay, and \<open>..\<close> goes up.
\<close>

fun path_parts :: "string \<Rightarrow> string list" where
  "path_parts [] = [[]]"
| "path_parts (c # s) = (if c = CHR ''/'' then [] # path_parts s else (c # hd (path_parts s)) # tl (path_parts s))"

fun dir_walk :: "string list \<Rightarrow> string list \<Rightarrow> string list" where
  "dir_walk d [] = d"
| "dir_walk d (n # ns) = dir_walk (if n = [] \<or> n = ''.'' then d else if n = ''..'' then tl d else n # d) ns"

definition file_of_path :: "string list \<Rightarrow> string \<Rightarrow> string list" where
  "file_of_path cwd p = dir_walk (if take 1 p = ''/'' then [] else cwd) (path_parts p)"

lemma path_parts_Cons: "path_parts d \<noteq> []"
  by (induction d) auto

lemma path_parts_last: "CHR ''/'' \<notin> set c \<Longrightarrow> path_parts (d @ ''/'' @ c) = path_parts d @ [c]"
proof (induction d)
  case Nil
  then have "path_parts c = [c]" by (induction c) auto
  then show ?case by simp
next
  case (Cons a d)
  then show ?case using path_parts_Cons [of d] by auto
qed

lemma path_parts_name: "CHR ''/'' \<notin> set c \<Longrightarrow> path_parts c = [c]"
  by (induction c) auto

lemma dir_walk_append: "dir_walk d (ms @ ns) = dir_walk (dir_walk d ms) ns"
  by (induction ms arbitrary: d) auto

text \<open>A cookie is never \<open>.\<close> or \<open>..\<close>, and is the last name on the way.\<close>

lemma cookie_file:
  assumes "mkcookiepath prefix h c len = Some b"
  shows "\<exists>d. file_of_path cwd b = c # d"
proof -
  have c: "cookie_ok c" and b: "b = cookie_dir prefix h c @ c" using assms by (auto simp: mkcookiepath_iff)
  then have n: "CHR ''/'' \<notin> set c" "c \<noteq> []" "c \<noteq> ''.''" "c \<noteq> ''..''" by (auto simp: cookie_ok_def Cons_eq_append_conv append_eq_Cons_conv)
  have "\<exists>ns. path_parts b = ns @ [c]"
  proof (cases "prefix = None \<and> h = 0")
    case True
    then show ?thesis using b n(1) by (auto simp: cookie_dir_def path_parts_name)
  next
    case False
    then obtain d where "cookie_dir prefix h c = d @ ''/''" using cookie_dir_slash by blast
    then show ?thesis using b path_parts_last [OF n(1), of d] by simp
  qed
  then show ?thesis using n by (auto simp: file_of_path_def dir_walk_append)
qed

text \<open>
  C30.  Two cookies never share a file, whatever prefixes, hash lengths and working directories their paths are made with and
  however many \<open>.\<close>, \<open>..\<close> and empty names are on the way: paths that lead to the same file are those of the same cookie.
\<close>

theorem mkcookiepath_inject:
  assumes "mkcookiepath prefix h c len = Some b" and "mkcookiepath prefix' h' c' len' = Some b'"
    and "file_of_path cwd b = file_of_path cwd' b'"
  shows "c = c'"
  using cookie_file [OF assms(1), of cwd] cookie_file [OF assms(2), of cwd'] assms(3) by auto

text \<open>Two paths to one file, and two cookies in one directory.\<close>

lemma mkcookiepath_inject_witness:
  "mkcookiepath None 2 ''cosign=..x'' 100 = Some ''../cosign=..x'' \<and>
   mkcookiepath (Some ''/'') 0 ''cosign=..x'' 100 = Some ''//cosign=..x'' \<and>
   file_of_path [''db''] ''../cosign=..x'' = file_of_path [] ''//cosign=..x'' \<and> ''cosign=..x'' = ''cosign=..x'' \<and>
   file_of_path [''db''] ''a/cosign=ab'' \<noteq> file_of_path [''db''] ''a/cosign-x=ab''"
proof -
  have p: "mkcookiepath None 2 ''cosign=..x'' 100 = Some ''../cosign=..x''"
    "mkcookiepath (Some ''/'') 0 ''cosign=..x'' 100 = Some ''//cosign=..x''"
    "mkcookiepath None 1 ''cosign=ab'' 100 = Some ''a/cosign=ab''"
    "mkcookiepath None 1 ''cosign-x=ab'' 100 = Some ''a/cosign-x=ab''"
    by (simp_all add: mkcookiepath_def MAXCOOKIELEN_def)
  have f: "file_of_path [''db''] ''../cosign=..x'' = file_of_path [] ''//cosign=..x''"
    by (simp add: file_of_path_def)
  have "''cosign=..x'' = ''cosign=..x''" by (rule mkcookiepath_inject [OF p(1,2) f])
  moreover have "file_of_path [''db''] ''a/cosign=ab'' \<noteq> file_of_path [''db''] ''a/cosign-x=ab''"
    using mkcookiepath_inject [OF p(3,4)] by auto
  ultimately show ?thesis using p(1,2) f by blast
qed

text \<open>
  The hash directory of two characters is taken from the cookie unchecked: \<open>validchars\<close> lets dots
  through, and a value that starts with two of them leads out of the database directory.
\<close>

lemma mkcookiepath_dotdot:
  "validchars ''cosign=..x'' \<and>
   mkcookiepath (Some ''/var/cosign'') 2 ''cosign=..x'' 4096 = Some ''/var/cosign/../cosign=..x''"
  by (simp add: validchars_def valid_tab_def code_of_def mkcookiepath_def MAXCOOKIELEN_def)

end
