(* ===== verification/Os.thy ===== *)
theory Os
  imports Rate Mkcookie
begin

text \<open>
  The system calls the daemon and the filters make.  The state holds the files by path (relative
  to the database directory, the process's working directory), the clock, which stands still
  while one command is handled, the process id, the entropy OpenSSL will hand out, and a schedule of
  failures: every call that can fail takes the next entry and fails where it is true; calls
  past the end of the schedule succeed.  A hard link is a copy of the entry: the sources link
  a temporary file to its name and remove the temporary one at once.
\<close>

record inode =
  f_data :: string
  f_mode :: "16 word"
  f_mtime :: int

record os =
  os_fs :: "string \<Rightarrow> inode option"
  os_now :: timeval
  os_pid :: int
  os_faults :: "bool list"
  os_pool :: "byte list"

datatype 'a sys = Ok 'a | Err errno

fun failed :: "'a sys \<Rightarrow> bool" where
  "failed (Ok _) = False"
| "failed (Err _) = True"

definition S_ISGID :: "16 word" where "S_ISGID = 0x400"
definition S_IRUSR :: "16 word" where "S_IRUSR = 0x100"
definition mode_0644 :: "16 word" where "mode_0644 = 0x1A4"

definition MAXPATHLEN :: nat where "MAXPATHLEN = 4096"

section \<open>Calls\<close>

abbreviation ret :: "'a \<Rightarrow> ('s, 'a) state" where
  "ret \<equiv> State_Monad.return"

definition fault :: "('a os_scheme, bool) state" where
  "fault = State (\<lambda>w. case os_faults w of [] \<Rightarrow> (False, w) | b # bs \<Rightarrow> (b, w\<lparr>os_faults := bs\<rparr>))"

definition get_fs :: "string \<Rightarrow> ('a os_scheme, inode option) state" where
  "get_fs path = State (\<lambda>w. (os_fs w path, w))"

definition put_fs :: "string \<Rightarrow> inode option \<Rightarrow> ('a os_scheme, unit) state" where
  "put_fs path f = State (\<lambda>w. ((), w\<lparr>os_fs := (os_fs w)(path := f)\<rparr>))"

definition now :: "('a os_scheme, timeval) state" where
  "now = State (\<lambda>w. (os_now w, w))"

definition getpid :: "('a os_scheme, int) state" where
  "getpid = State (\<lambda>w. (os_pid w, w))"

definition gettimeofday :: "('a os_scheme, timeval option) state" where
  "gettimeofday = do { b \<leftarrow> fault; t \<leftarrow> now; ret (if b then None else Some t) }"

text \<open>A call on an existing file; \<open>f\<close> computes its answer and the file's new entry.\<close>

definition on_file :: "string \<Rightarrow> (inode \<Rightarrow> 'b \<times> inode option) \<Rightarrow> ('a os_scheme, 'b sys) state" where
  "on_file path f = do {
     b \<leftarrow> fault;
     e \<leftarrow> get_fs path;
     if b then ret (Err EOTHER)
     else case e of
       None \<Rightarrow> ret (Err ENOENT)
     | Some x \<Rightarrow> do { put_fs path (snd (f x)); ret (Ok (fst (f x))) } }"

definition os_open :: "string \<Rightarrow> ('a os_scheme, inode sys) state" where
  "os_open path = on_file path (\<lambda>f. (f, Some f))"

definition os_stat :: "string \<Rightarrow> ('a os_scheme, inode sys) state" where
  "os_stat path = on_file path (\<lambda>f. (f, Some f))"

definition os_unlink :: "string \<Rightarrow> ('a os_scheme, unit sys) state" where
  "os_unlink path = on_file path (\<lambda>f. ((), None))"

definition os_chmod :: "string \<Rightarrow> 16 word \<Rightarrow> ('a os_scheme, unit sys) state" where
  "os_chmod path mode = on_file path (\<lambda>f. ((), Some (f\<lparr>f_mode := mode\<rparr>)))"

text \<open>\<open>utime\<close> with a time, and with NULL.\<close>

definition os_utime_to :: "string \<Rightarrow> int \<Rightarrow> ('a os_scheme, unit sys) state" where
  "os_utime_to path t = on_file path (\<lambda>f. ((), Some (f\<lparr>f_mtime := t\<rparr>)))"

definition os_utime :: "string \<Rightarrow> ('a os_scheme, unit sys) state" where
  "os_utime path = do { t \<leftarrow> now; os_utime_to path (tv_sec t) }"

text \<open>\<open>open(path, O_CREAT|O_EXCL|O_WRONLY, 0644)\<close>\<close>

definition os_create :: "string \<Rightarrow> ('a os_scheme, unit sys) state" where
  "os_create path = do {
     b \<leftarrow> fault;
     e \<leftarrow> get_fs path;
     t \<leftarrow> now;
     if b then ret (Err EOTHER)
     else if e \<noteq> None then ret (Err EEXIST)
     else do { put_fs path (Some \<lparr>f_data = [], f_mode = mode_0644, f_mtime = tv_sec t\<rparr>); ret (Ok ()) } }"

text \<open>The buffered text reaches the file when the stream is closed (even where that then fails).\<close>

definition os_fclose_write :: "string \<Rightarrow> string \<Rightarrow> ('a os_scheme, unit sys) state" where
  "os_fclose_write path text = do {
     b \<leftarrow> fault;
     e \<leftarrow> get_fs path;
     t \<leftarrow> now;
     case e of
       None \<Rightarrow> ret (if b then Err EOTHER else Ok ())
     | Some f \<Rightarrow> do {
         put_fs path (Some (f\<lparr>f_data := text, f_mtime := tv_sec t\<rparr>));
         ret (if b then Err EOTHER else Ok ()) } }"

definition os_rename :: "string \<Rightarrow> string \<Rightarrow> ('a os_scheme, unit sys) state" where
  "os_rename a b = do {
     x \<leftarrow> fault;
     e \<leftarrow> get_fs a;
     if x then ret (Err EOTHER)
     else case e of
       None \<Rightarrow> ret (Err ENOENT)
     | Some f \<Rightarrow> do { put_fs a None; put_fs b (Some f); ret (Ok ()) } }"

definition os_link :: "string \<Rightarrow> string \<Rightarrow> ('a os_scheme, unit sys) state" where
  "os_link a b = do {
     x \<leftarrow> fault;
     e \<leftarrow> get_fs a;
     e' \<leftarrow> get_fs b;
     if x then ret (Err EOTHER)
     else case e of
       None \<Rightarrow> ret (Err ENOENT)
     | Some f \<Rightarrow> if e' \<noteq> None then ret (Err EEXIST) else do { put_fs b (Some f); ret (Ok ()) } }"

text \<open>\<open>fclose\<close> of a stream that was read.\<close>

definition os_fclose :: "('a os_scheme, unit sys) state" where
  "os_fclose = do { b \<leftarrow> fault; ret (if b then Err EOTHER else Ok ()) }"

text \<open>\<open>mkcookie(len, buf)\<close>: return code and the string in \<open>buf\<close>.\<close>

definition os_mkcookie :: "int \<Rightarrow> ('a os_scheme, int \<times> string) state" where
  "os_mkcookie len = State (\<lambda>w.
     case mkcookie len (os_pool w) of
       (rc, buf, pool) \<Rightarrow>
         ((rc, case buf of None \<Rightarrow> [] | Some s \<Rightarrow> butlast s), w\<lparr>os_pool := pool\<rparr>))"

section \<open>Reading lines\<close>

text \<open>\<open>fgets\<close> with room for \<open>k\<close> characters and the NUL: the text read and the rest of the stream.\<close>

fun fgets_line :: "nat \<Rightarrow> string \<Rightarrow> string \<times> string" where
  "fgets_line 0 s = ([], s)"
| "fgets_line (Suc k) [] = ([], [])"
| "fgets_line (Suc k) (c # s) =
     (if c = LF then ([LF], s) else let (l, r) = fgets_line k s in (c # l, r))"

definition fgets :: "nat \<Rightarrow> string \<Rightarrow> ('a os_scheme, (string \<times> string) option) state" where
  "fgets n s = do {
     b \<leftarrow> fault;
     ret (if b \<or> s = [] then None else Some (fgets_line (n - 1) s)) }"

text \<open>
  \<open>len = strlen(buf); buf[len - 1]\<close>: the line without its newline, nothing where it has none, no meaning
  where the text starts with a NUL.
\<close>

definition chop_line :: "string \<Rightarrow> string option outcome" where
  "chop_line buf =
     (let s = takeWhile (\<lambda>c. c \<noteq> NUL) buf
      in if s = [] then Undefined else if last s \<noteq> LF then Ret None else Ret (Some (butlast s)))"

lemma fgets_line_append: "fgets_line k s = (l, r) \<Longrightarrow> s = l @ r"
  by (induction k s arbitrary: l r rule: fgets_line.induct) (auto split: if_splits prod.splits)

lemma fgets_line_length: "fgets_line k s = (l, r) \<Longrightarrow> length l \<le> k"
  by (induction k s arbitrary: l r rule: fgets_line.induct) (auto split: if_splits prod.splits)

lemma fgets_line_rest: "fgets_line k s = (l, r) \<Longrightarrow> 0 < k \<Longrightarrow> s \<noteq> [] \<Longrightarrow> length r < length s"
  by (cases k; cases s) (auto split: if_splits prod.splits dest!: fgets_line_append)

lemma fgets_line_full:
  "LF \<notin> set l \<Longrightarrow> length l < k \<Longrightarrow> fgets_line k (l @ LF # r) = (l @ [LF], r)"
proof (induction l arbitrary: k)
  case Nil
  then show ?case by (cases k) auto
next
  case (Cons c l)
  then show ?case by (cases k) auto
qed

lemma chop_line_full: "cstr l \<Longrightarrow> chop_line (l @ [LF]) = Ret (Some l)"
  by (auto simp: chop_line_def cstr_def Let_def takeWhile_append)

lemma fs_same [simp]: "os_fs w p = Some f \<Longrightarrow> w\<lparr>os_fs := (os_fs w)(p \<mapsto> f)\<rparr> = w"
  by (simp add: fun_upd_idem)

text \<open>A call that only looks at a file.\<close>

lemma run_look:
  "run_state (on_file path (\<lambda>f. (f, Some f))) w =
     (case run_state fault w of
        (b, w') \<Rightarrow>
          (if b then Err EOTHER else case os_fs w' path of None \<Rightarrow> Err ENOENT | Some f \<Rightarrow> Ok f, w'))"
  by (cases "run_state fault w"; cases "os_fs (snd (run_state fault w)) path")
    (auto simp: on_file_def get_fs_def put_fs_def)

section \<open>Runs\<close>

text \<open>What the calls do where no failure is scheduled.\<close>

lemma run_fault [os_simps]: "os_faults w = [] \<Longrightarrow> run_state fault w = (False, w)"
  by (simp add: fault_def)

lemma run_get_fs [os_simps]: "run_state (get_fs path) w = (os_fs w path, w)"
  by (simp add: get_fs_def)

lemma run_put_fs [os_simps]: "run_state (put_fs path f) w = ((), w\<lparr>os_fs := (os_fs w)(path := f)\<rparr>)"
  by (simp add: put_fs_def)

lemma run_now [os_simps]: "run_state now w = (os_now w, w)"
  by (simp add: now_def)

lemma run_getpid [os_simps]: "run_state getpid w = (os_pid w, w)"
  by (simp add: getpid_def)

lemma run_gettimeofday [os_simps]:
  "os_faults w = [] \<Longrightarrow> run_state gettimeofday w = (Some (os_now w), w)"
  by (simp add: gettimeofday_def os_simps)

lemma run_on_file [os_simps]:
  "os_faults w = [] \<Longrightarrow> run_state (on_file path f) w =
     (case os_fs w path of
        None \<Rightarrow> (Err ENOENT, w)
      | Some x \<Rightarrow> (Ok (fst (f x)), w\<lparr>os_fs := (os_fs w)(path := snd (f x))\<rparr>))"
  by (simp add: on_file_def os_simps split: option.splits)

lemma run_open [os_simps]:
  "os_faults w = [] \<Longrightarrow> run_state (os_open path) w =
     (case os_fs w path of None \<Rightarrow> (Err ENOENT, w) | Some f \<Rightarrow> (Ok f, w))"
  by (simp add: os_open_def os_simps split: option.splits)

lemma run_stat [os_simps]:
  "os_faults w = [] \<Longrightarrow> run_state (os_stat path) w =
     (case os_fs w path of None \<Rightarrow> (Err ENOENT, w) | Some f \<Rightarrow> (Ok f, w))"
  by (simp add: os_stat_def os_simps split: option.splits)

lemma run_fgets [os_simps]:
  "os_faults w = [] \<Longrightarrow> run_state (fgets n s) w = (if s = [] then None else Some (fgets_line (n - 1) s), w)"
  by (simp add: fgets_def os_simps)

lemma run_fclose [os_simps]: "os_faults w = [] \<Longrightarrow> run_state os_fclose w = (Ok (), w)"
  by (simp add: os_fclose_def os_simps)

lemma run_unlink [os_simps]:
  "os_faults w = [] \<Longrightarrow> run_state (os_unlink path) w =
     (if os_fs w path = None then (Err ENOENT, w) else (Ok (), w\<lparr>os_fs := (os_fs w)(path := None)\<rparr>))"
  by (simp add: os_unlink_def os_simps split: option.splits)

lemma run_chmod [os_simps]:
  "os_faults w = [] \<Longrightarrow> run_state (os_chmod path m) w =
     (case os_fs w path of
        None \<Rightarrow> (Err ENOENT, w)
      | Some f \<Rightarrow> (Ok (), w\<lparr>os_fs := (os_fs w)(path \<mapsto> f\<lparr>f_mode := m\<rparr>)\<rparr>))"
  by (simp add: os_chmod_def os_simps split: option.splits)

lemma run_utime_to [os_simps]:
  "os_faults w = [] \<Longrightarrow> run_state (os_utime_to path t) w =
     (case os_fs w path of
        None \<Rightarrow> (Err ENOENT, w)
      | Some f \<Rightarrow> (Ok (), w\<lparr>os_fs := (os_fs w)(path \<mapsto> f\<lparr>f_mtime := t\<rparr>)\<rparr>))"
  by (simp add: os_utime_to_def os_simps split: option.splits)

lemma run_utime [os_simps]:
  "os_faults w = [] \<Longrightarrow> run_state (os_utime path) w =
     (case os_fs w path of
        None \<Rightarrow> (Err ENOENT, w)
      | Some f \<Rightarrow> (Ok (), w\<lparr>os_fs := (os_fs w)(path \<mapsto> f\<lparr>f_mtime := tv_sec (os_now w)\<rparr>)\<rparr>))"
  by (simp add: os_utime_def os_simps)

lemma run_create [os_simps]:
  "os_faults w = [] \<Longrightarrow> run_state (os_create path) w =
     (if os_fs w path \<noteq> None then (Err EEXIST, w)
      else (Ok (), w\<lparr>os_fs := (os_fs w)(path \<mapsto>
        \<lparr>f_data = [], f_mode = mode_0644, f_mtime = tv_sec (os_now w)\<rparr>)\<rparr>))"
  by (simp add: os_create_def os_simps)

lemma run_fclose_write [os_simps]:
  "os_faults w = [] \<Longrightarrow> run_state (os_fclose_write path text) w =
     (case os_fs w path of
        None \<Rightarrow> (Ok (), w)
      | Some f \<Rightarrow> (Ok (), w\<lparr>os_fs := (os_fs w)(path \<mapsto> f\<lparr>f_data := text, f_mtime := tv_sec (os_now w)\<rparr>)\<rparr>))"
  by (simp add: os_fclose_write_def os_simps split: option.splits)

lemma run_rename [os_simps]:
  "os_faults w = [] \<Longrightarrow> run_state (os_rename a b) w =
     (case os_fs w a of
        None \<Rightarrow> (Err ENOENT, w)
      | Some f \<Rightarrow> (Ok (), w\<lparr>os_fs := (os_fs w)(a := None, b \<mapsto> f)\<rparr>))"
  by (simp add: os_rename_def os_simps split: option.splits)

lemma run_link [os_simps]:
  "os_faults w = [] \<Longrightarrow> run_state (os_link a b) w =
     (case os_fs w a of
        None \<Rightarrow> (Err ENOENT, w)
      | Some f \<Rightarrow>
          if os_fs w b \<noteq> None then (Err EEXIST, w) else (Ok (), w\<lparr>os_fs := (os_fs w)(b \<mapsto> f)\<rparr>))"
  by (simp add: os_link_def os_simps split: option.splits)

end
