(* ===== verification/Cparse.thy ===== *)
theory Cparse
  imports Os
begin

text \<open>
  \<open>daemon/cparse.c\<close>: the files behind cookies.  A service cookie's file holds the name of its login
  cookie (\<open>service_to_login\<close>); a login cookie's file holds who logged in (\<open>read_cookie\<close>), and its
  set-group-id bit marks it logged out (\<open>do_logout\<close>).  Copying a line into a field of \<open>struct cinfo\<close> that
  is too small for it is \<open>Undefined\<close>.  The last part is the text \<open>f_login\<close> writes and its way back.
\<close>

record cinfo =
  ci_version :: int
  ci_state :: int
  ci_ipaddr :: string
  ci_ipaddr_cur :: string
  ci_user :: string
  ci_realm :: string
  ci_ctime :: string
  ci_krbtkt :: string
  ci_itime :: int

definition cinfo_zero :: cinfo where
  "cinfo_zero =
     \<lparr>ci_version = 0, ci_state = 0, ci_ipaddr = [], ci_ipaddr_cur = [], ci_user = [], ci_realm = [],
      ci_ctime = [], ci_krbtkt = [], ci_itime = 0\<rparr>"

definition do_logout :: "string \<Rightarrow> ('a os_scheme, int) state" where
  "do_logout path = do {
     r \<leftarrow> os_chmod path (S_ISGID OR S_IRUSR);
     if failed r then ret (-1)
     else do { _ \<leftarrow> os_utime path; ret 0 } }"

section \<open>Service cookies\<close>

text \<open>Return code and the login cookie's name.\<close>

definition service_to_login :: "string \<Rightarrow> ('a os_scheme, (int \<times> string) outcome) state" where
  "service_to_login service = do {
     scf \<leftarrow> os_open service;
     case scf of
       Err _ \<Rightarrow> ret (Ret (-1, []))
     | Ok f \<Rightarrow> do {
         r \<leftarrow> fgets (MAXCOOKIELEN + 2) (f_data f);
         case r of
           None \<Rightarrow> do { _ \<leftarrow> os_fclose; ret (Ret (-1, [])) }
         | Some (buf, _) \<Rightarrow>
             (case chop_line buf of
                Undefined \<Rightarrow> ret Undefined
              | Exit n \<Rightarrow> ret (Exit n)
              | Ret None \<Rightarrow> do { _ \<leftarrow> os_fclose; ret (Ret (-1, [])) }
              | Ret (Some buf) \<Rightarrow>
                  if take 1 buf \<noteq> ''l'' then do { _ \<leftarrow> os_fclose; ret (Ret (-1, [])) }
                  else do {
                    c \<leftarrow> os_fclose;
                    ret (Ret (if failed c then -1 else 0, tl buf)) }) } }"

section \<open>Login cookies\<close>

text \<open>One line of the file: the first character says which field the rest goes to.\<close>

definition read_field :: "string \<Rightarrow> cinfo \<Rightarrow> cinfo option outcome" where
  "read_field buf ci =
     (let p = tl buf;
          store = (\<lambda>n ci'. if n \<le> length p then Undefined else Ret (Some ci'))
      in case buf of
           [] \<Rightarrow> Ret None
         | k # _ \<Rightarrow>
             if k = CHR ''i'' then store 256 (ci\<lparr>ci_ipaddr := p\<rparr>)
             else if k = CHR ''j'' then store 256 (ci\<lparr>ci_ipaddr_cur := p\<rparr>)
             else if k = CHR ''p'' then store 130 (ci\<lparr>ci_user := p\<rparr>)
             else if k = CHR ''r'' then store 256 (ci\<lparr>ci_realm := p\<rparr>)
             else if k = CHR ''t'' then store 12 (ci\<lparr>ci_ctime := p\<rparr>)
             else if k = CHR ''k'' then store MAXPATHLEN (ci\<lparr>ci_krbtkt := p\<rparr>)
             else Ret None)"

text \<open>The loop \<open>while( fgets( buf, sizeof( buf ), cf ) != NULL )\<close> on the rest \<open>s\<close> of the file.\<close>

function (sequential) read_fields :: "string \<Rightarrow> cinfo \<Rightarrow> ('a os_scheme, (int \<times> cinfo) outcome) state" where
  "read_fields s ci = do {
     b \<leftarrow> fault;
     if b \<or> s = [] then do { c \<leftarrow> os_fclose; ret (Ret (if failed c then -1 else 0, ci)) }
     else
       let (buf, s') = fgets_line (MAXPATHLEN + 1) s
       in case chop_line buf of
            Undefined \<Rightarrow> ret Undefined
          | Exit n \<Rightarrow> ret (Exit n)
          | Ret None \<Rightarrow> do { _ \<leftarrow> os_fclose; ret (Ret (-1, ci)) }
          | Ret (Some buf) \<Rightarrow>
              (case read_field buf ci of
                 Undefined \<Rightarrow> ret Undefined
               | Exit n \<Rightarrow> ret (Exit n)
               | Ret None \<Rightarrow> do { _ \<leftarrow> os_fclose; ret (Ret (-1, ci)) }
               | Ret (Some ci) \<Rightarrow> read_fields s' ci) }"
  by pat_completeness auto

termination
  by (relation "measure (\<lambda>(s, ci). length s)")
    (auto simp: MAXPATHLEN_def dest: fgets_line_rest [OF sym])

declare read_fields.simps [simp del]

definition close_with :: "int \<times> cinfo \<Rightarrow> ('a os_scheme, (int \<times> cinfo) outcome) state" where
  "close_with r = do { _ \<leftarrow> os_fclose; ret (Ret r) }"

text \<open>The version line: whether reading goes on, and the structure.\<close>

definition read_version :: "string \<Rightarrow> cinfo \<Rightarrow> (bool \<times> cinfo) outcome" where
  "read_version buf ci =
     (case chop_line buf of
        Undefined \<Rightarrow> Undefined
      | Exit n \<Rightarrow> Exit n
      | Ret None \<Rightarrow> Ret (False, ci)
      | Ret (Some buf) \<Rightarrow>
          if take 1 buf \<noteq> ''v'' then Ret (False, ci)
          else let ci = ci\<lparr>ci_version := atoi (tl buf)\<rparr> in Ret (ci_version ci = 2, ci))"

definition read_cookie :: "string \<Rightarrow> ('a os_scheme, (int \<times> cinfo) outcome) state" where
  "read_cookie path = do {
     let ci = cinfo_zero;
     cf \<leftarrow> os_open path;
     case cf of
       Err e \<Rightarrow> ret (Ret (if e = ENOENT then 1 else -1, ci))
     | Ok f \<Rightarrow> do {
         b \<leftarrow> fault;
         if b then close_with (-1, ci)
         else do {
           let ci = ci\<lparr>ci_itime := f_mtime f\<rparr>;
           r \<leftarrow> fgets 4 (f_data f);
           case r of
             None \<Rightarrow> close_with (-1, ci)
           | Some (buf, s) \<Rightarrow>
               (case read_version buf ci of
                  Undefined \<Rightarrow> ret Undefined
                | Exit n \<Rightarrow> ret (Exit n)
                | Ret (False, ci) \<Rightarrow> close_with (-1, ci)
                | Ret (True, ci) \<Rightarrow> do {
                    r \<leftarrow> fgets 4 s;
                    case r of
                      None \<Rightarrow> close_with (-1, ci)
                    | Some (_, s) \<Rightarrow>
                        read_fields s
                          (ci\<lparr>ci_state := (if f_mode f AND S_ISGID \<noteq> 0 then 0 else 1)\<rparr>) }) } } }"

section \<open>Reading without failures\<close>

text \<open>What the functions compute from the file alone.\<close>

function (sequential) parse_fields :: "string \<Rightarrow> cinfo \<Rightarrow> (int \<times> cinfo) outcome" where
  "parse_fields s ci =
     (if s = [] then Ret (0, ci)
      else
        let (buf, s') = fgets_line (MAXPATHLEN + 1) s
        in case chop_line buf of
             Undefined \<Rightarrow> Undefined
           | Exit n \<Rightarrow> Exit n
           | Ret None \<Rightarrow> Ret (-1, ci)
           | Ret (Some buf) \<Rightarrow>
               (case read_field buf ci of
                  Undefined \<Rightarrow> Undefined
                | Exit n \<Rightarrow> Exit n
                | Ret None \<Rightarrow> Ret (-1, ci)
                | Ret (Some ci) \<Rightarrow> parse_fields s' ci))"
  by pat_completeness auto

termination
  by (relation "measure (\<lambda>(s, ci). length s)")
    (auto simp: MAXPATHLEN_def dest: fgets_line_rest [OF sym])

declare parse_fields.simps [simp del]

definition parse_cookie :: "inode option \<Rightarrow> (int \<times> cinfo) outcome" where
  "parse_cookie e =
     (case e of
        None \<Rightarrow> Ret (1, cinfo_zero)
      | Some f \<Rightarrow>
          let ci = cinfo_zero\<lparr>ci_itime := f_mtime f\<rparr>
          in if f_data f = [] then Ret (-1, ci)
             else
               let (buf, s) = fgets_line 3 (f_data f)
               in case read_version buf ci of
                    Undefined \<Rightarrow> Undefined
                  | Exit n \<Rightarrow> Exit n
                  | Ret (False, ci) \<Rightarrow> Ret (-1, ci)
                  | Ret (True, ci) \<Rightarrow>
                      if s = [] then Ret (-1, ci)
                      else parse_fields (snd (fgets_line 3 s))
                             (ci\<lparr>ci_state := (if f_mode f AND S_ISGID \<noteq> 0 then 0 else 1)\<rparr>))"

lemma run_read_fields [os_simps]:
  "os_faults w = [] \<Longrightarrow> run_state (read_fields s ci) w = (parse_fields s ci, w)"
proof (induction s ci rule: parse_fields.induct)
  case (1 s ci)
  show ?case
  proof (cases "s = []")
    case True
    then show ?thesis using "1.prems"
      by (subst read_fields.simps) (simp add: os_simps parse_fields.simps)
  next
    case False
    obtain buf s' where f: "fgets_line (MAXPATHLEN + 1) s = (buf, s')" by fastforce
    note IH = "1.IH" [OF False f [symmetric]]
    show ?thesis
      using "1.prems" False f IH
      by (subst read_fields.simps, subst parse_fields.simps)
        (simp add: os_simps split: outcome.splits option.splits)
  qed
qed

lemma run_read_cookie [os_simps]:
  assumes "os_faults w = []"
  shows "run_state (read_cookie path) w = (parse_cookie (os_fs w path), w)"
proof (cases "os_fs w path")
  case None
  then show ?thesis using assms by (simp add: read_cookie_def parse_cookie_def os_simps)
next
  case (Some f)
  then show ?thesis using assms
    by (simp add: read_cookie_def parse_cookie_def close_with_def os_simps Let_def
        split: outcome.splits option.splits prod.splits bool.splits)
qed

lemma run_do_logout [os_simps]:
  "os_faults w = [] \<Longrightarrow> run_state (do_logout path) w =
     (case os_fs w path of
        None \<Rightarrow> (-1, w)
      | Some f \<Rightarrow> (0, w\<lparr>os_fs := (os_fs w)(path \<mapsto>
          f\<lparr>f_mode := S_ISGID OR S_IRUSR, f_mtime := tv_sec (os_now w)\<rparr>)\<rparr>))"
  by (simp add: do_logout_def os_simps split: option.splits)

lemma run_service_to_login:
  assumes "os_faults w = []"
  shows "run_state (service_to_login path) w =
    (case os_fs w path of
       None \<Rightarrow> Ret (-1, [])
     | Some f \<Rightarrow>
         if f_data f = [] then Ret (-1, [])
         else case chop_line (fst (fgets_line (MAXCOOKIELEN + 1) (f_data f))) of
           Undefined \<Rightarrow> Undefined
         | Exit n \<Rightarrow> Exit n
         | Ret None \<Rightarrow> Ret (-1, [])
         | Ret (Some buf) \<Rightarrow> if take 1 buf \<noteq> ''l'' then Ret (-1, []) else Ret (0, tl buf), w)"
  using assms
  by (cases "os_fs w path")
    (auto simp: service_to_login_def os_simps split: outcome.splits option.splits prod.splits)

section \<open>The text of a login cookie\<close>

text \<open>The lines \<open>f_login\<close> prints, in its order.\<close>

definition mkline :: "string \<Rightarrow> string" where
  "mkline s = s @ [LF]"

definition cookie_text :: "cinfo \<Rightarrow> string" where
  "cookie_text ci =
     mkline ''v2'' @ mkline ''s1'' @
     mkline (''i'' @ ci_ipaddr ci) @ mkline (''j'' @ ci_ipaddr_cur ci) @ mkline (''p'' @ ci_user ci) @
     mkline (''r'' @ ci_realm ci) @ mkline (''t'' @ ci_ctime ci) @
     (if ci_krbtkt ci = [] then [] else mkline (''k'' @ ci_krbtkt ci))"

definition text_ok :: "string \<Rightarrow> bool" where
  "text_ok s \<longleftrightarrow> cstr s \<and> LF \<notin> set s"

text \<open>The fields fit their arrays.\<close>

definition cinfo_ok :: "cinfo \<Rightarrow> bool" where
  "cinfo_ok ci \<longleftrightarrow>
     text_ok (ci_ipaddr ci) \<and> length (ci_ipaddr ci) < 256 \<and>
     text_ok (ci_ipaddr_cur ci) \<and> length (ci_ipaddr_cur ci) < 256 \<and>
     text_ok (ci_user ci) \<and> length (ci_user ci) < 130 \<and>
     text_ok (ci_realm ci) \<and> length (ci_realm ci) < 256 \<and>
     text_ok (ci_ctime ci) \<and> length (ci_ctime ci) < 12 \<and>
     text_ok (ci_krbtkt ci) \<and> length (ci_krbtkt ci) < MAXPATHLEN"

lemma parse_fields_line:
  assumes "text_ok l" and "length l \<le> MAXPATHLEN" and "read_field l ci = Ret (Some ci')"
  shows "parse_fields (mkline l @ s) ci = parse_fields s ci'"
proof -
  have "fgets_line (MAXPATHLEN + 1) (mkline l @ s) = (l @ [LF], s)"
    using assms(1,2) fgets_line_full [of l "MAXPATHLEN + 1" s] by (simp add: mkline_def text_ok_def)
  moreover have "chop_line (l @ [LF]) = Ret (Some l)"
    using assms(1) by (simp add: chop_line_full text_ok_def)
  ultimately show ?thesis using assms(3) by (subst parse_fields.simps) (simp add: mkline_def)
qed

lemma parse_fields_text:
  assumes "cinfo_ok ci"
  shows "parse_fields
      (mkline (''i'' @ ci_ipaddr ci) @ mkline (''j'' @ ci_ipaddr_cur ci) @ mkline (''p'' @ ci_user ci) @
       mkline (''r'' @ ci_realm ci) @ mkline (''t'' @ ci_ctime ci) @
       (if ci_krbtkt ci = [] then [] else mkline (''k'' @ ci_krbtkt ci))) z =
    Ret (0, z\<lparr>ci_ipaddr := ci_ipaddr ci, ci_ipaddr_cur := ci_ipaddr_cur ci, ci_user := ci_user ci,
      ci_realm := ci_realm ci, ci_ctime := ci_ctime ci,
      ci_krbtkt := (if ci_krbtkt ci = [] then ci_krbtkt z else ci_krbtkt ci)\<rparr>)"
proof -
  have [simp]: "text_ok (c # l) \<longleftrightarrow> c \<noteq> NUL \<and> c \<noteq> LF \<and> text_ok l" for c l
    by (auto simp: text_ok_def)
  have nil: "parse_fields [] y = Ret (0, y)" for y by (simp add: parse_fields.simps)
  have last: "parse_fields (mkline (CHR ''k'' # ci_krbtkt ci)) y = parse_fields [] (y\<lparr>ci_krbtkt := ci_krbtkt ci\<rparr>)" for y
    using parse_fields_line [of "''k'' @ ci_krbtkt ci" y _ "[]"] assms
    by (simp add: cinfo_ok_def ctrl_defs read_field_def)
  show ?thesis
    using assms unfolding cinfo_ok_def
    by (simp add: parse_fields_line ctrl_defs read_field_def Let_def MAXPATHLEN_def nil last)
qed

lemma atoi_2: "atoi ''2'' = 2"
proof -
  have "show_int 2 = ''2''" by (simp add: show_int_def show_nat.simps)
  then show ?thesis using atoi_show_int [of 2] by simp
qed

lemma parse_cookie_text:
  assumes "cinfo_ok ci" and "f_data f = cookie_text ci"
  shows "parse_cookie (Some f) =
    Ret (0, ci\<lparr>ci_version := 2, ci_state := (if f_mode f AND S_ISGID \<noteq> 0 then 0 else 1),
      ci_itime := f_mtime f\<rparr>)"
proof -
  have 1: "fgets_line 3 (mkline ''v2'' @ s) = (mkline ''v2'', s)" "fgets_line 3 (mkline ''s1'' @ s) = (mkline ''s1'', s)" for s
    by (simp_all add: mkline_def numeral_3_eq_3 ctrl_defs)
  have 2: "read_version (mkline ''v2'') z = Ret (True, z\<lparr>ci_version := 2\<rparr>)" for z
    using chop_line_full [of "''v2''"] by (simp add: read_version_def mkline_def atoi_2 ctrl_defs)
  have ne: "mkline s \<noteq> []" for s by (simp add: mkline_def)
  show ?thesis
    using parse_fields_text [OF assms(1)]
    by (simp add: parse_cookie_def assms(2) cookie_text_def 1 2 ne cinfo_zero_def)
qed

end
