(* ===== verification/Snet.thy ===== *)
theory Snet
  imports Prelude
begin

text \<open>
  \<open>libsnet/snet.c\<close>: buffered line input and formatted output on a connection.  What a
  \<open>read\<close> (or \<open>SSL_read\<close>) will deliver is the list \<open>sn_net\<close>: chunks of bytes, timeouts and errors;
  its end is the end of the connection, after which every \<open>read\<close> reports the end again (the text that ends there without an
  LF leaves \<open>sn_rcur\<close> one past \<open>sn_rend\<close>, and the next \<open>read\<close> would begin one byte before the buffer if it brought more).  \<open>sn_rdata\<close> are the bytes between \<open>sn_rcur\<close> and \<open>sn_rend\<close>,
  \<open>sn_rpos\<close> is the offset of \<open>sn_rcur\<close> in the buffer of \<open>sn_rbuflen\<close> bytes.  The first part gives the
  code, the second shows that lines do not depend on how the bytes were chunked; then
  comes the formatter.  The writing side, and the calls of \<open>select\<close>, are in \<open>Snet_write\<close>; SASL layers are left out.
\<close>

datatype rstate = SNET_BOL | SNET_FUZZY | SNET_IN

datatype net_event = Bytes string | Timeout | Broken

definition SNET_BUFLEN :: nat where "SNET_BUFLEN = 4096"

record SNET =
  sn_rbuflen :: nat
  sn_maxlen :: nat
  sn_rpos :: nat
  sn_rdata :: string
  sn_rstate :: rstate
  sn_eof :: bool
  sn_tls :: bool
  sn_errno :: errno
  sn_net :: "net_event list"

definition snet_attach :: "net_event list \<Rightarrow> nat \<Rightarrow> SNET" where
  "snet_attach net maxlen =
     \<lparr>sn_rbuflen = SNET_BUFLEN, sn_maxlen = maxlen, sn_rpos = 0, sn_rdata = [], sn_rstate = SNET_BOL,
      sn_eof = False, sn_tls = False, sn_errno = ENONE, sn_net = net\<rparr>"

section \<open>Reading\<close>

text \<open>At the end of the connection \<open>sn_flag\<close> is assigned, not or-ed: the TLS flag is lost.\<close>

definition snet_readread :: "SNET \<Rightarrow> nat \<Rightarrow> string option \<times> SNET" where
  "snet_readread sn len =
     (case sn_net sn of
        [] \<Rightarrow> (Some [], sn\<lparr>sn_eof := True, sn_tls := False\<rparr>)
      | Timeout # net \<Rightarrow> (None, sn\<lparr>sn_errno := ETIMEDOUT, sn_net := net\<rparr>)
      | Broken # net \<Rightarrow> (None, sn\<lparr>sn_errno := EOTHER, sn_net := net\<rparr>)
      | Bytes s # net \<Rightarrow>
          if s = [] then (Some [], sn\<lparr>sn_eof := True, sn_tls := False, sn_net := net\<rparr>)
          else if length s \<le> len then (Some s, sn\<lparr>sn_net := net\<rparr>)
          else (Some (take len s), sn\<lparr>sn_net := Bytes (drop len s) # net\<rparr>))"

definition snet_hasdata :: "SNET \<Rightarrow> bool \<times> SNET" where
  "snet_hasdata sn =
     (if sn_rdata sn \<noteq> [] then
        let sn = (if sn_rstate sn = SNET_FUZZY then
                    (if hd (sn_rdata sn) = LF
                     then sn\<lparr>sn_rdata := tl (sn_rdata sn), sn_rpos := sn_rpos sn + 1, sn_rstate := SNET_BOL\<rparr>
                     else sn\<lparr>sn_rstate := SNET_BOL\<rparr>)
                  else sn)
        in (sn_rdata sn \<noteq> [], sn)
      else (False, sn))"

text \<open>\<open>snet_read\<close>: the bytes put into the caller's buffer, \<open>None\<close> where it returns -1.\<close>

definition snet_read :: "SNET \<Rightarrow> nat \<Rightarrow> string option \<times> SNET" where
  "snet_read sn len =
     (let (have, sn) = snet_hasdata sn
      in if have then
           let n = min (length (sn_rdata sn)) len
           in (Some (take n (sn_rdata sn)), sn\<lparr>sn_rdata := drop n (sn_rdata sn), sn_rpos := sn_rpos sn + n\<rparr>)
         else
           let (r, sn) = snet_readread sn len
           in case r of
                Some (c # s) \<Rightarrow>
                  if sn_rstate sn = SNET_FUZZY then
                    let sn = sn\<lparr>sn_rstate := SNET_BOL\<rparr>
                    in if c = LF then (if s = [] then snet_readread sn len else (Some s, sn))
                       else (Some (c # s), sn)
                  else (r, sn)
              | _ \<Rightarrow> (r, sn))"

text \<open>The fill step of \<open>snet_getline\<close>: pull the data up, grow the buffer, read.\<close>

datatype fill = Filled SNET | Fill_eof SNET | Fill_failed SNET

definition snet_fill :: "SNET \<Rightarrow> fill" where
  "snet_fill sn =
     (let sn = sn\<lparr>sn_rpos := 0\<rparr>;
          full = (length (sn_rdata sn) = sn_rbuflen sn)
      in if full \<and> sn_maxlen sn \<noteq> 0 \<and> sn_maxlen sn \<le> sn_rbuflen sn
         then Fill_failed (sn\<lparr>sn_errno := EOTHER\<rparr>)
         else
           let sn = (if full then sn\<lparr>sn_rbuflen := sn_rbuflen sn + SNET_BUFLEN\<rparr> else sn);
               (r, sn) = snet_readread sn (sn_rbuflen sn - length (sn_rdata sn))
           in case r of
                None \<Rightarrow> Fill_failed sn
              | Some s \<Rightarrow>
                  if s = [] then (if sn_rdata sn \<noteq> [] then Fill_eof sn else Fill_failed sn)
                  else Filled (sn\<lparr>sn_rdata := sn_rdata sn @ s\<rparr>))"

definition advance :: "SNET \<Rightarrow> nat \<Rightarrow> SNET" where
  "advance sn n = sn\<lparr>sn_rdata := drop n (sn_rdata sn), sn_rpos := sn_rpos sn + n\<rparr>"

fun event_bytes :: "net_event \<Rightarrow> string" where
  "event_bytes (Bytes s) = s"
| "event_bytes _ = []"

definition stream :: "SNET \<Rightarrow> string" where
  "stream sn = sn_rdata sn @ concat (map event_bytes (sn_net sn))"

lemma snet_readread_stream:
  "snet_readread sn len = (Some s, sn') \<Longrightarrow>
     s @ concat (map event_bytes (sn_net sn')) = concat (map event_bytes (sn_net sn)) \<and>
     sn_rdata sn' = sn_rdata sn \<and> sn_rstate sn' = sn_rstate sn \<and> sn_rbuflen sn' = sn_rbuflen sn \<and>
     sn_maxlen sn' = sn_maxlen sn \<and> length s \<le> len"
  by (auto simp: snet_readread_def split: list.splits net_event.splits if_splits)

lemma snet_fill_Filled:
  assumes "snet_fill sn = Filled sn'"
  shows "stream sn' = stream sn" and "length (sn_rdata sn) < length (sn_rdata sn')"
    and "take (length (sn_rdata sn)) (sn_rdata sn') = sn_rdata sn"
    and "sn_rstate sn' = sn_rstate sn"
proof -
  obtain sn1 n s sn2 where r: "snet_readread sn1 n = (Some s, sn2)" "s \<noteq> []"
    and sn': "sn' = sn2\<lparr>sn_rdata := sn_rdata sn2 @ s\<rparr>"
    and sn1: "sn_rdata sn1 = sn_rdata sn" "sn_net sn1 = sn_net sn" "sn_rstate sn1 = sn_rstate sn"
    using assms unfolding snet_fill_def
    by (auto simp: Let_def split: if_splits prod.splits option.splits)
  then show "stream sn' = stream sn" "length (sn_rdata sn) < length (sn_rdata sn')"
    "take (length (sn_rdata sn)) (sn_rdata sn') = sn_rdata sn" "sn_rstate sn' = sn_rstate sn"
    using snet_readread_stream [OF r(1)] by (simp_all add: stream_def)
qed

lemma filled_measure:
  assumes "(if length (sn_rdata sn) \<le> eol then (snet_fill sn, length (sn_rdata sn)) else (Filled sn, eol)) =
      (Filled sn', eol')"
  shows "length (stream sn') - eol' \<le> length (stream sn) - min eol (length (sn_rdata sn))"
    and "eol' < length (sn_rdata sn')" and "eol' = min eol (length (sn_rdata sn))"
    and "stream sn' = stream sn" and "sn_rstate sn' = sn_rstate sn"
    and "take eol' (sn_rdata sn') = take eol (sn_rdata sn)"
  using assms snet_fill_Filled [of sn sn'] by (auto simp: min_def split: if_splits)

lemma stream_advance:
  "n \<le> length (sn_rdata sn) \<Longrightarrow> stream (advance sn n) = drop n (stream sn)"
  by (simp add: stream_def advance_def)

lemma stream_rstate [simp]: "stream (sn\<lparr>sn_rstate := r\<rparr>) = stream sn"
  by (simp add: stream_def)

function (sequential) snet_getline_loop :: "SNET \<Rightarrow> nat \<Rightarrow> string option \<times> SNET" where
  "snet_getline_loop sn eol =
     (case (if length (sn_rdata sn) \<le> eol then (snet_fill sn, length (sn_rdata sn)) else (Filled sn, eol)) of
        (Fill_failed sn, _) \<Rightarrow> (None, sn)
      | (Fill_eof sn, eol) \<Rightarrow> (Some (sn_rdata sn), advance sn (eol + 1))
      | (Filled sn, eol) \<Rightarrow>
          let c = sn_rdata sn ! eol
          in if c = CR \<or> c = NUL then
               (Some (take eol (sn_rdata sn)), (advance sn (eol + 1))\<lparr>sn_rstate := SNET_FUZZY\<rparr>)
             else if c = LF then
               if sn_rstate sn = SNET_FUZZY
               then snet_getline_loop ((advance sn (eol + 1))\<lparr>sn_rstate := SNET_BOL\<rparr>) 0
               else (Some (take eol (sn_rdata sn)), (advance sn (eol + 1))\<lparr>sn_rstate := SNET_BOL\<rparr>)
             else snet_getline_loop (sn\<lparr>sn_rstate := SNET_IN\<rparr>) (eol + 1))"
  by pat_completeness auto

termination
proof (relation "measure (\<lambda>(sn, eol). length (stream sn) - min eol (length (sn_rdata sn)))", goal_cases)
  case 1
  then show ?case by simp
next
  case prems: (2 sn eol f eol' sn' c)
  then have "(if length (sn_rdata sn) \<le> eol then (snet_fill sn, length (sn_rdata sn)) else (Filled sn, eol)) =
      (Filled sn', eol')" by simp
  note f = filled_measure [OF this]
  have "length (sn_rdata sn') \<le> length (stream sn')" by (simp add: stream_def)
  then show ?case using f by (simp add: stream_advance)
next
  case prems: (3 sn eol f eol' sn' c)
  then have "(if length (sn_rdata sn) \<le> eol then (snet_fill sn, length (sn_rdata sn)) else (Filled sn, eol)) =
      (Filled sn', eol')" by simp
  note f = filled_measure [OF this]
  have "length (sn_rdata sn') \<le> length (stream sn')" by (simp add: stream_def)
  then show ?case using f by simp
qed

declare snet_getline_loop.simps [simp del]

definition snet_getline :: "SNET \<Rightarrow> string option \<times> SNET" where
  "snet_getline sn = snet_getline_loop sn 0"

section \<open>Lines of a byte stream\<close>

text \<open>
  The line at the front of a stream, the state of the reader and the rest after it: a line ends
  at CR, LF or NUL or with the stream, and an LF just after a CR or NUL belongs to that end.
\<close>

fun next_line :: "rstate \<Rightarrow> string \<Rightarrow> string \<Rightarrow> (string \<times> rstate \<times> string) option" where
  "next_line st acc [] = (if acc = [] then None else Some (acc, st, []))"
| "next_line st acc (c # s) =
     (if c = CR \<or> c = NUL then Some (acc, SNET_FUZZY, s)
      else if c = LF then (if st = SNET_FUZZY then next_line SNET_BOL [] s else Some (acc, SNET_BOL, s))
      else next_line SNET_IN (acc @ [c]) s)"

definition quiet :: "net_event list \<Rightarrow> bool" where
  "quiet net \<longleftrightarrow> (\<forall>e \<in> set net. \<exists>s. e = Bytes s \<and> s \<noteq> [])"

definition sn_ready :: "SNET \<Rightarrow> bool" where
  "sn_ready sn \<longleftrightarrow> quiet (sn_net sn) \<and> length (sn_rdata sn) \<le> sn_rbuflen sn \<and>
     (sn_maxlen sn = 0 \<or> length (stream sn) < sn_maxlen sn)"

lemma quiet_simps [simp]:
  "quiet []" "quiet (e # net) \<longleftrightarrow> (\<exists>s. e = Bytes s \<and> s \<noteq> []) \<and> quiet net"
  by (auto simp: quiet_def)

lemma fill_full:
  assumes "sn_ready sn"
  shows "\<not> (length (sn_rdata sn) = sn_rbuflen sn \<and> sn_maxlen sn \<noteq> 0 \<and> sn_maxlen sn \<le> sn_rbuflen sn)"
  using assms by (auto simp: sn_ready_def stream_def)

lemma fill_at_eof:
  assumes "sn_ready sn" and "sn_net sn = []"
  shows "(if sn_rdata sn = [] then \<exists>sn'. snet_fill sn = Fill_failed sn' \<and> stream sn' = [] \<and> sn_ready sn'
          else \<exists>sn'. snet_fill sn = Fill_eof sn' \<and> sn_rdata sn' = sn_rdata sn \<and> sn_net sn' = [] \<and>
            sn_rstate sn' = sn_rstate sn \<and> sn_ready sn')"
  using assms fill_full [OF assms(1)] unfolding snet_fill_def snet_readread_def
  by (auto simp: Let_def sn_ready_def stream_def)

lemma fill_more:
  assumes "sn_ready sn" and "sn_net sn \<noteq> []"
  shows "\<exists>sn'. snet_fill sn = Filled sn' \<and> sn_ready sn'"
proof -
  obtain s net where n: "sn_net sn = Bytes s # net" "s \<noteq> []" "quiet net"
    using assms by (cases "sn_net sn") (auto simp: sn_ready_def)
  define sn1 where "sn1 = (if length (sn_rdata sn) = sn_rbuflen sn
    then sn\<lparr>sn_rpos := 0, sn_rbuflen := sn_rbuflen sn + SNET_BUFLEN\<rparr> else sn\<lparr>sn_rpos := 0\<rparr>)"
  define k where "k = sn_rbuflen sn1 - length (sn_rdata sn1)"
  have sn1: "sn_net sn1 = sn_net sn" "sn_rdata sn1 = sn_rdata sn" "sn_maxlen sn1 = sn_maxlen sn" "0 < k"
    using assms(1) by (auto simp: sn1_def k_def sn_ready_def SNET_BUFLEN_def)
  define net' where "net' = (if length s \<le> k then net else Bytes (drop k s) # net)"
  have r: "snet_readread sn1 k = (Some (take k s), sn1\<lparr>sn_net := net'\<rparr>)"
    using n sn1 by (simp add: snet_readread_def net'_def)
  have f: "snet_fill sn = Filled (sn1\<lparr>sn_net := net', sn_rdata := sn_rdata sn @ take k s\<rparr>)"
    using fill_full [OF assms(1)] r n(2) sn1 unfolding snet_fill_def
    by (auto simp: Let_def sn1_def k_def)
  have "length (take k s) \<le> k" by simp
  then have "sn_ready (sn1\<lparr>sn_net := net', sn_rdata := sn_rdata sn @ take k s\<rparr>)"
    using assms(1) n sn1 snet_fill_Filled(1) [OF f]
    unfolding sn_ready_def by (auto simp: net'_def k_def)
  then show ?thesis using f by blast
qed

definition line_result :: "(string \<times> rstate \<times> string) option \<Rightarrow> string option \<times> SNET \<Rightarrow> bool" where
  "line_result spec res \<longleftrightarrow> sn_ready (snd res) \<and>
     (case spec of
        None \<Rightarrow> fst res = None \<and> stream (snd res) = []
      | Some (l, st, rest) \<Rightarrow>
          fst res = Some l \<and> stream (snd res) = rest \<and> sn_rstate (snd res) = st)"

lemma sn_ready_advance:
  "sn_ready sn \<Longrightarrow> n \<le> length (sn_rdata sn) \<Longrightarrow> sn_ready (advance sn n)"
  by (auto simp: sn_ready_def stream_def advance_def)

lemma sn_ready_rstate [simp]: "sn_ready (sn\<lparr>sn_rstate := r\<rparr>) = sn_ready sn"
  by (simp add: sn_ready_def)

lemma snet_getline_loop_line:
  assumes "sn_ready sn" and "eol \<le> length (sn_rdata sn)"
  shows "line_result (next_line (sn_rstate sn) (take eol (sn_rdata sn)) (drop eol (stream sn)))
           (snet_getline_loop sn eol)"
  using assms
proof (induction sn eol rule: snet_getline_loop.induct)
  case (1 sn eol)
  let ?src = "if length (sn_rdata sn) \<le> eol then (snet_fill sn, length (sn_rdata sn)) else (Filled sn, eol)"
  consider (eof) "length (sn_rdata sn) \<le> eol" "sn_net sn = []"
    | (data) sn1 where "?src = (Filled sn1, eol)" "sn_ready sn1"
  proof (cases "length (sn_rdata sn) \<le> eol \<and> sn_net sn \<noteq> []")
    case True
    then have "length (sn_rdata sn) = eol" "length (sn_rdata sn) \<le> eol" using "1.prems"(2) by simp_all
    moreover obtain sn1 where "snet_fill sn = Filled sn1" "sn_ready sn1"
      using fill_more [OF "1.prems"(1)] True by blast
    ultimately show thesis using data [of sn1] by simp
  next
    case False
    then show thesis using eof data [of sn] "1.prems"(1)
      by (cases "length (sn_rdata sn) \<le> eol") simp_all
  qed
  then show ?case
  proof cases
    case eof
    then have e: "eol = length (sn_rdata sn)" "drop eol (stream sn) = []"
      using "1.prems" by (simp_all add: stream_def)
    show ?thesis
    proof (cases "sn_rdata sn = []")
      case True
      then obtain sn' where "snet_fill sn = Fill_failed sn'" "stream sn' = []" "sn_ready sn'"
        using fill_at_eof [OF "1.prems"(1) eof(2)] by auto
      then show ?thesis using True e
        by (subst snet_getline_loop.simps) (simp add: line_result_def)
    next
      case False
      then obtain sn' where f: "snet_fill sn = Fill_eof sn'" "sn_rdata sn' = sn_rdata sn" "sn_net sn' = []"
        "sn_rstate sn' = sn_rstate sn" "sn_ready sn'"
        using fill_at_eof [OF "1.prems"(1) eof(2)] by auto
      have "advance sn' (Suc eol) = (advance sn' (length (sn_rdata sn')))\<lparr>sn_rpos := sn_rpos sn' + Suc eol\<rparr>"
        using e f by (simp add: advance_def)
      moreover have "sn_ready (advance sn' (length (sn_rdata sn')))" using f by (simp add: sn_ready_advance)
      ultimately have "sn_ready (advance sn' (Suc eol))" by (simp add: sn_ready_def stream_def)
      moreover have "snet_getline_loop sn eol = (Some (sn_rdata sn), advance sn' (Suc eol))"
        using e(1) f by (subst snet_getline_loop.simps) simp
      moreover have "stream (advance sn' (Suc eol)) = []" "sn_rstate (advance sn' (Suc eol)) = sn_rstate sn"
        using e(1) f by (simp_all add: stream_def advance_def)
      moreover have "next_line (sn_rstate sn) (take eol (sn_rdata sn)) (drop eol (stream sn)) =
          Some (sn_rdata sn, sn_rstate sn, [])"
        using False unfolding e(2) by (simp add: e(1))
      ultimately show ?thesis by (simp add: line_result_def)
    qed
  next
    case data
    note f = filled_measure [OF data(1)]
    define c where "c = sn_rdata sn1 ! eol"
    define rest where "rest = drop (Suc eol) (stream sn1)"
    have "drop eol (stream sn1) = c # rest"
      unfolding c_def rest_def stream_def using f(2) by (simp add: Cons_nth_drop_Suc [symmetric])
    then have st: "drop eol (stream sn) = c # rest" by (simp add: f(4))
    have ta: "take eol (sn_rdata sn1) = take eol (sn_rdata sn)" using f(6) .
    have adv: "stream (advance sn1 (Suc eol)) = rest" "sn_ready (advance sn1 (Suc eol))"
      using f(2) data(2) by (simp_all add: stream_advance rest_def sn_ready_advance)
    have unf: "snet_getline_loop sn eol =
        (if c = CR \<or> c = NUL then
           (Some (take eol (sn_rdata sn1)), (advance sn1 (eol + 1))\<lparr>sn_rstate := SNET_FUZZY\<rparr>)
         else if c = LF then
           if sn_rstate sn1 = SNET_FUZZY
           then snet_getline_loop ((advance sn1 (eol + 1))\<lparr>sn_rstate := SNET_BOL\<rparr>) 0
           else (Some (take eol (sn_rdata sn1)), (advance sn1 (eol + 1))\<lparr>sn_rstate := SNET_BOL\<rparr>)
         else snet_getline_loop (sn1\<lparr>sn_rstate := SNET_IN\<rparr>) (eol + 1))"
      unfolding c_def by (subst snet_getline_loop.simps) (simp only: data(1) prod.case fill.case Let_def)
    consider "c = CR \<or> c = NUL" | "\<not> (c = CR \<or> c = NUL)" "c = LF" "sn_rstate sn1 = SNET_FUZZY"
      | "\<not> (c = CR \<or> c = NUL)" "c = LF" "sn_rstate sn1 \<noteq> SNET_FUZZY"
      | "\<not> (c = CR \<or> c = NUL)" "c \<noteq> LF" by blast
    then show ?thesis
    proof cases
      case 1
      then show ?thesis unfolding unf st using ta adv by (auto simp: line_result_def)
    next
      case 2
      have "line_result (next_line SNET_BOL [] rest)
          (snet_getline_loop ((advance sn1 (eol + 1))\<lparr>sn_rstate := SNET_BOL\<rparr>) 0)"
        using "1.IH"(1) [OF data(1) [symmetric] refl c_def 2] adv by simp
      then show ?thesis unfolding unf st using 2 f(5) by simp
    next
      case 3
      then show ?thesis unfolding unf st using ta adv f(5) by (auto simp: line_result_def)
    next
      case 4
      have "line_result (next_line SNET_IN (take (eol + 1) (sn_rdata sn1)) (drop (eol + 1) (stream sn1)))
          (snet_getline_loop (sn1\<lparr>sn_rstate := SNET_IN\<rparr>) (eol + 1))"
        using "1.IH"(2) [OF data(1) [symmetric] refl c_def 4] data(2) f(2) by simp
      moreover have "take (eol + 1) (sn_rdata sn1) = take eol (sn_rdata sn) @ [c]"
        using ta f(2) by (simp add: take_Suc_conv_app_nth c_def)
      ultimately show ?thesis unfolding unf st using 4 by (simp add: rest_def)
    qed
  qed
qed

text \<open>
  C32.  Unless the line is longer than the buffer may grow or the connection fails, \<open>snet_getline\<close> returns the
  first line of the bytes still to come, whatever the sizes of the chunks they arrive in,
  and leaves the bytes after it.
\<close>

theorem snet_getline_line:
  assumes "sn_ready sn"
  shows "line_result (next_line (sn_rstate sn) [] (stream sn)) (snet_getline sn)"
  unfolding snet_getline_def using snet_getline_loop_line [OF assms, of 0] by simp

lemma snet_getline_line_witness:
  "line_result (Some (''ab'', SNET_FUZZY, LF # ''c''))
     (snet_getline (snet_attach [Bytes ''a'', Bytes [CHR ''b'', CR], Bytes (LF # ''c'')] 0))"
proof -
  let ?sn = "snet_attach [Bytes ''a'', Bytes [CHR ''b'', CR], Bytes (LF # ''c'')] 0"
  have "sn_ready ?sn" by (simp add: sn_ready_def snet_attach_def)
  from snet_getline_line [OF this] show ?thesis
    by (simp add: snet_attach_def stream_def ctrl_defs)
qed

text \<open>Whatever happens on the connection, no bytes come back, and a line costs at least one.\<close>

lemma snet_readread_shrinks:
  "snet_readread sn n = (r, sn') \<Longrightarrow> length (stream sn') + length (case r of None \<Rightarrow> [] | Some s \<Rightarrow> s) \<le>
     length (stream sn) \<and> sn_rdata sn' = sn_rdata sn"
  by (auto simp: snet_readread_def stream_def split: list.splits net_event.splits if_splits)

lemma snet_fill_cases:
  obtains (too_long) sn' where "snet_fill sn = Fill_failed sn'" "stream sn' = stream sn"
  | (reads) sn1 k r sn2 where "snet_readread sn1 k = (r, sn2)" "stream sn1 = stream sn"
      "sn_rdata sn1 = sn_rdata sn"
      "snet_fill sn = (case r of
         None \<Rightarrow> Fill_failed sn2
       | Some s \<Rightarrow>
           if s = [] then (if sn_rdata sn2 \<noteq> [] then Fill_eof sn2 else Fill_failed sn2)
           else Filled (sn2\<lparr>sn_rdata := sn_rdata sn2 @ s\<rparr>))"
proof -
  define sn1 where "sn1 = (if length (sn_rdata sn) = sn_rbuflen sn
    then sn\<lparr>sn_rpos := 0, sn_rbuflen := sn_rbuflen sn + SNET_BUFLEN\<rparr> else sn\<lparr>sn_rpos := 0\<rparr>)"
  obtain r sn2 where r: "snet_readread sn1 (sn_rbuflen sn1 - length (sn_rdata sn1)) = (r, sn2)"
    by fastforce
  show thesis
  proof (cases "length (sn_rdata sn) = sn_rbuflen sn \<and> sn_maxlen sn \<noteq> 0 \<and> sn_maxlen sn \<le> sn_rbuflen sn")
    case True
    then show thesis
      by (intro too_long [of "sn\<lparr>sn_rpos := 0, sn_errno := EOTHER\<rparr>"])
        (auto simp: snet_fill_def stream_def Let_def)
  next
    case False
    then show thesis using r
      by (intro reads [OF r]) (auto simp: snet_fill_def stream_def Let_def sn1_def)
  qed
qed

lemma snet_fill_shrinks:
  "snet_fill sn = Fill_eof sn' \<Longrightarrow>
     length (stream sn') \<le> length (stream sn) \<and> sn_rdata sn' = sn_rdata sn \<and> sn_rdata sn \<noteq> []"
  "snet_fill sn = Fill_failed sn' \<Longrightarrow> length (stream sn') \<le> length (stream sn)"
  by (cases rule: snet_fill_cases [of sn];
      force dest: snet_readread_shrinks split: option.splits if_splits)+

lemma snet_getline_loop_shrinks:
  "snet_getline_loop sn eol = (r, sn') \<Longrightarrow>
     length (stream sn') + (if r = None then 0 else 1) \<le> length (stream sn)"
proof (induction sn eol rule: snet_getline_loop.induct)
  case (1 sn eol)
  let ?src = "if length (sn_rdata sn) \<le> eol then (snet_fill sn, length (sn_rdata sn)) else (Filled sn, eol)"
  obtain f e where src: "?src = (f, e)" by fastforce
  note unf = snet_getline_loop.simps [of sn eol, unfolded src prod.case]
  show ?case
  proof (cases f)
    case (Fill_failed sn1)
    then have "snet_fill sn = Fill_failed sn1" using src by (auto split: if_splits)
    then show ?thesis using "1.prems" snet_fill_shrinks(2) [of sn sn1] Fill_failed unf by auto
  next
    case (Fill_eof sn1)
    then have f: "snet_fill sn = Fill_eof sn1" "e = length (sn_rdata sn)" using src by (auto split: if_splits)
    from snet_fill_shrinks(1) [OF f(1)] have le: "length (stream sn1) \<le> length (stream sn)"
      and rd: "sn_rdata sn1 = sn_rdata sn" "sn_rdata sn \<noteq> []" by simp_all
    have "stream (advance sn1 (e + 1)) = drop (length (sn_rdata sn1)) (stream sn1)"
      using f(2) rd(1) by (simp add: stream_def advance_def)
    moreover have "0 < length (sn_rdata sn1)" "length (sn_rdata sn1) \<le> length (stream sn1)"
      using rd by (simp_all add: stream_def)
    ultimately have "length (stream (advance sn1 (e + 1))) < length (stream sn)"
      using le by (simp del: length_greater_0_conv)
    then show ?thesis using "1.prems" Fill_eof unf by auto
  next
    case (Filled sn1)
    note m = filled_measure [OF src [unfolded Filled]]
    have len: "e < length (stream sn1)" using m(2) by (simp add: stream_def)
    have adv: "length (stream (advance sn1 (e + 1))) < length (stream sn)"
      using m(2,4) len by (simp add: stream_advance)
    note IH1 = "1.IH"(1) [OF src [symmetric] Filled refl]
    note IH2 = "1.IH"(2) [OF src [symmetric] Filled refl]
    show ?thesis
      using "1.prems" adv m(4) IH1 IH2 unfolding unf Filled
      by (fastforce simp: Let_def split: if_splits)
  qed
qed

lemma snet_getline_shrinks:
  "snet_getline sn = (r, sn') \<Longrightarrow> length (stream sn') + (if r = None then 0 else 1) \<le> length (stream sn)"
  unfolding snet_getline_def by (rule snet_getline_loop_shrinks)

lemma snet_read_shrinks: "snet_read sn n = (r, sn') \<Longrightarrow> length (stream sn') \<le> length (stream sn)"
proof -
  assume r: "snet_read sn n = (r, sn')"
  obtain h sn1 where h: "snet_hasdata sn = (h, sn1)" by fastforce
  have sn1: "length (stream sn1) \<le> length (stream sn)"
    using h by (auto simp: snet_hasdata_def stream_def Let_def split: if_splits)
  show ?thesis
  proof (cases h)
    case True
    then show ?thesis using r sn1 h by (auto simp: snet_read_def stream_def Let_def)
  next
    case False
    obtain q sn2 where q: "snet_readread sn1 n = (q, sn2)" by fastforce
    have sn2: "length (stream sn2) \<le> length (stream sn)"
      using snet_readread_shrinks [OF q] sn1 by simp
    have "length (stream sn3) \<le> length (stream sn2)"
      if "snet_readread (sn2\<lparr>sn_rstate := SNET_BOL\<rparr>) n = (x, sn3)" for x sn3
      using snet_readread_shrinks [OF that] by simp
    then show ?thesis using r h q sn2 False
      by (fastforce simp: snet_read_def Let_def split: option.splits list.splits if_splits)
  qed
qed

text \<open>A status line of a reply, skipping the lines that announce another one with \<open>-\<close>.\<close>

function (sequential) snet_getline_multi :: "nat \<Rightarrow> SNET \<Rightarrow> string option \<times> SNET" where
  "snet_getline_multi 0 sn = (None, sn)"
| "snet_getline_multi (Suc fuel) sn =
     (case snet_getline sn of
        (None, sn) \<Rightarrow> (None, sn)
      | (Some line, sn) \<Rightarrow>
          if length line < 3 then (None, sn\<lparr>sn_errno := EOTHER\<rparr>)
          else if \<not> isdigit (line ! 0) \<or> \<not> isdigit (line ! 1) \<or> \<not> isdigit (line ! 2)
          then (None, sn\<lparr>sn_errno := EOTHER\<rparr>)
          else if 3 < length line \<and> line ! 3 \<noteq> CHR '' '' \<and> line ! 3 \<noteq> CHR ''-''
          then (None, sn\<lparr>sn_errno := EOTHER\<rparr>)
          else if 3 < length line \<and> line ! 3 = CHR ''-'' then snet_getline_multi fuel sn
          else (Some line, sn))"
  by pat_completeness auto

termination by (relation "measure fst") simp_all

section \<open>Formatted output\<close>

datatype farg = FS string | FI int

fun show_base :: "nat \<Rightarrow> string \<Rightarrow> nat \<Rightarrow> string" where
  "show_base b digs n =
     (if n < b \<or> b < 2 then [digs ! n] else show_base b digs (n div b) @ [digs ! (n mod b)])"

declare show_base.simps [simp del]

text \<open>The modifiers after \<open>%\<close>: how many \<open>l\<close>, whether a \<open>u\<close>, and the rest from the conversion on.\<close>

fun modifiers :: "string \<Rightarrow> nat \<Rightarrow> bool \<Rightarrow> nat \<times> bool \<times> string" where
  "modifiers (c # f) l u =
     (if c = CHR ''l'' then modifiers f (l + 1) u
      else if c = CHR ''u'' then modifiers f l True
      else (l, u, c # f))"
| "modifiers [] l u = (l, u, [])"

definition width_of :: "nat \<Rightarrow> nat" where
  "width_of l = (if l = 0 then 32 else 64)"

definition conv_d :: "nat \<Rightarrow> bool \<Rightarrow> int \<Rightarrow> string option" where
  "conv_d l u x =
     (let w = width_of l
      in if u then Some (show_nat (nat (x mod 2 ^ w)))
         else let v = signed_take_bit (w - 1) x
              in if v = - (2 ^ (w - 1)) then None else Some (show_int v))"

text \<open>
  One conversion: its text, whether \<open>strcpy\<close> writes it, the rest of the format and of the arguments.
  None where C gives no meaning: a missing or wrong argument, \<open>%\<close> at the end of the format, the
  negation of the least integer.
\<close>

definition snet_conv :: "string \<Rightarrow> farg list \<Rightarrow> (string \<times> bool \<times> string \<times> farg list) option" where
  "snet_conv f args =
     (case modifiers f 0 False of
        (l, u, []) \<Rightarrow> None
      | (l, u, c # f) \<Rightarrow>
          if c = CHR ''s'' then
            (case args of FS p # args \<Rightarrow> Some (p, True, f, args) | _ \<Rightarrow> None)
          else if c \<in> {CHR ''c'', CHR ''d'', CHR ''o'', CHR ''x'', CHR ''X''} then
            (case args of
               FI x # args \<Rightarrow>
                 let n = nat (x mod 2 ^ width_of l)
                 in map_option (\<lambda>t. (t, False, f, args))
                      (if c = CHR ''c'' then Some [chr (nat (x mod 256))]
                       else if c = CHR ''d'' then conv_d l u x
                       else if c = CHR ''o'' then Some (show_base 8 ''01234567'' n)
                       else if c = CHR ''x'' then Some (show_base 16 ''0123456789abcdef'' n)
                       else Some (show_base 16 ''0123456789ABCDEF'' n))
             | _ \<Rightarrow> None)
          else Some (''%E'', False, f, args))"

lemma length_modifiers: "modifiers f l u = (l', u', f') \<Longrightarrow> length f' \<le> length f"
  by (induction f l u rule: modifiers.induct) (auto split: if_splits)

lemma length_snet_conv: "snet_conv f args = Some (t, b, f', args') \<Longrightarrow> length f' < length f"
  using length_modifiers [of f 0 False]
  by (fastforce simp: snet_conv_def Let_def split: prod.splits list.splits farg.splits if_splits)

text \<open>\<open>SNET_WBUFGROW(x)\<close> with \<open>cur\<close> bytes written into a buffer of \<open>n\<close>.\<close>

function wbufgrow :: "nat \<Rightarrow> nat \<Rightarrow> nat \<Rightarrow> nat" where
  "wbufgrow cur x n = (if cur + x \<le> n then n else wbufgrow cur x (n + SNET_BUFLEN))"
  by pat_completeness auto

termination by (relation "measure (\<lambda>(cur, x, n). cur + x - n)") (auto simp: SNET_BUFLEN_def)

declare wbufgrow.simps [simp del]

text \<open>
  The bytes put into the write buffer and its size afterwards.  \<open>strcpy\<close> also writes a NUL: where the
  text ends with the buffer, that NUL is outside.
\<close>

function (sequential) snet_writef :: "string \<Rightarrow> farg list \<Rightarrow> string \<Rightarrow> nat \<Rightarrow> (string \<times> nat) outcome" where
  "snet_writef [] args out n = Ret (out, n)"
| "snet_writef (c # f) args out n =
     (if c \<noteq> CHR ''%'' then
        snet_writef f args (out @ [c]) (wbufgrow (length out) 1 n)
      else case snet_conv f args of
        None \<Rightarrow> Undefined
      | Some (t, strcpy, f', args') \<Rightarrow>
          let n = wbufgrow (length out) (length t) n
          in if strcpy \<and> length out + length t = n then Undefined
             else snet_writef f' args' (out @ t) n)"
  by pat_completeness auto

termination
  by (relation "measure (\<lambda>(f, _). length f)") (auto dest: length_snet_conv)

text \<open>The text alone, as the callers of \<open>snet_writef\<close> think of it.\<close>

function (sequential) snet_format :: "string \<Rightarrow> farg list \<Rightarrow> string option" where
  "snet_format [] args = Some []"
| "snet_format (c # f) args =
     (if c \<noteq> CHR ''%'' then map_option (Cons c) (snet_format f args)
      else case snet_conv f args of
        None \<Rightarrow> None
      | Some (t, strcpy, f', args') \<Rightarrow> map_option (append t) (snet_format f' args'))"
  by pat_completeness auto

termination
  by (relation "measure (\<lambda>(f, _). length f)") (auto dest: length_snet_conv)

lemma wbufgrow_fits: "cur + x \<le> wbufgrow cur x n \<and> n \<le> wbufgrow cur x n"
proof (induction cur x n rule: wbufgrow.induct)
  case (1 cur x n)
  then show ?case by (subst (1 2) wbufgrow.simps) auto
qed

lemma wbufgrow_same: "cur + x \<le> n \<Longrightarrow> wbufgrow cur x n = n"
  by (simp add: wbufgrow.simps)

lemma snet_writef_text:
  "snet_writef f args out n = Ret (t, m) \<Longrightarrow> length out \<le> n \<Longrightarrow>
     (\<exists>s. snet_format f args = Some s \<and> t = out @ s) \<and> length t \<le> m"
proof (induction f args out n rule: snet_writef.induct)
  case (1 args out n)
  then show ?case by simp
next
  case (2 c f args out n)
  show ?case
  proof (cases "c = CHR ''%''")
    case False
    have "snet_writef f args (out @ [c]) (wbufgrow (length out) 1 n) = Ret (t, m)"
      using "2.prems"(1) False by simp
    from "2.IH"(1) [OF False this] obtain s where
      "snet_format f args = Some s" "t = (out @ [c]) @ s" "length t \<le> m"
      using wbufgrow_fits [of "length out" 1 n] by auto
    then show ?thesis using False by simp
  next
    case True
    obtain x b f' args' where c: "snet_conv f args = Some (x, b, f', args')"
      using "2.prems"(1) True by (auto split: option.splits)
    let ?n = "wbufgrow (length out) (length x) n"
    have b: "\<not> (b \<and> length out + length x = ?n)"
      and r: "snet_writef f' args' (out @ x) ?n = Ret (t, m)"
      using "2.prems"(1) True c by (simp_all add: Let_def split: if_splits)
    have "\<not> c \<noteq> CHR ''%''" using True by simp
    from "2.IH"(2) [OF this c refl refl refl refl b r] obtain s where
      "snet_format f' args' = Some s" "t = (out @ x) @ s" "length t \<le> m"
      using wbufgrow_fits [of "length out" "length x" n] by auto
    then show ?thesis using True c by simp
  qed
qed

lemma snet_writef_fits:
  "snet_format f args = Some s \<Longrightarrow> length out + length s < n \<Longrightarrow>
     snet_writef f args out n = Ret (out @ s, n)"
proof (induction f args arbitrary: s out rule: snet_format.induct)
  case (1 args)
  then show ?case by simp
next
  case (2 c f args)
  show ?case
  proof (cases "c = CHR ''%''")
    case False
    then obtain z where "snet_format f args = Some z" "s = c # z" using "2.prems"(1) by auto
    then show ?thesis using "2.IH"(1) [OF False, of z "out @ [c]"] "2.prems"(2) False
      by (simp add: wbufgrow_same)
  next
    case True
    then obtain x b f' args' z where c: "snet_conv f args = Some (x, b, f', args')"
      and z: "snet_format f' args' = Some z" "s = x @ z"
      using "2.prems"(1) by (auto split: option.splits)
    have "\<not> c \<noteq> CHR ''%''" using True by simp
    from "2.IH"(2) [OF this c refl refl refl, of z "out @ x"] show ?thesis
      using "2.prems"(2) True c z by (simp add: wbufgrow_same)
  qed
qed

text \<open>
  Whatever \<open>snet_writef\<close> returns is the formatted text, inside the (possibly grown) write
  buffer; and a text shorter than the buffer is always written.
\<close>

lemma snet_writef_correct:
  "(snet_writef f args [] n = Ret (t, m) \<longrightarrow> snet_format f args = Some t \<and> length t \<le> m) \<and>
   (snet_format f args = Some s \<longrightarrow> length s < n \<longrightarrow> snet_writef f args [] n = Ret (s, n))"
proof (intro conjI impI)
  assume "snet_writef f args [] n = Ret (t, m)"
  from snet_writef_text [OF this] show "snet_format f args = Some t" "length t \<le> m" by simp_all
next
  assume "snet_format f args = Some s" "length s < n"
  then show "snet_writef f args [] n = Ret (s, n)" using snet_writef_fits [of f args s "[]" n] by simp
qed

lemma snet_writef_correct_witness:
  "snet_writef ''%d ok %s'' [FI 200, FS ''x''] [] 4096 = Ret (''200 ok x'', 4096)"
proof -
  have "snet_format ''%d ok %s'' [FI 200, FS ''x''] = Some ''200 ok x''"
    by (simp add: snet_conv_def conv_d_def width_of_def Let_def show_int_def show_nat.simps
        signed_take_bit_int_eq_self)
  then show ?thesis
    using snet_writef_correct [of "''%d ok %s''" "[FI 200, FS ''x'']" 4096 "[]" 0 "''200 ok x''"] by simp
qed

text \<open>The byte too many: a string argument that exactly fills the buffer.\<close>

lemma snet_writef_off_by_one:
  "snet_writef ''%s'' [FS (replicate 4096 CHR ''x'')] [] SNET_BUFLEN = Undefined"
  by (simp add: snet_conv_def wbufgrow.simps SNET_BUFLEN_def)

definition fmt :: "string \<Rightarrow> farg list \<Rightarrow> string" where
  "fmt f args = (case snet_format f args of None \<Rightarrow> [] | Some t \<Rightarrow> t)"

end
