(* ===== verification/Argcargv.thy ===== *)
theory Argcargv
  imports Prelude
begin

text \<open>
  \<open>common/argcargv.c\<close>: a line is cut into words in place.  The model keeps the buffer: \<open>line\<close> is
  an index into it, \<open>argv\<close> the list of the indices stored in \<open>acv_argv\<close>, and \<open>memmove\<close> shifts the
  bytes as the code does.  Reading at or past the end of the buffer is \<open>Undefined\<close>; the section
  on the tokenizer shows that it never happens and that the words are those of a plain
  recursion over the characters.  Allocation is taken to succeed.
\<close>

definition ACV_ARGC :: nat where "ACV_ARGC = 10"
definition ACV_FLAG_DEFAULTS :: "32 word" where "ACV_FLAG_DEFAULTS = 0"
definition ACV_FLAG_BACKSLASH :: "32 word" where "ACV_FLAG_BACKSLASH = 1"
definition ACV_FLAG_QUOTE :: "32 word" where "ACV_FLAG_QUOTE = 2"

record ACAV =
  acv_argc :: nat
  acv_flags :: "32 word"

definition acav_alloc :: ACAV where
  "acav_alloc = \<lparr>acv_argc = ACV_ARGC, acv_flags = ACV_FLAG_DEFAULTS\<rparr>"

abbreviation has_quote :: "ACAV \<Rightarrow> bool" where
  "has_quote acav \<equiv> acv_flags acav AND ACV_FLAG_QUOTE \<noteq> 0"

abbreviation has_backslash :: "ACAV \<Rightarrow> bool" where
  "has_backslash acav \<equiv> acv_flags acav AND ACV_FLAG_BACKSLASH \<noteq> 0"

section \<open>The loop over the buffer\<close>

definition strlen_at :: "string \<Rightarrow> nat \<Rightarrow> nat" where
  "strlen_at buf line = length (takeWhile (\<lambda>c. c \<noteq> NUL) (drop line buf))"

text \<open>\<open>memmove(line, line + 1, strlen(line))\<close>\<close>

definition memmove1 :: "string \<Rightarrow> nat \<Rightarrow> string" where
  "memmove1 buf line =
     (let n = strlen_at buf line
      in take line buf @ take n (drop (line + 1) buf) @ drop (line + n) buf)"

text \<open>\<open>acv_argv[ac++] = line\<close>, and the array grown when it is full.\<close>

definition acav_push :: "ACAV \<Rightarrow> nat list \<Rightarrow> nat \<Rightarrow> ACAV \<times> nat list" where
  "acav_push acav argv line =
     (let argv = argv @ [line]
      in (if acv_argc acav \<le> length argv then acav\<lparr>acv_argc := acv_argc acav + ACV_ARGC\<rparr> else acav,
          argv))"

definition white :: "char \<Rightarrow> bool" where
  "white c \<longleftrightarrow> c = CHR '' '' \<or> c = TAB \<or> c = LF"

lemma memmove1_split:
  "cstr (c # s) \<Longrightarrow> memmove1 (pre @ c # s @ NUL # r) (length pre) = pre @ s @ NUL # NUL # r"
  by (auto simp: memmove1_def strlen_at_def cstr_def takeWhile_append)

lemma NUL_split:
  assumes "NUL \<in> set (drop line buf)"
  obtains pre s r where "buf = pre @ s @ NUL # r" and "length pre = line" and "cstr s"
proof -
  obtain s r where "drop line buf = s @ NUL # r" "NUL \<notin> set s"
    using assms by (metis split_list_first)
  moreover have "line < length buf" using assms by (cases "line < length buf") auto
  ultimately show ?thesis
    using that [of "take line buf" s r] by (metis append_take_drop_id cstr_def length_take min.absorb4)
qed

lemma memmove1_facts:
  assumes "NUL \<in> set (drop line buf)" and "buf ! line \<noteq> NUL"
  shows "length (memmove1 buf line) = length buf"
    and "NUL \<in> set (drop line (memmove1 buf line))"
    and "strlen_at (memmove1 buf line) line < strlen_at buf line"
proof -
  obtain pre s r where b: "buf = pre @ s @ NUL # r" "length pre = line" "cstr s"
    using assms(1) by (rule NUL_split)
  then obtain c s' where s: "s = c # s'" using assms(2) by (cases s) (auto simp: nth_append)
  have m: "memmove1 buf line = pre @ s' @ NUL # NUL # r"
    using memmove1_split [of c s' pre r] b s by simp
  show "length (memmove1 buf line) = length buf" "NUL \<in> set (drop line (memmove1 buf line))"
    "strlen_at (memmove1 buf line) line < strlen_at buf line"
    unfolding m using b s by (auto simp: strlen_at_def cstr_def takeWhile_append)
qed

text \<open>
  \<open>word\<close> and \<open>dq\<close> are the bits \<open>ACV_WORD\<close> and \<open>ACV_DQUOTE\<close> of the state.  A buffer that holds no
  NUL from \<open>line\<close> on is read past its end.
\<close>

function (sequential) acav_loop ::
  "ACAV \<Rightarrow> string \<Rightarrow> nat \<Rightarrow> nat list \<Rightarrow> bool \<Rightarrow> bool \<Rightarrow> (ACAV \<times> string \<times> nat list) outcome" where
  "acav_loop acav buf line argv word dq =
     (if NUL \<notin> set (drop line buf) then Undefined
      else if buf ! line = NUL then Ret (acav, buf, argv)
      else if white (buf ! line) then
        if word \<and> \<not> dq then acav_loop acav (buf[line := NUL]) (line + 1) argv False dq
        else acav_loop acav buf (line + 1) argv word dq
      else if buf ! line = CHR 0x22 \<and> has_quote acav \<and> dq then
        acav_loop acav (memmove1 buf line) line argv word False
      else
        let opens = (buf ! line = CHR 0x22 \<and> has_quote acav);
            buf = (if opens then memmove1 buf line else buf);
            buf = (if has_backslash acav \<and> buf ! line = CHR 0x5C then memmove1 buf line else buf);
            (acav', argv') = (if word then (acav, argv) else acav_push acav argv line)
        in acav_loop acav' buf (line + 1) argv' True (dq \<or> opens))"
  by pat_completeness auto

termination
proof (relation "measures [\<lambda>(_, buf, line, _). length buf - line, \<lambda>(_, buf, line, _). strlen_at buf line]",
    goal_cases)
  case 1
  then show ?case by simp
next
  case (2 acav buf line argv word dq)
  then have "line < length buf" by (cases "line < length buf") auto
  then have "length buf - (line + 1) < length buf - line" by linarith
  then show ?case by simp
next
  case (3 acav buf line argv word dq)
  then have "line < length buf" by (cases "line < length buf") auto
  then have "length buf - (line + 1) < length buf - line" by linarith
  then show ?case by simp
next
  case (4 acav buf line argv word dq)
  then show ?case using memmove1_facts [of line buf] by simp
next
  case (5 acav buf line argv word dq opens b1 b2 x acav' argv')
  then have l: "line < length buf" "NUL \<in> set (drop line buf)" "buf ! line \<noteq> NUL"
    by (cases "line < length buf"; simp)+
  have n: "CHR 0x5C \<noteq> NUL" by (simp add: ctrl_defs)
  have "length b1 = length buf" "NUL \<in> set (drop line b1)"
    using 5 l memmove1_facts [of line buf] by simp_all
  then have "length b2 = length buf" using 5 n memmove1_facts(1) [of line b1] by auto
  moreover have "length buf - (line + 1) < length buf - line" using l by linarith
  ultimately show ?case by simp
qed

declare acav_loop.simps [simp del]

text \<open>\<open>acav_parse\<close> returns the words the stored pointers lead to, with the descriptor.\<close>

definition words_at :: "string \<Rightarrow> nat list \<Rightarrow> string list" where
  "words_at buf argv = map (\<lambda>p. takeWhile (\<lambda>c. c \<noteq> NUL) (drop p buf)) argv"

definition acav_parse :: "ACAV \<Rightarrow> string \<Rightarrow> (ACAV \<times> string list) outcome" where
  "acav_parse acav line =
     (case acav_loop acav (line @ [NUL]) 0 [] False False of
        Ret (acav', buf, argv) \<Rightarrow> Ret (acav', words_at buf argv)
      | Exit n \<Rightarrow> Exit n
      | Undefined \<Rightarrow> Undefined)"

section \<open>The tokenizer it implements\<close>

text \<open>
  The words of a line, by recursion on its characters: \<open>cur\<close> is the word being read.  Inside
  quotes white space does not end it.  The character after an opening quote is taken as it
  is, whatever it is (so \<open>""\<close> starts a word with a quote in it); a backslash takes the one after it.
\<close>

definition unescape :: "bool \<Rightarrow> string \<Rightarrow> string" where
  "unescape b s = (if b \<and> s \<noteq> [] \<and> hd s = CHR 0x5C then tl s else s)"

definition snoc_opt :: "string option \<Rightarrow> string \<Rightarrow> string" where
  "snoc_opt cur t = (case cur of None \<Rightarrow> t | Some w \<Rightarrow> w @ t)"

lemma length_unescape: "length (unescape b s) \<le> length s"
  by (simp add: unescape_def)

function (sequential) tokens :: "bool \<Rightarrow> bool \<Rightarrow> string option \<Rightarrow> bool \<Rightarrow> string \<Rightarrow> string list" where
  "tokens q b cur dq [] = (case cur of None \<Rightarrow> [] | Some w \<Rightarrow> [w])"
| "tokens q b cur dq (c # s) =
     (if white c then
        if cur \<noteq> None \<and> \<not> dq then the cur # tokens q b None dq s
        else tokens q b (map_option (\<lambda>w. w @ [c]) cur) dq s
      else if c = CHR 0x22 \<and> q \<and> dq then tokens q b cur False s
      else
        let opens = (c = CHR 0x22 \<and> q);
            t = unescape b (if opens then s else c # s)
        in if t = [] then [snoc_opt cur []]
           else tokens q b (Some (snoc_opt cur [hd t])) (dq \<or> opens) (tl t))"
  by pat_completeness auto

termination
proof (relation "measure (\<lambda>(_, _, _, _, s). length s)", goal_cases)
  case (5 q b cur dq c s opens t)
  then show ?case using length_unescape [of b "if opens then s else c # s"]
    by (cases t) (auto split: if_splits)
qed auto

declare tokens.simps(2) [simp del]

text \<open>
  The buffer at each turn of the loop: \<open>pre\<close> has been read, \<open>s\<close> is to be read, NULs follow.
  The pointers stored so far give the words \<open>ws\<close> that are finished (a NUL ends them within
  \<open>pre\<close>), then the current one.
\<close>

definition finished :: "string \<Rightarrow> nat list \<Rightarrow> string list \<Rightarrow> bool" where
  "finished pre =
     list_all2 (\<lambda>p w. p \<le> length pre \<and> (\<exists>r. drop p pre = w @ NUL # r) \<and> cstr w)"

definition current :: "string \<Rightarrow> nat list \<Rightarrow> string option \<Rightarrow> bool" where
  "current pre ps cur \<longleftrightarrow>
     (case cur of None \<Rightarrow> ps = [] | Some w \<Rightarrow> \<exists>p. ps = [p] \<and> p \<le> length pre \<and> drop p pre = w \<and> cstr w)"

lemma takeWhile_upto: "cstr w \<Longrightarrow> takeWhile (\<lambda>c. c \<noteq> NUL) (w @ NUL # r) = w"
  by (induction w) auto

lemma finished_append: "finished pre ps ws \<Longrightarrow> finished (pre @ t) ps ws"
  unfolding finished_def by (erule list_all2_mono) auto

lemma finished_words: "finished pre ps ws \<Longrightarrow> words_at (pre @ t) ps = ws"
  unfolding finished_def words_at_def
  by (induction rule: list_all2_induct) (auto simp: takeWhile_upto)

lemma finished_snoc:
  assumes "finished pre ps ws" and "current pre [p] (Some w)"
  shows "finished (pre @ [NUL]) (ps @ [p]) (ws @ [w])"
  using finished_append [OF assms(1), of "[NUL]"] assms(2)
  by (auto simp: finished_def current_def intro: list_all2_appendI)

lemma current_words:
  "current pre ps cur \<Longrightarrow> words_at (pre @ NUL # t) ps = (case cur of None \<Rightarrow> [] | Some w \<Rightarrow> [w])"
  by (auto simp: current_def words_at_def takeWhile_upto split: option.splits)

lemma current_snoc: "current pre ps (Some w) \<Longrightarrow> c \<noteq> NUL \<Longrightarrow> current (pre @ [c]) ps (Some (w @ [c]))"
  by (auto simp: current_def)

lemma current_start: "current pre [length pre] (Some [])"
  by (simp add: current_def)

definition delivers :: "(ACAV \<times> string \<times> nat list) outcome \<Rightarrow> string list \<Rightarrow> bool" where
  "delivers r ws \<longleftrightarrow> (\<exists>acav buf argv. r = Ret (acav, buf, argv) \<and> words_at buf argv = ws \<and>
     length argv < acv_argc acav)"

lemma acav_loop_end:
  assumes "finished pre ps ws" and "current pre qs cur" and "length (ps @ qs) < acv_argc acav"
    and "line = length pre \<or> line = Suc (length pre) \<and> 0 < k"
  shows "delivers (acav_loop acav (pre @ replicate (Suc k) NUL) line (ps @ qs) word dq)
           (ws @ (case cur of None \<Rightarrow> [] | Some w \<Rightarrow> [w]))"
proof -
  have "NUL \<in> set (drop line (pre @ replicate (Suc k) NUL))"
    "(pre @ replicate (Suc k) NUL) ! line = NUL"
    using assms(4) by (auto simp: nth_append nth_Cons')
  then have "acav_loop acav (pre @ replicate (Suc k) NUL) line (ps @ qs) word dq =
      Ret (acav, pre @ replicate (Suc k) NUL, ps @ qs)"
    by (subst acav_loop.simps) simp
  then show ?thesis
    using finished_words [OF assms(1)] current_words [OF assms(2)] assms(3)
    by (simp add: delivers_def words_at_def)
qed

lemma acav_push_room:
  "length argv < acv_argc acav \<Longrightarrow> acav_push acav argv line = (acav', argv') \<Longrightarrow>
     argv' = argv @ [line] \<and> length argv' < acv_argc acav' \<and> acv_flags acav' = acv_flags acav"
  by (auto simp: acav_push_def Let_def ACV_ARGC_def split: if_splits)

text \<open>The buffer after the deletions of the default branch, of at most two bytes.\<close>

lemma default_buffer:
  fixes c s pre k opens b
  defines "b0 \<equiv> pre @ (c # s) @ replicate (Suc k) NUL"
  defines "b1 \<equiv> if opens then memmove1 b0 (length pre) else b0"
  defines "b2 \<equiv> if b \<and> b1 ! length pre = CHR 0x5C then memmove1 b1 (length pre) else b1"
  defines "t \<equiv> unescape b (if opens then s else c # s)"
  assumes "cstr (c # s)"
  obtains j where "b2 = pre @ t @ replicate (Suc j) NUL" and "t = [] \<Longrightarrow> 0 < j" and "cstr t"
proof -
  have m: "memmove1 (pre @ (x # u) @ replicate (Suc i) NUL) (length pre) =
      pre @ u @ replicate (Suc (Suc i)) NUL" if "cstr (x # u)" for x u i
    using memmove1_split [OF that, of pre "replicate i NUL"] by simp
  have ne: "CHR 0x5C \<noteq> NUL" by (simp add: ctrl_defs)
  obtain u i where u: "b1 = pre @ u @ replicate (Suc i) NUL" "cstr u" "u = [] \<Longrightarrow> 0 < i"
    "u = (if opens then s else c # s)"
  proof (cases opens)
    case True
    then show ?thesis using that [of s "Suc k"] m [of c s k] assms by (simp add: b0_def)
  next
    case False
    then show ?thesis using that [of "c # s" k] assms by (simp add: b0_def)
  qed
  have t: "t = unescape b u" by (simp add: t_def u(4))
  show ?thesis
  proof (cases "b \<and> b1 ! length pre = CHR 0x5C")
    case False
    have "t = u" using False unfolding t u(1) by (cases u) (simp_all add: unescape_def)
    moreover have "b2 = b1" using False unfolding b2_def by (rule if_not_P)
    ultimately show ?thesis using that [of i] u by simp
  next
    case True
    then obtain x v where v: "u = x # v"
      using True ne unfolding u(1) by (cases u) simp_all
    then have "t = v" "b2 = memmove1 b1 (length pre)"
      using True u(1) by (simp_all add: b2_def t unescape_def)
    then show ?thesis using that [of "Suc i"] m [of x v i] u(1,2) v by simp
  qed
qed

lemma snoc_opt_append: "snoc_opt cur s @ t = snoc_opt cur (s @ t)"
  by (simp add: snoc_opt_def split: option.splits)

lemma tokens_other:
  assumes "\<not> white c" and "\<not> (c = CHR 0x22 \<and> q \<and> dq)"
  shows "tokens q b cur dq (c # s) =
    (let opens = (c = CHR 0x22 \<and> q);
         t = unescape b (if opens then s else c # s)
     in if t = [] then [snoc_opt cur []]
        else tokens q b (Some (snoc_opt cur [hd t])) (dq \<or> opens) (tl t))"
  by (subst tokens.simps) (simp only: assms if_False)

lemma white_not_NUL: "white c \<Longrightarrow> c \<noteq> NUL"
  by (auto simp: white_def ctrl_defs)

lemma acav_loop_at:
  fixes pre s k c
  defines "buf \<equiv> pre @ (c # s) @ replicate (Suc k) NUL"
  assumes "c \<noteq> NUL"
  shows "NUL \<in> set (drop (length pre) buf)" and "buf ! length pre = c"
    and "buf[length pre := x] = pre @ x # s @ replicate (Suc k) NUL"
  using assms by (auto simp: nth_append)

lemma acav_loop_tokens:
  assumes "q = has_quote acav" and "b = has_backslash acav" and "cstr s"
    and "finished pre ps ws" and "current pre qs cur" and "length (ps @ qs) < acv_argc acav"
  shows "delivers (acav_loop acav (pre @ s @ replicate (Suc k) NUL) (length pre) (ps @ qs) (cur \<noteq> None) dq)
           (ws @ tokens q b cur dq s)"
  using assms
proof (induction q b cur dq s arbitrary: acav pre ps qs ws k rule: tokens.induct)
  case (1 q b cur dq)
  then show ?case using acav_loop_end [of pre ps ws qs cur acav "length pre" k] by simp
next
  case (2 q b cur dq c s)
  let ?buf = "pre @ (c # s) @ replicate (Suc k) NUL"
  have c: "c \<noteq> NUL" "cstr s" using "2.prems"(3) by auto
  note at = acav_loop_at [OF c(1), where pre = pre and s = s and k = k]
  consider (word_end) w where "white c" "cur = Some w" "\<not> dq"
    | (blank) "white c" "cur = None \<or> dq"
    | (close) "\<not> white c" "c = CHR 0x22 \<and> q \<and> dq"
    | (other) "\<not> white c" "\<not> (c = CHR 0x22 \<and> q \<and> dq)" by (cases cur) auto
  then show ?case
  proof cases
    case word_end
    obtain p where p: "qs = [p]" using "2.prems"(5) word_end by (auto simp: current_def)
    have "finished (pre @ [NUL]) (ps @ qs) (ws @ [w])"
      using finished_snoc "2.prems"(4,5) word_end p by simp
    from "2.IH"(1) [OF word_end(1) _ "2.prems"(1,2) c(2) this, of "[]" k] word_end "2.prems"(6)
    show ?thesis
      by (subst acav_loop.simps) (simp add: at c current_def tokens.simps p)
  next
    case blank
    have "current (pre @ [c]) qs (map_option (\<lambda>w. w @ [c]) cur)"
      using "2.prems"(5) current_snoc [OF _ c(1)] by (cases cur) (auto simp: current_def)
    from "2.IH"(2) [OF blank(1) _ "2.prems"(1,2) c(2) finished_append [OF "2.prems"(4)] this "2.prems"(6), of k] blank
    show ?thesis
      by (subst acav_loop.simps) (auto simp: at c tokens.simps)
  next
    case close
    have "memmove1 ?buf (length pre) = pre @ s @ replicate (Suc (Suc k)) NUL"
      using memmove1_split [of c s pre "replicate k NUL"] "2.prems"(3) by simp
    moreover from "2.IH"(3) [OF close "2.prems"(1,2) c(2) "2.prems"(4-6), of "Suc k"]
    have "delivers (acav_loop acav (pre @ s @ replicate (Suc (Suc k)) NUL) (length pre) (ps @ qs)
        (cur \<noteq> None) False) (ws @ tokens q b cur False s)" .
    moreover have "CHR 0x22 \<noteq> NUL" by (simp add: ctrl_defs)
    ultimately show ?thesis using close "2.prems"(1)
      by (subst acav_loop.simps) (simp add: at c tokens.simps)
  next
    case other
    define opens where "opens = (c = CHR 0x22 \<and> q)"
    define t where "t = unescape b (if opens then s else c # s)"
    define b1 where "b1 = (if opens then memmove1 ?buf (length pre) else ?buf)"
    define b2 where "b2 = (if b \<and> b1 ! length pre = CHR 0x5C then memmove1 b1 (length pre) else b1)"
    obtain j where j: "b2 = pre @ t @ replicate (Suc j) NUL" "t = [] \<Longrightarrow> 0 < j" "cstr t"
      using default_buffer [OF "2.prems"(3), where pre = pre and k = k and opens = opens and b = b]
      unfolding t_def b1_def b2_def by blast
    obtain acav' argv' where push: "(acav', argv') =
        (if cur \<noteq> None then (acav, ps @ qs) else acav_push acav (ps @ qs) (length pre))"
      by (metis surj_pair)
    obtain qs' where qs': "argv' = ps @ qs'" "current pre qs' (Some (snoc_opt cur []))"
      "length (ps @ qs') < acv_argc acav'" "acv_flags acav' = acv_flags acav"
    proof (cases cur)
      case None
      then have "qs = []" using "2.prems"(5) by (simp add: current_def)
      then show ?thesis
        using that [of "[length pre]"] None push "2.prems"(6) current_start [of pre]
          acav_push_room [of "ps @ qs" acav "length pre" acav' argv']
        by (auto simp: snoc_opt_def)
    next
      case (Some w)
      then show ?thesis using that [of qs] push "2.prems" by (simp add: snoc_opt_def)
    qed
    have step: "acav_loop acav ?buf (length pre) (ps @ qs) (cur \<noteq> None) dq =
        acav_loop acav' b2 (length pre + 1) argv' True (dq \<or> opens)"
      using other push
      by (subst acav_loop.simps)
        (simp only: at c if_False opens_def b1_def b2_def "2.prems"(1,2) Let_def not_not simp_thms prod.case push [symmetric])
    show ?thesis
    proof (cases t)
      case Nil
      have "tokens q b cur dq (c # s) = [snoc_opt cur []]"
        using tokens_other [OF other] Nil by (simp add: t_def opens_def Let_def)
      moreover have "delivers (acav_loop acav' b2 (length pre + 1) argv' True (dq \<or> opens))
          (ws @ [snoc_opt cur []])"
        using acav_loop_end [OF "2.prems"(4) qs'(2,3), of "length pre + 1" j] j Nil qs'(1) by simp
      ultimately show ?thesis using step by simp
    next
      case (Cons h u)
      have h: "h \<noteq> NUL" "cstr u" using j(3) Cons by auto
      have "tokens q b cur dq (c # s) = tokens q b (Some (snoc_opt cur [h])) (dq \<or> opens) u"
        using tokens_other [OF other] Cons by (simp add: t_def opens_def Let_def)
      moreover have "delivers (acav_loop acav' ((pre @ [h]) @ u @ replicate (Suc j) NUL)
          (length (pre @ [h])) (ps @ qs') (Some (snoc_opt cur [h]) \<noteq> None) (dq \<or> opens))
          (ws @ tokens q b (Some (snoc_opt cur [h])) (dq \<or> opens) u)"
        using "2.IH"(4) [OF other opens_def t_def, unfolded Cons, of acav' "pre @ [h]" ps ws qs' j]
          h qs' "2.prems"(1,2) finished_append [OF "2.prems"(4)] current_snoc [OF qs'(2) h(1)]
        by (simp add: snoc_opt_append)
      ultimately show ?thesis using step j(1) Cons qs'(1) by simp
    qed
  qed
qed

lemma acav_parse_tokens:
  assumes "cstr line" and "0 < acv_argc acav"
  shows "\<exists>acav' argv. acav_parse acav line = Ret (acav', argv) \<and>
     argv = tokens (has_quote acav) (has_backslash acav) None False line \<and>
     length argv < acv_argc acav'"
proof -
  have "delivers (acav_loop acav (line @ [NUL]) 0 [] False False)
      (tokens (has_quote acav) (has_backslash acav) None False line)"
    using acav_loop_tokens [of _ acav _ line "[]" "[]" "[]" "[]" None 0] assms
    by (simp add: finished_def current_def)
  then obtain acav' buf argv where r: "acav_loop acav (line @ [NUL]) 0 [] False False = Ret (acav', buf, argv)"
    and w: "words_at buf argv = tokens (has_quote acav) (has_backslash acav) None False line"
    and l: "length argv < acv_argc acav'"
    unfolding delivers_def by blast
  have "length (words_at buf argv) = length argv" by (simp add: words_at_def)
  then show ?thesis using r w l by (simp add: acav_parse_def)
qed

text \<open>
  C31.  On every line without an inner NUL, with every setting of the two flags, \<open>acav_parse\<close>
  stays inside the line's buffer, ends, and returns the words of the tokenizer; there is
  room in \<open>acv_argv\<close> for the null pointer stored after the last of them.
\<close>

theorem acav_parse_refines_tokens:
  assumes "cstr line" and "0 < acv_argc acav"
  shows "\<exists>acav' argv. acav_parse acav line = Ret (acav', argv) \<and>
     argv = tokens (has_quote acav) (has_backslash acav) None False line \<and>
     length argv < acv_argc acav'"
  using assms by (rule acav_parse_tokens)

lemma acav_parse_refines_tokens_witness:
  "\<exists>acav' argv. acav_parse (acav_alloc\<lparr>acv_flags := 3\<rparr>) ''a b'' = Ret (acav', argv) \<and>
     argv = tokens True True None False ''a b'' \<and> length argv < acv_argc acav'"
  using acav_parse_refines_tokens [of "''a b''" "acav_alloc\<lparr>acv_flags := 3\<rparr>"]
  by (simp add: ctrl_defs acav_alloc_def ACV_ARGC_def ACV_FLAG_QUOTE_def ACV_FLAG_BACKSLASH_def)

section \<open>The words of a line without quotes\<close>

text \<open>
  The daemon and the clients parse with the default flags; there a line is split at white
  space and nothing else is special.
\<close>

definition argcargv :: "string \<Rightarrow> string list" where
  "argcargv line = tokens False False None False line"

definition word_ok :: "string \<Rightarrow> bool" where
  "word_ok w \<longleftrightarrow> w \<noteq> [] \<and> cstr w \<and> (\<forall>c \<in> set w. \<not> white c)"

fun join :: "string list \<Rightarrow> string" where
  "join [] = []"
| "join [w] = w"
| "join (w # v # ws) = w @ CHR '' '' # join (v # ws)"

lemma tokens_plain: "tokens False False cur False (c # s) =
  (if white c then (case cur of None \<Rightarrow> [] | Some w \<Rightarrow> [w]) @ tokens False False None False s
   else tokens False False (Some (snoc_opt cur [c])) False s)"
  by (simp add: tokens.simps unescape_def split: option.splits)

lemma tokens_word:
  "\<forall>c \<in> set w. \<not> white c \<Longrightarrow> w \<noteq> [] \<or> cur \<noteq> None \<Longrightarrow>
     tokens False False cur False (w @ s) = tokens False False (Some (snoc_opt cur w)) False s"
proof (induction w arbitrary: cur)
  case Nil
  then show ?case by (auto simp: snoc_opt_def)
next
  case (Cons c w)
  then show ?case by (simp add: tokens_plain) (simp add: snoc_opt_def split: option.splits)
qed

lemma white_blank [simp]: "white CHR '' ''"
  by (simp add: white_def)

lemma argcargv_nil [simp]: "argcargv [] = []"
  by (simp add: argcargv_def)

lemma argcargv_word_white:
  "word_ok w \<Longrightarrow> white c \<Longrightarrow> argcargv (w @ c # s) = w # argcargv s"
  by (simp add: argcargv_def word_ok_def tokens_word tokens_plain snoc_opt_def)

lemma argcargv_white: "white c \<Longrightarrow> argcargv (c # s) = argcargv s"
  by (simp add: argcargv_def tokens_plain)

lemma argcargv_last: "word_ok w \<Longrightarrow> argcargv w = [w]"
  using tokens_word [of w None "[]"] by (simp add: argcargv_def word_ok_def snoc_opt_def)

lemma argcargv_join: "\<forall>w \<in> set ws. word_ok w \<Longrightarrow> argcargv (join ws) = ws"
  by (induction ws rule: join.induct) (simp_all add: argcargv_last argcargv_word_white)

lemma tokens_word_ok:
  "cstr s \<Longrightarrow> (\<forall>v. cur = Some v \<longrightarrow> word_ok v) \<Longrightarrow> \<forall>w \<in> set (tokens False False cur False s). word_ok w"
proof (induction s arbitrary: cur)
  case Nil
  then show ?case by (simp split: option.splits)
next
  case (Cons c s)
  have s: "cstr s" "c \<noteq> NUL" using Cons.prems(1) by simp_all
  show ?case
  proof (cases "white c")
    case True
    then show ?thesis using Cons.IH [OF s(1), of None] Cons.prems(2)
      by (auto simp: tokens_plain split: option.splits)
  next
    case False
    then have "word_ok (snoc_opt cur [c])"
      using Cons.prems(2) s by (auto simp: snoc_opt_def word_ok_def split: option.splits)
    then have "\<forall>w \<in> set (tokens False False (Some (snoc_opt cur [c])) False s). word_ok w"
      by (intro Cons.IH [OF s(1)]) simp
    then show ?thesis by (simp only: tokens_plain False if_False)
  qed
qed

lemma argcargv_words: "cstr s \<Longrightarrow> w \<in> set (argcargv s) \<Longrightarrow> word_ok w"
  unfolding argcargv_def by (rule bspec [OF tokens_word_ok]) simp_all

lemma acav_parse_default:
  assumes "cstr line" and "0 < acv_argc acav" and "acv_flags acav = ACV_FLAG_DEFAULTS"
  shows "\<exists>acav'. acav_parse acav line = Ret (acav', argcargv line)"
proof -
  obtain acav' where "acav_parse acav line =
      Ret (acav', tokens (has_quote acav) (has_backslash acav) None False line)"
    using acav_parse_tokens [OF assms(1,2)] by blast
  then show ?thesis by (simp add: assms(3) argcargv_def ACV_FLAG_DEFAULTS_def)
qed

text \<open>Words joined by single blanks are a codec.\<close>

interpretation words: codec "\<lambda>ws. \<forall>w \<in> set ws. word_ok w" join "\<lambda>l. Some (argcargv l)"
  by unfold_locales (simp add: argcargv_join)

end
