(* ===== verification/Conf.thy ===== *)
theory Conf
  imports Snet Argcargv
begin

text \<open>
  \<open>common/conf.c\<close>: the configuration file, and the lookups by regular expression that the daemon
  and the CGI base their decisions on.  The POSIX functions \<open>regcomp\<close> and \<open>regexec\<close> are a
  parameter, the record \<open>regex\<close>.  A pointer \<open>sl_auth\<close> into the list of hosts is an index into it;
  the linked lists are lists in order.  Files are a map from paths to contents; as many nested
  \<open>include\<close> files can be open as there are descriptors, the fuel of \<open>read_config\<close>.
\<close>

section \<open>Regular expressions\<close>

text \<open>A match is the list of the offset pairs \<open>rm_so\<close>, \<open>rm_eo\<close>.  The flag is \<open>REG_ICASE\<close>; all are compiled with \<open>REG_EXTENDED\<close>.\<close>

datatype exec = Match "(int \<times> int) list" | No_match | Exec_error

record regex =
  regcomp :: "bool \<Rightarrow> string \<Rightarrow> bool"
  regexec :: "bool \<Rightarrow> string \<Rightarrow> string \<Rightarrow> exec"

definition rm :: "(int \<times> int) list \<Rightarrow> nat \<Rightarrow> int \<times> int" where
  "rm ms i = (if i < length ms then ms ! i else (-1, -1))"

section \<open>Data\<close>

datatype al_key = NOTAUTH | CGI | SERVICE | DAEMON

definition SL_TICKET :: "32 word" where "SL_TICKET = 1"
definition SL_REAUTH :: "32 word" where "SL_REAUTH = 2"
definition SL_SCHEME_V2 :: "32 word" where "SL_SCHEME_V2 = 4"
definition AL_PROXY :: "32 word" where "AL_PROXY = 1"
definition COSIGN_MAXFACTORS :: nat where "COSIGN_MAXFACTORS = 5"
definition FL_MAXFORMFIELDS :: nat where "FL_MAXFORMFIELDS = 6"

record proxies =
  pr_hostname :: string
  pr_cookie :: string

record authlist =
  al_hostname :: string
  al_key :: al_key
  al_flag :: "32 word"
  al_proxies :: "proxies list"

record servicelist =
  sl_cookie :: string
  sl_cookiesub :: "string option"
  sl_wkurl :: string
  sl_flag :: "32 word"
  sl_factors :: "string list"
  sl_auth :: nat

record factorlist =
  fl_path :: string
  fl_flag :: int
  fl_formfield :: "string list"

record matchlist =
  ml_key :: "string option"
  ml_regexp :: string
  ml_login :: string
  ml_realm :: string

record cosigncfg =
  cc_key :: string
  cc_value :: "string list"

text \<open>The static variables of the file.\<close>

record conf =
  cf_authlist :: "authlist list"
  cf_new_authlist :: "authlist list"
  cf_servicelist :: "servicelist list"
  cf_new_servicelist :: "servicelist list"
  cf_cfg :: "cosigncfg list"
  cf_new_cfg :: "cosigncfg list"
  cf_factorlist :: "factorlist list"
  cf_certlist :: "matchlist list"
  cf_negotiatemap :: "matchlist option"
  cf_authenticatorlist :: "matchlist list"
  cf_suffix :: "string option"

definition conf_init :: conf where
  "conf_init =
     \<lparr>cf_authlist = [], cf_new_authlist = [], cf_servicelist = [], cf_new_servicelist = [],
      cf_cfg = [], cf_new_cfg = [], cf_factorlist = [], cf_certlist = [], cf_negotiatemap = None,
      cf_authenticatorlist = [], cf_suffix = None\<rparr>"

section \<open>Lookups\<close>

fun cosign_config_get_all :: "cosigncfg list \<Rightarrow> string \<Rightarrow> string list" where
  "cosign_config_get_all [] key = []"
| "cosign_config_get_all (c # cs) key =
     (if cc_key c = key \<and> cc_value c \<noteq> [] then cc_value c else cosign_config_get_all cs key)"

fun cosign_config_get :: "cosigncfg list \<Rightarrow> string \<Rightarrow> string option" where
  "cosign_config_get [] key = None"
| "cosign_config_get (c # cs) key =
     (if cc_key c = key \<and> cc_value c \<noteq> [] then Some (hd (cc_value c)) else cosign_config_get cs key)"

text \<open>The service whose pattern matches the whole name, and the match left in the caller's array.\<close>

fun service_find :: "regex \<Rightarrow> servicelist list \<Rightarrow> string \<Rightarrow> (servicelist \<times> (int \<times> int) list) option" where
  "service_find rx [] cookie = None"
| "service_find rx (s # ss) cookie =
     (if \<not> regcomp rx False (sl_cookie s) then service_find rx ss cookie
      else case regexec rx False (sl_cookie s) cookie of
        Match ms \<Rightarrow>
          if fst (rm ms 0) = 0 \<and> snd (rm ms 0) = int (length cookie) then Some (s, ms)
          else service_find rx ss cookie
      | _ \<Rightarrow> service_find rx ss cookie)"

text \<open>The host whose pattern matches somewhere in the name; a bad pattern ends the search.\<close>

fun authlist_find :: "regex \<Rightarrow> authlist list \<Rightarrow> string \<Rightarrow> authlist option" where
  "authlist_find rx [] hostname = None"
| "authlist_find rx (a # as) hostname =
     (if \<not> regcomp rx True (al_hostname a) then None
      else case regexec rx True (al_hostname a) hostname of
        Match _ \<Rightarrow> Some a
      | Exec_error \<Rightarrow> None
      | No_match \<Rightarrow> authlist_find rx as hostname)"

section \<open>Substitution\<close>

text \<open>
  What \<open>$\<close> and the character \<open>d\<close> after it stand for (\<open>p\<close> follows).  Only that one character of
  the pattern is passed over, however long the number; where no number follows, it is
  dropped.  A negative number reads before \<open>matches\<close>.  (A match has \<open>rm_so\<close> at most \<open>rm_eo\<close>.)
\<close>

definition submatch :: "string \<Rightarrow> int \<times> int \<Rightarrow> string" where
  "submatch source m =
     (let t = take (nat (snd m - fst m)) (drop (nat (fst m)) source)
      in t @ replicate (nat (snd m - fst m) - length t) NUL)"

definition dollar :: "char \<Rightarrow> string \<Rightarrow> nat \<Rightarrow> (int \<times> int) list \<Rightarrow> string \<Rightarrow> string outcome" where
  "dollar d p nmatch ms source =
     (if d = CHR ''$'' then Ret ''$''
      else
        let (v, numend, overflow) = strtol (d # p);
            i = to_int v;
            numlen = length (d # p) - length numend
        in if numlen = 0 then Ret ''$''
           else if int nmatch \<le> i then Ret (''$'' @ take numlen (d # p))
           else if i < 0 then Undefined
           else Ret (submatch source (rm ms (nat i))))"

text \<open>The text in a buffer of \<open>len\<close> bytes, or -1 (\<open>None\<close>); every copy is preceded by a check for room.\<close>

fun match_substitute_loop ::
  "string \<Rightarrow> string \<Rightarrow> nat \<Rightarrow> nat \<Rightarrow> (int \<times> int) list \<Rightarrow> string \<Rightarrow> string option outcome" where
  "match_substitute_loop [] b len nmatch ms source = Ret (if len \<le> length b + 1 then None else Some b)"
| "match_substitute_loop (c # p) b len nmatch ms source =
     (if c = CHR ''$'' then
        (case p of
           [] \<Rightarrow> Ret None
         | d # p' \<Rightarrow>
             (case dollar d p' nmatch ms source of
                Ret t \<Rightarrow>
                  if len \<le> length b + length t then Ret None
                  else match_substitute_loop p' (b @ t) len nmatch ms source
              | Exit n \<Rightarrow> Exit n
              | Undefined \<Rightarrow> Undefined))
      else if len \<le> length b + 1 then Ret None
      else match_substitute_loop p (b @ [c]) len nmatch ms source)"

definition match_substitute ::
  "string \<Rightarrow> nat \<Rightarrow> nat \<Rightarrow> (int \<times> int) list \<Rightarrow> string \<Rightarrow> string option outcome" where
  "match_substitute pattern len nmatch ms source = match_substitute_loop pattern [] len nmatch ms source"

lemma match_substitute_loop_bound:
  "match_substitute_loop p b len nmatch ms source = Ret (Some t) \<Longrightarrow> length t + 1 < len"
  by (induction p b len nmatch ms source rule: match_substitute_loop.induct)
    (auto split: if_splits list.splits outcome.splits)

lemma match_substitute_plain:
  "CHR ''$'' \<notin> set p \<Longrightarrow> length b + length p + 1 < len \<Longrightarrow>
     match_substitute_loop p b len nmatch ms source = Ret (Some (b @ p))"
  by (induction p arbitrary: b) auto

section \<open>User names\<close>

text \<open>Return code, and what is left in \<open>*l\<close> and \<open>*r\<close> (where they are set).\<close>

definition matchlist_process ::
  "regex \<Rightarrow> matchlist \<Rightarrow> string \<Rightarrow> (int \<times> string option \<times> string option) outcome" where
  "matchlist_process rx ml userstring =
     (if \<not> regcomp rx False (ml_regexp ml) then Ret (-1, None, None)
      else case regexec rx False (ml_regexp ml) userstring of
        Match ms \<Rightarrow>
          if fst (rm ms 0) \<noteq> 0 \<or> snd (rm ms 0) \<noteq> int (length userstring) then Ret (-1, None, None)
          else (case match_substitute (ml_login ml) 130 3 ms userstring of
            Ret None \<Rightarrow> Ret (-1, None, None)
          | Ret (Some l) \<Rightarrow>
              (case match_substitute (ml_realm ml) 256 3 ms userstring of
                 Ret None \<Rightarrow> Ret (-1, Some l, None)
               | Ret (Some r) \<Rightarrow> Ret (0, Some l, Some r)
               | Exit n \<Rightarrow> Exit n
               | Undefined \<Rightarrow> Undefined)
          | Exit n \<Rightarrow> Exit n
          | Undefined \<Rightarrow> Undefined)
      | _ \<Rightarrow> Ret (-1, None, None))"

fun x509_translate ::
  "regex \<Rightarrow> matchlist list \<Rightarrow> string \<Rightarrow> string \<Rightarrow> (int \<times> string option \<times> string option) outcome" where
  "x509_translate rx [] subject issuer = Ret (-1, None, None)"
| "x509_translate rx (m # ms) subject issuer =
     (if ml_key m \<noteq> Some issuer then x509_translate rx ms subject issuer
      else case matchlist_process rx m subject of
        Ret (rc, l, r) \<Rightarrow> if rc = 0 then Ret (0, l, r) else x509_translate rx ms subject issuer
      | Exit n \<Rightarrow> Exit n
      | Undefined \<Rightarrow> Undefined)"

definition negotiate_translate ::
  "regex \<Rightarrow> conf \<Rightarrow> string \<Rightarrow> (int \<times> string option \<times> string option) outcome" where
  "negotiate_translate rx cf remote_user =
     (case cf_negotiatemap cf of
        Some ml \<Rightarrow> matchlist_process rx ml remote_user
      | None \<Rightarrow> Ret (-1, None, None))"

definition defmysqlauthenticator :: matchlist where
  "defmysqlauthenticator =
     \<lparr>ml_key = Some ''mysql'', ml_regexp = ''(.+@.+)'', ml_login = ''$1'', ml_realm = ''friend''\<rparr>"

definition defkerberosauthenticator :: matchlist where
  "defkerberosauthenticator =
     \<lparr>ml_key = Some ''kerberos'', ml_regexp = ''([^@]+)'', ml_login = ''$1'', ml_realm = []\<rparr>"

text \<open>\<open>pos\<close> is the rest of the list from \<open>*pos\<close> on.  The result holds the authenticator's key and names.\<close>

fun try_authenticators ::
  "regex \<Rightarrow> string \<Rightarrow> matchlist list \<Rightarrow> (matchlist list \<times> string option \<times> string option) outcome" where
  "try_authenticators rx login [] = Ret ([], None, None)"
| "try_authenticators rx login (m # ms) =
     (case matchlist_process rx m login of
        Ret (rc, l, r) \<Rightarrow> if rc = 0 then Ret (m # ms, l, r) else try_authenticators rx login ms
      | Exit n \<Rightarrow> Exit n
      | Undefined \<Rightarrow> Undefined)"

definition pick_authenticator ::
  "regex \<Rightarrow> conf \<Rightarrow> string \<Rightarrow> matchlist list \<Rightarrow>
     (int \<times> string option \<times> string option \<times> string option \<times> matchlist list \<times> conf) outcome" where
  "pick_authenticator rx cf login pos =
     (let cf = (if cf_authenticatorlist cf = []
                then cf\<lparr>cf_authenticatorlist := [defmysqlauthenticator, defkerberosauthenticator]\<rparr>
                else cf);
          pos = (if pos = [] then cf_authenticatorlist cf else tl pos)
      in case try_authenticators rx login pos of
           Ret ([], _, _) \<Rightarrow> Ret (-1, None, None, None, [], cf)
         | Ret (m # ms, l, r) \<Rightarrow> Ret (0, ml_key m, l, r, m # ms, cf)
         | Exit n \<Rightarrow> Exit n
         | Undefined \<Rightarrow> Undefined)"

end
