(* ===== verification/Conf_read.thy ===== *)
theory Conf_read
  imports Conf
begin

text \<open>
  The second half of \<open>common/conf.c\<close>: \<open>read_config\<close>, keyword by keyword, \<open>proxy_read\<close> and
  \<open>cosign_config\<close>, which replaces the live lists when the whole file could be read.  Every
  keyword gives back whether reading goes on and the (changed) static variables; messages to
  \<open>stderr\<close> and failing allocations are left out.
\<close>

section \<open>Lines of a file\<close>

lemma next_line_shorter: "next_line st acc s = Some (l, st', r) \<Longrightarrow> length r < length s + length acc"
  by (induction st acc s rule: next_line.induct) (auto split: if_splits)

function (sequential) lines_of :: "rstate \<Rightarrow> string \<Rightarrow> string list" where
  "lines_of st s =
     (case next_line st [] s of None \<Rightarrow> [] | Some (l, st', r) \<Rightarrow> l # lines_of st' r)"
  by pat_completeness auto

termination
proof (relation "measure (\<lambda>(st, s). length s)", goal_cases)
  case 1
  then show ?case by simp
next
  case (2 st s a l b st' r)
  then show ?case using next_line_shorter [of st "[]" s l st' r] by auto
qed

declare lines_of.simps [simp del]

text \<open>The loop \<open>while (( line = snet_getline( sn, NULL )) != NULL )\<close> over a file sees these lines.\<close>

lemma lines_of_snet:
  assumes "sn_ready sn"
  shows "(case snet_getline sn of
            (None, sn') \<Rightarrow> lines_of (sn_rstate sn) (stream sn) = []
          | (Some l, sn') \<Rightarrow> sn_ready sn' \<and>
              lines_of (sn_rstate sn) (stream sn) = l # lines_of (sn_rstate sn') (stream sn'))"
proof -
  have "line_result (next_line (sn_rstate sn) [] (stream sn)) (snet_getline sn)"
    unfolding snet_getline_def using snet_getline_loop_line [OF assms, of 0] by simp
  then show ?thesis
    by (subst (1 2) lines_of.simps)
      (cases "snet_getline sn"; cases "next_line (sn_rstate sn) [] (stream sn)";
        auto simp only: line_result_def option.case prod.case fst_conv snd_conv split: prod.splits)
qed

definition comment :: "string list \<Rightarrow> bool" where
  "comment av \<longleftrightarrow> av = [] \<or> take 1 (hd av) = ''#''"

type_synonym files = "string \<Rightarrow> string option"

section \<open>Proxies\<close>

fun proxy_lines :: "string list \<Rightarrow> authlist \<Rightarrow> bool \<times> authlist" where
  "proxy_lines [] al = (True, al)"
| "proxy_lines (line # ls) al =
     (let av = argcargv line
      in if comment av then proxy_lines ls al
         else if length av \<noteq> 2 then (False, al)
         else proxy_lines ls
           (al\<lparr>al_proxies := \<lparr>pr_hostname = av ! 0, pr_cookie = av ! 1\<rparr> # al_proxies al\<rparr>))"

definition proxy_read :: "files \<Rightarrow> nat \<Rightarrow> authlist \<Rightarrow> string \<Rightarrow> bool \<times> authlist" where
  "proxy_read fs fds al path =
     (case fs path of
        None \<Rightarrow> (False, al)
      | Some s \<Rightarrow> if fds = 0 then (False, al) else proxy_lines (lines_of SNET_BOL s) al)"

section \<open>Keywords\<close>

fun update_first :: "('a \<Rightarrow> bool) \<Rightarrow> ('a \<Rightarrow> 'a) \<Rightarrow> 'a list \<Rightarrow> 'a list" where
  "update_first P f [] = []"
| "update_first P f (x # xs) = (if P x then f x # xs else x # update_first P f xs)"

fun index_of :: "('a \<Rightarrow> bool) \<Rightarrow> 'a list \<Rightarrow> nat option" where
  "index_of P [] = None"
| "index_of P (x # xs) = (if P x then Some 0 else map_option Suc (index_of P xs))"

definition conf_set :: "string list \<Rightarrow> conf \<Rightarrow> bool \<times> conf" where
  "conf_set av c =
     (if length av < 3 then (False, c)
      else (True, c\<lparr>cf_new_cfg := cf_new_cfg c @ [\<lparr>cc_key = av ! 1, cc_value = drop 2 av\<rparr>]\<rparr>))"

text \<open>The flag is set before the number of factors is looked at.\<close>

definition conf_reauth :: "string list \<Rightarrow> conf \<Rightarrow> bool \<times> conf" where
  "conf_reauth av c =
     (if length av < 2 then (False, c)
      else if \<not> list_ex (\<lambda>sl. sl_cookie sl = av ! 1) (cf_new_servicelist c) then (False, c)
      else
        let change = (\<lambda>f. c\<lparr>cf_new_servicelist :=
              update_first (\<lambda>sl. sl_cookie sl = av ! 1) f (cf_new_servicelist c)\<rparr>)
        in if COSIGN_MAXFACTORS \<le> length av - 2
           then (False, change (\<lambda>sl. sl\<lparr>sl_flag := sl_flag sl OR SL_REAUTH\<rparr>))
           else (True, change (\<lambda>sl. sl\<lparr>sl_flag := sl_flag sl OR SL_REAUTH, sl_factors := drop 2 av\<rparr>)))"

definition matchlist_of :: "string option \<Rightarrow> string list \<Rightarrow> matchlist" where
  "matchlist_of key av = \<lparr>ml_key = key, ml_regexp = av ! 0, ml_login = av ! 1, ml_realm = av ! 2\<rparr>"

definition conf_cert :: "string list \<Rightarrow> conf \<Rightarrow> bool \<times> conf" where
  "conf_cert av c =
     (if length av \<noteq> 5 then (False, c)
      else (True, c\<lparr>cf_certlist := cf_certlist c @ [matchlist_of (Some (av ! 1)) (drop 2 av)]\<rparr>))"

definition conf_negotiate :: "string list \<Rightarrow> conf \<Rightarrow> bool \<times> conf" where
  "conf_negotiate av c =
     (if length av \<noteq> 4 then (False, c)
      else if cf_negotiatemap c \<noteq> None then (False, c)
      else (True, c\<lparr>cf_negotiatemap := Some (matchlist_of None (drop 1 av))\<rparr>))"

definition conf_passwd :: "string list \<Rightarrow> conf \<Rightarrow> bool \<times> conf" where
  "conf_passwd av c =
     (if length av \<noteq> 5 then (False, c)
      else (True, c\<lparr>cf_authenticatorlist :=
             cf_authenticatorlist c @ [matchlist_of (Some (av ! 1)) (drop 2 av)]\<rparr>))"

text \<open>The flags of a factor.  The loop looks at the word after the last flag even where there is none.\<close>

fun factor_flags :: "string list \<Rightarrow> int \<Rightarrow> (int \<times> string list) option outcome" where
  "factor_flags [] fl = Undefined"
| "factor_flags (w # ws) fl =
     (if take 1 w = ''-'' then (if w = ''-2'' then factor_flags ws 2 else Ret None)
      else Ret (Some (fl, w # ws)))"

definition conf_factor :: "string list \<Rightarrow> conf \<Rightarrow> (bool \<times> conf) outcome" where
  "conf_factor av c =
     (if length av < 3 then Ret (False, c)
      else case factor_flags (drop 2 av) 0 of
        Ret None \<Rightarrow> Ret (False, c)
      | Ret (Some (fl, ws)) \<Rightarrow>
          if FL_MAXFORMFIELDS - 1 < length ws then Ret (False, c)
          else Ret (True, c\<lparr>cf_factorlist := cf_factorlist c @
                 [\<lparr>fl_path = av ! 1, fl_flag = fl, fl_formfield = ws\<rparr>]\<rparr>)
      | Exit n \<Rightarrow> Exit n
      | Undefined \<Rightarrow> Undefined)"

definition conf_suffix :: "string list \<Rightarrow> conf \<Rightarrow> bool \<times> conf" where
  "conf_suffix av c =
     (if length av \<noteq> 2 then (False, c)
      else if cf_suffix c \<noteq> None then (False, c)
      else (True, c\<lparr>cf_suffix := Some (av ! 1)\<rparr>))"

definition conf_proxy :: "files \<Rightarrow> nat \<Rightarrow> string list \<Rightarrow> conf \<Rightarrow> bool \<times> conf" where
  "conf_proxy fs fds av c =
     (if length av \<noteq> 3 then (False, c)
      else case index_of (\<lambda>a. al_hostname a = av ! 1) (cf_new_authlist c) of
        None \<Rightarrow> (False, c)
      | Some i \<Rightarrow>
          let al = cf_new_authlist c ! i
          in if al_key al \<noteq> SERVICE then (False, c)
             else
               let (ok, al) = proxy_read fs fds al (av ! 2);
                   al = (if ok then al\<lparr>al_flag := al_flag al OR AL_PROXY\<rparr> else al)
               in (ok, c\<lparr>cf_new_authlist := (cf_new_authlist c)[i := al]\<rparr>))"

definition auth_entry :: "al_key \<Rightarrow> string \<Rightarrow> authlist" where
  "auth_entry key host = \<lparr>al_hostname = host, al_key = key, al_flag = 0, al_proxies = []\<rparr>"

text \<open>
  The entry is put at the end of the list only while the local flag \<open>insert\<close> is set.  The
  keyword \<open>service\<close> sets the flag anew; \<open>cgi\<close> and \<open>notauth\<close> find it as the last \<open>service\<close> left it.
\<close>

definition insert_auth :: "bool \<Rightarrow> authlist \<Rightarrow> conf \<Rightarrow> conf" where
  "insert_auth ins al c =
     (if ins then c\<lparr>cf_new_authlist := cf_new_authlist c @ [al]\<rparr> else c)"

definition conf_cgi :: "al_key \<Rightarrow> string list \<Rightarrow> bool \<Rightarrow> conf \<Rightarrow> bool \<times> conf" where
  "conf_cgi key av ins c =
     (if length av \<noteq> 2 then (False, c) else (True, insert_auth ins (auth_entry key (av ! 1)) c))"

definition service_entry :: "string list \<Rightarrow> nat \<Rightarrow> servicelist" where
  "service_entry av auth =
     \<lparr>sl_cookie = av ! 1, sl_cookiesub = (if length av = 6 then Some (av ! 5) else None),
      sl_wkurl = av ! 2,
      sl_flag = (if CHR ''T'' \<in> set (av ! 3) then SL_TICKET else 0) OR
                (if CHR ''2'' \<in> set (av ! 3) then SL_SCHEME_V2 else 0),
      sl_factors = [], sl_auth = auth\<rparr>"

definition conf_service :: "string list \<Rightarrow> bool \<Rightarrow> conf \<Rightarrow> bool \<times> bool \<times> conf" where
  "conf_service av ins c =
     (if length av \<noteq> 5 \<and> length av \<noteq> 6 then (False, ins, c)
      else
        let found = index_of (\<lambda>a. al_key a = SERVICE \<and> al_hostname a = av ! 4) (cf_new_authlist c);
            ins = (found = None);
            auth = (case found of Some i \<Rightarrow> i | None \<Rightarrow> length (cf_new_authlist c));
            c = c\<lparr>cf_new_servicelist := cf_new_servicelist c @ [service_entry av auth]\<rparr>
        in (True, ins, insert_auth ins (auth_entry SERVICE (av ! 4)) c))"

section \<open>The file\<close>

text \<open>One line that is neither empty nor a comment; \<open>rec\<close> reads an included file.\<close>

definition conf_line ::
  "(string \<Rightarrow> conf \<Rightarrow> (bool \<times> conf) outcome) \<Rightarrow> files \<Rightarrow> nat \<Rightarrow> string list \<Rightarrow> bool \<Rightarrow> conf \<Rightarrow>
     (bool \<times> bool \<times> conf) outcome" where
  "conf_line rec fs fds av ins c =
     (let keep = (\<lambda>(ok, c). (ok, ins, c)); kw = hd av
      in if kw = ''set'' then Ret (keep (conf_set av c))
         else if kw = ''include'' then
           (if length av \<noteq> 2 then Ret (True, ins, c)
            else case rec (av ! 1) c of
              Ret r \<Rightarrow> Ret (keep r) | Exit n \<Rightarrow> Exit n | Undefined \<Rightarrow> Undefined)
         else if kw = ''reauth'' then Ret (keep (conf_reauth av c))
         else if kw = ''cert'' then Ret (keep (conf_cert av c))
         else if kw = ''negotiate'' then Ret (keep (conf_negotiate av c))
         else if kw = ''passwd'' then Ret (keep (conf_passwd av c))
         else if kw = ''factor'' then
           (case conf_factor av c of
              Ret r \<Rightarrow> Ret (keep r) | Exit n \<Rightarrow> Exit n | Undefined \<Rightarrow> Undefined)
         else if kw = ''suffix'' then Ret (keep (conf_suffix av c))
         else if kw = ''proxy'' then Ret (keep (conf_proxy fs fds av c))
         else if kw = ''cgi'' then Ret (keep (conf_cgi CGI av ins c))
         else if kw = ''service'' then Ret (conf_service av ins c)
         else if kw = ''notauth'' then Ret (keep (conf_cgi NOTAUTH av ins c))
         else Ret (False, ins, c))"

fun conf_lines ::
  "(string \<Rightarrow> conf \<Rightarrow> (bool \<times> conf) outcome) \<Rightarrow> files \<Rightarrow> nat \<Rightarrow> string list \<Rightarrow> bool \<Rightarrow> conf \<Rightarrow>
     (bool \<times> conf) outcome" where
  "conf_lines rec fs fds [] ins c = Ret (True, c)"
| "conf_lines rec fs fds (line # ls) ins c =
     (let av = argcargv line
      in if comment av then conf_lines rec fs fds ls ins c
         else case conf_line rec fs fds av ins c of
           Ret (ok, ins, c) \<Rightarrow> if ok then conf_lines rec fs fds ls ins c else Ret (False, c)
         | Exit n \<Rightarrow> Exit n
         | Undefined \<Rightarrow> Undefined)"

text \<open>\<open>fds\<close> is the number of files that can still be opened: with none left \<open>snet_open\<close> fails.\<close>

primrec read_config :: "files \<Rightarrow> nat \<Rightarrow> string \<Rightarrow> conf \<Rightarrow> (bool \<times> conf) outcome" where
  "read_config fs 0 path c = Ret (False, c)"
| "read_config fs (Suc fds) path c =
     (case fs path of
        None \<Rightarrow> Ret (False, c)
      | Some s \<Rightarrow> conf_lines (read_config fs fds) fs fds (lines_of SNET_BOL s) True c)"

definition cosign_config :: "files \<Rightarrow> nat \<Rightarrow> string \<Rightarrow> conf \<Rightarrow> (int \<times> conf) outcome" where
  "cosign_config fs fds path c =
     (case read_config fs fds path
         (c\<lparr>cf_new_authlist := [], cf_new_servicelist := [], cf_new_cfg := []\<rparr>) of
        Ret (ok, c) \<Rightarrow>
          if ok then
            Ret (0, c\<lparr>cf_cfg := cf_new_cfg c, cf_servicelist := cf_new_servicelist c,
                       cf_authlist := cf_new_authlist c\<rparr>)
          else
            Ret (-1, c\<lparr>cf_new_authlist := [], cf_new_servicelist := [], cf_new_cfg := []\<rparr>)
      | Exit n \<Rightarrow> Exit n
      | Undefined \<Rightarrow> Undefined)"

section \<open>What every keyword keeps\<close>

text \<open>A predicate of the static variables that each keyword keeps, on success and on failure.\<close>

lemma ifE:
  assumes "(if b then x else y) = z"
  obtains "b" "x = z" | "\<not> b" "y = z"
  using assms by (cases b) simp_all

locale conf_keeps =
  fixes P :: "conf \<Rightarrow> bool"
  assumes set: "P c \<Longrightarrow> P (snd (conf_set av c))"
    and reauth: "P c \<Longrightarrow> P (snd (conf_reauth av c))"
    and cert: "P c \<Longrightarrow> P (snd (conf_cert av c))"
    and negotiate: "P c \<Longrightarrow> P (snd (conf_negotiate av c))"
    and passwd: "P c \<Longrightarrow> P (snd (conf_passwd av c))"
    and factor: "P c \<Longrightarrow> conf_factor av c = Ret (ok, c') \<Longrightarrow> P c'"
    and suffix: "P c \<Longrightarrow> P (snd (conf_suffix av c))"
    and proxy: "P c \<Longrightarrow> P (snd (conf_proxy fs fds av c))"
    and cgi: "P c \<Longrightarrow> P (snd (conf_cgi key av ins c))"
    and service: "P c \<Longrightarrow> P (snd (snd (conf_service av ins c)))"
begin

lemma kept: "P (snd r) \<Longrightarrow> (case r of (ok, c) \<Rightarrow> (ok, ins, c)) = (ok', ins', c') \<Longrightarrow> P c'"
  by (cases r) simp

lemma line:
  assumes rec: "\<And>path c ok c'. P c \<Longrightarrow> rec path c = Ret (ok, c') \<Longrightarrow> P c'"
    and c: "P c" and "conf_line rec fs fds av ins c = Ret (ok, ins', c')"
  shows "P c'"
proof -
  note keeps = set [OF c] reauth [OF c] cert [OF c] negotiate [OF c] passwd [OF c] suffix [OF c]
    proxy [OF c] cgi [OF c]
  have "P c'" if "rec (av ! 1) c = Ret r" "(case r of (ok, c) \<Rightarrow> (ok, ins, c)) = (ok, ins', c')" for r
    using that rec [OF c] by (cases r) auto
  moreover have "P c'" if "conf_factor av c = Ret r" "(case r of (ok, c) \<Rightarrow> (ok, ins, c)) = (ok, ins', c')" for r
    using that factor [OF c] by (cases r) auto
  moreover have "P c'" if "conf_service av ins c = (ok, ins', c')"
    using that service [OF c] by (metis snd_conv)
  ultimately show ?thesis
    using assms(3) c unfolding conf_line_def Let_def
    by (elim ifE; (simp only: outcome.inject)?)
      (auto dest: kept [OF keeps(1)] kept [OF keeps(2)] kept [OF keeps(3)] kept [OF keeps(4)]
        kept [OF keeps(5)] kept [OF keeps(6)] kept [OF keeps(7)] kept [OF keeps(8)]
        split: outcome.splits if_splits)
qed

lemma lines:
  assumes "\<And>path c ok c'. P c \<Longrightarrow> rec path c = Ret (ok, c') \<Longrightarrow> P c'"
    and "P c" and "conf_lines rec fs fds ls ins c = Ret (ok, c')"
  shows "P c'"
  using assms(2,3)
proof (induction ls arbitrary: ins c)
  case Nil
  then show ?case by simp
next
  case (Cons l ls)
  show ?case
  proof (cases "comment (argcargv l)")
    case True
    then show ?thesis using Cons by (simp add: Let_def)
  next
    case False
    obtain ok1 ins1 c1 where l: "conf_line rec fs fds (argcargv l) ins c = Ret (ok1, ins1, c1)"
      using Cons.prems(2) False by (cases "conf_line rec fs fds (argcargv l) ins c") (auto simp: Let_def)
    have "P c1" using line [OF assms(1) Cons.prems(1) l] .
    moreover have "conf_lines rec fs fds (l # ls) ins c =
        (if ok1 then conf_lines rec fs fds ls ins1 c1 else Ret (False, c1))"
      by (simp add: Let_def False l)
    ultimately show ?thesis using Cons.IH [of c1 ins1] Cons.prems(2) by (cases ok1) auto
  qed
qed

lemma read: "P c \<Longrightarrow> read_config fs fds path c = Ret (ok, c') \<Longrightarrow> P c'"
proof (induction fds arbitrary: path c ok c')
  case 0
  then show ?case by simp
next
  case (Suc fds)
  show ?case
  proof (cases "fs path")
    case None
    then show ?thesis using Suc.prems by simp
  next
    case (Some s)
    have "conf_lines (read_config fs fds) fs fds (lines_of SNET_BOL s) True c = Ret (ok, c')"
      using Suc.prems(2) Some by simp
    then show ?thesis by (rule lines [OF _ Suc.prems(1), rotated]) (rule Suc.IH)
  qed
qed

end

definition services_ok :: "servicelist list \<Rightarrow> authlist list \<Rightarrow> bool" where
  "services_ok sls als \<longleftrightarrow>
     (\<forall>s \<in> set sls. sl_auth s < length als \<and> al_key (als ! sl_auth s) = SERVICE)"

lemma services_ok_append: "services_ok sls als \<Longrightarrow> services_ok sls (als @ new)"
  by (fastforce simp: services_ok_def nth_append)

lemma set_update_first: "y \<in> set (update_first P f xs) \<Longrightarrow> y \<in> set xs \<or> (\<exists>x \<in> set xs. y = f x)"
  by (induction xs) (auto split: if_splits)

lemma services_ok_update_first:
  "services_ok sls als \<Longrightarrow> (\<And>s. sl_auth (f s) = sl_auth s) \<Longrightarrow> services_ok (update_first P f sls) als"
  unfolding services_ok_def by (metis set_update_first)

lemma services_ok_key:
  "services_ok sls als \<Longrightarrow> al_key a = al_key (als ! i) \<Longrightarrow> services_ok sls (als[i := a])"
  by (cases "i < length als") (auto simp: services_ok_def nth_list_update)

lemma index_of_SomeD: "index_of P xs = Some i \<Longrightarrow> i < length xs \<and> P (xs ! i)"
  by (induction xs arbitrary: i) (auto split: if_splits)

lemma proxy_lines_key: "al_key (snd (proxy_lines ls al)) = al_key al"
  by (induction ls al rule: proxy_lines.induct) (simp_all add: Let_def)

lemma proxy_read_key: "al_key (snd (proxy_read fs fds al path)) = al_key al"
  by (simp add: proxy_read_def proxy_lines_key split: option.splits)

interpretation conf_services: conf_keeps "\<lambda>c. services_ok (cf_new_servicelist c) (cf_new_authlist c)"
proof (unfold_locales, goal_cases)
  case (6 c av ok c')
  then show ?case by (auto simp: conf_factor_def split: if_splits outcome.splits option.splits)
next
  case (8 c fs fds av)
  then show ?case
    using proxy_read_key [of fs fds _ "av ! 2"]
    by (auto simp: conf_proxy_def Let_def split: option.splits prod.splits intro!: services_ok_key)
      (metis snd_conv)+
next
  case (10 c av ins)
  then show ?case
    by (auto simp: conf_service_def insert_auth_def Let_def services_ok_def service_entry_def
        auth_entry_def nth_append split: option.splits dest: index_of_SomeD)
qed (auto simp: conf_set_def conf_reauth_def conf_cert_def conf_negotiate_def conf_passwd_def
    conf_suffix_def conf_cgi_def insert_auth_def Let_def services_ok_append
    intro!: services_ok_update_first)

interpretation conf_live: conf_keeps
  "\<lambda>c. cf_authlist c = als \<and> cf_servicelist c = sls \<and> cf_cfg c = cfgs" for als sls cfgs
proof (unfold_locales, goal_cases)
  case (6 c av ok c')
  then show ?case by (auto simp: conf_factor_def split: if_splits outcome.splits option.splits)
next
  case (8 c fs fds av)
  then show ?case by (auto simp: conf_proxy_def Let_def split: option.splits prod.splits)
next
  case (10 c av ins)
  then show ?case by (auto simp: conf_service_def insert_auth_def Let_def)
qed (auto simp: conf_set_def conf_reauth_def conf_cert_def conf_negotiate_def conf_passwd_def
    conf_suffix_def conf_cgi_def insert_auth_def Let_def)

text \<open>
  After a configuration has been read, every service's \<open>sl_auth\<close> is a host of the live list that
  was entered as a service (so \<open>service_valid\<close> never compares a certificate's name with a CGI's
  entry); and a configuration that cannot be read leaves the live lists as they were.
\<close>

lemma cosign_config_lists:
  "case cosign_config fs fds path c of
     Ret (rc, c') \<Rightarrow>
       if rc = 0 then services_ok (cf_servicelist c') (cf_authlist c')
       else cf_authlist c' = cf_authlist c \<and> cf_servicelist c' = cf_servicelist c \<and> cf_cfg c' = cf_cfg c
   | _ \<Rightarrow> True"
proof -
  let ?c = "c\<lparr>cf_new_authlist := [], cf_new_servicelist := [], cf_new_cfg := []\<rparr>"
  have *: "if rc = 0 then services_ok (cf_servicelist c') (cf_authlist c')
       else cf_authlist c' = cf_authlist c \<and> cf_servicelist c' = cf_servicelist c \<and> cf_cfg c' = cf_cfg c"
    if run: "cosign_config fs fds path c = Ret (rc, c')" for rc c'
  proof -
    obtain ok c1 where r: "read_config fs fds path ?c = Ret (ok, c1)"
      and c': "if ok then rc = 0 \<and> cf_authlist c' = cf_new_authlist c1 \<and> cf_servicelist c' = cf_new_servicelist c1
        else rc = -1 \<and> cf_authlist c' = cf_authlist c1 \<and> cf_servicelist c' = cf_servicelist c1 \<and> cf_cfg c' = cf_cfg c1"
      using run unfolding cosign_config_def by (cases "read_config fs fds path ?c") (auto split: if_splits)
    have "services_ok (cf_new_servicelist c1) (cf_new_authlist c1)"
      by (rule conf_services.read [OF _ r]) (simp add: services_ok_def)
    moreover have "cf_authlist c1 = cf_authlist c \<and> cf_servicelist c1 = cf_servicelist c \<and> cf_cfg c1 = cf_cfg c"
      by (rule conf_live.read [OF _ r]) simp
    ultimately show ?thesis using c' by (cases ok) simp_all
  qed
  show ?thesis
  proof (cases "cosign_config fs fds path c")
    case (Ret r)
    obtain rc c' where r: "r = (rc, c')" by (rule prod.exhaust)
    show ?thesis using * [OF Ret [unfolded r]] unfolding Ret r outcome.case prod.case .
  qed simp_all
qed

section \<open>Three surprises\<close>

definition one_file :: "string \<Rightarrow> files" where
  "one_file s = (\<lambda>p. if p = ''c'' then Some s else None)"

definition file_of_lines :: "string list \<Rightarrow> string" where
  "file_of_lines ls = concat (map (\<lambda>l. l @ [LF]) ls)"

lemma lines_of_file:
  "\<forall>l \<in> set ls. cstr l \<and> CR \<notin> set l \<and> LF \<notin> set l \<Longrightarrow> st \<noteq> SNET_FUZZY \<Longrightarrow>
     lines_of st (file_of_lines ls) = ls"
proof (induction ls arbitrary: st)
  case Nil
  then show ?case by (simp add: file_of_lines_def lines_of.simps)
next
  case (Cons l ls)
  have n: "next_line st acc (l @ LF # s) = Some (acc @ l, SNET_BOL, s)"
    if "cstr l \<and> CR \<notin> set l \<and> LF \<notin> set l" "st \<noteq> SNET_FUZZY" for l s acc st
    using that by (induction l arbitrary: acc st) auto
  have "file_of_lines (l # ls) = l @ LF # file_of_lines ls" by (simp add: file_of_lines_def)
  then show ?case using n [of l st "[]"] Cons by (subst lines_of.simps) simp
qed

lemma read_one_file:
  assumes "\<forall>l \<in> set ls. cstr l \<and> CR \<notin> set l \<and> LF \<notin> set l"
  shows "read_config (one_file (file_of_lines ls)) (Suc fds) ''c'' c =
    conf_lines (read_config (one_file (file_of_lines ls)) fds) (one_file (file_of_lines ls)) fds ls True c"
  using lines_of_file [OF assms, of SNET_BOL] by (simp add: one_file_def)

lemmas conf_eval = argcargv_def tokens_plain white_def snoc_opt_def ctrl_defs comment_def conf_line_def
  conf_service_def conf_cgi_def insert_auth_def auth_entry_def service_entry_def conf_suffix_def
  conf_factor_def Let_def

text \<open>
  A \<open>cgi\<close> line that follows a \<open>service\<close> line for a host already known is dropped: no entry for the
  CGI is made, and reading the file succeeds.
\<close>

lemma read_config_drops_cgi:
  "\<exists>c. cosign_config (one_file (file_of_lines
      [''service cosign-a u 0 h'', ''service cosign-b v 0 h'', ''cgi weblogin'']))
      (Suc fds) ''c'' conf_init = Ret (0, c) \<and>
     map (\<lambda>a. (al_key a, al_hostname a)) (cf_authlist c) = [(SERVICE, ''h'')]"
  unfolding cosign_config_def
  by (subst read_one_file) (simp_all add: conf_eval conf_init_def)

text \<open>
  A configuration with a \<open>suffix\<close> line can be read once only: read again (on SIGHUP), it is refused.
\<close>

lemma read_config_suffix_once:
  "\<exists>c c'. cosign_config (one_file (file_of_lines [''suffix x''])) (Suc fds) ''c'' conf_init = Ret (0, c) \<and>
     cosign_config (one_file (file_of_lines [''suffix x''])) (Suc fds) ''c'' c = Ret (-1, c')"
  unfolding cosign_config_def
  by (subst (1 2) read_one_file) (simp_all add: conf_eval conf_init_def)

text \<open>A \<open>factor\<close> line with flags only makes the loop over the flags read the null pointer after the words.\<close>

lemma read_config_factor_null:
  "cosign_config (one_file (file_of_lines [''factor p -2''])) (Suc fds) ''c'' c = Undefined"
  unfolding cosign_config_def
  by (subst read_one_file) (simp_all add: conf_eval)

section \<open>Which service, which host\<close>

definition whole_match :: "regex \<Rightarrow> string \<Rightarrow> servicelist \<Rightarrow> (servicelist \<times> (int \<times> int) list) option" where
  "whole_match rx cookie s =
     (if \<not> regcomp rx False (sl_cookie s) then None
      else case regexec rx False (sl_cookie s) cookie of
        Match ms \<Rightarrow> if rm ms 0 = (0, int (length cookie)) then Some (s, ms) else None
      | _ \<Rightarrow> None)"

interpretation services: first_match "\<lambda>ss. service_find rx ss cookie" "whole_match rx cookie" for rx cookie
  by unfold_locales (auto simp: whole_match_def prod_eq_iff split: exec.splits)

text \<open>The decision an entry of the host list makes: none, the host, or an end of the search.\<close>

definition host_hit :: "regex \<Rightarrow> string \<Rightarrow> authlist \<Rightarrow> authlist option option" where
  "host_hit rx host a =
     (if \<not> regcomp rx True (al_hostname a) then Some None
      else case regexec rx True (al_hostname a) host of
        Match _ \<Rightarrow> Some (Some a) | Exec_error \<Rightarrow> Some None | No_match \<Rightarrow> None)"

fun host_search :: "regex \<Rightarrow> string \<Rightarrow> authlist list \<Rightarrow> authlist option option" where
  "host_search rx host [] = None"
| "host_search rx host (a # as) =
     (case host_hit rx host a of Some r \<Rightarrow> Some r | None \<Rightarrow> host_search rx host as)"

interpretation hosts: first_match "host_search rx host" "host_hit rx host" for rx host
  by unfold_locales simp_all

lemma authlist_find_search: "authlist_find rx as host = Option.bind (host_search rx host as) id"
  by (induction as) (auto simp: host_hit_def split: exec.splits)

interpretation config_values: first_match "\<lambda>cs. cosign_config_get cs key"
  "\<lambda>c. if cc_key c = key \<and> cc_value c \<noteq> [] then Some (hd (cc_value c)) else None" for key
  by unfold_locales auto

text \<open>
  \<open>service_find\<close> returns the first service of the list whose pattern compiles and matches the
  whole name, with that match; it finds none only if there is none.
\<close>

lemma service_find_first:
  "service_find rx ss cookie =
     (case filter (\<lambda>s. whole_match rx cookie s \<noteq> None) ss of
        [] \<Rightarrow> None | s # _ \<Rightarrow> whole_match rx cookie s)"
proof (induction ss)
  case Nil
  then show ?case by simp
next
  case (Cons s ss)
  then show ?case
    unfolding services.lookup_cons by (cases "whole_match rx cookie s") simp_all
qed

text \<open>
  \<open>authlist_find\<close> answers with an entry only if that entry's pattern matches (somewhere in) the
  name and no entry before it matches or fails to compile.
\<close>

lemma authlist_find_first:
  "authlist_find rx as host = Some a \<longleftrightarrow>
     (\<exists>pre post. as = pre @ a # post \<and> host_hit rx host a = Some (Some a) \<and>
        list_all (\<lambda>x. host_hit rx host x = None) pre)"
proof -
  have "host_hit rx host x = Some (Some a) \<Longrightarrow> x = a" for x
    by (auto simp: host_hit_def split: if_splits exec.splits)
  moreover have "authlist_find rx as host = Some a \<longleftrightarrow> host_search rx host as = Some (Some a)"
    by (simp add: authlist_find_search bind_eq_Some_conv)
  ultimately show ?thesis unfolding hosts.lookup_Some list_all_iff by blast
qed

end
