(* ===== verification/Daemon.thy ===== *)
theory Daemon
  imports Cparse Conf_read
begin

text \<open>
  What the command handlers of \<open>daemon/command.c\<close> share.  The settings of the daemon and what the
  other side of an \<open>SSL_accept\<close> presents are the record \<open>config\<close>.  The state \<open>daemon\<close> extends the system's
  with the connection, the texts written to it and to the pusher, and the global variables of the file.
  The locales of the last section lift a relation between states from these operations to the handlers.
\<close>

text \<open>
  The other end of an \<open>SSL_accept\<close>: its return value, what the buffer for the common name holds after
  \<open>X509_NAME_get_text_by_NID\<close> if the peer sent a certificate, and what arrives inside the encrypted connection.  The result of
  that call is not looked at: for a certificate without a common name the buffer, which is not initialised, holds what the
  stack held, so that \<open>hs_peer\<close> may then be any text.
\<close>

record handshake =
  hs_rc :: int
  hs_peer :: "string option"
  hs_net :: "net_event list"

text \<open>
  \<open>reused\<close> stands for what the words of a command read as after further input has been read into
  the line buffer they point into (only the ticket transfer of \<open>f_login\<close> looks at them again).
\<close>

record config =
  hashlen :: int
  idle_out_time :: int
  grey_time :: int
  strict_checks :: bool
  tlsopt :: bool
  cosign_tickets :: string
  cosign_version :: string
  hostname :: string
  authlist :: "authlist list"
  servicelist :: "servicelist list"
  rx :: regex
  pushersn :: bool
  strerror :: string
  reused :: "string list \<Rightarrow> string list"

record daemon = os +
  d_sn :: SNET
  d_handshakes :: "handshake list"
  d_out :: "string list"
  d_push :: "string list"
  d_auth_commands :: bool
  d_al :: "authlist option"
  d_remote_cn :: "string option"
  d_replicated :: bool
  d_protocol :: int
  d_checkpass :: rate
  d_checkfail :: rate
  d_checkunknown :: rate

type_synonym 'a handler = "(daemon, 'a) state"

section \<open>Operations\<close>

text \<open>\<open>snet_writef( sn, f, args )\<close>; every format ends in CR LF, which is added here.\<close>

definition reply :: "string \<Rightarrow> farg list \<Rightarrow> unit handler" where
  "reply f args = State (\<lambda>w. ((), w\<lparr>d_out := d_out w @ [fmt (f @ crlf) args]\<rparr>))"

definition send :: "string \<Rightarrow> unit handler" where
  "send s = State (\<lambda>w. ((), w\<lparr>d_out := d_out w @ [s]\<rparr>))"

text \<open>\<open>if (( pushersn != NULL ) && ( !replicated )) snet_writef( pushersn, ... )\<close>\<close>

definition push :: "config \<Rightarrow> string \<Rightarrow> farg list \<Rightarrow> unit handler" where
  "push cfg f args = State (\<lambda>w. ((),
     if pushersn cfg \<and> \<not> d_replicated w then w\<lparr>d_push := d_push w @ [fmt (f @ crlf) args]\<rparr> else w))"

definition getline :: "string option handler" where
  "getline = State (\<lambda>w. case snet_getline (d_sn w) of (r, sn) \<Rightarrow> (r, w\<lparr>d_sn := sn\<rparr>))"

definition sread :: "nat \<Rightarrow> string option handler" where
  "sread n = State (\<lambda>w. case snet_read (d_sn w) n of (r, sn) \<Rightarrow> (r, w\<lparr>d_sn := sn\<rparr>))"

definition get_al :: "authlist option handler" where
  "get_al = State (\<lambda>w. (d_al w, w))"

definition get_protocol :: "int handler" where
  "get_protocol = State (\<lambda>w. (d_protocol w, w))"

definition get_remote_cn :: "string option handler" where
  "get_remote_cn = State (\<lambda>w. (d_remote_cn w, w))"

definition set_protocol :: "int \<Rightarrow> unit handler" where
  "set_protocol p = State (\<lambda>w. ((), w\<lparr>d_protocol := p\<rparr>))"

definition set_replicated :: "unit handler" where
  "set_replicated = State (\<lambda>w. ((), w\<lparr>d_replicated := True\<rparr>))"

definition set_al :: "authlist option \<Rightarrow> unit handler" where
  "set_al al = State (\<lambda>w. ((), w\<lparr>d_al := al\<rparr>))"

definition set_remote_cn :: "string \<Rightarrow> unit handler" where
  "set_remote_cn cn = State (\<lambda>w. ((), w\<lparr>d_remote_cn := Some cn\<rparr>))"

definition set_auth_commands :: "unit handler" where
  "set_auth_commands = State (\<lambda>w. ((), w\<lparr>d_auth_commands := True\<rparr>))"

text \<open>
  \<open>snet_starttls(sn, ctx, 1)\<close>: on success later reads come from the encrypted connection; bytes already
  buffered stay in the buffer.  With no handshake left the other side is gone.
\<close>

definition starttls :: "(int \<times> string option) handler" where
  "starttls = State (\<lambda>w.
     case d_handshakes w of
       [] \<Rightarrow> ((-1, None), w)
     | h # hs \<Rightarrow>
         ((hs_rc h, hs_peer h),
          if hs_rc h = 1
          then w\<lparr>d_handshakes := hs, d_sn := (d_sn w)\<lparr>sn_tls := True, sn_net := hs_net h\<rparr>\<rparr>
          else w\<lparr>d_handshakes := hs\<rparr>))"

definition tick_pass :: "unit handler" where
  "tick_pass = do {
     t \<leftarrow> gettimeofday;
     State (\<lambda>w. ((), w\<lparr>d_checkpass := snd (rate_tick t (d_checkpass w))\<rparr>)) }"

definition tick_fail :: "unit handler" where
  "tick_fail = do {
     t \<leftarrow> gettimeofday;
     State (\<lambda>w. ((), w\<lparr>d_checkfail := snd (rate_tick t (d_checkfail w))\<rparr>)) }"

definition tick_unknown :: "unit handler" where
  "tick_unknown = do {
     t \<leftarrow> gettimeofday;
     State (\<lambda>w. ((), w\<lparr>d_checkunknown := snd (rate_tick t (d_checkunknown w))\<rparr>)) }"

text \<open>A reply and the handler's return value.\<close>

definition answer :: "string \<Rightarrow> farg list \<Rightarrow> int \<Rightarrow> int outcome handler" where
  "answer f args rc = do { reply f args; ret (Ret rc) }"

lemma run_reply [os_simps]: "run_state (reply f args) w = ((), w\<lparr>d_out := d_out w @ [fmt (f @ crlf) args]\<rparr>)"
  by (simp add: reply_def)

lemma run_send [os_simps]: "run_state (send s) w = ((), w\<lparr>d_out := d_out w @ [s]\<rparr>)"
  by (simp add: send_def)

lemma run_answer [os_simps]:
  "run_state (answer f args rc) w = (Ret rc, w\<lparr>d_out := d_out w @ [fmt (f @ crlf) args]\<rparr>)"
  by (simp add: answer_def os_simps)

lemma run_getters [os_simps]:
  "run_state get_al w = (d_al w, w)"
  "run_state get_protocol w = (d_protocol w, w)"
  "run_state get_remote_cn w = (d_remote_cn w, w)"
  by (simp_all add: get_al_def get_protocol_def get_remote_cn_def)

lemma run_setters [os_simps]:
  "run_state (set_protocol p) w = ((), w\<lparr>d_protocol := p\<rparr>)"
  "run_state set_replicated w = ((), w\<lparr>d_replicated := True\<rparr>)"
  "run_state (set_al al) w = ((), w\<lparr>d_al := al\<rparr>)"
  "run_state (set_remote_cn cn) w = ((), w\<lparr>d_remote_cn := Some cn\<rparr>)"
  "run_state set_auth_commands w = ((), w\<lparr>d_auth_commands := True\<rparr>)"
  by (simp_all add: set_protocol_def set_replicated_def set_al_def set_remote_cn_def set_auth_commands_def)

lemma run_ticks [os_simps]:
  assumes "os_faults w = []"
  shows "run_state tick_pass w = ((), w\<lparr>d_checkpass := snd (rate_tick (Some (os_now w)) (d_checkpass w))\<rparr>)"
    and "run_state tick_fail w = ((), w\<lparr>d_checkfail := snd (rate_tick (Some (os_now w)) (d_checkfail w))\<rparr>)"
    and "run_state tick_unknown w = ((), w\<lparr>d_checkunknown := snd (rate_tick (Some (os_now w)) (d_checkunknown w))\<rparr>)"
  using assms by (simp_all add: tick_pass_def tick_fail_def tick_unknown_def os_simps)

section \<open>Relations between the states before and after a handler\<close>

text \<open>
  A preorder that every elementary operation respects holds between the states before and after
  each handler.  The contract comes in layers: the calls that change no file, the
  connection and the global variables, the messages to the pusher, and the calls that write files.
\<close>

locale os_rel = io_preorder R for R :: "'a os_scheme \<Rightarrow> 'a os_scheme \<Rightarrow> bool" +
  assumes R_faults: "R w (w\<lparr>os_faults := fs\<rparr>)"
    and R_pool: "R w (w\<lparr>os_pool := p\<rparr>)"
begin

lemma rel_sys_result:
  "(\<And>x. state_io_rel R (f x)) \<Longrightarrow> (\<And>x. state_io_rel R (g x)) \<Longrightarrow>
     state_io_rel R (case e of Ok x \<Rightarrow> f x | Err x \<Rightarrow> g x)"
  by (cases e) auto

lemma rel_fault: "state_io_rel R fault"
  unfolding fault_def by (rule state_io_relI) (auto simp: R_refl R_faults split: list.splits)

lemma rel_read: "state_io_rel R (get_fs path)" "state_io_rel R now" "state_io_rel R getpid"
  by (auto simp: get_fs_def now_def getpid_def R_refl)

lemma rel_mkcookie: "state_io_rel R (os_mkcookie n)"
  unfolding os_mkcookie_def by (rule state_io_relI) (auto simp: R_pool split: prod.splits)

lemma rel_stat: "state_io_rel R (os_open path)" "state_io_rel R (os_stat path)"
  unfolding os_open_def os_stat_def
  by (rule state_io_relI; use state_io_relD [OF rel_fault] in \<open>force simp: run_look split: prod.splits\<close>)+

lemmas rel_pure = rel_sys_result rel_fault rel_read rel_mkcookie rel_stat

lemma rel_calls:
  "state_io_rel R gettimeofday" "state_io_rel R os_fclose" "state_io_rel R (fgets n s)"
  unfolding gettimeofday_def os_fclose_def fgets_def
  by (intro rel_basic rel_pure)+

lemma rel_service_to_login: "state_io_rel R (service_to_login path)"
  unfolding service_to_login_def by (intro rel_basic rel_pure rel_calls)

lemma rel_read_fields: "state_io_rel R (read_fields s ci)"
proof (induction s arbitrary: ci rule: measure_induct_rule [of length])
  case (less s)
  have "length s' < length s" if "s \<noteq> []" "(buf, s') = fgets_line (MAXPATHLEN + 1) s" for buf s'
    using fgets_line_rest [OF that(2) [symmetric]] that(1) by (simp add: MAXPATHLEN_def)
  then show ?case
    by (subst read_fields.simps) (intro rel_basic rel_pure rel_calls less; auto)
qed

lemma rel_read_cookie: "state_io_rel R (read_cookie path)"
  unfolding read_cookie_def close_with_def Let_def
  by (intro rel_basic rel_pure rel_calls rel_read_fields)

end

text \<open>Any change of a file, through any path.\<close>

locale world_rel = os_rel R for R :: "'a os_scheme \<Rightarrow> 'a os_scheme \<Rightarrow> bool" +
  assumes R_fs: "R w (w\<lparr>os_fs := (os_fs w)(path := f)\<rparr>)"
begin

lemma rel_put: "state_io_rel R (put_fs path f)"
  by (auto simp: put_fs_def R_fs)

lemmas rel_prims = rel_pure rel_put

lemma rel_sys:
  "state_io_rel R (on_file path g)" "state_io_rel R (os_create path)"
  "state_io_rel R (os_fclose_write path t)" "state_io_rel R (os_rename a b)" "state_io_rel R (os_link a b)"
  unfolding on_file_def os_create_def os_fclose_write_def os_rename_def os_link_def
  by (intro rel_basic rel_prims)+

lemma rel_files:
  "state_io_rel R (os_unlink path)" "state_io_rel R (os_chmod path m)"
  "state_io_rel R (os_utime_to path t)" "state_io_rel R (os_utime path)"
  unfolding os_unlink_def os_chmod_def os_utime_to_def os_utime_def
  by (intro rel_basic rel_prims rel_sys)+

lemma rel_do_logout: "state_io_rel R (do_logout path)"
  unfolding do_logout_def by (intro rel_basic rel_files)

end

text \<open>The connection and what every handler may do to the global variables.\<close>

locale conn_rel = os_rel R for R :: "daemon \<Rightarrow> daemon \<Rightarrow> bool" +
  assumes R_out: "R w (w\<lparr>d_out := d_out w @ x\<rparr>)"
    and R_getline: "snet_getline (d_sn w) = (r, sn) \<Longrightarrow> R w (w\<lparr>d_sn := sn\<rparr>)"
    and R_sread: "snet_read (d_sn w) n = (r', sn) \<Longrightarrow> R w (w\<lparr>d_sn := sn\<rparr>)"
    and R_replicated: "R w (w\<lparr>d_replicated := True\<rparr>)"
    and R_pass: "R w (w\<lparr>d_checkpass := rt\<rparr>)"
    and R_fail: "R w (w\<lparr>d_checkfail := rt\<rparr>)"
    and R_unknown: "R w (w\<lparr>d_checkunknown := rt\<rparr>)"
begin

lemma rel_reply: "state_io_rel R (reply f args)" "state_io_rel R (send s)"
  by (auto simp: reply_def send_def R_out)

lemma rel_answer: "state_io_rel R (answer f args rc)"
  unfolding answer_def by (intro rel_basic rel_reply)

lemma rel_input: "state_io_rel R getline" "state_io_rel R (sread n)"
  unfolding getline_def sread_def
  by (rule state_io_relI; force simp: R_getline R_sread split: prod.splits)+

lemma rel_globals:
  "state_io_rel R get_al" "state_io_rel R get_protocol" "state_io_rel R get_remote_cn"
  "state_io_rel R set_replicated"
  by (auto simp: get_al_def get_protocol_def get_remote_cn_def set_replicated_def R_refl R_replicated)

lemma rel_modify:
  "state_io_rel R (State (\<lambda>w. ((), w\<lparr>d_checkpass := g w\<rparr>)))"
  "state_io_rel R (State (\<lambda>w. ((), w\<lparr>d_checkfail := g w\<rparr>)))"
  "state_io_rel R (State (\<lambda>w. ((), w\<lparr>d_checkunknown := g w\<rparr>)))"
  by (auto simp: R_pass R_fail R_unknown)

lemma rel_ticks: "state_io_rel R tick_pass" "state_io_rel R tick_fail" "state_io_rel R tick_unknown"
  unfolding tick_pass_def tick_fail_def tick_unknown_def
  by (intro rel_basic rel_calls rel_modify)+

end

text \<open>Messages to the pusher.\<close>

locale push_rel = conn_rel R for R :: "daemon \<Rightarrow> daemon \<Rightarrow> bool" +
  assumes R_push: "R w (w\<lparr>d_push := d_push w @ x\<rparr>)"
begin

lemma rel_push: "state_io_rel R (push cfg f args)"
  by (auto simp: push_def R_push R_refl)

end

text \<open>What only STARTTLS does.\<close>

locale tls_rel = conn_rel R for R :: "daemon \<Rightarrow> daemon \<Rightarrow> bool" +
  assumes R_refused: "d_handshakes w = h # hs \<Longrightarrow> R w (w\<lparr>d_handshakes := hs\<rparr>)"
    and R_accepted: "d_handshakes w = h # hs \<Longrightarrow>
      R w (w\<lparr>d_handshakes := hs, d_sn := (d_sn w)\<lparr>sn_tls := True, sn_net := hs_net h\<rparr>\<rparr>)"
    and R_protocol: "R w (w\<lparr>d_protocol := p\<rparr>)"
    and R_al: "R w (w\<lparr>d_al := al\<rparr>)"
    and R_cn: "R w (w\<lparr>d_remote_cn := cn\<rparr>)"
    and R_auth: "R w (w\<lparr>d_auth_commands := True\<rparr>)"
begin

lemma rel_starttls: "state_io_rel R starttls"
  unfolding starttls_def
  by (rule state_io_relI) (auto simp: R_refl intro: R_refused R_accepted split: list.splits)

lemma rel_setters:
  "state_io_rel R (set_protocol p)" "state_io_rel R (set_al al)"
  "state_io_rel R (set_remote_cn c)" "state_io_rel R set_auth_commands"
  by (auto simp: set_protocol_def set_al_def set_remote_cn_def set_auth_commands_def R_protocol R_al R_cn R_auth)

end

text \<open>The handlers behind authentication, and all handlers.\<close>

locale handler_rel = push_rel R + world_rel R for R :: "daemon \<Rightarrow> daemon \<Rightarrow> bool"

locale daemon_rel = handler_rel R + tls_rel R for R :: "daemon \<Rightarrow> daemon \<Rightarrow> bool"

end
