(* ===== verification/Cmd_login.thy ===== *)
theory Cmd_login
  imports Daemon
begin

text \<open>
  \<open>f_login\<close> of \<open>daemon/command.c\<close> in the pieces its control flow falls into: the checks at the start, the
  text of the new login cookie, its way into the database, and the transfer of a Kerberos
  ticket.  \<open>ac\<close> counts the words without a final \<open>kerberos\<close>.  Early returns are nested
  conditionals; the handler's value is the C return value.
\<close>

text \<open>\<open>snprintf( tmppath, sizeof( tmppath ), "%x%x.%i", ... )\<close>; \<open>None\<close> where it does not fit.\<close>

definition u32 :: "int \<Rightarrow> nat" where
  "u32 x = nat (x mod 2 ^ 32)"

definition tmp_path :: "timeval \<Rightarrow> int \<Rightarrow> string option" where
  "tmp_path tv pid =
     snprintf MAXCOOKIELEN
       (show_hex (u32 (tv_sec tv)) @ show_hex (u32 (tv_usec tv)) @ ''.'' @ show_int (to_int pid))"

section \<open>The text of the cookie\<close>

text \<open>\<open>%lu\<close> of a time.\<close>

definition show_ulong :: "int \<Rightarrow> string" where
  "show_ulong t = show_nat (nat (t mod 2 ^ 64))"

datatype login_text =
    File_err (login_file: string)
  | Already_stored (login_file: string)
  | Stored (login_file: string) (already_krb: bool)
  | Null_factor

text \<open>
  The factors: those of the cookie there is, then the given ones that are not among them.  \<open>newinfo\<close> tells
  whether there is anything new.
\<close>

definition new_factors :: "string list \<Rightarrow> string list \<Rightarrow> string list" where
  "new_factors fv given = filter (\<lambda>f. f \<notin> set fv) given"

definition krb_line :: "bool \<Rightarrow> bool \<Rightarrow> cinfo \<Rightarrow> string \<Rightarrow> string \<times> bool" where
  "krb_line krb addinfo ci krbpath =
     (if krb then
        (if addinfo \<and> ci_krbtkt ci \<noteq> [] then (mkline (''k'' @ ci_krbtkt ci), True)
         else (mkline (''k'' @ krbpath), False))
      else if ci_krbtkt ci \<noteq> [] then (mkline (''k'' @ ci_krbtkt ci), True)
      else ([], False))"

definition make_login_text ::
  "cinfo \<Rightarrow> bool \<Rightarrow> string list \<Rightarrow> nat \<Rightarrow> bool \<Rightarrow> string \<Rightarrow> int \<Rightarrow> login_text" where
  "make_login_text ci addinfo av ac krb krbpath secs =
     (let s0 = mkline ''v2'' @ mkline ''s1'';
          s1 = s0 @ mkline (''i'' @ (if addinfo then ci_ipaddr ci else av ! 2)) @ mkline (''j'' @ av ! 2);
          s2 = s1 @ mkline (''p'' @ av ! 3);
          (k, already) = krb_line krb addinfo ci krbpath
      in if 256 \<le> length (av ! 2) then File_err s0
         else if 130 \<le> length (av ! 3) then File_err s1
         else if 256 \<le> length (av ! 4) then File_err s2
         else if addinfo then
           let fv = argcargv (ci_realm ci);
               new = new_factors fv (drop 4 (take ac av));
               newinfo = (ci_ipaddr_cur ci \<noteq> av ! 2 \<or> new \<noteq> [])
           in if fv = [] then Null_factor
              else if \<not> newinfo then Already_stored (s2 @ ''r'' @ join fv)
              else Stored (s2 @ mkline (''r'' @ join (fv @ new)) @
                     mkline (''t'' @ show_ulong (ci_itime ci)) @ k) already
         else Stored (s2 @ mkline (''r'' @ join (drop 4 (take ac av))) @
                mkline (''t'' @ show_ulong secs) @ k) already)"

section \<open>Storing it\<close>

text \<open>The temporary file: whether it could be opened.\<close>

definition open_tmp :: "string \<Rightarrow> ('a os_scheme, bool) state" where
  "open_tmp tmppath = do {
     r \<leftarrow> os_create tmppath;
     if failed r then ret False
     else do {
       b \<leftarrow> fault;
       if b then do { _ \<leftarrow> os_unlink tmppath; ret False } else ret True } }"

text \<open>\<open>rename\<close> over the cookie there is, or \<open>link\<close> to a name that must be free.\<close>

definition commit_cookie :: "bool \<Rightarrow> string \<Rightarrow> string \<Rightarrow> bool handler" where
  "commit_cookie addinfo tmppath path =
     (if addinfo then do {
        r \<leftarrow> os_rename tmppath path;
        if failed r then do { _ \<leftarrow> os_unlink tmppath; ret False } else ret True }
      else do {
        r \<leftarrow> os_link tmppath path;
        if failed r then do { _ \<leftarrow> os_unlink tmppath; ret False }
        else do { _ \<leftarrow> os_unlink tmppath; ret True } })"

section \<open>The ticket\<close>

definition os_append :: "string \<Rightarrow> string \<Rightarrow> ('a os_scheme, unit) state" where
  "os_append path s = do {
     e \<leftarrow> get_fs path;
     t \<leftarrow> now;
     put_fs path (map_option (\<lambda>f. f\<lparr>f_data := f_data f @ s, f_mtime := tv_sec t\<rparr>) e) }"

text \<open>
  \<open>len\<close> bytes into the file.  \<open>rc\<close> is unsigned in the source: the -1 of a failed \<open>snet_read\<close> passes
  the test and \<open>write\<close> is asked for far more bytes than \<open>buf\<close> has.  \<open>Ret 0\<close> means the whole file came.
\<close>

function (sequential) receive_ticket :: "config \<Rightarrow> string \<Rightarrow> nat \<Rightarrow> int outcome handler" where
  "receive_ticket cfg krbpath len =
     (if len = 0 then ret (Ret 0)
      else do {
        r \<leftarrow> sread (min len 8192);
        case r of
          None \<Rightarrow> ret Undefined
        | Some s \<Rightarrow>
            if s = [] then ret (Ret (-1))
            else do {
              b \<leftarrow> fault;
              if b then answer ''%d %s: %s'' [FI 504, FS krbpath, FS (strerror cfg)] 1
              else do { os_append krbpath s; receive_ticket cfg krbpath (len - length s) } } })"
  by pat_completeness auto

termination by (relation "measure (\<lambda>(cfg, p, len). len)") auto

text \<open>
  Where the transfer does not end in a dot the two files are removed and the process exits (the loop up to
  the dot before that only consumes input).  What is unlinked is the cookie's name, not its path.
\<close>

definition bad_length :: "config \<Rightarrow> string list \<Rightarrow> string \<Rightarrow> int outcome handler" where
  "bad_length cfg av krbpath = do {
     reply (''%d Length doesn'' @ [CHR 0x27] @ ''t match sent data'') [FI 505];
     _ \<leftarrow> os_unlink krbpath;
     _ \<leftarrow> os_unlink (reused cfg av ! 1);
     ret (Exit 1) }"

text \<open>From the 300 reply on.\<close>

definition receive_file :: "config \<Rightarrow> string list \<Rightarrow> string \<Rightarrow> int outcome handler" where
  "receive_file cfg av krbpath = do {
     reply ''%d LOGIN: Send length then file.'' [FI 300];
     r \<leftarrow> os_create krbpath;
     if failed r then ret (Ret (-1))
     else do {
       sizebuf \<leftarrow> getline;
       case sizebuf of
         None \<Rightarrow> ret (Ret (-1))
       | Some sz \<Rightarrow> do {
           r \<leftarrow> receive_ticket cfg krbpath (u32 (atoi sz));
           if r \<noteq> Ret 0 then ret r
           else do {
             c \<leftarrow> os_fclose;
             if failed c then answer ''%d %s: %s'' [FI 504, FS krbpath, FS (strerror cfg)] 1
             else do {
               l \<leftarrow> getline;
               case l of
                 None \<Rightarrow> ret (Ret (-1))
               | Some dot \<Rightarrow>
                   if dot \<noteq> ''.'' then bad_length cfg av krbpath
                   else do {
                     reply ''%d LOGIN successful: Cookie & Ticket Stored.'' [FI 201];
                     (let av = reused cfg av
                      in push cfg ''LOGIN %s %s %s %s %s''
                           [FS (av ! 1), FS (av ! 2), FS (av ! 3), FS (av ! 4), FS (av ! 5)]);
                     ret (Ret 0) } } } } } }"

section \<open>The handler\<close>

text \<open>
  The ticket's path, if the last of at least six words is \<open>kerberos\<close>: \<open>Some None\<close> where no path can
  be made, and the number of words left.
\<close>

definition krb_path :: "config \<Rightarrow> string list \<Rightarrow> (string option option \<times> nat) handler" where
  "krb_path cfg av =
     (if 6 \<le> length av \<and> last av = ''kerberos'' then do {
        (rc, tmpkrb) \<leftarrow> os_mkcookie 16;
        ret (Some (if rc \<noteq> 0 then None else snprintf MAXPATHLEN (cosign_tickets cfg @ ''/'' @ tmpkrb)),
             length av - 1) }
      else ret (None, length av))"

text \<open>\<open>ci\<close> and whether it is the cookie's (\<open>addinfo\<close>); or the reply to a cookie that may not be changed.\<close>

definition login_check :: "cinfo \<Rightarrow> int \<Rightarrow> string list \<Rightarrow> (string \<times> int) option" where
  "login_check ci rc av =
     (if rc \<noteq> 0 then None
      else if ci_state ci = 0 then Some (''%d LOGIN: Already logged out'', 505)
      else if av ! 3 \<noteq> ci_user ci then Some (''%d user name given does not match cookie'', 402)
      else None)"

definition drop_tmp :: "string \<Rightarrow> string \<Rightarrow> unit handler" where
  "drop_tmp tmppath text = do {
     _ \<leftarrow> os_fclose_write tmppath text;
     _ \<leftarrow> os_unlink tmppath;
     ret () }"

definition store_login ::
  "config \<Rightarrow> string list \<Rightarrow> nat \<Rightarrow> string option \<Rightarrow> cinfo \<Rightarrow> bool \<Rightarrow> string \<Rightarrow> timeval \<Rightarrow> string \<Rightarrow>
     int outcome handler" where
  "store_login cfg av ac krb ci addinfo path tv tmppath =
     (case make_login_text ci addinfo av ac (krb \<noteq> None) (case krb of None \<Rightarrow> [] | Some p \<Rightarrow> p) (tv_sec tv) of
        Null_factor \<Rightarrow> ret Undefined
      | File_err text \<Rightarrow> do {
          drop_tmp tmppath text;
          answer ''%d LOGIN Syntax Error: Bad File Format'' [FI 504] 1 }
      | Already_stored text \<Rightarrow> do {
          reply ''%d LOGIN Cookie Already Stored.'' [FI 202];
          drop_tmp tmppath text;
          ret (Ret 0) }
      | Stored text already \<Rightarrow> do {
          c \<leftarrow> os_fclose_write tmppath text;
          if failed c then do { _ \<leftarrow> os_unlink tmppath; ret (Ret (-1)) }
          else do {
            ok \<leftarrow> commit_cookie addinfo tmppath path;
            if \<not> ok then ret (Ret (-1))
            else case krb of
              Some krbpath \<Rightarrow>
                if already then do {
                  reply ''%d LOGIN successful: Cookie Stored.'' [FI 200];
                  push cfg ''LOGIN %s %s %s %s'' [FS (av ! 1), FS (av ! 2), FS (av ! 3), FS (av ! 4)];
                  ret (Ret 0) }
                else receive_file cfg av krbpath
            | None \<Rightarrow> do {
                reply ''%d LOGIN successful: Cookie Stored.'' [FI 200];
                push cfg ''LOGIN %s %s %s %s'' [FS (av ! 1), FS (av ! 2), FS (av ! 3), FS (av ! 4)];
                ret (Ret 0) } } })"

text \<open>What follows \<open>read_cookie\<close>, given its result.\<close>

definition login_cookie ::
  "config \<Rightarrow> string list \<Rightarrow> nat \<Rightarrow> string option \<Rightarrow> string \<Rightarrow> int \<Rightarrow> cinfo \<Rightarrow> int outcome handler" where
  "login_cookie cfg av ac krb path rc ci =
     (case login_check ci rc av of
        Some (msg, code) \<Rightarrow> answer msg [FI code] 1
      | None \<Rightarrow> do {
          tv \<leftarrow> gettimeofday;
          pid \<leftarrow> getpid;
          case tv of
            None \<Rightarrow> ret (Ret (-1))
          | Some tv \<Rightarrow>
              (case tmp_path tv pid of
                 None \<Rightarrow> ret (Ret (-1))
               | Some tmppath \<Rightarrow> do {
                   ok \<leftarrow> open_tmp tmppath;
                   if \<not> ok then ret (Ret (-1))
                   else store_login cfg av ac krb ci (rc = 0) path tv tmppath }) })"

definition f_login :: "config \<Rightarrow> string list \<Rightarrow> int outcome handler" where
  "f_login cfg av = do {
     al \<leftarrow> get_al;
     case al of
       None \<Rightarrow> ret Undefined
     | Some al \<Rightarrow>
         if al_key al \<noteq> CGI then
           answer ''%d LOGIN: %s not allowed to login.'' [FI 400, FS (al_hostname al)] 1
         else if length av < 5 then answer ''%d LOGIN: Wrong number of args.'' [FI 500] 1
         else do {
           (krb, ac) \<leftarrow> krb_path cfg av;
           if krb = Some None then ret (Ret (-1))
           else case mkcookiepath None (hashlen cfg) (av ! 1) MAXPATHLEN of
             None \<Rightarrow> answer ''%d LOGIN: Invalid cookie path.'' [FI 501] 1
           | Some path \<Rightarrow> do {
               r \<leftarrow> read_cookie path;
               case r of
                 Undefined \<Rightarrow> ret Undefined
               | Exit n \<Rightarrow> ret (Exit n)
               | Ret (rc, ci) \<Rightarrow> login_cookie cfg av ac (Option.bind krb id) path rc ci } } }"

context handler_rel
begin

lemma rel_receive_ticket: "state_io_rel R (receive_ticket cfg p len)"
proof (induction cfg p len rule: receive_ticket.induct)
  case (1 cfg p len)
  show ?case
    by (subst receive_ticket.simps, unfold os_append_def)
      (intro rel_basic rel_prims rel_input rel_answer "1"; assumption)
qed

lemma rel_receive_file: "state_io_rel R (receive_file cfg av p)"
  unfolding receive_file_def bad_length_def
  by (intro rel_basic rel_prims rel_calls rel_sys rel_files rel_input rel_reply rel_push rel_answer rel_receive_ticket)

lemma rel_store_login: "state_io_rel R (store_login cfg av ac krb ci addinfo path tv tmppath)"
  unfolding store_login_def drop_tmp_def commit_cookie_def
  by (cases "make_login_text ci addinfo av ac (krb \<noteq> None) (case krb of None \<Rightarrow> [] | Some p \<Rightarrow> p) (tv_sec tv)";
      simp only: login_text.case)
    (intro rel_basic rel_prims rel_calls rel_sys rel_files rel_reply rel_push rel_answer rel_receive_file)+

lemma rel_f_login: "state_io_rel R (f_login cfg av)"
  unfolding f_login_def login_cookie_def krb_path_def open_tmp_def
  by (intro rel_basic rel_prims rel_calls rel_sys rel_files rel_globals rel_reply rel_push rel_answer rel_read_cookie
      rel_store_login)

end

end
