(* ===== verification/Cmd_logout.thy ===== *)
theory Cmd_logout
  imports Cmd_login
begin

text \<open>
  The handlers \<open>f_daemon\<close>, \<open>f_time\<close> and \<open>f_logout\<close> of \<open>daemon/command.c\<close>.  The loop of \<open>f_time\<close> reads a line in
  every turn; its fuel is the number of bytes still to come, and every line takes at least one of them.
\<close>

definition f_daemon :: "config \<Rightarrow> string list \<Rightarrow> int outcome handler" where
  "f_daemon cfg av = do {
     al \<leftarrow> get_al;
     case al of
       None \<Rightarrow> ret Undefined
     | Some al \<Rightarrow>
         if al_key al \<noteq> CGI then answer ''%d DAEMON: %s not a daemon.'' [FI 470, FS (al_hostname al)] 1
         else if length av \<noteq> 2 then answer ''%d Syntax error'' [FI 571] 1
         else do {
           b \<leftarrow> fault;
           if b then answer ''%d DAEMON error. Sorry!'' [FI 572] 1
           else if strcaseeq (hostname cfg) (av ! 1) then answer ''%d Schizophrenia!'' [FI 471] 1
           else do { set_replicated; answer ''%d Daemon flag set'' [FI 271] 0 } } }"

section \<open>Times\<close>

text \<open>
  One line with three words: the cookie, its time and its state.  The state is passed on only to a
  cookie that already is logged out: the test of \<open>S_ISGID\<close> is the wrong way round.
\<close>

definition time_entry :: "config \<Rightarrow> string list \<Rightarrow> unit handler" where
  "time_entry cfg av =
     (case mkcookiepath None (hashlen cfg) (av ! 0) MAXPATHLEN of
        None \<Rightarrow> ret ()
      | Some path \<Rightarrow> do {
          r \<leftarrow> os_stat path;
          case r of
            Err _ \<Rightarrow> ret ()
          | Ok st \<Rightarrow> do {
              _ \<leftarrow> (if f_mtime st < atoi (av ! 1) then os_utime_to path (atoi (av ! 1)) else ret (Ok ()));
              if atoi (av ! 2) = 0 \<and> f_mode st AND S_ISGID \<noteq> 0 then do { _ \<leftarrow> do_logout path; ret () }
              else ret () } })"

text \<open>\<open>strcmp( line, "." ) == 0\<close> after the line has been cut into words: the text up to its first blank.\<close>

definition is_dot :: "string \<Rightarrow> bool" where
  "is_dot line \<longleftrightarrow> takeWhile (\<lambda>c. \<not> white c) line = ''.''"

primrec time_loop :: "config \<Rightarrow> nat \<Rightarrow> bool handler" where
  "time_loop cfg 0 = ret False"
| "time_loop cfg (Suc n) = do {
     l \<leftarrow> getline;
     case l of
       None \<Rightarrow> ret True
     | Some line \<Rightarrow>
         let av = argcargv line
         in if is_dot line then ret True
            else if length av \<noteq> 3 then time_loop cfg n
            else if \<not> starts_with (av ! 0) ''cosign='' then time_loop cfg n
            else do { time_entry cfg av; time_loop cfg n } }"

definition input_size :: "nat handler" where
  "input_size = State (\<lambda>w. (length (stream (d_sn w)), w))"

definition f_time :: "config \<Rightarrow> string list \<Rightarrow> int outcome handler" where
  "f_time cfg av = do {
     al \<leftarrow> get_al;
     case al of
       None \<Rightarrow> ret Undefined
     | Some al \<Rightarrow>
         if al_key al \<noteq> CGI then
           answer ''%d TIME: %s not allowed to propogate time.'' [FI 460, FS (al_hostname al)] 1
         else if length av \<noteq> 1 then answer ''%d TIME: Wrong number of args.'' [FI 560] 1
         else do {
           reply ''%d TIME: Send timestamps.'' [FI 360];
           n \<leftarrow> input_size;
           _ \<leftarrow> time_loop cfg (Suc n);
           answer ''%d TIME successful: we are now up-to-date'' [FI 260] 0 } }"

section \<open>Logging out\<close>

definition f_logout :: "config \<Rightarrow> string list \<Rightarrow> int outcome handler" where
  "f_logout cfg av = do {
     al \<leftarrow> get_al;
     case al of
       None \<Rightarrow> ret Undefined
     | Some al \<Rightarrow>
         if al_key al \<noteq> CGI then
           answer ''%d LOGOUT: %s not allowed to logout.'' [FI 410, FS (al_hostname al)] 1
         else if length av \<noteq> 3 then answer ''%d LOGOUT: Wrong number of args.'' [FI 510] 1
         else case mkcookiepath None (hashlen cfg) (av ! 1) MAXPATHLEN of
           None \<Rightarrow> answer ''%d LOGIN: Invalid cookie path.'' [FI 511] 1
         | Some path \<Rightarrow> do {
             r \<leftarrow> read_cookie path;
             case r of
               Undefined \<Rightarrow> ret Undefined
             | Exit n \<Rightarrow> ret (Exit n)
             | Ret (rc, ci) \<Rightarrow>
                 if rc \<noteq> 0 then answer ''%d LOGOUT error: Sorry'' [FI 513] 1
                 else if ci_state ci = 0 then answer ''%d LOGOUT: Already logged out'' [FI 411] 1
                 else do {
                   rc \<leftarrow> do_logout path;
                   if rc < 0 then ret (Ret (-1))
                   else do {
                     reply ''%d LOGOUT successful: cookie no longer valid'' [FI 210];
                     push cfg ''LOGOUT %s %s'' [FS (av ! 1), FS (av ! 2)];
                     ret (Ret 0) } } } }"

section \<open>The loop ends\<close>

text \<open>With the fuel \<open>f_time\<close> gives it, the loop stops at a dot or at the end of the input.\<close>

definition sn_size :: "daemon \<Rightarrow> nat" where
  "sn_size w = length (stream (d_sn w))"

lemma run_getline_size:
  "run_state getline w = (r, w') \<Longrightarrow> sn_size w' + (if r = None then 0 else 1) \<le> sn_size w"
  using snet_getline_shrinks [of "d_sn w"] by (auto simp: getline_def sn_size_def split: prod.splits)

interpretation sn_kept: world_rel "\<lambda>w w'. sn_size (w' :: daemon) = sn_size w"
  by unfold_locales (auto simp: sn_size_def)

lemma time_entry_size: "state_io_rel (\<lambda>w w'. sn_size w' = sn_size w) (time_entry cfg av)"
  unfolding time_entry_def do_logout_def
  by (intro sn_kept.rel_basic sn_kept.rel_prims sn_kept.rel_files)

lemma time_loop_ends: "sn_size w < n \<Longrightarrow> fst (run_state (time_loop cfg n) w)"
proof (induction n arbitrary: w)
  case 0
  then show ?case by simp
next
  case (Suc n)
  obtain r w1 where g: "run_state getline w = (r, w1)" by fastforce
  show ?case
  proof (cases r)
    case None
    then show ?thesis using g by simp
  next
    case (Some line)
    then have w1: "sn_size w1 < n" using run_getline_size [OF g] Suc.prems by simp
    obtain w2 where e: "run_state (time_entry cfg (argcargv line)) w1 = ((), w2)"
      by (cases "run_state (time_entry cfg (argcargv line)) w1") simp
    have "sn_size w2 < n" using state_io_relD [OF time_entry_size e] w1 by simp
    then have "fst (run_state (time_loop cfg n) w2)" "fst (run_state (time_loop cfg n) w1)"
      using Suc.IH w1 by blast+
    then show ?thesis using g Some e by (simp add: Let_def)
  qed
qed

text \<open>
  The loop of TIME always ends, at a dot or where the input does, with fuel to spare: every turn takes
  at least one byte of what the connection will deliver.
\<close>

lemma time_loop_stops: "fst (run_state (do { n \<leftarrow> input_size; time_loop cfg (Suc n) }) w)"
  using time_loop_ends [of w "Suc (sn_size w)" cfg]
  by (simp add: input_size_def sn_size_def del: time_loop.simps split: prod.splits)

context handler_rel
begin

lemma rel_f_daemon: "state_io_rel R (f_daemon cfg av)"
  unfolding f_daemon_def by (intro rel_basic rel_prims rel_globals rel_answer)

lemma rel_time_entry: "state_io_rel R (time_entry cfg av)"
  unfolding time_entry_def by (intro rel_basic rel_prims rel_files rel_do_logout)

lemma rel_time_loop: "state_io_rel R (time_loop cfg n)"
  by (induction n; simp only: time_loop.simps)
    (intro rel_basic rel_input rel_time_entry; assumption)+

lemma rel_f_time: "state_io_rel R (f_time cfg av)"
proof -
  have "state_io_rel R input_size" by (auto simp: input_size_def R_refl)
  then show ?thesis
    unfolding f_time_def by (intro rel_basic rel_globals rel_reply rel_push rel_answer rel_time_loop)
qed

lemma rel_f_logout: "state_io_rel R (f_logout cfg av)"
  unfolding f_logout_def
  by (intro rel_basic rel_globals rel_reply rel_push rel_answer rel_read_cookie rel_do_logout)

end

end
