(* ===== verification/Cmd_check.thy ===== *)
theory Cmd_check
  imports Cmd_logout
begin

text \<open>
  The handlers about service cookies: \<open>do_register\<close>, \<open>f_register\<close>, \<open>service_valid\<close>, \<open>f_check\<close> (for CHECK and
  REKEY), \<open>f_retr\<close>, \<open>retr_proxy\<close> and \<open>retr_ticket\<close> of \<open>daemon/command.c\<close>.
\<close>

section \<open>Registering a service cookie\<close>

text \<open>0 where the service cookie was stored, 1 where there is one already, -1 for errors.\<close>

definition do_register :: "string \<Rightarrow> string \<Rightarrow> string \<Rightarrow> int handler" where
  "do_register login login_p scookie_p = do {
     tv \<leftarrow> gettimeofday;
     pid \<leftarrow> getpid;
     case tv of
       None \<Rightarrow> ret (-1)
     | Some tv \<Rightarrow>
         (case tmp_path tv pid of
            None \<Rightarrow> ret (-1)
          | Some tmppath \<Rightarrow> do {
              ok \<leftarrow> open_tmp tmppath;
              if \<not> ok then ret (-1)
              else do {
                c \<leftarrow> os_fclose_write tmppath (mkline (''l'' @ login));
                if failed c then do { _ \<leftarrow> os_unlink tmppath; ret (-1) }
                else do {
                  r \<leftarrow> os_link tmppath scookie_p;
                  case r of
                    Err e \<Rightarrow> do { _ \<leftarrow> os_unlink tmppath; ret (if e = EEXIST then 1 else -1) }
                  | Ok _ \<Rightarrow> do {
                      u \<leftarrow> os_unlink tmppath;
                      if failed u then ret (-1)
                      else do { _ \<leftarrow> os_utime login_p; ret 0 } } } } }) }"

text \<open>
  Idle for so long that the cookie is of no use: in the grey window only for now, after it the cookie is
  logged out.  The two times are those of the command line, whose sum fits an \<open>int\<close>.
\<close>

datatype idle = Active | Grey | Idle

definition idle_state :: "config \<Rightarrow> int \<Rightarrow> int \<Rightarrow> idle" where
  "idle_state cfg t itime =
     (if t - itime < idle_out_time cfg then Active
      else if t - itime < idle_out_time cfg + grey_time cfg then Grey
      else Idle)"

definition f_register :: "config \<Rightarrow> string list \<Rightarrow> int outcome handler" where
  "f_register cfg av = do {
     al \<leftarrow> get_al;
     case al of
       None \<Rightarrow> ret Undefined
     | Some al \<Rightarrow>
         if al_key al \<noteq> CGI then
           answer ''%d REGISTER: %s not allowed to register.'' [FI 420, FS (al_hostname al)] 1
         else if length av \<noteq> 4 then answer ''%d REGISTER: Wrong number of args.'' [FI 520] 1
         else case mkcookiepath None (hashlen cfg) (av ! 1) MAXPATHLEN of
           None \<Rightarrow> answer ''%d REGISTER: Invalid cookie path.'' [FI 521] 1
         | Some lpath \<Rightarrow>
             (case mkcookiepath None (hashlen cfg) (av ! 3) MAXPATHLEN of
                None \<Rightarrow> answer ''%d REGISTER: Invalid cookie path.'' [FI 522] 1
              | Some spath \<Rightarrow> do {
                  r \<leftarrow> read_cookie lpath;
                  case r of
                    Undefined \<Rightarrow> ret Undefined
                  | Exit n \<Rightarrow> ret (Exit n)
                  | Ret (rc, ci) \<Rightarrow>
                      if rc \<noteq> 0 then answer ''%d REGISTER error: Sorry'' [FI 523] 1
                      else if ci_state ci = 0 then answer ''%d REGISTER: Already logged out'' [FI 421] 1
                      else do {
                        tv \<leftarrow> gettimeofday;
                        case tv of
                          None \<Rightarrow> ret (Ret (-1))
                        | Some tv \<Rightarrow>
                            if idle_state cfg (tv_sec tv) (ci_itime ci) = Grey then
                              answer ''%d REGISTER: Idle Grey Window'' [FI 521] 1
                            else if idle_state cfg (tv_sec tv) (ci_itime ci) = Idle then do {
                              reply ''%d REGISTER: Idle logged out'' [FI 422];
                              rc \<leftarrow> do_logout lpath;
                              ret (Ret (if rc < 0 then -1 else 1)) }
                            else do {
                              rc \<leftarrow> do_register (av ! 1) lpath spath;
                              if rc < 0 then ret (Ret (-1))
                              else if rc > 0 then
                                answer ''%d REGISTER error: Cookie already exists'' [FI 226] rc
                              else do {
                                reply ''%d REGISTER successful: Cookie Stored.'' [FI 220];
                                push cfg ''REGISTER %s %s %s'' [FS (av ! 1), FS (av ! 2), FS (av ! 3)];
                                ret (Ret 0) } } } }) }"

section \<open>Which service a host may ask about\<close>

text \<open>
  The service whose pattern is the cookie's name, if the host's certificate name matches that service's host, and, where
  a substitution pattern is given, it makes the cookie's name.
\<close>

definition service_valid ::
  "config \<Rightarrow> string option \<Rightarrow> string \<Rightarrow> servicelist option outcome" where
  "service_valid cfg remote_cn cookie =
     (case strchr cookie CHR ''='' of
        None \<Rightarrow> Ret None
      | Some i \<Rightarrow>
          let service = take i cookie
          in case service_find (rx cfg) (servicelist cfg) service of
               None \<Rightarrow> Ret None
             | Some (sl, _) \<Rightarrow>
                 let host = al_hostname (authlist cfg ! sl_auth sl)
                 in if \<not> regcomp (rx cfg) False host then Ret None
                    else case remote_cn of
                      None \<Rightarrow> Undefined
                    | Some cn \<Rightarrow>
                        (case regexec (rx cfg) False host cn of
                           Match ms \<Rightarrow>
                             (case sl_cookiesub sl of
                                None \<Rightarrow> Ret (Some sl)
                              | Some sub \<Rightarrow>
                                  (case match_substitute sub 1024 2 ms cn of
                                     Ret None \<Rightarrow> Ret None
                                   | Ret (Some buf) \<Rightarrow> Ret (if service = buf then Some sl else None)
                                   | Exit n \<Rightarrow> Exit n
                                   | Undefined \<Rightarrow> Undefined))
                         | _ \<Rightarrow> Ret None))"

fun is_valid :: "servicelist option outcome \<Rightarrow> bool outcome" where
  "is_valid (Ret s) = Ret (s \<noteq> None)"
| "is_valid (Exit n) = Exit n"
| "is_valid Undefined = Undefined"

section \<open>Checking\<close>

definition supports_rekey :: "int \<Rightarrow> bool" where
  "supports_rekey p \<longleftrightarrow> 3 \<le> p \<and> p \<le> 3"

definition supports_factors :: "int \<Rightarrow> bool" where
  "supports_factors p \<longleftrightarrow> 2 \<le> p \<and> p \<le> 3"

text \<open>
  The first half of \<open>f_check\<close>: from the cookie in the command to the path of the login cookie behind it, with the
  status of the reply and, for REKEY, the path of the service cookie.  Or the reply that ends it.
\<close>

datatype target =
    Login_cookie (target_path: string) (target_status: int) (target_service: "string option")
  | Refused string "farg list"

definition find_target :: "config \<Rightarrow> string list \<Rightarrow> string \<Rightarrow> target outcome handler" where
  "find_target cfg av path = do {
     cn \<leftarrow> get_remote_cn;
     protocol \<leftarrow> get_protocol;
     if starts_with (av ! 1) ''cosign-'' then
       (case (if strict_checks cfg then is_valid (service_valid cfg cn (av ! 1)) else Ret True) of
          Undefined \<Rightarrow> ret Undefined
        | Exit n \<Rightarrow> ret (Exit n)
        | Ret False \<Rightarrow> ret (Ret (Refused ''%d %s: Invalid cookie'' [FI 534, FS (av ! 0)]))
        | Ret True \<Rightarrow> do {
            r \<leftarrow> service_to_login path;
            case r of
              Undefined \<Rightarrow> ret Undefined
            | Exit n \<Rightarrow> ret (Exit n)
            | Ret (rc, login) \<Rightarrow>
                if rc \<noteq> 0 then do {
                  tick_unknown;
                  ret (Ret (Refused ''%d %s: cookie not in db!'' [FI 533, FS (av ! 0)])) }
                else
                  let rekey = supports_rekey protocol \<and> strcaseeq (av ! 0) ''REKEY''
                  in (case mkcookiepath None (hashlen cfg) login MAXPATHLEN of
                        None \<Rightarrow> ret (Ret (Refused ''%d %s: Invalid cookie name.'' [FI 532, FS (av ! 0)]))
                      | Some lpath \<Rightarrow>
                          ret (Ret (Login_cookie lpath (if rekey then 233 else 231)
                                 (if rekey then Some path else None)))) })
     else if starts_with (av ! 1) ''cosign='' then ret (Ret (Login_cookie path 232 None))
     else ret (Ret (Refused ''%d %s: unknown cookie prefix!'' [FI 432, FS (av ! 0)])) }"

text \<open>The service cookie under a new name; \<open>None\<close> where the reply says that it failed.\<close>

definition rekey_cookie :: "config \<Rightarrow> string list \<Rightarrow> string \<Rightarrow> string option handler" where
  "rekey_cookie cfg av scpath = do {
     (rc, rekeybuf) \<leftarrow> os_mkcookie 128;
     if rc \<noteq> 0 then do { reply ''%d %s: rekey failed.'' [FI 536, FS (av ! 0)]; ret None }
     else case strchr (av ! 1) CHR ''='' of
       None \<Rightarrow> do { reply ''%d %s rekey failed.'' [FI 536, FS (av ! 0)]; ret None }
     | Some i \<Rightarrow>
         (case snprintf 256 (take i (av ! 1) @ ''='' @ rekeybuf) of
            None \<Rightarrow> do { reply ''%d %s rekey failed.'' [FI 536, FS (av ! 0)]; ret None }
          | Some rcookie \<Rightarrow>
              (case mkcookiepath None (hashlen cfg) rcookie MAXPATHLEN of
                 None \<Rightarrow> do { reply ''%d %s: rekey failed.'' [FI 536, FS (av ! 0)]; ret None }
               | Some path \<Rightarrow> do {
                   r \<leftarrow> os_rename scpath path;
                   if failed r then do { reply ''%d %s: rekey failed.'' [FI 536, FS (av ! 0)]; ret None }
                   else ret (Some rcookie) })) }"

text \<open>\<open>strtok( realm, " " )\<close>\<close>

definition first_realm :: "string \<Rightarrow> string option" where
  "first_realm s =
     (let t = dropWhile (\<lambda>c. c = CHR '' '') s
      in if t = [] then None else Some (takeWhile (\<lambda>c. c \<noteq> CHR '' '') t))"

definition check_reply :: "int \<Rightarrow> int \<Rightarrow> cinfo \<Rightarrow> string \<Rightarrow> unit handler" where
  "check_reply protocol status ci rcookie =
     (if supports_factors protocol then
        reply ''%d %s %s %s %s''
          [FI status, FS (ci_ipaddr_cur ci), FS (ci_user ci), FS (ci_realm ci), FS rcookie]
      else
        reply ''%d %s %s %s''
          [FI status, FS (ci_ipaddr ci), FS (ci_user ci),
           FS (case first_realm (ci_realm ci) of Some p \<Rightarrow> p | None \<Rightarrow> ci_realm ci)])"

text \<open>The second half: the login cookie behind the request.\<close>

definition check_target ::
  "config \<Rightarrow> string list \<Rightarrow> string \<Rightarrow> int \<Rightarrow> string option \<Rightarrow> int outcome handler" where
  "check_target cfg av path status scpath = do {
     r \<leftarrow> read_cookie path;
     case r of
       Undefined \<Rightarrow> ret Undefined
     | Exit n \<Rightarrow> ret (Exit n)
     | Ret (rc, ci) \<Rightarrow>
         if rc \<noteq> 0 then do { tick_unknown; answer ''%d %s: Who me? Dunno.'' [FI 534, FS (av ! 0)] 1 }
         else if ci_state ci = 0 then do {
           tick_fail; answer ''%d %s: Already logged out'' [FI 430, FS (av ! 0)] 1 }
         else do {
           tv \<leftarrow> gettimeofday;
           case tv of
             None \<Rightarrow> ret (Ret (-1))
           | Some tv \<Rightarrow>
               if idle_state cfg (tv_sec tv) (ci_itime ci) = Grey then do {
                 tick_unknown; answer ''%d %s: Idle Grey Window'' [FI 531, FS (av ! 0)] 1 }
               else if idle_state cfg (tv_sec tv) (ci_itime ci) = Idle then do {
                 tick_fail;
                 reply ''%d %s: Idle logged out'' [FI 431, FS (av ! 0)];
                 rc \<leftarrow> do_logout path;
                 ret (Ret (if rc < 0 then -1 else 1)) }
               else do {
                 _ \<leftarrow> os_utime path;
                 tick_pass;
                 protocol \<leftarrow> get_protocol;
                 case scpath of
                   None \<Rightarrow> do { check_reply protocol status ci []; ret (Ret 0) }
                 | Some sc \<Rightarrow> do {
                     r \<leftarrow> rekey_cookie cfg av sc;
                     case r of
                       None \<Rightarrow> ret (Ret 1)
                     | Some rcookie \<Rightarrow> do { check_reply protocol status ci rcookie; ret (Ret 0) } } } } }"

text \<open>
  The test of the number of words, \<open>ac < 2 && ac > 3\<close>, never holds: with one word \<open>av[ 1 ]\<close> is the null
  pointer.
\<close>

definition f_check :: "config \<Rightarrow> string list \<Rightarrow> int outcome handler" where
  "f_check cfg av = do {
     al \<leftarrow> get_al;
     case al of
       None \<Rightarrow> ret Undefined
     | Some al \<Rightarrow>
         if al_key al \<noteq> CGI \<and> al_key al \<noteq> SERVICE then
           answer ''%d %s: %s not allowed to check.'' [FI 430, FS (av ! 0), FS (al_hostname al)] 1
         else if length av < 2 \<and> length av > 3 then
           answer ''%d %s: Wrong number of args.'' [FI 530, FS (av ! 0)] 1
         else if length av < 2 then ret Undefined
         else case mkcookiepath None (hashlen cfg) (av ! 1) MAXPATHLEN of
           None \<Rightarrow> answer ''%d %s: Invalid cookie name.'' [FI 531, FS (av ! 0)] 1
         | Some path \<Rightarrow> do {
             t \<leftarrow> find_target cfg av path;
             case t of
               Undefined \<Rightarrow> ret Undefined
             | Exit n \<Rightarrow> ret (Exit n)
             | Ret (Refused msg args) \<Rightarrow> answer msg args 1
             | Ret (Login_cookie lpath status scpath) \<Rightarrow> check_target cfg av lpath status scpath } }"

section \<open>Retrieving\<close>

fun proxy_loop :: "config \<Rightarrow> string \<Rightarrow> proxies list \<Rightarrow> int outcome handler" where
  "proxy_loop cfg login [] = answer ''%d Cookies registered and sent'' [FI 241] 0"
| "proxy_loop cfg login (p # ps) = do {
     (rc, cookiebuf) \<leftarrow> os_mkcookie 128;
     if rc \<noteq> 0 then ret (Ret (-1))
     else case snprintf MAXCOOKIELEN (pr_cookie p @ ''='' @ cookiebuf) of
       None \<Rightarrow> ret (Ret (-1))
     | Some cbuf \<Rightarrow>
         (case mkcookiepath None (hashlen cfg) cbuf MAXPATHLEN of
            None \<Rightarrow> ret (Ret 1)
          | Some spath \<Rightarrow>
              (case mkcookiepath None (hashlen cfg) login MAXPATHLEN of
                 None \<Rightarrow> ret (Ret 1)
               | Some lpath \<Rightarrow> do {
                   rc \<leftarrow> do_register login lpath spath;
                   if rc < 0 then proxy_loop cfg login ps
                   else do {
                     push cfg ''REGISTER %s - %s'' [FS login, FS cbuf];
                     reply ''%d-%s %s'' [FI 241, FS cbuf, FS (pr_hostname p)];
                     proxy_loop cfg login ps } })) }"

definition retr_proxy :: "config \<Rightarrow> authlist \<Rightarrow> string \<Rightarrow> int outcome handler" where
  "retr_proxy cfg al login =
     (if al_flag al AND AL_PROXY = 0 then
        answer ''%d RETR: %s cannot retrieve cookies.'' [FI 443, FS (al_hostname al)] 1
      else proxy_loop cfg login (al_proxies al))"

text \<open>The file in pieces of 8192 bytes: 0 at its end, -1 where reading it or writing to the client fails.\<close>

function (sequential) send_file :: "string \<Rightarrow> int handler" where
  "send_file s = do {
     b \<leftarrow> fault;
     if b then do { _ \<leftarrow> os_fclose; ret (-1) }
     else if s = [] then ret 0
     else do {
       x \<leftarrow> fault;
       if x then ret (-1) else do { send (take 8192 s); send_file (drop 8192 s) } } }"
  by pat_completeness auto

termination by (relation "measure length") auto

declare send_file.simps [simp del]

definition retr_ticket :: "config \<Rightarrow> servicelist \<Rightarrow> string \<Rightarrow> int outcome handler" where
  "retr_ticket cfg sl krbpath =
     (if sl_flag sl AND SL_TICKET = 0 then
        answer ''%d RETR: %s not allowed to retrieve tkts.''
          [FI 441, FS (al_hostname (authlist cfg ! sl_auth sl))] 1
      else do {
        f \<leftarrow> os_open krbpath;
        case f of
          Err _ \<Rightarrow> answer ''%d Unable to access %s.'' [FI 547, FS krbpath] 1
        | Ok f \<Rightarrow> do {
            b \<leftarrow> fault;
            if b then do {
              reply ''%d Access Error: %s'' [FI 548, FS krbpath];
              c \<leftarrow> os_fclose;
              ret (Ret (if failed c then -1 else 1)) }
            else do {
              reply ''%d Retrieving file'' [FI 240];
              reply ''%d'' [FI (to_int (int (length (f_data f))))];
              rc \<leftarrow> send_file (f_data f);
              if rc < 0 then ret (Ret (-1))
              else do {
                c \<leftarrow> os_fclose;
                if failed c then ret (Ret (-1)) else do { reply ''.'' []; ret (Ret 0) } } } } })"

definition f_retr :: "config \<Rightarrow> string list \<Rightarrow> int outcome handler" where
  "f_retr cfg av = do {
     al \<leftarrow> get_al;
     cn \<leftarrow> get_remote_cn;
     case al of
       None \<Rightarrow> ret Undefined
     | Some al \<Rightarrow>
         if al_key al \<noteq> CGI \<and> al_key al \<noteq> SERVICE then
           answer ''%d RETR: %s not allowed to retrieve.'' [FI 442, FS (al_hostname al)] 1
         else if length av \<noteq> 3 then answer ''%d RETR: Wrong number of args.'' [FI 540] 1
         else case service_valid cfg cn (av ! 1) of
           Undefined \<Rightarrow> ret Undefined
         | Exit n \<Rightarrow> ret (Exit n)
         | Ret None \<Rightarrow> answer ''%d RETR: Invalid cookie'' [FI 545] 1
         | Ret (Some sl) \<Rightarrow>
             (case mkcookiepath None (hashlen cfg) (av ! 1) MAXPATHLEN of
                None \<Rightarrow> answer ''%d RETR: Invalid cookie name.'' [FI 541] 1
              | Some spath \<Rightarrow> do {
                  r \<leftarrow> service_to_login spath;
                  case r of
                    Undefined \<Rightarrow> ret Undefined
                  | Exit n \<Rightarrow> ret (Exit n)
                  | Ret (rc, login) \<Rightarrow>
                      if rc \<noteq> 0 then answer ''%d RETR: cookie not in db!'' [FI 543] 1
                      else case mkcookiepath None (hashlen cfg) login MAXPATHLEN of
                        None \<Rightarrow> answer ''%d RETR: Invalid cookie name.'' [FI 541] 1
                      | Some lpath \<Rightarrow> do {
                          r \<leftarrow> read_cookie lpath;
                          case r of
                            Undefined \<Rightarrow> ret Undefined
                          | Exit n \<Rightarrow> ret (Exit n)
                          | Ret (rc, ci) \<Rightarrow>
                              if rc \<noteq> 0 then answer ''%d RETR: Who me? Dunno.'' [FI 544] 1
                              else if ci_state ci = 0 then answer ''%d RETR: Already logged out'' [FI 440] 1
                              else do {
                                tv \<leftarrow> gettimeofday;
                                case tv of
                                  None \<Rightarrow> ret (Ret (-1))
                                | Some tv \<Rightarrow>
                                    if idle_state cfg (tv_sec tv) (ci_itime ci) = Grey then
                                      answer ''%d RETR: Idle Grey Window'' [FI 541] 1
                                    else if idle_state cfg (tv_sec tv) (ci_itime ci) = Idle then do {
                                      reply ''%d RETR: Idle logged out'' [FI 441];
                                      rc \<leftarrow> do_logout lpath;
                                      ret (Ret (if rc < 0 then -1 else 1)) }
                                    else if av ! 2 = ''tgt'' then retr_ticket cfg sl (ci_krbtkt ci)
                                    else if av ! 2 = ''cookies'' then retr_proxy cfg al login
                                    else answer ''%d RETR: No such retrieve type.'' [FI 441] 1 } } }) }"

context handler_rel
begin

lemma rel_target:
  "(\<And>p st sc. state_io_rel R (f p st sc)) \<Longrightarrow> (\<And>m a. state_io_rel R (g m a)) \<Longrightarrow>
     state_io_rel R (case t of Login_cookie p st sc \<Rightarrow> f p st sc | Refused m a \<Rightarrow> g m a)"
  by (cases t) auto

lemma rel_do_register: "state_io_rel R (do_register a b c)"
  unfolding do_register_def open_tmp_def by (intro rel_basic rel_prims rel_calls rel_sys rel_files)

lemma rel_f_register: "state_io_rel R (f_register cfg av)"
  unfolding f_register_def
  by (intro rel_basic rel_prims rel_calls rel_sys rel_globals rel_reply rel_push rel_answer rel_read_cookie rel_do_logout
      rel_do_register)

lemma rel_find_target: "state_io_rel R (find_target cfg av path)"
  unfolding find_target_def by (intro rel_basic rel_globals rel_ticks rel_service_to_login)

lemma rel_check_target: "state_io_rel R (check_target cfg av path status sc)"
  unfolding check_target_def rekey_cookie_def check_reply_def
  by (intro rel_basic rel_prims rel_calls rel_sys rel_files rel_globals rel_reply rel_push rel_answer rel_ticks rel_read_cookie
      rel_do_logout)

lemma rel_f_check: "state_io_rel R (f_check cfg av)"
  unfolding f_check_def
  by (intro rel_basic rel_target rel_globals rel_answer rel_find_target rel_check_target)

lemma rel_proxy_loop: "state_io_rel R (proxy_loop cfg login ps)"
  by (induction ps; simp only: proxy_loop.simps)
    (intro rel_basic rel_prims rel_reply rel_push rel_answer rel_do_register; assumption)+

lemma rel_send_file: "state_io_rel R (send_file s)"
proof (induction s rule: send_file.induct)
  case (1 s)
  show ?case
    by (subst send_file.simps) (intro rel_basic rel_prims rel_calls rel_sys rel_reply rel_push "1"; assumption)
qed

lemma rel_f_retr: "state_io_rel R (f_retr cfg av)"
  unfolding f_retr_def retr_ticket_def retr_proxy_def
  by (intro rel_basic rel_prims rel_calls rel_sys rel_files rel_globals rel_reply rel_push rel_answer rel_service_to_login
      rel_read_cookie rel_do_logout rel_proxy_loop rel_send_file)

end

end
