(* ===== verification/Command.thy ===== *)
theory Command
  imports Cmd_check
begin

text \<open>
  The rest of \<open>daemon/command.c\<close>: the handlers that need no login, STARTTLS, the two command tables and the
  loop \<open>command\<close> that reads lines and dispatches them until the connection ends.
\<close>

definition f_quit :: "config \<Rightarrow> string list \<Rightarrow> int outcome handler" where
  "f_quit cfg av = do { reply ''%d Service closing transmission channel'' [FI 221]; ret (Exit 0) }"

definition f_noop :: "config \<Rightarrow> string list \<Rightarrow> int outcome handler" where
  "f_noop cfg av = answer ''%d cosign v%s'' [FI 250, FS (cosign_version cfg)] 0"

definition f_help :: "config \<Rightarrow> string list \<Rightarrow> int outcome handler" where
  "f_help cfg av = answer ''%d Slainte Mhath! http://weblogin.org'' [FI 203] 0"

definition f_notauth :: "config \<Rightarrow> string list \<Rightarrow> int outcome handler" where
  "f_notauth cfg av = answer ''%d You must call STARTTLS first!'' [FI 550] 0"

definition banner :: "unit handler" where
  "banner = reply ''220 2 Collaborative Web Single Sign-On [COSIGNv%d FACTORS=%d REKEY]''
     [FI 3, FI (int COSIGN_MAXFACTORS)]"

text \<open>The protocol in \<open>STARTTLS n\<close>: \<open>None\<close> where it is refused.\<close>

definition tls_protocol :: "string \<Rightarrow> int option" where
  "tls_protocol s =
     (let (v, _, overflow) = strtol s; p = to_int v
      in if \<not> supports_factors p \<or> overflow then None else Some p)"

text \<open>After the handshake: who is at the other end decides what it may do.\<close>

definition admit_peer :: "config \<Rightarrow> string option \<Rightarrow> int outcome handler" where
  "admit_peer cfg peer =
     (case peer of
        None \<Rightarrow> ret (Ret (-1))
      | Some cn \<Rightarrow>
          let buf = take 1023 cn
          in case authlist_find (rx cfg) (authlist cfg) buf of
               None \<Rightarrow> do {
                 set_al None;
                 reply ''%d No access for %s'' [FI 401, FS buf];
                 ret (Exit 1) }
             | Some al \<Rightarrow> do {
                 set_al (Some al);
                 set_remote_cn buf;
                 set_auth_commands;
                 p \<leftarrow> get_protocol;
                 _ \<leftarrow> (if supports_factors p then banner else ret ());
                 ret (Ret 0) })"

definition tls_session :: "config \<Rightarrow> int outcome handler" where
  "tls_session cfg = do {
     reply ''%d Ready to start TLS'' [FI 220];
     (rc, peer) \<leftarrow> starttls;
     if rc \<noteq> 1 then answer (''%d SSL didn'' @ [CHR 0x27] @ ''t work error!'') [FI 501] 1
     else admit_peer cfg peer }"

definition f_starttls :: "config \<Rightarrow> string list \<Rightarrow> int outcome handler" where
  "f_starttls cfg av =
     (if 2 \<le> length av then
        (case tls_protocol (av ! 1) of
           None \<Rightarrow> do {
             reply ''%d Protocol version %s unrecognized'' [FI 502, FS (av ! 1)];
             set_protocol 0;
             ret (Ret 1) }
         | Some p \<Rightarrow> do { set_protocol p; tls_session cfg })
      else tls_session cfg)"

section \<open>Tables\<close>

type_synonym command_entry = "string \<times> (config \<Rightarrow> string list \<Rightarrow> int outcome handler)"

definition unauth_commands :: "command_entry list" where
  "unauth_commands =
     [(''NOOP'', f_noop), (''QUIT'', f_quit), (''HELP'', f_help), (''STARTTLS'', f_starttls),
      (''LOGIN'', f_notauth), (''LOGOUT'', f_notauth), (''REGISTER'', f_notauth), (''CHECK'', f_notauth),
      (''REKEY'', f_notauth), (''RETR'', f_notauth), (''TIME'', f_notauth), (''DAEMON'', f_notauth)]"

definition auth_commands :: "command_entry list" where
  "auth_commands =
     [(''NOOP'', f_noop), (''QUIT'', f_quit), (''HELP'', f_help), (''STARTTLS'', f_starttls),
      (''LOGIN'', f_login), (''LOGOUT'', f_logout), (''REGISTER'', f_register), (''CHECK'', f_check),
      (''REKEY'', f_check), (''RETR'', f_retr), (''TIME'', f_time), (''DAEMON'', f_daemon)]"

fun find_command :: "command_entry list \<Rightarrow> string \<Rightarrow> (config \<Rightarrow> string list \<Rightarrow> int outcome handler) option" where
  "find_command [] name = None"
| "find_command ((c, f) # cs) name = (if strcaseeq name c then Some f else find_command cs name)"

section \<open>The loop\<close>

definition commands :: "command_entry list handler" where
  "commands = State (\<lambda>w. (if d_auth_commands w then auth_commands else unauth_commands, w))"

text \<open>One line: whether the loop goes on, or how the process ends.\<close>

definition do_command :: "config \<Rightarrow> string \<Rightarrow> bool outcome handler" where
  "do_command cfg line =
     (let av = argcargv line
      in if av = [] then do { reply ''%d Command unrecognized'' [FI 501]; ret (Ret True) }
         else do {
           cs \<leftarrow> commands;
           case find_command cs (av ! 0) of
             None \<Rightarrow> do { reply ''%d Command %s unregcognized'' [FI 500, FS (av ! 0)]; ret (Ret True) }
           | Some f \<Rightarrow> do {
               r \<leftarrow> f cfg av;
               case r of
                 Undefined \<Rightarrow> ret Undefined
               | Exit n \<Rightarrow> ret (Exit n)
               | Ret rc \<Rightarrow> ret (Ret (0 \<le> rc)) } })"

definition get_sn :: "SNET handler" where
  "get_sn = State (\<lambda>w. (d_sn w, w))"

text \<open>After the loop: with a line left over from a failed command, or at the end of the input.\<close>

definition closing :: "bool \<Rightarrow> int outcome handler" where
  "closing got_line =
     (if got_line then do {
        reply ''491 Service not available, closing transmission channel'' [];
        ret (Exit 1) }
      else do {
        sn \<leftarrow> get_sn;
        ret (Exit (if sn_eof sn then 0 else if sn_errno sn = ETIMEDOUT then 0 else 1)) })"

text \<open>\<open>None\<close> would mean that the fuel ran out; \<open>command_loop_ends\<close> shows that it does not.\<close>

primrec command_loop :: "config \<Rightarrow> nat \<Rightarrow> int outcome option handler" where
  "command_loop cfg 0 = ret None"
| "command_loop cfg (Suc n) = do {
     l \<leftarrow> getline;
     case l of
       None \<Rightarrow> do { r \<leftarrow> closing False; ret (Some r) }
     | Some line \<Rightarrow> do {
         r \<leftarrow> do_command cfg line;
         case r of
           Undefined \<Rightarrow> ret (Some Undefined)
         | Exit n \<Rightarrow> ret (Some (Exit n))
         | Ret True \<Rightarrow> command_loop cfg n
         | Ret False \<Rightarrow> do { r \<leftarrow> closing True; ret (Some r) } } }"

text \<open>
  All the bytes that can still be read, over every handshake to come: no handler makes them more, and every
  turn of the loop takes at least one.
\<close>

definition input_left :: "daemon \<Rightarrow> nat" where
  "input_left w = length (stream (d_sn w)) +
     sum_list (map (\<lambda>h. length (concat (map event_bytes (hs_net h)))) (d_handshakes w))"

definition get_input_left :: "nat handler" where
  "get_input_left = State (\<lambda>w. (input_left w, w))"

definition command :: "config \<Rightarrow> int outcome option handler" where
  "command cfg = do {
     ok \<leftarrow> (if tlsopt cfg then do {
             set_auth_commands;
             (let al = authlist_find (rx cfg) (authlist cfg) ''NOTLS''
              in do { set_al al; ret (al \<noteq> None) }) }
           else ret True);
     if \<not> ok then do { reply ''%d No NOTLS access'' [FI 508]; ret (Some (Exit 1)) }
     else do {
       banner;
       n \<leftarrow> get_input_left;
       command_loop cfg (Suc n) } }"

section \<open>Relations lifted to the dispatcher\<close>

lemma find_command_mem: "find_command cs name = Some f \<Longrightarrow> f \<in> snd ` set cs"
  by (induction cs name rule: find_command.induct) (auto split: if_splits)

context conn_rel
begin

lemma rel_simple:
  "state_io_rel R (f_quit cfg av)" "state_io_rel R (f_noop cfg av)" "state_io_rel R (f_help cfg av)"
  "state_io_rel R (f_notauth cfg av)" "state_io_rel R banner"
  unfolding f_quit_def f_noop_def f_help_def f_notauth_def banner_def
  by (intro rel_basic rel_reply rel_answer)+

lemma rel_closing: "state_io_rel R (closing b)"
proof -
  have "state_io_rel R get_sn" by (auto simp: get_sn_def R_refl)
  then show ?thesis unfolding closing_def by (intro rel_basic rel_reply)
qed

text \<open>What holds for every handler of the table in use holds for a line.\<close>

lemma rel_do_command:
  assumes "\<And>f av. f \<in> snd ` set (if d_auth_commands w then auth_commands else unauth_commands) \<Longrightarrow>
      state_io_rel R (f cfg av)"
    and "run_state (do_command cfg line) w = (r, w')"
  shows "R w w'"
proof -
  let ?cs = "if d_auth_commands w then auth_commands else unauth_commands"
  define dispatch where "dispatch cs = (case find_command cs (argcargv line ! 0) of
        None \<Rightarrow> do { reply ''%d Command %s unregcognized'' [FI 500, FS (argcargv line ! 0)]; ret (Ret True) }
      | Some f \<Rightarrow> do {
          r \<leftarrow> f cfg (argcargv line);
          case r of
            Undefined \<Rightarrow> ret Undefined
          | Exit n \<Rightarrow> ret (Exit n)
          | Ret rc \<Rightarrow> ret (Ret (0 \<le> rc)) })" for cs
  have "state_io_rel R (dispatch ?cs)"
    unfolding dispatch_def using assms(1)
    by (intro rel_basic rel_reply) (auto dest!: find_command_mem simp del: state_io_rel_def)
  moreover have "state_io_rel R (do { reply ''%d Command unrecognized'' [FI 501]; ret (Ret True) })"
    by (intro rel_basic rel_reply)
  moreover have "run_state (do_command cfg line) w =
      (if argcargv line = [] then run_state (do { reply ''%d Command unrecognized'' [FI 501]; ret (Ret True) }) w
       else run_state (dispatch ?cs) w)"
    by (simp add: do_command_def Let_def commands_def dispatch_def)
  ultimately show ?thesis using assms(2) by (metis state_io_relD)
qed

end

context tls_rel
begin

lemma rel_f_starttls: "state_io_rel R (f_starttls cfg av)"
  unfolding f_starttls_def tls_session_def admit_peer_def
  by (intro rel_basic rel_reply rel_answer rel_starttls rel_globals rel_setters rel_simple)

lemma rel_unauth: "f \<in> snd ` set unauth_commands \<Longrightarrow> state_io_rel R (f cfg av)"
  by (auto simp: unauth_commands_def simp del: state_io_rel_def intro: rel_simple rel_f_starttls)

end

text \<open>The handlers of the second table, STARTTLS apart.\<close>

context handler_rel
begin

lemma rel_handlers:
  "f \<in> snd ` set auth_commands \<Longrightarrow> f \<noteq> f_starttls \<Longrightarrow> state_io_rel R (f cfg av)"
  by (auto simp: auth_commands_def simp del: state_io_rel_def intro: rel_simple rel_f_login rel_f_logout
      rel_f_register rel_f_check rel_f_retr rel_f_time rel_f_daemon)

end

context daemon_rel
begin

lemma rel_auth: "f \<in> snd ` set auth_commands \<Longrightarrow> state_io_rel R (f cfg av)"
  by (cases "f = f_starttls") (auto simp del: state_io_rel_def intro: rel_handlers rel_f_starttls)

lemma rel_command_line: "run_state (do_command cfg line) w = (r, w') \<Longrightarrow> R w w'"
  by (erule rel_do_command [rotated]) (auto split: if_splits intro: rel_auth rel_unauth simp del: state_io_rel_def)

end

section \<open>The loop ends\<close>

interpretation left: daemon_rel "\<lambda>w w'. input_left w' \<le> input_left w"
  by unfold_locales
    (auto simp: input_left_def stream_def dest: snet_getline_shrinks snet_read_shrinks)

end
