(* ===== verification/Samples.thy ===== *)
theory Samples
  imports Command
begin

text \<open>
  A configuration with a weblogin host, a web server and a service, and a daemon in a given state, for the concrete runs
  of the following theories.  The regular expressions are matched literally, one function that has the
  behaviour the theorems rely on.
\<close>

definition literal_regex :: regex where
  "literal_regex =
     \<lparr>regcomp = \<lambda>_ _. True,
      regexec = \<lambda>_ p s. if p = s then Match [(0, int (length s))] else No_match\<rparr>"

definition weblogin :: authlist where
  "weblogin = \<lparr>al_hostname = ''weblogin'', al_key = CGI, al_flag = 0, al_proxies = []\<rparr>"

definition www :: authlist where
  "www = \<lparr>al_hostname = ''www'', al_key = SERVICE, al_flag = 0, al_proxies = []\<rparr>"

definition sample_config :: config where
  "sample_config =
     \<lparr>hashlen = 0, idle_out_time = 7200, grey_time = 1800, strict_checks = False, tlsopt = False,
      cosign_tickets = ''/ticket'', cosign_version = ''3'', hostname = ''db'', authlist = [weblogin, www],
      servicelist = [], rx = literal_regex, pushersn = True, strerror = ''error'', reused = \<lambda>av. av\<rparr>"

definition sample_rate :: rate where
  "sample_rate = \<lparr>r_count = 0, r_tv = \<lparr>tv_sec = 0, tv_usec = 0\<rparr>, r_tv_last = \<lparr>tv_sec = 0, tv_usec = 0\<rparr>\<rparr>"

definition sample_daemon :: "(string \<Rightarrow> inode option) \<Rightarrow> daemon" where
  "sample_daemon fs =
     \<lparr>os_fs = fs, os_now = \<lparr>tv_sec = 1000, tv_usec = 0\<rparr>, os_pid = 7, os_faults = [], os_pool = replicate 93 0,
      d_sn = snet_attach [] 0, d_handshakes = [], d_out = [], d_push = [], d_auth_commands = True,
      d_al = Some weblogin, d_remote_cn = Some ''weblogin'', d_replicated = False, d_protocol = 3,
      d_checkpass = sample_rate, d_checkfail = sample_rate, d_checkunknown = sample_rate\<rparr>"

text \<open>A client that starts TLS as the weblogin host, and what it then sends.\<close>

definition sample_start :: "string list \<Rightarrow> daemon" where
  "sample_start ls = (sample_daemon (\<lambda>_. None))
     \<lparr>d_sn := snet_attach [Bytes (''STARTTLS 2'' @ [LF])] 0, d_auth_commands := False, d_al := None,
      d_remote_cn := None,
      d_handshakes := [\<lparr>hs_rc = 1, hs_peer = Some ''weblogin'', hs_net = map (\<lambda>l. Bytes (l @ [LF])) ls\<rparr>]\<rparr>"

lemmas sample_defs = sample_daemon_def sample_config_def weblogin_def www_def literal_regex_def

text \<open>A line that arrives in one piece.\<close>

definition plain :: "string \<Rightarrow> bool" where
  "plain l \<longleftrightarrow> (\<forall>c \<in> set l. c \<noteq> CR \<and> c \<noteq> LF \<and> c \<noteq> NUL)"

lemma getline_loop_buffered:
  assumes "sn_rdata sn = a @ b @ LF # r" and "plain b" and "sn_rstate sn \<noteq> SNET_FUZZY"
  shows "snet_getline_loop sn (length a) =
    (Some (a @ b), (advance sn (length (a @ b) + 1))\<lparr>sn_rstate := SNET_BOL\<rparr>)"
  using assms
proof (induction b arbitrary: a sn)
  case Nil
  then show ?case by (subst snet_getline_loop.simps) simp
next
  case (Cons c b)
  have "snet_getline_loop (sn\<lparr>sn_rstate := SNET_IN\<rparr>) (length (a @ [c])) =
      (Some ((a @ [c]) @ b), (advance (sn\<lparr>sn_rstate := SNET_IN\<rparr>) (length ((a @ [c]) @ b) + 1))\<lparr>sn_rstate := SNET_BOL\<rparr>)"
    by (rule Cons.IH) (use Cons.prems in \<open>auto simp: plain_def\<close>)
  then show ?case
    using Cons.prems by (subst snet_getline_loop.simps) (simp add: plain_def advance_def)
qed

lemma getline_one:
  assumes "sn_rdata sn = []" and "sn_rstate sn = SNET_BOL" and "sn_net sn = Bytes (l @ [LF]) # net"
    and "plain l" and "length l < sn_rbuflen sn"
  shows "snet_getline sn = (Some l, sn\<lparr>sn_rpos := length l + 1, sn_net := net\<rparr>)"
proof -
  let ?sn = "sn\<lparr>sn_rpos := 0, sn_rdata := l @ [LF], sn_net := net\<rparr>"
  have "snet_fill sn = Filled ?sn"
    using assms by (auto simp: snet_fill_def snet_readread_def Let_def)
  then have "snet_getline sn = snet_getline_loop ?sn 0"
    unfolding snet_getline_def using assms(1)
    by (subst (1 2) snet_getline_loop.simps) simp
  also have "\<dots> = (Some l, (advance ?sn (length l + 1))\<lparr>sn_rstate := SNET_BOL\<rparr>)"
    using getline_loop_buffered [of ?sn "[]" l "[]"] assms(2,4) by simp
  also have "(advance ?sn (length l + 1))\<lparr>sn_rstate := SNET_BOL\<rparr> = sn\<lparr>sn_rpos := length l + 1, sn_net := net\<rparr>"
    using assms(1,2) by (simp add: advance_def)
  finally show ?thesis .
qed

lemma run_getline_one:
  assumes "sn_rdata (d_sn w) = []" and "sn_rstate (d_sn w) = SNET_BOL" and "sn_net (d_sn w) = Bytes (l @ [LF]) # net"
    and "plain l" and "length l < sn_rbuflen (d_sn w)"
  shows "run_state getline w = (Some l, w\<lparr>d_sn := (d_sn w)\<lparr>sn_rpos := length l + 1, sn_net := net\<rparr>\<rparr>)"
  using getline_one [OF assms] by (simp add: getline_def)

end
