(* ===== verification/Mnet.thy ===== *)
theory Mnet
  imports Daemon Samples
begin

text \<open>
  \<open>daemon/mnet.c\<close>: the connections of the pusher and the monster to other servers.  A connection is the buffered input,
  the texts written, the outcome of the handshake to come and a schedule of writes that fail.  Whether \<open>socket\<close>, \<open>connect\<close> and
  \<open>snet_attach\<close> give a connection at all is an argument.
\<close>

record peer =
  c_sn :: SNET
  c_sent :: "string list"
  c_tls :: handshake
  c_faults :: "bool list"

type_synonym 'a talk = "(peer, 'a) state"

definition c_write :: "string \<Rightarrow> farg list \<Rightarrow> bool talk" where
  "c_write f args = State (\<lambda>c.
     if c_faults c \<noteq> [] \<and> hd (c_faults c) then (False, c\<lparr>c_faults := tl (c_faults c)\<rparr>)
     else (True, c\<lparr>c_faults := tl (c_faults c), c_sent := c_sent c @ [fmt (f @ crlf) args]\<rparr>))"

text \<open>\<open>snet_getline_multi\<close>: every line it skips takes at least one byte, so the fuel lasts.\<close>

definition c_reply :: "string option talk" where
  "c_reply = State (\<lambda>c.
     case snet_getline_multi (Suc (length (stream (c_sn c)))) (c_sn c) of (l, sn) \<Rightarrow> (l, c\<lparr>c_sn := sn\<rparr>))"

definition c_starttls :: "(int \<times> string option) talk" where
  "c_starttls = State (\<lambda>c. ((hs_rc (c_tls c), hs_peer (c_tls c)),
     if hs_rc (c_tls c) = 1 then c\<lparr>c_sn := (c_sn c)\<lparr>sn_tls := True, sn_net := hs_net (c_tls c)\<rparr>\<rparr> else c))"

text \<open>\<open>*line == '2'\<close>\<close>

definition is_class :: "char \<Rightarrow> string \<Rightarrow> bool" where
  "is_class d line \<longleftrightarrow> take 1 line = [d]"

text \<open>A reply whose class is 2, or the given error.\<close>

definition expect_2 :: "int \<Rightarrow> (string \<Rightarrow> int talk) \<Rightarrow> int talk" where
  "expect_2 err f = do {
     l \<leftarrow> c_reply;
     case l of
       None \<Rightarrow> ret err
     | Some line \<Rightarrow> if is_class CHR ''2'' line then f line else ret err }"

definition verify_peer :: "string \<Rightarrow> int \<Rightarrow> int talk" where
  "verify_peer host protocol = do {
     (rc, cert) \<leftarrow> c_starttls;
     if rc \<noteq> 1 then ret (-2)
     else case cert of
       None \<Rightarrow> ret (-2)
     | Some cn \<Rightarrow>
         if \<not> strcaseeq (take 1023 cn) host then ret (-2)
         else if protocol = 2 then expect_2 (-1) (\<lambda>_. ret 0)
         else ret 0 }"

definition greet :: "string \<Rightarrow> int talk" where
  "greet host = expect_2 (-1) (\<lambda>line.
     let av = argcargv line
     in if length av < 4 then ret (-1)
        else
          let protocol = (if to_int (fst (strtol (av ! 1))) = 2 then 2 else 0)
          in do {
               ok \<leftarrow> c_write (if protocol = 2 then ''STARTTLS 2'' else ''STARTTLS'') [];
               if \<not> ok then ret (-1) else expect_2 (-1) (\<lambda>_. verify_peer host protocol) })"

text \<open>The return code and what \<open>cl_sn\<close> is left as.\<close>

definition connect_sn :: "string \<Rightarrow> peer option \<Rightarrow> int \<times> peer option" where
  "connect_sn host conn =
     (case conn of
        None \<Rightarrow> (-1, None)
      | Some c \<Rightarrow> let (rc, c') = run_state (greet host) c in (rc, if rc = 0 then Some c' else None))"

definition close_talk :: "int talk" where
  "close_talk = do {
     ok \<leftarrow> c_write ''QUIT'' [];
     if \<not> ok then ret (-1)
     else do { l \<leftarrow> c_reply; ret (if l = None then -1 else 0) } }"

definition close_sn :: "peer \<Rightarrow> int \<times> peer option" where
  "close_sn c = (fst (run_state close_talk c), None)"

section \<open>Who is connected to\<close>

text \<open>What is to come in the handshake does not change before it.\<close>

definition tls_kept :: "peer \<Rightarrow> peer \<Rightarrow> bool" where
  "tls_kept c c' \<longleftrightarrow> c_tls c' = c_tls c"

interpretation tls_kept: io_preorder tls_kept
  by unfold_locales (auto simp: tls_kept_def)

lemma tls_kept_prims: "state_io_rel tls_kept (c_write f args)" "state_io_rel tls_kept c_reply"
proof -
  show "state_io_rel tls_kept (c_write f args)"
    by (rule state_io_relI) (simp add: c_write_def tls_kept_def split: if_splits; force)
  show "state_io_rel tls_kept c_reply"
    by (rule state_io_relI) (force simp: c_reply_def tls_kept_def simp del: snet_getline_multi.simps split: prod.splits)
qed

definition verified :: "string \<Rightarrow> handshake \<Rightarrow> bool" where
  "verified host h \<longleftrightarrow> hs_rc h = 1 \<and> (\<exists>cn. hs_peer h = Some cn \<and> strcaseeq (take 1023 cn) host)"

lemma verify_peer_ok: "run_state (verify_peer host protocol) c = (0, c') \<Longrightarrow> verified host (c_tls c)"
  by (auto simp: verify_peer_def c_starttls_def verified_def split: if_splits option.splits)

lemma expect_2_ok:
  assumes "run_state (expect_2 err f) c = (0, c')" and "err \<noteq> 0"
  obtains line c1 where "run_state c_reply c = (Some line, c1)" "run_state (f line) c1 = (0, c')" "tls_kept c c1"
proof -
  obtain l c1 where r: "run_state c_reply c = (l, c1)" by fastforce
  then have "tls_kept c c1" using tls_kept_prims(2) by (blast dest: state_io_relD)
  then show ?thesis using that r assms by (auto simp: expect_2_def split: option.splits if_splits)
qed

lemma greet_ok: "run_state (greet host) c = (0, c') \<Longrightarrow> verified host (c_tls c)"
proof -
  assume "run_state (greet host) c = (0, c')"
  then obtain line c1 where 1: "tls_kept c c1" "run_state (
     let av = argcargv line
     in if length av < 4 then ret (-1)
        else
          let protocol = (if to_int (fst (strtol (av ! 1))) = 2 then 2 else 0)
          in do {
               ok \<leftarrow> c_write (if protocol = 2 then ''STARTTLS 2'' else ''STARTTLS'') [];
               if \<not> ok then ret (-1) else expect_2 (-1) (\<lambda>_. verify_peer host protocol) }) c1 = (0, c')"
    unfolding greet_def by (rule expect_2_ok) auto
  then obtain f c2 p where 2: "run_state (c_write f []) c1 = (True, c2)"
    "run_state (expect_2 (-1) (\<lambda>_. verify_peer host p)) c2 = (0, c')"
    by (auto simp: Let_def split: if_splits prod.splits)
  obtain c3 where 3: "run_state (verify_peer host p) c3 = (0, c')" "tls_kept c2 c3"
    using 2(2) by (rule expect_2_ok) auto
  have "tls_kept c1 c2" using state_io_relD [OF tls_kept_prims(1) 2(1)] .
  then have "c_tls c3 = c_tls c" using 1(1) 3(2) by (simp add: tls_kept_def)
  then show ?thesis using verify_peer_ok [OF 3(1)] by simp
qed

text \<open>
  C22.  \<open>connect_sn\<close> leaves a connection open, and answers 0, only to a server that finished the handshake with a
  certificate for the host it was asked to connect to; otherwise the connection is closed and \<open>cl_sn\<close> null.
\<close>

theorem connect_sn_verifies:
  assumes "connect_sn host conn = (rc, cl_sn)" and "rc = 0 \<or> cl_sn \<noteq> None"
  shows "rc = 0 \<and> (\<exists>c c'. conn = Some c \<and> cl_sn = Some c' \<and> verified host (c_tls c))"
  using assms greet_ok
  by (auto simp: connect_sn_def split: option.splits prod.splits if_splits)

section \<open>A connection to the server \<open>db2\<close>\<close>

definition reading :: "string list \<Rightarrow> net_event list" where
  "reading ls = map (\<lambda>l. Bytes (l @ [LF])) ls"

definition sample_peer :: "string list \<Rightarrow> peer" where
  "sample_peer ls =
     \<lparr>c_sn = snet_attach (reading [''220 2 Collaborative Web'', ''220 Ready'']) 0, c_sent = [],
      c_tls = \<lparr>hs_rc = 1, hs_peer = Some ''DB2'', hs_net = reading (''220 2 Hello'' # ls)\<rparr>, c_faults = []\<rparr>"

definition status_line :: "string \<Rightarrow> bool" where
  "status_line l \<longleftrightarrow> plain l \<and> 3 \<le> length l \<and> length l < SNET_BUFLEN \<and>
     isdigit (l ! 0) \<and> isdigit (l ! 1) \<and> isdigit (l ! 2) \<and> (3 < length l \<longrightarrow> l ! 3 = CHR '' '')"

lemma getline_multi_one:
  assumes "snet_getline sn = (Some l, sn')" and "status_line l"
  shows "snet_getline_multi (Suc n) sn = (Some l, sn')"
  using assms by (cases "3 < length l") (simp_all add: status_line_def del: One_nat_def)

lemma c_reply_one:
  assumes "sn_rdata (c_sn c) = []" and "sn_rstate (c_sn c) = SNET_BOL" and "sn_net (c_sn c) = reading (l # ls)"
    and "status_line l" and "sn_rbuflen (c_sn c) = SNET_BUFLEN"
  shows "run_state c_reply c = (Some l, c\<lparr>c_sn := (c_sn c)\<lparr>sn_rpos := length l + 1, sn_net := reading ls\<rparr>\<rparr>)"
proof -
  have "snet_getline (c_sn c) = (Some l, (c_sn c)\<lparr>sn_rpos := length l + 1, sn_net := reading ls\<rparr>)"
    using assms by (intro getline_one) (simp_all add: reading_def status_line_def)
  then show ?thesis using getline_multi_one [OF _ assms(4)] by (simp add: c_reply_def del: snet_getline_multi.simps)
qed

text \<open>The connection is open, and these lines are the next to come.\<close>

definition reads :: "peer \<Rightarrow> string list \<Rightarrow> bool" where
  "reads p ls \<longleftrightarrow> c_faults p = [] \<and> sn_rdata (c_sn p) = [] \<and> sn_rstate (c_sn p) = SNET_BOL \<and> sn_rbuflen (c_sn p) = SNET_BUFLEN \<and>
     list_all status_line ls \<and> (\<exists>rest. sn_net (c_sn p) = reading (ls @ rest))"

lemma reads_fewer: "reads p (ls @ ls') \<Longrightarrow> reads p ls"
  by (auto simp: reads_def)

lemma run_c_reply:
  assumes "reads p (l # ls)"
  shows "\<exists>q. run_state c_reply p = (Some l, q) \<and> reads q ls \<and> c_sent q = c_sent p"
proof -
  obtain rest where r: "sn_net (c_sn p) = reading (l # ls @ rest)" using assms by (auto simp: reads_def)
  have "run_state c_reply p = (Some l, p\<lparr>c_sn := (c_sn p)\<lparr>sn_rpos := length l + 1, sn_net := reading (ls @ rest)\<rparr>\<rparr>)"
    using assms by (intro c_reply_one r) (simp_all add: reads_def)
  then show ?thesis using assms by (auto simp: reads_def)
qed

lemma sample_connect:
  assumes "host = ''db2''"
  shows "fst (connect_sn host (Some (sample_peer ls))) = 0"
proof -
  have st: "status_line ''220 2 Collaborative Web''" "status_line ''220 Ready''" "status_line ''220 2 Hello''"
    by (simp_all add: status_line_def plain_def ctrl_defs isdigit_def code_of_def SNET_BUFLEN_def)
  have cls: "is_class CHR ''2'' ''220 2 Collaborative Web''" "is_class CHR ''2'' ''220 Ready''" "is_class CHR ''2'' ''220 2 Hello''"
    by (simp_all add: is_class_def)
  have av: "argcargv ''220 2 Collaborative Web'' = [''220'', ''2'', ''Collaborative'', ''Web'']"
    using argcargv_join [of "[''220'', ''2'', ''Collaborative'', ''Web'']"] by (simp add: word_ok_def white_def ctrl_defs)
  have "show_nat 2 = ''2''" by (simp add: show_nat.simps)
  then have p: "to_int (fst (strtol ''2'')) = 2" using strtol_show_nat [of 2 "[]"] by (simp add: LONG_MAX_def)
  have n: "strcaseeq ''DB2'' ''db2''" by (simp add: strcaseeq_def tolower_def code_of_def chr_def char_of_def bit_iff_odd)
  show ?thesis
    unfolding assms connect_sn_def greet_def expect_2_def verify_peer_def
    by (simp add: c_reply_one sample_peer_def snet_attach_def st cls av p n c_write_def c_starttls_def Let_def)
qed

lemma connect_sn_verifies_witness: "verified ''db2'' (c_tls (sample_peer []))"
  using connect_sn_verifies [of "''db2''" "Some (sample_peer [])" 0 "snd (connect_sn ''db2'' (Some (sample_peer [])))"]
    sample_connect [OF refl, of "[]"]
  by (auto simp: prod_eq_iff)

end
