(* ===== verification/Pusher.thy ===== *)
theory Pusher
  imports Mnet Cmd_login
begin

text \<open>
  \<open>daemon/pusher.c\<close>: the process that passes what the daemon stores on to its replicas.  A parent reads the lines the
  daemon writes and hands each to one child per replica; a child says it to its replica as a command, and sends the
  ticket file where a login has one.  Process ids, the ends of children, and which pipes have room are arguments.
\<close>

section \<open>A child\<close>

record pusher = os +
  p_csn :: SNET
  p_conn :: peer

type_synonym 'a pushing = "(pusher, 'a) state"

definition p_getline :: "string option pushing" where
  "p_getline = State (\<lambda>w. case snet_getline (p_csn w) of (r, sn) \<Rightarrow> (r, w\<lparr>p_csn := sn\<rparr>))"

definition talk :: "'a talk \<Rightarrow> 'a pushing" where
  "talk m = State (\<lambda>w. case run_state m (p_conn w) of (r, c) \<Rightarrow> (r, w\<lparr>p_conn := c\<rparr>))"

text \<open>\<open>snet_write\<close>: whether all of the buffer was written.\<close>

definition c_send :: "string \<Rightarrow> bool talk" where
  "c_send s = State (\<lambda>c.
     if c_faults c \<noteq> [] \<and> hd (c_faults c) then (False, c\<lparr>c_faults := tl (c_faults c)\<rparr>)
     else (True, c\<lparr>c_faults := tl (c_faults c), c_sent := c_sent c @ [s]\<rparr>))"

definition pusherdaemon :: "string \<Rightarrow> unit outcome pushing" where
  "pusherdaemon host = do {
     b \<leftarrow> fault;
     if b then ret (Ret ())
     else do {
       _ \<leftarrow> talk (c_write ''DAEMON %s'' [FS host]);
       l \<leftarrow> talk c_reply;
       case l of
         None \<Rightarrow> do { _ \<leftarrow> talk close_talk; ret (Exit 1) }
       | Some line \<Rightarrow>
           if is_class CHR ''4'' line then do { _ \<leftarrow> talk close_talk; ret (Exit 3) }
           else if \<not> is_class CHR ''2'' line then do { _ \<leftarrow> talk close_talk; ret (Exit 1) }
           else ret (Ret ()) } }"

text \<open>The command for a line of words, and whether a ticket may follow.\<close>

definition push_command :: "string list \<Rightarrow> (string \<times> farg list \<times> bool) option" where
  "push_command av =
     (if length av = 6 then
        if strcaseeq (av ! 0) ''login''
        then Some (''LOGIN %s %s %s %s kerberos'', [FS (av ! 1), FS (av ! 2), FS (av ! 3), FS (av ! 4)], True) else None
      else if length av = 5 then
        if strcaseeq (av ! 0) ''login''
        then Some (''LOGIN %s %s %s %s'', [FS (av ! 1), FS (av ! 2), FS (av ! 3), FS (av ! 4)], False) else None
      else if length av = 4 then
        if strcaseeq (av ! 0) ''register''
        then Some (''REGISTER %s %s %s'', [FS (av ! 1), FS (av ! 2), FS (av ! 3)], False) else None
      else if length av = 3 then
        if strcaseeq (av ! 0) ''logout'' then Some (''LOGOUT %s %s'', [FS (av ! 1), FS (av ! 2)], False) else None
      else None)"

text \<open>\<open>while (( rr = read( fd, buf, sizeof( buf ))) > 0 )\<close>: what is left of the size, nothing after an error.\<close>

function (sequential) send_chunks :: "string \<Rightarrow> int \<Rightarrow> int option pushing" where
  "send_chunks s n = do {
     b \<leftarrow> fault;
     if b then ret None
     else if s = [] then ret (Some n)
     else do {
       ok \<leftarrow> talk (c_send (take 8192 s));
       if \<not> ok then ret None
       else send_chunks (drop 8192 s) (n - int (length (take 8192 s))) } }"
  by pat_completeness auto

termination by (relation "measure (\<lambda>(s, n). length s)") auto

declare send_chunks.simps [simp del]

text \<open>\<open>goto error\<close>\<close>

definition push_error :: "unit outcome pushing" where
  "push_error = do { _ \<leftarrow> talk close_talk; ret (Exit 1) }"

text \<open>\<open>done:\<close>\<close>

definition push_done :: "string \<Rightarrow> unit outcome pushing" where
  "push_done line =
     (if \<not> is_class CHR ''2'' line \<and> \<not> is_class CHR ''5'' line then push_error else ret (Ret ()))"

text \<open>The ticket: from the 3xx reply on.  Where the cookie cannot be read, the child goes on to its next line.\<close>

definition send_ticket :: "int \<Rightarrow> string list \<Rightarrow> unit outcome pushing" where
  "send_ticket h av =
     (case mkcookiepath None h (av ! 1) MAXPATHLEN of
        None \<Rightarrow> push_error
      | Some path \<Rightarrow> do {
          r \<leftarrow> read_cookie path;
          case r of
            Undefined \<Rightarrow> ret Undefined
          | Exit n \<Rightarrow> ret (Exit n)
          | Ret (rc, ci) \<Rightarrow>
              if rc \<noteq> 0 then ret (Ret ())
              else do {
                fd \<leftarrow> os_open (ci_krbtkt ci);
                case fd of
                  Err _ \<Rightarrow> push_error
                | Ok st \<Rightarrow> do {
                    b \<leftarrow> fault;
                    if b then push_error
                    else do {
                      let n = int (length (f_data st));
                      ok \<leftarrow> talk (c_write ''%d'' [FI (to_int n)]);
                      if \<not> ok then push_error
                      else do {
                        left \<leftarrow> send_chunks (f_data st) n;
                        if left \<noteq> Some 0 then push_error
                        else do {
                          ok \<leftarrow> talk (c_write ''.'' []);
                          if \<not> ok then push_error
                          else do {
                            l \<leftarrow> talk c_reply;
                            case l of
                              None \<Rightarrow> ret (Exit 1)
                            | Some line \<Rightarrow> push_done line } } } } } } })"

text \<open>One turn of the child's loop.\<close>

definition pusher_turn :: "int \<Rightarrow> unit outcome pushing" where
  "pusher_turn h = do {
     l \<leftarrow> p_getline;
     case l of
       None \<Rightarrow> ret (Exit 1)
     | Some line \<Rightarrow>
         let av = argcargv line
         in case push_command av of
              None \<Rightarrow> ret (Exit 1)
            | Some (f, args, krb) \<Rightarrow> do {
                _ \<leftarrow> talk (c_write f args);
                l \<leftarrow> talk c_reply;
                case l of
                  None \<Rightarrow> ret (Exit 1)
                | Some line \<Rightarrow>
                    if \<not> krb \<or> is_class CHR ''2'' line then push_done line
                    else if \<not> is_class CHR ''3'' line then push_error
                    else send_ticket h av } }"

text \<open>Each turn reads a line of the pipe, so the number of bytes still to come bounds the turns.\<close>

primrec pusher_loop :: "int \<Rightarrow> nat \<Rightarrow> unit outcome option pushing" where
  "pusher_loop h 0 = ret None"
| "pusher_loop h (Suc n) = do {
     r \<leftarrow> pusher_turn h;
     case r of
       Undefined \<Rightarrow> ret (Some Undefined)
     | Exit c \<Rightarrow> ret (Some (Exit c))
     | Ret _ \<Rightarrow> pusher_loop h n }"

text \<open>The child: its exit status tells the parent what went wrong.\<close>

definition pusher_main :: "int \<Rightarrow> string \<Rightarrow> string \<Rightarrow> peer option \<Rightarrow> pusher \<Rightarrow> unit outcome option \<times> pusher" where
  "pusher_main h replhost host conn w =
     (case connect_sn replhost conn of
        (rc, sn) \<Rightarrow>
          if rc < 0 then (Some (Exit (if rc = -2 then 2 else if rc = -1 then 1 else 2)), w)
          else case sn of
            None \<Rightarrow> (Some Undefined, w)
          | Some p \<Rightarrow>
              (case run_state (pusherdaemon host) (w\<lparr>p_conn := p\<rparr>) of
                 (r, w) \<Rightarrow>
                   if is_ret r then run_state (pusher_loop h (Suc (length (stream (p_csn w))))) w
                   else (Some r, w)))"

section \<open>The parent\<close>

text \<open>One entry of the list: the child's process id (0 without a child), the lines put into its pipe, the rates.\<close>

record child =
  cl_pid :: int
  cl_psn :: "string list option"
  cl_pushpass :: rate
  cl_pushfail :: rate

text \<open>A fresh list with an entry for every address of the host.\<close>

definition pusherhosts :: "rate \<Rightarrow> 'addr list option \<Rightarrow> child list option" where
  "pusherhosts rate0 addrs =
     (case addrs of
        None \<Rightarrow> None
      | Some as \<Rightarrow> Some (map (\<lambda>_. \<lparr>cl_pid = 0, cl_psn = None, cl_pushpass = rate0, cl_pushfail = rate0\<rparr>) as))"

text \<open>
  A child for every entry that has none; \<open>forks\<close> are the ids \<open>fork\<close> will return, and where there are none left, or a pipe
  cannot be had, the process ends.
\<close>

fun mkpushers :: "int list \<Rightarrow> child list \<Rightarrow> (child list \<times> int list) outcome" where
  "mkpushers forks [] = Ret ([], forks)"
| "mkpushers forks (c # cs) =
     (if cl_pid c \<noteq> 0 then
        case mkpushers forks cs of Ret (cs, fs) \<Rightarrow> Ret (c # cs, fs) | Exit n \<Rightarrow> Exit n | Undefined \<Rightarrow> Undefined
      else case forks of
        [] \<Rightarrow> Exit 1
      | pid # forks \<Rightarrow>
          (case mkpushers forks cs of
             Ret (cs, fs) \<Rightarrow> Ret (c\<lparr>cl_pid := pid, cl_psn := Some []\<rparr> # cs, fs)
           | Exit n \<Rightarrow> Exit n | Undefined \<Rightarrow> Undefined))"

datatype wait_status = Exited int | Signaled int | Other_status

definition SIGHUP :: int where "SIGHUP = 1"

text \<open>The first entry of the child: marked as exited, or removed where \<open>unlist\<close>.\<close>

fun mark_exited :: "bool \<Rightarrow> int \<Rightarrow> child list \<Rightarrow> child list" where
  "mark_exited unlist pid [] = []"
| "mark_exited unlist pid (c # cs) =
     (if pid = cl_pid c then (if unlist then cs else c\<lparr>cl_pid := 0, cl_psn := None\<rparr> # cs)
      else c # mark_exited unlist pid cs)"

text \<open>One child that \<open>waitpid\<close> returned.\<close>

definition reap :: "int \<times> wait_status \<Rightarrow> child list \<Rightarrow> child list outcome" where
  "reap = (\<lambda>(pid, status) cs.
     case status of
       Exited n \<Rightarrow>
         if n = 0 \<or> n = 1 then Ret (mark_exited False pid cs)
         else if n = 3 then Ret (mark_exited True pid cs)
         else Exit 1
     | Signaled s \<Rightarrow> if s = SIGHUP then Ret (mark_exited False pid cs) else Exit 1
     | Other_status \<Rightarrow> Exit 1)"

fun reap_all :: "(int \<times> wait_status) list \<Rightarrow> child list \<Rightarrow> child list outcome" where
  "reap_all [] cs = Ret cs"
| "reap_all (w # ws) cs = (case reap w cs of Ret cs \<Rightarrow> reap_all ws cs | Exit n \<Rightarrow> Exit n | Undefined \<Rightarrow> Undefined)"

text \<open>The line into the pipe of every child whose pipe has room.\<close>

definition forward :: "string \<Rightarrow> timeval option \<Rightarrow> bool \<Rightarrow> child \<Rightarrow> child" where
  "forward line t ready c =
     (if cl_pid c > 0 then
        if ready then
          c\<lparr>cl_psn := map_option (\<lambda>ls. ls @ [fmt (''%s'' @ crlf) [FS line]]) (cl_psn c),
            cl_pushpass := snd (rate_tick t (cl_pushpass c))\<rparr>
        else c\<lparr>cl_pushfail := snd (rate_tick t (cl_pushfail c))\<rparr>
      else c)"

text \<open>
  One turn of the parent: after a SIGHUP a fresh list, then the children that ended, a line, children for those that have
  none, and the line to them.  \<open>room\<close> is the outcome of \<open>select\<close>, whether the pipe of a child has room.
\<close>

definition parent_turn ::
  "child list option option \<Rightarrow> (int \<times> wait_status) list \<Rightarrow> string option \<Rightarrow> int list \<Rightarrow> (int \<Rightarrow> bool) option \<Rightarrow>
     timeval option \<Rightarrow> child list \<Rightarrow> child list outcome" where
  "parent_turn reconfig waits line forks room t cs =
     (case reconfig of
        Some None \<Rightarrow> Exit 1
      | _ \<Rightarrow>
          let cs = (case reconfig of Some (Some hs) \<Rightarrow> hs | _ \<Rightarrow> cs)
          in case reap_all waits cs of
               Exit n \<Rightarrow> Exit n
             | Undefined \<Rightarrow> Undefined
             | Ret cs \<Rightarrow>
                 (case line of
                    None \<Rightarrow> Exit 1
                  | Some l \<Rightarrow>
                      (case mkpushers forks cs of
                         Exit n \<Rightarrow> Exit n
                       | Undefined \<Rightarrow> Undefined
                       | Ret (cs, _) \<Rightarrow>
                           (case room of
                              None \<Rightarrow> Ret cs
                            | Some ready \<Rightarrow> Ret (map (\<lambda>c. forward l t (ready (cl_pid c)) c) cs)))))"

section \<open>Every live child has a pipe\<close>

definition piped :: "child \<Rightarrow> bool" where
  "piped c \<longleftrightarrow> cl_pid c \<noteq> 0 \<longrightarrow> cl_psn c \<noteq> None"

lemma piped_mark: "list_all piped cs \<Longrightarrow> list_all piped (mark_exited unlist pid cs)"
  by (induction cs) (auto simp: piped_def)

lemma piped_reap: "reap x cs = Ret cs' \<Longrightarrow> list_all piped cs \<Longrightarrow> list_all piped cs'"
  by (auto simp: reap_def piped_mark split: prod.splits wait_status.splits if_splits)

lemma piped_reap_all: "reap_all ws cs = Ret cs' \<Longrightarrow> list_all piped cs \<Longrightarrow> list_all piped cs'"
  by (induction ws arbitrary: cs) (auto dest: piped_reap split: outcome.splits)

lemma mkpushers_props:
  "mkpushers forks cs = Ret (cs', fs) \<Longrightarrow>
     (list_all piped cs \<longrightarrow> list_all piped cs') \<and> (0 \<notin> set forks \<longrightarrow> list_all (\<lambda>c. cl_pid c \<noteq> 0) cs')"
proof (induction cs arbitrary: forks cs' fs)
  case Nil
  then show ?case by simp
next
  case (Cons c cs)
  show ?case
  proof (cases "cl_pid c = 0")
    case False
    then obtain ds where "mkpushers forks cs = Ret (ds, fs)" "cs' = c # ds"
      using Cons.prems by (auto split: outcome.splits)
    then show ?thesis using Cons.IH False by auto
  next
    case True
    then obtain pid rest ds where "forks = pid # rest" "mkpushers rest cs = Ret (ds, fs)"
      "cs' = c\<lparr>cl_pid := pid, cl_psn := Some []\<rparr> # ds"
      using Cons.prems by (auto split: outcome.splits list.splits)
    then show ?thesis using Cons.IH by (auto simp: piped_def)
  qed
qed

lemma piped_forward: "piped c \<Longrightarrow> piped (forward l t r c)"
  by (simp add: piped_def forward_def)

lemma live_forward: "cl_pid (forward l t r c) = cl_pid c"
  by (simp add: forward_def)

lemma piped_hosts: "pusherhosts r addrs = Some cs \<Longrightarrow> list_all piped cs"
  by (auto simp: pusherhosts_def piped_def list_all_iff split: option.splits)

text \<open>
  C27.  After a turn of the parent every entry of its list has a running child, and every entry with a child has the pipe its lines go
  into: \<open>snet_fd\<close> and \<open>snet_writef\<close> are never called with a null pointer, whatever children ended and however the list was
  made anew.
\<close>

theorem pushers_have_pipes:
  assumes "parent_turn reconfig waits line forks room t cs = Ret cs'"
    and "list_all piped (case reconfig of Some (Some hs) \<Rightarrow> hs | _ \<Rightarrow> cs)" and "0 \<notin> set forks"
  shows "list_all (\<lambda>c. cl_pid c \<noteq> 0 \<and> cl_psn c \<noteq> None) cs'"
proof -
  let ?cs = "case reconfig of Some (Some hs) \<Rightarrow> hs | _ \<Rightarrow> cs"
  obtain cs1 l cs2 fs where *: "reap_all waits ?cs = Ret cs1" "mkpushers forks cs1 = Ret (cs2, fs)"
    "cs' = (case room of None \<Rightarrow> cs2 | Some ready \<Rightarrow> map (\<lambda>c. forward l t (ready (cl_pid c)) c) cs2)"
  proof -
    have "reconfig \<noteq> Some None" using assms(1) by (auto simp: parent_turn_def)
    then have run: "(case reap_all waits ?cs of
         Exit n \<Rightarrow> Exit n
       | Undefined \<Rightarrow> Undefined
       | Ret cs1 \<Rightarrow>
           (case line of
              None \<Rightarrow> Exit 1
            | Some l \<Rightarrow>
                (case mkpushers forks cs1 of
                   Exit n \<Rightarrow> Exit n
                 | Undefined \<Rightarrow> Undefined
                 | Ret (cs2, _) \<Rightarrow>
                     (case room of
                        None \<Rightarrow> Ret cs2
                      | Some ready \<Rightarrow> Ret (map (\<lambda>c. forward l t (ready (cl_pid c)) c) cs2))))) = Ret cs'"
      using assms(1) by (simp add: parent_turn_def Let_def split: option.splits)
    then obtain cs1 where 1: "reap_all waits ?cs = Ret cs1" by (cases "reap_all waits ?cs") simp_all
    with run obtain l where l: "line = Some l" by (cases line) simp_all
    with run 1 obtain cs2 fs where 2: "mkpushers forks cs1 = Ret (cs2, fs)" by (cases "mkpushers forks cs1") auto
    then have "cs' = (case room of None \<Rightarrow> cs2 | Some ready \<Rightarrow> map (\<lambda>c. forward l t (ready (cl_pid c)) c) cs2)"
      using run 1 l by (cases room) auto
    then show ?thesis by (rule that [OF 1 2])
  qed
  have 2: "list_all piped cs2" "list_all (\<lambda>c. cl_pid c \<noteq> 0) cs2"
    using piped_reap_all [OF *(1) assms(2)] mkpushers_props [OF *(2)] assms(3) by blast+
  then have "list_all (\<lambda>c. cl_pid c \<noteq> 0 \<and> piped c) cs'"
    using *(3) piped_forward live_forward by (cases room) (auto simp: list_all_iff)
  then show ?thesis by (auto simp: list_all_iff piped_def)
qed

lemma pushers_have_pipes_witness:
  "list_all (\<lambda>c. cl_pid c \<noteq> 0 \<and> cl_psn c \<noteq> None)
     (case parent_turn (Some (pusherhosts sample_rate (Some [(), ()]))) [(7, Exited 1)] (Some ''LOGOUT a b'') [8, 9] None None [] of
        Ret cs \<Rightarrow> cs | _ \<Rightarrow> [\<lparr>cl_pid = 0, cl_psn = None, cl_pushpass = sample_rate, cl_pushfail = sample_rate\<rparr>])"
proof -
  let ?cs = "[\<lparr>cl_pid = 8, cl_psn = Some [], cl_pushpass = sample_rate, cl_pushfail = sample_rate\<rparr>,
    \<lparr>cl_pid = 9, cl_psn = Some [], cl_pushpass = sample_rate, cl_pushfail = sample_rate\<rparr>]"
  have "parent_turn (Some (pusherhosts sample_rate (Some [(), ()]))) [(7, Exited 1)] (Some ''LOGOUT a b'') [8, 9] None None [] = Ret ?cs"
    by (simp add: parent_turn_def pusherhosts_def reap_def)
  moreover from pushers_have_pipes [OF this] have "list_all (\<lambda>c. cl_pid c \<noteq> 0 \<and> cl_psn c \<noteq> None) ?cs"
    by (simp add: pusherhosts_def piped_def)
  ultimately show ?thesis by simp
qed

section \<open>The child's loop ends with its input\<close>

definition csn_size :: "pusher \<Rightarrow> nat" where
  "csn_size w = length (stream (p_csn w))"

interpretation csn: os_rel "\<lambda>w w'. csn_size (w' :: pusher) = csn_size w"
  by unfold_locales (auto simp: csn_size_def)

lemma csn_talk: "state_io_rel (\<lambda>w w'. csn_size w' = csn_size w) (talk m)"
  by (rule state_io_relI) (auto simp: talk_def csn_size_def split: prod.splits)

lemma csn_chunks: "state_io_rel (\<lambda>w w'. csn_size w' = csn_size w) (send_chunks s n)"
proof (induction s n rule: send_chunks.induct)
  case (1 s n)
  then show ?case by (subst send_chunks.simps) (intro csn.rel_basic csn.rel_pure csn_talk "1"; assumption)
qed

lemma csn_ticket: "state_io_rel (\<lambda>w w'. csn_size w' = csn_size w) (send_ticket h av)"
  unfolding send_ticket_def push_error_def push_done_def
  by (intro csn.rel_basic csn.rel_pure csn.rel_read_cookie csn_talk csn_chunks)

lemma turn_size: "run_state (pusher_turn h) w = (Ret x, w') \<Longrightarrow> csn_size w' < csn_size w"
proof -
  assume run: "run_state (pusher_turn h) w = (Ret x, w')"
  obtain l w1 where g: "run_state p_getline w = (l, w1)" by fastforce
  have size: "csn_size w1 + (if l = None then 0 else 1) \<le> csn_size w"
    using g snet_getline_shrinks [of "p_csn w"] by (auto simp: p_getline_def csn_size_def split: prod.splits)
  obtain line where l: "l = Some line" using run g by (cases l) (auto simp: pusher_turn_def)
  obtain f args krb where c: "push_command (argcargv line) = Some (f, args, krb)"
    using run g l by (cases "push_command (argcargv line)") (auto simp: pusher_turn_def)
  let ?rest = "do {
      _ \<leftarrow> talk (c_write f args);
      l \<leftarrow> talk c_reply;
      case l of
        None \<Rightarrow> ret (Exit 1)
      | Some rl \<Rightarrow>
          if \<not> krb \<or> is_class CHR ''2'' rl then push_done rl
          else if \<not> is_class CHR ''3'' rl then push_error
          else send_ticket h (argcargv line) }"
  have "run_state ?rest w1 = (Ret x, w')" using run g l c by (simp add: pusher_turn_def)
  moreover have "state_io_rel (\<lambda>w w'. csn_size w' = csn_size w) ?rest"
    unfolding push_error_def push_done_def by (intro csn.rel_basic csn_talk csn_ticket)
  ultimately have "csn_size w' = csn_size w1" by (blast dest: state_io_relD)
  then show ?thesis using size l by simp
qed

lemma pusher_loop_ends: "csn_size w < n \<Longrightarrow> fst (run_state (pusher_loop h n) w) \<noteq> None"
proof (induction n arbitrary: w)
  case 0
  then show ?case by simp
next
  case (Suc n)
  obtain r w1 where t: "run_state (pusher_turn h) w = (r, w1)" by fastforce
  show ?case
  proof (cases r)
    case (Ret x)
    then have "csn_size w1 < n" using turn_size t Suc.prems by fastforce
    then show ?thesis using Suc.IH t Ret by simp
  qed (use t in simp_all)
qed

end
