(* ===== verification/Session.thy ===== *)
theory Session
  imports Samples
begin

text \<open>
  A connection to the daemon as a state machine: a step reads one line and handles it.  The theory shows
  what holds in every state a connection can reach: the loop ends, a host is known when the handlers that need one
  run, and files change only for a host the configuration admits.
\<close>

section \<open>Termination\<close>

lemma run_getline_left:
  "run_state getline w = (Some l, w') \<Longrightarrow> input_left w' < input_left w"
  using snet_getline_shrinks [of "d_sn w"] by (auto simp: getline_def input_left_def split: prod.splits)

lemma command_loop_ends: "input_left w < n \<Longrightarrow> fst (run_state (command_loop cfg n) w) \<noteq> None"
proof (induction n arbitrary: w)
  case 0
  then show ?case by simp
next
  case (Suc n)
  obtain l w1 where g: "run_state getline w = (l, w1)" by fastforce
  show ?case
  proof (cases l)
    case None
    then show ?thesis using g by (simp split: prod.splits)
  next
    case (Some line)
    obtain r w2 where d: "run_state (do_command cfg line) w1 = (r, w2)" by fastforce
    have "input_left w2 < n"
      using run_getline_left g Some left.rel_command_line [OF d] Suc.prems by fastforce
    then have "fst (run_state (command_loop cfg n) w2) \<noteq> None" by (rule Suc.IH)
    then show ?thesis using g d Some by (simp split: prod.splits outcome.splits bool.splits)
  qed
qed

lemma command_ends: "fst (run_state (command cfg) w) \<noteq> None"
proof -
  have "fst (run_state (do { banner; n \<leftarrow> get_input_left; command_loop cfg (Suc n) }) v) \<noteq> None" for v
    using command_loop_ends [of _ "Suc (input_left w)" for w]
    by (auto simp: get_input_left_def simp del: command_loop.simps split: prod.splits)
  then show ?thesis
    by (simp add: command_def set_auth_commands_def set_al_def reply_def Let_def del: command_loop.simps)
qed

text \<open>
  C18.  A connection always ends: whatever the client sends, whichever handshakes and system calls fail, the
  process exits (or meets code without meaning) after at most as many commands as there are bytes to read.
\<close>

theorem command_terminates: "fst (run_state (command cfg) w) \<noteq> None"
  by (rule command_ends)

section \<open>Steps\<close>

text \<open>One turn of the loop that is followed by another.\<close>

inductive command_step :: "config \<Rightarrow> daemon \<Rightarrow> daemon \<Rightarrow> bool" for cfg where
  one_line: "command_step cfg w w2"
  if "run_state getline w = (Some line, w1)" and "run_state (do_command cfg line) w1 = (Ret True, w2)"

inductive_cases command_stepE: "command_step cfg w w'"

text \<open>The loop takes these steps, and then its last turn.\<close>

lemma command_loop_steps:
  "run_state (command_loop cfg n) w = (Some r, w') \<Longrightarrow>
     \<exists>v. (command_step cfg)\<^sup>*\<^sup>* w v \<and> run_state (command_loop cfg 1) v = (Some r, w')"
proof (induction n arbitrary: w)
  case 0
  then show ?case by simp
next
  case (Suc n)
  show ?case
  proof (cases "\<exists>line w1 w2. run_state getline w = (Some line, w1) \<and>
      run_state (do_command cfg line) w1 = (Ret True, w2)")
    case True
    then obtain line w1 w2 where s: "run_state getline w = (Some line, w1)"
      "run_state (do_command cfg line) w1 = (Ret True, w2)" by blast
    then have "run_state (command_loop cfg n) w2 = (Some r, w')" using Suc.prems by simp
    then show ?thesis
      using Suc.IH one_line [OF s] by (meson converse_rtranclp_into_rtranclp)
  next
    case False
    then have "run_state (command_loop cfg 1) w = (Some r, w')"
      using Suc.prems by (auto split: prod.splits option.splits outcome.splits bool.splits)
    then show ?thesis by blast
  qed
qed

section \<open>Who is at the other end\<close>

text \<open>The entry of the list of hosts a handshake may bring: its peer's certificate was read and found.\<close>

definition admits :: "config \<Rightarrow> handshake \<Rightarrow> authlist \<Rightarrow> bool" where
  "admits cfg h al \<longleftrightarrow> hs_rc h = 1 \<and>
     (\<exists>cn. hs_peer h = Some cn \<and> authlist_find (rx cfg) (authlist cfg) (take 1023 cn) = Some al)"

text \<open>
  What a connection keeps: the handshakes to come are the last ones of those there were, and a client that may use
  the second table was admitted by one of the others, as the host \<open>al\<close> points to.
\<close>

definition admitted :: "config \<Rightarrow> daemon \<Rightarrow> daemon \<Rightarrow> bool" where
  "admitted cfg w0 w \<longleftrightarrow>
     (\<exists>hs. d_handshakes w0 = hs @ d_handshakes w) \<and>
     (d_auth_commands w \<longrightarrow>
        (\<exists>h \<in> set (d_handshakes w0). \<exists>al. admits cfg h al \<and> d_al w = Some al))"

definition quiet_rel :: "daemon \<Rightarrow> daemon \<Rightarrow> bool" where
  "quiet_rel w w' \<longleftrightarrow> d_handshakes w' = d_handshakes w \<and> d_auth_commands w' = d_auth_commands w \<and> d_al w' = d_al w"

interpretation kept: handler_rel quiet_rel
  by unfold_locales (auto simp: quiet_rel_def)

text \<open>Files and messages to the pusher stay as they are.\<close>

definition files_rel :: "daemon \<Rightarrow> daemon \<Rightarrow> bool" where
  "files_rel w w' \<longleftrightarrow> os_fs w' = os_fs w \<and> d_push w' = d_push w"

interpretation files: tls_rel files_rel
  by unfold_locales (auto simp: files_rel_def)

lemma getline_kept: "run_state getline w = (l, w') \<Longrightarrow> quiet_rel w w' \<and> files_rel w w'"
  using state_io_relD [OF kept.rel_input(1)] state_io_relD [OF files.rel_input(1)] by blast

text \<open>STARTTLS, by cases: no change, an admitted host, or the end of the connection.\<close>

lemma f_starttls_cases:
  assumes "run_state (f_starttls cfg av) w = (r, w')"
  shows "(\<exists>hs. d_handshakes w = hs @ d_handshakes w') \<and>
    (d_auth_commands w' = d_auth_commands w \<and> d_al w' = d_al w \<or>
     (\<exists>h \<in> set (d_handshakes w). \<exists>al. admits cfg h al \<and> d_al w' = Some al) \<or> (\<forall>rc. r \<noteq> Ret rc))"
proof -
  have tls: "(\<exists>hs. d_handshakes v = hs @ d_handshakes v') \<and>
    (d_auth_commands v' = d_auth_commands v \<and> d_al v' = d_al v \<or>
     (\<exists>h \<in> set (d_handshakes v). \<exists>al. admits cfg h al \<and> d_al v' = Some al) \<or> (\<forall>rc. r \<noteq> Ret rc))"
    if "run_state (tls_session cfg) v = (r, v')" for v v'
  proof (cases "d_handshakes v")
    case Nil
    then show ?thesis
      using that by (auto simp: tls_session_def starttls_def os_simps)
  next
    case (Cons h hs)
    then show ?thesis
      using that
      by (cases "hs_peer h"; cases "authlist_find (rx cfg) (authlist cfg) (take 1023 (the (hs_peer h)))")
        (auto simp: tls_session_def starttls_def os_simps admit_peer_def admits_def banner_def Let_def
          split: if_splits)
  qed
  show ?thesis
    using assms by (auto simp: f_starttls_def os_simps dest!: tls split: if_splits option.splits)
qed

lemma do_command_cases:
  assumes "run_state (do_command cfg line) w = (r, w')"
  obtains x where "w' = w\<lparr>d_out := d_out w @ x\<rparr>"
  | f av q where "f \<in> snd ` set (if d_auth_commands w then auth_commands else unauth_commands)"
      "run_state (f cfg av) w = (q, w')" "r = Ret True \<Longrightarrow> \<exists>rc. q = Ret rc"
proof (cases "argcargv line = []")
  case True
  then show ?thesis using assms that(1) by (auto simp: do_command_def os_simps Let_def)
next
  case False
  let ?cs = "if d_auth_commands w then auth_commands else unauth_commands"
  show ?thesis
  proof (cases "find_command ?cs (argcargv line ! 0)")
    case None
    then show ?thesis using assms False that(1) by (auto simp: do_command_def os_simps commands_def Let_def)
  next
    case (Some f)
    obtain q w2 where q: "run_state (f cfg (argcargv line)) w = (q, w2)" by fastforce
    then have "w' = w2" "r = Ret True \<Longrightarrow> \<exists>rc. q = Ret rc"
      using assms False Some by (auto simp: do_command_def commands_def Let_def split: outcome.splits)
    then show ?thesis using that(2) [OF find_command_mem [OF Some] _] q by blast
  qed
qed

lemma unauth_handlers:
  "f \<in> snd ` set unauth_commands \<Longrightarrow> f \<noteq> f_starttls \<Longrightarrow> state_io_rel quiet_rel (f cfg av)"
  by (auto simp: unauth_commands_def simp del: state_io_rel_def intro: kept.rel_simple)

lemma admitted_step:
  assumes "admitted cfg w0 w" and "command_step cfg w w'"
  shows "admitted cfg w0 w'"
proof -
  from assms(2) obtain line w1 where g: "run_state getline w = (Some line, w1)"
    and d: "run_state (do_command cfg line) w1 = (Ret True, w')" by (rule command_stepE)
  have w1: "admitted cfg w0 w1" using assms(1) getline_kept [OF g] by (simp add: admitted_def quiet_rel_def)
  from d show ?thesis
  proof (cases rule: do_command_cases)
    case (1 x)
    then show ?thesis using w1 by (simp add: admitted_def)
  next
    case (2 f av q)
    show ?thesis
    proof (cases "f = f_starttls")
      case True
      with 2(2) have "run_state (f_starttls cfg av) w1 = (q, w')" by simp
      from f_starttls_cases [OF this] 2(3) w1 show ?thesis by (fastforce simp: admitted_def)
    next
      case False
      with 2(1) have "state_io_rel quiet_rel (f cfg av)"
        by (auto split: if_splits intro: unauth_handlers kept.rel_handlers simp del: state_io_rel_def)
      then have "quiet_rel w1 w'" using 2(2) by (rule state_io_relD)
      then show ?thesis using w1 by (simp add: admitted_def quiet_rel_def)
    qed
  qed
qed

lemma admitted_steps:
  "(command_step cfg)\<^sup>*\<^sup>* w w' \<Longrightarrow> admitted cfg w0 w \<Longrightarrow> admitted cfg w0 w'"
  by (induction rule: rtranclp_induct) (auto intro: admitted_step)

lemma admitted_start: "\<not> d_auth_commands w \<Longrightarrow> admitted cfg w w"
  by (simp add: admitted_def)

text \<open>
  In every state a connection can reach, the commands that need a host are in use only once a client has
  shown a certificate that the list of hosts admits, and \<open>al\<close>, which they all read through, points to its
  entry: no handler follows a null \<open>al\<close>.
\<close>

lemma authenticated_host:
  assumes "\<not> d_auth_commands w0" and "(command_step cfg)\<^sup>*\<^sup>* w0 w" and "d_auth_commands w"
  shows "\<exists>h \<in> set (d_handshakes w0). \<exists>al. admits cfg h al \<and> d_al w = Some al"
  using admitted_steps [OF assms(2) admitted_start [OF assms(1)]] assms(3) by (simp add: admitted_def)

section \<open>What a host may do\<close>

definition cgi_handlers :: "(config \<Rightarrow> string list \<Rightarrow> int outcome handler) list" where
  "cgi_handlers = [f_login, f_logout, f_register, f_time, f_daemon]"

lemma cgi_only:
  assumes "f \<in> set cgi_handlers" and "d_al w = Some al" and "al_key al \<noteq> CGI"
  shows "\<exists>msg. run_state (f cfg av) w = (Ret 1, w\<lparr>d_out := d_out w @ [msg]\<rparr>)"
  using assms
  by (auto simp: cgi_handlers_def f_login_def f_logout_def f_register_def f_time_def f_daemon_def os_simps)

lemma check_refused:
  assumes "f \<in> {f_check, f_retr}" and "d_al w = Some al" and "al_key al \<notin> {CGI, SERVICE}"
  shows "\<exists>msg. run_state (f cfg av) w = (Ret 1, w\<lparr>d_out := d_out w @ [msg]\<rparr>)"
  using assms by (auto simp: f_check_def f_retr_def os_simps)

text \<open>
  A host that is not a \<open>cgi\<close> host cannot log in or out, register, pass on times or set the
  replication flag: each of these handlers only writes one reply and changes nothing else.
\<close>

lemma only_cgi_hosts:
  assumes "f \<in> set cgi_handlers" and "d_al w = Some al" and "al_key al \<noteq> CGI"
  shows "\<exists>msg. run_state (f cfg av) w = (Ret 1, w\<lparr>d_out := d_out w @ [msg]\<rparr>)"
  using assms by (rule cgi_only)

lemma refused_files:
  assumes "f \<in> snd ` set auth_commands" and "d_al w = Some al" and "al_key al \<notin> {CGI, SERVICE}"
    and "run_state (f cfg av) w = (r, w')"
  shows "files_rel w w'"
proof (cases "f \<in> set cgi_handlers \<union> {f_check, f_retr}")
  case True
  then obtain msg where "run_state (f cfg av) w = (Ret 1, w\<lparr>d_out := d_out w @ [msg]\<rparr>)"
    using cgi_only [of f w al cfg av] check_refused [of f w al cfg av] assms(2,3) by blast
  then show ?thesis using assms(4) by (simp add: files_rel_def)
next
  case False
  then have "f \<in> {f_quit, f_noop, f_help, f_starttls}"
    using assms(1) by (auto simp: auth_commands_def cgi_handlers_def)
  then have "state_io_rel files_rel (f cfg av)"
    by (auto simp del: state_io_rel_def intro: files.rel_simple files.rel_f_starttls)
  then show ?thesis using assms(4) by (rule state_io_relD)
qed

lemma line_files:
  assumes "run_state (do_command cfg line) w = (r, w')"
    and "d_auth_commands w \<Longrightarrow> \<exists>al. d_al w = Some al \<and> al_key al \<notin> {CGI, SERVICE}"
  shows "files_rel w w'"
  using assms(1)
proof (cases rule: do_command_cases)
  case (1 x)
  then show ?thesis by (simp add: files_rel_def)
next
  case (2 f av q)
  show ?thesis
  proof (cases "d_auth_commands w")
    case True
    then show ?thesis using 2 assms(2) by (auto intro: refused_files)
  next
    case False
    then show ?thesis using 2 by (auto intro: state_io_relD [OF files.rel_unauth])
  qed
qed

lemma turn_files:
  assumes "run_state getline w = (Some line, w1)" and "run_state (do_command cfg line) w1 = (r, w')"
    and "d_auth_commands w \<Longrightarrow> \<exists>al. d_al w = Some al \<and> al_key al \<notin> {CGI, SERVICE}"
  shows "files_rel w w'"
proof -
  have w1: "quiet_rel w w1" "files_rel w w1" using getline_kept [OF assms(1)] by auto
  have "files_rel w1 w'" using line_files [OF assms(2)] assms(3) w1(1) by (simp add: quiet_rel_def)
  then show ?thesis using w1(2) files.R_trans by blast
qed

text \<open>No host of the list that may change anything took part in a handshake.\<close>

definition no_host :: "config \<Rightarrow> daemon \<Rightarrow> bool" where
  "no_host cfg w \<longleftrightarrow> (\<forall>h \<in> set (d_handshakes w). \<forall>al. admits cfg h al \<longrightarrow> al_key al \<notin> {CGI, SERVICE})"

lemma admitted_no_host:
  "admitted cfg w0 w \<Longrightarrow> no_host cfg w0 \<Longrightarrow> d_auth_commands w \<Longrightarrow> \<exists>al. d_al w = Some al \<and> al_key al \<notin> {CGI, SERVICE}"
  by (auto simp: admitted_def no_host_def)

lemma steps_files:
  assumes "(command_step cfg)\<^sup>*\<^sup>* w0 w" and "\<not> d_auth_commands w0" and "no_host cfg w0"
  shows "admitted cfg w0 w \<and> files_rel w0 w"
  using assms(1)
proof (induction rule: rtranclp_induct)
  case base
  then show ?case using assms(2) by (simp add: admitted_start files_rel_def)
next
  case (step v w)
  then obtain line w1 where "run_state getline v = (Some line, w1)" "run_state (do_command cfg line) w1 = (Ret True, w)"
    by (blast elim: command_stepE)
  then have "files_rel v w" using step.IH assms(3) by (blast intro: turn_files admitted_no_host)
  then show ?case using step admitted_step files.R_trans by blast
qed

text \<open>
  Whatever lines a client sends, and whatever fails, the cookie files and the messages to the other servers change
  only if one of its handshakes showed a certificate that the configuration lists as a \<open>cgi\<close> or \<open>service\<close> host.
\<close>

lemma files_change_for_hosts:
  assumes "\<not> d_auth_commands w0" and "(command_step cfg)\<^sup>*\<^sup>* w0 w"
    and "os_fs w \<noteq> os_fs w0 \<or> d_push w \<noteq> d_push w0"
  shows "\<exists>h \<in> set (d_handshakes w0). \<exists>al. admits cfg h al \<and> al_key al \<in> {CGI, SERVICE}"
  using steps_files [OF assms(2,1)] assms(3) by (auto simp: files_rel_def no_host_def)

text \<open>The same of a connection from its first byte to its end.\<close>

lemma command_files:
  assumes "\<not> tlsopt cfg" and "\<not> d_auth_commands w" and "no_host cfg w" and "run_state (command cfg) w = (r, w')"
  shows "files_rel w w'"
proof -
  obtain v where b: "run_state banner w = ((), v)" by (cases "run_state banner w") auto
  then have v: "quiet_rel w v" "files_rel w v"
    using state_io_relD [OF kept.rel_simple(5) b] state_io_relD [OF files.rel_simple(5) b] by auto
  have l: "run_state (command_loop cfg (Suc (input_left v))) v = (r, w')"
    using assms(1,4) b by (simp add: command_def get_input_left_def del: command_loop.simps)
  then obtain q where r: "r = Some q" using command_loop_ends [of v "Suc (input_left v)" cfg] by auto
  obtain u where u: "(command_step cfg)\<^sup>*\<^sup>* v u" and e: "run_state (command_loop cfg 1) u = (Some q, w')"
    using command_loop_steps [OF l [unfolded r]] by blast
  have nv: "no_host cfg v" "\<not> d_auth_commands v" using assms(2,3) v(1) by (auto simp: no_host_def quiet_rel_def)
  have au: "admitted cfg v u" and vu: "files_rel v u" using steps_files [OF u nv(2,1)] by auto
  have "files_rel u w'"
  proof -
    obtain line u1 where g: "run_state getline u = (line, u1)" by fastforce
    note closes = state_io_relD [OF files.rel_closing]
    show ?thesis
    proof (cases line)
      case None
      then obtain x where "run_state (closing False) u1 = (x, w')"
        using e g by (auto split: prod.splits)
      then show ?thesis using closes getline_kept [OF g] files.R_trans by blast
    next
      case (Some l)
      obtain d u2 where d: "run_state (do_command cfg l) u1 = (d, u2)" by fastforce
      have u2: "files_rel u u2"
        by (rule turn_files [OF g [unfolded Some] d]) (use admitted_no_host [OF au nv(1)] in blast)
      have "w' = u2 \<or> (\<exists>x. run_state (closing True) u2 = (x, w'))"
        using e g d Some by (auto split: prod.splits outcome.splits bool.splits)
      then show ?thesis using u2 closes files.R_trans by blast
    qed
  qed
  then show ?thesis using v(2) vu files.R_trans by blast
qed

section \<open>A session\<close>

text \<open>The client of \<open>sample_start\<close> after its STARTTLS.\<close>

definition sample_session :: "string list \<Rightarrow> daemon" where
  "sample_session ls = (sample_start ls)
     \<lparr>d_sn := (d_sn (sample_start ls))\<lparr>sn_rpos := 11, sn_tls := True, sn_net := map (\<lambda>l. Bytes (l @ [LF])) ls\<rparr>,
      d_handshakes := [], d_auth_commands := True, d_al := Some weblogin, d_remote_cn := Some ''weblogin'',
      d_protocol := 2,
      d_out := [fmt (''%d Ready to start TLS'' @ crlf) [FI 220],
        fmt (''220 2 Collaborative Web Single Sign-On [COSIGNv%d FACTORS=%d REKEY]'' @ crlf) [FI 3, FI 5]]\<rparr>"

lemmas name_eval = strcaseeq_def tolower_def code_of_def chr_def

lemma sample_starttls: "command_step sample_config (sample_start ls) (sample_session ls)"
proof (rule one_line)
  let ?w1 = "(sample_start ls)\<lparr>d_sn := (d_sn (sample_start ls))\<lparr>sn_rpos := 11, sn_net := []\<rparr>\<rparr>"
  show "run_state getline (sample_start ls) = (Some ''STARTTLS 2'', ?w1)"
    using run_getline_one [of "sample_start ls" "''STARTTLS 2''" "[]"]
    by (simp add: sample_start_def snet_attach_def plain_def ctrl_defs SNET_BUFLEN_def)
  have av: "argcargv ''STARTTLS 2'' = [''STARTTLS'', ''2'']"
    using argcargv_join [of "[''STARTTLS'', ''2'']"] by (simp add: word_ok_def white_def ctrl_defs)
  have "show_nat 2 = ''2''" by (simp add: show_nat.simps)
  then have p: "tls_protocol ''2'' = Some 2"
    using strtol_show_nat [of 2 "[]"] by (simp add: tls_protocol_def LONG_MAX_def supports_factors_def)
  have cmd: "find_command unauth_commands ''STARTTLS'' = Some f_starttls"
    by (simp add: unauth_commands_def name_eval)
  have al: "authlist_find literal_regex [weblogin, www] ''weblogin'' = Some weblogin"
    by (simp add: literal_regex_def weblogin_def)
  have admit: "run_state (admit_peer sample_config (Some ''weblogin'')) w = (Ret 0,
      w\<lparr>d_al := Some weblogin, d_remote_cn := Some ''weblogin'', d_auth_commands := True,
         d_out := d_out w @ [fmt (''220 2 Collaborative Web Single Sign-On [COSIGNv%d FACTORS=%d REKEY]'' @ crlf) [FI 3, FI 5]]\<rparr>)"
    if "d_protocol w = 2" for w
    using that al
    by (simp add: admit_peer_def os_simps banner_def supports_factors_def COSIGN_MAXFACTORS_def sample_config_def)
  have "run_state (f_starttls sample_config [''STARTTLS'', ''2'']) ?w1 = (Ret 0, sample_session ls)"
    by (simp add: f_starttls_def p tls_session_def os_simps starttls_def sample_start_def sample_daemon_def
        sample_session_def admit)
  moreover have "\<not> d_auth_commands ?w1" by (simp add: sample_start_def)
  ultimately show "run_state (do_command sample_config ''STARTTLS 2'') ?w1 = (Ret True, sample_session ls)"
    by (simp add: do_command_def av commands_def cmd Let_def)
qed

lemma sample_admits: "admits sample_config \<lparr>hs_rc = 1, hs_peer = Some ''weblogin'', hs_net = n\<rparr> weblogin"
  by (simp add: admits_def sample_defs)

lemma authenticated_host_witness:
  "\<exists>h \<in> set (d_handshakes (sample_start [])). \<exists>al. admits sample_config h al \<and> d_al (sample_session []) = Some al"
proof (rule authenticated_host)
  show "\<not> d_auth_commands (sample_start [])" by (simp add: sample_start_def)
  show "(command_step sample_config)\<^sup>*\<^sup>* (sample_start []) (sample_session [])" using sample_starttls by blast
  show "d_auth_commands (sample_session [])" by (simp add: sample_session_def)
qed

lemma only_cgi_hosts_witness:
  "\<exists>msg. run_state (f_logout sample_config [''LOGOUT'']) ((sample_daemon (\<lambda>_. None))\<lparr>d_al := Some www\<rparr>) =
     (Ret 1, (sample_daemon (\<lambda>_. None))\<lparr>d_al := Some www, d_out := [msg]\<rparr>)"
  using only_cgi_hosts [of f_logout "(sample_daemon (\<lambda>_. None))\<lparr>d_al := Some www\<rparr>" www sample_config "[''LOGOUT'']"]
  by (simp add: cgi_handlers_def www_def sample_daemon_def)

text \<open>A client that only sends NOOP.\<close>

definition sample_noop :: "(string \<Rightarrow> inode option) \<Rightarrow> daemon" where
  "sample_noop fs = (sample_daemon fs)\<lparr>d_sn := snet_attach [Bytes (''NOOP'' @ [LF])] 0\<rparr>"

lemma sample_noop_step:
  "\<exists>w'. command_step sample_config (sample_noop fs) w' \<and> w' \<noteq> sample_noop fs"
proof -
  let ?w1 = "(sample_noop fs)\<lparr>d_sn := (d_sn (sample_noop fs))\<lparr>sn_rpos := 5, sn_net := []\<rparr>\<rparr>"
  have g: "run_state getline (sample_noop fs) = (Some ''NOOP'', ?w1)"
    using run_getline_one [of "sample_noop fs" "''NOOP''" "[]"]
    by (simp add: sample_noop_def snet_attach_def plain_def ctrl_defs SNET_BUFLEN_def)
  have av: "argcargv ''NOOP'' = [''NOOP'']"
    using argcargv_join [of "[''NOOP'']"] by (simp add: word_ok_def white_def ctrl_defs)
  have cmd: "find_command auth_commands ''NOOP'' = Some f_noop"
    by (simp add: auth_commands_def name_eval)
  have "run_state (do_command sample_config ''NOOP'') ?w1 =
      (Ret True, ?w1\<lparr>d_out := [fmt (''%d cosign v%s'' @ crlf) [FI 250, FS ''3'']]\<rparr>)"
    by (simp add: do_command_def av commands_def cmd f_noop_def os_simps Let_def sample_noop_def sample_daemon_def sample_config_def)
  from one_line [OF g this] show ?thesis
    by (intro exI conjI, assumption) (simp add: sample_noop_def sample_daemon_def)
qed

end
