(* ===== verification/Database.thy ===== *)
theory Database
  imports Session
begin

text \<open>
  What the commands mean for the database, where no system call fails.  The abstract database maps login
  cookies to who is logged in (\<open>login_of\<close>) and service cookies to login cookies (\<open>service_of\<close>); the theorems
  give each handler's effect on these maps and its reply.
\<close>

section \<open>The abstract database\<close>

definition login_of :: "config \<Rightarrow> 'a os_scheme \<Rightarrow> string \<Rightarrow> cinfo option" where
  "login_of cfg w c =
     (case mkcookiepath None (hashlen cfg) c MAXPATHLEN of
        None \<Rightarrow> None
      | Some p \<Rightarrow>
          (case parse_cookie (os_fs w p) of
             Ret (rc, ci) \<Rightarrow> if rc = 0 then Some ci else None
           | _ \<Rightarrow> None))"

definition parse_service :: "inode option \<Rightarrow> string option" where
  "parse_service e =
     (case e of
        None \<Rightarrow> None
      | Some f \<Rightarrow>
          if f_data f = [] then None
          else case chop_line (fst (fgets_line (MAXCOOKIELEN + 1) (f_data f))) of
            Ret (Some buf) \<Rightarrow> if take 1 buf = ''l'' then Some (tl buf) else None
          | _ \<Rightarrow> None)"

definition service_of :: "config \<Rightarrow> 'a os_scheme \<Rightarrow> string \<Rightarrow> string option" where
  "service_of cfg w c =
     Option.bind (mkcookiepath None (hashlen cfg) c MAXPATHLEN) (\<lambda>p. parse_service (os_fs w p))"

abbreviation path_of :: "config \<Rightarrow> string \<Rightarrow> string option" where
  "path_of cfg c \<equiv> mkcookiepath None (hashlen cfg) c MAXPATHLEN"

lemma login_ofD:
  assumes "login_of cfg w c = Some ci"
  obtains p f where "path_of cfg c = Some p" "os_fs w p = Some f" "parse_cookie (Some f) = Ret (0, ci)"
    "parse_cookie (os_fs w p) = Ret (0, ci)"
proof -
  obtain p where p: "path_of cfg c = Some p" "parse_cookie (os_fs w p) = Ret (0, ci)"
    using assms by (auto simp: login_of_def split: option.splits outcome.splits if_splits)
  then obtain f where "os_fs w p = Some f" by (cases "os_fs w p") (auto simp: parse_cookie_def)
  then show ?thesis using that p by metis
qed

lemma login_ofI: "path_of cfg c = Some p \<Longrightarrow> parse_cookie (os_fs w p) = Ret (0, ci) \<Longrightarrow> login_of cfg w c = Some ci"
  by (simp add: login_of_def)

text \<open>A file holds one cookie: a change of it is a change of that entry.\<close>

lemma path_inj: "path_of cfg c = Some p \<Longrightarrow> path_of cfg d = Some p \<Longrightarrow> c = d"
  by (rule mkcookiepath_inject_aux)

lemma login_of_upd:
  assumes "path_of cfg c = Some p" and "os_fs w' = (os_fs w)(p := e)" and "parse_cookie e = Ret (0, ci)"
  shows "login_of cfg w' = (login_of cfg w)(c \<mapsto> ci)"
proof
  fix d
  show "login_of cfg w' d = ((login_of cfg w)(c \<mapsto> ci)) d"
  proof (cases "d = c")
    case True
    then show ?thesis using assms by (simp add: login_of_def)
  next
    case False
    then have "path_of cfg d \<noteq> Some p" using assms(1) path_inj by blast
    then show ?thesis using False assms(2) by (auto simp: login_of_def split: option.splits)
  qed
qed

lemma login_of_cong: "os_fs w' = os_fs w \<Longrightarrow> login_of cfg w' = login_of cfg w"
  by (rule ext) (simp add: login_of_def split: option.splits)

lemma service_of_cong: "os_fs w' = os_fs w \<Longrightarrow> service_of cfg w' = service_of cfg w"
  by (rule ext) (simp add: service_of_def)

text \<open>Mode and times are not part of the text of a file.\<close>

lemma parse_fields_keeps:
  "parse_fields s ci = Ret (rc, ci') \<Longrightarrow> parse_fields s (ci\<lparr>ci_itime := t, ci_state := st\<rparr>) = Ret (rc, ci'\<lparr>ci_itime := t, ci_state := st\<rparr>)"
proof (induction s arbitrary: ci rule: measure_induct_rule [of length])
  case (less s)
  show ?case
  proof (cases "s = []")
    case True
    then show ?thesis using less.prems by (simp add: parse_fields.simps)
  next
    case False
    obtain buf s' where l: "fgets_line (MAXPATHLEN + 1) s = (buf, s')" by fastforce
    have len: "length s' < length s" using fgets_line_rest [OF l] False by (simp add: MAXPATHLEN_def)
    have fld: "read_field x (ci\<lparr>ci_itime := t, ci_state := st\<rparr>) =
        (case read_field x ci of
           Ret (Some c) \<Rightarrow> Ret (Some (c\<lparr>ci_itime := t, ci_state := st\<rparr>))
         | r \<Rightarrow> r)" for x
      by (auto simp: read_field_def Let_def split: list.splits)
    show ?thesis
      using less.prems less.IH [OF len] l False
      by (subst parse_fields.simps, subst (asm) parse_fields.simps)
        (auto simp: fld split: outcome.splits option.splits)
  qed
qed

lemma parse_cookie_meta:
  assumes "parse_cookie (Some f) = Ret (0, ci)"
  shows "parse_cookie (Some (f\<lparr>f_mode := m, f_mtime := t\<rparr>)) =
    Ret (0, ci\<lparr>ci_itime := t, ci_state := (if m AND S_ISGID \<noteq> 0 then 0 else 1)\<rparr>)"
proof -
  obtain buf s where b: "fgets_line 3 (f_data f) = (buf, s)" by fastforce
  have ver: "read_version buf (cinfo_zero\<lparr>ci_itime := a\<rparr>) =
      (case read_version buf cinfo_zero of Ret (q, c) \<Rightarrow> Ret (q, c\<lparr>ci_itime := a\<rparr>) | r \<Rightarrow> r)" for a
    by (auto simp: read_version_def Let_def split: outcome.splits option.splits)
  obtain c where c: "read_version buf cinfo_zero = Ret (True, c)" "s \<noteq> []" "f_data f \<noteq> []"
    and p: "parse_fields (snd (fgets_line 3 s))
      (c\<lparr>ci_itime := f_mtime f, ci_state := (if f_mode f AND S_ISGID \<noteq> 0 then 0 else 1)\<rparr>) = Ret (0, ci)"
    using assms b
    by (auto simp: parse_cookie_def Let_def ver split: if_splits outcome.splits bool.splits prod.splits)
  show ?thesis
    using parse_fields_keeps [OF p] b c
    by (cases "m AND S_ISGID = 0") (simp_all add: parse_cookie_def Let_def ver split: prod.splits)
qed

lemma parse_cookie_state:
  assumes "parse_cookie (Some f) = Ret (0, ci)"
  shows "ci_state ci = (if f_mode f AND S_ISGID \<noteq> 0 then 0 else 1) \<and> ci_itime ci = f_mtime f"
proof -
  have "f\<lparr>f_mode := f_mode f, f_mtime := f_mtime f\<rparr> = f" by simp
  with parse_cookie_meta [OF assms, where m = "f_mode f" and t = "f_mtime f"] assms
  have *: "ci = ci\<lparr>ci_itime := f_mtime f, ci_state := (if f_mode f AND S_ISGID \<noteq> 0 then 0 else 1)\<rparr>" by simp
  show ?thesis by (subst (1 2) *) simp
qed

text \<open>Changing the mode or the time of a file.\<close>

lemma service_of_meta:
  assumes "os_fs w p = Some f" and "os_fs w' = (os_fs w)(p \<mapsto> f')" and "f_data f' = f_data f"
  shows "service_of cfg w' = service_of cfg w"
proof
  fix d
  show "service_of cfg w' d = service_of cfg w d"
    using assms by (cases "path_of cfg d"; cases "the (path_of cfg d) = p") (auto simp: service_of_def parse_service_def)
qed

lemma login_of_meta:
  assumes "path_of cfg c = Some p" and "os_fs w p = Some f" and "parse_cookie (Some f) = Ret (0, ci)"
    and "os_fs w' = (os_fs w)(p \<mapsto> f\<lparr>f_mode := m, f_mtime := t\<rparr>)"
  shows "login_of cfg w' = (login_of cfg w)(c \<mapsto> ci\<lparr>ci_itime := t, ci_state := (if m AND S_ISGID \<noteq> 0 then 0 else 1)\<rparr>)"
  using login_of_upd [OF assms(1,4)] parse_cookie_meta [OF assms(3)] by blast

definition revoked :: "int \<Rightarrow> cinfo \<Rightarrow> cinfo" where
  "revoked t ci = ci\<lparr>ci_itime := t, ci_state := 0\<rparr>"

definition touched :: "int \<Rightarrow> cinfo \<Rightarrow> cinfo" where
  "touched t ci = ci\<lparr>ci_itime := t\<rparr>"

lemma login_of_revoked:
  assumes "path_of cfg c = Some p" and "os_fs w p = Some f" and "parse_cookie (Some f) = Ret (0, ci)"
    and "os_fs w' = (os_fs w)(p \<mapsto> f\<lparr>f_mode := S_ISGID OR S_IRUSR, f_mtime := t\<rparr>)"
  shows "login_of cfg w' = (login_of cfg w)(c \<mapsto> revoked t ci)"
  using login_of_meta [OF assms] by (simp add: revoked_def S_ISGID_def S_IRUSR_def)

lemma login_of_touched:
  assumes "path_of cfg c = Some p" and "os_fs w p = Some f" and "parse_cookie (Some f) = Ret (0, ci)"
    and "os_fs w' = (os_fs w)(p \<mapsto> f\<lparr>f_mtime := t\<rparr>)"
  shows "login_of cfg w' = (login_of cfg w)(c \<mapsto> touched t ci)"
proof -
  have "f\<lparr>f_mtime := t\<rparr> = f\<lparr>f_mode := f_mode f, f_mtime := t\<rparr>" by simp
  moreover have "ci\<lparr>ci_itime := t, ci_state := (if f_mode f AND S_ISGID \<noteq> 0 then 0 else 1)\<rparr> = touched t ci"
    using parse_cookie_state [OF assms(3)] by (simp add: touched_def)
  ultimately show ?thesis
    using login_of_meta [OF assms(1-3), where w' = w' and m = "f_mode f" and t = t] assms(4) by simp
qed

text \<open>The files of a login cookie and of a service cookie.\<close>

definition login_file_of :: "cinfo \<Rightarrow> inode" where
  "login_file_of ci = \<lparr>f_data = cookie_text ci, f_mode = mode_0644, f_mtime = ci_itime ci\<rparr>"

lemma parse_login_file:
  assumes "cinfo_ok ci" and "ci_version ci = 2" and "ci_state ci = 1"
  shows "parse_cookie (Some (login_file_of ci)) = Ret (0, ci)"
proof -
  have "mode_0644 AND S_ISGID = 0" by (simp add: mode_0644_def S_ISGID_def)
  then show ?thesis
    using parse_cookie_text [OF assms(1), of "login_file_of ci"] assms(2,3) by (simp add: login_file_of_def)
qed

lemma parse_service_line:
  assumes "text_ok c" and "length c < MAXCOOKIELEN" and "f_data f = mkline (''l'' @ c)"
  shows "parse_service (Some f) = Some c"
proof -
  have "fgets_line (MAXCOOKIELEN + 1) (mkline (''l'' @ c)) = (''l'' @ c @ [LF], [])"
    using fgets_line_full [of "''l'' @ c" "MAXCOOKIELEN + 1" "[]"] assms(1,2)
    by (simp add: text_ok_def mkline_def ctrl_defs)
  moreover have "chop_line (''l'' @ c @ [LF]) = Ret (Some (''l'' @ c))"
    using chop_line_full [of "''l'' @ c"] assms(1) by (simp add: text_ok_def ctrl_defs)
  ultimately show ?thesis using assms(3) by (simp add: parse_service_def mkline_def)
qed

text \<open>A login of bob and a service cookie for it.\<close>

definition sample_cinfo :: cinfo where
  "sample_cinfo =
     \<lparr>ci_version = 2, ci_state = 1, ci_ipaddr = ''10.0.0.1'', ci_ipaddr_cur = ''10.0.0.1'', ci_user = ''bob'',
      ci_realm = ''umich'', ci_ctime = ''900'', ci_krbtkt = [], ci_itime = 900\<rparr>"

definition sample_db :: daemon where
  "sample_db = sample_daemon
     [''cosign=ab'' \<mapsto> login_file_of sample_cinfo,
      ''cosign-www=cd'' \<mapsto> \<lparr>f_data = mkline (''l'' @ ''cosign=ab''), f_mode = mode_0644, f_mtime = 900\<rparr>]"

lemma sample_path:
  "path_of sample_config ''cosign=ab'' = Some ''cosign=ab''"
  "path_of sample_config ''cosign-www=cd'' = Some ''cosign-www=cd''"
  by (simp_all add: mkcookiepath_def sample_config_def MAXCOOKIELEN_def MAXPATHLEN_def)

lemma sample_state [simp]:
  "os_faults sample_db = []" "os_now sample_db = \<lparr>tv_sec = 1000, tv_usec = 0\<rparr>" "d_al sample_db = Some weblogin"
  "d_out sample_db = []" "d_push sample_db = []" "d_protocol sample_db = 3" "al_key weblogin = CGI"
  by (simp_all add: sample_db_def sample_daemon_def weblogin_def)

text \<open>
  A login cookie's file reads back as it was written: for fields that fit their arrays, \<open>read_cookie\<close> of the
  lines \<open>f_login\<close> prints returns them all, with the version, the state of the file's mode and its time.
\<close>

lemma cookie_roundtrip:
  assumes "cinfo_ok ci"
  shows "parse_cookie (Some \<lparr>f_data = cookie_text ci, f_mode = m, f_mtime = t\<rparr>) =
    Ret (0, ci\<lparr>ci_version := 2, ci_state := (if m AND S_ISGID \<noteq> 0 then 0 else 1), ci_itime := t\<rparr>)"
  using parse_cookie_text [OF assms, of "\<lparr>f_data = cookie_text ci, f_mode = m, f_mtime = t\<rparr>"] by simp

lemma cookie_roundtrip_witness:
  "parse_cookie (Some \<lparr>f_data = cookie_text sample_cinfo, f_mode = mode_0644, f_mtime = 900\<rparr>) = Ret (0, sample_cinfo)"
proof -
  have "cinfo_ok sample_cinfo"
    by (simp add: cinfo_ok_def sample_cinfo_def text_ok_def ctrl_defs MAXPATHLEN_def)
  from cookie_roundtrip [OF this] show ?thesis by (simp add: mode_0644_def S_ISGID_def sample_cinfo_def)
qed

lemma sample_login: "login_of sample_config sample_db ''cosign=ab'' = Some sample_cinfo"
proof -
  have "cinfo_ok sample_cinfo"
    by (simp add: cinfo_ok_def sample_cinfo_def text_ok_def ctrl_defs MAXPATHLEN_def)
  from parse_login_file [OF this] show ?thesis
    by (simp add: login_of_def sample_path sample_db_def sample_daemon_def sample_cinfo_def)
qed

lemma sample_service: "service_of sample_config sample_db ''cosign-www=cd'' = Some ''cosign=ab''"
  using parse_service_line [of "''cosign=ab''" "\<lparr>f_data = mkline (''l'' @ ''cosign=ab''), f_mode = mode_0644, f_mtime = 900\<rparr>"]
  by (simp add: service_of_def sample_path sample_db_def sample_daemon_def text_ok_def ctrl_defs MAXCOOKIELEN_def)

section \<open>LOGOUT\<close>

text \<open>What the pusher is told.\<close>

definition pushed :: "config \<Rightarrow> daemon \<Rightarrow> string \<Rightarrow> farg list \<Rightarrow> string list" where
  "pushed cfg w f args = (if pushersn cfg \<and> \<not> d_replicated w then [fmt (f @ crlf) args] else [])"

lemma run_push [os_simps]: "run_state (push cfg f args) w = ((), w\<lparr>d_push := d_push w @ pushed cfg w f args\<rparr>)"
  by (simp add: push_def pushed_def)

lemma pushed_upd [simp]:
  "pushed cfg (w\<lparr>d_out := x\<rparr>) = pushed cfg w" "pushed cfg (w\<lparr>os_fs := y\<rparr>) = pushed cfg w"
  by (auto simp: pushed_def fun_eq_iff)

lemma logout_effect:
  assumes "os_faults w = []" and "d_al w = Some al" and "al_key al = CGI"
    and "login_of cfg w c = Some ci" and "ci_state ci \<noteq> 0"
  shows "\<exists>w'. run_state (f_logout cfg [cmd, c, ip]) w = (Ret 0, w') \<and> os_faults w' = [] \<and> d_al w' = d_al w \<and>
    login_of cfg w' = (login_of cfg w)(c \<mapsto> revoked (tv_sec (os_now w)) ci) \<and>
    service_of cfg w' = service_of cfg w \<and>
    d_out w' = d_out w @ [fmt (''%d LOGOUT successful: cookie no longer valid'' @ crlf) [FI 210]] \<and>
    d_push w' = d_push w @ pushed cfg w ''LOGOUT %s %s'' [FS c, FS ip]"
proof -
  obtain p f where p: "path_of cfg c = Some p" "os_fs w p = Some f" "parse_cookie (Some f) = Ret (0, ci)"
    "parse_cookie (os_fs w p) = Ret (0, ci)" using assms(4) by (rule login_ofD)
  let ?f = "f\<lparr>f_mode := S_ISGID OR S_IRUSR, f_mtime := tv_sec (os_now w)\<rparr>"
  let ?w = "w\<lparr>os_fs := (os_fs w)(p \<mapsto> ?f),
    d_out := d_out w @ [fmt (''%d LOGOUT successful: cookie no longer valid'' @ crlf) [FI 210]],
    d_push := d_push w @ pushed cfg w ''LOGOUT %s %s'' [FS c, FS ip]\<rparr>"
  have "run_state (f_logout cfg [cmd, c, ip]) w = (Ret 0, ?w)"
    using assms p by (simp add: f_logout_def os_simps)
  moreover have "login_of cfg ?w = (login_of cfg w)(c \<mapsto> revoked (tv_sec (os_now w)) ci)"
    by (rule login_of_revoked [OF p(1-3)]) simp
  moreover have "service_of cfg ?w = service_of cfg w"
    by (rule service_of_meta [OF p(2), where f' = ?f]) simp_all
  ultimately show ?thesis using assms(1) by (intro exI [of _ ?w]) simp
qed

text \<open>
  LOGOUT by a \<open>cgi\<close> host, of a login cookie that is logged in: the entry of that cookie, and no other, is
  revoked; the client gets 210 and the other servers the LOGOUT, unless it came from one of them.
\<close>

lemma logout_revokes:
  assumes "os_faults w = []" and "d_al w = Some al" and "al_key al = CGI"
    and "login_of cfg w c = Some ci" and "ci_state ci \<noteq> 0"
  shows "\<exists>w'. run_state (f_logout cfg [cmd, c, ip]) w = (Ret 0, w') \<and>
    login_of cfg w' = (login_of cfg w)(c \<mapsto> revoked (tv_sec (os_now w)) ci) \<and>
    service_of cfg w' = service_of cfg w \<and>
    d_out w' = d_out w @ [fmt (''%d LOGOUT successful: cookie no longer valid'' @ crlf) [FI 210]] \<and>
    d_push w' = d_push w @ pushed cfg w ''LOGOUT %s %s'' [FS c, FS ip]"
  using logout_effect [OF assms] by metis

lemma logout_revokes_witness:
  "\<exists>w'. run_state (f_logout sample_config [''LOGOUT'', ''cosign=ab'', ''10.0.0.1'']) sample_db = (Ret 0, w') \<and>
     login_of sample_config w' ''cosign=ab'' = Some (revoked 1000 sample_cinfo)"
  using logout_revokes [OF _ _ _ sample_login, of weblogin "''LOGOUT''" "''10.0.0.1''"]
  by (auto simp: sample_cinfo_def)

section \<open>CHECK\<close>

datatype verdict = Live | Signed_out | Grey_window | Timed_out

text \<open>What a login is worth, by the two times of the manual alone.\<close>

definition verdict :: "config \<Rightarrow> int \<Rightarrow> cinfo \<Rightarrow> verdict" where
  "verdict cfg t ci =
     (if ci_state ci = 0 then Signed_out
      else if t < ci_itime ci + idle_out_time cfg then Live
      else if t < ci_itime ci + idle_out_time cfg + grey_time cfg then Grey_window
      else Timed_out)"

text \<open>The code goes by the time since the last use.\<close>

lemma verdict_idle:
  "verdict cfg t ci =
     (if ci_state ci = 0 then Signed_out
      else case idle_state cfg t (ci_itime ci) of Active \<Rightarrow> Live | Grey \<Rightarrow> Grey_window | Idle \<Rightarrow> Timed_out)"
  by (auto simp: verdict_def idle_state_def)

fun after_check :: "verdict \<Rightarrow> int \<Rightarrow> cinfo \<Rightarrow> cinfo" where
  "after_check Live t ci = touched t ci"
| "after_check Timed_out t ci = revoked t ci"
| "after_check _ t ci = ci"

text \<open>The reply: the clients of the older protocol get the first factor and the address of the first login.\<close>

definition live_msg :: "int \<Rightarrow> int \<Rightarrow> cinfo \<Rightarrow> string \<Rightarrow> string" where
  "live_msg protocol status ci rcookie =
     (if supports_factors protocol then
        fmt (''%d %s %s %s %s'' @ crlf)
          [FI status, FS (ci_ipaddr_cur ci), FS (ci_user ci), FS (ci_realm ci), FS rcookie]
      else
        fmt (''%d %s %s %s'' @ crlf)
          [FI status, FS (ci_ipaddr ci), FS (ci_user ci),
           FS (case first_realm (ci_realm ci) of Some p \<Rightarrow> p | None \<Rightarrow> ci_realm ci)])"

fun check_msg :: "verdict \<Rightarrow> string \<Rightarrow> int \<Rightarrow> int \<Rightarrow> cinfo \<Rightarrow> string" where
  "check_msg Live cmd protocol status ci = live_msg protocol status ci []"
| "check_msg Signed_out cmd protocol status ci = fmt (''%d %s: Already logged out'' @ crlf) [FI 430, FS cmd]"
| "check_msg Grey_window cmd protocol status ci = fmt (''%d %s: Idle Grey Window'' @ crlf) [FI 531, FS cmd]"
| "check_msg Timed_out cmd protocol status ci = fmt (''%d %s: Idle logged out'' @ crlf) [FI 431, FS cmd]"

definition check_file :: "verdict \<Rightarrow> int \<Rightarrow> inode \<Rightarrow> inode" where
  "check_file v t f =
     (case v of
        Live \<Rightarrow> f\<lparr>f_mtime := t\<rparr>
      | Timed_out \<Rightarrow> f\<lparr>f_mode := S_ISGID OR S_IRUSR, f_mtime := t\<rparr>
      | _ \<Rightarrow> f)"

lemma run_check_reply [os_simps]:
  "run_state (check_reply protocol status ci rcookie) w =
     ((), w\<lparr>d_out := d_out w @ [live_msg protocol status ci rcookie]\<rparr>)"
  by (simp add: check_reply_def live_msg_def os_simps)

text \<open>What the second half of \<open>f_check\<close> changes, the counters of the statistics apart.\<close>

definition same_but :: "daemon \<Rightarrow> (string \<Rightarrow> inode option) \<Rightarrow> string list \<Rightarrow> daemon \<Rightarrow> bool" where
  "same_but w fs out w' \<longleftrightarrow> os_fs w' = fs \<and> d_out w' = d_out w @ out \<and> os_faults w' = os_faults w \<and>
     os_now w' = os_now w \<and> d_al w' = d_al w \<and> d_push w' = d_push w \<and> d_protocol w' = d_protocol w \<and>
     d_remote_cn w' = d_remote_cn w \<and> d_replicated w' = d_replicated w \<and>
     os_pid w' = os_pid w \<and> d_auth_commands w' = d_auth_commands w"

lemma run_check_target:
  assumes "os_faults w = []" and "os_fs w p = Some f" and "parse_cookie (Some f) = Ret (0, ci)"
  defines "t \<equiv> tv_sec (os_now w)"
  shows "\<exists>w'. run_state (check_target cfg av p status None) w =
      (Ret (if verdict cfg t ci = Live then 0 else 1), w') \<and>
    same_but w ((os_fs w)(p \<mapsto> check_file (verdict cfg t ci) t f))
      [check_msg (verdict cfg t ci) (av ! 0) (d_protocol w) status ci] w'"
proof (cases "verdict cfg t ci")
  case Live
  then have "ci_state ci \<noteq> 0" "idle_state cfg t (ci_itime ci) = Active"
    by (auto simp: verdict_idle split: if_splits idle.splits)
  then show ?thesis
    using assms by (simp add: check_target_def os_simps Live [unfolded t_def] same_but_def check_file_def)
next
  case Signed_out
  then have "ci_state ci = 0" by (auto simp: verdict_idle split: if_splits idle.splits)
  then show ?thesis
    using assms by (simp add: check_target_def os_simps Signed_out [unfolded t_def] same_but_def check_file_def fun_upd_idem)
next
  case Grey_window
  then have "ci_state ci \<noteq> 0" "idle_state cfg t (ci_itime ci) = Grey"
    by (auto simp: verdict_idle split: if_splits idle.splits)
  then show ?thesis
    using assms by (simp add: check_target_def os_simps Grey_window [unfolded t_def] same_but_def check_file_def fun_upd_idem)
next
  case Timed_out
  then have "ci_state ci \<noteq> 0" "idle_state cfg t (ci_itime ci) = Idle"
    by (auto simp: verdict_idle split: if_splits idle.splits)
  then show ?thesis
    using assms by (simp add: check_target_def os_simps Timed_out [unfolded t_def] same_but_def check_file_def)
qed

lemma login_of_checked:
  assumes "path_of cfg c = Some p" and "os_fs w p = Some f" and "parse_cookie (Some f) = Ret (0, ci)"
    and "os_fs w' = (os_fs w)(p \<mapsto> check_file v t f)"
  shows "login_of cfg w' = (login_of cfg w)(c \<mapsto> after_check v t ci)" and "service_of cfg w' = service_of cfg w"
proof -
  have *: "login_of cfg w c = Some ci" using assms(1-3) by (auto intro: login_ofI)
  show "login_of cfg w' = (login_of cfg w)(c \<mapsto> after_check v t ci)"
  proof (cases v)
    case Live
    then show ?thesis using login_of_touched [OF assms(1-3)] assms(4) by (simp add: check_file_def)
  next
    case Timed_out
    then show ?thesis using login_of_revoked [OF assms(1-3)] assms(4) by (simp add: check_file_def)
  qed (use assms(2,4) * login_of_cong [of w' w cfg] in \<open>simp_all add: check_file_def fun_upd_idem\<close>)
  show "service_of cfg w' = service_of cfg w"
    using assms(2,4) by (rule service_of_meta) (simp add: check_file_def split: verdict.splits)
qed

lemma run_check_login:
  assumes "os_faults w = []" and "d_al w = Some al" and "al_key al \<in> {CGI, SERVICE}" and "starts_with c ''cosign=''"
    and "path_of cfg c = Some p" and "os_fs w p = Some f" and "parse_cookie (Some f) = Ret (0, ci)"
  defines "t \<equiv> tv_sec (os_now w)" and "v \<equiv> verdict cfg (tv_sec (os_now w)) ci"
  shows "\<exists>w'. run_state (f_check cfg [cmd, c]) w = (Ret (if v = Live then 0 else 1), w') \<and>
    same_but w ((os_fs w)(p \<mapsto> check_file v t f)) [check_msg v cmd (d_protocol w) 232 ci] w'"
proof -
  have "\<not> starts_with c ''cosign-''" using assms(4) by (auto dest!: starts_withD simp: starts_with_def)
  then have "run_state (f_check cfg [cmd, c]) w = run_state (check_target cfg [cmd, c] p 232 None) w"
    using assms(2-5) by (auto simp: f_check_def find_target_def os_simps)
  then show ?thesis
    using run_check_target [OF assms(1,6,7), of cfg "[cmd, c]" 232] by (auto simp: t_def v_def)
qed

lemma check_login_effect:
  assumes "os_faults w = []" and "d_al w = Some al" and "al_key al \<in> {CGI, SERVICE}"
    and "starts_with c ''cosign=''" and "login_of cfg w c = Some ci"
  defines "t \<equiv> tv_sec (os_now w)" and "v \<equiv> verdict cfg (tv_sec (os_now w)) ci"
  shows "\<exists>w'. run_state (f_check cfg [cmd, c]) w = (Ret (if v = Live then 0 else 1), w') \<and>
    same_but w (os_fs w') [check_msg v cmd (d_protocol w) 232 ci] w' \<and>
    login_of cfg w' = (login_of cfg w)(c \<mapsto> after_check v t ci) \<and> service_of cfg w' = service_of cfg w"
proof -
  obtain p f where p: "path_of cfg c = Some p" "os_fs w p = Some f" "parse_cookie (Some f) = Ret (0, ci)"
    using assms(5) by (rule login_ofD)
  obtain w' where w': "run_state (f_check cfg [cmd, c]) w = (Ret (if v = Live then 0 else 1), w')"
    "same_but w ((os_fs w)(p \<mapsto> check_file v t f)) [check_msg v cmd (d_protocol w) 232 ci] w'"
    using run_check_login [OF assms(1-4) p, of cmd] by (auto simp: t_def v_def)
  then have fs: "os_fs w' = (os_fs w)(p \<mapsto> check_file v t f)" by (simp add: same_but_def)
  moreover have "same_but w (os_fs w') [check_msg v cmd (d_protocol w) 232 ci] w'" using w'(2) fs by simp
  ultimately show ?thesis
    using login_of_checked [OF p fs] w'(1) by blast
qed

text \<open>
  C19.  CHECK of a login cookie answers by the cookie's state and age: 232 with the address, the user and the realm for one in use (whose
  time is renewed), 430 once logged out, 531 in the grey window, 431 after it (and the cookie is then revoked).
  Nothing else in the database changes.
\<close>

theorem check_login_cookie:
  assumes "os_faults w = []" and "d_al w = Some al" and "al_key al \<in> {CGI, SERVICE}"
    and "starts_with c ''cosign=''" and "login_of cfg w c = Some ci"
    and "v = (if ci_state ci = 0 then Signed_out
              else if tv_sec (os_now w) < ci_itime ci + idle_out_time cfg then Live
              else if tv_sec (os_now w) < ci_itime ci + idle_out_time cfg + grey_time cfg then Grey_window
              else Timed_out)"
  shows "\<exists>w'. run_state (f_check cfg [cmd, c]) w = (Ret (if v = Live then 0 else 1), w') \<and>
    d_out w' = d_out w @ [check_msg v cmd (d_protocol w) 232 ci] \<and> d_push w' = d_push w \<and>
    login_of cfg w' = (login_of cfg w)(c \<mapsto> after_check v (tv_sec (os_now w)) ci) \<and>
    service_of cfg w' = service_of cfg w"
  using check_login_effect [OF assms(1-5), of cmd] assms(6) [folded verdict_def] by (auto simp: same_but_def)

lemma sample_live: "verdict sample_config 1000 sample_cinfo = Live"
  by (simp add: verdict_def idle_state_def sample_cinfo_def sample_config_def)

lemma check_login_cookie_witness:
  "\<exists>w'. run_state (f_check sample_config [''CHECK'', ''cosign=ab'']) sample_db = (Ret 0, w') \<and>
     d_out w' = [live_msg 3 232 sample_cinfo []]"
  using check_login_cookie [OF _ _ _ _ sample_login refl, of weblogin "''CHECK''"]
  by (auto simp: sample_live starts_with_def sample_cinfo_def sample_config_def)

text \<open>A service cookie stands for the login cookie it was registered with.\<close>

lemma service_ofD:
  assumes "service_of cfg w s = Some c"
  obtains p where "path_of cfg s = Some p" "parse_service (os_fs w p) = Some c"
  using assms by (auto simp: service_of_def bind_eq_Some_conv)

lemma run_service:
  assumes "os_faults w = []" and "parse_service (os_fs w p) = Some c"
  shows "run_state (service_to_login p) w = (Ret (0, c), w)"
  using assms
  by (auto simp: run_service_to_login parse_service_def split: option.splits outcome.splits if_splits)

definition allowed :: "config \<Rightarrow> daemon \<Rightarrow> string \<Rightarrow> bool" where
  "allowed cfg w s \<longleftrightarrow>
     (strict_checks cfg \<longrightarrow> is_valid (service_valid cfg (d_remote_cn w) s) = Ret True)"

lemma run_find_service:
  assumes "os_faults w = []" and "starts_with s ''cosign-''" and "allowed cfg w s"
    and "parse_service (os_fs w sp) = Some c" and "path_of cfg c = Some p"
    and "rekey = (supports_rekey (d_protocol w) \<and> strcaseeq cmd ''REKEY'')"
  shows "run_state (find_target cfg [cmd, s] sp) w =
    (Ret (Login_cookie p (if rekey then 233 else 231) (if rekey then Some sp else None)), w)"
  using assms run_service [OF assms(1,4)]
  by (cases "strict_checks cfg"; cases rekey) (simp_all add: find_target_def allowed_def os_simps Let_def)

lemma check_service_effect:
  assumes "os_faults w = []" and "d_al w = Some al" and "al_key al \<in> {CGI, SERVICE}"
    and "starts_with s ''cosign-''" and "allowed cfg w s" and "\<not> (supports_rekey (d_protocol w) \<and> strcaseeq cmd ''REKEY'')"
    and "service_of cfg w s = Some c" and "login_of cfg w c = Some ci"
  defines "t \<equiv> tv_sec (os_now w)" and "v \<equiv> verdict cfg (tv_sec (os_now w)) ci"
  shows "\<exists>w'. run_state (f_check cfg [cmd, s]) w = (Ret (if v = Live then 0 else 1), w') \<and>
    same_but w (os_fs w') [check_msg v cmd (d_protocol w) 231 ci] w' \<and>
    login_of cfg w' = (login_of cfg w)(c \<mapsto> after_check v t ci) \<and> service_of cfg w' = service_of cfg w"
proof -
  obtain p f where p: "path_of cfg c = Some p" "os_fs w p = Some f" "parse_cookie (Some f) = Ret (0, ci)"
    using assms(8) by (rule login_ofD)
  obtain sp where sp: "path_of cfg s = Some sp" "parse_service (os_fs w sp) = Some c"
    using assms(7) by (rule service_ofD)
  have "run_state (f_check cfg [cmd, s]) w = run_state (check_target cfg [cmd, s] p 231 None) w"
    using assms(2,3) sp(1) run_find_service [OF assms(1,4,5) sp(2) p(1) refl, of cmd] assms(6)
    by (auto simp: f_check_def os_simps)
  moreover obtain w' where w': "run_state (check_target cfg [cmd, s] p 231 None) w = (Ret (if v = Live then 0 else 1), w')"
    "same_but w ((os_fs w)(p \<mapsto> check_file v t f)) [check_msg v cmd (d_protocol w) 231 ci] w'"
    using run_check_target [OF assms(1) p(2,3), of cfg "[cmd, s]" 231] by (auto simp: t_def v_def)
  ultimately have "run_state (f_check cfg [cmd, s]) w = (Ret (if v = Live then 0 else 1), w')" by simp
  moreover have fs: "os_fs w' = (os_fs w)(p \<mapsto> check_file v t f)" using w'(2) by (simp add: same_but_def)
  moreover have "same_but w (os_fs w') [check_msg v cmd (d_protocol w) 231 ci] w'" using w'(2) fs by simp
  ultimately show ?thesis
    using login_of_checked [OF p fs] by blast
qed

text \<open>
  CHECK of a service cookie answers for the login cookie it was registered with: the same verdicts, with 231
  where it is in use; checking one service renews the login for all of them.
\<close>

lemma check_service_cookie:
  assumes "os_faults w = []" and "d_al w = Some al" and "al_key al \<in> {CGI, SERVICE}"
    and "starts_with s ''cosign-''" and "allowed cfg w s" and "\<not> (supports_rekey (d_protocol w) \<and> strcaseeq cmd ''REKEY'')"
    and "service_of cfg w s = Some c" and "login_of cfg w c = Some ci" and "v = verdict cfg (tv_sec (os_now w)) ci"
  shows "\<exists>w'. run_state (f_check cfg [cmd, s]) w = (Ret (if v = Live then 0 else 1), w') \<and>
    d_out w' = d_out w @ [check_msg v cmd (d_protocol w) 231 ci] \<and> d_push w' = d_push w \<and>
    login_of cfg w' = (login_of cfg w)(c \<mapsto> after_check v (tv_sec (os_now w)) ci) \<and>
    service_of cfg w' = service_of cfg w"
  using check_service_effect [OF assms(1-8)] assms(9) by (auto simp: same_but_def)

lemma check_service_cookie_witness:
  "\<exists>w'. run_state (f_check sample_config [''CHECK'', ''cosign-www=cd'']) sample_db = (Ret 0, w') \<and>
     d_out w' = [live_msg 3 231 sample_cinfo []]"
proof -
  have "allowed sample_config sample_db ''cosign-www=cd''" by (simp add: allowed_def sample_config_def)
  moreover have "\<not> strcaseeq ''CHECK'' ''REKEY''" by (simp add: name_eval)
  ultimately show ?thesis
    using check_service_cookie [OF _ _ _ _ _ _ sample_service sample_login refl, of weblogin "''CHECK''"]
    by (auto simp: sample_live starts_with_def)
qed

text \<open>A cookie without a file, or whose login cookie has none.\<close>

lemma run_no_service:
  "os_faults w = [] \<Longrightarrow> os_fs w p = None \<Longrightarrow> run_state (service_to_login p) w = (Ret (-1, []), w)"
  by (simp add: run_service_to_login)

lemma check_unknown_effect:
  assumes "os_faults w = []" and "d_al w = Some al" and "al_key al \<in> {CGI, SERVICE}"
    and "path_of cfg c = Some p" and "os_fs w p = None"
  shows "starts_with c ''cosign='' \<Longrightarrow> \<exists>w'. run_state (f_check cfg [cmd, c]) w = (Ret 1, w') \<and>
      same_but w (os_fs w) [fmt (''%d %s: Who me? Dunno.'' @ crlf) [FI 534, FS cmd]] w'"
    and "starts_with c ''cosign-'' \<Longrightarrow> allowed cfg w c \<Longrightarrow> \<exists>w'. run_state (f_check cfg [cmd, c]) w = (Ret 1, w') \<and>
      same_but w (os_fs w) [fmt (''%d %s: cookie not in db!'' @ crlf) [FI 533, FS cmd]] w'"
proof -
  assume c: "starts_with c ''cosign=''"
  then have "\<not> starts_with c ''cosign-''" by (auto dest!: starts_withD simp: starts_with_def)
  then show "\<exists>w'. run_state (f_check cfg [cmd, c]) w = (Ret 1, w') \<and>
      same_but w (os_fs w) [fmt (''%d %s: Who me? Dunno.'' @ crlf) [FI 534, FS cmd]] w'"
    using assms c
    by (auto simp: f_check_def find_target_def check_target_def os_simps parse_cookie_def same_but_def)
next
  assume c: "starts_with c ''cosign-''" and a: "allowed cfg w c"
  show "\<exists>w'. run_state (f_check cfg [cmd, c]) w = (Ret 1, w') \<and>
      same_but w (os_fs w) [fmt (''%d %s: cookie not in db!'' @ crlf) [FI 533, FS cmd]] w'"
    using assms c a run_no_service [OF assms(1,5)]
    by (cases "strict_checks cfg") (auto simp: f_check_def find_target_def allowed_def os_simps same_but_def)
qed

section \<open>REKEY\<close>

text \<open>The first character of a file tells service cookies and login cookies apart.\<close>

lemma chop_line_hd:
  assumes "chop_line buf = Ret (Some b)" and "take 1 b = [x]"
  shows "take 1 buf = [x]"
proof -
  have "b = butlast (takeWhile (\<lambda>c. c \<noteq> NUL) buf)"
    using assms(1) by (auto simp: chop_line_def Let_def split: if_splits)
  then obtain s where "takeWhile (\<lambda>c. c \<noteq> NUL) buf = x # s"
    using assms(2) by (cases "takeWhile (\<lambda>c. c \<noteq> NUL) buf") (auto split: if_splits)
  then show ?thesis by (cases buf) (auto split: if_splits)
qed

lemma fgets_line_hd: "fgets_line (Suc k) s = (buf, r) \<Longrightarrow> take 1 buf = take 1 s"
  by (cases s) (auto split: if_splits prod.splits)

lemma parse_service_hd:
  assumes "parse_service (Some f) = Some c"
  shows "take 1 (f_data f) = ''l''"
proof -
  obtain buf r where b: "fgets_line (Suc MAXCOOKIELEN) (f_data f) = (buf, r)" by fastforce
  then obtain l where "chop_line buf = Ret (Some l)" "take 1 l = ''l''"
    using assms by (auto simp: parse_service_def split: if_splits outcome.splits option.splits)
  then have "take 1 buf = ''l''" by (rule chop_line_hd)
  then show ?thesis using fgets_line_hd [OF b] by simp
qed

lemma parse_cookie_hd: "parse_cookie (Some f) = Ret (0, ci) \<Longrightarrow> take 1 (f_data f) = ''v''"
proof -
  assume *: "parse_cookie (Some f) = Ret (0, ci)"
  obtain buf s where b: "fgets_line 3 (f_data f) = (buf, s)" by fastforce
  obtain c where "read_version buf (cinfo_zero\<lparr>ci_itime := f_mtime f\<rparr>) = Ret (True, c)"
    using * b by (auto simp: parse_cookie_def Let_def split: if_splits outcome.splits bool.splits prod.splits)
  then obtain l where "chop_line buf = Ret (Some l)" "take 1 l = ''v''"
    by (auto simp: read_version_def Let_def split: outcome.splits option.splits if_splits)
  then have "take 1 buf = ''v''" by (rule chop_line_hd)
  then show ?thesis using fgets_line_hd [of 2 "f_data f" buf s] b by (simp add: numeral_3_eq_3 numeral_2_eq_2)
qed

lemma service_not_login:
  assumes "service_of cfg w s = Some c"
  shows "login_of cfg w s = None"
proof (rule ccontr)
  assume "login_of cfg w s \<noteq> None"
  then obtain ci p f where "path_of cfg s = Some p" "os_fs w p = Some f" "parse_cookie (Some f) = Ret (0, ci)"
    by (meson login_ofD not_None_eq)
  then show False using assms parse_service_hd [of f c] parse_cookie_hd by (simp add: service_of_def)
qed

lemma run_os_mkcookie:
  "mkcookie n (os_pool w) = (0, Some (b @ [NUL]), pool) \<Longrightarrow>
     run_state (os_mkcookie n) w = ((0, b), w\<lparr>os_pool := pool\<rparr>)"
  by (simp add: os_mkcookie_def)

text \<open>The new name of a service cookie: its service, and fresh random characters.\<close>

definition rekeyed :: "string \<Rightarrow> string \<Rightarrow> string" where
  "rekeyed s b = takeWhile (\<lambda>c. c \<noteq> CHR ''='') s @ ''='' @ b"

lemma run_rekey_cookie:
  assumes "os_faults w = []" and "mkcookie 128 (os_pool w) = (0, Some (b @ [NUL]), pool)"
    and "CHR ''='' \<in> set s" and "length (rekeyed s b) < 256"
    and "path_of cfg (rekeyed s b) = Some rp" and "os_fs w sp = Some g"
  shows "run_state (rekey_cookie cfg [cmd, s] sp) w =
    (Some (rekeyed s b), w\<lparr>os_pool := pool, os_fs := (os_fs w)(sp := None, rp \<mapsto> g)\<rparr>)"
proof -
  obtain i where i: "strchr s CHR ''='' = Some i" using assms(3) by (cases "strchr s CHR ''=''") auto
  have "CHR ''='' \<notin> set (take i s)" using strchr_SomeD [OF i] by blast
  then have "takeWhile (\<lambda>c. c \<noteq> CHR ''='') (take i s @ CHR ''='' # drop (Suc i) s) = take i s"
    by (subst takeWhile_append2) auto
  then have "take i s = takeWhile (\<lambda>c. c \<noteq> CHR ''='') s" using strchr_split [OF i] by simp
  then have "take i s @ ''='' @ b = rekeyed s b" by (simp add: rekeyed_def)
  moreover have "snprintf 256 (rekeyed s b) = Some (rekeyed s b)" using assms(4) by simp
  ultimately show ?thesis
    using assms i by (simp add: rekey_cookie_def run_os_mkcookie os_simps)
qed

lemma service_of_renamed:
  assumes "path_of cfg s = Some sp" and "path_of cfg r = Some rp" and "parse_service (Some g) = Some c"
    and "os_fs w' = (os_fs w)(sp := None, rp \<mapsto> g)"
  shows "service_of cfg w' = (service_of cfg w)(s := None, r \<mapsto> c)"
proof
  fix d
  consider "d = r" | "d \<noteq> r" "d = s" | "d \<noteq> r" "d \<noteq> s" by blast
  then show "service_of cfg w' d = ((service_of cfg w)(s := None, r \<mapsto> c)) d"
  proof cases
    case 1
    then show ?thesis using assms by (simp add: service_of_def)
  next
    case 2
    then have "sp \<noteq> rp" using assms(1,2) path_inj by blast
    then show ?thesis using 2 assms by (simp add: service_of_def parse_service_def)
  next
    case 3
    then have "path_of cfg d \<noteq> Some sp" "path_of cfg d \<noteq> Some rp" using assms(1,2) path_inj by blast+
    then show ?thesis using 3 assms(4) by (cases "path_of cfg d") (auto simp: service_of_def)
  qed
qed

lemma login_of_renamed:
  assumes "path_of cfg s = Some sp" and "path_of cfg r = Some rp" and "parse_service (Some g) = Some c"
    and "os_fs w' = (os_fs w)(sp := None, rp \<mapsto> g)" and "login_of cfg w s = None" and "login_of cfg w r = None"
  shows "login_of cfg w' = login_of cfg w"
proof
  fix d
  have g: "parse_cookie (Some g) \<noteq> Ret (0, ci)" for ci
    using parse_service_hd [OF assms(3)] parse_cookie_hd by fastforce
  consider "d = r" | "d \<noteq> r" "d = s" | "d \<noteq> r" "d \<noteq> s" by blast
  then show "login_of cfg w' d = login_of cfg w d"
  proof cases
    case 1
    then have "login_of cfg w' d = None" using assms g by (auto simp: login_of_def split: outcome.splits)
    then show ?thesis using 1 assms(6) by simp
  next
    case 2
    then have "sp \<noteq> rp" using assms(1,2) path_inj by blast
    then have "login_of cfg w' d = None" using 2 assms(1,4) by (simp add: login_of_def parse_cookie_def)
    then show ?thesis using 2 assms(5) by simp
  next
    case 3
    then have "path_of cfg d \<noteq> Some sp" "path_of cfg d \<noteq> Some rp" using assms(1,2) path_inj by blast+
    then show ?thesis using 3 assms(4) by (cases "path_of cfg d") (auto simp: login_of_def)
  qed
qed

lemma run_rekey_target:
  assumes "os_faults w = []" and "os_fs w p = Some f" and "parse_cookie (Some f) = Ret (0, ci)"
    and "verdict cfg (tv_sec (os_now w)) ci = Live" and "os_fs w sp = Some g" and "sp \<noteq> p" and "rp \<noteq> p"
    and "mkcookie 128 (os_pool w) = (0, Some (b @ [NUL]), pool)" and "CHR ''='' \<in> set s"
    and "length (rekeyed s b) < 256" and "path_of cfg (rekeyed s b) = Some rp"
  shows "\<exists>w'. run_state (check_target cfg [cmd, s] p status (Some sp)) w = (Ret 0, w') \<and>
    same_but w ((os_fs w)(p \<mapsto> f\<lparr>f_mtime := tv_sec (os_now w)\<rparr>, sp := None, rp \<mapsto> g))
      [live_msg (d_protocol w) status ci (rekeyed s b)] w'"
proof -
  have st: "ci_state ci \<noteq> 0" "idle_state cfg (tv_sec (os_now w)) (ci_itime ci) = Active"
    using assms(4) by (auto simp: verdict_idle split: if_splits idle.splits)
  show ?thesis
    using assms(1-3,5-) st
    by (simp add: check_target_def os_simps same_but_def run_rekey_cookie [where g = g])
qed

text \<open>REKEY of a service cookie whose login is in use.\<close>

lemma rekey_effect:
  assumes "os_faults w = []" and "d_al w = Some al" and "al_key al \<in> {CGI, SERVICE}"
    and "starts_with s ''cosign-''" and "allowed cfg w s" and "supports_rekey (d_protocol w)" and "strcaseeq cmd ''REKEY''"
    and "service_of cfg w s = Some c" and "login_of cfg w c = Some ci"
    and "verdict cfg (tv_sec (os_now w)) ci = Live"
    and "mkcookie 128 (os_pool w) = (0, Some (b @ [NUL]), pool)" and "length (rekeyed s b) < 256"
    and "path_of cfg (rekeyed s b) \<noteq> None" and "login_of cfg w (rekeyed s b) = None"
  shows "\<exists>w'. run_state (f_check cfg [cmd, s]) w = (Ret 0, w') \<and>
    d_out w' = d_out w @ [live_msg (d_protocol w) 233 ci (rekeyed s b)] \<and>
    service_of cfg w' = (service_of cfg w)(s := None, rekeyed s b \<mapsto> c) \<and>
    login_of cfg w' = (login_of cfg w)(c \<mapsto> touched (tv_sec (os_now w)) ci)"
proof -
  let ?t = "tv_sec (os_now w)" and ?r = "rekeyed s b"
  obtain p f where p: "path_of cfg c = Some p" "os_fs w p = Some f" "parse_cookie (Some f) = Ret (0, ci)"
    using assms(9) by (rule login_ofD)
  obtain sp where sp: "path_of cfg s = Some sp" "parse_service (os_fs w sp) = Some c"
    using assms(8) by (rule service_ofD)
  then obtain g where g: "os_fs w sp = Some g" by (cases "os_fs w sp") (auto simp: parse_service_def)
  obtain rp where rp: "path_of cfg ?r = Some rp" using assms(13) by blast
  have s: "CHR ''='' \<in> set s" using sp(1) by (auto simp: mkcookiepath_iff cookie_ok_def)
  have none: "login_of cfg w s = None" using assms(8) by (rule service_not_login)
  have ne: "sp \<noteq> p" "rp \<noteq> p"
    using none assms(9,14) path_inj [OF sp(1), of c] path_inj [OF rp, of c] p(1) by auto
  obtain w' where w': "run_state (check_target cfg [cmd, s] p 233 (Some sp)) w = (Ret 0, w')"
    "same_but w ((os_fs w)(p \<mapsto> f\<lparr>f_mtime := ?t\<rparr>, sp := None, rp \<mapsto> g))
      [live_msg (d_protocol w) 233 ci ?r] w'"
    using run_rekey_target [OF assms(1) p(2,3) assms(10) g ne assms(11) s assms(12) rp, of cmd 233] by blast
  have "run_state (f_check cfg [cmd, s]) w = (Ret 0, w')"
    using assms(2,3,6,7) sp(1) w'(1) run_find_service [OF assms(1,4,5) sp(2) p(1) refl, of cmd]
    by (auto simp: f_check_def os_simps)
  moreover
  let ?w1 = "w\<lparr>os_fs := (os_fs w)(p \<mapsto> f\<lparr>f_mtime := ?t\<rparr>)\<rparr>"
  have l1: "login_of cfg ?w1 = (login_of cfg w)(c \<mapsto> touched ?t ci)"
    by (rule login_of_touched [OF p]) simp
  have s1: "service_of cfg ?w1 = service_of cfg w"
    by (rule service_of_meta [OF p(2), where f' = "f\<lparr>f_mtime := ?t\<rparr>"]) simp_all
  have fs: "os_fs w' = (os_fs ?w1)(sp := None, rp \<mapsto> g)" using w'(2) by (simp add: same_but_def)
  have pg: "parse_service (Some g) = Some c" using sp(2) g by simp
  have cs: "c \<noteq> s" "c \<noteq> ?r" using none assms(9,14) by auto
  have "service_of cfg w' = (service_of cfg w)(s := None, ?r \<mapsto> c)"
    using service_of_renamed [OF sp(1) rp pg fs] s1 by simp
  moreover have "login_of cfg w' = (login_of cfg w)(c \<mapsto> touched ?t ci)"
    using login_of_renamed [OF sp(1) rp pg fs] l1 cs none assms(14) by simp
  ultimately show ?thesis using w'(2) by (auto simp: same_but_def)
qed

text \<open>
  REKEY (protocol 3) of a service cookie whose login is in use moves the cookie to a fresh name, tells the client
  that name with 233, and leaves the old one without an entry; the login cookie's time is renewed.
\<close>

lemma rekey_renames:
  assumes "os_faults w = []" and "d_al w = Some al" and "al_key al \<in> {CGI, SERVICE}"
    and "starts_with s ''cosign-''" and "allowed cfg w s" and "supports_rekey (d_protocol w)" and "strcaseeq cmd ''REKEY''"
    and "service_of cfg w s = Some c" and "login_of cfg w c = Some ci"
    and "verdict cfg (tv_sec (os_now w)) ci = Live"
    and "mkcookie 128 (os_pool w) = (0, Some (b @ [NUL]), pool)" and "length (rekeyed s b) < 256"
    and "path_of cfg (rekeyed s b) \<noteq> None" and "login_of cfg w (rekeyed s b) = None"
  shows "\<exists>w'. run_state (f_check cfg [cmd, s]) w = (Ret 0, w') \<and>
    d_out w' = d_out w @ [live_msg (d_protocol w) 233 ci (rekeyed s b)] \<and>
    service_of cfg w' = (service_of cfg w)(s := None, rekeyed s b \<mapsto> c) \<and>
    login_of cfg w' = (login_of cfg w)(c \<mapsto> touched (tv_sec (os_now w)) ci)"
  using rekey_effect [OF assms] .

lemma rekey_renames_witness:
  "\<exists>w'. run_state (f_check sample_config [''REKEY'', ''cosign-www=cd'']) sample_db = (Ret 0, w') \<and>
     service_of sample_config w' ''cosign-www=cd'' = None \<and>
     service_of sample_config w' (rekeyed ''cosign-www=cd'' (replicate 124 CHR ''A'')) = Some ''cosign=ab''"
proof -
  let ?b = "replicate 124 CHR ''A''"
  have r: "rekeyed ''cosign-www=cd'' ?b = ''cosign-www='' @ ?b" by (simp add: rekeyed_def)
  have a: "allowed sample_config sample_db ''cosign-www=cd''" by (simp add: allowed_def sample_config_def)
  have k: "supports_rekey 3" "strcaseeq ''REKEY'' ''REKEY''" by (simp_all add: supports_rekey_def strcaseeq_def)
  have m: "mkcookie 128 (os_pool sample_db) = (0, Some (?b @ [NUL]), [])"
    by (simp add: sample_db_def sample_daemon_def) code_simp
  have p: "path_of sample_config (rekeyed ''cosign-www=cd'' ?b) = Some (''cosign-www='' @ ?b)"
    unfolding r by (simp add: mkcookiepath_def sample_config_def MAXCOOKIELEN_def MAXPATHLEN_def)
  have "length ?b \<noteq> length ''cd''" by simp
  then have ne: "?b \<noteq> ''cd''" "''cd'' \<noteq> ?b" by metis+
  then have n: "login_of sample_config sample_db (rekeyed ''cosign-www=cd'' ?b) = None"
    using p by (simp add: login_of_def sample_db_def sample_daemon_def parse_cookie_def)
  show ?thesis
    using rekey_renames [OF _ _ _ _ a _ _ sample_service sample_login _ m, of weblogin "''REKEY''"] k p n ne
    by (auto simp: sample_live starts_with_def r)
qed

end
