(* ===== verification/Monster.thy ===== *)
theory Monster
  imports Mnet Database
begin

text \<open>
  \<open>daemon/monster.c\<close>: the program that removes old cookies and sends the times of the others to the replicas.
  Its state is the system's, the list of connections, the statistics and the outcome of the connection attempts to come.
  What \<open>readdir\<close> lists is an argument: for a directory nothing if it cannot be opened, the names it returns otherwise.
\<close>

record monster_config =
  m_hashlen :: int
  idle_cache :: int
  loggedout_cache :: int
  hard_timeout :: int
  cosign_host :: string
  m_hostname :: string

record conn =
  cl_sn :: "peer option"
  cl_last_time :: int

record monster = os +
  m_head :: "conn list"
  m_attempts :: "peer option list"
  login_total :: int
  login_sent :: int
  login_gone :: int
  service_total :: int
  service_gone :: int

type_synonym 'a keeper = "(monster, 'a) state"

definition modify :: "('s \<Rightarrow> 's) \<Rightarrow> ('s, unit) state" where
  "modify f = State (\<lambda>w. ((), f w))"

lemma run_modify [os_simps]: "run_state (modify f) w = ((), f w)"
  by (simp add: modify_def)

section \<open>One cookie\<close>

text \<open>
  The return value, and \<open>*itime\<close> and \<open>*state\<close>, which only a cookie that stays changes.
\<close>

definition delete_stuff :: "string \<Rightarrow> cinfo \<Rightarrow> unit keeper" where
  "delete_stuff name ci = do {
     _ \<leftarrow> (if ci_krbtkt ci \<noteq> [] then os_unlink (ci_krbtkt ci) else ret (Ok ()));
     _ \<leftarrow> os_unlink name;
     modify (login_gone_update (\<lambda>n. n + 1)) }"

definition eat_cookie :: "monster_config \<Rightarrow> string \<Rightarrow> int \<Rightarrow> int \<times> int \<Rightarrow> (int \<times> int \<times> int) outcome keeper" where
  "eat_cookie cfg name now_sec st = do {
     r \<leftarrow> read_cookie name;
     case r of
       Undefined \<Rightarrow> ret Undefined
     | Exit n \<Rightarrow> ret (Exit n)
     | Ret (rc, ci) \<Rightarrow>
         let gone = do { delete_stuff name ci; ret (Ret (0, st)) }
         in if rc < 0 then ret (Ret (-1, st))
            else if rc = 1 then ret (Ret (0, st))
            else if ci_state ci = 0 \<and> now_sec - ci_itime ci > loggedout_cache cfg then gone
            else if now_sec - ci_itime ci > idle_cache cfg then gone
            else if now_sec - atoi (ci_ctime ci) > hard_timeout cfg then gone
            else ret (Ret (1, ci_itime ci, ci_state ci)) }"

section \<open>One directory\<close>

text \<open>The line for one cookie to every connection that has not heard of its time.\<close>

definition send_time :: "string \<Rightarrow> int \<Rightarrow> int \<Rightarrow> conn \<Rightarrow> conn \<times> int" where
  "send_time name itime state c =
     (case cl_sn c of
        None \<Rightarrow> (c, 0)
      | Some p \<Rightarrow>
          if itime > cl_last_time c then
            case run_state (c_write ''%s %d %d'' [FS name, FI itime, FI state]) p of
              (ok, p') \<Rightarrow> (c\<lparr>cl_sn := if ok then Some p' else None\<rparr>, 1)
          else (c, 0))"

definition send_times :: "string \<Rightarrow> int \<Rightarrow> int \<Rightarrow> unit keeper" where
  "send_times name itime state = modify (\<lambda>w.
     let cs = map (send_time name itime state) (m_head w)
     in w\<lparr>m_head := map fst cs, login_sent := login_sent w + sum_list (map snd cs)\<rparr>)"

definition login_entry :: "monster_config \<Rightarrow> int \<Rightarrow> string \<Rightarrow> string \<Rightarrow> int \<times> int \<Rightarrow> (int \<times> int) outcome keeper" where
  "login_entry cfg now_sec name path st = do {
     modify (login_total_update (\<lambda>n. n + 1));
     r \<leftarrow> eat_cookie cfg path now_sec st;
     case r of
       Undefined \<Rightarrow> ret Undefined
     | Exit n \<Rightarrow> ret (Exit n)
     | Ret (rc, itime, state) \<Rightarrow>
         if rc < 0 then ret (Ret (itime, state))
         else do { send_times name itime state; ret (Ret (itime, state)) } }"

definition service_entry :: "monster_config \<Rightarrow> int \<Rightarrow> string \<Rightarrow> int \<times> int \<Rightarrow> (int \<times> int) outcome keeper" where
  "service_entry cfg now_sec path st = do {
     modify (service_total_update (\<lambda>n. n + 1));
     r \<leftarrow> service_to_login path;
     case r of
       Undefined \<Rightarrow> ret Undefined
     | Exit n \<Rightarrow> ret (Exit n)
     | Ret (rc, login) \<Rightarrow>
         if rc \<noteq> 0 then ret (Ret st)
         else case mkcookiepath None (m_hashlen cfg) login MAXPATHLEN of
           None \<Rightarrow> ret (Exit 1)
         | Some lpath \<Rightarrow> do {
             r \<leftarrow> eat_cookie cfg lpath now_sec st;
             case r of
               Undefined \<Rightarrow> ret Undefined
             | Exit n \<Rightarrow> ret (Exit n)
             | Ret (rc, st) \<Rightarrow>
                 if rc = 0 then do {
                   _ \<leftarrow> os_unlink path;
                   modify (service_gone_update (\<lambda>n. n + 1));
                   ret (Ret st) }
                 else ret (Ret st) } }"

definition dir_entry :: "monster_config \<Rightarrow> int \<Rightarrow> string \<Rightarrow> int \<times> int \<Rightarrow> (int \<times> int) outcome keeper" where
  "dir_entry cfg now_sec name st =
     (case mkcookiepath None (m_hashlen cfg) name MAXPATHLEN of
        None \<Rightarrow> ret (Ret st)
      | Some path \<Rightarrow>
          if starts_with name ''cosign='' then login_entry cfg now_sec name path st
          else if starts_with name ''cosign-'' then service_entry cfg now_sec path st
          else ret (Ret st))"

primrec dir_entries :: "monster_config \<Rightarrow> int \<Rightarrow> string list \<Rightarrow> int \<times> int \<Rightarrow> unit outcome keeper" where
  "dir_entries cfg now_sec [] st = ret (Ret ())"
| "dir_entries cfg now_sec (n # ns) st = do {
     r \<leftarrow> dir_entry cfg now_sec n st;
     case r of
       Undefined \<Rightarrow> ret Undefined
     | Exit n \<Rightarrow> ret (Exit n)
     | Ret st \<Rightarrow> dir_entries cfg now_sec ns st }"

definition do_dir :: "monster_config \<Rightarrow> string list option \<Rightarrow> int \<Rightarrow> unit outcome keeper" where
  "do_dir cfg names now_sec =
     (case names of
        None \<Rightarrow> ret (Exit 1)
      | Some ns \<Rightarrow> dir_entries cfg now_sec ns (0, 0))"

section \<open>One pass\<close>

definition sixtyfourchars :: string where
  "sixtyfourchars = ''abcdefghijklmnopqrstuvwxyzABCDEFGHIJKLMNOPQRSTUVWXYZ0123456789+-''"

definition hashdirs :: "int \<Rightarrow> string list option" where
  "hashdirs h =
     (if h = 0 then Some [''.'']
      else if h = 1 then Some (map (\<lambda>p. [p]) sixtyfourchars)
      else if h = 2 then Some (concat (map (\<lambda>p. map (\<lambda>q. [p, q]) sixtyfourchars) sixtyfourchars))
      else None)"

primrec do_dirs :: "monster_config \<Rightarrow> (string \<Rightarrow> string list option) \<Rightarrow> int \<Rightarrow> string list \<Rightarrow> unit outcome keeper" where
  "do_dirs cfg listing now_sec [] = ret (Ret ())"
| "do_dirs cfg listing now_sec (d # ds) = do {
     r \<leftarrow> do_dir cfg (listing d) now_sec;
     case r of
       Undefined \<Rightarrow> ret Undefined
     | Exit n \<Rightarrow> ret (Exit n)
     | Ret _ \<Rightarrow> do_dirs cfg listing now_sec ds }"

text \<open>What becomes of a connection: it stays, it is closed to be opened again, its host is taken off the list.\<close>

datatype fate = Keep | Null | Drop

definition daemon_talk :: "string \<Rightarrow> fate talk" where
  "daemon_talk host = do {
     _ \<leftarrow> c_write ''DAEMON %s'' [FS host];
     l \<leftarrow> c_reply;
     case l of
       None \<Rightarrow> ret Null
     | Some line \<Rightarrow>
         if is_class CHR ''4'' line then do { _ \<leftarrow> close_talk; ret Drop }
         else if \<not> is_class CHR ''2'' line then do { _ \<leftarrow> close_talk; ret Null }
         else ret Keep }"

definition time_talk :: "fate talk" where
  "time_talk = do {
     ok \<leftarrow> c_write ''TIME'' [];
     if \<not> ok then ret Null
     else do {
       l \<leftarrow> c_reply;
       case l of
         None \<Rightarrow> ret Null
       | Some line \<Rightarrow> ret (if is_class CHR ''3'' line then Keep else Null) } }"

definition end_talk :: "fate talk" where
  "end_talk = do {
     _ \<leftarrow> c_write ''.'' [];
     l \<leftarrow> c_reply;
     case l of
       None \<Rightarrow> ret Null
     | Some line \<Rightarrow> ret (if is_class CHR ''2'' line then Keep else Null) }"

definition next_attempt :: "peer option keeper" where
  "next_attempt = State (\<lambda>w. case m_attempts w of [] \<Rightarrow> (None, w) | a # as \<Rightarrow> (a, w\<lparr>m_attempts := as\<rparr>))"

text \<open>A connection for this entry of the list, with \<open>DAEMON\<close> said on a new one.\<close>

definition open_conn :: "monster_config \<Rightarrow> conn \<Rightarrow> (fate \<times> peer option) keeper" where
  "open_conn cfg c =
     (case cl_sn c of
        Some p \<Rightarrow> ret (Keep, Some p)
      | None \<Rightarrow> do {
          a \<leftarrow> next_attempt;
          case connect_sn (cosign_host cfg) a of
            (rc, sn) \<Rightarrow>
              (case sn of
                 None \<Rightarrow> ret (Null, None)
               | Some p \<Rightarrow>
                   if rc \<noteq> 0 then ret (Null, None)
                   else case run_state (daemon_talk (m_hostname cfg)) p of (f, p') \<Rightarrow> ret (f, Some p')) })"

definition open_entry :: "monster_config \<Rightarrow> conn \<Rightarrow> conn option keeper" where
  "open_entry cfg c = do {
     (f, sn) \<leftarrow> open_conn cfg c;
     ret (case (f, sn) of
            (Drop, _) \<Rightarrow> None
          | (Keep, Some p) \<Rightarrow>
              (case run_state time_talk p of (f, p') \<Rightarrow> Some (c\<lparr>cl_sn := if f = Keep then Some p' else None\<rparr>))
          | _ \<Rightarrow> Some (c\<lparr>cl_sn := None\<rparr>)) }"

primrec open_entries :: "monster_config \<Rightarrow> conn list \<Rightarrow> conn list keeper" where
  "open_entries cfg [] = ret []"
| "open_entries cfg (c # cs) = do {
     e \<leftarrow> open_entry cfg c;
     es \<leftarrow> open_entries cfg cs;
     ret (case e of None \<Rightarrow> es | Some c \<Rightarrow> c # es) }"

definition end_entry :: "int \<Rightarrow> conn \<Rightarrow> conn" where
  "end_entry now_sec c =
     (case cl_sn c of
        None \<Rightarrow> c
      | Some p \<Rightarrow>
          (case run_state end_talk p of
             (f, p') \<Rightarrow> if f = Keep then c\<lparr>cl_sn := Some p', cl_last_time := now_sec\<rparr> else c\<lparr>cl_sn := None\<rparr>))"

definition monster_pass :: "monster_config \<Rightarrow> (string \<Rightarrow> string list option) \<Rightarrow> unit outcome keeper" where
  "monster_pass cfg listing = do {
     modify (\<lambda>w. w\<lparr>login_total := 0, service_total := 0, login_gone := 0, service_gone := 0, login_sent := 0\<rparr>);
     t \<leftarrow> gettimeofday;
     case t of
       None \<Rightarrow> ret (Exit (-1))
     | Some t \<Rightarrow> do {
         w \<leftarrow> State_Monad.get;
         cs \<leftarrow> open_entries cfg (m_head w);
         modify (m_head_update (\<lambda>_. cs));
         case hashdirs (m_hashlen cfg) of
           None \<Rightarrow> ret (Exit 1)
         | Some ds \<Rightarrow> do {
             r \<leftarrow> do_dirs cfg listing (tv_sec t) ds;
             case r of
               Undefined \<Rightarrow> ret Undefined
             | Exit n \<Rightarrow> ret (Exit n)
             | Ret _ \<Rightarrow> do {
                 modify (m_head_update (map (end_entry (tv_sec t))));
                 ret (Ret ()) } } } }"

end
