(* ===== verification/Revoke.thy ===== *)
theory Revoke
  imports Session
begin

text \<open>
  Logging out is final.  The set-group-id bit of a login cookie's file marks the cookie logged out; no
  command, in any order and with any system call failing, takes the mark or the file away while the process runs.
  Only the removal of a service cookie by REKEY and of temporary files takes files away, under other names.
\<close>

definition logged_out :: "string \<Rightarrow> 'a os_scheme \<Rightarrow> bool" where
  "logged_out p w \<longleftrightarrow> (\<exists>f. os_fs w p = Some f \<and> f_mode f AND S_ISGID \<noteq> 0)"

definition keeps_out :: "string \<Rightarrow> 'a os_scheme \<Rightarrow> 'a os_scheme \<Rightarrow> bool" where
  "keeps_out p w w' \<longleftrightarrow> (logged_out p w \<longrightarrow> logged_out p w')"

lemma keeps_out_frame: "os_fs w' p = os_fs w p \<Longrightarrow> keeps_out p w w'"
  by (simp add: keeps_out_def logged_out_def)

lemma keeps_out_new: "os_fs w p = None \<Longrightarrow> keeps_out p w w'"
  by (simp add: keeps_out_def logged_out_def)

interpretation out_os: os_rel "keeps_out p" for p
  by unfold_locales (auto simp: keeps_out_def logged_out_def)

interpretation out: push_rel "keeps_out p" for p
  by unfold_locales (auto simp: keeps_out_def logged_out_def)

interpretation out_tls: tls_rel "keeps_out p" for p
  by unfold_locales (auto simp: keeps_out_def logged_out_def)

section \<open>The calls\<close>

lemma logged_out_mode: "(S_ISGID OR S_IRUSR) AND S_ISGID \<noteq> 0"
  by (simp add: S_ISGID_def S_IRUSR_def)

lemma out_on_file:
  assumes "q = p \<Longrightarrow> \<forall>f. f_mode f AND S_ISGID \<noteq> 0 \<longrightarrow>
      (\<exists>f'. snd (g f) = Some f' \<and> f_mode f' AND S_ISGID \<noteq> 0)"
  shows "state_io_rel (keeps_out p) (on_file q g)"
proof (rule state_io_relI)
  fix x s t
  assume "run_state (on_file q g) s = (x, t)"
  then obtain b s1 where f: "run_state fault s = (b, s1)"
    and t: "t = s1 \<or> (\<exists>f. os_fs s1 q = Some f \<and> t = s1\<lparr>os_fs := (os_fs s1)(q := snd (g f))\<rparr>)"
    by (auto simp: on_file_def get_fs_def put_fs_def split: prod.splits if_splits option.splits)
  have "keeps_out p s1 t"
    using t assms by (cases "q = p") (auto simp: keeps_out_def logged_out_def)
  then show "keeps_out p s t"
    using state_io_relD [OF out_os.rel_fault f] out_os.R_trans by blast
qed

lemma out_files:
  "q \<noteq> p \<Longrightarrow> state_io_rel (keeps_out p) (os_unlink q)"
  "state_io_rel (keeps_out p) (os_utime_to q t)" "state_io_rel (keeps_out p) (os_utime q)"
  "state_io_rel (keeps_out p) (os_chmod q (S_ISGID OR S_IRUSR))"
  unfolding os_unlink_def os_utime_to_def os_utime_def os_chmod_def
  by (intro out_os.rel_basic out_os.rel_pure out_on_file; use logged_out_mode in simp)+

lemma out_put:
  assumes "run_state m w = (x, w')" "w' = w \<or> os_fs w p = None \<or> (\<exists>q f. q \<noteq> p \<and> w' = w\<lparr>os_fs := (os_fs w)(q := f)\<rparr>)"
  shows "keeps_out p w w'"
  using assms(2) by (auto simp: keeps_out_def logged_out_def)

text \<open>Creating, linking and writing never change the mode of a file that is there.\<close>

lemma run_fault_fs: "run_state fault w = (b, w') \<Longrightarrow> os_fs w' = os_fs w"
  by (auto simp: fault_def split: list.splits)

lemma out_create: "state_io_rel (keeps_out p) (os_create q)"
  by (rule state_io_relI)
    (auto simp: os_create_def get_fs_def put_fs_def now_def keeps_out_def logged_out_def
      dest!: run_fault_fs split: prod.splits if_splits)

lemma out_write: "state_io_rel (keeps_out p) (os_fclose_write q t)"
  by (rule state_io_relI)
    (auto simp: os_fclose_write_def get_fs_def put_fs_def now_def keeps_out_def logged_out_def
      dest!: run_fault_fs split: prod.splits if_splits option.splits)

lemma out_append: "state_io_rel (keeps_out p) (os_append q t)"
  by (rule state_io_relI)
    (auto simp: os_append_def get_fs_def put_fs_def now_def keeps_out_def logged_out_def)

lemma out_link: "state_io_rel (keeps_out p) (os_link a b)"
  by (rule state_io_relI)
    (auto simp: os_link_def get_fs_def put_fs_def keeps_out_def logged_out_def
      dest!: run_fault_fs split: prod.splits if_splits option.splits)

lemma out_rename: "a \<noteq> p \<Longrightarrow> b \<noteq> p \<Longrightarrow> state_io_rel (keeps_out p) (os_rename a b)"
  by (rule state_io_relI)
    (auto simp: os_rename_def get_fs_def put_fs_def keeps_out_def logged_out_def
      dest!: run_fault_fs split: prod.splits if_splits option.splits)

lemma out_do_logout: "state_io_rel (keeps_out p) (do_logout q)"
  unfolding do_logout_def by (intro out_os.rel_basic out_files)

lemmas out_calls = out_os.rel_basic out_os.rel_pure out_os.rel_calls out_files out_create out_write
  out_append out_link out_do_logout out_os.rel_read_cookie out_os.rel_service_to_login
  out.rel_reply out.rel_answer out.rel_push out.rel_input out.rel_globals out.rel_ticks

section \<open>Names\<close>

lemma path_equals: "mkcookiepath None h c n = Some p \<Longrightarrow> CHR ''='' \<in> set p"
  by (auto simp: mkcookiepath_iff cookie_ok_def)

lemma hex_no_equals: "CHR ''='' \<notin> set (show_hex n)"
proof (induction n rule: show_hex.induct)
  case (1 n)
  have h: "CHR ''='' \<noteq> hex_char d" if "d < 16" for d
  proof -
    have "hex_char d \<in> set ''0123456789abcdef''"
      unfolding hex_char_def using that by (intro nth_mem) simp
    then show ?thesis by auto
  qed
  then show ?case using 1 by (subst show_hex.simps) (simp add: h)
qed

lemma int_no_equals: "CHR ''='' \<notin> set (show_int i)"
proof -
  have "CHR ''='' \<notin> set (show_nat n)" for n
    using show_nat_digits [of n] by (auto simp: isdigit_def code_of_def)
  then show ?thesis by (simp add: show_int_def)
qed

lemma tmp_path_other: "mkcookiepath None h c n = Some p \<Longrightarrow> tmp_path tv pid = Some t \<Longrightarrow> t \<noteq> p"
  using path_equals hex_no_equals int_no_equals by (fastforce simp: tmp_path_def)

section \<open>Handlers that return\<close>

text \<open>
  A relation between the states before and after a handler that returns; where it ends the process, there is no
  next command.
\<close>

definition ret_rel :: "('s \<Rightarrow> 's \<Rightarrow> bool) \<Rightarrow> ('s, 'a outcome) state \<Rightarrow> bool" where
  "ret_rel R m \<longleftrightarrow> (\<forall>w x w'. run_state m w = (Ret x, w') \<longrightarrow> R w w')"

lemma ret_relD: "ret_rel R m \<Longrightarrow> run_state m w = (Ret x, w') \<Longrightarrow> R w w'"
  by (simp add: ret_rel_def)

lemma ret_of_rel: "state_io_rel R m \<Longrightarrow> ret_rel R m"
  unfolding ret_rel_def by (blast dest: state_io_relD)

lemma ret_exit: "(\<And>w. \<not> is_ret (fst (run_state m w))) \<Longrightarrow> ret_rel R m"
  unfolding ret_rel_def by (metis fst_conv is_ret.simps(1))

context io_preorder
begin

lemma ret_bind:
  assumes "state_io_rel R m" and "\<And>a. ret_rel R (f a)"
  shows "ret_rel R (State_Monad.bind m f)"
  unfolding ret_rel_def
proof (intro allI impI)
  fix w x w'
  assume "run_state (State_Monad.bind m f) w = (Ret x, w')"
  then obtain a v where "run_state m w = (a, v)" and "run_state (f a) v = (Ret x, w')"
    by (auto split: prod.splits)
  then show "R w w'" using assms by (meson R_trans state_io_relD ret_relD)
qed

lemma ret_return: "ret_rel R (State_Monad.return x)"
  by (auto simp: ret_rel_def R_refl)

lemma ret_if: "(b \<Longrightarrow> ret_rel R m) \<Longrightarrow> (\<not> b \<Longrightarrow> ret_rel R n) \<Longrightarrow> ret_rel R (if b then m else n)"
  by simp

lemma ret_let: "(\<And>x. x = e \<Longrightarrow> ret_rel R (f x)) \<Longrightarrow> ret_rel R (let x = e in f x)"
  by simp

lemma ret_option:
  "(e = None \<Longrightarrow> ret_rel R m) \<Longrightarrow> (\<And>x. e = Some x \<Longrightarrow> ret_rel R (f x)) \<Longrightarrow>
     ret_rel R (case e of None \<Rightarrow> m | Some x \<Rightarrow> f x)"
  by (cases e) auto

lemma ret_prod: "(\<And>x y. e = (x, y) \<Longrightarrow> ret_rel R (f x y)) \<Longrightarrow> ret_rel R (case e of (x, y) \<Rightarrow> f x y)"
  by (cases e) auto

lemma ret_outcome:
  "(\<And>x. e = Ret x \<Longrightarrow> ret_rel R (f x)) \<Longrightarrow>
     ret_rel R (case e of Ret x \<Rightarrow> f x | Exit x \<Rightarrow> ret (Exit x) | Undefined \<Rightarrow> ret Undefined)"
  by (cases e) (auto simp: ret_rel_def)

lemma ret_sys:
  "(\<And>x. ret_rel R (f x)) \<Longrightarrow> (\<And>x. ret_rel R (g x)) \<Longrightarrow> ret_rel R (case e of Ok x \<Rightarrow> f x | Err x \<Rightarrow> g x)"
  by (cases e) auto

lemmas ret_basic = ret_sys ret_bind ret_return ret_if ret_let ret_option ret_prod ret_outcome

end

lemma login_text_cases:
  assumes "\<And>t. ret_rel R (a t)" and "\<And>t. ret_rel R (b t)" and "\<And>t k. ret_rel R (c t k)" and "ret_rel R d"
  shows "ret_rel R (case x of File_err t \<Rightarrow> a t | Already_stored t \<Rightarrow> b t | Stored t k \<Rightarrow> c t k | Null_factor \<Rightarrow> d)"
  using assms by (cases x) auto

section \<open>Every command\<close>

text \<open>\<open>p\<close> is the file of a cookie that is not a service cookie.\<close>

definition login_file :: "config \<Rightarrow> string \<Rightarrow> bool" where
  "login_file cfg p \<longleftrightarrow>
     (\<exists>c. mkcookiepath None (hashlen cfg) c MAXPATHLEN = Some p \<and> \<not> starts_with c ''cosign-'')"

lemma login_file_tmp: "login_file cfg p \<Longrightarrow> tmp_path tv pid = Some t \<Longrightarrow> t \<noteq> p"
  unfolding login_file_def using tmp_path_other by blast

lemma login_file_service:
  "login_file cfg p \<Longrightarrow> mkcookiepath None (hashlen cfg) c MAXPATHLEN = Some q \<Longrightarrow> starts_with c ''cosign-'' \<Longrightarrow> q \<noteq> p"
  unfolding login_file_def using mkcookiepath_inject_aux by blast

lemma out_open_tmp: "t \<noteq> p \<Longrightarrow> state_io_rel (keeps_out p) (open_tmp t)"
  unfolding open_tmp_def by (intro out_calls; assumption)

lemma out_receive_ticket: "state_io_rel (keeps_out p) (receive_ticket cfg q len)"
proof (induction cfg q len rule: receive_ticket.induct)
  case (1 cfg q len)
  show ?case by (subst receive_ticket.simps) (intro out_calls "1"; assumption)
qed

lemma out_receive_file: "ret_rel (keeps_out p) (receive_file cfg av q)"
proof -
  have "ret_rel (keeps_out p) (bad_length cfg av q)"
    by (rule ret_exit) (auto simp: bad_length_def split: prod.splits)
  then show ?thesis
    unfolding receive_file_def
    by (intro out_os.ret_basic out_calls ret_of_rel [OF out.rel_answer] out_receive_ticket; assumption?)
qed

lemma out_store_login:
  assumes "tmppath \<noteq> p" and "addinfo \<Longrightarrow> path \<noteq> p"
  shows "ret_rel (keeps_out p) (store_login cfg av ac krb ci addinfo path tv tmppath)"
proof -
  have "state_io_rel (keeps_out p) (commit_cookie addinfo tmppath path)"
    unfolding commit_cookie_def using assms by (intro out_calls out_rename) auto
  moreover have "state_io_rel (keeps_out p) (drop_tmp tmppath t)" for t
    unfolding drop_tmp_def using assms(1) by (intro out_calls)
  ultimately show ?thesis
    unfolding store_login_def using assms(1)
    by (intro login_text_cases out_os.ret_basic out_calls ret_of_rel [OF out.rel_answer] out_receive_file; assumption?)
qed

lemma out_login_cookie:
  assumes "login_file cfg p" and "rc = 0 \<Longrightarrow> ci_state ci \<noteq> 0 \<Longrightarrow> path \<noteq> p"
  shows "ret_rel (keeps_out p) (login_cookie cfg av ac krb path rc ci)"
proof (cases "login_check ci rc av")
  case None
  then have "rc = 0 \<Longrightarrow> path \<noteq> p" using assms(2) by (auto simp: login_check_def split: if_splits)
  then show ?thesis
    unfolding login_cookie_def None option.case
    by (intro out_os.ret_basic out_calls out_open_tmp out_store_login) (auto dest: login_file_tmp [OF assms(1)])
next
  case (Some x)
  then show ?thesis
    unfolding login_cookie_def by (auto split: prod.splits intro: ret_of_rel [OF out.rel_answer])
qed

text \<open>What \<open>read_cookie\<close> says of a cookie that is logged out, whatever fails.\<close>

lemma read_fields_state:
  "run_state (read_fields s ci) w = (Ret (rc, ci'), w') \<Longrightarrow> ci_state ci' = ci_state ci"
proof (induction s arbitrary: ci w rule: measure_induct_rule [of length])
  case (less s)
  obtain b w1 where f: "run_state fault w = (b, w1)" by fastforce
  show ?case
  proof (cases "b \<or> s = []")
    case True
    then show ?thesis using less.prems f
      by (subst (asm) read_fields.simps) (auto split: prod.splits)
  next
    case False
    obtain buf s' where l: "fgets_line (MAXPATHLEN + 1) s = (buf, s')" by fastforce
    have len: "length s' < length s" using fgets_line_rest [OF l] False by (simp add: MAXPATHLEN_def)
    have fld: "ci_state c = ci_state ci" if "read_field x ci = Ret (Some c)" for x c
      using that by (auto simp: read_field_def Let_def split: list.splits if_splits)
    have "ci' = ci \<or> (\<exists>x c. read_field x ci = Ret (Some c) \<and>
        run_state (read_fields s' c) w1 = (Ret (rc, ci'), w'))"
      using less.prems f l False
      by (subst (asm) read_fields.simps) (auto split: prod.splits outcome.splits option.splits)
    then show ?thesis using less.IH [OF len] fld by metis
  qed
qed

lemma logged_out_fs: "os_fs w' = os_fs w \<Longrightarrow> logged_out p w' = logged_out p w"
  by (simp add: logged_out_def)

lemma read_cookie_logged_out:
  assumes "run_state (read_cookie p) w = (Ret (0, ci), w')" and "logged_out p w"
  shows "ci_state ci = 0"
proof -
  obtain b w1 where f: "run_state fault w = (b, w1)" by fastforce
  obtain f where e: "os_fs w p = Some f" "f_mode f AND S_ISGID \<noteq> 0" using assms(2) by (auto simp: logged_out_def)
  have "os_fs w1 p = Some f" using run_fault_fs [OF f] e(1) by simp
  then show ?thesis
    using assms(1) f e(2)
    by (auto simp: read_cookie_def os_open_def run_look close_with_def Let_def dest!: read_fields_state
        split: if_splits prod.splits option.splits outcome.splits bool.splits)
qed

lemma out_known_cookie:
  assumes "login_file cfg p"
  shows "ret_rel (keeps_out p) (do {
    r \<leftarrow> read_cookie path;
    case r of
      Undefined \<Rightarrow> ret Undefined
    | Exit n \<Rightarrow> ret (Exit n)
    | Ret (rc, ci) \<Rightarrow> login_cookie cfg av ac krb path rc ci })" (is "ret_rel _ ?m")
  unfolding ret_rel_def
proof (intro allI impI)
  fix w x w'
  assume run: "run_state ?m w = (Ret x, w')"
  obtain r w1 where rd: "run_state (read_cookie path) w = (r, w1)" by fastforce
  then obtain rc ci where r: "r = Ret (rc, ci)" and l: "run_state (login_cookie cfg av ac krb path rc ci) w1 = (Ret x, w')"
    using run by (cases r) auto
  show "keeps_out p w w'"
  proof (cases "path = p \<and> rc = 0 \<and> ci_state ci \<noteq> 0")
    case True
    then show ?thesis using read_cookie_logged_out rd r by (auto simp: keeps_out_def)
  next
    case False
    then have "keeps_out p w1 w'" using out_login_cookie [OF assms] l by (blast dest: ret_relD)
    then show ?thesis using state_io_relD [OF out_os.rel_read_cookie rd] out_os.R_trans by blast
  qed
qed

lemma out_f_login: "login_file cfg p \<Longrightarrow> ret_rel (keeps_out p) (f_login cfg av)"
  unfolding f_login_def krb_path_def
  by (intro out_known_cookie out_os.ret_basic out_calls ret_of_rel [OF out.rel_answer]; assumption?)

lemma out_f_time: "state_io_rel (keeps_out p) (f_time cfg av)"
proof -
  have "state_io_rel (keeps_out p) (time_loop cfg n)" for n
    by (induction n; simp only: time_loop.simps time_entry_def)
      (intro out_calls; assumption)+
  moreover have "state_io_rel (keeps_out p) input_size" by (auto simp: input_size_def keeps_out_def)
  ultimately show ?thesis unfolding f_time_def by (intro out_calls)
qed

lemma out_f_logout: "state_io_rel (keeps_out p) (f_logout cfg av)"
  unfolding f_logout_def by (intro out_calls)

lemma out_f_daemon: "state_io_rel (keeps_out p) (f_daemon cfg av)"
  unfolding f_daemon_def by (intro out_calls)

lemma out_do_register: "login_file cfg p \<Longrightarrow> state_io_rel (keeps_out p) (do_register a b c)"
  unfolding do_register_def
  by (intro out_calls out_open_tmp) (auto dest: login_file_tmp)

lemma out_f_register: "login_file cfg p \<Longrightarrow> state_io_rel (keeps_out p) (f_register cfg av)"
  unfolding f_register_def by (intro out_calls out_do_register; assumption?)

lemma out_f_retr:
  assumes "login_file cfg p"
  shows "state_io_rel (keeps_out p) (f_retr cfg av)"
proof -
  have "state_io_rel (keeps_out p) (proxy_loop cfg login ps)" for login ps
    using assms
    by (induction ps; simp only: proxy_loop.simps) (intro out_calls out_do_register; assumption)+
  moreover have "state_io_rel (keeps_out p) (send_file s)" for s
  proof (induction s rule: send_file.induct)
    case (1 s)
    show ?case by (subst send_file.simps) (intro out_calls "1"; assumption)
  qed
  ultimately show ?thesis
    unfolding f_retr_def retr_ticket_def retr_proxy_def by (intro out_calls)
qed

text \<open>REKEY renames a service cookie to a service cookie.\<close>

lemma find_target_service:
  assumes "run_state (find_target cfg av path) w = (Ret (Login_cookie q st (Some sc)), w')"
  shows "sc = path" and "starts_with (av ! 1) ''cosign-''"
  using assms
  by (auto simp: find_target_def Let_def os_simps split: if_splits prod.splits outcome.splits option.splits bool.splits)

lemma starts_with_take: "starts_with s p \<Longrightarrow> length p \<le> n \<Longrightarrow> starts_with (take n s @ t) p"
  by (drule starts_withD) (auto simp: starts_with_def)

lemma service_prefix: "starts_with s ''cosign-'' \<Longrightarrow> strchr s CHR ''='' = Some i \<Longrightarrow> 7 \<le> i"
proof -
  assume s: "starts_with s ''cosign-''" and "strchr s CHR ''='' = Some i"
  then have i: "i < length s" "s ! i = CHR ''=''" using strchr_SomeD by blast+
  obtain r where "s = ''cosign-'' @ r" using starts_withD [OF s] by blast
  then have "i < 7 \<Longrightarrow> ''cosign-'' ! i = CHR ''=''" using i(2) nth_append [of "''cosign-''" r i] by simp
  moreover have "i < 7 \<Longrightarrow> ''cosign-'' ! i \<in> set ''cosign-''" by (rule nth_mem) simp
  ultimately show "7 \<le> i" by (cases "i < 7") auto
qed

lemma out_rekey:
  assumes "login_file cfg p" and "starts_with (av ! 1) ''cosign-''"
    and "mkcookiepath None (hashlen cfg) (av ! 1) MAXPATHLEN = Some sc"
  shows "state_io_rel (keeps_out p) (rekey_cookie cfg av sc)"
proof -
  have "q \<noteq> p"
    if "strchr (av ! 1) CHR ''='' = Some i"
      and "mkcookiepath None (hashlen cfg) (take i (av ! 1) @ ''='' @ b) MAXPATHLEN = Some q" for i b q
    using that assms login_file_service service_prefix starts_with_take [OF assms(2), of i "''='' @ b"] by fastforce
  then show ?thesis
    unfolding rekey_cookie_def using login_file_service [OF assms(1,3,2)]
    by (intro out_calls out_rename) auto
qed

lemma out_check_target:
  assumes "\<And>q. sc = Some q \<Longrightarrow> state_io_rel (keeps_out p) (rekey_cookie cfg av q)"
  shows "state_io_rel (keeps_out p) (check_target cfg av path st sc)"
  unfolding check_target_def check_reply_def
  by (intro out_calls assms; assumption?)

lemma out_f_check:
  assumes "login_file cfg p"
  shows "state_io_rel (keeps_out p) (f_check cfg av)"
proof -
  have tail: "state_io_rel (keeps_out p) (do {
      t \<leftarrow> find_target cfg av path;
      case t of
        Undefined \<Rightarrow> ret Undefined
      | Exit n \<Rightarrow> ret (Exit n)
      | Ret (Refused msg args) \<Rightarrow> answer msg args 1
      | Ret (Login_cookie lpath status scpath) \<Rightarrow> check_target cfg av lpath status scpath })" (is "state_io_rel _ ?m")
    if path: "mkcookiepath None (hashlen cfg) (av ! 1) MAXPATHLEN = Some path" for path
  proof (rule state_io_relI)
    fix x w w'
    assume run: "run_state ?m w = (x, w')"
    obtain t w1 where t: "run_state (find_target cfg av path) w = (t, w1)" by fastforce
    have "state_io_rel (keeps_out p) (find_target cfg av path)"
      unfolding find_target_def by (intro out_calls)
    then have 1: "keeps_out p w w1" using t by (rule state_io_relD)
    have "state_io_rel (keeps_out p) (case t of
        Undefined \<Rightarrow> ret Undefined
      | Exit n \<Rightarrow> ret (Exit n)
      | Ret (Refused msg args) \<Rightarrow> answer msg args 1
      | Ret (Login_cookie lpath status scpath) \<Rightarrow> check_target cfg av lpath status scpath)"
    proof (cases "\<exists>q st sc. t = Ret (Login_cookie q st (Some sc))")
      case True
      then obtain q st sc where tt: "t = Ret (Login_cookie q st (Some sc))" by blast
      from find_target_service [OF t [unfolded tt]] out_rekey [OF assms _ path]
      have "state_io_rel (keeps_out p) (check_target cfg av q st (Some sc))"
        by (intro out_check_target) auto
      then show ?thesis by (simp add: tt)
    next
      case False
      have "state_io_rel (keeps_out p) (check_target cfg av q st None)" for q st
        by (rule out_check_target) simp
      then show ?thesis using False out.rel_answer out_os.rel_return
        by (auto split: outcome.splits target.splits simp del: state_io_rel_def)
    qed
    then have "keeps_out p w1 w'" using run t by (simp add: state_io_relD)
    then show "keeps_out p w w'" using 1 out_os.R_trans by blast
  qed
  show ?thesis
    unfolding f_check_def by (intro out_calls tail; assumption?)
qed

lemma out_handler:
  assumes "login_file cfg p" and "f \<in> snd ` set auth_commands \<union> snd ` set unauth_commands"
  shows "ret_rel (keeps_out p) (f cfg av)"
proof -
  note rels = out.rel_simple(1-4) out_tls.rel_f_starttls out_f_logout out_f_register [OF assms(1)]
    out_f_check [OF assms(1)] out_f_retr [OF assms(1)] out_f_time out_f_daemon
  show ?thesis
    using assms(2) rels [THEN ret_of_rel] out_f_login [OF assms(1)]
    by (auto simp: auth_commands_def unauth_commands_def)
qed

lemma logged_out_step:
  assumes "login_file cfg p" and "command_step cfg w w'"
  shows "keeps_out p w w'"
proof -
  from assms(2) obtain line w1 where g: "run_state getline w = (Some line, w1)"
    and d: "run_state (do_command cfg line) w1 = (Ret True, w')" by (rule command_stepE)
  from d have "keeps_out p w1 w'"
  proof (cases rule: do_command_cases)
    case (1 x)
    then show ?thesis by (simp add: keeps_out_frame)
  next
    case (2 f av q)
    then obtain rc where "run_state (f cfg av) w1 = (Ret rc, w')" by blast
    moreover have "f \<in> snd ` set auth_commands \<union> snd ` set unauth_commands" using 2(1) by (auto split: if_splits)
    ultimately show ?thesis using out_handler [OF assms(1)] by (blast dest: ret_relD)
  qed
  then show ?thesis using state_io_relD [OF out.rel_input(1) g] out_os.R_trans by blast
qed



end
