(* ===== verification/Database_login.thy ===== *)
theory Database_login
  imports Database Revoke
begin

text \<open>
  The commands that add to the database: LOGIN, for a new cookie and with further factors, and REGISTER; and
  what the commands do one after the other.
\<close>

section \<open>Temporary files\<close>

lemma length_show_hex: "n < 16 ^ Suc k \<Longrightarrow> length (show_hex n) \<le> Suc k"
proof (induction k arbitrary: n)
  case 0
  then show ?case by (subst show_hex.simps) simp
next
  case (Suc k)
  then have "n div 16 < 16 ^ Suc k" by (simp add: less_mult_imp_div_less)
  then show ?case using Suc.IH [of "n div 16"] by (subst show_hex.simps) simp
qed

lemma length_show_nat: "n < 10 ^ Suc k \<Longrightarrow> length (show_nat n) \<le> Suc k"
proof (induction k arbitrary: n)
  case 0
  then show ?case by (subst show_nat.simps) simp
next
  case (Suc k)
  then have "n div 10 < 10 ^ Suc k" by (simp add: less_mult_imp_div_less)
  then show ?case using Suc.IH [of "n div 10"] by (subst show_nat.simps) simp
qed

lemma tmp_path_fits: "tmp_path tv pid = Some
  (show_hex (u32 (tv_sec tv)) @ show_hex (u32 (tv_usec tv)) @ ''.'' @ show_int (to_int pid))"
proof -
  have "u32 x < 16 ^ Suc 7" for x by (simp add: u32_def nat_less_iff)
  then have h: "length (show_hex (u32 x)) \<le> 8" for x using length_show_hex [of "u32 x" 7] by simp
  have "nat (to_int pid) < 10 ^ Suc 9" "nat (- to_int pid) < 10 ^ Suc 9"
    using to_int_bounds [of pid] by (simp_all, linarith+)
  then have "length (show_int (to_int pid)) \<le> 11"
    using length_show_nat [of "nat (to_int pid)" 9] length_show_nat [of "nat (- to_int pid)" 9]
    by (simp add: show_int_def)
  then show ?thesis
    using h [of "tv_sec tv"] h [of "tv_usec tv"] by (simp add: tmp_path_def MAXCOOKIELEN_def)
qed

definition tmp_name :: "'a os_scheme \<Rightarrow> string" where
  "tmp_name w = the (tmp_path (os_now w) (os_pid w))"

lemma tmp_name_path: "tmp_path (os_now w) (os_pid w) = Some (tmp_name w)"
  by (simp add: tmp_name_def tmp_path_fits)

definition tmp_free :: "'a os_scheme \<Rightarrow> bool" where
  "tmp_free w \<longleftrightarrow> os_fs w (tmp_name w) = None"

lemma tmp_name_other: "path_of cfg c = Some p \<Longrightarrow> tmp_name w \<noteq> p"
  using tmp_path_other tmp_name_path by blast

section \<open>REGISTER\<close>

lemma run_do_register:
  assumes "os_faults w = []" and "tmp_free w" and "os_fs w sp = None" and "sp \<noteq> tmp_name w"
    and "os_fs w lp = Some f" and "lp \<noteq> tmp_name w"
  defines "t \<equiv> tv_sec (os_now w)"
  shows "run_state (do_register c lp sp) w =
    (0, w\<lparr>os_fs := (os_fs w)(sp \<mapsto> \<lparr>f_data = mkline (''l'' @ c), f_mode = mode_0644, f_mtime = t\<rparr>,
       lp \<mapsto> f\<lparr>f_mtime := t\<rparr>)\<rparr>)"
proof -
  have ne: "lp \<noteq> sp" using assms(3,5) by auto
  have "((os_fs w)(tmp_name w \<mapsto> a, sp \<mapsto> b, tmp_name w := None, lp \<mapsto> d)) =
      (os_fs w)(sp \<mapsto> b, lp \<mapsto> d)" for a b d
    using assms(2,4,6) by (auto simp: fun_eq_iff tmp_free_def)
  then show ?thesis
    using assms ne by (simp add: do_register_def open_tmp_def os_simps tmp_name_path tmp_free_def)
qed

text \<open>Where the service cookie is there already, nothing changes.\<close>

lemma run_do_register_twice:
  assumes "os_faults w = []" and "tmp_free w" and "os_fs w sp \<noteq> None" and "sp \<noteq> tmp_name w"
  shows "run_state (do_register c lp sp) w = (1, w)"
proof -
  have "(os_fs w)(tmp_name w := None) = os_fs w" using assms(2) by (simp add: tmp_free_def fun_upd_idem)
  then show ?thesis
    using assms by (simp add: do_register_def open_tmp_def os_simps tmp_name_path tmp_free_def)
qed

lemma service_of_new:
  assumes "path_of cfg s = Some sp" and "os_fs w' = (os_fs w)(sp \<mapsto> g)" and "parse_service (Some g) = Some c"
  shows "service_of cfg w' = (service_of cfg w)(s \<mapsto> c)"
proof
  fix d
  show "service_of cfg w' d = ((service_of cfg w)(s \<mapsto> c)) d"
  proof (cases "d = s")
    case False
    then have "path_of cfg d \<noteq> Some sp" using assms(1) path_inj by blast
    then show ?thesis using False assms(2) by (cases "path_of cfg d") (auto simp: service_of_def)
  qed (use assms in \<open>simp add: service_of_def\<close>)
qed

lemma login_of_new_service:
  assumes "path_of cfg s = Some sp" and "os_fs w' = (os_fs w)(sp \<mapsto> g)" and "parse_service (Some g) = Some c"
    and "os_fs w sp = None"
  shows "login_of cfg w' = login_of cfg w"
proof
  fix d
  show "login_of cfg w' d = login_of cfg w d"
  proof (cases "d = s")
    case True
    have "login_of cfg w' s = None"
      using service_of_new [OF assms(1-3)] by (intro service_not_login [of _ _ _ c]) simp
    then show ?thesis using True assms(1,4) by (simp add: login_of_def parse_cookie_def)
  next
    case False
    then have "path_of cfg d \<noteq> Some sp" using assms(1) path_inj by blast
    then show ?thesis using False assms(2) by (cases "path_of cfg d") (auto simp: login_of_def)
  qed
qed

lemma register_effect:
  assumes "os_faults w = []" and "d_al w = Some al" and "al_key al = CGI" and "tmp_free w"
    and "login_of cfg w c = Some ci" and "text_ok c" and "verdict cfg (tv_sec (os_now w)) ci = Live"
    and "path_of cfg s = Some sp" and "os_fs w sp = None"
  shows "\<exists>w'. run_state (f_register cfg [cmd, c, ip, s]) w = (Ret 0, w') \<and>
    os_faults w' = [] \<and> os_now w' = os_now w \<and> d_al w' = d_al w \<and> d_protocol w' = d_protocol w \<and>
    d_remote_cn w' = d_remote_cn w \<and>
    service_of cfg w' = (service_of cfg w)(s \<mapsto> c) \<and>
    login_of cfg w' = (login_of cfg w)(c \<mapsto> touched (tv_sec (os_now w)) ci) \<and>
    d_out w' = d_out w @ [fmt (''%d REGISTER successful: Cookie Stored.'' @ crlf) [FI 220]] \<and>
    d_push w' = d_push w @ pushed cfg w ''REGISTER %s %s %s'' [FS c, FS ip, FS s]"
proof -
  let ?t = "tv_sec (os_now w)"
  obtain p f where p: "path_of cfg c = Some p" "os_fs w p = Some f" "parse_cookie (Some f) = Ret (0, ci)"
    using assms(5) by (rule login_ofD)
  have st: "ci_state ci \<noteq> 0" "idle_state cfg ?t (ci_itime ci) = Active"
    using assms(7) by (auto simp: verdict_idle split: if_splits idle.splits)
  let ?g = "\<lparr>f_data = mkline (''l'' @ c), f_mode = mode_0644, f_mtime = ?t\<rparr>"
  let ?w1 = "w\<lparr>os_fs := (os_fs w)(sp \<mapsto> ?g)\<rparr>"
  let ?w = "w\<lparr>os_fs := (os_fs w)(sp \<mapsto> ?g, p \<mapsto> f\<lparr>f_mtime := ?t\<rparr>),
    d_out := d_out w @ [fmt (''%d REGISTER successful: Cookie Stored.'' @ crlf) [FI 220]],
    d_push := d_push w @ pushed cfg w ''REGISTER %s %s %s'' [FS c, FS ip, FS s]\<rparr>"
  have ne: "p \<noteq> sp" using p(2) assms(9) by auto
  have "run_state (do_register c p sp) w = (0, w\<lparr>os_fs := (os_fs w)(sp \<mapsto> ?g, p \<mapsto> f\<lparr>f_mtime := ?t\<rparr>)\<rparr>)"
    using run_do_register [OF assms(1,4,9) _ p(2), of c] tmp_name_other [OF assms(8), of w] tmp_name_other [OF p(1), of w]
    by metis
  then have run: "run_state (f_register cfg [cmd, c, ip, s]) w = (Ret 0, ?w)"
    using assms(1-4,8) p st by (simp add: f_register_def os_simps)
  have g: "parse_service (Some ?g) = Some c"
    using p(1) assms(6) by (intro parse_service_line) (auto simp: mkcookiepath_iff cookie_ok_def)
  have fs: "os_fs ?w = (os_fs ?w1)(p \<mapsto> f\<lparr>f_mtime := ?t\<rparr>)" "os_fs ?w1 = (os_fs w)(sp \<mapsto> ?g)" by simp_all
  have f: "os_fs ?w1 p = Some f" using p(2) ne by simp
  have "login_of cfg ?w = (login_of cfg ?w1)(c \<mapsto> touched ?t ci)"
    by (rule login_of_touched [OF p(1) f p(3) fs(1)])
  moreover have "login_of cfg ?w1 = login_of cfg w"
    by (rule login_of_new_service [OF assms(8) fs(2) g assms(9)])
  moreover have "service_of cfg ?w = service_of cfg ?w1"
    by (rule service_of_meta [OF f fs(1)]) simp
  moreover have "service_of cfg ?w1 = (service_of cfg w)(s \<mapsto> c)"
    by (rule service_of_new [OF assms(8) fs(2) g])
  ultimately show ?thesis using run assms(1) by (intro exI [of _ ?w]) simp
qed

section \<open>LOGIN\<close>

text \<open>The words of a LOGIN without a Kerberos ticket.\<close>

definition plain_login :: "string list \<Rightarrow> bool" where
  "plain_login av \<longleftrightarrow> 5 \<le> length av \<and> (length av < 6 \<or> last av \<noteq> ''kerberos'')"

definition fresh_login :: "string list \<Rightarrow> int \<Rightarrow> cinfo" where
  "fresh_login av t =
     \<lparr>ci_version = 2, ci_state = 1, ci_ipaddr = av ! 2, ci_ipaddr_cur = av ! 2, ci_user = av ! 3,
      ci_realm = join (drop 4 av), ci_ctime = show_ulong t, ci_krbtkt = [], ci_itime = t\<rparr>"

text \<open>A further login for a cookie there is: the factors are added, the first address stays.\<close>

definition all_factors :: "cinfo \<Rightarrow> string list \<Rightarrow> string list" where
  "all_factors ci av = argcargv (ci_realm ci) @ new_factors (argcargv (ci_realm ci)) (drop 4 av)"

definition added_login :: "cinfo \<Rightarrow> string list \<Rightarrow> int \<Rightarrow> cinfo" where
  "added_login ci av t =
     ci\<lparr>ci_version := 2, ci_state := 1, ci_ipaddr_cur := av ! 2, ci_realm := join (all_factors ci av),
        ci_ctime := show_ulong (ci_itime ci), ci_itime := t\<rparr>"

lemma length_first_join: "ws \<noteq> [] \<Longrightarrow> length (hd ws) \<le> length (join ws)"
  by (cases ws rule: join.cases) auto

lemma run_krb_path: "plain_login av \<Longrightarrow> run_state (krb_path cfg av) w = ((None, length av), w)"
  by (auto simp: krb_path_def plain_login_def)

lemma fresh_text:
  assumes "plain_login av" and "cinfo_ok (fresh_login av t)"
  shows "make_login_text ci False av (length av) False [] t =
    (if ci_krbtkt ci = [] then Stored (cookie_text (fresh_login av t)) False
     else Stored (cookie_text (fresh_login av t\<lparr>ci_krbtkt := ci_krbtkt ci\<rparr>)) True)"
proof -
  have "drop 4 av \<noteq> []" "hd (drop 4 av) = av ! 4"
    using assms(1) by (auto simp: plain_login_def hd_drop_conv_nth)
  then have "length (av ! 4) < 256"
    using length_first_join [of "drop 4 av"] assms(2) by (simp add: cinfo_ok_def fresh_login_def)
  then show ?thesis
    using assms(2)
    by (simp add: make_login_text_def Let_def krb_line_def cookie_text_def cinfo_ok_def fresh_login_def)
qed

lemma login_new_effect:
  assumes "os_faults w = []" and "d_al w = Some al" and "al_key al = CGI" and "tmp_free w"
    and "plain_login av" and "path_of cfg (av ! 1) = Some p" and "os_fs w p = None"
    and "cinfo_ok (fresh_login av (tv_sec (os_now w)))"
  defines "ci \<equiv> fresh_login av (tv_sec (os_now w))"
  shows "run_state (f_login cfg av) w = (Ret 0, w\<lparr>os_fs := (os_fs w)(p \<mapsto> login_file_of ci),
      d_out := d_out w @ [fmt (''%d LOGIN successful: Cookie Stored.'' @ crlf) [FI 200]],
      d_push := d_push w @ pushed cfg w ''LOGIN %s %s %s %s'' [FS (av ! 1), FS (av ! 2), FS (av ! 3), FS (av ! 4)]\<rparr>)"
proof -
  have len: "5 \<le> length av" using assms(5) by (simp add: plain_login_def)
  have ne: "tmp_name w \<noteq> p" using assms(6) by (rule tmp_name_other)
  have fs: "(os_fs w)(tmp_name w \<mapsto> a, p \<mapsto> b, tmp_name w := None) = (os_fs w)(p \<mapsto> b)" for a b
    using assms(4) ne by (auto simp: fun_eq_iff tmp_free_def)
  have made: "make_login_text cinfo_zero False av (length av) False [] (tv_sec (os_now w)) = Stored (cookie_text ci) False"
    using fresh_text [OF assms(5,8), of cinfo_zero] by (simp add: cinfo_zero_def ci_def)
  have rd: "run_state (read_cookie p) w = (Ret (1, cinfo_zero), w)"
    using assms(1,7) by (simp add: os_simps parse_cookie_def)
  show ?thesis
    using assms(1-4,6,7) len ne fs
    by (simp add: f_login_def os_simps run_krb_path [OF assms(5)] rd login_cookie_def login_check_def tmp_name_path
        open_tmp_def tmp_free_def store_login_def made commit_cookie_def login_file_of_def ci_def fresh_login_def)
qed

lemma login_file_not_service: "parse_service (Some (login_file_of ci)) = None"
proof (rule ccontr)
  assume "parse_service (Some (login_file_of ci)) \<noteq> None"
  then have "take 1 (f_data (login_file_of ci)) = ''l''" using parse_service_hd by blast
  then show False by (simp add: login_file_of_def cookie_text_def mkline_def)
qed

lemma service_of_new_login:
  assumes "path_of cfg c = Some p" and "os_fs w' = (os_fs w)(p \<mapsto> login_file_of ci)"
    and "service_of cfg w c = None"
  shows "service_of cfg w' = service_of cfg w"
proof
  fix d
  show "service_of cfg w' d = service_of cfg w d"
  proof (cases "d = c")
    case True
    then show ?thesis using assms by (simp add: service_of_def login_file_not_service)
  next
    case False
    then have "path_of cfg d \<noteq> Some p" using assms(1) path_inj by blast
    then show ?thesis using assms(2) by (cases "path_of cfg d") (auto simp: service_of_def)
  qed
qed

lemma not_service: "path_of cfg c = Some p \<Longrightarrow> os_fs w p = None \<Longrightarrow> service_of cfg w c = None"
  by (simp add: service_of_def parse_service_def)

lemma login_effect:
  assumes "os_faults w = []" and "d_al w = Some al" and "al_key al = CGI" and "tmp_free w"
    and "plain_login av" and "path_of cfg (av ! 1) = Some p" and "os_fs w p = None"
    and "cinfo_ok (fresh_login av (tv_sec (os_now w)))"
  shows "\<exists>w'. run_state (f_login cfg av) w = (Ret 0, w') \<and>
    os_faults w' = [] \<and> os_now w' = os_now w \<and> os_pid w' = os_pid w \<and> d_al w' = d_al w \<and> d_protocol w' = d_protocol w \<and>
    d_remote_cn w' = d_remote_cn w \<and> (\<forall>q. q \<noteq> p \<longrightarrow> os_fs w' q = os_fs w q) \<and>
    login_of cfg w' = (login_of cfg w)(av ! 1 \<mapsto> fresh_login av (tv_sec (os_now w))) \<and>
    service_of cfg w' = service_of cfg w \<and>
    d_out w' = d_out w @ [fmt (''%d LOGIN successful: Cookie Stored.'' @ crlf) [FI 200]] \<and>
    d_push w' = d_push w @ pushed cfg w ''LOGIN %s %s %s %s'' [FS (av ! 1), FS (av ! 2), FS (av ! 3), FS (av ! 4)]"
proof -
  let ?ci = "fresh_login av (tv_sec (os_now w))"
  let ?w = "w\<lparr>os_fs := (os_fs w)(p \<mapsto> login_file_of ?ci),
      d_out := d_out w @ [fmt (''%d LOGIN successful: Cookie Stored.'' @ crlf) [FI 200]],
      d_push := d_push w @ pushed cfg w ''LOGIN %s %s %s %s'' [FS (av ! 1), FS (av ! 2), FS (av ! 3), FS (av ! 4)]\<rparr>"
  have "parse_cookie (Some (login_file_of ?ci)) = Ret (0, ?ci)"
    using assms(8) by (rule parse_login_file) (simp_all add: fresh_login_def)
  then have "login_of cfg ?w = (login_of cfg w)(av ! 1 \<mapsto> ?ci)"
    by (intro login_of_upd [OF assms(6)]) simp_all
  moreover have "service_of cfg ?w = service_of cfg w"
    by (rule service_of_new_login [OF assms(6) _ not_service [OF assms(6,7)]]) simp
  ultimately show ?thesis
    using login_new_effect [OF assms(1-8)] assms(1) by (intro exI [of _ ?w]) simp
qed

text \<open>
  LOGIN by a \<open>cgi\<close> host under a new cookie, with fields that fit: the database gains exactly that entry (the address,
  the user, the factors joined by blanks, the time), the client gets 200 and the other servers are told.
\<close>

lemma login_stores:
  assumes "os_faults w = []" and "d_al w = Some al" and "al_key al = CGI" and "tmp_free w"
    and "plain_login av" and "path_of cfg (av ! 1) = Some p" and "os_fs w p = None"
    and "cinfo_ok (fresh_login av (tv_sec (os_now w)))"
  shows "\<exists>w'. run_state (f_login cfg av) w = (Ret 0, w') \<and>
    login_of cfg w' = (login_of cfg w)(av ! 1 \<mapsto> fresh_login av (tv_sec (os_now w))) \<and>
    service_of cfg w' = service_of cfg w \<and>
    d_out w' = d_out w @ [fmt (''%d LOGIN successful: Cookie Stored.'' @ crlf) [FI 200]] \<and>
    d_push w' = d_push w @ pushed cfg w ''LOGIN %s %s %s %s'' [FS (av ! 1), FS (av ! 2), FS (av ! 3), FS (av ! 4)]"
  using login_effect [OF assms] by metis

text \<open>bob at an empty database.\<close>

definition sample_av :: "string list" where
  "sample_av = [''LOGIN'', ''cosign=xy'', ''10.0.0.2'', ''bob'', ''umich'', ''mtoken'']"

definition empty_db :: daemon where
  "empty_db = sample_daemon (\<lambda>_. None)"

lemma empty_state [simp]:
  "os_faults empty_db = []" "os_now empty_db = \<lparr>tv_sec = 1000, tv_usec = 0\<rparr>" "d_al empty_db = Some weblogin"
  "os_fs empty_db p = None" "tmp_free empty_db" "d_out empty_db = []" "d_protocol empty_db = 3"
  by (simp_all add: empty_db_def sample_daemon_def tmp_free_def)

lemma sample_av_ok: "plain_login sample_av" "path_of sample_config (sample_av ! 1) = Some ''cosign=xy''"
  "cinfo_ok (fresh_login sample_av 1000)"
proof -
  have "show_nat 1000 = ''1000''" by (simp add: show_nat.simps)
  then show "plain_login sample_av" "path_of sample_config (sample_av ! 1) = Some ''cosign=xy''"
    "cinfo_ok (fresh_login sample_av 1000)"
    by (simp_all add: plain_login_def sample_av_def mkcookiepath_def sample_config_def MAXCOOKIELEN_def MAXPATHLEN_def
        cinfo_ok_def fresh_login_def text_ok_def ctrl_defs show_ulong_def)
qed

lemma login_stores_witness:
  "\<exists>w'. run_state (f_login sample_config sample_av) empty_db = (Ret 0, w') \<and>
     login_of sample_config w' ''cosign=xy'' = Some (fresh_login sample_av 1000)"
  using login_stores [OF _ _ _ _ sample_av_ok(1,2), of empty_db weblogin] sample_av_ok(3)
  by (auto simp: sample_av_def)

text \<open>A second LOGIN.\<close>

lemma added_text:
  assumes "plain_login av" and "argcargv (ci_realm ci) \<noteq> []" and "av ! 3 = ci_user ci"
    and "cinfo_ok (added_login ci av t)" and "length (av ! 4) < 256"
    and "ci_ipaddr_cur ci \<noteq> av ! 2 \<or> new_factors (argcargv (ci_realm ci)) (drop 4 av) \<noteq> []"
  shows "\<exists>k. make_login_text ci True av (length av) False [] t0 = Stored (cookie_text (added_login ci av t)) k"
  using assms
  by (auto simp: make_login_text_def Let_def krb_line_def cookie_text_def cinfo_ok_def added_login_def all_factors_def)

lemma login_added_effect:
  assumes "os_faults w = []" and "d_al w = Some al" and "al_key al = CGI" and "tmp_free w"
    and "plain_login av" and "login_of cfg w (av ! 1) = Some ci" and "ci_state ci \<noteq> 0" and "av ! 3 = ci_user ci"
    and "argcargv (ci_realm ci) \<noteq> []" and "length (av ! 4) < 256"
    and "cinfo_ok (added_login ci av (tv_sec (os_now w)))"
    and "ci_ipaddr_cur ci \<noteq> av ! 2 \<or> new_factors (argcargv (ci_realm ci)) (drop 4 av) \<noteq> []"
  shows "\<exists>w'. run_state (f_login cfg av) w = (Ret 0, w') \<and>
    login_of cfg w' = (login_of cfg w)(av ! 1 \<mapsto> added_login ci av (tv_sec (os_now w))) \<and>
    service_of cfg w' = service_of cfg w \<and>
    d_out w' = d_out w @ [fmt (''%d LOGIN successful: Cookie Stored.'' @ crlf) [FI 200]]"
proof -
  let ?ci = "added_login ci av (tv_sec (os_now w))"
  obtain p f where p: "path_of cfg (av ! 1) = Some p" "os_fs w p = Some f" "parse_cookie (Some f) = Ret (0, ci)"
    using assms(6) by (rule login_ofD)
  let ?w = "w\<lparr>os_fs := (os_fs w)(p \<mapsto> login_file_of ?ci),
      d_out := d_out w @ [fmt (''%d LOGIN successful: Cookie Stored.'' @ crlf) [FI 200]],
      d_push := d_push w @ pushed cfg w ''LOGIN %s %s %s %s'' [FS (av ! 1), FS (av ! 2), FS (av ! 3), FS (av ! 4)]\<rparr>"
  have len: "5 \<le> length av" using assms(5) by (simp add: plain_login_def)
  have ne: "tmp_name w \<noteq> p" using p(1) by (rule tmp_name_other)
  have fs: "(os_fs w)(tmp_name w := None, p \<mapsto> b) = (os_fs w)(p \<mapsto> b)" for b
    using assms(4) by (auto simp: fun_eq_iff tmp_free_def)
  obtain k where made: "make_login_text ci True av (length av) False [] (tv_sec (os_now w)) = Stored (cookie_text ?ci) k"
    using added_text [OF assms(5,9,8,11,10,12)] by blast
  have t: "ci_itime ?ci = tv_sec (os_now w)" by (simp add: added_login_def)
  have "run_state (f_login cfg av) w = (Ret 0, ?w)"
    using assms(1-4,7,8) p len ne fs
    by (simp add: f_login_def os_simps run_krb_path [OF assms(5)] login_cookie_def login_check_def tmp_name_path
        open_tmp_def tmp_free_def store_login_def made commit_cookie_def login_file_of_def t)
  moreover have "parse_cookie (Some (login_file_of ?ci)) = Ret (0, ?ci)"
    using assms(11) by (rule parse_login_file) (simp_all add: added_login_def)
  then have "login_of cfg ?w = (login_of cfg w)(av ! 1 \<mapsto> ?ci)"
    by (intro login_of_upd [OF p(1)]) simp_all
  moreover have "service_of cfg w (av ! 1) = None"
    using service_not_login [of cfg w "av ! 1"] assms(6) by (cases "service_of cfg w (av ! 1)") auto
  then have "service_of cfg ?w = service_of cfg w"
    by (intro service_of_new_login [OF p(1)]) simp_all
  ultimately show ?thesis by (intro exI [of _ ?w]) simp
qed

text \<open>
  LOGIN with further factors for a cookie that is logged in, by the same user: the new factors are appended to those there,
  the current address becomes the new one while the address of the first login stays, and the entry's
  time is renewed.  A cookie whose user differs is refused (402) and a logged out one too (505).
\<close>

lemma login_adds_factors:
  assumes "os_faults w = []" and "d_al w = Some al" and "al_key al = CGI" and "tmp_free w"
    and "plain_login av" and "login_of cfg w (av ! 1) = Some ci"
    and "argcargv (ci_realm ci) \<noteq> []" and "length (av ! 4) < 256"
    and "cinfo_ok (added_login ci av (tv_sec (os_now w)))"
    and "ci_ipaddr_cur ci \<noteq> av ! 2 \<or> new_factors (argcargv (ci_realm ci)) (drop 4 av) \<noteq> []"
  shows "\<exists>rc w'. run_state (f_login cfg av) w = (Ret rc, w') \<and> service_of cfg w' = service_of cfg w \<and>
    (if ci_state ci = 0 then
       rc = 1 \<and> login_of cfg w' = login_of cfg w \<and>
       d_out w' = d_out w @ [fmt (''%d LOGIN: Already logged out'' @ crlf) [FI 505]]
     else if av ! 3 \<noteq> ci_user ci then
       rc = 1 \<and> login_of cfg w' = login_of cfg w \<and>
       d_out w' = d_out w @ [fmt (''%d user name given does not match cookie'' @ crlf) [FI 402]]
     else
       rc = 0 \<and> login_of cfg w' = (login_of cfg w)(av ! 1 \<mapsto> added_login ci av (tv_sec (os_now w))) \<and>
       d_out w' = d_out w @ [fmt (''%d LOGIN successful: Cookie Stored.'' @ crlf) [FI 200]])"
proof (cases "ci_state ci = 0 \<or> av ! 3 \<noteq> ci_user ci")
  case True
  obtain p f where p: "path_of cfg (av ! 1) = Some p" "os_fs w p = Some f" "parse_cookie (Some f) = Ret (0, ci)"
    using assms(6) by (rule login_ofD)
  have same: "login_of cfg (w\<lparr>d_out := x\<rparr>) = login_of cfg w" "service_of cfg (w\<lparr>d_out := x\<rparr>) = service_of cfg w" for x
    by (rule login_of_cong service_of_cong, simp)+
  have "5 \<le> length av" using assms(5) by (simp add: plain_login_def)
  then show ?thesis
    using assms(1-3) p True
    by (auto simp: f_login_def os_simps run_krb_path [OF assms(5)] login_cookie_def login_check_def same)
next
  case False
  then have live: "ci_state ci \<noteq> 0" "av ! 3 = ci_user ci" by simp_all
  from login_added_effect [OF assms(1-6) live assms(7-10)] obtain w' where "run_state (f_login cfg av) w = (Ret 0, w')"
    "login_of cfg w' = (login_of cfg w)(av ! 1 \<mapsto> added_login ci av (tv_sec (os_now w)))"
    "service_of cfg w' = service_of cfg w"
    "d_out w' = d_out w @ [fmt (''%d LOGIN successful: Cookie Stored.'' @ crlf) [FI 200]]" by blast
  then show ?thesis using live by (intro exI [of _ 0] exI [of _ w']) simp
qed

lemma login_adds_factors_witness:
  "\<exists>w'. run_state (f_login sample_config [''LOGIN'', ''cosign=ab'', ''10.0.0.3'', ''bob'', ''mtoken'']) sample_db = (Ret 0, w') \<and>
     map_option ci_realm (login_of sample_config w' ''cosign=ab'') = Some ''umich mtoken''"
proof -
  let ?av = "[''LOGIN'', ''cosign=ab'', ''10.0.0.3'', ''bob'', ''mtoken'']"
  have fv: "argcargv (ci_realm sample_cinfo) = [''umich'']"
    using argcargv_join [of "[''umich'']"] by (simp add: sample_cinfo_def word_ok_def white_def ctrl_defs)
  have tmp: "tmp_free sample_db"
    using tmp_name_other [of sample_config "''cosign=ab''" "''cosign=ab''" sample_db]
      tmp_name_other [of sample_config "''cosign-www=cd''" "''cosign-www=cd''" sample_db] sample_path
    by (simp add: tmp_free_def sample_db_def sample_daemon_def tmp_name_def)
  have t: "show_nat 900 = ''900''" by (simp add: show_nat.simps)
  have new: "all_factors sample_cinfo ?av = [''umich'', ''mtoken'']"
    using fv by (simp add: all_factors_def new_factors_def)
  have ok: "cinfo_ok (added_login sample_cinfo ?av 1000)"
    using t new by (simp add: cinfo_ok_def added_login_def sample_cinfo_def text_ok_def ctrl_defs MAXPATHLEN_def show_ulong_def)
  have av: "?av ! 1 = ''cosign=ab''" "plain_login ?av" by (simp_all add: plain_login_def)
  have ip: "ci_ipaddr_cur sample_cinfo \<noteq> ?av ! 2 \<and> ci_state sample_cinfo = 1 \<and> ci_user sample_cinfo = ?av ! 3"
    by (simp add: sample_cinfo_def)
  obtain rc w' where "run_state (f_login sample_config ?av) sample_db = (Ret rc, w')"
    "rc = 0 \<and> login_of sample_config w' = (login_of sample_config sample_db)(''cosign=ab'' \<mapsto> added_login sample_cinfo ?av 1000)"
    using login_adds_factors [of sample_db weblogin ?av sample_config sample_cinfo] tmp av ip ok fv sample_login
    by auto
  then show ?thesis by (auto simp: added_login_def new)
qed

section \<open>One after the other\<close>

text \<open>
  REGISTER by a \<open>cgi\<close> host of a new service cookie for a login cookie in use: the database gains exactly that service
  cookie, standing for the login cookie, whose time is renewed; 220, and the other servers are told.
\<close>

lemma register_stores:
  assumes "os_faults w = []" and "d_al w = Some al" and "al_key al = CGI" and "tmp_free w"
    and "login_of cfg w c = Some ci" and "text_ok c" and "verdict cfg (tv_sec (os_now w)) ci = Live"
    and "path_of cfg s = Some sp" and "os_fs w sp = None"
  shows "\<exists>w'. run_state (f_register cfg [cmd, c, ip, s]) w = (Ret 0, w') \<and>
    service_of cfg w' = (service_of cfg w)(s \<mapsto> c) \<and>
    login_of cfg w' = (login_of cfg w)(c \<mapsto> touched (tv_sec (os_now w)) ci) \<and>
    d_out w' = d_out w @ [fmt (''%d REGISTER successful: Cookie Stored.'' @ crlf) [FI 220]] \<and>
    d_push w' = d_push w @ pushed cfg w ''REGISTER %s %s %s'' [FS c, FS ip, FS s]"
  using register_effect [OF assms, of cmd ip] by metis

lemma register_stores_witness:
  "\<exists>w'. run_state (f_register sample_config [''REGISTER'', ''cosign=ab'', ''10.0.0.1'', ''cosign-wiki=ef'']) sample_db = (Ret 0, w') \<and>
     service_of sample_config w' ''cosign-wiki=ef'' = Some ''cosign=ab''"
proof -
  have p: "path_of sample_config ''cosign-wiki=ef'' = Some ''cosign-wiki=ef''"
    by (simp add: mkcookiepath_def sample_config_def MAXCOOKIELEN_def MAXPATHLEN_def)
  have "tmp_free sample_db"
    using tmp_name_other [of sample_config "''cosign=ab''" "''cosign=ab''" sample_db]
      tmp_name_other [of sample_config "''cosign-www=cd''" "''cosign-www=cd''" sample_db] sample_path
    by (simp add: tmp_free_def sample_db_def sample_daemon_def tmp_name_def)
  from register_stores [OF _ _ _ this sample_login _ _ p, of weblogin "''REGISTER''" "''10.0.0.1''"] show ?thesis
    by (auto simp: sample_live text_ok_def ctrl_defs sample_db_def sample_daemon_def weblogin_def)
qed

lemma verdict_now: "0 < idle_out_time cfg \<Longrightarrow> ci_state ci \<noteq> 0 \<Longrightarrow> ci_itime ci = t \<Longrightarrow> verdict cfg t ci = Live"
  by (simp add: verdict_def idle_state_def)

text \<open>Only STARTTLS changes who the client is.\<close>

interpretation same_cn: handler_rel "\<lambda>v v'. d_remote_cn v' = d_remote_cn v"
  by unfold_locales auto

definition sign_on :: "config \<Rightarrow> string list \<Rightarrow> string \<Rightarrow> int outcome list handler" where
  "sign_on cfg av s = do {
     a \<leftarrow> f_login cfg av;
     b \<leftarrow> f_register cfg [''REGISTER'', av ! 1, av ! 2, s];
     c \<leftarrow> f_check cfg [''CHECK'', s];
     d \<leftarrow> f_logout cfg [''LOGOUT'', av ! 1, av ! 2];
     e \<leftarrow> f_check cfg [''CHECK'', s];
     ret [a, b, c, d, e] }"

text \<open>
  C1.  Single sign-on, end to end: after LOGIN of a new cookie and REGISTER of a new service cookie for it, CHECK of the service
  cookie gives the address, the user and the factors of the LOGIN; after LOGOUT of the login cookie, CHECK of
  the service cookie is answered with 430.
\<close>

theorem sign_on_and_off:
  assumes "os_faults w = []" and "d_al w = Some al" and "al_key al = CGI" and "tmp_free w" and "0 < idle_out_time cfg"
    and "plain_login av" and "path_of cfg (av ! 1) = Some p" and "os_fs w p = None" and "text_ok (av ! 1)"
    and "cinfo_ok (fresh_login av (tv_sec (os_now w)))"
    and "starts_with s ''cosign-''" and "allowed cfg w s" and "path_of cfg s = Some sp" and "os_fs w sp = None" and "s \<noteq> av ! 1"
  shows "\<exists>w'. run_state (sign_on cfg av s) w = ([Ret 0, Ret 0, Ret 0, Ret 0, Ret 1], w') \<and>
    d_out w' = d_out w @
      [fmt (''%d LOGIN successful: Cookie Stored.'' @ crlf) [FI 200],
       fmt (''%d REGISTER successful: Cookie Stored.'' @ crlf) [FI 220],
       live_msg (d_protocol w) 231 (fresh_login av (tv_sec (os_now w))) [],
       fmt (''%d LOGOUT successful: cookie no longer valid'' @ crlf) [FI 210],
       fmt (''%d %s: Already logged out'' @ crlf) [FI 430, FS ''CHECK'']] \<and>
    service_of cfg w' = (service_of cfg w)(s \<mapsto> av ! 1) \<and>
    login_of cfg w' = (login_of cfg w)(av ! 1 \<mapsto> revoked (tv_sec (os_now w)) (fresh_login av (tv_sec (os_now w))))"
proof -
  let ?c = "av ! 1" and ?t = "tv_sec (os_now w)"
  let ?ci = "fresh_login av ?t"
  have ci: "ci_state ?ci = 1" "ci_itime ?ci = ?t" "touched ?t ?ci = ?ci" by (simp_all add: fresh_login_def touched_def)
  have live: "verdict cfg ?t ?ci = Live" using assms(5) ci by (intro verdict_now) simp_all
  have nre: "\<not> (supports_rekey q \<and> strcaseeq ''CHECK'' ''REKEY'')" for q
    by (simp add: strcaseeq_def tolower_def code_of_def chr_def)
  have sp: "sp \<noteq> p" using assms(7,13,15) path_inj by blast
  obtain w1 where w1: "run_state (f_login cfg av) w = (Ret 0, w1)"
    "os_faults w1 = []" "os_now w1 = os_now w" "os_pid w1 = os_pid w" "d_al w1 = d_al w" "d_protocol w1 = d_protocol w"
    "d_remote_cn w1 = d_remote_cn w" "\<forall>q. q \<noteq> p \<longrightarrow> os_fs w1 q = os_fs w q"
    "login_of cfg w1 = (login_of cfg w)(?c \<mapsto> ?ci)" "service_of cfg w1 = service_of cfg w"
    "d_out w1 = d_out w @ [fmt (''%d LOGIN successful: Cookie Stored.'' @ crlf) [FI 200]]"
    using login_effect [OF assms(1-4,6-8,10)] by metis
  have tmp: "tmp_free w1"
    using assms(4) w1(3,4,8) tmp_name_other [OF assms(7), of w] by (simp add: tmp_free_def tmp_name_def)
  obtain w2 where w2: "run_state (f_register cfg [''REGISTER'', ?c, av ! 2, s]) w1 = (Ret 0, w2)"
    "os_faults w2 = []" "os_now w2 = os_now w" "d_al w2 = d_al w" "d_protocol w2 = d_protocol w" "d_remote_cn w2 = d_remote_cn w"
    "service_of cfg w2 = (service_of cfg w)(s \<mapsto> ?c)" "login_of cfg w2 = (login_of cfg w)(?c \<mapsto> ?ci)"
    "d_out w2 = d_out w1 @ [fmt (''%d REGISTER successful: Cookie Stored.'' @ crlf) [FI 220]]"
    using register_effect [OF w1(2) _ assms(3) tmp, of cfg ?c ?ci s sp "''REGISTER''" "av ! 2"] assms(2,9,13,14) sp w1 live ci
    by auto
  have a2: "allowed cfg w2 s" using assms(12) w2(6) by (simp add: allowed_def)
  obtain w3 where w3: "run_state (f_check cfg [''CHECK'', s]) w2 = (Ret 0, w3)"
    "same_but w2 (os_fs w3) [live_msg (d_protocol w) 231 ?ci []] w3"
    "login_of cfg w3 = (login_of cfg w)(?c \<mapsto> ?ci)" "service_of cfg w3 = (service_of cfg w)(s \<mapsto> ?c)"
    using check_service_effect [OF w2(2) _ _ assms(11) a2 nre, of al ?c ?ci] assms(2,3) w2 live ci by auto
  obtain w4 where w4: "run_state (f_logout cfg [''LOGOUT'', ?c, av ! 2]) w3 = (Ret 0, w4)"
    "os_faults w4 = []" "d_al w4 = d_al w" "login_of cfg w4 = (login_of cfg w)(?c \<mapsto> revoked ?t ?ci)"
    "service_of cfg w4 = (service_of cfg w)(s \<mapsto> ?c)"
    "d_out w4 = d_out w3 @ [fmt (''%d LOGOUT successful: cookie no longer valid'' @ crlf) [FI 210]]"
    using logout_effect [of w3 al cfg ?c ?ci "''LOGOUT''" "av ! 2"] assms(2,3) w2 w3 ci by (auto simp: same_but_def)
  have "state_io_rel (\<lambda>v v'. d_remote_cn v' = d_remote_cn v) (f_logout cfg [''LOGOUT'', ?c, av ! 2])"
    by (rule same_cn.rel_f_logout)
  then have "d_remote_cn w4 = d_remote_cn w" using w4(1) w3(2) w2(6) by (auto simp: same_but_def)
  then have a4: "allowed cfg w4 s" using assms(12) by (simp add: allowed_def)
  have out: "verdict cfg x (revoked ?t ?ci) = Signed_out" for x by (simp add: verdict_def revoked_def)
  obtain w5 where w5: "run_state (f_check cfg [''CHECK'', s]) w4 = (Ret 1, w5)"
    "same_but w4 (os_fs w5) [fmt (''%d %s: Already logged out'' @ crlf) [FI 430, FS ''CHECK'']] w5"
    "login_of cfg w5 = (login_of cfg w)(?c \<mapsto> revoked ?t ?ci)" "service_of cfg w5 = (service_of cfg w)(s \<mapsto> ?c)"
    using check_service_effect [OF w4(2) _ _ assms(11) a4 nre, of al ?c "revoked ?t ?ci"] assms(2,3) w4 out by auto
  have "run_state (sign_on cfg av s) w = ([Ret 0, Ret 0, Ret 0, Ret 0, Ret 1], w5)"
    by (simp add: sign_on_def w1(1) w2(1) w3(1) w4(1) w5(1) del: One_nat_def)
  then show ?thesis using w1(11) w2(9) w3(2) w4(6) w5(2-4) by (intro exI [of _ w5]) (simp add: same_but_def)
qed

lemma sign_on_and_off_witness:
  "\<exists>w'. run_state (sign_on sample_config sample_av ''cosign-www=cd'') empty_db = ([Ret 0, Ret 0, Ret 0, Ret 0, Ret 1], w') \<and>
     d_out w' ! 2 = live_msg 3 231 (fresh_login sample_av 1000) []"
proof -
  have "0 < idle_out_time sample_config" "allowed sample_config empty_db ''cosign-www=cd''" "text_ok (sample_av ! 1)"
    "''cosign-www=cd'' \<noteq> sample_av ! 1" "starts_with ''cosign-www=cd'' ''cosign-''"
    by (simp_all add: sample_config_def allowed_def text_ok_def sample_av_def ctrl_defs starts_with_def)
  then show ?thesis
    using sign_on_and_off [OF _ _ _ _ _ sample_av_ok(1,2) _ _ _ _ _ sample_path(2), of empty_db weblogin] sample_av_ok(3)
    by fastforce
qed

section \<open>Where the fields do not fit\<close>

text \<open>
  Nothing bounds the factors of a LOGIN after the first one, but \<open>ci_realm\<close> holds 255 characters: a login with more is
  stored, and the next command that reads the cookie copies its line past the end of the array.
\<close>

lemma read_line_overflow:
  assumes "text_ok r" and "256 \<le> length r" and "length r < MAXPATHLEN" and "text_ok a" and "length a < 256"
    and "text_ok u" and "length u < 130"
  shows "parse_cookie (Some \<lparr>f_data = mkline ''v2'' @ mkline ''s1'' @ mkline (''i'' @ a) @ mkline (''j'' @ a) @
      mkline (''p'' @ u) @ mkline (''r'' @ r) @ s, f_mode = m, f_mtime = t\<rparr>) = Undefined"
proof -
  have [simp]: "text_ok (c # l) \<longleftrightarrow> c \<noteq> NUL \<and> c \<noteq> LF \<and> text_ok l" for c l
    by (auto simp: text_ok_def)
  have 1: "fgets_line 3 (mkline ''v2'' @ s) = (mkline ''v2'', s)" "fgets_line 3 (mkline ''s1'' @ s) = (mkline ''s1'', s)" for s
    by (simp_all add: mkline_def numeral_3_eq_3 ctrl_defs)
  have 2: "read_version (mkline ''v2'') z = Ret (True, z\<lparr>ci_version := 2\<rparr>)" for z
    using chop_line_full [of "''v2''"] by (simp add: read_version_def mkline_def atoi_2 ctrl_defs)
  have 3: "parse_fields (mkline (CHR ''r'' # r) @ s) z = Undefined" for z
  proof -
    have "fgets_line (MAXPATHLEN + 1) (mkline (''r'' @ r) @ s) = (''r'' @ r @ [LF], s)"
      using fgets_line_full [of "''r'' @ r" "MAXPATHLEN + 1" s] assms(1,3) by (simp add: mkline_def text_ok_def ctrl_defs)
    moreover have "chop_line (''r'' @ r @ [LF]) = Ret (Some (''r'' @ r))"
      using chop_line_full [of "''r'' @ r"] assms(1) by (simp add: text_ok_def ctrl_defs)
    moreover have "read_field (''r'' @ r) z = Undefined" using assms(2) by (simp add: read_field_def Let_def)
    ultimately show ?thesis by (subst parse_fields.simps) (simp add: mkline_def)
  qed
  have "mkline x \<noteq> []" for x by (simp add: mkline_def)
  then show ?thesis
    using assms by (simp add: parse_cookie_def 1 2 3 parse_fields_line ctrl_defs read_field_def Let_def MAXPATHLEN_def)
qed

section \<open>A session that logs in\<close>

lemma files_change_for_hosts_witness:
  "\<exists>h \<in> set (d_handshakes (sample_start [join sample_av])). \<exists>al. admits sample_config h al \<and> al_key al \<in> {CGI, SERVICE}"
proof -
  let ?l = "join sample_av" and ?w0 = "sample_start [join sample_av]" and ?s = "sample_session [join sample_av]"
  let ?w1 = "?s\<lparr>d_sn := (d_sn ?s)\<lparr>sn_rpos := length ?l + 1, sn_net := []\<rparr>\<rparr>"
  have l: "plain ?l" "length ?l < 100" by (simp_all add: sample_av_def plain_def ctrl_defs)
  have g: "run_state getline ?s = (Some ?l, ?w1)"
    using l by (intro run_getline_one) (simp_all add: sample_session_def sample_start_def snet_attach_def SNET_BUFLEN_def)
  have av: "argcargv ?l = sample_av"
    by (rule argcargv_join) (simp add: sample_av_def word_ok_def white_def ctrl_defs)
  have cmd: "find_command auth_commands ''LOGIN'' = Some f_login" by (simp add: auth_commands_def name_eval)
  have w1: "os_faults ?w1 = []" "d_al ?w1 = Some weblogin" "os_fs ?w1 ''cosign=xy'' = None" "tmp_free ?w1"
    "os_now ?w1 = \<lparr>tv_sec = 1000, tv_usec = 0\<rparr>" "os_fs ?w0 = (\<lambda>_. None)" "\<not> d_auth_commands ?w0" "d_auth_commands ?w1"
    by (simp_all add: sample_session_def sample_start_def sample_daemon_def tmp_free_def)
  then have ok: "cinfo_ok (fresh_login sample_av (tv_sec (os_now ?w1)))" using sample_av_ok(3) by simp
  have al: "al_key weblogin = CGI" by (simp add: weblogin_def)
  obtain w2 where w2: "run_state (f_login sample_config sample_av) ?w1 = (Ret 0, w2)" "os_fs w2 ''cosign=xy'' \<noteq> None"
    using login_new_effect [OF w1(1,2) al w1(4) sample_av_ok(1,2) w1(3) ok] by simp
  have "run_state (do_command sample_config ?l) ?w1 = (Ret True, w2)"
    using w1(8) w2(1) cmd by (simp add: do_command_def av commands_def Let_def) (simp add: sample_av_def)
  then have "(command_step sample_config)\<^sup>*\<^sup>* ?w0 w2"
    using sample_starttls one_line [OF g] by (meson r_into_rtranclp rtranclp.rtrancl_into_rtrancl)
  moreover have "os_fs w2 \<noteq> os_fs ?w0" using w1(6) w2(2) by auto
  ultimately show ?thesis using w1(7) by (intro files_change_for_hosts) blast+
qed

end
