(* ===== verification/Sweep.thy ===== *)
theory Sweep
  imports Monster Database_login
begin

text \<open>
  What a pass of the monster does to the database where no system call fails: exactly the cookies that are due go.
\<close>

section \<open>What is due\<close>

definition over :: "monster_config \<Rightarrow> int \<Rightarrow> cinfo \<Rightarrow> bool" where
  "over cfg now_sec ci \<longleftrightarrow>
     (ci_state ci = 0 \<and> now_sec - ci_itime ci > loggedout_cache cfg) \<or>
     now_sec - ci_itime ci > idle_cache cfg \<or>
     now_sec - atoi (ci_ctime ci) > hard_timeout cfg"

definition dead :: "monster_config \<Rightarrow> int \<Rightarrow> inode option \<Rightarrow> bool" where
  "dead cfg now_sec e \<longleftrightarrow> (case parse_cookie e of Ret (rc, ci) \<Rightarrow> rc = 0 \<and> over cfg now_sec ci | _ \<Rightarrow> False)"

abbreviation cookie_path :: "monster_config \<Rightarrow> string \<Rightarrow> string option" where
  "cookie_path cfg n \<equiv> mkcookiepath None (m_hashlen cfg) n MAXPATHLEN"

text \<open>A service cookie whose login cookie is missing or dead.\<close>

definition orphan :: "monster_config \<Rightarrow> int \<Rightarrow> (string \<Rightarrow> inode option) \<Rightarrow> inode option \<Rightarrow> bool" where
  "orphan cfg now_sec fs e \<longleftrightarrow>
     (case parse_service e of
        None \<Rightarrow> False
      | Some l \<Rightarrow>
          (case cookie_path cfg l of
             None \<Rightarrow> False
           | Some q \<Rightarrow> fs q = None \<or> dead cfg now_sec (fs q)))"

definition due :: "monster_config \<Rightarrow> int \<Rightarrow> (string \<Rightarrow> inode option) \<Rightarrow> string \<Rightarrow> inode option \<Rightarrow> bool" where
  "due cfg now_sec fs n e \<longleftrightarrow>
     starts_with n ''cosign='' \<and> dead cfg now_sec e \<or>
     starts_with n ''cosign-'' \<and> orphan cfg now_sec fs e"

text \<open>
  A database the daemon wrote: ticket files are not named like cookies, service cookies belong to login cookies, no field
  of a login cookie is longer than its array, and no service cookie starts with a NUL.
\<close>

definition first_line :: "inode \<Rightarrow> string option outcome" where
  "first_line f = (if f_data f = [] then Ret None else chop_line (fst (fgets_line (MAXCOOKIELEN + 1) (f_data f))))"

definition readable :: "string \<Rightarrow> inode option \<Rightarrow> bool" where
  "readable n e \<longleftrightarrow>
     (starts_with n ''cosign='' \<longrightarrow> is_ret (parse_cookie e)) \<and>
     (starts_with n ''cosign-'' \<longrightarrow> (case e of None \<Rightarrow> True | Some f \<Rightarrow> is_ret (first_line f)))"

definition apart :: "monster_config \<Rightarrow> (string \<Rightarrow> inode option) \<Rightarrow> bool" where
  "apart cfg fs \<longleftrightarrow>
     (\<forall>p ci. parse_cookie (fs p) = Ret (0, ci) \<longrightarrow> (\<forall>n. cookie_path cfg n \<noteq> Some (ci_krbtkt ci))) \<and>
     (\<forall>p l. parse_service (fs p) = Some l \<longrightarrow> starts_with l ''cosign='' \<and> cookie_path cfg l \<noteq> None) \<and>
     (\<forall>n p. cookie_path cfg n = Some p \<longrightarrow> readable n (fs p))"

lemma dead_None [simp]: "\<not> dead cfg now_sec None"
  by (simp add: dead_def parse_cookie_def)

lemma due_None [simp]: "\<not> due cfg now_sec fs n None"
  by (simp add: due_def orphan_def parse_service_def)

lemma login_not_service: "starts_with n ''cosign='' \<Longrightarrow> \<not> starts_with n ''cosign-''"
  by (auto simp: starts_with_def)

section \<open>One cookie\<close>

lemma parse_fields_rc: "parse_fields s ci = Ret (rc, ci') \<Longrightarrow> rc = 0 \<or> rc = -1"
proof (induction s ci rule: parse_fields.induct)
  case (1 s ci)
  then show ?case
    by (subst (asm) (2) parse_fields.simps) (auto split: if_splits prod.splits outcome.splits option.splits)
qed

lemma parse_cookie_rc:
  "parse_cookie e = Ret (rc, ci) \<Longrightarrow> rc = 0 \<or> rc = -1 \<or> rc = 1 \<and> e = None"
  by (auto simp: parse_cookie_def Let_def dest: parse_fields_rc
      split: option.splits if_splits prod.splits outcome.splits bool.splits)

lemma run_delete_stuff [os_simps]:
  "os_faults w = [] \<Longrightarrow> run_state (delete_stuff name ci) w =
     ((), w\<lparr>os_fs := (if ci_krbtkt ci = [] then os_fs w else (os_fs w)(ci_krbtkt ci := None))(name := None),
            login_gone := login_gone w + 1\<rparr>)"
  by (auto simp: delete_stuff_def os_simps fun_eq_iff intro!: monster.equality)

lemma run_eat_cookie:
  assumes "os_faults w = []" and "parse_cookie (os_fs w name) = Ret (rc, ci)"
  shows "run_state (eat_cookie cfg name t st) w =
    (if dead cfg t (os_fs w name) then (Ret (0, st), snd (run_state (delete_stuff name ci) w))
     else (Ret (if rc < 0 then (-1, st) else if rc = 1 then (0, st) else (1, ci_itime ci, ci_state ci)), w))"
  using assms parse_cookie_rc [OF assms(2)]
  by (auto simp: eat_cookie_def os_simps dead_def over_def Let_def)

lemma eat_cookie_cases:
  assumes "os_faults w = []" and "run_state (eat_cookie cfg name t st) w = (Ret (rc, st'), w')"
  obtains (dead) "dead cfg t (os_fs w name)" "rc = 0" "os_faults w' = []"
      "os_fs w' = (os_fs w)(name := None) \<or>
       (\<exists>ci. parse_cookie (os_fs w name) = Ret (0, ci) \<and> os_fs w' = (os_fs w)(ci_krbtkt ci := None, name := None))"
  | (kept) "\<not> dead cfg t (os_fs w name)" "w' = w" "rc = 0 \<longleftrightarrow> os_fs w name = None"
proof (cases "parse_cookie (os_fs w name)")
  case (Ret r)
  obtain q ci where q: "r = (q, ci)" by fastforce
  note p = Ret [unfolded q]
  note run = run_eat_cookie [OF assms(1) p, of cfg t st]
  show ?thesis
  proof (cases "dead cfg t (os_fs w name)")
    case True
    then have "q = 0" using p by (simp add: dead_def)
    then show ?thesis
      using True run assms p dead by (simp add: run_delete_stuff split: if_splits)
  next
    case False
    have "q = 1 \<longleftrightarrow> os_fs w name = None"
      using p parse_cookie_rc [OF p] by (auto simp: parse_cookie_def)
    then show ?thesis
      using False run assms(2) kept parse_cookie_rc [OF p] by (auto split: if_splits)
  qed
qed (use assms in \<open>simp_all add: eat_cookie_def os_simps\<close>)

section \<open>A directory\<close>

text \<open>
  Where the names \<open>D\<close> have been looked at: each of their files that was due is gone, each other cookie is as it was or, if it was
  due, gone.
\<close>

definition swept :: "monster_config \<Rightarrow> int \<Rightarrow> (string \<Rightarrow> inode option) \<Rightarrow> string set \<Rightarrow> monster \<Rightarrow> bool" where
  "swept cfg t fs D w \<longleftrightarrow> os_faults w = [] \<and>
     (\<forall>n p. cookie_path cfg n = Some p \<longrightarrow>
        os_fs w p = (if due cfg t fs n (fs p) then None else fs p) \<or>
        n \<notin> D \<and> os_fs w p = fs p)"

lemma sweptD:
  assumes "swept cfg t fs D w" and "cookie_path cfg n = Some p"
  shows "os_fs w p = fs p \<or> os_fs w p = None \<and> due cfg t fs n (fs p)"
  using assms by (auto simp: swept_def split: if_splits)

lemma swept_start: "os_faults w = [] \<Longrightarrow> swept cfg t (os_fs w) {} w"
  by (simp add: swept_def)

lemma swept_cong:
  "swept cfg t fs D w \<Longrightarrow> os_fs w' = os_fs w \<Longrightarrow> os_faults w' = os_faults w \<Longrightarrow> swept cfg t fs D w'"
  by (simp add: swept_def)

lemma swept_mono: "swept cfg t fs D w \<Longrightarrow> D' \<subseteq> D \<Longrightarrow> swept cfg t fs D' w"
  unfolding swept_def by blast

lemma swept_keep:
  assumes "swept cfg t fs D w" and "cookie_path cfg m = Some p" and "\<not> due cfg t fs m (os_fs w p)"
  shows "swept cfg t fs (insert m D) w"
proof -
  have "os_fs w p = (if due cfg t fs m (fs p) then None else fs p)"
    using sweptD [OF assms(1,2)] assms(3) by auto
  then show ?thesis using assms(1,2) unfolding swept_def by (metis insert_iff option.inject)
qed

lemma swept_remove:
  assumes "swept cfg t fs D w" and "cookie_path cfg m = Some p" and "due cfg t fs m (os_fs w p)"
    and "os_faults w' = []" and "os_fs w' = (os_fs w)(p := None)"
  shows "swept cfg t fs (insert m D) w'"
  unfolding swept_def
proof (intro conjI allI impI)
  fix n q
  assume q: "cookie_path cfg n = Some q"
  have d: "due cfg t fs m (fs p)" using sweptD [OF assms(1,2)] assms(3) by auto
  show "os_fs w' q = (if due cfg t fs n (fs q) then None else fs q) \<or> n \<notin> insert m D \<and> os_fs w' q = fs q"
  proof (cases "q = p")
    case True
    then have "n = m" using q assms(2) by (metis mkcookiepath_inject_aux)
    then show ?thesis using True d assms(5) by simp
  next
    case False
    then have "n \<noteq> m" using q assms(2) by auto
    then show ?thesis using False q assms(1,5) by (simp add: swept_def)
  qed
qed (use assms in simp)

lemma swept_gone:
  assumes "swept cfg t fs D w" and "cookie_path cfg m = Some p"
    and "os_fs w p = None \<or> due cfg t fs m (os_fs w p)"
    and "os_faults w' = []" and "os_fs w' = (os_fs w)(p := None)"
  shows "swept cfg t fs (insert m D) w'"
proof (cases "os_fs w p")
  case None
  then have "os_fs w' = os_fs w" using assms(5) by (auto simp: fun_upd_idem)
  moreover have "swept cfg t fs (insert m D) w" using swept_keep [OF assms(1,2)] None by simp
  ultimately show ?thesis using assms(1,4) by (auto simp: swept_def)
next
  case (Some f)
  then show ?thesis using swept_remove [OF assms(1,2) _ assms(4,5)] assms(3) by simp
qed

lemma swept_ticket:
  assumes "swept cfg t fs D w" and "\<And>n. cookie_path cfg n \<noteq> Some k"
    and "os_faults w' = []" and "os_fs w' = (os_fs w)(k := None)"
  shows "swept cfg t fs D w'"
  using assms unfolding swept_def by (metis fun_upd_apply)

lemma swept_eat:
  assumes "swept cfg t fs D w" and "apart cfg fs" and "cookie_path cfg l = Some p" and "starts_with l ''cosign=''"
    and "run_state (eat_cookie cfg p t st) w = (Ret (rc, st'), w')"
  shows "swept cfg t fs (insert l D) w' \<and> (rc = 0 \<longleftrightarrow> fs p = None \<or> dead cfg t (fs p))"
proof -
  have f: "os_faults w = []" using assms(1) by (simp add: swept_def)
  have due: "due cfg t fs l e \<longleftrightarrow> dead cfg t e" for e
    using assms(4) login_not_service by (auto simp: due_def)
  note at = sweptD [OF assms(1,3)]
  from f assms(5) show ?thesis
  proof (cases rule: eat_cookie_cases)
    case dead
    have e: "os_fs w p = fs p" using at dead(1) by auto
    have "swept cfg t fs (insert l D) w'"
      using dead(4)
    proof
      assume "os_fs w' = (os_fs w)(p := None)"
      then show ?thesis using swept_remove [OF assms(1,3)] due dead by simp
    next
      assume "\<exists>ci. parse_cookie (os_fs w p) = Ret (0, ci) \<and> os_fs w' = (os_fs w)(ci_krbtkt ci := None, p := None)"
      then obtain ci where ci: "parse_cookie (fs p) = Ret (0, ci)" "os_fs w' = (os_fs w)(ci_krbtkt ci := None, p := None)"
        using e by auto
      let ?v = "w\<lparr>os_fs := (os_fs w)(ci_krbtkt ci := None)\<rparr>"
      have k: "cookie_path cfg n \<noteq> Some (ci_krbtkt ci)" for n using assms(2) ci(1) unfolding apart_def by blast
      then have "os_fs ?v p = os_fs w p" using assms(3) by auto
      moreover have "swept cfg t fs D ?v" by (rule swept_ticket [OF assms(1) k]) (use f in simp_all)
      ultimately show ?thesis
        using swept_remove [of cfg t fs D ?v l p w'] assms(3) due dead ci(2) by simp
    qed
    then show ?thesis using dead e by auto
  next
    case kept
    then have "swept cfg t fs (insert l D) w'" using swept_keep [OF assms(1,3)] due by simp
    moreover have "rc = 0 \<longleftrightarrow> fs p = None \<or> dead cfg t (fs p)"
      using kept(1,3) at due by (cases "os_fs w p = fs p") auto
    ultimately show ?thesis ..
  qed
qed

lemma run_service_cases:
  assumes "os_faults w = []" and "run_state (service_to_login p) w = (Ret (rc, l), w')"
  shows "w' = w \<and> (if rc = 0 then parse_service (os_fs w p) = Some l else parse_service (os_fs w p) = None)"
  using assms
  by (auto simp: run_service_to_login parse_service_def split: option.splits outcome.splits if_splits)

lemma swept_entry:
  assumes "swept cfg t fs D w" and "apart cfg fs"
    and "run_state (dir_entry cfg t n st) w = (Ret st', w')"
  shows "swept cfg t fs (insert n D) w'"
proof (cases "cookie_path cfg n")
  case None
  then have "w' = w" using assms(3) by (simp add: dir_entry_def)
  then show ?thesis using assms(1) None unfolding swept_def by (metis insert_iff option.distinct(1))
next
  case (Some p)
  consider (login) "starts_with n ''cosign=''" | (service) "\<not> starts_with n ''cosign=''" "starts_with n ''cosign-''"
    | (other) "\<not> starts_with n ''cosign=''" "\<not> starts_with n ''cosign-''" by blast
  then show ?thesis
  proof cases
    case login
    let ?w = "login_total_update (\<lambda>n. n + 1) w"
    have s: "swept cfg t fs D ?w" using assms(1) by (rule swept_cong) simp_all
    obtain r v where e: "run_state (eat_cookie cfg p t st) ?w = (r, v)" by fastforce
    then obtain rc st1 where r: "r = Ret (rc, st1)"
      using assms(3) Some login by (cases r) (auto simp: dir_entry_def login_entry_def os_simps)
    have "swept cfg t fs (insert n D) v"
      using swept_eat [OF s assms(2) Some login e [unfolded r]] by simp
    then show ?thesis
      by (rule swept_cong)
        (use assms(3) Some login e r in \<open>auto simp: dir_entry_def login_entry_def send_times_def os_simps Let_def
          split: if_splits prod.splits\<close>)
  next
    case service
    let ?w = "service_total_update (\<lambda>n. n + 1) w"
    have s: "swept cfg t fs D ?w" using assms(1) by (rule swept_cong) simp_all
    then have f: "os_faults ?w = []" by (simp add: swept_def)
    have due: "due cfg t fs n e \<longleftrightarrow> orphan cfg t fs e" for e
      using service by (auto simp: due_def)
    obtain r v where e: "run_state (service_to_login p) ?w = (r, v)" by fastforce
    then obtain rc l where r: "r = Ret (rc, l)"
      using assms(3) Some service by (cases r) (auto simp: dir_entry_def service_entry_def os_simps)
    note sv = run_service_cases [OF f e [unfolded r]]
    show ?thesis
    proof (cases "rc = 0")
      case False
      then have "w' = ?w"
        using assms(3) Some service e r sv by (simp add: dir_entry_def service_entry_def os_simps)
      then show ?thesis
        using swept_keep [OF s Some] False sv due by (simp add: orphan_def)
    next
      case True
      then have l: "parse_service (os_fs w p) = Some l" using sv by simp
      then have "fs p = os_fs w p" using sweptD [OF assms(1) Some] by (auto simp: parse_service_def)
      then have login: "starts_with l ''cosign=''" using l assms(2) unfolding apart_def by metis
      obtain q where q: "cookie_path cfg l = Some q"
        using assms(3) Some service e r sv True
        by (cases "cookie_path cfg l") (auto simp: dir_entry_def service_entry_def os_simps)
      obtain r2 v2 where e2: "run_state (eat_cookie cfg q t st) ?w = (r2, v2)" by fastforce
      then obtain rc2 st2 where r2: "r2 = Ret (rc2, st2)"
        using assms(3) Some service e r sv True q by (cases r2) (auto simp: dir_entry_def service_entry_def os_simps)
      note eat = swept_eat [OF s assms(2) q login e2 [unfolded r2]]
      then have s2: "swept cfg t fs D v2" using swept_mono by blast
      have orph: "due cfg t fs n (os_fs w p) \<longleftrightarrow> rc2 = 0"
        using eat l q by (simp add: due orphan_def)
      have v2p: "os_fs v2 p = os_fs w p \<or> os_fs v2 p = None \<and> rc2 = 0"
        using sweptD [OF s2 Some] sweptD [OF assms(1) Some] \<open>fs p = os_fs w p\<close> orph by auto
      show ?thesis
      proof (cases "rc2 = 0")
        case True
        have "swept cfg t fs (insert n D) (v2\<lparr>os_fs := (os_fs v2)(p := None)\<rparr>)"
          by (rule swept_gone [OF s2 Some]) (use v2p orph True s2 in \<open>auto simp: swept_def [of _ _ _ D]\<close>)
        then show ?thesis
          by (rule swept_cong)
            (use assms(3) Some service e r sv \<open>rc = 0\<close> q e2 r2 True s2 in
              \<open>auto simp: dir_entry_def service_entry_def os_simps swept_def fun_upd_idem split: if_splits\<close>)
      next
        case False
        then have "w' = v2"
          using assms(3) Some service e r sv \<open>rc = 0\<close> q e2 r2 by (simp add: dir_entry_def service_entry_def os_simps)
        then show ?thesis using swept_keep [OF s2 Some] v2p orph False by auto
      qed
    qed
  next
    case other
    then have "w' = w" using assms(3) Some by (simp add: dir_entry_def)
    then show ?thesis using swept_keep [OF assms(1) Some] other by (simp add: due_def)
  qed
qed

section \<open>A pass\<close>

lemma swept_entries:
  assumes "swept cfg t fs D w" and "apart cfg fs" and "run_state (dir_entries cfg t ns st) w = (Ret (), w')"
  shows "swept cfg t fs (set ns \<union> D) w'"
  using assms
proof (induction ns arbitrary: st w D)
  case Nil
  then show ?case by simp
next
  case (Cons n ns)
  obtain r v where e: "run_state (dir_entry cfg t n st) w = (r, v)" by fastforce
  then obtain st1 where r: "r = Ret st1" using Cons.prems(3) by (cases r) auto
  have "swept cfg t fs (insert n D) v" using swept_entry Cons.prems e r by blast
  then have "swept cfg t fs (set ns \<union> insert n D) w'"
    using Cons.IH [of "insert n D" v st1] Cons.prems(2,3) e r by simp
  then show ?case by simp
qed

definition listed :: "(string \<Rightarrow> string list option) \<Rightarrow> string list \<Rightarrow> string set" where
  "listed listing ds = {n. \<exists>d ns. d \<in> set ds \<and> listing d = Some ns \<and> n \<in> set ns}"

lemma listed_simps:
  "listed listing [] = {}"
  "listed listing (d # ds) = (case listing d of None \<Rightarrow> {} | Some ns \<Rightarrow> set ns) \<union> listed listing ds"
  by (auto simp: listed_def split: option.splits)

lemma swept_dirs:
  assumes "swept cfg t fs D w" and "apart cfg fs" and "run_state (do_dirs cfg listing t ds) w = (Ret (), w')"
  shows "swept cfg t fs (listed listing ds \<union> D) w'"
  using assms
proof (induction ds arbitrary: w D)
  case Nil
  then show ?case by (simp add: listed_simps)
next
  case (Cons d ds)
  obtain r v where e: "run_state (do_dir cfg (listing d) t) w = (r, v)" by fastforce
  then have r: "r = Ret ()" using Cons.prems(3) by (cases r) auto
  obtain ns where ns: "listing d = Some ns" using e r by (cases "listing d") (auto simp: do_dir_def)
  have "swept cfg t fs (set ns \<union> D) v"
    using swept_entries Cons.prems(1,2) e r ns by (auto simp: do_dir_def)
  then have "swept cfg t fs (listed listing ds \<union> (set ns \<union> D)) w'"
    using Cons.IH Cons.prems(2,3) e r by simp
  then show ?case using ns by (simp add: listed_simps Un_ac)
qed

text \<open>Nothing stops it.\<close>

lemma eat_cookie_returns:
  assumes "swept cfg t fs D w" and "apart cfg fs" and "cookie_path cfg l = Some p" and "starts_with l ''cosign=''"
  shows "\<exists>r w'. run_state (eat_cookie cfg p t st) w = (Ret r, w')"
proof -
  have "is_ret (parse_cookie (os_fs w p))"
    using sweptD [OF assms(1,3)] assms(2-4)
    by (auto simp: apart_def readable_def parse_cookie_def [of None])
  then obtain rc ci where "parse_cookie (os_fs w p) = Ret (rc, ci)" by (cases "parse_cookie (os_fs w p)") auto
  then show ?thesis
    using run_eat_cookie [of w p rc ci cfg t st] assms(1) by (auto simp: swept_def)
qed

lemma service_to_login_returns:
  assumes "os_faults w = []" and "case os_fs w p of None \<Rightarrow> True | Some f \<Rightarrow> is_ret (first_line f)"
  shows "\<exists>rc l. run_state (service_to_login p) w = (Ret (rc, l), w)"
  using assms by (auto simp: run_service_to_login first_line_def split: option.splits outcome.splits if_splits)

lemma entry_returns:
  assumes "swept cfg t fs D w" and "apart cfg fs"
  shows "\<exists>st' w'. run_state (dir_entry cfg t n st) w = (Ret st', w')"
proof (cases "cookie_path cfg n")
  case None
  then show ?thesis by (simp add: dir_entry_def)
next
  case (Some p)
  consider (login) "starts_with n ''cosign=''" | (service) "\<not> starts_with n ''cosign=''" "starts_with n ''cosign-''"
    | (other) "\<not> starts_with n ''cosign=''" "\<not> starts_with n ''cosign-''" by blast
  then show ?thesis
  proof cases
    case login
    have "swept cfg t fs D (login_total_update (\<lambda>n. n + 1) w)" using assms(1) by (rule swept_cong) simp_all
    from eat_cookie_returns [OF this assms(2) Some login, of st] show ?thesis
      using Some login by (auto simp: dir_entry_def login_entry_def send_times_def os_simps)
  next
    case service
    let ?w = "service_total_update (\<lambda>n. n + 1) w"
    have s: "swept cfg t fs D ?w" using assms(1) by (rule swept_cong) simp_all
    then have f: "os_faults ?w = []" by (simp add: swept_def)
    have "case os_fs ?w p of None \<Rightarrow> True | Some f \<Rightarrow> is_ret (first_line f)"
      using sweptD [OF s Some] assms(2) Some service by (auto simp: apart_def readable_def split: option.splits)
    from service_to_login_returns [OF f this]
    obtain rc l where sl: "run_state (service_to_login p) ?w = (Ret (rc, l), ?w)" by blast
    show ?thesis
    proof (cases "rc = 0")
      case False
      then show ?thesis using Some service sl by (simp add: dir_entry_def service_entry_def os_simps)
    next
      case True
      then have l: "parse_service (os_fs w p) = Some l" using run_service_cases [OF f sl] by simp
      then have "fs p = os_fs w p" using sweptD [OF assms(1) Some] by (auto simp: parse_service_def)
      then have "starts_with l ''cosign=''" "cookie_path cfg l \<noteq> None"
        using l assms(2) unfolding apart_def by metis+
      then obtain q where q: "starts_with l ''cosign=''" "cookie_path cfg l = Some q" by blast
      from eat_cookie_returns [OF s assms(2) q(2,1), of st] show ?thesis
        using Some service sl True q
        by (auto simp: dir_entry_def service_entry_def os_simps split: prod.splits)
    qed
  next
    case other
    then show ?thesis using Some by (simp add: dir_entry_def)
  qed
qed

lemma entries_return:
  "swept cfg t fs D w \<Longrightarrow> apart cfg fs \<Longrightarrow> \<exists>w'. run_state (dir_entries cfg t ns st) w = (Ret (), w')"
proof (induction ns arbitrary: st w D)
  case Nil
  then show ?case by simp
next
  case (Cons n ns)
  obtain st1 v where e: "run_state (dir_entry cfg t n st) w = (Ret st1, v)"
    using entry_returns [OF Cons.prems] by blast
  show ?case using Cons.IH [OF swept_entry [OF Cons.prems e] Cons.prems(2)] e by simp
qed

lemma dirs_return:
  "swept cfg t fs D w \<Longrightarrow> apart cfg fs \<Longrightarrow> list_all (\<lambda>d. listing d \<noteq> None) ds \<Longrightarrow>
     \<exists>w'. run_state (do_dirs cfg listing t ds) w = (Ret (), w')"
proof (induction ds arbitrary: w D)
  case Nil
  then show ?case by simp
next
  case (Cons d ds)
  obtain ns where ns: "listing d = Some ns" using Cons.prems(3) by auto
  obtain v where e: "run_state (do_dir cfg (listing d) t) w = (Ret (), v)"
    using entries_return [OF Cons.prems(1,2)] ns by (fastforce simp: do_dir_def)
  have "swept cfg t fs (set ns \<union> D) v"
    by (rule swept_entries [OF Cons.prems(1,2)]) (use e ns in \<open>simp add: do_dir_def\<close>)
  then show ?case using Cons.IH Cons.prems(2,3) e by simp
qed

text \<open>Opening the connections changes no file.\<close>

definition same_files :: "monster \<Rightarrow> monster \<Rightarrow> bool" where
  "same_files w w' \<longleftrightarrow> os_fs w' = os_fs w \<and> os_faults w' = os_faults w \<and> os_now w' = os_now w"

interpretation same_files: io_preorder same_files
  by unfold_locales (auto simp: same_files_def)

lemma same_files_open: "state_io_rel same_files (open_entries cfg cs)"
proof -
  have "state_io_rel same_files next_attempt"
    by (rule state_io_relI) (auto simp: next_attempt_def same_files_def split: list.splits)
  then have entry: "state_io_rel same_files (open_entry cfg c)" for c
    unfolding open_entry_def open_conn_def by (intro same_files.rel_basic)
  show ?thesis
    by (induction cs; unfold open_entries.simps) (intro same_files.rel_basic entry; assumption)+
qed

lemma pass_sweeps:
  assumes "os_faults w = []" and "apart cfg (os_fs w)"
    and "hashdirs (m_hashlen cfg) = Some ds" and "list_all (\<lambda>d. listing d \<noteq> None) ds"
  shows "\<exists>w'. run_state (monster_pass cfg listing) w = (Ret (), w') \<and>
    swept cfg (tv_sec (os_now w)) (os_fs w) (listed listing ds) w'"
proof -
  let ?t = "tv_sec (os_now w)"
  let ?w = "w\<lparr>login_total := 0, service_total := 0, login_gone := 0, service_gone := 0, login_sent := 0\<rparr>"
  obtain cs v where v: "run_state (open_entries cfg (m_head ?w)) ?w = (cs, v)" by fastforce
  let ?v = "m_head_update (\<lambda>_. cs) v"
  have "same_files ?w v" using state_io_relD [OF same_files_open v] .
  then have s: "swept cfg ?t (os_fs w) {} ?v"
    using swept_start [OF assms(1), of cfg ?t] by (simp add: same_files_def swept_def)
  obtain w' where w': "run_state (do_dirs cfg listing ?t ds) ?v = (Ret (), w')"
    using dirs_return [OF s assms(2,4)] by blast
  have "run_state (monster_pass cfg listing) w = (Ret (), m_head_update (map (end_entry ?t)) w')"
    using assms(1,3) v w' by (simp add: monster_pass_def os_simps)
  moreover have "swept cfg ?t (os_fs w) (listed listing ds) (m_head_update (map (end_entry ?t)) w')"
    by (rule swept_cong [of _ _ _ _ w']) (use swept_dirs [OF s assms(2) w'] in simp_all)
  ultimately show ?thesis by blast
qed

text \<open>
  C20.  A pass of the monster, where no system call fails, ends, and it takes away exactly what is due: of the cookies that
  the directories list, the login cookies that have been logged out, idle or alive for too long, and the service
  cookies whose login cookie is missing or goes too.  A cookie that no directory lists stays as it is, or goes where it is due.
\<close>

theorem monster_pass_exact:
  assumes "os_faults w = []" and "apart cfg (os_fs w)"
    and "hashdirs (m_hashlen cfg) = Some ds" and "list_all (\<lambda>d. listing d \<noteq> None) ds"
    and "cookie_path cfg n = Some p"
  shows "\<exists>w'. run_state (monster_pass cfg listing) w = (Ret (), w') \<and>
    (os_fs w' p = (if due cfg (tv_sec (os_now w)) (os_fs w) n (os_fs w p) then None else os_fs w p) \<or>
     n \<notin> listed listing ds \<and> os_fs w' p = os_fs w p)"
  using pass_sweeps [OF assms(1-4)] assms(5) by (fastforce simp: swept_def)

text \<open>A database with one login and one service cookie, long after.\<close>

definition sample_keeper :: monster_config where
  "sample_keeper =
     \<lparr>m_hashlen = 0, idle_cache = 9000, loggedout_cache = 7200, hard_timeout = 43200, cosign_host = ''db'',
      m_hostname = ''db1''\<rparr>"

definition sample_monster :: "int \<Rightarrow> monster" where
  "sample_monster t =
     \<lparr>os_fs = os_fs sample_db, os_now = \<lparr>tv_sec = t, tv_usec = 0\<rparr>, os_pid = 9, os_faults = [], os_pool = [],
      m_head = [\<lparr>cl_sn = None, cl_last_time = 0\<rparr>], m_attempts = [],
      login_total = 0, login_sent = 0, login_gone = 0, service_total = 0, service_gone = 0\<rparr>"

lemma sample_files:
  "os_fs sample_db p = (if p = ''cosign=ab'' then Some (login_file_of sample_cinfo)
     else if p = ''cosign-www=cd'' then Some \<lparr>f_data = mkline (''l'' @ ''cosign=ab''), f_mode = mode_0644, f_mtime = 900\<rparr>
     else None)"
  by (simp add: sample_db_def sample_daemon_def)

lemma sample_parses:
  "parse_cookie (os_fs sample_db ''cosign=ab'') = Ret (0, sample_cinfo)"
  "parse_service (os_fs sample_db ''cosign-www=cd'') = Some ''cosign=ab''"
  using sample_login sample_service
  by (auto simp: login_of_def service_of_def sample_path split: outcome.splits if_splits)

lemma flat_path: "m_hashlen cfg = 0 \<Longrightarrow> cookie_path cfg n = Some p \<Longrightarrow> p = n"
  by (simp add: mkcookiepath_iff cookie_dir_def)

lemma sample_apart:
  assumes flat: "m_hashlen cfg = 0"
  shows "apart cfg (os_fs sample_db)"
  unfolding apart_def
proof (intro conjI allI impI)
  fix p ci n
  assume "parse_cookie (os_fs sample_db p) = Ret (0, ci)"
  moreover have "parse_cookie (os_fs sample_db ''cosign-www=cd'') \<noteq> Ret (0, ci)"
    using parse_service_hd sample_parses(2) parse_cookie_hd by (fastforce simp: sample_files)
  ultimately have "p = ''cosign=ab''" by (auto simp: sample_files parse_cookie_def [of None] split: if_splits)
  then have "ci = sample_cinfo" using \<open>parse_cookie _ = _\<close> sample_parses(1) by simp
  then have "ci_krbtkt ci = []" by (simp add: sample_cinfo_def)
  then show "cookie_path cfg n \<noteq> Some (ci_krbtkt ci)"
    using path_equals [of "m_hashlen cfg" n MAXPATHLEN "[]"] by auto
next
  fix p l
  assume svc: "parse_service (os_fs sample_db p) = Some l"
  have "parse_service (os_fs sample_db ''cosign=ab'') = None"
    using login_file_not_service by (simp add: sample_files)
  with svc have "p = ''cosign-www=cd''" by (auto simp: sample_files parse_service_def [of None] split: if_splits)
  then have "l = ''cosign=ab''" using svc sample_parses by simp
  then show "starts_with l ''cosign=''" "cookie_path cfg l \<noteq> None"
    by (simp_all add: starts_with_def mkcookiepath_def MAXCOOKIELEN_def MAXPATHLEN_def flat)
next
  fix n p
  assume "cookie_path cfg n = Some p"
  then have "p = n" by (rule flat_path [OF flat])
  have l: "is_ret (first_line \<lparr>f_data = mkline (''l'' @ ''cosign=ab''), f_mode = mode_0644, f_mtime = 900\<rparr>)"
    using sample_parses(2) by (auto simp: first_line_def parse_service_def sample_files split: outcome.splits if_splits)
  show "readable n (os_fs sample_db p)"
    using sample_parses(1) l
    by (auto simp: \<open>p = n\<close> readable_def sample_files parse_cookie_def [of None] starts_with_def split: if_splits)
qed

lemma monster_pass_exact_witness:
  "\<exists>w'. run_state (monster_pass sample_keeper (\<lambda>_. Some [''cosign=ab'', ''cosign-www=cd''])) (sample_monster 20000) = (Ret (), w') \<and>
     os_fs w' ''cosign-www=cd'' = None"
proof -
  let ?ls = "\<lambda>_. Some [''cosign=ab'', ''cosign-www=cd'']"
  have p: "cookie_path sample_keeper ''cosign=ab'' = Some ''cosign=ab''"
    "cookie_path sample_keeper ''cosign-www=cd'' = Some ''cosign-www=cd''"
    by (simp_all add: mkcookiepath_def sample_keeper_def MAXCOOKIELEN_def MAXPATHLEN_def)
  have "dead sample_keeper 20000 (os_fs sample_db ''cosign=ab'')"
    by (simp add: dead_def sample_parses over_def) (simp add: sample_keeper_def sample_cinfo_def)
  then have d: "due sample_keeper 20000 (os_fs sample_db) ''cosign-www=cd'' (os_fs sample_db ''cosign-www=cd'')"
    by (simp add: due_def orphan_def sample_parses p starts_with_def)
  have h: "hashdirs (m_hashlen sample_keeper) = Some [''.'']" by (simp add: hashdirs_def sample_keeper_def)
  have w: "os_faults (sample_monster 20000) = []" "os_fs (sample_monster 20000) = os_fs sample_db"
    "tv_sec (os_now (sample_monster 20000)) = 20000" by (simp_all add: sample_monster_def)
  have "m_hashlen sample_keeper = 0" by (simp add: sample_keeper_def)
  then show ?thesis
    using monster_pass_exact [of "sample_monster 20000" sample_keeper, unfolded w, OF refl sample_apart h _ p(2), of ?ls] d
    by (auto simp: listed_def)
qed

end
