(* ===== verification/Replica.thy ===== *)
theory Replica
  imports Pusher Sweep
begin

text \<open>
  What a replica makes of what the daemon, its pusher and the monster send: the words the pusher's child says to the
  replica are those the daemon wrote, and the commands of the replica then change its database as the daemon's was changed.
\<close>

section \<open>Lines of words\<close>

lemma fmt_words:
  "fmt (''LOGIN %s %s %s %s'' @ crlf) [FS a, FS b, FS c, FS d] = join [''LOGIN'', a, b, c, d] @ crlf"
  "fmt (''REGISTER %s %s %s'' @ crlf) [FS a, FS b, FS c] = join [''REGISTER'', a, b, c] @ crlf"
  "fmt (''LOGOUT %s %s'' @ crlf) [FS a, FS b] = join [''LOGOUT'', a, b] @ crlf"
  by (simp_all add: fmt_def snet_conv_def ctrl_defs crlf_def)

lemma fmt_line: "fmt (''%s'' @ crlf) [FS l] = l @ crlf"
  by (simp add: fmt_def snet_conv_def ctrl_defs crlf_def)

lemma fmt_codes:
  "fmt (''%d LOGIN successful: Cookie Stored.'' @ crlf) [FI 200] = ''200 LOGIN successful: Cookie Stored.'' @ crlf"
  "fmt (''%d REGISTER successful: Cookie Stored.'' @ crlf) [FI 220] = ''220 REGISTER successful: Cookie Stored.'' @ crlf"
  "fmt (''%d LOGOUT successful: cookie no longer valid'' @ crlf) [FI 210] = ''210 LOGOUT successful: cookie no longer valid'' @ crlf"
proof -
  have "conv_d 0 False 200 = Some ''200''" "conv_d 0 False 220 = Some ''220''" "conv_d 0 False 210 = Some ''210''"
    by (simp_all add: conv_d_def width_of_def show_int_def show_nat.simps)
  then show
    "fmt (''%d LOGIN successful: Cookie Stored.'' @ crlf) [FI 200] = ''200 LOGIN successful: Cookie Stored.'' @ crlf"
    "fmt (''%d REGISTER successful: Cookie Stored.'' @ crlf) [FI 220] = ''220 REGISTER successful: Cookie Stored.'' @ crlf"
    "fmt (''%d LOGOUT successful: cookie no longer valid'' @ crlf) [FI 210] = ''210 LOGOUT successful: cookie no longer valid'' @ crlf"
    by (simp_all add: fmt_def snet_conv_def ctrl_defs crlf_def)
qed

definition chomp :: "string \<Rightarrow> string" where
  "chomp s = take (length s - 2) s"

lemma chomp_crlf [simp]: "chomp (s @ crlf) = s"
  by (simp add: chomp_def crlf_def)

text \<open>A reader of lines before this text: the LF of the line before may still be to come.\<close>

definition at_line :: "SNET \<Rightarrow> string \<Rightarrow> bool" where
  "at_line sn s \<longleftrightarrow> sn_ready sn \<and>
     (sn_rstate sn = SNET_BOL \<and> stream sn = s \<or> sn_rstate sn = SNET_FUZZY \<and> stream sn = LF # s)"

lemma next_line_plain: "plain l \<Longrightarrow> next_line st acc (l @ CR # s) = Some (acc @ l, SNET_FUZZY, s)"
  by (induction l arbitrary: st acc) (auto simp: plain_def ctrl_defs)

lemma at_line_read:
  assumes "at_line sn (l @ crlf @ s)" and "plain l"
  shows "\<exists>sn'. snet_getline sn = (Some l, sn') \<and> at_line sn' s"
proof -
  obtain r sn' where g: "snet_getline sn = (r, sn')" by fastforce
  have "next_line (sn_rstate sn) [] (stream sn) = Some (l, SNET_FUZZY, LF # s)"
    using assms(1) next_line_plain [OF assms(2), of _ "[]" "LF # s"] by (auto simp: at_line_def crlf_def ctrl_defs)
  then have "line_result (Some (l, SNET_FUZZY, LF # s)) (r, sn')"
    using snet_getline_loop_line [of sn 0] assms(1) g by (simp add: at_line_def snet_getline_def)
  then show ?thesis using g by (simp add: line_result_def at_line_def)
qed

section \<open>The replica keeps up\<close>

text \<open>
  The database without its clock: who is behind a login cookie and whether it is logged in, and the login cookie of a
  service cookie.  A clock of its own is all that tells a replica from the first server.
\<close>

type_synonym session_view = "string \<times> string \<times> string \<times> string \<times> int"

definition view :: "cinfo \<Rightarrow> session_view" where
  "view ci = (ci_ipaddr ci, ci_ipaddr_cur ci, ci_user ci, ci_realm ci, ci_state ci)"

type_synonym sessions = "(string \<Rightarrow> session_view option) \<times> (string \<Rightarrow> string option)"

definition sessions :: "config \<Rightarrow> daemon \<Rightarrow> sessions" where
  "sessions cfg w = (\<lambda>c. map_option view (login_of cfg w c), service_of cfg w)"

text \<open>What the words of a command do to it.\<close>

definition act :: "string list \<Rightarrow> sessions \<Rightarrow> sessions" where
  "act ws LS =
     (case LS of (L, S) \<Rightarrow>
        if ws ! 0 = ''LOGIN'' then (L(ws ! 1 \<mapsto> (ws ! 2, ws ! 2, ws ! 3, join (drop 4 ws), 1)), S)
        else if ws ! 0 = ''REGISTER'' then (L, S(ws ! 3 \<mapsto> ws ! 1))
        else (L(ws ! 1 := map_option (\<lambda>(i, j, u, r, s). (i, j, u, r, 0)) (L (ws ! 1))), S))"

text \<open>A server on which the command goes through, and what it answers then.\<close>

inductive goes_through :: "config \<Rightarrow> daemon \<Rightarrow> string list \<Rightarrow> bool" for cfg w where
  login: "path_of cfg c = Some p \<Longrightarrow> os_fs w p = None \<Longrightarrow> (fs = [] \<or> last fs \<noteq> ''kerberos'') \<Longrightarrow>
    cinfo_ok (fresh_login (''LOGIN'' # c # ip # u # r # fs) (tv_sec (os_now w))) \<Longrightarrow>
    goes_through cfg w (''LOGIN'' # c # ip # u # r # fs)"
| register: "login_of cfg w c = Some ci \<Longrightarrow> verdict cfg (tv_sec (os_now w)) ci = Live \<Longrightarrow> path_of cfg s = Some sp \<Longrightarrow>
    os_fs w sp = None \<Longrightarrow> goes_through cfg w [''REGISTER'', c, ip, s]"
| logout: "login_of cfg w c = Some ci \<Longrightarrow> ci_state ci \<noteq> 0 \<Longrightarrow> goes_through cfg w [''LOGOUT'', c, ip]"

definition success :: "string \<Rightarrow> string" where
  "success cmd =
     (if cmd = ''LOGIN'' then ''200 LOGIN successful: Cookie Stored.''
      else if cmd = ''REGISTER'' then ''220 REGISTER successful: Cookie Stored.''
      else ''210 LOGOUT successful: cookie no longer valid'')"

text \<open>What is passed on of it: of the factors of a LOGIN only the first.\<close>

definition passed_on :: "string list \<Rightarrow> string list" where
  "passed_on ws = (if ws ! 0 = ''LOGIN'' then take 5 ws else ws)"

definition serving :: "daemon \<Rightarrow> bool" where
  "serving w \<longleftrightarrow> os_faults w = [] \<and> d_auth_commands w \<and> tmp_free w \<and> (\<exists>al. d_al w = Some al \<and> al_key al = CGI)"

lemma find_auth:
  "find_command auth_commands ''LOGIN'' = Some f_login" "find_command auth_commands ''REGISTER'' = Some f_register"
  "find_command auth_commands ''LOGOUT'' = Some f_logout"
  by (simp_all add: auth_commands_def name_eval)

lemma do_command_words:
  assumes "list_all word_ok (cmd # ws)" and "d_auth_commands w" and "find_command auth_commands cmd = Some f"
    and "run_state (f cfg (cmd # ws)) w = (Ret 0, w')"
  shows "run_state (do_command cfg (join (cmd # ws))) w = (Ret True, w')"
proof -
  have "argcargv (join (cmd # ws)) = cmd # ws" using assms(1) by (simp add: argcargv_join list_all_iff)
  then show ?thesis using assms(2-4) by (simp add: do_command_def commands_def Let_def)
qed

lemma word_text: "word_ok c \<Longrightarrow> text_ok c"
  by (auto simp: word_ok_def text_ok_def white_def)

lemma pushed_words:
  "pushed cfg w ''LOGIN %s %s %s %s'' [FS a, FS b, FS c, FS d] =
     (if pushersn cfg \<and> \<not> d_replicated w then [join [''LOGIN'', a, b, c, d] @ crlf] else [])"
  "pushed cfg w ''REGISTER %s %s %s'' [FS a, FS b, FS c] =
     (if pushersn cfg \<and> \<not> d_replicated w then [join [''REGISTER'', a, b, c] @ crlf] else [])"
  "pushed cfg w ''LOGOUT %s %s'' [FS a, FS b] =
     (if pushersn cfg \<and> \<not> d_replicated w then [join [''LOGOUT'', a, b] @ crlf] else [])"
  unfolding pushed_def fmt_words by (rule refl)+

lemma command_acts:
  assumes "goes_through cfg w ws" and "serving w" and "list_all word_ok ws"
  shows "\<exists>w'. run_state (do_command cfg (join ws)) w = (Ret True, w') \<and> sessions cfg w' = act ws (sessions cfg w) \<and>
    d_out w' = d_out w @ [success (ws ! 0) @ crlf] \<and>
    d_push w' = d_push w @ (if pushersn cfg \<and> \<not> d_replicated w then [join (passed_on ws) @ crlf] else [])"
proof -
  obtain al where s: "os_faults w = []" "d_auth_commands w" "tmp_free w" "d_al w = Some al" "al_key al = CGI"
    using assms(2) by (auto simp: serving_def)
  from assms(1) show ?thesis
  proof cases
    case (login c p fs ip u r)
    let ?ws = "''LOGIN'' # c # ip # u # r # fs"
    have pl: "plain_login ?ws" using login(4) by (auto simp: plain_login_def)
    have at: "?ws ! 1 = c" "?ws ! 2 = ip" "?ws ! 3 = u" "?ws ! 4 = r" by (simp_all add: eval_nat_numeral)
    obtain w' where w': "run_state (f_login cfg ?ws) w = (Ret 0, w')"
      "login_of cfg w' = (login_of cfg w)(c \<mapsto> fresh_login ?ws (tv_sec (os_now w)))"
      "service_of cfg w' = service_of cfg w"
      "d_out w' = d_out w @ [fmt (''%d LOGIN successful: Cookie Stored.'' @ crlf) [FI 200]]"
      "d_push w' = d_push w @ pushed cfg w ''LOGIN %s %s %s %s'' [FS c, FS ip, FS u, FS r]"
      using login_effect [OF s(1,4,5,3) pl, of cfg p, unfolded at] login(2,3,5) by auto
    have "run_state (do_command cfg (join ws)) w = (Ret True, w')"
      unfolding login(1) by (rule do_command_words [OF assms(3) [unfolded login(1)] s(2) find_auth(1) w'(1)])
    moreover have "sessions cfg w' = act ws (sessions cfg w)"
      using w'(2,3) unfolding login(1) act_def by (simp add: sessions_def view_def fresh_login_def fun_eq_iff)
    moreover have "passed_on ws = [''LOGIN'', c, ip, u, r]" by (simp add: login(1) passed_on_def)
    ultimately show ?thesis using w'(4,5) unfolding pushed_words fmt_codes by (intro exI [of _ w']) (simp add: login(1) success_def)
  next
    case (register c ci s' sp ip)
    have "text_ok c" using assms(3) register(1) word_text by simp
    then obtain w' where w': "run_state (f_register cfg [''REGISTER'', c, ip, s']) w = (Ret 0, w')"
      "login_of cfg w' = (login_of cfg w)(c \<mapsto> touched (tv_sec (os_now w)) ci)"
      "service_of cfg w' = (service_of cfg w)(s' \<mapsto> c)"
      "d_out w' = d_out w @ [fmt (''%d REGISTER successful: Cookie Stored.'' @ crlf) [FI 220]]"
      "d_push w' = d_push w @ pushed cfg w ''REGISTER %s %s %s'' [FS c, FS ip, FS s']"
      using register_effect [OF s(1,4,5,3) register(2), of s' sp "''REGISTER''" ip] register(3-5) by auto
    have "view (touched t ci) = view ci" for t by (simp add: view_def touched_def)
    then have "sessions cfg w' = act ws (sessions cfg w)"
      using w'(2,3) register(2) unfolding register(1) act_def by (auto simp: sessions_def fun_eq_iff)
    moreover have "run_state (do_command cfg (join ws)) w = (Ret True, w')"
      unfolding register(1) by (rule do_command_words [OF assms(3) [unfolded register(1)] s(2) find_auth(2) w'(1)])
    moreover have "passed_on ws = ws" by (simp add: register(1) passed_on_def)
    ultimately show ?thesis using w'(4,5) unfolding pushed_words fmt_codes by (intro exI [of _ w']) (simp add: register(1) success_def)
  next
    case (logout c ci ip)
    obtain w' where w': "run_state (f_logout cfg [''LOGOUT'', c, ip]) w = (Ret 0, w')"
      "login_of cfg w' = (login_of cfg w)(c \<mapsto> revoked (tv_sec (os_now w)) ci)"
      "service_of cfg w' = service_of cfg w"
      "d_out w' = d_out w @ [fmt (''%d LOGOUT successful: cookie no longer valid'' @ crlf) [FI 210]]"
      "d_push w' = d_push w @ pushed cfg w ''LOGOUT %s %s'' [FS c, FS ip]"
      using logout_effect [OF s(1,4,5) logout(2,3), of "''LOGOUT''" ip] by auto
    then have "sessions cfg w' = act ws (sessions cfg w)"
      using logout(2) unfolding logout(1) act_def by (auto simp: sessions_def fun_eq_iff view_def revoked_def)
    moreover have "run_state (do_command cfg (join ws)) w = (Ret True, w')"
      unfolding logout(1) by (rule do_command_words [OF assms(3) [unfolded logout(1)] s(2) find_auth(3) w'(1)])
    moreover have "passed_on ws = ws" by (simp add: logout(1) passed_on_def)
    ultimately show ?thesis using w'(4,5) unfolding pushed_words fmt_codes by (intro exI [of _ w']) (simp add: logout(1) success_def)
  qed
qed

lemma act_same: "length ws \<le> 5 \<Longrightarrow> act (passed_on ws) = act ws"
  by (simp add: passed_on_def)

section \<open>The child says it\<close>

text \<open>The command of the child for what is passed on is the same words.\<close>

lemma lowercase: "strcaseeq ''LOGIN'' ''login''" "strcaseeq ''REGISTER'' ''register''" "strcaseeq ''LOGOUT'' ''logout''"
  by (simp_all add: name_eval char_of_def bit_iff_odd)

lemma push_command_words:
  assumes "goes_through cfg w ws"
  shows "\<exists>f args. push_command (passed_on ws) = Some (f, args, False) \<and> fmt (f @ crlf) args = join (passed_on ws) @ crlf"
  using assms
proof cases
  case (login c p fs ip u r)
  then have p: "passed_on ws = [''LOGIN'', c, ip, u, r]" by (simp add: passed_on_def)
  have "push_command [''LOGIN'', c, ip, u, r] = Some (''LOGIN %s %s %s %s'', [FS c, FS ip, FS u, FS r], False)"
    by (simp add: push_command_def lowercase eval_nat_numeral)
  then show ?thesis using fmt_words(1) unfolding p by blast
next
  case (register c ci s sp ip)
  then have p: "passed_on ws = [''REGISTER'', c, ip, s]" by (simp add: passed_on_def)
  have "push_command [''REGISTER'', c, ip, s] = Some (''REGISTER %s %s %s'', [FS c, FS ip, FS s], False)"
    by (simp add: push_command_def lowercase eval_nat_numeral)
  then show ?thesis using fmt_words(2) unfolding p by blast
next
  case (logout c ci ip)
  then have p: "passed_on ws = [''LOGOUT'', c, ip]" by (simp add: passed_on_def)
  have "push_command [''LOGOUT'', c, ip] = Some (''LOGOUT %s %s'', [FS c, FS ip], False)"
    by (simp add: push_command_def lowercase eval_nat_numeral)
  then show ?thesis using fmt_words(3) unfolding p by blast
qed

lemma passed_on_words: "list_all P ws \<Longrightarrow> list_all P (passed_on ws)"
  by (auto simp: passed_on_def list_all_iff dest: in_set_takeD)

definition line_words :: "string list \<Rightarrow> bool" where
  "line_words ws \<longleftrightarrow> list_all (\<lambda>w. word_ok w \<and> CR \<notin> set w) ws"

lemma word_plain: "word_ok w \<Longrightarrow> CR \<notin> set w \<Longrightarrow> plain w"
  by (auto simp: plain_def word_ok_def white_def cstr_def)

lemma plain_joined: "plain w \<Longrightarrow> plain v \<Longrightarrow> plain (w @ CHR '' '' # v)"
proof -
  have "CHR '' '' \<noteq> CR" "CHR '' '' \<noteq> LF" "CHR '' '' \<noteq> NUL" by (simp_all add: ctrl_defs)
  then show "plain w \<Longrightarrow> plain v \<Longrightarrow> plain (w @ CHR '' '' # v)" by (auto simp: plain_def)
qed

lemma join_plain: "line_words ws \<Longrightarrow> plain (join ws)"
proof (induction ws rule: join.induct)
  case 1
  show ?case by (simp add: plain_def)
qed (simp_all add: line_words_def word_plain plain_joined)

lemma child_says:
  assumes "goes_through cfg w ws" and "line_words ws"
    and "at_line (p_csn x) (join (passed_on ws) @ crlf @ s)" and "reads (p_conn x) [r]" and "is_class CHR ''2'' r"
  shows "\<exists>x'. run_state (pusher_turn h) x = (Ret (), x') \<and>
    c_sent (p_conn x') = c_sent (p_conn x) @ [join (passed_on ws) @ crlf] \<and> at_line (p_csn x') s"
proof -
  let ?l = "join (passed_on ws)"
  have ok: "line_words (passed_on ws)" using assms(2) unfolding line_words_def by (rule passed_on_words)
  obtain f args where c: "push_command (passed_on ws) = Some (f, args, False)" "fmt (f @ crlf) args = ?l @ crlf"
    using push_command_words [OF assms(1)] by blast
  have av: "argcargv ?l = passed_on ws" using ok by (intro argcargv_join) (auto simp: line_words_def list_all_iff)
  obtain sn where g: "snet_getline (p_csn x) = (Some ?l, sn)" "at_line sn s"
    using at_line_read [OF assms(3) join_plain [OF ok]] by blast
  have nf: "c_faults (p_conn x) = []" using assms(4) by (simp add: reads_def)
  let ?p = "(p_conn x)\<lparr>c_sent := c_sent (p_conn x) @ [?l @ crlf]\<rparr>"
  have w: "run_state (c_write f args) (p_conn x) = (True, ?p)" using nf by (simp add: c_write_def c(2))
  have "reads ?p [r]" using assms(4) by (simp add: reads_def)
  then obtain q where q: "run_state c_reply ?p = (Some r, q)" "c_sent q = c_sent (p_conn x) @ [?l @ crlf]"
    using run_c_reply [of ?p r "[]"] by auto
  have "run_state (pusher_turn h) x = (Ret (), x\<lparr>p_csn := sn, p_conn := q\<rparr>)"
    using g(1) w q(1) assms(5) by (simp add: pusher_turn_def p_getline_def talk_def av c(1) push_done_def)
  then show ?thesis using g(2) q(2) by simp
qed

lemma success_class: "is_class CHR ''2'' (success cmd)"
  by (simp add: success_def is_class_def)

text \<open>
  C21.  A replica keeps up with a LOGIN under a new cookie and without a ticket, a REGISTER and a LOGOUT, through all that is between:
  a command that goes through at the first server is written to the pusher; its parent reads that line, whole, from its pipe, and
  puts it into the pipe of every child that has room; the child, at that line, says the same words to its replica, takes the reply
  for a success and is ready for the next line; and the replica, if the command goes through there, gives that reply and does
  to its sessions (the user, the addresses, the factors and the state of every login, and the login of every service cookie; not the
  times and tickets) what the first server did to its own.  Of a LOGIN with several factors only the first is passed on, and the
  replica's login then has that one; in all other cases the two databases agree again.
\<close>

theorem replica_keeps_up:
  assumes "serving w" and "goes_through cfg w ws" and "pushersn cfg" and "\<not> d_replicated w" and "line_words ws"
    and "at_line pp (join (passed_on ws) @ crlf @ s)"
    and "0 < cl_pid c" and "cl_psn c = Some ls"
    and "at_line (p_csn x) (join (passed_on ws) @ crlf @ s')" and "reads (p_conn x) [success (ws ! 0)]"
    and "serving v" and "goes_through cfg' v (passed_on ws)" and "sessions cfg w = sessions cfg' v"
  shows "\<exists>w' pp' x' v'.
    run_state (do_command cfg (join ws)) w = (Ret True, w') \<and> sessions cfg w' = act ws (sessions cfg w) \<and>
    d_push w' = d_push w @ [join (passed_on ws) @ crlf] \<and>
    snet_getline pp = (Some (join (passed_on ws)), pp') \<and> at_line pp' s \<and>
    cl_psn (forward (join (passed_on ws)) t True c) = Some (ls @ [join (passed_on ws) @ crlf]) \<and>
    run_state (pusher_turn h) x = (Ret (), x') \<and>
    c_sent (p_conn x') = c_sent (p_conn x) @ [join (passed_on ws) @ crlf] \<and> at_line (p_csn x') s' \<and>
    run_state (do_command cfg' (join (passed_on ws))) v = (Ret True, v') \<and> d_out v' = d_out v @ [success (ws ! 0) @ crlf] \<and>
    sessions cfg' v' = act (passed_on ws) (sessions cfg w) \<and> (length ws \<le> 5 \<longrightarrow> sessions cfg' v' = sessions cfg w')"
proof -
  have ok: "line_words (passed_on ws)" using assms(5) unfolding line_words_def by (rule passed_on_words)
  then have words: "list_all word_ok ws" "list_all word_ok (passed_on ws)"
    using assms(5) by (auto simp: line_words_def list_all_iff)
  have hd: "passed_on ws ! 0 = ws ! 0" by (simp add: passed_on_def)
  obtain w' where w': "run_state (do_command cfg (join ws)) w = (Ret True, w')" "sessions cfg w' = act ws (sessions cfg w)"
    "d_push w' = d_push w @ [join (passed_on ws) @ crlf]"
    using command_acts [OF assms(2,1) words(1)] assms(3,4) by auto
  obtain v' where v': "run_state (do_command cfg' (join (passed_on ws))) v = (Ret True, v')"
    "sessions cfg' v' = act (passed_on ws) (sessions cfg w)" "d_out v' = d_out v @ [success (ws ! 0) @ crlf]"
    using command_acts [OF assms(12,11) words(2)] assms(13) hd by auto
  obtain pp' where pp: "snet_getline pp = (Some (join (passed_on ws)), pp')" "at_line pp' s"
    using at_line_read [OF assms(6) join_plain [OF ok]] by blast
  obtain x' where x: "run_state (pusher_turn h) x = (Ret (), x')"
    "c_sent (p_conn x') = c_sent (p_conn x) @ [join (passed_on ws) @ crlf]" "at_line (p_csn x') s'"
    using child_says [OF assms(2,5,9,10) success_class] by blast
  have "cl_psn (forward (join (passed_on ws)) t True c) = Some (ls @ [join (passed_on ws) @ crlf])"
    using assms(7,8) by (simp add: forward_def fmt_line [simplified])
  moreover have "length ws \<le> 5 \<longrightarrow> sessions cfg' v' = sessions cfg w'"
    using v'(2) w'(2) act_same by simp
  ultimately show ?thesis
    using w' v' pp x by (intro exI [of _ w'] exI [of _ pp'] exI [of _ x'] exI [of _ v'] conjI) assumption+
qed

text \<open>bob logs out at the first server and so at the replica.\<close>

definition sample_pipe :: "string \<Rightarrow> SNET" where
  "sample_pipe s = snet_attach [Bytes s] 0"

definition sample_pusher :: pusher where
  "sample_pusher =
     \<lparr>os_fs = (\<lambda>_. None), os_now = \<lparr>tv_sec = 1000, tv_usec = 0\<rparr>, os_pid = 7, os_faults = [], os_pool = [],
      p_csn = sample_pipe (join [''LOGOUT'', ''cosign=ab'', ''10.0.0.1''] @ crlf),
      p_conn = (sample_peer [])\<lparr>c_sn := snet_attach (reading [success ''LOGOUT'']) 0\<rparr>\<rparr>"

lemma sample_serving: "serving sample_db"
proof -
  have "tmp_free sample_db"
    using sample_path [THEN tmp_name_other, of sample_db] by (simp add: tmp_free_def sample_files)
  then show ?thesis by (simp add: serving_def) (simp add: sample_db_def sample_daemon_def)
qed

lemma replica_keeps_up_witness:
  "\<exists>w' x' v'. run_state (do_command sample_config (join [''LOGOUT'', ''cosign=ab'', ''10.0.0.1''])) sample_db = (Ret True, w') \<and>
     run_state (pusher_turn 0) sample_pusher = (Ret (), x') \<and>
     c_sent (p_conn x') = [join [''LOGOUT'', ''cosign=ab'', ''10.0.0.1''] @ crlf] \<and>
     run_state (do_command sample_config (join [''LOGOUT'', ''cosign=ab'', ''10.0.0.1''])) sample_db = (Ret True, v') \<and>
     sessions sample_config v' = sessions sample_config w'"
proof -
  let ?ws = "[''LOGOUT'', ''cosign=ab'', ''10.0.0.1'']" and ?r = sample_rate
  let ?c = "\<lparr>cl_pid = 8, cl_psn = Some [], cl_pushpass = ?r, cl_pushfail = ?r\<rparr>"
  have g: "goes_through sample_config sample_db ?ws"
    using sample_login by (rule goes_through.logout) (simp add: sample_cinfo_def)
  have p: "pushersn sample_config" "\<not> d_replicated sample_db" by (simp_all add: sample_config_def sample_db_def sample_daemon_def)
  have words: "line_words ?ws" by (simp add: line_words_def word_ok_def white_def ctrl_defs)
  have on: "passed_on ?ws = ?ws" by (simp add: passed_on_def)
  have l: "at_line (sample_pipe (join ?ws @ crlf)) (join ?ws @ crlf @ [])"
    by (simp add: at_line_def sample_pipe_def snet_attach_def sn_ready_def stream_def)
  have r: "reads (p_conn sample_pusher) [success (?ws ! 0)]"
    by (auto simp: reads_def sample_pusher_def sample_peer_def snet_attach_def status_line_def success_def plain_def ctrl_defs
        isdigit_def code_of_def SNET_BUFLEN_def reading_def)
  have x: "at_line (p_csn sample_pusher) (join ?ws @ crlf @ [])" "c_sent (p_conn sample_pusher) = []"
    using l by (simp_all add: sample_pusher_def sample_peer_def)
  show ?thesis
    using replica_keeps_up [OF sample_serving g p words, unfolded on, OF l _ _ x(1) r sample_serving g refl, of ?c "[]" t 0 for t] x(2)
    by fastforce
qed

section \<open>The monster's times\<close>

lemma show_int_word: "word_ok (show_int i)"
proof -
  have "word_ok (show_nat n)" for n
    using show_nat_digits [of n] by (auto simp: word_ok_def white_def isdigit_def code_of_def ctrl_defs)
  then show ?thesis by (auto simp: show_int_def word_ok_def white_def ctrl_defs)
qed

lemma fmt_time:
  assumes "- (2 ^ 31) < t" and "t < 2 ^ 31" and "- (2 ^ 31) < s" and "s < 2 ^ 31"
  shows "fmt (''%s %d %d'' @ crlf) [FS n, FI t, FI s] = join [n, show_int t, show_int s] @ crlf"
proof -
  have "conv_d 0 False x = Some (show_int x)" if "- (2 ^ 31) < x" "x < 2 ^ 31" for x
    using that to_int_id [of x] by (simp add: conv_d_def width_of_def to_int_def Let_def)
  with assms show ?thesis by (simp add: fmt_def snet_conv_def ctrl_defs crlf_def)
qed

lemma time_entry_effect:
  assumes "os_faults w = []" and "login_of cfg w n = Some ci"
    and "- (2 ^ 31) < t" and "t < 2 ^ 31" and "- (2 ^ 31) < s" and "s < 2 ^ 31"
  shows "\<exists>w'. run_state (time_entry cfg [n, show_int t, show_int s]) w = ((), w') \<and> service_of cfg w' = service_of cfg w \<and>
    login_of cfg w' = (login_of cfg w)(n \<mapsto>
      if s = 0 \<and> ci_state ci = 0 then revoked (tv_sec (os_now w)) ci else touched (max t (ci_itime ci)) ci)"
proof -
  obtain p f where p: "path_of cfg n = Some p" "os_fs w p = Some f" "parse_cookie (Some f) = Ret (0, ci)"
    "parse_cookie (os_fs w p) = Ret (0, ci)" using assms(2) by (rule login_ofD)
  note st = parse_cookie_state [OF p(3)]
  have num: "atoi (show_int t) = t" "atoi (show_int s) = s" using assms by (simp_all add: atoi_show_int)
  let ?f = "f\<lparr>f_mtime := max t (f_mtime f)\<rparr>"
  let ?g = "if s = 0 \<and> ci_state ci = 0 then f\<lparr>f_mode := S_ISGID OR S_IRUSR, f_mtime := tv_sec (os_now w)\<rparr> else ?f"
  let ?w = "w\<lparr>os_fs := (os_fs w)(p \<mapsto> ?g)\<rparr>"
  have "run_state (time_entry cfg [n, show_int t, show_int s]) w = ((), ?w)"
    using assms(1) p(1,2) st
    by (auto simp: time_entry_def num os_simps max_def fun_upd_idem split: if_splits intro!: daemon.equality)
  moreover have "service_of cfg ?w = service_of cfg w" by (rule service_of_meta [OF p(2), where f' = ?g]) simp_all
  moreover have "login_of cfg ?w = (login_of cfg w)(n \<mapsto>
      if s = 0 \<and> ci_state ci = 0 then revoked (tv_sec (os_now w)) ci else touched (max t (ci_itime ci)) ci)"
    using login_of_revoked [OF p(1-3), of ?w] login_of_touched [OF p(1-3), of ?w] st by simp
  ultimately show ?thesis by blast
qed

text \<open>
  The time the monster sends for a cookie it keeps is the time the replica's TIME reads: the replica's cookie gets that
  time, unless its own is later, and nothing else changes; but where both servers have the cookie logged out its time becomes the
  replica's present, whatever time was sent, so that two monsters keep a logged out cookie from ever growing old.
\<close>

lemma time_at_replica:
  assumes "cl_sn c = Some p" and "c_faults p = []" and "cl_last_time c < t"
    and "- (2 ^ 31) < t" and "t < 2 ^ 31" and "s = 0 \<or> s = 1" and "word_ok n"
    and "os_faults w = []" and "login_of cfg w n = Some ci"
  shows "\<exists>line p' w'. cl_sn (fst (send_time n t s c)) = Some p' \<and> c_sent p' = c_sent p @ [line @ crlf] \<and>
    run_state (time_entry cfg (argcargv line)) w = ((), w') \<and> service_of cfg w' = service_of cfg w \<and>
    login_of cfg w' = (login_of cfg w)(n \<mapsto>
      if s = 0 \<and> ci_state ci = 0 then revoked (tv_sec (os_now w)) ci else touched (max t (ci_itime ci)) ci)"
proof -
  have s: "- (2 ^ 31) < s" "s < 2 ^ 31" using assms(6) by auto
  have w: "argcargv (join [n, show_int t, show_int s]) = [n, show_int t, show_int s]"
    using assms(7) show_int_word by (simp add: argcargv_join del: join.simps)
  have "cl_sn (fst (send_time n t s c)) = Some (p\<lparr>c_sent := c_sent p @ [join [n, show_int t, show_int s] @ crlf]\<rparr>)"
    using assms(1-3) unfolding fmt_time [OF assms(4,5) s, symmetric] by (simp add: send_time_def c_write_def)
  moreover obtain w' where "run_state (time_entry cfg (argcargv (join [n, show_int t, show_int s]))) w = ((), w')"
    "service_of cfg w' = service_of cfg w"
    "login_of cfg w' = (login_of cfg w)(n \<mapsto>
      if s = 0 \<and> ci_state ci = 0 then revoked (tv_sec (os_now w)) ci else touched (max t (ci_itime ci)) ci)"
    using time_entry_effect [OF assms(8,9,4,5) s] unfolding w by blast
  moreover have "c_sent (p\<lparr>c_sent := c_sent p @ [l]\<rparr>) = c_sent p @ [l]" for l by simp
  ultimately show ?thesis by blast
qed

lemma time_at_replica_witness:
  "\<exists>w'. login_of sample_config (w' :: daemon) ''cosign=ab'' = Some (touched 950 sample_cinfo)"
proof -
  let ?c = "\<lparr>cl_sn = Some (sample_peer []), cl_last_time = 0\<rparr>"
  have ci: "ci_state sample_cinfo = 1" "ci_itime sample_cinfo = 900" by (simp_all add: sample_cinfo_def)
  have p: "c_faults (sample_peer []) = []" by (simp add: sample_peer_def)
  have n: "word_ok ''cosign=ab''" by (simp add: word_ok_def white_def ctrl_defs)
  obtain w' :: daemon where "login_of sample_config w' = (login_of sample_config sample_db)(''cosign=ab'' \<mapsto> touched (max 950 900) sample_cinfo)"
    using time_at_replica [of ?c "sample_peer []" 950 1, OF _ p _ _ _ _ n _ sample_login] by (auto simp: ci)
  then show ?thesis by (intro exI [of _ w']) simp
qed

end
