(* ===== verification/Divergences.thy ===== *)
theory Divergences
  imports Replica
begin

text \<open>
  Where the code of the daemon, the pusher and the monster does not do what its comments, its messages or its callers expect.  Each lemma runs the
  definitions of the handlers on the state in question.
\<close>

text \<open>\<open>f_check\<close> tests \<open>ac < 2 && ac > 3\<close>: CHECK without a cookie follows the null pointer \<open>av[ 1 ]\<close>.\<close>

lemma check_without_cookie:
  "d_al w = Some al \<Longrightarrow> al_key al \<in> {CGI, SERVICE} \<Longrightarrow> fst (run_state (f_check cfg [cmd]) w) = Undefined"
  by (auto simp: f_check_def os_simps)

text \<open>
  \<open>f_time\<close> is to pass on that a cookie was logged out at another server; a cookie that is logged in here
  stays so.
\<close>

lemma time_ignores_logout:
  assumes "os_faults w = []" and "path_of cfg c = Some p" and "os_fs w p = Some f" and "f_mode f AND S_ISGID = 0"
  shows "\<exists>f'. os_fs (snd (run_state (time_entry cfg [c, t, ''0'']) w)) p = Some f' \<and> f_mode f' AND S_ISGID = 0"
  using assms by (simp add: time_entry_def os_simps)

text \<open>STARTTLS leaves the read buffer alone: what came in the clear is read as if it had come encrypted.\<close>

lemma starttls_keeps_plaintext:
  assumes "run_state starttls w = ((1, peer), w')"
  shows "sn_rdata (d_sn w') = sn_rdata (d_sn w) \<and> (hs_rc (hd (d_handshakes w)) = 1 \<longrightarrow> sn_tls (d_sn w'))"
  using assms by (auto simp: starttls_def split: list.splits if_splits)

text \<open>The end of the input clears the TLS flag.\<close>

lemma eof_clears_tls:
  "sn_net sn = [] \<Longrightarrow> snet_readread sn n = (Some [], sn\<lparr>sn_eof := True, sn_tls := False\<rparr>)"
  by (simp add: snet_readread_def)

text \<open>\<open>f_login\<close> tells the other servers the first factor of a LOGIN only.\<close>

lemma login_pushes_one_factor:
  "\<exists>w'. run_state (f_login sample_config sample_av) empty_db = (Ret 0, w') \<and>
     d_push w' = [fmt (''LOGIN %s %s %s %s'' @ crlf) [FS ''cosign=xy'', FS ''10.0.0.2'', FS ''bob'', FS ''umich'']] \<and>
     map_option ci_realm (login_of sample_config w' ''cosign=xy'') = Some ''umich mtoken''"
proof -
  have al: "al_key weblogin = CGI" by (simp add: weblogin_def)
  obtain w' where "run_state (f_login sample_config sample_av) empty_db = (Ret 0, w')"
    "login_of sample_config w' = (login_of sample_config empty_db)(sample_av ! 1 \<mapsto> fresh_login sample_av 1000)"
    "d_push w' = d_push empty_db @ pushed sample_config empty_db ''LOGIN %s %s %s %s''
       [FS (sample_av ! 1), FS (sample_av ! 2), FS (sample_av ! 3), FS (sample_av ! 4)]"
    using login_effect [of empty_db weblogin sample_av sample_config "''cosign=xy''"] al sample_av_ok by auto
  then show ?thesis
    by (auto simp: pushed_def sample_config_def empty_db_def sample_daemon_def sample_av_def fresh_login_def)
qed

text \<open>\<open>snet_read\<close> fails with -1, which the unsigned \<open>rc\<close> of the ticket transfer takes for a count.\<close>

lemma ticket_after_error:
  assumes "sn_net (d_sn w) = Broken # net" and "sn_rdata (d_sn w) = []" and "0 < len"
  shows "fst (run_state (receive_ticket cfg path len) w) = Undefined"
  using assms by (subst receive_ticket.simps) (simp add: sread_def snet_read_def snet_hasdata_def snet_readread_def)

text \<open>
  \<open>do_dir\<close> sends a time whatever \<open>eat_cookie\<close> made of the cookie: for one that is gone, \<open>itime\<close> and \<open>state\<close> are still
  those of the cookie before it in the directory.
\<close>

lemma gone_cookie_sends_stale_time:
  assumes "os_faults w = []" and "os_fs w path = None"
  shows "run_state (login_entry cfg t name path (itime, state)) w =
    (Ret (itime, state), snd (run_state (send_times name itime state) (w\<lparr>login_total := login_total w + 1\<rparr>)))"
proof -
  have "parse_cookie None = Ret (1, cinfo_zero)" by (simp add: parse_cookie_def)
  then show ?thesis
    using assms by (simp add: login_entry_def os_simps run_eat_cookie [where rc = 1] send_times_def Let_def)
qed

text \<open>
  \<open>read_cookie\<close> takes a read error for the end of the file: the fields that were not read are empty, the time of the login
  then reads as 0, and the monster deletes a cookie that is in use.
\<close>

lemma read_error_deletes_cookie:
  assumes "os_faults w = [False, False, False, False, True]" and "os_fs w path = Some f"
    and "f_data f = cookie_text ci" and "f_mode f AND S_ISGID = 0"
    and "t - f_mtime f \<le> idle_cache cfg" and "hard_timeout cfg < t"
  shows "\<exists>w'. run_state (eat_cookie cfg path t st) w = (Ret (0, st), w') \<and> os_fs w' path = None"
proof -
  have 1: "fgets_line 3 (mkline ''v2'' @ s) = (mkline ''v2'', s)" "fgets_line 3 (mkline ''s1'' @ s) = (mkline ''s1'', s)" for s
    by (simp_all add: mkline_def numeral_3_eq_3 ctrl_defs)
  have 2: "read_version (mkline ''v2'') z = Ret (True, z\<lparr>ci_version := 2\<rparr>)" for z
    using chop_line_full [of "''v2''"] by (simp add: read_version_def mkline_def atoi_2 ctrl_defs)
  have ne: "mkline s \<noteq> []" for s by (simp add: mkline_def)
  have fault_cons: "run_state fault (v\<lparr>os_faults := b # bs\<rparr>) = (b, v\<lparr>os_faults := bs\<rparr>)" for v :: monster and b bs
    by (simp add: fault_def)
  have "atoi [] = 0" by (simp add: atoi_def strtol_def)
  let ?ci = "cinfo_zero\<lparr>ci_itime := f_mtime f, ci_version := 2, ci_state := 1\<rparr>"
  have fgets: "run_state (fgets n s) (v\<lparr>os_faults := False # bs\<rparr>) = (Some (fgets_line (n - 1) s), v\<lparr>os_faults := bs\<rparr>)"
    if "s \<noteq> []" for v :: monster and bs n s
    using that by (simp add: fgets_def fault_cons)
  have "run_state (os_open path) w = (Ok f, w\<lparr>os_faults := [False, False, False, True]\<rparr>)"
    using assms(1,2) by (simp add: os_open_def run_look fault_def)
  moreover obtain r where r: "f_data f = mkline ''v2'' @ mkline ''s1'' @ r" using assms(3) by (simp add: cookie_text_def)
  moreover have "run_state (read_fields r c) (w\<lparr>os_faults := [True]\<rparr>) = (Ret (0, c), w\<lparr>os_faults := []\<rparr>)" for c
    by (subst read_fields.simps) (simp add: fault_cons run_fclose)
  ultimately have "run_state (read_cookie path) w = (Ret (0, ?ci), w\<lparr>os_faults := []\<rparr>)"
    using assms(4) by (simp add: read_cookie_def fault_cons fgets 1 2 ne Let_def)
  then show ?thesis
    using assms(5,6) \<open>atoi [] = 0\<close> by (simp add: eat_cookie_def os_simps cinfo_zero_def Let_def)
qed

text \<open>
  Where the child cannot read the cookie after the replica asked for its ticket, it goes on to the next command without
  sending a length: the replica reads that command as the length.
\<close>

lemma ticket_left_out:
  assumes "os_faults w = []" and "mkcookiepath None h (av ! 1) MAXPATHLEN = Some path" and "os_fs w path = None"
  shows "run_state (send_ticket h av) w = (Ret (), w)"
  using assms by (simp add: send_ticket_def os_simps parse_cookie_def)

end
