(* ===== verification/Snet_write.thy ===== *)
theory Snet_write
  imports Snet Rate
begin

text \<open>
  \<open>libsnet/snet.c\<close>, the writing side: \<open>snet_select\<close>, which counts down the time that is left, and \<open>snet_write\<close>, which sends a
  buffer in as many pieces as the connection takes and gives up when the time is over.  What the calls of the system answer is in
  the state: one entry of \<open>w_selects\<close> for every \<open>select\<close>, one of \<open>w_writes\<close> for every \<open>write\<close> or \<open>SSL_write\<close>, and in
  \<open>w_faults\<close> whether an \<open>fcntl\<close> fails.  Where \<open>w_selects\<close> is at its end, the connection stays as it is until the time is over; where
  \<open>w_writes\<close> is, it takes everything.  SASL is not compiled in.
\<close>

section \<open>State\<close>

datatype readiness = Sel_ready | Sel_idle | Sel_failed

text \<open>A call of \<open>select\<close>: the clock before and after it, its answer, and the time that Linux leaves in \<open>tv\<close>.\<close>

record select_call =
  sc_begin :: "timeval option"
  sc_end :: "timeval option"
  sc_answer :: readiness
  sc_left :: timeval

text \<open>\<open>Again\<close> is \<open>EAGAIN\<close> of \<open>write\<close>, and \<open>SSL_ERROR_WANT_WRITE\<close>; \<open>Want_read\<close> is \<open>SSL_ERROR_WANT_READ\<close>.\<close>

datatype write_call = Sent nat | Again | Want_read | Write_failed

record writing =
  w_tls :: bool
  w_read_timeout :: "timeval option"
  w_write_timeout :: "timeval option"
  w_buflen :: nat
  w_partial :: bool
  w_nonblock :: bool
  w_errno :: errno
  w_sent :: string
  w_selects :: "select_call list"
  w_writes :: "write_call list"
  w_faults :: "bool list"

text \<open>\<open>snet_timeout( sn, flag, tv )\<close>: \<open>sn_flag\<close> says which of the two are set.\<close>

definition snet_timeout :: "bool \<Rightarrow> bool \<Rightarrow> timeval \<Rightarrow> writing \<Rightarrow> writing" where
  "snet_timeout rd wr tv w =
     (let w = (if rd then w\<lparr>w_read_timeout := Some tv\<rparr> else w)
      in if wr then w\<lparr>w_write_timeout := Some tv\<rparr> else w)"

definition w_fault :: "writing \<Rightarrow> bool \<times> writing" where
  "w_fault w = (case w_faults w of [] \<Rightarrow> (False, w) | b # bs \<Rightarrow> (b, w\<lparr>w_faults := bs\<rparr>))"

section \<open>\<open>snet_select\<close>\<close>

definition tv_zero :: timeval where "tv_zero = \<lparr>tv_sec = 0, tv_usec = 0\<rparr>"

text \<open>What is left of \<open>tv\<close> after the time from \<open>b\<close> to \<open>e\<close>.\<close>

definition tv_left :: "timeval \<Rightarrow> timeval \<Rightarrow> timeval \<Rightarrow> timeval" where
  "tv_left tv b e =
     (let (es, eu) = (if tv_usec e < tv_usec b then (tv_sec e - 1, tv_usec e + 1000000) else (tv_sec e, tv_usec e));
          u = tv_usec tv - (eu - tv_usec b);
          (s, u) = (if u < 0 then (tv_sec tv - 1, u + 1000000) else (tv_sec tv, u));
          s = s - (es - tv_sec b)
      in if s < 0 then tv_zero else \<lparr>tv_sec = s, tv_usec = u\<rparr>)"

text \<open>The answer, -1 as \<open>Sel_failed\<close>, and \<open>tv\<close> afterwards.  On Linux the system itself counts \<open>tv\<close> down.\<close>

definition snet_select :: "bool \<Rightarrow> timeval \<Rightarrow> writing \<Rightarrow> (readiness \<times> timeval) \<times> writing" where
  "snet_select linux tv w =
     (case w_selects w of
        [] \<Rightarrow> ((Sel_idle, tv_zero), w)
      | c # cs \<Rightarrow>
          let w = w\<lparr>w_selects := cs\<rparr>
          in if linux then ((sc_answer c, sc_left c), w)
             else case (sc_begin c, sc_end c) of
                 (Some b, Some e) \<Rightarrow> ((sc_answer c, tv_left tv b e), w)
               | _ \<Rightarrow> ((Sel_failed, tv), w))"

lemma snet_select_takes_call:
  "snet_select linux tv w = ((a, tv'), w') \<Longrightarrow> a \<noteq> Sel_idle \<Longrightarrow> length (w_selects w') < length (w_selects w)"
  by (auto simp: snet_select_def Let_def split: list.splits option.splits if_splits)

lemma snet_select_frame:
  "snet_select linux tv w = ((a, tv'), w') \<Longrightarrow> \<exists>cs. w' = w\<lparr>w_selects := cs\<rparr> \<and> length cs \<le> length (w_selects w)"
  by (auto simp: snet_select_def Let_def split: list.splits option.splits if_splits intro: exI [of _ "[]"])

section \<open>\<open>snet_write\<close>\<close>

text \<open>
  The answer to \<open>write\<close> or \<open>SSL_write\<close> of the buffer, and how much of it was taken.  Without \<open>SSL_MODE_ENABLE_PARTIAL_WRITE\<close> an
  \<open>SSL_write\<close> that succeeds has taken everything, and it succeeds only with a positive number.
\<close>

definition sys_write :: "string \<Rightarrow> writing \<Rightarrow> write_call \<times> writing" where
  "sys_write buf w =
     (let (c, w) = (case w_writes w of [] \<Rightarrow> (Sent (length buf), w) | c # cs \<Rightarrow> (c, w\<lparr>w_writes := cs\<rparr>))
      in case c of
           Sent n \<Rightarrow>
             if w_tls w \<and> n = 0 then (Write_failed, w)
             else let n = (if w_tls w \<and> \<not> w_partial w then length buf else min n (length buf))
                  in (Sent n, w\<lparr>w_sent := w_sent w @ take n buf\<rparr>)
         | _ \<Rightarrow> (c, w))"

lemma sys_write_frame:
  "sys_write buf w = (c, w') \<Longrightarrow> \<exists>s ws. w' = w\<lparr>w_sent := s, w_writes := ws\<rparr>"
  by (auto simp: sys_write_def Let_def split: list.splits write_call.splits if_splits)
    (metis writing.surjective writing.update_convs(8,10))+

lemma sys_write_selects: "sys_write buf w = (c, w') \<Longrightarrow> w_selects w' = w_selects w"
  using sys_write_frame by fastforce

text \<open>One turn of the loop: the bytes that were taken, \<open>None\<close> where the loop ends with -1, and the time that is left.\<close>

definition write_turn :: "bool \<Rightarrow> string \<Rightarrow> timeval \<Rightarrow> writing \<Rightarrow> (nat option \<times> timeval) \<times> writing" where
  "write_turn linux buf tv w =
     (case snet_select linux tv w of
        ((Sel_failed, tv), w) \<Rightarrow> ((None, tv), w\<lparr>w_errno := EOTHER\<rparr>)
      | ((Sel_idle, tv), w) \<Rightarrow> ((None, tv), w\<lparr>w_errno := ETIMEDOUT\<rparr>)
      | ((Sel_ready, tv), w) \<Rightarrow>
          (case sys_write buf (if w_tls w then w\<lparr>w_partial := True\<rparr> else w) of
             (Sent n, w) \<Rightarrow> ((Some n, tv), w)
           | (Again, w) \<Rightarrow> ((Some 0, tv), w)
           | (Want_read, w) \<Rightarrow>
               if \<not> w_tls w then ((None, tv), w\<lparr>w_errno := EOTHER\<rparr>)
               else (case snet_select linux tv w of
                   ((Sel_failed, tv), w) \<Rightarrow> ((None, tv), w\<lparr>w_errno := EOTHER\<rparr>)
                 | ((Sel_idle, tv), w) \<Rightarrow> ((None, tv), w\<lparr>w_errno := ETIMEDOUT\<rparr>)
                 | ((Sel_ready, tv), w) \<Rightarrow> ((Some 0, tv), w))
           | (Write_failed, w) \<Rightarrow> ((None, tv), w\<lparr>w_errno := EOTHER\<rparr>)))"

lemma write_turn_takes_call:
  assumes "write_turn linux buf tv w = ((Some n, tv'), w')"
  shows "length (w_selects w') < length (w_selects w)"
proof -
  obtain t w1 where s: "snet_select linux tv w = ((Sel_ready, t), w1)"
    using assms by (auto simp: write_turn_def split: prod.splits readiness.splits)
  have "length (w_selects w') \<le> length (w_selects w1)"
    using assms s snet_select_frame [of linux]
    by (auto simp: write_turn_def split: prod.splits readiness.splits write_call.splits if_splits dest!: sys_write_selects) fastforce+
  then show ?thesis using snet_select_takes_call [OF s] by simp
qed

text \<open>The loop: the number of bytes, -1 as \<open>None\<close>, and the time that is left.  Every turn takes an answer of \<open>select\<close>.\<close>

function write_loop :: "bool \<Rightarrow> string \<Rightarrow> nat \<Rightarrow> timeval \<Rightarrow> writing \<Rightarrow> (nat option \<times> timeval) \<times> writing" where
  "write_loop linux buf rlen tv w =
     (if buf = [] then ((Some rlen, tv), w)
      else case write_turn linux buf tv w of
          ((None, tv), w) \<Rightarrow> ((None, tv), w)
        | ((Some n, tv), w) \<Rightarrow> write_loop linux (drop n buf) (rlen + n) tv w)"
  by pat_completeness auto

termination
  by (relation "measure (\<lambda>(_, _, _, _, w). length (w_selects w))") (auto intro: write_turn_takes_call [OF sym])

declare write_loop.simps [simp del]

text \<open>
  The number of bytes, and what \<open>tv\<close> points to afterwards.  The time is the caller's, or else that of the connection; without one
  there is a single call, which may block.  With one, the descriptor is made non-blocking for the loop, and made blocking again
  only where the loop has sent everything.
\<close>

definition snet_write :: "bool \<Rightarrow> string \<Rightarrow> timeval option \<Rightarrow> writing \<Rightarrow> (nat option \<times> timeval option) \<times> writing" where
  "snet_write linux buf tv w =
     (case (if tv = None then w_write_timeout w else tv) of
        None \<Rightarrow>
          (case sys_write buf w of
             (Sent n, w) \<Rightarrow> ((Some n, None), w)
           | (_, w) \<Rightarrow> ((None, None), w\<lparr>w_errno := EOTHER\<rparr>))
      | Some t \<Rightarrow>
          let blocking = \<not> w_nonblock w;
              (b, w) = w_fault w
          in if b then ((None, tv), w\<lparr>w_errno := EOTHER\<rparr>)
             else
               let (b, w) = (if blocking then w_fault w else (False, w))
               in if b then ((None, tv), w\<lparr>w_errno := EOTHER\<rparr>)
                  else
                    let ((r, t), w) = write_loop linux buf 0 t (w\<lparr>w_nonblock := True\<rparr>);
                        tv = map_option (\<lambda>_. t) tv
                    in case r of
                         None \<Rightarrow> ((None, tv), w)
                       | Some n \<Rightarrow>
                           if blocking then
                             let (b, w) = w_fault w
                             in if b then ((None, tv), w\<lparr>w_errno := EOTHER\<rparr>) else ((Some n, tv), w\<lparr>w_nonblock := False\<rparr>)
                           else ((Some n, tv), w))"

text \<open>\<open>snet_writeftv\<close>: the text is put together in the write buffer, which may grow, and sent from there.\<close>

definition snet_writeftv ::
  "bool \<Rightarrow> string \<Rightarrow> farg list \<Rightarrow> timeval option \<Rightarrow> writing \<Rightarrow> ((nat option \<times> timeval option) \<times> writing) outcome" where
  "snet_writeftv linux f args tv w =
     (case snet_writef f args [] (w_buflen w) of
        Ret (t, n) \<Rightarrow> Ret (snet_write linux t tv (w\<lparr>w_buflen := n\<rparr>))
      | Exit n \<Rightarrow> Exit n
      | Undefined \<Rightarrow> Undefined)"

section \<open>What is sent\<close>

text \<open>The state after some of the buffer was sent: its first bytes are behind what was there, and the settings are as they were.\<close>

definition sent_some :: "writing \<Rightarrow> string \<Rightarrow> nat \<Rightarrow> writing \<Rightarrow> bool" where
  "sent_some w buf n w' \<longleftrightarrow> n \<le> length buf \<and> w_sent w' = w_sent w @ take n buf \<and>
     w_tls w' = w_tls w \<and> w_read_timeout w' = w_read_timeout w \<and> w_write_timeout w' = w_write_timeout w \<and> w_buflen w' = w_buflen w"

lemma sent_none [simp]: "w_sent w' = w_sent w \<Longrightarrow> w_tls w' = w_tls w \<Longrightarrow> w_read_timeout w' = w_read_timeout w \<Longrightarrow>
    w_write_timeout w' = w_write_timeout w \<Longrightarrow> w_buflen w' = w_buflen w \<Longrightarrow> sent_some w buf 0 w'"
  by (simp add: sent_some_def)

lemma sent_then:
  "sent_some w buf n w' \<Longrightarrow> sent_some w' (drop n buf) m w'' \<Longrightarrow> sent_some w buf (n + m) w''"
  by (auto simp: sent_some_def take_add)

lemma sent_some_same:
  "sent_some w buf n w' \<Longrightarrow> sent_some w buf n (w'\<lparr>w_errno := e\<rparr>)"
  "sent_some w buf n w' \<Longrightarrow> sent_some w buf n (w'\<lparr>w_nonblock := b\<rparr>)"
  "sent_some w buf n w' \<Longrightarrow> sent_some w buf n (w'\<lparr>w_faults := bs\<rparr>)"
  "sent_some (w\<lparr>w_nonblock := b\<rparr>) buf n w' = sent_some w buf n w'"
  "sent_some (w\<lparr>w_partial := b\<rparr>) buf n w' = sent_some w buf n w'"
  "sent_some (w\<lparr>w_faults := bs\<rparr>) buf n w' = sent_some w buf n w'"
  "sent_some (w\<lparr>w_selects := cs\<rparr>) buf n w' = sent_some w buf n w'"
  by (simp_all add: sent_some_def)

lemma sys_write_sends:
  "sys_write buf w = (c, w') \<Longrightarrow> (case c of Sent n \<Rightarrow> sent_some w buf n w' | _ \<Rightarrow> sent_some w buf 0 w') \<and> w_nonblock w' = w_nonblock w"
  by (auto simp: sys_write_def Let_def sent_some_def split: list.splits write_call.splits if_splits)

lemma snet_select_sends:
  assumes "snet_select linux tv w = ((a, t), w')"
  shows "sent_some v buf n w' = sent_some v buf n w" and "w_nonblock w' = w_nonblock w"
  using snet_select_frame [OF assms] by (auto simp: sent_some_def)

lemma write_turn_sends:
  assumes "write_turn linux buf tv w = ((r, tv'), w')"
  shows "sent_some w buf (case r of None \<Rightarrow> 0 | Some n \<Rightarrow> n) w' \<and> w_nonblock w' = w_nonblock w"
proof -
  obtain a t w1 where s: "snet_select linux tv w = ((a, t), w1)" by (metis prod.exhaust)
  have 1: "sent_some w buf 0 w1" "w_nonblock w1 = w_nonblock w" using snet_select_sends [OF s] by simp_all
  show ?thesis
  proof (cases a)
    case Sel_ready
    let ?w1 = "if w_tls w1 then w1\<lparr>w_partial := True\<rparr> else w1"
    obtain k w2 where k: "sys_write buf ?w1 = (k, w2)" by fastforce
    have 2: "sent_some w buf (case k of Sent n \<Rightarrow> n | _ \<Rightarrow> 0) w2" "w_nonblock w2 = w_nonblock w"
      using sys_write_sends [OF k] 1 by (auto simp: sent_some_def split: write_call.splits if_splits)
    obtain b t2 w3 where s3: "snet_select linux t w2 = ((b, t2), w3)" by (metis prod.exhaust)
    show ?thesis
      using assms s k 2 s3 snet_select_sends [OF s3] Sel_ready
      by (cases k; cases b) (auto simp: write_turn_def sent_some_same split: if_splits)
  qed (use assms s 1 in \<open>auto simp: write_turn_def sent_some_same\<close>)
qed

lemma write_loop_sends:
  "write_loop linux buf rlen tv w = ((r, tv'), w') \<Longrightarrow>
     \<exists>n. sent_some w buf n w' \<and> w_nonblock w' = w_nonblock w \<and> (r \<noteq> None \<longrightarrow> r = Some (rlen + length buf) \<and> n = length buf)"
proof (induction linux buf rlen tv w rule: write_loop.induct)
  case (1 linux buf rlen tv w)
  obtain q t w1 where turn: "write_turn linux buf tv w = ((q, t), w1)" by (metis prod.exhaust)
  note 2 = write_turn_sends [OF turn]
  show ?case
  proof (cases q)
    case (Some n)
    show ?thesis
    proof (cases "buf = []")
      case False
      have "write_loop linux (drop n buf) (rlen + n) t w1 = ((r, tv'), w')"
        using "1.prems" False turn Some by (subst (asm) write_loop.simps) simp
      from "1.IH" [OF False turn [symmetric] refl Some this] obtain m where
        m: "sent_some w1 (drop n buf) m w'" "w_nonblock w' = w_nonblock w1"
          "r \<noteq> None \<longrightarrow> r = Some (rlen + n + length (drop n buf)) \<and> m = length (drop n buf)"
        by blast
      have "n \<le> length buf" using 2 Some by (simp add: sent_some_def)
      then show ?thesis using m 2 Some sent_then [of w buf n w1 m w'] by (intro exI [of _ "n + m"]) auto
    qed (use "1.prems" in \<open>auto simp: write_loop.simps\<close>)
  next
    case None
    then show ?thesis using "1.prems" turn 2 by (cases "buf = []") (auto simp: write_loop.simps intro: exI [of _ 0])
  qed
qed

section \<open>How long it may take\<close>

text \<open>A clock that does not go back, and the time the calls of \<open>select\<close> have taken.\<close>

definition clock_ok :: "select_call \<Rightarrow> bool" where
  "clock_ok c \<longleftrightarrow> (case (sc_begin c, sc_end c) of (Some b, Some e) \<Rightarrow> tv_ok b \<and> tv_ok e \<and> usecs b \<le> usecs e | _ \<Rightarrow> False)"

definition call_time :: "select_call \<Rightarrow> int" where
  "call_time c = (case (sc_begin c, sc_end c) of (Some b, Some e) \<Rightarrow> usecs e - usecs b | _ \<Rightarrow> 0)"

definition waited :: "select_call list \<Rightarrow> int" where
  "waited cs = sum_list (map call_time cs)"

lemma waited_simps [simp]: "waited [] = 0" "waited (c # cs) = call_time c + waited cs" "waited (cs @ ds) = waited cs + waited ds"
  by (simp_all add: waited_def)

lemma call_time_nonneg: "clock_ok c \<Longrightarrow> 0 \<le> call_time c"
  by (auto simp: clock_ok_def call_time_def split: option.splits)

lemma waited_nonneg: "list_all clock_ok cs \<Longrightarrow> 0 \<le> waited cs"
  by (induction cs) (auto dest: call_time_nonneg)

definition tv_good :: "timeval \<Rightarrow> bool" where
  "tv_good t \<longleftrightarrow> tv_ok t \<and> 0 \<le> tv_sec t"

lemma tv_good_usecs: "tv_good t \<Longrightarrow> 0 \<le> usecs t"
  by (simp add: tv_good_def tv_ok_def usecs_def)

lemma tv_left_exact:
  assumes "tv_ok tv" and "tv_ok b" and "tv_ok e"
  shows "tv_good (tv_left tv b e)" and "usecs (tv_left tv b e) = max 0 (usecs tv - (usecs e - usecs b))"
  using assms by (auto simp: tv_left_def tv_zero_def tv_good_def tv_ok_def usecs_def Let_def)

text \<open>From one state to a later one: the time that is left is what was left less the time that was waited, or none, and \<open>x\<close> or more
  answers say that it is exactly that.\<close>

definition accounted :: "bool \<Rightarrow> timeval \<Rightarrow> writing \<Rightarrow> timeval \<Rightarrow> writing \<Rightarrow> bool" where
  "accounted x tv w tv' w' \<longleftrightarrow> (\<exists>used. w_selects w = used @ w_selects w' \<and> tv_good tv' \<and> usecs tv' \<le> max 0 (usecs tv - waited used) \<and>
     (x \<or> w_selects w' \<noteq> [] \<longrightarrow> usecs tv' = max 0 (usecs tv - waited used)))"

lemma accounted_refl: "tv_good tv \<Longrightarrow> w_selects w' = w_selects w \<Longrightarrow> accounted x tv w tv w'"
  using tv_good_usecs [of tv] by (auto simp: accounted_def)

lemma accounted_state:
  "w_selects v = w_selects w \<Longrightarrow> accounted x tv v tv' w' = accounted x tv w tv' w'"
  "w_selects v' = w_selects w' \<Longrightarrow> accounted x tv w tv' v' = accounted x tv w tv' w'"
  by (simp_all add: accounted_def)

lemma accounted_trans:
  assumes "accounted True tv w t v" and "accounted x t v tv' w'" and "list_all clock_ok (w_selects w)"
  shows "accounted x tv w tv' w'"
proof -
  obtain us where us: "w_selects w = us @ w_selects v" "usecs t = max 0 (usecs tv - waited us)"
    using assms(1) by (auto simp: accounted_def)
  obtain vs where vs: "w_selects v = vs @ w_selects w'" "tv_good tv'" "usecs tv' \<le> max 0 (usecs t - waited vs)"
    "x \<or> w_selects w' \<noteq> [] \<longrightarrow> usecs tv' = max 0 (usecs t - waited vs)"
    using assms(2) by (auto simp: accounted_def)
  have "0 \<le> waited vs" using assms(3) us(1) vs(1) by (simp add: waited_nonneg)
  then have "max 0 (usecs t - waited vs) = max 0 (usecs tv - waited (us @ vs))" using us(2) by simp
  then show ?thesis using us(1) vs unfolding accounted_def by (intro exI [of _ "us @ vs"]) simp
qed

lemma accounted_exact: "accounted True tv w tv' w' \<Longrightarrow> accounted x tv w tv' w'"
  by (auto simp: accounted_def)

lemma snet_select_accounted:
  assumes "snet_select False tv w = ((a, tv'), w')" and "tv_good tv" and "list_all clock_ok (w_selects w)"
  shows "accounted (a \<noteq> Sel_idle) tv w tv' w'"
proof (cases "w_selects w")
  case Nil
  then show ?thesis using assms tv_good_usecs [OF assms(2)]
    by (auto simp: snet_select_def accounted_def tv_zero_def tv_good_def tv_ok_def usecs_def)
next
  case (Cons c cs)
  then obtain b e where c: "sc_begin c = Some b" "sc_end c = Some e" "tv_ok b" "tv_ok e"
    using assms(3) by (auto simp: clock_ok_def split: option.splits)
  then have "tv' = tv_left tv b e" "w' = w\<lparr>w_selects := cs\<rparr>" "call_time c = usecs e - usecs b"
    using assms(1) Cons by (simp_all add: snet_select_def call_time_def)
  then show ?thesis using tv_left_exact [of tv b e] c assms(2) Cons
    by (auto simp: accounted_def tv_good_def intro!: exI [of _ "[c]"])
qed

lemma accounted_good: "accounted x tv w tv' w' \<Longrightarrow> list_all clock_ok (w_selects w) \<Longrightarrow> tv_good tv' \<and> list_all clock_ok (w_selects w')"
  by (auto simp: accounted_def)

lemma write_turn_accounted:
  assumes "write_turn False buf tv w = ((r, tv'), w')" and "tv_good tv" and "list_all clock_ok (w_selects w)"
  shows "accounted (r \<noteq> None) tv w tv' w'"
proof -
  obtain a t w1 where s: "snet_select False tv w = ((a, t), w1)" by (metis prod.exhaust)
  note 1 = snet_select_accounted [OF s assms(2,3)]
  note g = accounted_good [OF 1 assms(3)]
  show ?thesis
  proof (cases a)
    case Sel_ready
    let ?w1 = "if w_tls w1 then w1\<lparr>w_partial := True\<rparr> else w1"
    obtain k w2 where k: "sys_write buf ?w1 = (k, w2)" by fastforce
    have w2: "w_selects w2 = w_selects w1" using sys_write_selects [OF k] by (simp split: if_splits)
    have 2: "accounted True tv w t w2" using 1 Sel_ready accounted_state(2) [OF w2] by simp
    obtain b t2 w3 where s3: "snet_select False t w2 = ((b, t2), w3)" by (metis prod.exhaust)
    have "accounted (b \<noteq> Sel_idle) t w2 t2 w3" using snet_select_accounted [OF s3] g w2 by simp
    then have 3: "accounted (b \<noteq> Sel_idle) tv w t2 w3" by (rule accounted_trans [OF 2 _ assms(3)])
    show ?thesis
      using assms(1) s k 2 s3 3 Sel_ready
      by (cases k; cases b) (auto simp: write_turn_def accounted_state(2) [of "_\<lparr>w_errno := _\<rparr>"] intro: accounted_exact split: if_splits)
  qed (use assms s 1 in \<open>auto simp: write_turn_def accounted_def\<close>)
qed

lemma write_loop_accounted:
  "write_loop False buf rlen tv w = ((r, tv'), w') \<Longrightarrow> tv_good tv \<Longrightarrow> list_all clock_ok (w_selects w) \<Longrightarrow>
     accounted (r \<noteq> None) tv w tv' w'"
proof (induction False buf rlen tv w rule: write_loop.induct)
  case (1 buf rlen tv w)
  obtain q t w1 where turn: "write_turn False buf tv w = ((q, t), w1)" by (metis prod.exhaust)
  note a = write_turn_accounted [OF turn "1.prems"(2,3)]
  show ?case
  proof (cases q)
    case None
    then show ?thesis using "1.prems" turn a by (cases "buf = []") (auto simp: write_loop.simps intro: accounted_refl)
  next
    case (Some n)
    show ?thesis
    proof (cases "buf = []")
      case False
      have "write_loop False (drop n buf) (rlen + n) t w1 = ((r, tv'), w')"
        using "1.prems"(1) False turn Some by (subst (asm) write_loop.simps) simp
      from "1.hyps" [OF False turn [symmetric] refl Some this] have "accounted (r \<noteq> None) t w1 tv' w'"
        using accounted_good [OF a "1.prems"(3)] by simp
      then show ?thesis using accounted_trans a "1.prems"(3) Some by simp
    qed (use "1.prems" in \<open>auto simp: write_loop.simps intro: accounted_refl\<close>)
  qed
qed

section \<open>\<open>snet_write\<close> as its callers see it\<close>

lemma w_fault_same: "w_fault w = (b, w') \<Longrightarrow> \<exists>bs. w' = w\<lparr>w_faults := bs\<rparr>"
  by (auto simp: w_fault_def split: list.splits intro: exI [of _ "[]"])

text \<open>Around the loop: nothing is sent where the descriptor cannot be prepared.\<close>

lemma snet_write_loop:
  assumes "snet_write linux buf tv w = ((r, tv'), w')" and "(if tv = None then w_write_timeout w else tv) = Some t"
  shows "r = None \<and> tv' = tv \<and> w_sent w' = w_sent w \<and> w_selects w' = w_selects w \<or>
    (\<exists>bs q t' v. write_loop linux buf 0 t (w\<lparr>w_faults := bs, w_nonblock := True\<rparr>) = ((q, t'), v) \<and> tv' = map_option (\<lambda>_. t') tv \<and>
       (r \<noteq> None \<longrightarrow> r = q \<and> w_nonblock w' = w_nonblock w) \<and> w_sent w' = w_sent v \<and> w_selects w' = w_selects v)"
proof -
  obtain b w1 where f1: "w_fault w = (b, w1)" by fastforce
  obtain bs1 where w1: "w1 = w\<lparr>w_faults := bs1\<rparr>" using w_fault_same [OF f1] by blast
  obtain b2 w2 where f2: "(if \<not> w_nonblock w then w_fault w1 else (False, w1)) = (b2, w2)" by fastforce
  obtain bs2 where w2: "w2 = w\<lparr>w_faults := bs2\<rparr>" using w_fault_same [of w1] f2 w1 by (auto split: if_splits)
  obtain q t' v where l: "write_loop linux buf 0 t (w2\<lparr>w_nonblock := True\<rparr>) = ((q, t'), v)" by (metis prod.exhaust)
  obtain b3 w3 where f3: "w_fault v = (b3, w3)" by fastforce
  obtain bs3 where w3: "w3 = v\<lparr>w_faults := bs3\<rparr>" using w_fault_same [OF f3] by blast
  have nb: "w_nonblock v" using write_loop_sends [OF l] by auto
  show ?thesis
  proof (cases "b \<or> b2")
    case True
    then have "r = None \<and> tv' = tv \<and> w_sent w' = w_sent w \<and> w_selects w' = w_selects w"
      using assms f1 f2 w1 w2 unfolding snet_write_def Let_def by (auto split: if_splits)
    then show ?thesis ..
  next
    case False
    then have "tv' = map_option (\<lambda>_. t') tv \<and> (r \<noteq> None \<longrightarrow> r = q \<and> w_nonblock w' = w_nonblock w) \<and> w_sent w' = w_sent v \<and>
        w_selects w' = w_selects v"
      using assms f1 f2 l f3 w3 nb unfolding snet_write_def Let_def by (auto split: option.splits if_splits)
    then show ?thesis using l w2 by blast
  qed
qed

text \<open>
  C33.  What \<open>snet_write\<close> has sent when it returns is the beginning of the buffer, in order and each byte once, however the
  connection took it in pieces, refused it for a while or asked for input first; and it never says to have sent more, or less,
  than it has.  With a timeout it returns the length of the buffer or -1, and unless it fails the descriptor blocks as it did
  before; -1 leaves open how much was sent.
\<close>

theorem snet_write_sends:
  assumes "snet_write linux buf tv w = ((r, tv'), w')"
  shows "\<exists>n \<le> length buf. w_sent w' = w_sent w @ take n buf \<and> (r \<noteq> None \<longrightarrow> r = Some n) \<and>
    (r \<noteq> None \<and> (tv \<noteq> None \<or> w_write_timeout w \<noteq> None) \<longrightarrow> n = length buf \<and> w_nonblock w' = w_nonblock w)"
proof (cases "if tv = None then w_write_timeout w else tv")
  case None
  obtain c v where c: "sys_write buf w = (c, v)" by fastforce
  show ?thesis
    using assms None c sys_write_sends [OF c]
    by (cases c) (auto simp: snet_write_def sent_some_def split: if_splits intro: exI [of _ 0])
next
  case (Some t)
  from snet_write_loop [OF assms this] show ?thesis
  proof (elim disjE exE conjE)
    fix bs q t' v
    assume "write_loop linux buf 0 t (w\<lparr>w_faults := bs, w_nonblock := True\<rparr>) = ((q, t'), v)"
      and r: "r \<noteq> None \<longrightarrow> r = q \<and> w_nonblock w' = w_nonblock w" "w_sent w' = w_sent v"
    from write_loop_sends [OF this(1)] obtain n where
      "sent_some w buf n v" "q \<noteq> None \<longrightarrow> q = Some (length buf) \<and> n = length buf" by (auto simp: sent_some_same)
    then show ?thesis using r by (intro exI [of _ n]) (auto simp: sent_some_def)
  qed (auto intro: exI [of _ 0])
qed

text \<open>
  C34.  Off Linux \<open>snet_select\<close> counts the time itself: after \<open>snet_write\<close> the time that is left to the caller is the time it gave
  less what all the calls of \<open>select\<close> have taken together, to the microsecond, and never negative; a connection that takes
  the bytes one by one gets no more time than one that takes them at once.  It is proper time again, as the next call wants it.
\<close>

theorem snet_write_waits:
  assumes "snet_write False buf (Some tv) w = ((r, tv'), w')" and "tv_good tv" and "list_all clock_ok (w_selects w)"
  shows "\<exists>t used. tv' = Some t \<and> tv_good t \<and> w_selects w = used @ w_selects w' \<and> usecs t \<le> max 0 (usecs tv - waited used) \<and>
    (r \<noteq> None \<or> w_selects w' \<noteq> [] \<longrightarrow> usecs t = max 0 (usecs tv - waited used))"
proof -
  from snet_write_loop [OF assms(1), of tv, simplified] consider "r = None" "tv' = Some tv" "w_selects w' = w_selects w"
    | bs q t' v where "write_loop False buf 0 tv (w\<lparr>w_faults := bs, w_nonblock := True\<rparr>) = ((q, t'), v)" "tv' = Some t'"
        "r \<noteq> None \<longrightarrow> r = q" "w_selects w' = w_selects v"
    by blast
  then have "\<exists>t. tv' = Some t \<and> accounted (r \<noteq> None) tv w t w'"
  proof cases
    case 1
    then show ?thesis using assms(2) by (auto intro: accounted_refl)
  next
    case (2 bs q t' v)
    have "accounted (q \<noteq> None) tv w t' v"
      using write_loop_accounted [OF 2(1) assms(2)] assms(3) by (simp add: accounted_def)
    then show ?thesis using 2 by (auto simp: accounted_def)
  qed
  then show ?thesis by (auto simp: accounted_def)
qed

section \<open>When all of it arrives\<close>

definition ready_call :: "select_call \<Rightarrow> bool" where
  "ready_call c \<longleftrightarrow> sc_answer c = Sel_ready \<and> sc_begin c \<noteq> None \<and> sc_end c \<noteq> None"

definition progress :: "write_call \<Rightarrow> bool" where
  "progress c \<longleftrightarrow> (\<exists>n. c = Sent n \<and> 0 < n)"

lemma sys_write_progress:
  assumes "buf \<noteq> []" and "list_all progress (w_writes w)"
  shows "\<exists>n v. sys_write buf w = (Sent n, v) \<and> 0 < n \<and> n \<le> length buf \<and> list_all progress (w_writes v) \<and>
    w_selects v = w_selects w \<and> w_faults v = w_faults w"
  using assms by (cases "w_writes w") (auto simp: sys_write_def Let_def progress_def)

text \<open>A connection that is ready and takes a byte each time gets the whole buffer.\<close>

lemma write_loop_arrives:
  "list_all ready_call (w_selects w) \<Longrightarrow> list_all progress (w_writes w) \<Longrightarrow> length buf \<le> length (w_selects w) \<Longrightarrow>
     \<exists>tv' w'. write_loop linux buf rlen tv w = ((Some (rlen + length buf), tv'), w') \<and> w_faults w' = w_faults w"
proof (induction linux buf rlen tv w rule: write_loop.induct)
  case (1 linux buf rlen tv w)
  show ?case
  proof (cases "buf = []")
    case False
    then obtain c cs where cs: "w_selects w = c # cs" "ready_call c" "list_all ready_call cs"
      using "1.prems" by (cases "w_selects w") auto
    have "\<exists>t. snet_select linux tv w = ((Sel_ready, t), w\<lparr>w_selects := cs\<rparr>)"
      using cs by (auto simp: snet_select_def ready_call_def Let_def)
    then obtain t where s: "snet_select linux tv w = ((Sel_ready, t), w\<lparr>w_selects := cs\<rparr>)" ..
    let ?w1 = "if w_tls w then w\<lparr>w_selects := cs, w_partial := True\<rparr> else w\<lparr>w_selects := cs\<rparr>"
    have w1: "w_writes ?w1 = w_writes w" "w_selects ?w1 = cs" "w_faults ?w1 = w_faults w" by simp_all
    obtain n v where v: "sys_write buf ?w1 = (Sent n, v)" "0 < n" "n \<le> length buf" "list_all progress (w_writes v)"
      "w_selects v = cs" "w_faults v = w_faults w"
      using sys_write_progress [OF False, of ?w1, unfolded w1, OF "1.prems"(2)] by blast
    have turn: "write_turn linux buf tv w = ((Some n, t), v)" using s v(1) by (auto simp: write_turn_def)
    have "length (drop n buf) \<le> length cs" using "1.prems"(3) cs(1) v(2) by simp
    from "1.IH" [OF False turn [symmetric] refl refl] this show ?thesis
      using v cs False turn by (subst write_loop.simps) simp
  qed (simp add: write_loop.simps)
qed

lemma snet_write_arrives:
  assumes "list_all ready_call (w_selects w)" and "list_all progress (w_writes w)" and "length buf \<le> length (w_selects w)"
    and "w_faults w = []" and "tv \<noteq> None"
  shows "fst (fst (snet_write linux buf tv w)) = Some (length buf)"
proof -
  obtain t where t: "tv = Some t" using assms(5) by blast
  have f: "w_fault w = (False, w)" using assms(4) by (simp add: w_fault_def)
  obtain t' v where "write_loop linux buf 0 t (w\<lparr>w_nonblock := True\<rparr>) = ((Some (length buf), t'), v)" "w_faults v = []"
    using write_loop_arrives [of "w\<lparr>w_nonblock := True\<rparr>" buf linux 0 t] assms(1-4) by auto
  moreover from this(2) have "w_fault v = (False, v)" by (simp add: w_fault_def)
  ultimately show ?thesis using t f by (simp add: snet_write_def Let_def)
qed

section \<open>A slow connection\<close>

text \<open>It is ready after a second, then after two, and takes two bytes, then all; the caller gives it ten seconds.\<close>

definition slow :: writing where
  "slow = \<lparr>w_tls = True, w_read_timeout = None, w_write_timeout = None, w_buflen = SNET_BUFLEN, w_partial = False, w_nonblock = False,
     w_errno = ENONE, w_sent = ''.'',
     w_selects = [\<lparr>sc_begin = Some \<lparr>tv_sec = 5, tv_usec = 900000\<rparr>, sc_end = Some \<lparr>tv_sec = 6, tv_usec = 900000\<rparr>,
         sc_answer = Sel_ready, sc_left = tv_zero\<rparr>,
       \<lparr>sc_begin = Some \<lparr>tv_sec = 6, tv_usec = 900000\<rparr>, sc_end = Some \<lparr>tv_sec = 8, tv_usec = 400000\<rparr>, sc_answer = Sel_ready, sc_left = tv_zero\<rparr>],
     w_writes = [Sent 2, Sent 9], w_faults = []\<rparr>"

lemma slow_run:
  "snet_write False ''hello'' (Some \<lparr>tv_sec = 10, tv_usec = 0\<rparr>) slow =
     ((Some 5, Some \<lparr>tv_sec = 7, tv_usec = 500000\<rparr>),
      slow\<lparr>w_partial := True, w_sent := ''.hello'', w_selects := [], w_writes := [], w_nonblock := False\<rparr>)"
  by (simp add: slow_def snet_write_def w_fault_def write_loop.simps write_turn_def snet_select_def sys_write_def tv_left_def)

lemma snet_write_sends_witness:
  "\<exists>n \<le> 5. ''.hello'' = ''.'' @ take n ''hello'' \<and> n = 5"
  using snet_write_sends [OF slow_run] by (auto simp: slow_def)

lemma snet_write_waits_witness:
  "\<exists>t used. t = \<lparr>tv_sec = 7, tv_usec = 500000\<rparr> \<and> used = w_selects slow \<and> usecs t = max 0 (10000000 - waited used) \<and> waited used = 2500000"
  using snet_write_waits [OF slow_run]
  by (auto simp: slow_def tv_good_def tv_ok_def clock_ok_def usecs_def call_time_def)

end
