(* ===== verification/Wildcard.thy ===== *)
theory Wildcard
  imports Prelude
begin

text \<open>
  \<open>common/wildcard.c\<close>: the recursive matcher for patterns with \<open>*\<close>, number ranges \<open><a-b>\<close> and
  backslashes, and the declarative relation it decides.
\<close>

section \<open>The matcher\<close>

fun nonempty_suffixes :: "string \<Rightarrow> string list" where
  "nonempty_suffixes [] = []"
| "nonempty_suffixes (c # s) = (c # s) # nonempty_suffixes s"

text \<open>The range item at \<open>w\<close>, after its \<open><\<close>: bounds and the pattern after \<open>>\<close>.\<close>

definition parse_range :: "string \<Rightarrow> (int \<times> int \<times> string) option" where
  "parse_range w =
     (if w = [] \<or> \<not> isdigit (hd w) then None
      else let min = atoi w; w1 = dropWhile isdigit w
      in if w1 = [] \<or> hd w1 \<noteq> CHR ''-'' then None
         else let w2 = tl w1
         in if w2 = [] \<or> \<not> isdigit (hd w2) then None
            else let max = atoi w2; w3 = dropWhile isdigit w2
            in if w3 = [] \<or> hd w3 \<noteq> CHR ''>'' then None
               else Some (min, max, tl w3))"

definition same_char :: "bool \<Rightarrow> char \<Rightarrow> char \<Rightarrow> bool" where
  "same_char sensitive a b \<longleftrightarrow> (if sensitive then a = b else tolower a = tolower b)"

lemma length_parse_range:
  assumes "parse_range w = Some (lo, hi, r)"
  shows "length r < length w"
proof -
  let ?w1 = "dropWhile isdigit w"
  have d: "length (dropWhile isdigit v) \<le> length v" for v by (simp add: length_dropWhile_le)
  have "r = tl (dropWhile isdigit (tl ?w1))" "?w1 \<noteq> []" "w \<noteq> []"
    using assms by (auto simp: parse_range_def Let_def split: if_splits)
  then have "length r \<le> length (tl ?w1)" "length ?w1 \<le> length w" "0 < length ?w1"
    using d [of "tl ?w1"] d [of w] by (auto simp del: dropWhile_eq_Nil_conv)
  then show ?thesis unfolding length_tl by linarith
qed

function (sequential) wildcard :: "string \<Rightarrow> string \<Rightarrow> bool \<Rightarrow> bool" where
  "wildcard wild p sensitive =
     (if wild \<noteq> [] \<and> hd wild = CHR ''*'' then
        tl wild = [] \<or> list_ex (\<lambda>t. wildcard (tl wild) t sensitive) (nonempty_suffixes p)
      else if wild \<noteq> [] \<and> hd wild = CHR ''<'' then
        (case parse_range (tl wild) of
           None \<Rightarrow> False
         | Some (lo, hi, w) \<Rightarrow>
             if p = [] \<or> \<not> isdigit (hd p) then False
             else if atoi p < lo \<or> hi < atoi p then False
             else wildcard w (dropWhile isdigit p) sensitive)
      else
        let w = (if wild \<noteq> [] \<and> hd wild = CHR 0x5C then tl wild else wild)
        in if w = [] \<or> p = [] then w = [] \<and> p = []
           else same_char sensitive (hd w) (hd p) \<and> wildcard (tl w) (tl p) sensitive)"
  by pat_completeness auto

termination
proof (relation "measure (\<lambda>(w, _, _). length w)", goal_cases)
  case (3 wild p sensitive x lo y hi w)
  then show ?case using length_parse_range [of "tl wild" lo hi w] by (cases wild) auto
next
  case (4 wild p sensitive w)
  then show ?case by (cases wild) (auto split: if_splits)
qed auto

declare wildcard.simps [simp del]

section \<open>What it decides\<close>

text \<open>
  A final \<open>*\<close> matches anything; any other \<open>*\<close> matches a text only when some character is left for the
  rest of the pattern.
\<close>

inductive matches :: "bool \<Rightarrow> string \<Rightarrow> string \<Rightarrow> bool" for cs where
  empty: "matches cs [] []"
| star_end: "matches cs ''*'' p"
| star: "b \<noteq> [] \<Longrightarrow> w \<noteq> [] \<Longrightarrow> matches cs w b \<Longrightarrow> matches cs (CHR ''*'' # w) (a @ b)"
| range: "parse_range r = Some (lo, hi, w) \<Longrightarrow> p \<noteq> [] \<Longrightarrow> isdigit (hd p) \<Longrightarrow> lo \<le> atoi p \<Longrightarrow> atoi p \<le> hi \<Longrightarrow>
    matches cs w (dropWhile isdigit p) \<Longrightarrow> matches cs (CHR ''<'' # r) p"
| escape_end: "matches cs [CHR 0x5C] []"
| escape: "same_char cs c d \<Longrightarrow> matches cs w p \<Longrightarrow> matches cs (CHR 0x5C # c # w) (d # p)"
| literal: "c \<notin> {CHR ''*'', CHR ''<'', CHR 0x5C} \<Longrightarrow> same_char cs c d \<Longrightarrow> matches cs w p \<Longrightarrow>
    matches cs (c # w) (d # p)"

inductive_cases matches_nilE: "matches cs [] p"
inductive_cases matches_consE: "matches cs (c # w) p"

lemma nonempty_suffixes_iff: "t \<in> set (nonempty_suffixes p) \<longleftrightarrow> t \<noteq> [] \<and> (\<exists>a. p = a @ t)"
proof (induction p)
  case Nil
  then show ?case by auto
next
  case (Cons c s)
  have "(\<exists>a. c # s = a @ t) \<longleftrightarrow> t = c # s \<or> (\<exists>a. s = a @ t)" by (auto simp: Cons_eq_append_conv)
  then show ?case using Cons by auto
qed

lemma wildcard_star:
  "wildcard (CHR ''*'' # w) p cs \<longleftrightarrow> w = [] \<or> (\<exists>a b. p = a @ b \<and> b \<noteq> [] \<and> wildcard w b cs)"
proof -
  have "wildcard (CHR ''*'' # w) p cs \<longleftrightarrow> w = [] \<or> (\<exists>t \<in> set (nonempty_suffixes p). wildcard w t cs)"
    by (subst wildcard.simps) (simp add: list_ex_iff)
  then show ?thesis unfolding Bex_def nonempty_suffixes_iff by blast
qed

lemma wildcard_range:
  "wildcard (CHR ''<'' # r) p cs \<longleftrightarrow> (\<exists>lo hi w. parse_range r = Some (lo, hi, w) \<and> p \<noteq> [] \<and>
     isdigit (hd p) \<and> lo \<le> atoi p \<and> atoi p \<le> hi \<and> wildcard w (dropWhile isdigit p) cs)"
  by (subst wildcard.simps) (auto split: option.splits simp: not_less)

lemma wildcard_nil: "wildcard [] p cs \<longleftrightarrow> p = []"
  by (subst wildcard.simps) simp

lemma wildcard_escape:
  "wildcard (CHR 0x5C # w) p cs \<longleftrightarrow>
     (if w = [] \<or> p = [] then w = [] \<and> p = [] else same_char cs (hd w) (hd p) \<and> wildcard (tl w) (tl p) cs)"
  by (subst wildcard.simps) simp

lemma wildcard_literal:
  "c \<notin> {CHR ''*'', CHR ''<'', CHR 0x5C} \<Longrightarrow>
     wildcard (c # w) p cs \<longleftrightarrow> p \<noteq> [] \<and> same_char cs c (hd p) \<and> wildcard w (tl p) cs"
  by (subst wildcard.simps) auto

lemma matches_wildcard: "matches cs w p \<Longrightarrow> wildcard w p cs"
  by (induction rule: matches.induct)
    (auto simp: wildcard_star wildcard_range wildcard_nil wildcard_escape wildcard_literal)

lemma wildcard_matches: "wildcard w p cs \<Longrightarrow> matches cs w p"
proof (induction w arbitrary: p rule: length_induct)
  case (1 w)
  note IH = "1.IH" [rule_format]
  show ?case
  proof (cases w)
    case Nil
    then show ?thesis using "1.prems" by (simp add: wildcard_nil matches.empty)
  next
    case (Cons c v)
    consider "c = CHR ''*''" | "c = CHR ''<''" | "c = CHR 0x5C" | "c \<notin> {CHR ''*'', CHR ''<'', CHR 0x5C}"
      by blast
    then show ?thesis
    proof cases
      case 1
      then show ?thesis
        using "1.prems" IH [of v] Cons
        by (auto simp: wildcard_star intro: matches.star_end matches.star)
    next
      case 2
      then show ?thesis
        using "1.prems" Cons length_parse_range IH
        by (fastforce simp: wildcard_range intro: matches.range)
    next
      case 3
      then show ?thesis
        using "1.prems" Cons IH [of "tl v" "tl p"]
        by (cases v; cases p) (auto simp: wildcard_escape intro: matches.escape_end matches.escape)
    next
      case 4
      then show ?thesis
        using "1.prems" Cons IH [of v "tl p"]
        by (cases p) (auto simp: wildcard_literal intro: matches.literal)
    qed
  qed
qed

text \<open>
  \<open>wildcard\<close> answers 1 exactly on the texts the relation \<open>matches\<close> holds of; in particular it
  ends on every pattern.
\<close>

lemma wildcard_iff_matches: "wildcard w p cs \<longleftrightarrow> matches cs w p"
  using matches_wildcard wildcard_matches by blast

text \<open>A star that is not the last character never matches the empty text, not even before a star.\<close>

lemma wildcard_star_star_empty: "\<not> wildcard ''**'' '''' cs" "wildcard ''*'' '''' cs"
  by (simp_all add: wildcard_star)

end
