(* ===== verification/Scookie.thy ===== *)
theory Scookie
  imports Mnet Cmd_check
begin

text \<open>
  \<open>filters/common/sparse.c\<close>: a filter's own copy of a service cookie.  The file is read line by line through the buffered
  reader; the lines it delivers are those of \<open>Conf_read.lines_of\<close>.  Copying a line into a field of \<open>struct sinfo\<close> that is
  too small for it is \<open>Undefined\<close>.  The second part is the text the filter writes and its way back.
\<close>

record sinfo =
  si_protocol :: int
  si_ipaddr :: string
  si_user :: string
  si_realm :: string
  si_factor :: string
  si_krb5tkt :: string
  si_itime :: int

definition sinfo_zero :: sinfo where
  "sinfo_zero = \<lparr>si_protocol = 0, si_ipaddr = [], si_user = [], si_realm = [], si_factor = [], si_krb5tkt = [], si_itime = 0\<rparr>"

text \<open>One line; the key of an empty line is its NUL.  The value is the rest of the line.\<close>

definition scookie_line :: "string \<Rightarrow> sinfo \<Rightarrow> sinfo option outcome" where
  "scookie_line line si =
     (let p = tl line;
          store = (\<lambda>n si'. if n \<le> length p then Undefined else Ret (Some si'))
      in case line of
           [] \<Rightarrow> Ret None
         | k # _ \<Rightarrow>
             if k = CHR ''v'' then
               Ret (Some (si\<lparr>si_protocol := (if to_int (fst (strtol p)) = 2 then 2 else 0)\<rparr>))
             else if k = CHR ''i'' then store 256 (si\<lparr>si_ipaddr := p\<rparr>)
             else if k = CHR ''p'' then store 130 (si\<lparr>si_user := p\<rparr>)
             else if k = CHR ''r'' then store 256 (si\<lparr>si_realm := p\<rparr>)
             else if k = CHR ''f'' then store 256 (si\<lparr>si_factor := p\<rparr>)
             else if k = CHR ''k'' then store MAXPATHLEN (si\<lparr>si_krb5tkt := p\<rparr>)
             else Ret None)"

text \<open>The loop over the lines; a read that fails ends it like the end of the file does.\<close>

primrec scookie_lines :: "string list \<Rightarrow> sinfo \<Rightarrow> ('a os_scheme, (int \<times> sinfo) outcome) state" where
  "scookie_lines [] si = do { c \<leftarrow> os_fclose; ret (Ret (if failed c then -1 else 0, si)) }"
| "scookie_lines (line # ls) si = do {
     b \<leftarrow> fault;
     if b then do { c \<leftarrow> os_fclose; ret (Ret (if failed c then -1 else 0, si)) }
     else case scookie_line line si of
       Undefined \<Rightarrow> ret Undefined
     | Exit n \<Rightarrow> ret (Exit n)
     | Ret None \<Rightarrow> do { _ \<leftarrow> os_fclose; ret (Ret (-1, si)) }
     | Ret (Some si) \<Rightarrow> scookie_lines ls si }"

definition read_scookie :: "string \<Rightarrow> ('a os_scheme, (int \<times> sinfo) outcome) state" where
  "read_scookie path = do {
     sn \<leftarrow> os_open path;
     case sn of
       Err _ \<Rightarrow> ret (Ret (1, sinfo_zero))
     | Ok f \<Rightarrow> do {
         b \<leftarrow> fault;
         if b then do { _ \<leftarrow> os_fclose; ret (Ret (-1, sinfo_zero)) }
         else scookie_lines (lines_of SNET_BOL (f_data f)) (sinfo_zero\<lparr>si_itime := f_mtime f\<rparr>) } }"

section \<open>Reading without failures\<close>

primrec parse_scookie_lines :: "string list \<Rightarrow> sinfo \<Rightarrow> (int \<times> sinfo) outcome" where
  "parse_scookie_lines [] si = Ret (0, si)"
| "parse_scookie_lines (line # ls) si =
     (case scookie_line line si of
        Undefined \<Rightarrow> Undefined
      | Exit n \<Rightarrow> Exit n
      | Ret None \<Rightarrow> Ret (-1, si)
      | Ret (Some si) \<Rightarrow> parse_scookie_lines ls si)"

definition parse_scookie :: "inode option \<Rightarrow> (int \<times> sinfo) outcome" where
  "parse_scookie e =
     (case e of
        None \<Rightarrow> Ret (1, sinfo_zero)
      | Some f \<Rightarrow> parse_scookie_lines (lines_of SNET_BOL (f_data f)) (sinfo_zero\<lparr>si_itime := f_mtime f\<rparr>))"

lemma run_scookie_lines [os_simps]:
  "os_faults w = [] \<Longrightarrow> run_state (scookie_lines ls si) w = (parse_scookie_lines ls si, w)"
  by (induction ls arbitrary: si) (auto simp: os_simps split: outcome.splits option.splits)

lemma run_read_scookie [os_simps]:
  "os_faults w = [] \<Longrightarrow> run_state (read_scookie path) w = (parse_scookie (os_fs w path), w)"
  by (cases "os_fs w path") (simp_all add: read_scookie_def parse_scookie_def os_simps)

lemma parse_scookie_rc: "parse_scookie e = Ret (rc, si) \<Longrightarrow> rc = 0 \<or> rc = -1 \<or> rc = 1 \<and> e = None \<and> si = sinfo_zero"
proof -
  have "parse_scookie_lines ls z = Ret (rc, si) \<Longrightarrow> rc = 0 \<or> rc = -1" for ls z
    by (induction ls arbitrary: z) (auto split: outcome.splits option.splits)
  then show "parse_scookie e = Ret (rc, si) \<Longrightarrow> rc = 0 \<or> rc = -1 \<or> rc = 1 \<and> e = None \<and> si = sinfo_zero"
    by (auto simp: parse_scookie_def split: option.splits)
qed

section \<open>The text of the copy\<close>

text \<open>The lines \<open>cosign_cookie_valid\<close> prints.\<close>

definition scookie_text :: "sinfo \<Rightarrow> string" where
  "scookie_text si =
     mkline (''v'' @ show_int (to_int (si_protocol si))) @ mkline (''i'' @ si_ipaddr si) @ mkline (''p'' @ si_user si) @
     mkline (''r'' @ si_realm si) @
     (if supports_factors (si_protocol si) then mkline (''f'' @ si_factor si) else []) @
     (if si_krb5tkt si \<noteq> [] then mkline (''k'' @ si_krb5tkt si) else [])"

definition sinfo_ok :: "sinfo \<Rightarrow> bool" where
  "sinfo_ok si \<longleftrightarrow>
     plain (si_ipaddr si) \<and> length (si_ipaddr si) < 256 \<and> plain (si_user si) \<and> length (si_user si) < 130 \<and>
     plain (si_realm si) \<and> length (si_realm si) < 256 \<and> plain (si_factor si) \<and> length (si_factor si) < 256 \<and>
     plain (si_krb5tkt si) \<and> length (si_krb5tkt si) < MAXPATHLEN \<and> 0 \<le> si_protocol si \<and> si_protocol si \<le> 3"

definition scookie_file :: "sinfo \<Rightarrow> string list" where
  "scookie_file si =
     [''v'' @ show_int (to_int (si_protocol si)), ''i'' @ si_ipaddr si, ''p'' @ si_user si, ''r'' @ si_realm si] @
     (if supports_factors (si_protocol si) then [''f'' @ si_factor si] else []) @
     (if si_krb5tkt si \<noteq> [] then [''k'' @ si_krb5tkt si] else [])"

lemma scookie_text_lines: "scookie_text si = file_of_lines (scookie_file si)"
  by (simp add: scookie_text_def scookie_file_def file_of_lines_def mkline_def)

lemma plain_show_int: "plain (show_int i)"
proof -
  have "plain (show_nat n)" for n
    using show_nat_digits [of n] by (auto simp: plain_def isdigit_def code_of_def ctrl_defs)
  then show ?thesis by (auto simp: show_int_def plain_def ctrl_defs)
qed

lemma lines_of_scookie:
  assumes "sinfo_ok si"
  shows "lines_of SNET_BOL (scookie_text si) = scookie_file si"
  unfolding scookie_text_lines
proof (rule lines_of_file)
  have p: "plain (c # s) \<longleftrightarrow> c \<noteq> NUL \<and> c \<noteq> CR \<and> c \<noteq> LF \<and> plain s" for c s
    by (auto simp: plain_def)
  have "\<forall>l \<in> set (scookie_file si). plain l"
    using assms plain_show_int by (auto simp: scookie_file_def sinfo_ok_def p ctrl_defs)
  then show "\<forall>l \<in> set (scookie_file si). cstr l \<and> CR \<notin> set l \<and> LF \<notin> set l"
    by (auto simp: plain_def cstr_def)
qed simp

text \<open>What is kept: every protocol but 2 reads back as 0.\<close>

definition kept_protocol :: "sinfo \<Rightarrow> int \<Rightarrow> sinfo" where
  "kept_protocol si t = si\<lparr>si_protocol := (if si_protocol si = 2 then 2 else 0),
     si_factor := (if supports_factors (si_protocol si) then si_factor si else []), si_itime := t\<rparr>"

lemma parse_scookie_file:
  assumes "sinfo_ok si"
  shows "parse_scookie_lines (scookie_file si) (sinfo_zero\<lparr>si_itime := t\<rparr>) = Ret (0, kept_protocol si t)"
proof -
  have p: "0 \<le> si_protocol si" "si_protocol si \<le> 3" using assms by (auto simp: sinfo_ok_def)
  then have v: "fst (strtol (show_int (si_protocol si))) = si_protocol si"
    using strtol_show_nat [of "nat (si_protocol si)" "[]"] by (simp add: show_int_def LONG_MAX_def)
  then show ?thesis
    using assms p
    by (cases si) (auto simp: scookie_file_def scookie_line_def Let_def sinfo_ok_def kept_protocol_def sinfo_zero_def)
qed

text \<open>
  C26.  A filter's copy of a service cookie reads back as it was written: where the disk holds the text the filter writes and no
  call fails, \<open>read_scookie\<close> succeeds, leaves the disk as it is, and gives every field as it was and the time of the file, but
  for the protocol: 2 stays 2, and every other version, the current version 3 among them, is read as 0.
\<close>

theorem scookie_roundtrip:
  assumes "sinfo_ok si" and "os_faults w = []" and "os_fs w path = Some \<lparr>f_data = scookie_text si, f_mode = m, f_mtime = t\<rparr>"
  shows "run_state (read_scookie path) w =
    (Ret (0, si\<lparr>si_protocol := (if si_protocol si = 2 then 2 else 0),
       si_factor := (if supports_factors (si_protocol si) then si_factor si else []), si_itime := t\<rparr>), w)"
  using parse_scookie_file [OF assms(1)] assms(2,3)
  by (simp add: run_read_scookie parse_scookie_def lines_of_scookie [OF assms(1)] kept_protocol_def)

definition sample_sinfo :: sinfo where
  "sample_sinfo =
     \<lparr>si_protocol = 3, si_ipaddr = ''10.0.0.1'', si_user = ''bob'', si_realm = ''umich'', si_factor = ''umich mtoken'',
      si_krb5tkt = [], si_itime = 0\<rparr>"

lemma sample_sinfo_ok: "sinfo_ok sample_sinfo"
  by (simp add: sinfo_ok_def sample_sinfo_def plain_def ctrl_defs MAXPATHLEN_def)

definition sample_kept :: os where
  "sample_kept =
     \<lparr>os_fs = (\<lambda>_. None)(''/f'' \<mapsto> \<lparr>f_data = scookie_text sample_sinfo, f_mode = mode_0644, f_mtime = 900\<rparr>),
      os_now = \<lparr>tv_sec = 1000, tv_usec = 0\<rparr>, os_pid = 1, os_faults = [], os_pool = []\<rparr>"

lemma scookie_roundtrip_witness:
  "run_state (read_scookie ''/f'') sample_kept = (Ret (0, sample_sinfo\<lparr>si_protocol := 0, si_itime := 900\<rparr>), sample_kept)"
proof -
  have "os_faults sample_kept = []"
    "os_fs sample_kept ''/f'' = Some \<lparr>f_data = scookie_text sample_sinfo, f_mode = mode_0644, f_mtime = 900\<rparr>"
    by (simp_all add: sample_kept_def)
  from scookie_roundtrip [OF sample_sinfo_ok this] show ?thesis
    by (simp add: supports_factors_def) (simp add: sample_sinfo_def)
qed

end
