(* ===== verification/Filter_net.thy ===== *)
theory Filter_net
  imports Scookie Cmd_login
begin

text \<open>
  \<open>filters/common/connect.c\<close>: how a web server's filter asks the daemon about a service cookie.  The filter keeps a list of
  connections and asks them in turn; the one that gave a definite answer moves to the front.  The state holds the
  connections, the outcomes of the attempts to connect to come, the connection in use and the rates.  A closed
  connection's capabilities are not looked at.
\<close>

definition COSIGN_ERROR :: int where "COSIGN_ERROR = -1"
definition COSIGN_OK :: int where "COSIGN_OK = 0"
definition COSIGN_RETRY :: int where "COSIGN_RETRY = 1"
definition COSIGN_LOGGED_OUT :: int where "COSIGN_LOGGED_OUT = 2"

definition COSIGN_CAPA_FACTORS :: "32 word" where "COSIGN_CAPA_FACTORS = 1"
definition COSIGN_CAPA_REKEY :: "32 word" where "COSIGN_CAPA_REKEY = 2"

text \<open>\<open>fc_listed\<close> says that \<open>cl\<close> points to a list; it is null before \<open>CosignHostname\<close>.\<close>

record filter_config =
  fc_host :: string
  fc_reqfv :: "string list"
  fc_suffix :: "string option"
  fc_fake :: int
  fc_checkip :: int
  fc_filterdb :: string
  fc_hashlen :: int
  fc_proxydb :: string
  fc_tkt_prefix :: string
  fc_proxy :: int
  fc_krbtkt :: int
  fc_listed :: bool

record fconn =
  conn_sn :: "peer option"
  conn_capa :: "32 word"
  conn_proto :: int

record filter_state = os +
  fl_cl :: "fconn list"
  fl_attempts :: "peer option list"
  fl_peer :: peer
  fl_pass :: rate
  fl_fail :: rate
  fl_unknown :: rate

type_synonym 'a filtering = "(filter_state, 'a) state"

definition f_talk :: "'a talk \<Rightarrow> 'a filtering" where
  "f_talk m = State (\<lambda>w. case run_state m (fl_peer w) of (r, p) \<Rightarrow> (r, w\<lparr>fl_peer := p\<rparr>))"

definition f_set :: "(filter_state \<Rightarrow> filter_state) \<Rightarrow> unit filtering" where
  "f_set f = State (\<lambda>w. ((), f w))"

definition f_tick :: "((rate \<Rightarrow> rate) \<Rightarrow> filter_state \<Rightarrow> filter_state) \<Rightarrow> unit filtering" where
  "f_tick upd = do { t \<leftarrow> gettimeofday; f_set (upd (\<lambda>r. snd (rate_tick t r))) }"

definition c_getline :: "string option talk" where
  "c_getline = State (\<lambda>c. case snet_getline (c_sn c) of (l, sn) \<Rightarrow> (l, c\<lparr>c_sn := sn\<rparr>))"

definition c_read :: "nat \<Rightarrow> string option talk" where
  "c_read n = State (\<lambda>c. case snet_read (c_sn c) n of (s, sn) \<Rightarrow> (s, c\<lparr>c_sn := sn\<rparr>))"

section \<open>The answer to a CHECK\<close>

text \<open>
  A factor the configuration asks for among those of the reply: itself, or with the suffix, where suffixes are allowed;
  a match that needs the suffix where they are not is an error.
\<close>

datatype scan = Has | Lacks | Suffix_off

definition suffix_match :: "string \<Rightarrow> string \<Rightarrow> string \<Rightarrow> bool" where
  "suffix_match sfx f g \<longleftrightarrow>
     (case strstr g sfx of
        None \<Rightarrow> False
      | Some p \<Rightarrow> length p = length sfx \<and> take (length g - length p) g = f)"

fun find_factor :: "filter_config \<Rightarrow> string \<Rightarrow> string list \<Rightarrow> scan" where
  "find_factor cfg f [] = Lacks"
| "find_factor cfg f (g # gs) =
     (if f = g then Has
      else case fc_suffix cfg of
        None \<Rightarrow> find_factor cfg f gs
      | Some sfx \<Rightarrow>
          if suffix_match sfx f g then (if fc_fake cfg = 1 then Has else Suffix_off)
          else find_factor cfg f gs)"

fun find_factors :: "filter_config \<Rightarrow> string list \<Rightarrow> string list \<Rightarrow> scan" where
  "find_factors cfg [] gs = Has"
| "find_factors cfg (f # fs) gs =
     (case find_factor cfg f gs of Has \<Rightarrow> find_factors cfg fs gs | r \<Rightarrow> r)"

text \<open>The list of factors as it fits into the 256 characters of \<open>si_factor\<close>.\<close>

fun cat_factors :: "string \<Rightarrow> string list \<Rightarrow> bool \<times> string" where
  "cat_factors s [] = (True, s)"
| "cat_factors s (g # gs) =
     (if 256 - length s < length g + 2 then (False, s) else cat_factors (s @ '' '' @ g) gs)"

text \<open>The factors of the reply: the return code where it ends here.\<close>

definition collect_factors :: "filter_config \<Rightarrow> string list \<Rightarrow> nat \<Rightarrow> sinfo \<Rightarrow> int option \<times> sinfo" where
  "collect_factors cfg av mf si =
     (case find_factors cfg (fc_reqfv cfg) (drop 3 (take mf av)) of
        Suffix_off \<Rightarrow> (Some COSIGN_ERROR, si)
      | Lacks \<Rightarrow> (Some COSIGN_RETRY, si)
      | Has \<Rightarrow>
          if 256 \<le> length (av ! 3) then (Some COSIGN_ERROR, si)
          else case cat_factors (av ! 3) (drop 4 (take mf av)) of
            (ok, s) \<Rightarrow> (if ok then None else Some COSIGN_ERROR, si\<lparr>si_factor := s\<rparr>))"

text \<open>The 2xx line: return code, what is known of the user, the new cookie of a REKEY.\<close>

definition read_check :: "filter_config \<Rightarrow> bool \<Rightarrow> int \<Rightarrow> string \<Rightarrow> sinfo \<Rightarrow> int \<times> sinfo \<times> string option" where
  "read_check cfg rk proto line si =
     (let av = argcargv line; mf = (if rk then length av - 1 else length av)
      in if length av < 4 then (COSIGN_ERROR, si, None)
         else if 256 \<le> length (av ! 1) then (COSIGN_ERROR, si, None)
         else let si = si\<lparr>si_ipaddr := av ! 1\<rparr>
         in if 130 \<le> length (av ! 2) then (COSIGN_ERROR, si, None)
         else let si = si\<lparr>si_user := av ! 2, si_protocol := proto\<rparr>
         in case (if supports_factors proto then collect_factors cfg av mf si else (None, si)) of
              (Some rc, si) \<Rightarrow> (rc, si, None)
            | (None, si) \<Rightarrow>
                if 256 \<le> length (av ! 3) then (COSIGN_ERROR, si, None)
                else let si = si\<lparr>si_realm := av ! 3, si_krb5tkt := []\<rparr>
                in if \<not> rk then (COSIGN_OK, si, None)
                   else if \<not> starts_with (last av) ''cosign-'' then (COSIGN_ERROR, si, None)
                   else (COSIGN_OK, si, Some (last av)))"

text \<open>\<open>rekey\<close> is a null pointer, or points to a cookie or to a null pointer.\<close>

type_synonym rekeying = "string option option"

definition conn_supports_rekey :: "fconn \<Rightarrow> bool" where
  "conn_supports_rekey c \<longleftrightarrow> conn_capa c AND COSIGN_CAPA_REKEY \<noteq> 0"

definition ask :: "string \<Rightarrow> string \<Rightarrow> string option talk" where
  "ask cmd scookie = do {
     ok \<leftarrow> c_write ''%s %s'' [FS cmd, FS scookie];
     if \<not> ok then ret None else c_reply }"

text \<open>On the connection in use, whose entry is \<open>c\<close>.\<close>

definition netcheck_cookie :: "filter_config \<Rightarrow> string \<Rightarrow> rekeying \<Rightarrow> sinfo \<Rightarrow> fconn \<Rightarrow> (int \<times> sinfo \<times> rekeying) filtering" where
  "netcheck_cookie cfg scookie rekey si c = do {
     let rk = (rekey \<noteq> None \<and> conn_supports_rekey c);
     l \<leftarrow> f_talk (ask (if rk then ''REKEY'' else ''CHECK'') scookie);
     case l of
       None \<Rightarrow> ret (COSIGN_ERROR, si, rekey)
     | Some line \<Rightarrow>
         if is_class CHR ''2'' line then do {
           f_tick fl_pass_update;
           (case read_check cfg rk (conn_proto c) line si of
              (rc, si, None) \<Rightarrow> ret (rc, si, rekey)
            | (rc, si, Some new) \<Rightarrow> do {
                b \<leftarrow> fault;
                if b then ret (COSIGN_ERROR, si, rekey) else ret (rc, si, Some (Some new)) }) }
         else if is_class CHR ''4'' line then do { f_tick fl_fail_update; ret (COSIGN_LOGGED_OUT, si, rekey) }
         else if is_class CHR ''5'' line then do { f_tick fl_unknown_update; ret (COSIGN_RETRY, si, rekey) }
         else ret (COSIGN_ERROR, si, rekey) }"

section \<open>Proxy cookies and tickets\<close>

definition db_tmp_path :: "string \<Rightarrow> timeval \<Rightarrow> int \<Rightarrow> string option" where
  "db_tmp_path dir tv pid =
     snprintf MAXPATHLEN
       (dir @ ''/'' @ show_hex (u32 (tv_sec tv)) @ show_hex (u32 (tv_usec tv)) @ ''.'' @ show_int (to_int pid))"

text \<open>The lines of the reply to RETR; each takes a byte of the input, which bounds their number.\<close>

primrec proxy_text :: "nat \<Rightarrow> string \<Rightarrow> (int \<times> string) talk" where
  "proxy_text 0 text = ret (COSIGN_ERROR, text)"
| "proxy_text (Suc n) text = do {
     l \<leftarrow> c_getline;
     case l of
       None \<Rightarrow> ret (COSIGN_ERROR, text)
     | Some line \<Rightarrow>
         if is_class CHR ''4'' line then ret (COSIGN_LOGGED_OUT, text)
         else if is_class CHR ''5'' line then ret (COSIGN_RETRY, text)
         else if \<not> is_class CHR ''2'' line then ret (COSIGN_ERROR, text)
         else if length line < 3 then ret (COSIGN_ERROR, text)
         else if \<not> isdigit (line ! 1) \<or> \<not> isdigit (line ! 2) then ret (COSIGN_ERROR, text)
         else if 3 < length line \<and> line ! 3 \<noteq> CHR '' '' \<and> line ! 3 \<noteq> CHR ''-'' then ret (COSIGN_ERROR, text)
         else if 3 < length line \<and> line ! 3 = CHR ''-'' then proxy_text n (text @ mkline (''x'' @ drop 4 line))
         else ret (COSIGN_OK, text) }"

definition peer_input :: "nat talk" where
  "peer_input = State (\<lambda>c. (length (stream (c_sn c)), c))"

text \<open>Where the reply is not complete the temporary file stays, with none of the lines in it.\<close>

definition netretr_proxy :: "filter_config \<Rightarrow> string \<Rightarrow> int filtering" where
  "netretr_proxy cfg scookie = do {
     ok \<leftarrow> f_talk (c_write ''RETR %s cookies'' [FS scookie]);
     if \<not> ok then ret COSIGN_ERROR
     else case snprintf MAXPATHLEN (fc_proxydb cfg @ ''/'' @ scookie) of
       None \<Rightarrow> ret COSIGN_ERROR
     | Some path \<Rightarrow> do {
         tv \<leftarrow> gettimeofday;
         pid \<leftarrow> getpid;
         case tv of
           None \<Rightarrow> ret COSIGN_ERROR
         | Some tv \<Rightarrow>
             (case db_tmp_path (fc_proxydb cfg) tv pid of
                None \<Rightarrow> ret COSIGN_ERROR
              | Some tmppath \<Rightarrow> do {
                  ok \<leftarrow> open_tmp tmppath;
                  if \<not> ok then ret COSIGN_ERROR
                  else do {
                    n \<leftarrow> f_talk peer_input;
                    (rc, text) \<leftarrow> f_talk (proxy_text (Suc n) []);
                    if rc \<noteq> COSIGN_OK then ret rc
                    else do {
                      c \<leftarrow> os_fclose_write tmppath text;
                      if failed c then do { _ \<leftarrow> os_unlink tmppath; ret COSIGN_ERROR }
                      else do {
                        l \<leftarrow> os_link tmppath path;
                        _ \<leftarrow> os_unlink tmppath;
                        ret (if failed l then COSIGN_ERROR else COSIGN_OK) } } } }) } }"

text \<open>\<open>size\<close> bytes into the file: whether all of them came.\<close>

function (sequential) fetch_ticket :: "string \<Rightarrow> nat \<Rightarrow> bool filtering" where
  "fetch_ticket krbpath left =
     (if left = 0 then ret True
      else do {
        r \<leftarrow> f_talk (c_read (min 8192 left));
        case r of
          None \<Rightarrow> ret False
        | Some s \<Rightarrow>
            if s = [] then ret False
            else do {
              b \<leftarrow> fault;
              if b then ret False
              else do { os_append krbpath s; fetch_ticket krbpath (left - length s) } } })"
  by pat_completeness auto

termination by (relation "measure (\<lambda>(p, n). n)") auto

declare fetch_ticket.simps [simp del]

text \<open>Return code and \<open>si_krb5tkt\<close>.  A length is a \<open>size_t\<close>.\<close>

definition take_ticket :: "string \<Rightarrow> (int \<times> string) filtering" where
  "take_ticket krbpath = do {
     l \<leftarrow> f_talk c_getline;
     case l of
       None \<Rightarrow> ret (COSIGN_ERROR, [])
     | Some line \<Rightarrow> do {
         r \<leftarrow> os_create krbpath;
         if failed r then ret (COSIGN_ERROR, [])
         else do {
           let drop_it = (do { _ \<leftarrow> os_unlink krbpath; ret (COSIGN_ERROR, []) });
           ok \<leftarrow> fetch_ticket krbpath (nat (atoi line mod 2 ^ 64));
           if \<not> ok then drop_it
           else do {
             b \<leftarrow> fault;
             if b then drop_it
             else do {
               l \<leftarrow> f_talk c_getline;
               case l of
                 None \<Rightarrow> drop_it
               | Some line \<Rightarrow>
                   if line \<noteq> ''.'' \<or> MAXPATHLEN \<le> length krbpath then drop_it
                   else ret (COSIGN_OK, krbpath) } } } } }"

definition netretr_ticket :: "filter_config \<Rightarrow> string \<Rightarrow> (int \<times> string) filtering" where
  "netretr_ticket cfg scookie = do {
     ok \<leftarrow> f_talk (c_write ''RETR %s tgt'' [FS scookie]);
     if \<not> ok then ret (COSIGN_ERROR, [])
     else do {
       l \<leftarrow> f_talk c_reply;
       case l of
         None \<Rightarrow> ret (COSIGN_ERROR, [])
       | Some line \<Rightarrow>
           if is_class CHR ''4'' line then ret (COSIGN_LOGGED_OUT, [])
           else if is_class CHR ''5'' line then ret (COSIGN_RETRY, [])
           else if \<not> is_class CHR ''2'' line then ret (COSIGN_ERROR, [])
           else do {
             (rc, tmpkrb) \<leftarrow> os_mkcookie 16;
             if rc \<noteq> 0 then ret (COSIGN_ERROR, [])
             else case snprintf MAXPATHLEN (fc_tkt_prefix cfg @ ''/'' @ tmpkrb) of
               None \<Rightarrow> ret (COSIGN_ERROR, [])
             | Some krbpath \<Rightarrow> take_ticket krbpath } } }"

end
