(* ===== verification/Filter_conn.thy ===== *)
theory Filter_conn
  imports Filter_net
begin

text \<open>
  The rest of \<open>filters/common/connect.c\<close>: the connections themselves, the capabilities a server announces, and
  \<open>cosign_check_cookie\<close>, which asks the servers in turn.
\<close>

section \<open>Capabilities\<close>

definition caps :: "(string \<times> 32 word) list" where
  "caps = [(''FACTORS'', COSIGN_CAPA_FACTORS), (''REKEY'', COSIGN_CAPA_REKEY)]"

text \<open>The first capability that is not set yet and starts the word.\<close>

fun find_capa :: "(string \<times> 32 word) list \<Rightarrow> 32 word \<Rightarrow> string \<Rightarrow> (string \<times> 32 word) option" where
  "find_capa [] capa word = None"
| "find_capa ((name, m) # cs) capa word =
     (if capa AND m \<noteq> 0 then find_capa cs capa word
      else if starts_with_nocase word name then Some (name, m) else find_capa cs capa word)"

text \<open>The words up to one whose capability is followed by a bracket.\<close>

fun capa_words :: "string list \<Rightarrow> 32 word \<Rightarrow> 32 word" where
  "capa_words [] capa = capa"
| "capa_words (word # ws) capa =
     (case find_capa caps capa word of
        None \<Rightarrow> capa_words ws capa
      | Some (name, m) \<Rightarrow>
          if take 1 (drop (length name) word) = '']'' then capa OR m
          else capa_words ws (capa OR m))"

text \<open>Protocol and capabilities, nothing where the list is not one.\<close>

definition capa_parse :: "string list \<Rightarrow> (int \<times> 32 word) option" where
  "capa_parse capav =
     (case capav of
        [] \<Rightarrow> None
      | w # ws \<Rightarrow>
          if \<not> starts_with w ''[COSIGNv'' then None
          else case strtol (drop 8 w) of
            (v, tmp, errno) \<Rightarrow>
              if errno then None
              else if tmp = '']'' then Some (int (u32 v), 0)
              else if tmp \<noteq> [] then None
              else Some (int (u32 v), capa_words ws 0))"

section \<open>Connecting\<close>

text \<open>What the greeting says; nothing where the connection is given up.\<close>

definition greeting :: "filter_config \<Rightarrow> string \<Rightarrow> (int \<times> 32 word) option" where
  "greeting cfg line =
     (let av = argcargv line
      in if length av < 4 then None
         else case strtol (av ! 1) of
           (v, _, errno) \<Rightarrow>
             let proto = (if errno then 0 else int (u32 v))
             in if fc_reqfv cfg \<noteq> [] \<and> \<not> supports_factors proto then None
                else if 6 < length av then capa_parse (drop 6 av)
                else Some (proto, if supports_factors proto then COSIGN_CAPA_FACTORS else 0))"

definition filter_peer :: "filter_config \<Rightarrow> int \<Rightarrow> bool talk" where
  "filter_peer cfg proto = do {
     (rc, cert) \<leftarrow> c_starttls;
     if rc \<noteq> 1 then ret False
     else case cert of
       None \<Rightarrow> ret False
     | Some cn \<Rightarrow>
         if \<not> strcaseeq (take 1023 cn) (fc_host cfg) then ret False
         else if 2 \<le> proto then do {
           l \<leftarrow> c_reply;
           ret (case l of None \<Rightarrow> False | Some line \<Rightarrow> is_class CHR ''2'' line) }
         else ret True }"

definition filter_greet :: "filter_config \<Rightarrow> (int \<times> 32 word) option talk" where
  "filter_greet cfg = do {
     l \<leftarrow> c_getline;
     case l of
       None \<Rightarrow> ret None
     | Some line \<Rightarrow>
         if \<not> is_class CHR ''2'' line then ret None
         else case greeting cfg line of
           None \<Rightarrow> ret None
         | Some (proto, capa) \<Rightarrow> do {
             ok \<leftarrow> (if 2 \<le> proto then c_write ''STARTTLS %d'' [FI proto] else c_write ''STARTTLS'' []);
             if \<not> ok then ret None
             else do {
               l \<leftarrow> c_reply;
               if l = None then ret None
               else do {
                 ok \<leftarrow> filter_peer cfg proto;
                 ret (if ok then Some (proto, capa) else None) } } } }"

text \<open>The C function's \<open>connect_sn\<close>; \<open>mnet.c\<close> has another of this name.\<close>

definition filter_connect :: "filter_config \<Rightarrow> peer option \<Rightarrow> fconn \<Rightarrow> int \<times> fconn" where
  "filter_connect cfg attempt c =
     (case attempt of
        None \<Rightarrow> (-1, c)
      | Some p \<Rightarrow>
          (case run_state (filter_greet cfg) p of
             (None, _) \<Rightarrow> (-1, c\<lparr>conn_sn := None, conn_proto := 0\<rparr>)
           | (Some (proto, capa), p) \<Rightarrow> (0, c\<lparr>conn_sn := Some p, conn_proto := proto, conn_capa := capa\<rparr>)))"

definition next_peer :: "peer option filtering" where
  "next_peer = State (\<lambda>w. case fl_attempts w of [] \<Rightarrow> (None, w) | a # as \<Rightarrow> (a, w\<lparr>fl_attempts := as\<rparr>))"

section \<open>Asking the servers in turn\<close>

text \<open>
  \<open>netcheck_cookie\<close> over the open connection \<open>p\<close> of the entry \<open>c\<close>, which is closed after an error.
\<close>

definition check_conn ::
  "filter_config \<Rightarrow> string \<Rightarrow> rekeying \<Rightarrow> sinfo \<Rightarrow> fconn \<Rightarrow> peer \<Rightarrow> (int \<times> sinfo \<times> rekeying \<times> fconn) filtering" where
  "check_conn cfg scookie rekey si c p = do {
     f_set (fl_peer_update (\<lambda>_. p));
     (rc, si, rekey) \<leftarrow> netcheck_cookie cfg scookie rekey si c;
     w \<leftarrow> State_Monad.get;
     ret (rc, si, rekey, c\<lparr>conn_sn := (if rc = COSIGN_ERROR then None else Some (fl_peer w))\<rparr>) }"

text \<open>The first loop takes the open connections, the second opens the closed ones.\<close>

definition pick_open :: "fconn \<Rightarrow> (peer option \<times> fconn) filtering" where
  "pick_open c = ret (conn_sn c, c)"

definition pick_closed :: "filter_config \<Rightarrow> fconn \<Rightarrow> (peer option \<times> fconn) filtering" where
  "pick_closed cfg c =
     (if conn_sn c \<noteq> None then ret (None, c)
      else do {
        a \<leftarrow> next_peer;
        ret (case filter_connect cfg a c of (rc, c) \<Rightarrow> (if rc = 0 then conn_sn c else None, c)) })"

text \<open>
  One loop: the definite answer with the entry that gave it, if there is one, the other entries, and whether one asked
  to try again.
\<close>

primrec check_conns ::
  "filter_config \<Rightarrow> (fconn \<Rightarrow> (peer option \<times> fconn) filtering) \<Rightarrow> string \<Rightarrow> fconn list \<Rightarrow> sinfo \<Rightarrow> rekeying \<Rightarrow> bool \<Rightarrow>
     ((int \<times> fconn) option \<times> fconn list \<times> sinfo \<times> rekeying \<times> bool) filtering" where
  "check_conns cfg pick scookie [] si rekey again = ret (None, [], si, rekey, again)"
| "check_conns cfg pick scookie (c # cs) si rekey again = do {
     (p, c) \<leftarrow> pick c;
     case p of
       None \<Rightarrow> do {
         (r, cs, x) \<leftarrow> check_conns cfg pick scookie cs si rekey again;
         ret (r, c # cs, x) }
     | Some p \<Rightarrow> do {
         (rc, si, rekey, c) \<leftarrow> check_conn cfg scookie rekey si c p;
         if rc = COSIGN_OK \<or> rc = COSIGN_LOGGED_OUT then ret (Some (rc, c), cs, si, rekey, again)
         else do {
           (r, cs, x) \<leftarrow> check_conns cfg pick scookie cs si rekey (again \<or> rc = COSIGN_RETRY);
           ret (r, c # cs, x) } } }"

text \<open>Over the connection at the front.\<close>

definition on_front :: "fconn \<Rightarrow> 'a filtering \<Rightarrow> 'a filtering" where
  "on_front c m = do {
     (case conn_sn c of None \<Rightarrow> ret () | Some p \<Rightarrow> f_set (fl_peer_update (\<lambda>_. p)));
     x \<leftarrow> m;
     f_set (\<lambda>w. w\<lparr>fl_cl := (case fl_cl w of [] \<Rightarrow> [] | d # ds \<Rightarrow> d\<lparr>conn_sn := Some (fl_peer w)\<rparr> # ds)\<rparr>);
     ret x }"

text \<open>The proxy cookies and the ticket of a session that is new to this server.\<close>

definition after_ok :: "filter_config \<Rightarrow> string \<Rightarrow> bool \<Rightarrow> fconn \<Rightarrow> sinfo \<Rightarrow> sinfo filtering" where
  "after_ok cfg scookie first c si = on_front c (do {
     _ \<leftarrow> (if first \<and> fc_proxy cfg = 1 then netretr_proxy cfg scookie else ret COSIGN_OK);
     if first \<and> fc_krbtkt cfg = 1 then do {
       (_, tkt) \<leftarrow> netretr_ticket cfg scookie;
       ret (si\<lparr>si_krb5tkt := tkt\<rparr>) }
     else ret si })"

definition check_done ::
  "filter_config \<Rightarrow> string \<Rightarrow> bool \<Rightarrow> int \<Rightarrow> fconn \<Rightarrow> fconn list \<Rightarrow> sinfo \<Rightarrow> rekeying \<Rightarrow> (int \<times> sinfo \<times> rekeying) filtering" where
  "check_done cfg scookie first rc c cs si rekey = do {
     f_set (fl_cl_update (\<lambda>_. c # cs));
     if rc = COSIGN_LOGGED_OUT then ret (COSIGN_RETRY, si, rekey)
     else do {
       si \<leftarrow> after_ok cfg (case rekey of Some (Some new) \<Rightarrow> new | _ \<Rightarrow> scookie) first c si;
       ret (COSIGN_OK, si, rekey) } }"

definition cosign_check_cookie ::
  "filter_config \<Rightarrow> string \<Rightarrow> rekeying \<Rightarrow> sinfo \<Rightarrow> bool \<Rightarrow> (int \<times> sinfo \<times> rekeying) filtering" where
  "cosign_check_cookie cfg scookie rekey si first = do {
     w \<leftarrow> State_Monad.get;
     (r, cs, si, rekey, again) \<leftarrow> check_conns cfg pick_open scookie (fl_cl w) si rekey False;
     case r of
       Some (rc, c) \<Rightarrow> check_done cfg scookie first rc c cs si rekey
     | None \<Rightarrow> do {
         (r, cs, si, rekey, again) \<leftarrow> check_conns cfg (pick_closed cfg) scookie cs si rekey again;
         case r of
           Some (rc, c) \<Rightarrow> check_done cfg scookie first rc c cs si rekey
         | None \<Rightarrow> do {
             f_set (fl_cl_update (\<lambda>_. cs));
             ret (if again then COSIGN_RETRY else COSIGN_ERROR, si, rekey) } } }"

text \<open>
  The loop of \<open>teardown_conn\<close> tests \<open>cur\<close>, which is never null, for \<open>*cur\<close>: past the last entry it follows a null
  pointer.
\<close>

fun teardown_conn :: "fconn list \<Rightarrow> fconn list outcome" where
  "teardown_conn [] = Undefined"
| "teardown_conn (c # cs) =
     (case teardown_conn cs of
        Ret ds \<Rightarrow> Ret (c\<lparr>conn_sn := None\<rparr> # ds) | Exit n \<Rightarrow> Exit n | Undefined \<Rightarrow> Undefined)"

end
