(* ===== verification/Cookiefs.thy ===== *)
theory Cookiefs
  imports Filter_conn
begin

text \<open>
  \<open>filters/common/cookiefs.c\<close>: whether a service cookie is good.  A copy of it in the filter's own database answers for a
  minute; after that, and for a new cookie, the daemon is asked and the copy written.  \<open>goto retry\<close> is a recursion
  with fuel: a turn is repeated where the copy could not be linked to its name.
\<close>

definition IPCHECK_NEVER :: int where "IPCHECK_NEVER = 0"
definition IPCHECK_INITIAL :: int where "IPCHECK_INITIAL = 1"
definition IPCHECK_ALWAYS :: int where "IPCHECK_ALWAYS = 2"
definition IDLETIME :: int where "IDLETIME = 60"

text \<open>\<open>acav_parse\<close> ends every word of the text with a NUL: what is left of the text for a later \<open>strcmp\<close>.\<close>

definition cut_words :: "string \<Rightarrow> string" where
  "cut_words s =
     (case acav_loop acav_alloc (s @ [NUL]) 0 [] False False of
        Ret (_, buf, _) \<Rightarrow> takeWhile (\<lambda>c. c \<noteq> NUL) buf
      | _ \<Rightarrow> s)"

text \<open>
  Whether the copy \<open>lsi\<close> is good enough, the copy as the check leaves it, and what of it has been copied: the factors before they
  are parsed.
\<close>

definition check_copy :: "filter_config \<Rightarrow> string \<Rightarrow> sinfo \<Rightarrow> sinfo \<Rightarrow> bool \<times> sinfo \<times> sinfo" where
  "check_copy cfg ipaddr lsi si =
     (if fc_checkip cfg = IPCHECK_ALWAYS \<and> ipaddr \<noteq> si_ipaddr lsi then (False, lsi, si)
      else
        let si = si\<lparr>si_factor := si_factor lsi, si_protocol := si_protocol lsi\<rparr>;
            parsed = (fc_reqfv cfg \<noteq> [] \<and> supports_factors (si_protocol lsi));
            av = argcargv (si_factor lsi);
            lsi = (if parsed then lsi\<lparr>si_factor := cut_words (si_factor lsi)\<rparr> else lsi)
        in if parsed \<and> \<not> list_all (\<lambda>f. f \<in> set av) (fc_reqfv cfg) then (False, lsi, si)
           else (True, lsi, si\<lparr>si_ipaddr := si_ipaddr lsi, si_user := si_user lsi, si_realm := si_realm lsi,
             si_krb5tkt := (if fc_krbtkt cfg \<noteq> 0 then si_krb5tkt lsi else si_krb5tkt si)\<rparr>))"

text \<open>What follows from the answer of the server.\<close>

datatype next_step = Answer int | Touch | Store

definition compare_copy :: "filter_config \<Rightarrow> string \<Rightarrow> bool \<Rightarrow> sinfo \<Rightarrow> sinfo \<Rightarrow> next_step" where
  "compare_copy cfg ipaddr newfile lsi si =
     (if fc_checkip cfg = IPCHECK_ALWAYS \<and> ipaddr \<noteq> si_ipaddr si then Answer COSIGN_RETRY
      else if \<not> newfile then
        if si_user si \<noteq> si_user lsi then Answer COSIGN_ERROR
        else if si_realm si \<noteq> si_realm lsi then Answer COSIGN_ERROR
        else if si_ipaddr si \<noteq> si_ipaddr lsi then Store
        else if supports_factors (si_protocol si) \<and> si_factor si \<noteq> si_factor lsi then Store
        else Touch
      else if fc_checkip cfg = IPCHECK_INITIAL \<and> ipaddr \<noteq> si_ipaddr si then Answer COSIGN_RETRY
      else Store)"

text \<open>The copy is written under its name; \<open>None\<close> where it could not be linked and the check is repeated.\<close>

definition store_copy :: "filter_config \<Rightarrow> bool \<Rightarrow> timeval \<Rightarrow> string \<Rightarrow> sinfo \<Rightarrow> int option filtering" where
  "store_copy cfg newfile tv path si = do {
     pid \<leftarrow> getpid;
     case db_tmp_path (fc_filterdb cfg) tv pid of
       None \<Rightarrow> ret (Some COSIGN_ERROR)
     | Some tmppath \<Rightarrow> do {
         ok \<leftarrow> open_tmp tmppath;
         if \<not> ok then ret (Some COSIGN_ERROR)
         else do {
           c \<leftarrow> os_fclose_write tmppath (scookie_text si);
           if failed c then do { _ \<leftarrow> os_unlink tmppath; ret (Some COSIGN_ERROR) }
           else if \<not> newfile then do {
             r \<leftarrow> os_rename tmppath path;
             ret (Some (if failed r then COSIGN_ERROR else COSIGN_OK)) }
           else do {
             r \<leftarrow> os_link tmppath path;
             _ \<leftarrow> os_unlink tmppath;
             ret (if failed r then None else Some COSIGN_OK) } } } }"

text \<open>The name of the copy: that of the new cookie after a REKEY.\<close>

definition copy_path :: "filter_config \<Rightarrow> rekeying \<Rightarrow> string \<Rightarrow> string option" where
  "copy_path cfg rekey path =
     (case rekey of
        Some (Some new) \<Rightarrow> mkcookiepath (Some (fc_filterdb cfg)) (fc_hashlen cfg) new MAXPATHLEN
      | _ \<Rightarrow> Some path)"

type_synonym validity = "int \<times> sinfo \<times> rekeying"

text \<open>From \<open>netcheck\<close> on: an answer, or the path for the next turn.\<close>

definition net_turn ::
  "filter_config \<Rightarrow> string \<Rightarrow> string \<Rightarrow> timeval \<Rightarrow> bool \<Rightarrow> sinfo \<Rightarrow> string \<Rightarrow> rekeying \<Rightarrow> sinfo \<Rightarrow>
     (int option \<times> string \<times> sinfo \<times> rekeying) filtering" where
  "net_turn cfg cookie ipaddr tv newfile lsi path rekey si = do {
     (rc, si, rekey) \<leftarrow> cosign_check_cookie cfg cookie rekey si newfile;
     if rc \<noteq> COSIGN_OK then ret (Some rc, path, si, rekey)
     else
       let ip_ok = (fc_checkip cfg \<noteq> IPCHECK_ALWAYS \<or> ipaddr = si_ipaddr si);
           si = (if ip_ok \<and> \<not> newfile \<and> fc_krbtkt cfg \<noteq> 0 then si\<lparr>si_krb5tkt := si_krb5tkt lsi\<rparr> else si)
       in case compare_copy cfg ipaddr newfile lsi si of
            Answer rc \<Rightarrow> ret (Some rc, path, si, rekey)
          | Touch \<Rightarrow> do { _ \<leftarrow> os_utime path; ret (Some COSIGN_OK, path, si, rekey) }
          | Store \<Rightarrow>
              (case copy_path cfg rekey path of
                 None \<Rightarrow> ret (Some COSIGN_ERROR, path, si, rekey)
               | Some path \<Rightarrow> do {
                   r \<leftarrow> store_copy cfg newfile tv path si;
                   ret (r, path, si, rekey) }) }"

text \<open>From \<open>retry\<close> on.\<close>

primrec cookie_turns ::
  "filter_config \<Rightarrow> string \<Rightarrow> string \<Rightarrow> timeval \<Rightarrow> nat \<Rightarrow> string \<Rightarrow> rekeying \<Rightarrow> sinfo \<Rightarrow> validity outcome option filtering" where
  "cookie_turns cfg cookie ipaddr tv 0 path rekey si = ret None"
| "cookie_turns cfg cookie ipaddr tv (Suc n) path rekey si = do {
     r \<leftarrow> read_scookie path;
     case r of
       Undefined \<Rightarrow> ret (Some Undefined)
     | Exit c \<Rightarrow> ret (Some (Exit c))
     | Ret (newfile, lsi) \<Rightarrow>
         if newfile < 0 then ret (Some (Ret (COSIGN_ERROR, si, rekey)))
         else
           let (good, lsi, si) = (if newfile = 0 \<and> tv_sec tv - si_itime lsi \<le> IDLETIME then check_copy cfg ipaddr lsi si
                                  else (False, lsi, si))
           in if good then ret (Some (Ret (COSIGN_OK, si, rekey)))
              else if \<not> fc_listed cfg then ret (Some Undefined)
              else do {
                (rc, path, si, rekey) \<leftarrow> net_turn cfg cookie ipaddr tv (newfile \<noteq> 0) lsi path rekey si;
                case rc of
                  Some rc \<Rightarrow> ret (Some (Ret (rc, si, rekey)))
                | None \<Rightarrow> cookie_turns cfg cookie ipaddr tv n path rekey si } }"

definition cosign_cookie_valid ::
  "filter_config \<Rightarrow> string \<Rightarrow> rekeying \<Rightarrow> string \<Rightarrow> nat \<Rightarrow> validity outcome option filtering" where
  "cosign_cookie_valid cfg cookie rekey ipaddr fuel = do {
     b \<leftarrow> fault;
     if b then ret (Some (Ret (COSIGN_ERROR, sinfo_zero, rekey)))
     else case mkcookiepath (Some (fc_filterdb cfg)) (fc_hashlen cfg) cookie MAXPATHLEN of
       None \<Rightarrow> ret (Some (Ret (COSIGN_ERROR, sinfo_zero, rekey)))
     | Some path \<Rightarrow> do {
         t \<leftarrow> gettimeofday;
         case t of
           None \<Rightarrow> ret (Some (Ret (COSIGN_ERROR, sinfo_zero, rekey)))
         | Some tv \<Rightarrow> cookie_turns cfg cookie ipaddr tv fuel path rekey sinfo_zero } }"

section \<open>What the cut text is taken for\<close>

text \<open>
  A copy with two factors that lacks the one required: the server's answer, the same two factors, is compared with the first factor
  alone, and the copy is written again where it would only have to be touched.
\<close>

lemma copy_written_again:
  assumes "fc_checkip cfg = IPCHECK_NEVER" and "fc_reqfv cfg = [''c'']" and "si_factor lsi = ''a b''" and "si_protocol lsi = 2"
    and "check_copy cfg ipaddr lsi si = (good, lsi', si')"
  shows "\<not> good \<and> si_factor lsi' = ''a'' \<and> compare_copy cfg ipaddr False lsi lsi = Touch \<and>
    compare_copy cfg ipaddr False lsi' lsi = Store"
proof -
  have av: "argcargv ''a b'' = [''a'', ''b'']"
    using argcargv_join [of "[''a'', ''b'']"] by (simp add: word_ok_def white_def ctrl_defs)
  have cut: "cut_words ''a b'' = ''a''" by code_simp
  have "IPCHECK_NEVER \<noteq> IPCHECK_ALWAYS" by (simp add: IPCHECK_NEVER_def IPCHECK_ALWAYS_def)
  then show ?thesis
    using assms by (auto simp: check_copy_def compare_copy_def Let_def av cut supports_factors_def)
qed

end
