(* ===== verification/Filter_facts.thy ===== *)
theory Filter_facts
  imports Cookiefs Replica
begin

text \<open>
  What a filter's answer means: which factors it has seen, what it learns from the daemon's replies, and that it comes to an
  answer.
\<close>

section \<open>Factors\<close>

text \<open>What a required factor may be matched by.\<close>

definition stands_for :: "filter_config \<Rightarrow> string \<Rightarrow> string \<Rightarrow> bool" where
  "stands_for cfg f g \<longleftrightarrow>
     f = g \<or> fc_fake cfg = 1 \<and> (\<exists>sfx. fc_suffix cfg = Some sfx \<and> suffix_match sfx f g \<and> g = f @ sfx)"

lemma suffix_match_append: "suffix_match sfx f g \<Longrightarrow> g = f @ sfx"
proof -
  assume "suffix_match sfx f g"
  then obtain p where p: "strstr g sfx = Some p" "length p = length sfx" "take (length g - length p) g = f"
    by (auto simp: suffix_match_def split: option.splits)
  then obtain a where "g = a @ p" "starts_with p sfx" using strstr_SomeD by blast
  moreover from this p(2) have "p = sfx" by (auto simp: starts_with_def)
  ultimately show "g = f @ sfx" using p(3) by simp
qed

lemma find_factor_Has: "find_factor cfg f gs = Has \<Longrightarrow> \<exists>g \<in> set gs. stands_for cfg f g"
  by (induction gs)
    (auto simp: stands_for_def dest: suffix_match_append split: if_splits option.splits)

lemma find_factors_Has:
  "find_factors cfg fs gs = Has \<Longrightarrow> list_all (\<lambda>f. list_ex (stands_for cfg f) gs) fs"
  by (induction fs) (auto simp: list_ex_iff dest: find_factor_Has split: scan.splits)

definition reply_factors :: "bool \<Rightarrow> string \<Rightarrow> string list" where
  "reply_factors rk line =
     (let av = argcargv line in drop 3 (take (if rk then length av - 1 else length av) av))"

text \<open>
  A filter takes a reply of the current protocol for good only where it names every factor the configuration requires: as
  such, or with the configured suffix where suffixes are allowed.
\<close>

lemma required_factors:
  assumes "read_check cfg rk proto line si = (COSIGN_OK, si', new)" and "supports_factors proto"
  shows "list_all (\<lambda>f. list_ex (stands_for cfg f) (reply_factors rk line)) (fc_reqfv cfg)"
proof -
  let ?av = "argcargv line"
  let ?mf = "if rk then length ?av - 1 else length ?av"
  have "COSIGN_OK \<noteq> COSIGN_ERROR" "COSIGN_OK \<noteq> COSIGN_RETRY" by (simp_all add: COSIGN_OK_def COSIGN_ERROR_def COSIGN_RETRY_def)
  then have "find_factors cfg (fc_reqfv cfg) (drop 3 (take ?mf ?av)) = Has"
    using assms
    by (auto simp: read_check_def Let_def collect_factors_def split: if_splits scan.splits prod.splits option.splits)
  then show ?thesis using find_factors_Has by (auto simp: reply_factors_def Let_def)
qed

section \<open>What the daemon's reply tells\<close>

lemma cat_factors_join: "length (join (s # gs)) < 256 \<Longrightarrow> cat_factors s gs = (True, join (s # gs))"
proof (induction gs arbitrary: s)
  case Nil
  then show ?case by simp
next
  case (Cons g gs)
  have j: "join ((s @ CHR '' '' # g) # gs) = join (s # g # gs)" by (cases gs) simp_all
  have "length (s @ CHR '' '' # g) \<le> length (join (s # g # gs))" by (cases gs) simp_all
  then show ?case using Cons.IH [of "s @ CHR '' '' # g"] Cons.prems unfolding j by simp
qed

lemma argcargv_join_blank: "list_all word_ok ws \<Longrightarrow> argcargv (join ws @ '' '') = ws"
proof (induction ws rule: join.induct)
  case 1
  then show ?case by (simp add: argcargv_white argcargv_nil white_def)
next
  case (2 w)
  then show ?case using argcargv_word_white [of w "CHR '' ''" "[]"] by (simp add: white_def argcargv_nil)
next
  case (3 w v ws)
  then show ?case using argcargv_word_white [of w "CHR '' ''" "join (v # ws) @ '' ''"] by (simp add: white_def)
qed

lemma fmt_live_code:
  assumes "supports_factors p" and "ci_realm ci = join gs" and "gs \<noteq> []" and "- (2 ^ 31) < status" and "status < 2 ^ 31"
  shows "live_msg p status ci [] = (join (show_int status # ci_ipaddr_cur ci # ci_user ci # gs) @ '' '') @ crlf"
proof -
  have "conv_d 0 False status = Some (show_int status)"
    using assms(4,5) to_int_id [of status] by (simp add: conv_d_def width_of_def to_int_def Let_def)
  moreover have "join (a # gs) = a @ CHR '' '' # join gs" for a using assms(3) by (cases gs) simp_all
  ultimately show ?thesis
    using assms(1,2) by (simp add: live_msg_def fmt_def snet_conv_def ctrl_defs crlf_def)
qed

lemma fmt_live:
  assumes "supports_factors p" and "ci_realm ci = join gs" and "gs \<noteq> []"
  shows "live_msg p 231 ci [] = (join (''231'' # ci_ipaddr_cur ci # ci_user ci # gs) @ '' '') @ crlf"
  using fmt_live_code [OF assms, of 231] by (simp add: show_int_def show_nat.simps)

text \<open>What a filter knows after a login of \<open>ci\<close> with the factors \<open>gs\<close>.\<close>

definition learned :: "int \<Rightarrow> cinfo \<Rightarrow> string list \<Rightarrow> sinfo \<Rightarrow> sinfo" where
  "learned p ci gs si = si\<lparr>si_protocol := p, si_ipaddr := ci_ipaddr_cur ci, si_user := ci_user ci, si_realm := hd gs,
     si_factor := join gs, si_krb5tkt := []\<rparr>"

lemma check_reply_read:
  assumes "supports_factors p" and "ci_realm ci = join gs" and "gs \<noteq> []"
    and "list_all word_ok (ci_ipaddr_cur ci # ci_user ci # gs)" and "length (ci_ipaddr_cur ci) < 256"
    and "length (ci_user ci) < 130" and "length (join gs) < 256" and "find_factors cfg (fc_reqfv cfg) gs = Has"
  shows "\<exists>line. check_msg Live ''CHECK'' p 231 ci = line @ crlf \<and> is_class CHR ''2'' line \<and>
    read_check cfg False p line si = (COSIGN_OK, learned p ci gs si, None)"
proof -
  let ?ws = "''231'' # ci_ipaddr_cur ci # ci_user ci # gs"
  let ?line = "join ?ws @ '' ''"
  obtain g hs where g: "gs = g # hs" using assms(3) by (cases gs) auto
  have "word_ok ''231''" by (simp add: word_ok_def white_def ctrl_defs)
  then have av: "argcargv ?line = ?ws" using assms(4) by (intro argcargv_join_blank) simp
  have hd: "length g < 256" using assms(7) length_first_join [of gs] by (simp add: g)
  have cat: "cat_factors g hs = (True, join gs)" using cat_factors_join assms(7) by (simp add: g)
  have "check_msg Live ''CHECK'' p 231 ci = ?line @ crlf" using fmt_live [OF assms(1-3)] by simp
  moreover have "is_class CHR ''2'' ?line" by (simp add: is_class_def)
  moreover have "read_check cfg False p ?line si = (COSIGN_OK, learned p ci gs si, None)"
    using assms(1,5-8) cat hd unfolding read_check_def av
    by (simp add: Let_def collect_factors_def g learned_def numeral_3_eq_3 eval_nat_numeral del: join.simps)
  ultimately show ?thesis by blast
qed

text \<open>
  The reply the daemon gives to CHECK of a service cookie that is in use tells the filter whose it is: for words that fit
  the filter's arrays, and where the configuration's factors are among those of the login, the filter accepts it with the
  address, the user and all the factors of the login, the first of them as the realm.
\<close>

lemma filter_learns_login:
  assumes "supports_factors p" and "ci_realm ci = join gs" and "gs \<noteq> []"
    and "list_all word_ok (ci_ipaddr_cur ci # ci_user ci # gs)" and "length (ci_ipaddr_cur ci) < 256"
    and "length (ci_user ci) < 130" and "length (join gs) < 256" and "find_factors cfg (fc_reqfv cfg) gs = Has"
  shows "\<exists>line. check_msg Live ''CHECK'' p 231 ci = line @ crlf \<and> is_class CHR ''2'' line \<and>
    read_check cfg False p line si = (COSIGN_OK, learned p ci gs si, None)"
  using assms by (rule check_reply_read)

section \<open>Asking the first server\<close>

text \<open>The next reply on the connection is the line \<open>l\<close>.\<close>

definition answers :: "peer \<Rightarrow> string \<Rightarrow> bool" where
  "answers p l \<longleftrightarrow> c_faults p = [] \<and> sn_rdata (c_sn p) = [] \<and> sn_rstate (c_sn p) = SNET_BOL \<and>
     (\<exists>ls. sn_net (c_sn p) = reading (l # ls)) \<and> status_line l \<and> sn_rbuflen (c_sn p) = SNET_BUFLEN"

lemma run_ask: "answers p l \<Longrightarrow> \<exists>p'. run_state (ask cmd scookie) p = (Some l, p')"
proof -
  assume a: "answers p l"
  then obtain ls where ls: "sn_net (c_sn p) = reading (l # ls)" by (auto simp: answers_def)
  let ?p = "p\<lparr>c_faults := tl (c_faults p), c_sent := c_sent p @ [fmt (''%s %s'' @ crlf) [FS cmd, FS scookie]]\<rparr>"
  have w: "run_state (c_write ''%s %s'' [FS cmd, FS scookie]) p = (True, ?p)" using a by (simp add: c_write_def answers_def)
  have "\<exists>p'. run_state c_reply ?p = (Some l, p')"
    using c_reply_one [of ?p l ls] a ls by (auto simp: answers_def)
  then show ?thesis by (auto simp: ask_def w simp del: append.simps)
qed

lemma run_f_talk: "run_state m (fl_peer w) = (r, p) \<Longrightarrow> run_state (f_talk m) w = (r, w\<lparr>fl_peer := p\<rparr>)"
  by (simp add: f_talk_def)

text \<open>Counting an answer and changing the list of connections leave the files alone.\<close>

definition same_disk :: "filter_state \<Rightarrow> filter_state \<Rightarrow> bool" where
  "same_disk w w' \<longleftrightarrow> os_fs w' = os_fs w \<and> os_faults w' = os_faults w \<and> os_now w' = os_now w \<and> os_pid w' = os_pid w"

lemma run_f_tick:
  assumes "os_faults w = []" and "\<And>f. same_disk w (upd f w)"
  shows "\<exists>w'. run_state (f_tick upd) w = ((), w') \<and> same_disk w w'"
  using assms by (simp add: f_tick_def f_set_def os_simps)

lemma same_disk_upds [simp]:
  "same_disk w (fl_pass_update f w)" "same_disk w (fl_fail_update f w)" "same_disk w (fl_unknown_update f w)"
  "same_disk w (fl_peer_update g w)" "same_disk w (fl_cl_update h w)"
  by (simp_all add: same_disk_def)

lemma same_disk_trans: "same_disk u v \<Longrightarrow> same_disk v w \<Longrightarrow> same_disk u w"
  by (simp add: same_disk_def)

lemma netcheck_refused:
  assumes "answers (fl_peer w) l" and "is_class CHR ''4'' l" and "os_faults w = []"
  shows "\<exists>w'. run_state (netcheck_cookie cfg scookie rekey si c) w = ((COSIGN_LOGGED_OUT, si, rekey), w') \<and> same_disk w w'"
proof -
  let ?cmd = "if rekey \<noteq> None \<and> conn_supports_rekey c then ''REKEY'' else ''CHECK''"
  obtain p' where "run_state (ask ?cmd scookie) (fl_peer w) = (Some l, p')" using run_ask [OF assms(1)] by blast
  then have t: "run_state (f_talk (ask ?cmd scookie)) w = (Some l, w\<lparr>fl_peer := p'\<rparr>)" by (rule run_f_talk)
  obtain w' where w': "run_state (f_tick fl_fail_update) (w\<lparr>fl_peer := p'\<rparr>) = ((), w')" "same_disk (w\<lparr>fl_peer := p'\<rparr>) w'"
    using run_f_tick [of "w\<lparr>fl_peer := p'\<rparr>" fl_fail_update] assms(3) by auto
  have "\<not> is_class CHR ''2'' l" using assms(2) by (auto simp: is_class_def)
  then show ?thesis
    using t w' assms(2) by (simp add: netcheck_cookie_def Let_def same_disk_def)
qed

lemma netcheck_accepted:
  assumes "answers (fl_peer w) l" and "is_class CHR ''2'' l" and "os_faults w = []"
    and "read_check cfg False (conn_proto c) l si = (rc, si', None)"
  shows "\<exists>w'. run_state (netcheck_cookie cfg scookie None si c) w = ((rc, si', None), w') \<and> same_disk w w'"
proof -
  obtain p' where "run_state (ask ''CHECK'' scookie) (fl_peer w) = (Some l, p')" using run_ask [OF assms(1)] by blast
  then have t: "run_state (f_talk (ask ''CHECK'' scookie)) w = (Some l, w\<lparr>fl_peer := p'\<rparr>)" by (rule run_f_talk)
  obtain w' where w': "run_state (f_tick fl_pass_update) (w\<lparr>fl_peer := p'\<rparr>) = ((), w')" "same_disk (w\<lparr>fl_peer := p'\<rparr>) w'"
    using run_f_tick [of "w\<lparr>fl_peer := p'\<rparr>" fl_pass_update] assms(3) by auto
  then show ?thesis using t assms(2,4) by (simp add: netcheck_cookie_def Let_def same_disk_def)
qed

text \<open>\<open>cosign_check_cookie\<close> where the first connection is open and its server gives a definite answer.\<close>

lemma check_cookie_refused:
  assumes "fl_cl w = c # cs" and "conn_sn c = Some p" and "answers p l" and "is_class CHR ''4'' l" and "os_faults w = []"
  shows "\<exists>w'. run_state (cosign_check_cookie cfg scookie rekey si first) w = ((COSIGN_RETRY, si, rekey), w') \<and> same_disk w w'"
proof -
  let ?w = "fl_peer_update (\<lambda>_. p) w"
  obtain v where v: "run_state (netcheck_cookie cfg scookie rekey si c) ?w = ((COSIGN_LOGGED_OUT, si, rekey), v)" "same_disk ?w v"
    using netcheck_refused [of ?w l cfg scookie rekey si c] assms(3-5) by auto
  have "same_disk w v" using v(2) by (simp add: same_disk_def)
  then show ?thesis
    using assms(1,2) v
    by (simp add: cosign_check_cookie_def pick_open_def check_conn_def f_set_def check_done_def COSIGN_LOGGED_OUT_def
        COSIGN_ERROR_def same_disk_def)
qed

lemma check_cookie_accepted:
  assumes "fl_cl w = c # cs" and "conn_sn c = Some p" and "answers p l" and "is_class CHR ''2'' l" and "os_faults w = []"
    and "read_check cfg False (conn_proto c) l si = (COSIGN_OK, si', None)" and "fc_proxy cfg \<noteq> 1" and "fc_krbtkt cfg \<noteq> 1"
  shows "\<exists>w'. run_state (cosign_check_cookie cfg scookie None si first) w = ((COSIGN_OK, si', None), w') \<and> same_disk w w'"
proof -
  let ?w = "fl_peer_update (\<lambda>_. p) w"
  obtain v where v: "run_state (netcheck_cookie cfg scookie None si c) ?w = ((COSIGN_OK, si', None), v)" "same_disk ?w v"
    using netcheck_accepted [of ?w l cfg c si COSIGN_OK si' scookie] assms(3-6) by auto
  have "same_disk w v" using v(2) by (simp add: same_disk_def)
  then show ?thesis
    using assms(1,2,7,8) v
    by (simp add: cosign_check_cookie_def pick_open_def check_conn_def f_set_def check_done_def after_ok_def on_front_def
        COSIGN_LOGGED_OUT_def COSIGN_OK_def COSIGN_ERROR_def same_disk_def)
qed

section \<open>A visit\<close>

lemma turn_codes [simp]: "COSIGN_RETRY \<noteq> COSIGN_OK" "COSIGN_ERROR \<noteq> COSIGN_OK" "IPCHECK_ALWAYS \<noteq> IPCHECK_INITIAL"
  by (simp_all add: COSIGN_RETRY_def COSIGN_OK_def COSIGN_ERROR_def IPCHECK_ALWAYS_def IPCHECK_INITIAL_def)

text \<open>
  C24.  A logout reaches the web servers within a minute: where the filter has no copy of a service cookie, or one that is older
  than that, and the first server of its list refuses the cookie, the visit is not let in, and the filter's files stay as they
  are.
\<close>

theorem logout_reaches_filter:
  assumes "os_faults w = []" and "mkcookiepath (Some (fc_filterdb cfg)) (fc_hashlen cfg) cookie MAXPATHLEN = Some path"
    and "parse_scookie (os_fs w path) = Ret (nf, lsi)"
    and "nf = 1 \<or> nf = 0 \<and> IDLETIME < tv_sec (os_now w) - si_itime lsi"
    and "fl_cl w = c # cs" and "conn_sn c = Some p" and "answers p l" and "is_class CHR ''4'' l" and "fc_listed cfg"
  shows "\<exists>w'. run_state (cosign_cookie_valid cfg cookie rekey ipaddr (Suc n)) w =
      (Some (Ret (COSIGN_RETRY, sinfo_zero, rekey)), w') \<and> os_fs w' = os_fs w"
proof -
  obtain w' where w': "run_state (cosign_check_cookie cfg cookie rekey sinfo_zero (nf \<noteq> 0)) w = ((COSIGN_RETRY, sinfo_zero, rekey), w')"
    "same_disk w w'" using check_cookie_refused [OF assms(5-8,1)] by blast
  have "\<not> nf < 0" "\<not> (nf = 0 \<and> tv_sec (os_now w) - si_itime lsi \<le> IDLETIME)" using assms(4) by auto
  then show ?thesis
    using assms(1-3,9) w'
    by (auto simp: cosign_cookie_valid_def os_simps Let_def net_turn_def same_disk_def)
qed

text \<open>
  For a minute the filter's copy answers: no server is asked, no file changes, and the visit has the user, the realm and the
  factors of the copy.  The factors the configuration requires are looked for only in a copy of protocol 2: a copy of the
  current protocol 3 lets every visit in.
\<close>

lemma fresh_copy_answers:
  assumes "os_faults w = []" and "mkcookiepath (Some (fc_filterdb cfg)) (fc_hashlen cfg) cookie MAXPATHLEN = Some path"
    and "os_fs w path = Some \<lparr>f_data = scookie_text si, f_mode = m, f_mtime = t\<rparr>" and "sinfo_ok si"
    and "tv_sec (os_now w) - t \<le> IDLETIME" and "fc_checkip cfg \<noteq> IPCHECK_ALWAYS \<or> ipaddr = si_ipaddr si"
    and "si_protocol si \<noteq> 2 \<or> list_all (\<lambda>f. f \<in> set (argcargv (si_factor si))) (fc_reqfv cfg)"
  shows "\<exists>si'. run_state (cosign_cookie_valid cfg cookie rekey ipaddr (Suc n)) w = (Some (Ret (COSIGN_OK, si', rekey)), w) \<and>
    si_user si' = si_user si \<and> si_realm si' = si_realm si \<and> si_ipaddr si' = si_ipaddr si \<and>
    si_factor si' = (if supports_factors (si_protocol si) then si_factor si else [])"
proof -
  let ?lsi = "kept_protocol si t"
  have "parse_scookie (os_fs w path) = Ret (0, ?lsi)"
  proof -
    have "parse_scookie_lines (scookie_file si) (sinfo_zero\<lparr>si_itime := t\<rparr>) = Ret (0, ?lsi)"
      using parse_scookie_file [OF assms(4)] .
    then show ?thesis using assms(3) by (simp add: parse_scookie_def lines_of_scookie [OF assms(4)])
  qed
  moreover obtain lsi' si' where "check_copy cfg ipaddr ?lsi sinfo_zero = (True, lsi', si')" "si_user si' = si_user si"
    "si_realm si' = si_realm si" "si_ipaddr si' = si_ipaddr si"
    "si_factor si' = (if supports_factors (si_protocol si) then si_factor si else [])"
  proof -
    have no: "\<not> (fc_checkip cfg = IPCHECK_ALWAYS \<and> ipaddr \<noteq> si_ipaddr ?lsi)"
      "\<not> (fc_reqfv cfg \<noteq> [] \<and> supports_factors (si_protocol ?lsi) \<and>
         \<not> list_all (\<lambda>f. f \<in> set (argcargv (si_factor ?lsi))) (fc_reqfv cfg))"
      using assms(6,7) by (auto simp: kept_protocol_def supports_factors_def)
    show ?thesis
      by (rule that, simp only: check_copy_def no conj_assoc if_False Let_def) (simp_all add: kept_protocol_def)
  qed
  ultimately show ?thesis
    using assms(1,2,5) by (auto simp: cosign_cookie_valid_def os_simps Let_def kept_protocol_def)
qed

section \<open>The first visit\<close>

lemma db_path_split:
  assumes "mkcookiepath (Some d) h c n = Some path"
  obtains r where "path = d @ ''/'' @ r" and "CHR ''='' \<in> set r"
proof -
  have "cookie_ok c" "path = cookie_dir (Some d) h c @ c" using assms by (simp_all add: mkcookiepath_iff)
  moreover from this have "CHR ''='' \<in> set c" by (auto simp: cookie_ok_def)
  ultimately show ?thesis
    by (intro that [of "(if h = 0 then [] else take (nat h) (tl (dropWhile (\<lambda>c. c \<noteq> CHR ''='') c)) @ ''/'') @ c"])
      (simp_all add: cookie_dir_def)
qed

lemma db_tmp_not_path:
  assumes "mkcookiepath (Some d) h c n = Some path" and "db_tmp_path d tv pid = Some tmp"
  shows "tmp \<noteq> path"
proof
  assume "tmp = path"
  obtain r where r: "path = d @ ''/'' @ r" "CHR ''='' \<in> set r" using assms(1) by (rule db_path_split)
  have "tmp = d @ ''/'' @ (show_hex (u32 (tv_sec tv)) @ show_hex (u32 (tv_usec tv)) @ ''.'' @ show_int (to_int pid))"
    using assms(2) by (simp add: db_tmp_path_def)
  then show False using r \<open>tmp = path\<close> hex_no_equals int_no_equals by auto
qed

definition copy_file :: "sinfo \<Rightarrow> int \<Rightarrow> inode" where
  "copy_file si t = \<lparr>f_data = scookie_text si, f_mode = mode_0644, f_mtime = t\<rparr>"

lemma run_store_copy:
  assumes "os_faults w = []" and "db_tmp_path (fc_filterdb cfg) tv (os_pid w) = Some tmp" and "os_fs w tmp = None"
    and "os_fs w path = None" and "tmp \<noteq> path"
  shows "run_state (store_copy cfg True tv path si) w =
    (Some COSIGN_OK, w\<lparr>os_fs := (os_fs w)(path \<mapsto> copy_file si (tv_sec (os_now w)))\<rparr>)"
  using assms
  by (auto simp: store_copy_def open_tmp_def os_simps copy_file_def fun_eq_iff intro!: filter_state.equality)

lemma turn_new:
  assumes "os_faults w = []" and "os_fs w path = None"
    and "mkcookiepath (Some (fc_filterdb cfg)) (fc_hashlen cfg) cookie MAXPATHLEN = Some path"
    and "db_tmp_path (fc_filterdb cfg) tv (os_pid w) = Some tmp" and "os_fs w tmp = None"
    and "run_state (cosign_check_cookie cfg cookie None si True) w = ((COSIGN_OK, si', None), v)" and "same_disk w v"
    and "fc_checkip cfg = IPCHECK_NEVER \<or> ipaddr = si_ipaddr si'"
  shows "run_state (net_turn cfg cookie ipaddr tv True lsi path None si) w =
    ((Some COSIGN_OK, path, si', None), v\<lparr>os_fs := (os_fs v)(path \<mapsto> copy_file si' (tv_sec (os_now v)))\<rparr>)"
proof -
  have "compare_copy cfg ipaddr True lsi si' = Store"
    using assms(8) by (auto simp: compare_copy_def IPCHECK_NEVER_def IPCHECK_ALWAYS_def IPCHECK_INITIAL_def)
  moreover have "run_state (store_copy cfg True tv path si') v =
      (Some COSIGN_OK, v\<lparr>os_fs := (os_fs v)(path \<mapsto> copy_file si' (tv_sec (os_now v)))\<rparr>)"
    using assms(1,2,4,5,7) db_tmp_not_path [OF assms(3,4)] by (intro run_store_copy) (simp_all add: same_disk_def)
  ultimately show ?thesis
    using assms(6) by (simp add: net_turn_def copy_path_def Let_def)
qed

text \<open>
  C23.  The first visit after a login: the filter has no copy of the service cookie, asks the first server of its list, and that
  server replies to CHECK as the daemon does for a cookie in use.  The visit is let in with the user, the address and the
  factors of the login, and the filter's database gains exactly the copy of the cookie.
\<close>

theorem visit_after_login:
  assumes "os_faults w = []" and "mkcookiepath (Some (fc_filterdb cfg)) (fc_hashlen cfg) cookie MAXPATHLEN = Some path"
    and "os_fs w path = None" and "db_tmp_path (fc_filterdb cfg) (os_now w) (os_pid w) = Some tmp" and "os_fs w tmp = None"
    and "fl_cl w = c # cs" and "conn_sn c = Some p" and "answers p l"
    and "check_msg Live ''CHECK'' (conn_proto c) 231 ci = l @ crlf"
    and "supports_factors (conn_proto c)" and "ci_realm ci = join gs" and "gs \<noteq> []"
    and "list_all word_ok (ci_ipaddr_cur ci # ci_user ci # gs)" and "length (ci_ipaddr_cur ci) < 256"
    and "length (ci_user ci) < 130" and "length (join gs) < 256" and "find_factors cfg (fc_reqfv cfg) gs = Has"
    and "fc_proxy cfg \<noteq> 1" and "fc_krbtkt cfg \<noteq> 1"
    and "fc_checkip cfg = IPCHECK_NEVER \<or> ipaddr = ci_ipaddr_cur ci" and "fc_listed cfg"
  shows "\<exists>w'. run_state (cosign_cookie_valid cfg cookie None ipaddr (Suc n)) w =
      (Some (Ret (COSIGN_OK, learned (conn_proto c) ci gs sinfo_zero, None)), w') \<and>
    os_fs w' = (os_fs w)(path \<mapsto> copy_file (learned (conn_proto c) ci gs sinfo_zero) (tv_sec (os_now w)))"
proof -
  let ?si = "learned (conn_proto c) ci gs sinfo_zero"
  obtain line where line: "check_msg Live ''CHECK'' (conn_proto c) 231 ci = line @ crlf" "is_class CHR ''2'' line"
    "read_check cfg False (conn_proto c) line sinfo_zero = (COSIGN_OK, ?si, None)"
    using check_reply_read [OF assms(10-17)] by blast
  then have l: "line = l" using assms(9) by (metis append_same_eq)
  obtain v where v: "run_state (cosign_check_cookie cfg cookie None sinfo_zero True) w = ((COSIGN_OK, ?si, None), v)" "same_disk w v"
    using check_cookie_accepted [OF assms(6-8) line(2) [unfolded l] assms(1) line(3) [unfolded l] assms(18,19)] by blast
  have "fc_checkip cfg = IPCHECK_NEVER \<or> ipaddr = si_ipaddr ?si" using assms(20) by (simp add: learned_def)
  from turn_new [OF assms(1,3,2,4,5) v this, of sinfo_zero] show ?thesis
    using assms(1-3,21) v(2)
    by (auto simp: cosign_cookie_valid_def os_simps parse_scookie_def Let_def same_disk_def)
qed

section \<open>A web server\<close>

definition sample_filter_config :: "string list \<Rightarrow> filter_config" where
  "sample_filter_config fv =
     \<lparr>fc_host = ''db'', fc_reqfv = fv, fc_suffix = None, fc_fake = 0, fc_checkip = IPCHECK_NEVER, fc_filterdb = ''/f'',
      fc_hashlen = 0, fc_proxydb = ''/p'', fc_tkt_prefix = ''/t'', fc_proxy = 0, fc_krbtkt = 0, fc_listed = True\<rparr>"

definition peer_with :: "string \<Rightarrow> peer" where
  "peer_with l =
     \<lparr>c_sn = snet_attach (reading [l]) 0, c_sent = [], c_tls = \<lparr>hs_rc = 0, hs_peer = None, hs_net = []\<rparr>, c_faults = []\<rparr>"

definition sample_filter :: "(string \<Rightarrow> inode option) \<Rightarrow> string \<Rightarrow> filter_state" where
  "sample_filter fs l =
     \<lparr>os_fs = fs, os_now = \<lparr>tv_sec = 1000, tv_usec = 0\<rparr>, os_pid = 7, os_faults = [], os_pool = [],
      fl_cl = [\<lparr>conn_sn = Some (peer_with l), conn_capa = 0, conn_proto = 3\<rparr>], fl_attempts = [], fl_peer = peer_with l,
      fl_pass = sample_rate, fl_fail = sample_rate, fl_unknown = sample_rate\<rparr>"

lemma sample_filter_path: "mkcookiepath (Some ''/f'') 0 ''cosign-www=cd'' MAXPATHLEN = Some ''/f/cosign-www=cd''"
  by (simp add: mkcookiepath_def MAXCOOKIELEN_def MAXPATHLEN_def)

lemma peer_answers: "status_line l \<Longrightarrow> answers (peer_with l) l"
  by (auto simp: answers_def peer_with_def snet_attach_def)

definition live_line :: string where
  "live_line = ''231 10.0.0.1 bob umich ''"

lemma sample_live_reply:
  "check_msg Live ''CHECK'' 3 231 sample_cinfo = live_line @ crlf" "supports_factors 3" "status_line live_line"
  "ci_realm sample_cinfo = join [''umich'']" "ci_ipaddr_cur sample_cinfo = ''10.0.0.1''" "ci_user sample_cinfo = ''bob''"
  "list_all word_ok [''10.0.0.1'', ''bob'', ''umich'']"
proof -
  show f: "supports_factors 3" by (simp add: supports_factors_def)
  show "ci_realm sample_cinfo = join [''umich'']" "ci_ipaddr_cur sample_cinfo = ''10.0.0.1''" "ci_user sample_cinfo = ''bob''"
    by (simp_all add: sample_cinfo_def)
  then show "check_msg Live ''CHECK'' 3 231 sample_cinfo = live_line @ crlf"
    using fmt_live [OF f, of sample_cinfo "[''umich'']"] by (simp add: live_line_def)
  show "status_line live_line"
    by (simp add: status_line_def live_line_def plain_def ctrl_defs isdigit_def code_of_def SNET_BUFLEN_def)
  show "list_all word_ok [''10.0.0.1'', ''bob'', ''umich'']" by (simp add: word_ok_def white_def ctrl_defs)
qed

lemma sample_learned:
  "\<exists>line. check_msg Live ''CHECK'' 3 231 sample_cinfo = line @ crlf \<and> is_class CHR ''2'' line \<and>
     read_check (sample_filter_config [''umich'']) False 3 line sinfo_zero =
       (COSIGN_OK, learned 3 sample_cinfo [''umich''] sinfo_zero, None)"
  using check_reply_read [OF sample_live_reply(2,4), of "sample_filter_config [''umich'']" sinfo_zero] sample_live_reply(5-7)
  by (simp add: sample_filter_config_def)

lemma filter_learns_login_witness:
  "\<exists>line. read_check (sample_filter_config [''umich'']) False 3 line sinfo_zero =
     (COSIGN_OK, learned 3 sample_cinfo [''umich''] sinfo_zero, None)"
  using filter_learns_login [OF sample_live_reply(2,4), of "sample_filter_config [''umich'']" sinfo_zero] sample_live_reply(5-7)
  by (auto simp: sample_filter_config_def)

lemma required_factors_witness:
  "\<exists>line. list_all (\<lambda>f. list_ex (stands_for (sample_filter_config [''umich'']) f) (reply_factors False line)) [''umich'']"
proof -
  obtain line where "read_check (sample_filter_config [''umich'']) False 3 line sinfo_zero =
      (COSIGN_OK, learned 3 sample_cinfo [''umich''] sinfo_zero, None)" using sample_learned by blast
  from required_factors [OF this sample_live_reply(2)] show ?thesis by (auto simp: sample_filter_config_def)
qed

lemma logout_reaches_filter_witness:
  "\<exists>w'. run_state (cosign_cookie_valid (sample_filter_config []) ''cosign-www=cd'' None ''10.0.0.1'' 1)
       (sample_filter (\<lambda>_. None) ''430 CHECK: Already logged out'') = (Some (Ret (COSIGN_RETRY, sinfo_zero, None)), w')"
proof -
  let ?l = "''430 CHECK: Already logged out''"
  have l: "status_line ?l"
    by (simp add: status_line_def plain_def ctrl_defs isdigit_def code_of_def SNET_BUFLEN_def)
  have "is_class CHR ''4'' ?l" by (simp add: is_class_def)
  from logout_reaches_filter [OF _ _ _ _ _ _ peer_answers [OF l] this, of "sample_filter (\<lambda>_. None) ?l" "sample_filter_config []"
      "''cosign-www=cd''" "''/f/cosign-www=cd''" 1 sinfo_zero "\<lparr>conn_sn = Some (peer_with ?l), conn_capa = 0, conn_proto = 3\<rparr>" "[]" None "''10.0.0.1''" 0]
  show ?thesis
    using sample_filter_path by (auto simp: sample_filter_def sample_filter_config_def parse_scookie_def)
qed

text \<open>A copy without the factor \<open>deluxe\<close>, where the configuration asks for it.\<close>

lemma fresh_copy_answers_witness:
  "\<exists>si w. run_state (cosign_cookie_valid (sample_filter_config [''deluxe'']) ''cosign-www=cd'' None ''10.0.0.1'' 1) w =
       (Some (Ret (COSIGN_OK, si, None)), w) \<and> si_user si = ''bob'' \<and> si_factor si = ''umich mtoken''"
proof -
  let ?fs = "[''/f/cosign-www=cd'' \<mapsto> \<lparr>f_data = scookie_text sample_sinfo, f_mode = mode_0644, f_mtime = 950\<rparr>]"
  have s: "si_protocol sample_sinfo = 3" "si_user sample_sinfo = ''bob''" "si_factor sample_sinfo = ''umich mtoken''"
    by (simp_all add: sample_sinfo_def)
  show ?thesis
    using fresh_copy_answers [OF _ _ _ sample_sinfo_ok, of "sample_filter ?fs []" "sample_filter_config [''deluxe'']"
        "''cosign-www=cd''" "''/f/cosign-www=cd''" mode_0644 950 "''10.0.0.1''" None 0] sample_filter_path sample_live_reply(2)
    by (auto simp: sample_filter_def sample_filter_config_def s IDLETIME_def IPCHECK_NEVER_def IPCHECK_ALWAYS_def)
qed

lemma visit_after_login_witness:
  "\<exists>w'. run_state (cosign_cookie_valid (sample_filter_config [''umich'']) ''cosign-www=cd'' None ''10.0.0.1'' 1)
       (sample_filter (\<lambda>_. None) live_line) = (Some (Ret (COSIGN_OK, learned 3 sample_cinfo [''umich''] sinfo_zero, None)), w')"
proof -
  let ?w = "sample_filter (\<lambda>_. None) live_line"
  let ?cfg = "sample_filter_config [''umich'']"
  have hex: "length (show_hex 1000) \<le> 3" "length (show_hex 0) \<le> 3" "length (show_int 7) \<le> 3"
    by (simp_all add: show_hex.simps show_int_def show_nat.simps)
  then obtain tmp where tmp: "db_tmp_path ''/f'' \<lparr>tv_sec = 1000, tv_usec = 0\<rparr> 7 = Some tmp"
    by (auto simp: db_tmp_path_def u32_def MAXPATHLEN_def)
  show ?thesis
    using visit_after_login [of ?w ?cfg "''cosign-www=cd''" "''/f/cosign-www=cd''" tmp
        "\<lparr>conn_sn = Some (peer_with live_line), conn_capa = 0, conn_proto = 3\<rparr>" "[]" "peer_with live_line" live_line
        sample_cinfo "[''umich'']" "''10.0.0.1''" 0]
      sample_filter_path tmp peer_answers [OF sample_live_reply(3)] sample_live_reply(1,2,4-7)
    by (auto simp: sample_filter_def sample_filter_config_def)
qed

section \<open>It comes to an answer\<close>

text \<open>Where no failure is scheduled, none is scheduled afterwards.\<close>

definition calm :: "filter_state \<Rightarrow> filter_state \<Rightarrow> bool" where
  "calm w w' \<longleftrightarrow> (os_faults w = [] \<longrightarrow> os_faults w' = [])"

interpretation calm: io_preorder calm
  by unfold_locales (auto simp: calm_def)

lemma calm_prims:
  "state_io_rel calm fault" "state_io_rel calm (get_fs p)" "state_io_rel calm (put_fs p e)" "state_io_rel calm now"
  "state_io_rel calm getpid" "state_io_rel calm (os_mkcookie n)" "state_io_rel calm (f_talk m)"
  by (rule state_io_relI; auto simp: calm_def fault_def get_fs_def put_fs_def now_def getpid_def os_mkcookie_def f_talk_def
      split: list.splits prod.splits)+

lemma calm_updates:
  "state_io_rel calm (f_set (fl_peer_update g))" "state_io_rel calm (f_set (fl_cl_update h))"
  "state_io_rel calm (f_set (fl_pass_update u))" "state_io_rel calm (f_set (fl_fail_update u))"
  "state_io_rel calm (f_set (fl_unknown_update u))"
  "state_io_rel calm (f_set (\<lambda>w. w\<lparr>fl_cl := j w\<rparr>))" "state_io_rel calm next_peer"
  by (rule state_io_relI; auto simp: calm_def f_set_def next_peer_def split: list.splits)+

lemma calm_sys: "(\<And>x. state_io_rel calm (f x)) \<Longrightarrow> (\<And>x. state_io_rel calm (g x)) \<Longrightarrow>
    state_io_rel calm (case e of Ok x \<Rightarrow> f x | Err x \<Rightarrow> g x)"
  by (cases e) auto

lemmas calm_basic = calm.rel_basic calm_sys calm_prims calm_updates

lemma calm_calls:
  "state_io_rel calm gettimeofday" "state_io_rel calm (on_file p g)" "state_io_rel calm (os_create p)"
  "state_io_rel calm (os_fclose_write p t)" "state_io_rel calm (os_rename a b)" "state_io_rel calm (os_link a b)"
  "state_io_rel calm (os_append p s)"
  unfolding gettimeofday_def on_file_def os_create_def os_fclose_write_def os_rename_def os_link_def os_append_def
  by (intro calm_basic)+

lemma calm_files:
  "state_io_rel calm (os_unlink p)" "state_io_rel calm (os_utime_to p t)" "state_io_rel calm (os_utime p)"
  unfolding os_unlink_def os_utime_to_def os_utime_def by (intro calm_basic calm_calls)+

lemma calm_tick:
  "state_io_rel calm (f_tick fl_pass_update)" "state_io_rel calm (f_tick fl_fail_update)" "state_io_rel calm (f_tick fl_unknown_update)"
  unfolding f_tick_def by (intro calm_basic calm_calls)+

lemma calm_fetch: "state_io_rel calm (fetch_ticket p n)"
proof (induction p n rule: fetch_ticket.induct)
  case (1 p n)
  show ?case by (subst fetch_ticket.simps) (intro calm_basic calm_calls "1"; assumption)
qed

lemma calm_netcheck: "state_io_rel calm (netcheck_cookie cfg s r si c)"
  unfolding netcheck_cookie_def by (intro calm_basic calm_tick)

lemma calm_retr: "state_io_rel calm (netretr_proxy cfg s)" "state_io_rel calm (netretr_ticket cfg s)"
  unfolding netretr_proxy_def netretr_ticket_def take_ticket_def open_tmp_def Let_def
  by (intro calm_basic calm_calls calm_files calm_fetch)+

lemma calm_conns:
  assumes "\<And>c. state_io_rel calm (pick c)"
  shows "state_io_rel calm (check_conns cfg pick s cs si r a)"
proof -
  have conn: "state_io_rel calm (check_conn cfg s r si c p)" for r si c p
    unfolding check_conn_def by (intro calm_basic calm_netcheck)
  show ?thesis
    by (induction cs arbitrary: si r a; unfold check_conns.simps) (intro calm_basic assms conn; assumption)+
qed

lemma calm_check: "state_io_rel calm (cosign_check_cookie cfg s r si first)"
proof -
  have pick: "state_io_rel calm (pick_open c)" "state_io_rel calm (pick_closed cfg c)" for c
    unfolding pick_open_def pick_closed_def by (intro calm_basic)+
  have conns: "state_io_rel calm (check_conns cfg pick_open s cs si r a)" "state_io_rel calm (check_conns cfg (pick_closed cfg) s cs si r a)"
    for s cs si r a by (rule calm_conns, rule pick)+
  have "state_io_rel calm (check_done cfg s first rc c cs si r)" for rc c cs si r
    unfolding check_done_def after_ok_def on_front_def by (intro calm_basic calm_retr)
  then show ?thesis unfolding cosign_check_cookie_def by (intro calm_basic conns)
qed

text \<open>The copy is not linked only where there is one already.\<close>

lemma store_copy_again:
  assumes "run_state (store_copy cfg newfile tv path si) w = (None, w')" and "os_faults w = []"
    and "\<And>tmp. db_tmp_path (fc_filterdb cfg) tv (os_pid w) = Some tmp \<Longrightarrow> tmp \<noteq> path"
  shows "newfile \<and> os_fs w' path \<noteq> None \<and> os_faults w' = []"
  using assms
  by (auto simp: store_copy_def open_tmp_def os_simps split: option.splits if_splits)

lemma net_turn_again:
  assumes "run_state (net_turn cfg cookie ipaddr tv newfile lsi path r si) w = ((None, path', si', r'), w')"
    and "os_faults w = []" and "mkcookiepath (Some (fc_filterdb cfg)) (fc_hashlen cfg) c0 MAXPATHLEN = Some path"
  shows "newfile \<and> os_fs w' path' \<noteq> None \<and> os_faults w' = [] \<and>
    (\<exists>c. mkcookiepath (Some (fc_filterdb cfg)) (fc_hashlen cfg) c MAXPATHLEN = Some path')"
proof -
  obtain rc si1 r1 v where v: "run_state (cosign_check_cookie cfg cookie r si newfile) w = ((rc, si1, r1), v)"
    by (metis prod_cases3 surj_pair)
  have f: "os_faults v = []" using state_io_relD [OF calm_check v] assms(2) by (simp add: calm_def)
  obtain si2 where st: "copy_path cfg r1 path = Some path'" "run_state (store_copy cfg newfile tv path' si2) v = (None, w')"
    using assms(1) v by (auto simp: net_turn_def Let_def split: if_splits next_step.splits option.splits prod.splits)
  then obtain c where c: "mkcookiepath (Some (fc_filterdb cfg)) (fc_hashlen cfg) c MAXPATHLEN = Some path'"
    using assms(3) by (auto simp: copy_path_def split: option.splits)
  then show ?thesis using store_copy_again [OF st(2) f] db_tmp_not_path by blast
qed

text \<open>A turn that leads to another found no copy, and leaves one for the next.\<close>

lemma cookie_turns_calm:
  assumes "os_faults w = []" and "mkcookiepath (Some (fc_filterdb cfg)) (fc_hashlen cfg) c0 MAXPATHLEN = Some path"
    and "fst (run_state (cookie_turns cfg cookie ipaddr tv (Suc n) path r si) w) = None"
  shows "os_fs w path = None \<and> (\<exists>c1 path' r' si' w'. os_faults w' = [] \<and> os_fs w' path' \<noteq> None \<and>
      mkcookiepath (Some (fc_filterdb cfg)) (fc_hashlen cfg) c1 MAXPATHLEN = Some path' \<and>
      fst (run_state (cookie_turns cfg cookie ipaddr tv n path' r' si') w') = None)"
proof -
  obtain nf lsi where p: "parse_scookie (os_fs w path) = Ret (nf, lsi)" "0 \<le> nf"
    using assms(1,3) by (auto simp: os_simps split: outcome.splits if_splits)
  obtain good lsi1 si1 where g: "(if nf = 0 \<and> tv_sec tv - si_itime lsi \<le> IDLETIME then check_copy cfg ipaddr lsi si else (False, lsi, si))
      = (good, lsi1, si1)" by (metis prod_cases3)
  obtain rc path' si' r' w' where t: "run_state (net_turn cfg cookie ipaddr tv (nf \<noteq> 0) lsi1 path r si1) w = ((rc, path', si', r'), w')"
    by (metis prod_cases4 surj_pair)
  have rc: "rc = None" and again: "fst (run_state (cookie_turns cfg cookie ipaddr tv n path' r' si') w') = None"
    using assms(1,3) p g t by (auto simp: os_simps split: if_splits option.splits)
  show ?thesis
    using net_turn_again [OF t [unfolded rc] assms(1,2)] again p(2) parse_scookie_rc [OF p(1)] by (auto; blast)
qed

text \<open>
  Where no system call fails, a visit comes to an answer in at most two turns: \<open>goto retry\<close> follows only a copy that
  another process stored in the meantime, and that copy is then read.
\<close>

lemma visit_ends:
  assumes "os_faults w = []"
  shows "fst (run_state (cosign_cookie_valid cfg cookie rekey ipaddr 2) w) \<noteq> None"
proof (cases "mkcookiepath (Some (fc_filterdb cfg)) (fc_hashlen cfg) cookie MAXPATHLEN")
  case None
  then show ?thesis using assms by (simp add: cosign_cookie_valid_def os_simps)
next
  case (Some path)
  have "fst (run_state (cookie_turns cfg cookie ipaddr tv 2 path rekey si) w) \<noteq> None" for tv si
    using cookie_turns_calm [where n = 0] cookie_turns_calm [OF assms Some, where n = 1]
    by (metis One_nat_def numeral_2_eq_2)
  then show ?thesis
    using assms Some by (auto simp: cosign_cookie_valid_def os_simps simp del: cookie_turns.simps split: option.splits)
qed

lemma visit_ends_witness:
  "fst (run_state (cosign_cookie_valid (sample_filter_config [''umich'']) ''cosign-www=cd'' None ''10.0.0.1'' 2)
     (sample_filter (\<lambda>_. None) live_line)) \<noteq> None"
  by (rule visit_ends) (simp add: sample_filter_def)

text \<open>\<open>teardown_conn\<close> never comes to an end.\<close>

lemma teardown_undefined: "teardown_conn cs = Undefined"
  by (induction cs) simp_all

end
