(* ===== verification/Weblogin_net.thy ===== *)
theory Weblogin_net
  imports Filter_facts
begin

text \<open>
  \<open>cgi/network.c\<close>: how the weblogin programs talk to the daemon.  The state holds the list of connections (one for each address of
  the daemon's host), the outcomes of the attempts to connect to come, the connection in use, the protocol of the last greeting
  and what is known of the user.  The programs' own states extend it.
\<close>

record userinfo =
  ui_login :: string
  ui_ipaddr :: string
  ui_factors :: "string list"

record cgi = os +
  cg_cl :: "peer option list"
  cg_attempts :: "peer option list"
  cg_peer :: peer
  cg_proto :: int
  cg_ui :: userinfo

type_synonym ('s, 'a) netting = "('s cgi_scheme, 'a) state"

definition n_talk :: "'a talk \<Rightarrow> ('s, 'a) netting" where
  "n_talk m = State (\<lambda>w. case run_state m (cg_peer w) of (r, p) \<Rightarrow> (r, w\<lparr>cg_peer := p\<rparr>))"

definition n_set :: "('s cgi_scheme \<Rightarrow> 's cgi_scheme) \<Rightarrow> ('s, unit) netting" where
  "n_set f = State (\<lambda>w. ((), f w))"

text \<open>The addresses of \<open>gethostbyname\<close>, nothing where it fails.\<close>

definition connlist_setup :: "nat option \<Rightarrow> peer option list option" where
  "connlist_setup addrs = map_option (\<lambda>n. replicate n None) addrs"

section \<open>Connecting\<close>

text \<open>Return code and what \<open>cosign_protocol\<close> is then.\<close>

definition cgi_greet :: "string \<Rightarrow> int \<Rightarrow> (int \<times> int) talk" where
  "cgi_greet host old = do {
     l \<leftarrow> c_reply;
     case l of
       None \<Rightarrow> ret (-1, old)
     | Some line \<Rightarrow>
         let av = argcargv line
         in if \<not> is_class CHR ''2'' line then ret (-1, old)
            else if length av < 4 then ret (-1, old)
            else
              let protocol = (if to_int (fst (strtol (av ! 1))) = 2 then 2 else 0)
              in do {
                   ok \<leftarrow> c_write (if protocol = 2 then ''STARTTLS 2'' else ''STARTTLS'') [];
                   rc \<leftarrow> (if \<not> ok then ret (-1) else expect_2 (-1) (\<lambda>_. verify_peer host protocol));
                   ret (rc, protocol) } }"

text \<open>The program's own \<open>connect_sn\<close>: the connection, if one is open afterwards.\<close>

definition cgi_connect :: "string \<Rightarrow> ('s, peer option) netting" where
  "cgi_connect host = State (\<lambda>w.
     case cg_attempts w of
       [] \<Rightarrow> (None, w)
     | None # as \<Rightarrow> (None, w\<lparr>cg_attempts := as\<rparr>)
     | Some p # as \<Rightarrow>
         (case run_state (cgi_greet host (cg_proto w)) p of
            ((rc, protocol), p) \<Rightarrow>
              (if rc = 0 then Some p else None, w\<lparr>cg_attempts := as, cg_proto := protocol\<rparr>)))"

section \<open>Choosing a connection\<close>

text \<open>\<open>fp\<close> over the connection \<open>p\<close>, which is closed after an error.\<close>

definition try_conn :: "('s, int) netting \<Rightarrow> peer \<Rightarrow> ('s, int \<times> peer option) netting" where
  "try_conn fp p = do {
     n_set (cg_peer_update (\<lambda>_. p));
     rc \<leftarrow> fp;
     w \<leftarrow> State_Monad.get;
     ret (rc, if rc = COSIGN_OK \<or> rc = COSIGN_LOGGED_OUT \<or> rc = COSIGN_RETRY then Some (cg_peer w) else None) }"

text \<open>One loop: the answer, if a server gave a definite one, and the connections.\<close>

primrec try_conns ::
  "(peer option \<Rightarrow> ('s, peer option) netting) \<Rightarrow> ('s, int) netting \<Rightarrow> peer option list \<Rightarrow>
     ('s, int option \<times> peer option list) netting" where
  "try_conns pick fp [] = ret (None, [])"
| "try_conns pick fp (c # cs) = do {
     p \<leftarrow> pick c;
     case p of
       None \<Rightarrow> do { (r, cs) \<leftarrow> try_conns pick fp cs; ret (r, c # cs) }
     | Some p \<Rightarrow> do {
         (rc, c) \<leftarrow> try_conn fp p;
         if rc = COSIGN_OK then ret (Some 0, c # cs)
         else if rc = COSIGN_LOGGED_OUT then ret (Some (-1), c # cs)
         else do { (r, cs) \<leftarrow> try_conns pick fp cs; ret (r, c # cs) } } }"

definition cosign_choose_conn :: "string \<Rightarrow> ('s, int) netting \<Rightarrow> ('s, int) netting" where
  "cosign_choose_conn host fp = do {
     w \<leftarrow> State_Monad.get;
     (r, cs) \<leftarrow> try_conns (\<lambda>c. ret c) fp (cg_cl w);
     n_set (cg_cl_update (\<lambda>_. cs));
     case r of
       Some rc \<Rightarrow> ret rc
     | None \<Rightarrow> do {
         (r, cs) \<leftarrow> try_conns (\<lambda>c. if c \<noteq> None then ret None else cgi_connect host) fp cs;
         n_set (cg_cl_update (\<lambda>_. cs));
         ret (case r of Some rc \<Rightarrow> rc | None \<Rightarrow> -1) } }"

section \<open>The commands\<close>

definition reply_code :: "string \<Rightarrow> int" where
  "reply_code line =
     (if is_class CHR ''2'' line then COSIGN_OK
      else if is_class CHR ''4'' line then COSIGN_LOGGED_OUT
      else if is_class CHR ''5'' line then COSIGN_RETRY
      else COSIGN_ERROR)"

definition n_reply :: "('s, int) netting" where
  "n_reply = do { l \<leftarrow> n_talk c_reply; ret (case l of None \<Rightarrow> COSIGN_ERROR | Some line \<Rightarrow> reply_code line) }"

definition n_command :: "string \<Rightarrow> farg list \<Rightarrow> ('s, int) netting" where
  "n_command f args = do {
     ok \<leftarrow> n_talk (c_write f args);
     if \<not> ok then ret COSIGN_ERROR else n_reply }"

text \<open>The ticket in pieces: what is left of the size, nothing after an error.\<close>

function (sequential) send_pieces :: "string \<Rightarrow> int \<Rightarrow> ('s, int option) netting" where
  "send_pieces s n = do {
     b \<leftarrow> fault;
     if b then ret None
     else if s = [] then ret (Some n)
     else do {
       ok \<leftarrow> n_talk (c_send (take 8192 s));
       if \<not> ok then ret None
       else send_pieces (drop 8192 s) (n - int (length (take 8192 s))) } }"
  by pat_completeness auto

termination by (relation "measure (\<lambda>(s, n). length s)") auto

declare send_pieces.simps [simp del]

definition net_ticket :: "string \<Rightarrow> ('s, int) netting" where
  "net_ticket krb = do {
     fd \<leftarrow> os_open krb;
     case fd of
       Err _ \<Rightarrow> ret COSIGN_ERROR
     | Ok f \<Rightarrow> do {
         u \<leftarrow> os_unlink krb;
         if failed u then ret COSIGN_ERROR
         else do {
           b \<leftarrow> fault;
           if b then ret COSIGN_ERROR
           else do {
             ok \<leftarrow> n_talk (c_write ''%d'' [FI (to_int (int (length (f_data f))))]);
             if \<not> ok then ret COSIGN_ERROR
             else do {
               left \<leftarrow> send_pieces (f_data f) (int (length (f_data f)));
               if left \<noteq> Some 0 then ret COSIGN_ERROR else n_command ''.'' [] } } } } }"

record login_param =
  lp_cookie :: string
  lp_ip :: string
  lp_user :: string
  lp_realm :: string
  lp_krb :: "string option"

definition net_login :: "login_param \<Rightarrow> ('s, int) netting" where
  "net_login lp = do {
     ok \<leftarrow> n_talk (c_write (if lp_krb lp = None then ''LOGIN %s %s %s %s'' else ''LOGIN %s %s %s %s kerberos'')
             [FS (lp_cookie lp), FS (lp_ip lp), FS (lp_user lp), FS (lp_realm lp)]);
     if \<not> ok then ret COSIGN_ERROR
     else do {
       l \<leftarrow> n_talk c_reply;
       case l of
         None \<Rightarrow> ret COSIGN_ERROR
       | Some line \<Rightarrow>
           (case lp_krb lp of
              None \<Rightarrow> ret (reply_code line)
            | Some krb \<Rightarrow> if is_class CHR ''3'' line then net_ticket krb else ret (reply_code line)) } }"

definition net_logout :: "string \<Rightarrow> string \<Rightarrow> ('s, int) netting" where
  "net_logout cookie ip = n_command ''LOGOUT %s %s'' [FS cookie, FS ip]"

definition net_register :: "string \<Rightarrow> string \<Rightarrow> string \<Rightarrow> ('s, int) netting" where
  "net_register cookie ip scookie = n_command ''REGISTER %s %s %s'' [FS cookie, FS ip, FS scookie]"

text \<open>What a 2xx reply to CHECK tells of the user: the login is taken over even where the rest does not fit.\<close>

definition read_user :: "int \<Rightarrow> string \<Rightarrow> userinfo \<Rightarrow> int \<times> userinfo" where
  "read_user protocol line ui =
     (let av = argcargv line
      in if length av < 4 then (COSIGN_ERROR, ui)
         else if 131 \<le> length (av ! 2) then (COSIGN_ERROR, ui)
         else let ui = ui\<lparr>ui_login := av ! 2\<rparr>
         in if protocol = 0 then (COSIGN_OK, ui\<lparr>ui_factors := []\<rparr>)
         else if 256 \<le> length (av ! 1) then (COSIGN_ERROR, ui)
         else let ui = ui\<lparr>ui_ipaddr := av ! 1\<rparr>
         in if COSIGN_MAXFACTORS - 1 < length av - 3 then (COSIGN_ERROR, ui)
         else (COSIGN_OK, ui\<lparr>ui_factors := drop 3 av\<rparr>))"

definition net_check :: "string \<Rightarrow> ('s, int) netting" where
  "net_check cookie = do {
     ok \<leftarrow> n_talk (c_write ''CHECK %s'' [FS cookie]);
     if \<not> ok then ret COSIGN_ERROR
     else do {
       l \<leftarrow> n_talk c_reply;
       case l of
         None \<Rightarrow> ret COSIGN_ERROR
       | Some line \<Rightarrow>
           if is_class CHR ''2'' line then State (\<lambda>w.
             case read_user (cg_proto w) line (cg_ui w) of (rc, ui) \<Rightarrow> (rc, w\<lparr>cg_ui := ui\<rparr>))
           else ret (reply_code line) } }"

definition cosign_login :: "string \<Rightarrow> login_param \<Rightarrow> ('s, int) netting" where
  "cosign_login host lp =
     (if \<not> validchars (lp_cookie lp) \<or> \<not> validchars (lp_user lp) then ret (-1)
      else do { rc \<leftarrow> cosign_choose_conn host (net_login lp); ret (if rc < 0 then -1 else 0) })"

definition cosign_logout :: "string \<Rightarrow> string \<Rightarrow> string \<Rightarrow> ('s, int) netting" where
  "cosign_logout host cookie ip =
     (if \<not> validchars cookie then ret (-1)
      else do { rc \<leftarrow> cosign_choose_conn host (net_logout cookie ip); ret (if rc < 0 then -1 else 0) })"

definition cosign_register :: "string \<Rightarrow> string \<Rightarrow> string \<Rightarrow> string \<Rightarrow> ('s, int) netting" where
  "cosign_register host cookie ip scookie =
     (if \<not> validchars cookie \<or> \<not> validchars scookie then ret (-1)
      else do { rc \<leftarrow> cosign_choose_conn host (net_register cookie ip scookie); ret (if rc < 0 then -1 else 0) })"

definition cosign_check :: "string \<Rightarrow> string \<Rightarrow> ('s, int) netting" where
  "cosign_check host cookie =
     (if \<not> validchars cookie then ret (-1)
      else do { rc \<leftarrow> cosign_choose_conn host (net_check cookie); ret (if rc < 0 then -1 else 0) })"

end
