(* ===== verification/Cgi_form.thy ===== *)
theory Cgi_form
  imports Snet
begin

text \<open>
  \<open>libcgi/cgi.c\<close>: the form a browser sends to the weblogin programs.  A list of keys gets the values of the query string, or of
  the first line of a POST.  The environment is a map; what \<open>read(0, ...)\<close> delivers is a list of chunks, as in \<open>Snet\<close>.
  \<open>cgi_multipart\<close>, which no program of the sources calls, and the functions that free or print are left out.
\<close>

section \<open>\<open>strtok\<close>\<close>

text \<open>The first word between delimiters and the rest of the line; nothing where there is none.\<close>

definition strtok :: "char \<Rightarrow> string \<Rightarrow> (string \<times> string) option" where
  "strtok d s =
     (let t = dropWhile (\<lambda>c. c = d) s
      in if t = [] then None else Some (takeWhile (\<lambda>c. c \<noteq> d) t, drop 1 (dropWhile (\<lambda>c. c \<noteq> d) t)))"

lemma strtok_shorter: "strtok d s = Some (w, r) \<Longrightarrow> length r < length s"
proof -
  assume a: "strtok d s = Some (w, r)"
  define t where "t = dropWhile (\<lambda>c. c = d) s"
  have t: "t \<noteq> []" "r = drop 1 (dropWhile (\<lambda>c. c \<noteq> d) t)"
    using a by (auto simp: strtok_def t_def Let_def split: if_splits)
  have "length (dropWhile (\<lambda>c. c \<noteq> d) t) \<le> length t" "length t \<le> length s"
    by (simp_all add: t_def length_dropWhile_le)
  then show "length r < length s" using t by (cases t) (simp_all add: less_Suc_eq_le)
qed

lemma strtok_word: "w \<noteq> [] \<Longrightarrow> d \<notin> set w \<Longrightarrow> strtok d (w @ d # r) = Some (w, r)"
proof -
  assume w: "w \<noteq> []" "d \<notin> set w"
  then have "dropWhile (\<lambda>c. c = d) (w @ d # r) = w @ d # r" by (cases w) auto
  moreover have "takeWhile (\<lambda>c. c \<noteq> d) (w @ d # r) = w" "dropWhile (\<lambda>c. c \<noteq> d) (w @ d # r) = d # r"
    using w(2) by (auto simp: takeWhile_append dropWhile_append)
  ultimately show ?thesis using w(1) by (simp add: strtok_def)
qed

lemma strtok_last: "w \<noteq> [] \<Longrightarrow> d \<notin> set w \<Longrightarrow> strtok d w = Some (w, [])"
proof -
  assume w: "w \<noteq> []" "d \<notin> set w"
  then have "dropWhile (\<lambda>c. c = d) w = w" by (cases w) auto
  moreover have "takeWhile (\<lambda>c. c \<noteq> d) w = w" "dropWhile (\<lambda>c. c \<noteq> d) w = []"
    using w(2) by (auto simp: takeWhile_eq_all_conv)
  ultimately show ?thesis using w(1) by (simp add: strtok_def del: dropWhile_eq_Nil_conv)
qed

section \<open>Unescaping\<close>

definition hexval :: "char \<Rightarrow> nat option" where
  "hexval c =
     (let k = code_of (tolower c)
      in if isdigit c then Some (k - 48) else if 97 \<le> k \<and> k \<le> 102 then Some (k - 87) else None)"

fun hex_digits :: "nat \<Rightarrow> string \<Rightarrow> nat" where
  "hex_digits n [] = n"
| "hex_digits n (c # s) = (case hexval c of None \<Rightarrow> n | Some d \<Rightarrow> hex_digits (16 * n + d) s)"

text \<open>\<open>strtol(s, NULL, 16)\<close> of a short text: blanks, a sign and \<open>0x\<close> may come first.\<close>

definition strtol16 :: "string \<Rightarrow> int" where
  "strtol16 s =
     (let t = dropWhile isspace s;
          neg = (t \<noteq> [] \<and> hd t = CHR ''-'');
          u = (if t \<noteq> [] \<and> (hd t = CHR ''-'' \<or> hd t = CHR ''+'') then tl t else t);
          v = (if starts_with_nocase u ''0x'' \<and> 2 < length u \<and> hexval (u ! 2) \<noteq> None then drop 2 u else u);
          n = int (hex_digits 0 v)
      in if neg then - n else n)"

text \<open>\<open>(char)\<close> of a number.\<close>

definition to_char :: "int \<Rightarrow> char" where
  "to_char i = chr (nat (i mod 256))"

text \<open>
  The text is written over itself, at most as fast as it is read; a NUL among the characters written ends the string the caller
  sees.
\<close>

fun unescape_loop :: "string \<Rightarrow> string option" where
  "unescape_loop [] = Some []"
| "unescape_loop (c # s) =
     (if c = CHR ''+'' then map_option ((#) (CHR '' '')) (unescape_loop s)
      else if c = CHR ''%'' then
        (case s of
           a # b # s' \<Rightarrow> map_option ((#) (to_char (strtol16 [a, b]))) (unescape_loop s')
         | _ \<Rightarrow> None)
      else map_option ((#) c) (unescape_loop s))"

definition cgi_unescape :: "string \<Rightarrow> string option" where
  "cgi_unescape raw = map_option (takeWhile (\<lambda>c. c \<noteq> NUL)) (unescape_loop raw)"

section \<open>The list of keys and values\<close>

record cgi_list =
  cl_key :: string
  cl_data :: "string option"

text \<open>The loop over the list: the first entry with the key gets the value; an error where the value is malformed.\<close>

fun set_data :: "cgi_list list \<Rightarrow> string \<Rightarrow> string \<Rightarrow> cgi_list list option" where
  "set_data [] key data = Some []"
| "set_data (c # cl) key data =
     (if cl_key c = key then
        if data = [] then Some (c\<lparr>cl_data := None\<rparr> # cl)
        else map_option (\<lambda>d. c\<lparr>cl_data := Some d\<rparr> # cl) (cgi_unescape data)
      else map_option ((#) c) (set_data cl key data))"

text \<open>Return code and the list: what was set before an error stays.\<close>

function (sequential) cgi_querystring :: "string \<Rightarrow> cgi_list list \<Rightarrow> int \<times> cgi_list list" where
  "cgi_querystring line cl =
     (case strtok CHR ''&'' line of
        None \<Rightarrow> (0, cl)
      | Some (pair, rest) \<Rightarrow>
          (case strchr pair CHR ''='' of
             None \<Rightarrow> (-1, cl)
           | Some i \<Rightarrow>
               (case cgi_unescape (take i pair) of
                  None \<Rightarrow> (-1, cl)
                | Some key \<Rightarrow>
                    (case set_data cl key (drop (i + 1) pair) of
                       None \<Rightarrow> (-1, cl)
                     | Some cl \<Rightarrow> cgi_querystring rest cl))))"
  by pat_completeness auto

termination by (relation "measure (\<lambda>(line, cl). length line)") (auto dest: strtok_shorter)

declare cgi_querystring.simps [simp del]

definition cgi_get :: "(string \<Rightarrow> string option) \<Rightarrow> cgi_list list \<Rightarrow> int \<times> cgi_list list" where
  "cgi_get env cl =
     (case env ''QUERY_STRING'' of
        None \<Rightarrow> (-1, cl)
      | Some line \<Rightarrow>
          if line = [] then (-1, cl)
          else case cgi_querystring line cl of (rc, cl) \<Rightarrow> (if rc \<noteq> 0 then (-1, cl) else (0, cl)))"

section \<open>The line of a POST\<close>

definition CGI_BUFLEN :: nat where "CGI_BUFLEN = 8192"

text \<open>\<open>ci_data\<close> are the bytes from \<open>ci_cur\<close> to \<open>ci_end\<close>, \<open>ci_pos\<close> is the offset of \<open>ci_cur\<close> in the buffer.\<close>

record CGIHANDLE =
  ci_pos :: nat
  ci_data :: string
  ci_buflen :: nat
  ci_maxlen :: nat
  ci_state :: rstate
  ci_in :: "net_event list"

definition cgi_init :: "net_event list \<Rightarrow> CGIHANDLE" where
  "cgi_init input = \<lparr>ci_pos = 0, ci_data = [], ci_buflen = CGI_BUFLEN, ci_maxlen = 0, ci_state = SNET_BOL, ci_in = input\<rparr>"

text \<open>\<open>read(0, ci_end, room)\<close>; nothing where it fails.\<close>

definition cgi_read :: "CGIHANDLE \<Rightarrow> nat \<Rightarrow> string option \<times> CGIHANDLE" where
  "cgi_read h room =
     (case ci_in h of
        [] \<Rightarrow> (Some [], h)
      | Bytes s # es \<Rightarrow>
          if length s \<le> room then (Some s, h\<lparr>ci_in := es\<rparr>) else (Some (take room s), h\<lparr>ci_in := Bytes (drop room s) # es\<rparr>)
      | _ # es \<Rightarrow> (None, h\<lparr>ci_in := es\<rparr>))"

datatype cgi_fill = Got CGIHANDLE | Got_end CGIHANDLE | Got_nothing CGIHANDLE

definition cgi_fill :: "CGIHANDLE \<Rightarrow> cgi_fill" where
  "cgi_fill h =
     (let h = h\<lparr>ci_pos := 0\<rparr>;
          full = (length (ci_data h) = ci_buflen h)
      in if full \<and> ci_maxlen h \<noteq> 0 \<and> ci_maxlen h \<le> ci_buflen h then Got_nothing h
         else
           let h = (if full then h\<lparr>ci_buflen := ci_buflen h + CGI_BUFLEN\<rparr> else h);
               (r, h) = cgi_read h (ci_buflen h - length (ci_data h))
           in case r of
                None \<Rightarrow> Got_nothing h
              | Some s \<Rightarrow>
                  if s = [] then (if ci_data h \<noteq> [] then Got_end h else Got_nothing h)
                  else Got (h\<lparr>ci_data := ci_data h @ s\<rparr>))"

definition cgi_advance :: "CGIHANDLE \<Rightarrow> nat \<Rightarrow> CGIHANDLE" where
  "cgi_advance h n = h\<lparr>ci_data := drop n (ci_data h), ci_pos := ci_pos h + n\<rparr>"

definition body :: "CGIHANDLE \<Rightarrow> string" where
  "body h = ci_data h @ concat (map event_bytes (ci_in h))"

lemma cgi_fill_Got:
  assumes "cgi_fill h = Got h'"
  shows "body h' = body h \<and> length (ci_data h) < length (ci_data h')"
  using assms by (auto simp: cgi_fill_def cgi_read_def body_def Let_def split: if_splits list.splits net_event.splits)

lemma body_simps [simp]:
  "body (h\<lparr>ci_state := st\<rparr>) = body h" "n \<le> length (ci_data h) \<Longrightarrow> body (cgi_advance h n) = drop n (body h)"
  "ci_data (cgi_advance h n) = drop n (ci_data h)" "length (ci_data h) \<le> length (body h)"
  by (simp_all add: body_def cgi_advance_def)

lemma got_measure:
  assumes "(if length (ci_data h) \<le> eol then (cgi_fill h, length (ci_data h)) else (Got h, eol)) = (Got h', eol')"
  shows "eol' < length (ci_data h') \<and> length (body h') = length (body h) \<and> eol' = min eol (length (ci_data h))"
  using assms cgi_fill_Got [of h h'] by (auto split: if_splits)

text \<open>From \<open>eol - ci_cur\<close> on.\<close>

function (sequential) post_getline_loop :: "CGIHANDLE \<Rightarrow> nat \<Rightarrow> string option \<times> CGIHANDLE" where
  "post_getline_loop h eol =
     (case (if length (ci_data h) \<le> eol then (cgi_fill h, length (ci_data h)) else (Got h, eol)) of
        (Got_nothing h, _) \<Rightarrow> (None, h)
      | (Got_end h, eol) \<Rightarrow> (Some (ci_data h), cgi_advance h (eol + 1))
      | (Got h, eol) \<Rightarrow>
          let c = ci_data h ! eol
          in if c = CR \<or> c = NUL then (Some (take eol (ci_data h)), (cgi_advance h (eol + 1))\<lparr>ci_state := SNET_FUZZY\<rparr>)
             else if c = LF then
               if ci_state h = SNET_FUZZY then post_getline_loop ((cgi_advance h (eol + 1))\<lparr>ci_state := SNET_BOL\<rparr>) 0
               else (Some (take eol (ci_data h)), cgi_advance h (eol + 1))
             else post_getline_loop (h\<lparr>ci_state := SNET_IN\<rparr>) (eol + 1))"
  by pat_completeness auto

termination
proof (relation "measure (\<lambda>(h, eol). length (body h) - min eol (length (ci_data h)))", goal_cases)
  case 1
  then show ?case by simp
next
  case prems: (2 h eol f eol' h' c)
  then have "(if length (ci_data h) \<le> eol then (cgi_fill h, length (ci_data h)) else (Got h, eol)) = (Got h', eol')" by simp
  then have "eol' < length (ci_data h')" "length (body h') = length (body h)" "eol' = min eol (length (ci_data h))"
    using got_measure by blast+
  moreover have "length (ci_data h') \<le> length (body h')" by simp
  ultimately show ?case by simp
next
  case prems: (3 h eol f eol' h' c)
  then have "(if length (ci_data h) \<le> eol then (cgi_fill h, length (ci_data h)) else (Got h, eol)) = (Got h', eol')" by simp
  then have "eol' < length (ci_data h')" "length (body h') = length (body h)" "eol' = min eol (length (ci_data h))"
    using got_measure by blast+
  moreover have "length (ci_data h') \<le> length (body h')" by simp
  ultimately show ?case by simp
qed

declare post_getline_loop.simps [simp del]

definition post_getline :: "CGIHANDLE \<Rightarrow> string option \<times> CGIHANDLE" where
  "post_getline h = post_getline_loop h 0"

definition cgi_post :: "(string \<Rightarrow> string option) \<Rightarrow> CGIHANDLE \<Rightarrow> cgi_list list \<Rightarrow> int \<times> cgi_list list" where
  "cgi_post env h cl =
     (case env ''REQUEST_METHOD'' of
        None \<Rightarrow> (-1, cl)
      | Some request_method \<Rightarrow>
          if \<not> strcaseeq request_method ''POST'' then (-1, cl)
          else case env ''CONTENT_TYPE'' of
            None \<Rightarrow> (-1, cl)
          | Some content_type \<Rightarrow>
              if content_type \<noteq> ''application/x-www-form-urlencoded'' then (-1, cl)
              else case post_getline h of
                (None, _) \<Rightarrow> (-1, cl)
              | (Some line, _) \<Rightarrow>
                  (case cgi_querystring line cl of (rc, cl) \<Rightarrow> (if rc \<noteq> 0 then (-1, cl) else (0, cl))))"

section \<open>A form and its way back\<close>

text \<open>
  What browsers make of a form (\<open>application/x-www-form-urlencoded\<close>), whatever they escape: a character without a meaning of its
  own may stand for itself, a blank may be a \<open>+\<close>, and every byte, the blank too, may be escaped, with digits in either case.
\<close>

definition stands_for_itself :: "char \<Rightarrow> bool" where
  "stands_for_itself c \<longleftrightarrow> 32 < code_of c \<and> c \<notin> set ''+%&=''"

definition hex_digit :: "nat \<Rightarrow> char \<Rightarrow> bool" where
  "hex_digit d a \<longleftrightarrow> a = ''0123456789abcdef'' ! d \<or> a = ''0123456789ABCDEF'' ! d"

inductive form_encodes :: "string \<Rightarrow> string \<Rightarrow> bool" where
  nothing: "form_encodes [] []"
| itself: "stands_for_itself c \<Longrightarrow> form_encodes s e \<Longrightarrow> form_encodes (c # s) (c # e)"
| blank: "form_encodes s e \<Longrightarrow> form_encodes (CHR '' '' # s) (CHR ''+'' # e)"
| escaped: "hex_digit (code_of c div 16) a \<Longrightarrow> hex_digit (code_of c mod 16) b \<Longrightarrow> form_encodes s e \<Longrightarrow>
    form_encodes (c # s) (CHR ''%'' # a # b # e)"

inductive form_body :: "(string \<times> string) list \<Rightarrow> string \<Rightarrow> bool" where
  one: "form_encodes k ek \<Longrightarrow> form_encodes v ev \<Longrightarrow> form_body [(k, v)] (ek @ CHR ''='' # ev)"
| more: "form_encodes k ek \<Longrightarrow> form_encodes v ev \<Longrightarrow> form_body kvs b \<Longrightarrow>
    form_body ((k, v) # kvs) (ek @ CHR ''='' # ev @ CHR ''&'' # b)"

inductive_simps form_encodes_simps: "form_encodes [] e" "form_encodes (c # s) (d # e)" "form_encodes (c # s) []"

lemma form_encodes_step:
  "form_encodes (c # s) (CHR ''%'' # a # b # e) \<longleftrightarrow>
     hex_digit (code_of c div 16) a \<and> hex_digit (code_of c mod 16) b \<and> form_encodes s e"
  "form_encodes (c # s) (CHR ''+'' # e) \<longleftrightarrow> c = CHR '' '' \<and> form_encodes s e"
  "d \<noteq> CHR ''%'' \<Longrightarrow> d \<noteq> CHR ''+'' \<Longrightarrow> form_encodes (c # s) (d # e) \<longleftrightarrow> d = c \<and> stands_for_itself c \<and> form_encodes s e"
  by (auto simp: form_encodes_simps stands_for_itself_def)

lemma hex_digits_16: "\<forall>d < 16. \<forall>a. hex_digit d a \<longrightarrow>
    hexval a = Some d \<and> \<not> isspace a \<and> a \<notin> set ''+-&='' \<and> 48 \<le> code_of a"
proof -
  have "\<forall>d \<in> set [0..<16]. \<forall>a \<in> {''0123456789abcdef'' ! d, ''0123456789ABCDEF'' ! d}.
      hexval a = Some d \<and> \<not> isspace a \<and> a \<notin> set ''+-&='' \<and> 48 \<le> code_of a"
    by (simp add: upt_conv_Cons hexval_def isdigit_def isspace_def tolower_def code_of_def chr_def char_of_def bit_iff_odd Let_def)
  then show ?thesis by (simp add: hex_digit_def)
qed

lemma hex_digitD:
  assumes "hex_digit d a" and "d < 16"
  shows "hexval a = Some d" and "\<not> isspace a" and "a \<notin> set ''+-&=''" and "48 \<le> code_of a"
  using hex_digits_16 assms by blast+

lemma code_halves: "code_of c div 16 < 16" "code_of c mod 16 < 16"
  using code_of_less [of c] by linarith+

lemma to_char_hex:
  assumes "hex_digit (code_of c div 16) a" and "hex_digit (code_of c mod 16) b"
  shows "to_char (strtol16 [a, b]) = c"
proof -
  have "strtol16 [a, b] = int (code_of c)"
    using hex_digitD [OF assms(1) code_halves(1)] hex_digitD [OF assms(2) code_halves(2)]
    by (auto simp: strtol16_def)
  then show ?thesis using code_of_less [of c] by (simp add: to_char_def)
qed

lemma unescape_form: "form_encodes s e \<Longrightarrow> unescape_loop (e @ r) = map_option ((@) s) (unescape_loop r)"
proof (induction rule: form_encodes.induct)
  case nothing
  show ?case by (cases "unescape_loop r") simp_all
next
  case (escaped c a b s e)
  then show ?case using to_char_hex [OF escaped.hyps(1,2)] by (cases "unescape_loop r") simp_all
qed (cases "unescape_loop r"; auto simp: stands_for_itself_def)+

lemma cgi_unescape_form: "form_encodes s e \<Longrightarrow> cstr s \<Longrightarrow> cgi_unescape e = Some s"
  using unescape_form [of s e "[]"] by (auto simp: cgi_unescape_def cstr_def takeWhile_eq_all_conv)

lemma form_plain: "form_encodes s e \<Longrightarrow> c \<in> set e \<Longrightarrow> c \<notin> set ''&='' \<and> 32 < code_of c"
proof (induction rule: form_encodes.induct)
  case (escaped d a b s e)
  then show ?case
    using hex_digitD(3,4) [OF escaped.hyps(1) code_halves(1)] hex_digitD(3,4) [OF escaped.hyps(2) code_halves(2)]
    by (auto simp: code_of_def)
qed (auto simp: stands_for_itself_def code_of_def)

lemma form_delims: "form_encodes s e \<Longrightarrow> CHR ''&'' \<notin> set e \<and> CHR ''='' \<notin> set e"
  using form_plain by fastforce

lemma form_empty: "form_encodes s e \<Longrightarrow> e = [] \<longleftrightarrow> s = []"
  by (auto elim: form_encodes.cases)

definition entered :: "string \<times> string \<Rightarrow> cgi_list \<Rightarrow> cgi_list" where
  "entered kv c = (if cl_key c = fst kv then c\<lparr>cl_data := if snd kv = [] then None else Some (snd kv)\<rparr> else c)"

lemma set_data_form:
  "distinct (map cl_key cl) \<Longrightarrow> cstr v \<Longrightarrow> form_encodes v ev \<Longrightarrow> set_data cl k ev = Some (map (entered (k, v)) cl)"
proof (induction cl)
  case (Cons c cl)
  have "cl_key c = k \<Longrightarrow> map (entered (k, v)) cl = cl"
    using Cons.prems(1) by (intro map_idI) (auto simp: entered_def rev_image_eqI)
  then show ?case
    using Cons by (cases "cl_key c = k") (simp_all add: cgi_unescape_form form_empty entered_def [of _ c])
qed simp

lemma query_pair:
  assumes "form_encodes k ek" and "form_encodes v ev" and "cstr k" and "cstr v" and "distinct (map cl_key cl)"
    and "strtok CHR ''&'' line = Some (ek @ CHR ''='' # ev, rest)"
  shows "cgi_querystring line cl = cgi_querystring rest (map (entered (k, v)) cl)"
proof -
  have "strchr (ek @ CHR ''='' # ev) CHR ''='' = Some (length ek)"
    using form_delims [OF assms(1)] by (intro strchr_append) simp
  then show ?thesis
    using assms(3-6) by (subst cgi_querystring.simps) (simp add: cgi_unescape_form [OF assms(1)] set_data_form [OF _ _ assms(2)])
qed

lemma keys_entered [simp]: "map cl_key (map (entered kv) cl) = map cl_key cl"
  by (simp add: entered_def)

lemma query_form:
  assumes "form_body kvs b" and "\<forall>(k, v) \<in> set kvs. cstr k \<and> cstr v" and "distinct (map cl_key cl)"
  shows "cgi_querystring b cl = (0, foldl (\<lambda>cl kv. map (entered kv) cl) cl kvs)"
  using assms
proof (induction arbitrary: cl rule: form_body.induct)
  case (one k ek v ev)
  have "strtok CHR ''&'' (ek @ CHR ''='' # ev) = Some (ek @ CHR ''='' # ev, [])"
    using form_delims [OF one(1)] form_delims [OF one(2)] by (intro strtok_last) auto
  then have "cgi_querystring (ek @ CHR ''='' # ev) cl = cgi_querystring [] (map (entered (k, v)) cl)"
    using one by (intro query_pair) simp_all
  also have "\<dots> = (0, map (entered (k, v)) cl)" by (subst cgi_querystring.simps) (simp add: strtok_def)
  finally show ?case by simp
next
  case (more k ek v ev kvs b)
  have "strtok CHR ''&'' ((ek @ CHR ''='' # ev) @ CHR ''&'' # b) = Some (ek @ CHR ''='' # ev, b)"
    using form_delims [OF more(1)] form_delims [OF more(2)] by (intro strtok_word) auto
  then have "cgi_querystring (ek @ CHR ''='' # ev @ CHR ''&'' # b) cl = cgi_querystring b (map (entered (k, v)) cl)"
    using more by (intro query_pair) simp_all
  also have "\<dots> = (0, foldl (\<lambda>cl kv. map (entered kv) cl) (map (entered (k, v)) cl) kvs)"
    using more.prems by (intro more.IH) (simp_all del: map_map)
  finally show ?case by simp
qed

text \<open>The value of a key is the last one given, and none where that is empty.\<close>

definition form_value :: "(string \<times> string) list \<Rightarrow> cgi_list \<Rightarrow> string option" where
  "form_value kvs c =
     (case map_of (rev kvs) (cl_key c) of None \<Rightarrow> cl_data c | Some v \<Rightarrow> if v = [] then None else Some v)"

lemma entered_all: "foldl (\<lambda>cl kv. map (entered kv) cl) cl kvs = map (\<lambda>c. c\<lparr>cl_data := form_value kvs c\<rparr>) cl"
proof (induction kvs arbitrary: cl)
  case Nil
  show ?case by (simp add: form_value_def)
next
  case (Cons kv kvs)
  have "(entered kv c)\<lparr>cl_data := form_value kvs (entered kv c)\<rparr> = c\<lparr>cl_data := form_value (kv # kvs) c\<rparr>" for c :: cgi_list
    by (cases kv) (auto simp: form_value_def entered_def map_add_def split: option.splits)
  then show ?case using Cons by simp
qed

section \<open>A form that is posted\<close>

text \<open>A body without ends of lines is one line, in whatever pieces it arrives; the buffer grows as it must.\<close>

definition posting :: "CGIHANDLE \<Rightarrow> bool" where
  "posting h \<longleftrightarrow> (\<forall>c \<in> set (body h). c \<noteq> CR \<and> c \<noteq> LF \<and> c \<noteq> NUL) \<and> (\<forall>e \<in> set (ci_in h). \<exists>s. e = Bytes s \<and> s \<noteq> []) \<and>
     ci_maxlen h = 0 \<and> body h \<noteq> [] \<and> length (ci_data h) \<le> ci_buflen h"

lemma posting_state [simp]: "posting (h\<lparr>ci_state := st\<rparr>) = posting h"
  by (simp add: posting_def body_def)

lemma posting_fill:
  assumes "posting h"
  shows "(ci_in h = [] \<and> (\<exists>h'. cgi_fill h = Got_end h' \<and> ci_data h' = body h)) \<or>
    (\<exists>h'. cgi_fill h = Got h' \<and> posting h' \<and> body h' = body h \<and> length (ci_data h) < length (ci_data h'))"
proof (cases "ci_in h")
  case Nil
  then show ?thesis using assms by (auto simp: cgi_fill_def cgi_read_def posting_def body_def Let_def)
next
  case (Cons e es)
  then obtain s where e: "e = Bytes s" "s \<noteq> []" using assms by (auto simp: posting_def)
  let ?n = "if length (ci_data h) = ci_buflen h then ci_buflen h + CGI_BUFLEN else ci_buflen h"
  define g where "g = h\<lparr>ci_pos := 0, ci_buflen := ?n, ci_data := ci_data h @ take (?n - length (ci_data h)) s,
      ci_in := (if length s \<le> ?n - length (ci_data h) then es else Bytes (drop (?n - length (ci_data h)) s) # es)\<rparr>"
  have p: "\<forall>c \<in> set (body h). c \<noteq> CR \<and> c \<noteq> LF \<and> c \<noteq> NUL" "\<forall>e \<in> set es. \<exists>s. e = Bytes s \<and> s \<noteq> []" "ci_maxlen h = 0" "body h \<noteq> []"
    "length (ci_data h) < ?n"
    using assms Cons by (auto simp: posting_def CGI_BUFLEN_def)
  have "cgi_fill h = Got g"
    using p(3,5) e Cons by (cases "length (ci_data h) = ci_buflen h") (auto simp: cgi_fill_def cgi_read_def g_def Let_def CGI_BUFLEN_def)
  moreover have b: "body g = body h" using Cons e by (simp add: g_def body_def)
  moreover have "posting g"
    using p b unfolding posting_def by (auto simp: g_def)
  ultimately have "\<exists>h'. cgi_fill h = Got h' \<and> posting h'" by blast
  then show ?thesis using cgi_fill_Got [of h] by blast
qed

lemma posting_line:
  "posting h \<Longrightarrow> eol \<le> length (ci_data h) \<Longrightarrow> \<exists>h'. post_getline_loop h eol = (Some (body h), h')"
proof (induction "length (body h) - eol" arbitrary: h eol rule: less_induct)
  case less
  have step: "\<exists>h'. post_getline_loop g eol = (Some (body g), h')" if g: "posting g" "eol < length (ci_data g)" "body g = body h" for g
  proof -
    have "ci_data g ! eol \<in> set (body g)" using g(2) by (auto simp: body_def)
    then have "ci_data g ! eol \<noteq> CR" "ci_data g ! eol \<noteq> LF" "ci_data g ! eol \<noteq> NUL" using g(1) by (auto simp: posting_def)
    moreover have "\<exists>h'. post_getline_loop (g\<lparr>ci_state := SNET_IN\<rparr>) (eol + 1) = (Some (body g), h')"
    proof -
      have "length (ci_data g) \<le> length (body g)" by simp
      then show ?thesis using less.hyps [of "g\<lparr>ci_state := SNET_IN\<rparr>" "eol + 1"] g by simp
    qed
    ultimately show ?thesis using g(2) by (subst post_getline_loop.simps) (simp add: Let_def)
  qed
  show ?case
  proof (cases "eol < length (ci_data h)")
    case True
    then show ?thesis using step less.prems(1) by blast
  next
    case False
    then have eol: "eol = length (ci_data h)" using less.prems(2) by simp
    from posting_fill [OF less.prems(1)] show ?thesis
    proof (elim disjE exE conjE)
      fix h' assume f: "cgi_fill h = Got_end h'" "ci_data h' = body h"
      then show ?thesis using eol by (subst post_getline_loop.simps) simp
    next
      fix h' assume f: "cgi_fill h = Got h'" "posting h'" "body h' = body h" "length (ci_data h) < length (ci_data h')"
      then have "post_getline_loop h eol = post_getline_loop h' eol"
        using eol by (subst (1 2) post_getline_loop.simps) simp
      then show ?thesis using step [of h'] f eol by simp
    qed
  qed
qed

lemma form_body_plain: "form_body kvs b \<Longrightarrow> c \<in> set b \<Longrightarrow> c \<noteq> CR \<and> c \<noteq> LF \<and> c \<noteq> NUL"
proof (induction rule: form_body.induct)
  case (one k ek v ev)
  then show ?case using form_plain [OF one(1)] form_plain [OF one(2)] by (fastforce simp: code_of_def ctrl_defs)
next
  case (more k ek v ev kvs b)
  then show ?case using form_plain [OF more(1)] form_plain [OF more(2)] by (fastforce simp: code_of_def ctrl_defs)
qed

lemma cgi_post_form:
  assumes "form_body kvs (concat pieces)" and "\<forall>(k, v) \<in> set kvs. cstr k \<and> cstr v" and "distinct (map cl_key cl)"
    and "env ''REQUEST_METHOD'' = Some ''POST''" and "env ''CONTENT_TYPE'' = Some ''application/x-www-form-urlencoded''"
    and "[] \<notin> set pieces"
  shows "cgi_post env (cgi_init (map Bytes pieces)) cl = (0, map (\<lambda>c. c\<lparr>cl_data := form_value kvs c\<rparr>) cl)"
proof -
  let ?h = "cgi_init (map Bytes pieces)"
  have ev: "event_bytes \<circ> Bytes = (\<lambda>s. s)" by (simp add: fun_eq_iff)
  have b: "body ?h = concat pieces" by (simp add: body_def cgi_init_def ev)
  have "concat pieces \<noteq> []" using assms(1) by (cases rule: form_body.cases) simp_all
  then have "posting ?h"
    using form_body_plain [OF assms(1)] assms(6) unfolding posting_def b by (auto simp: cgi_init_def)
  then obtain h' where "post_getline ?h = (Some (concat pieces), h')"
    using posting_line [of ?h 0] b by (auto simp: post_getline_def)
  then show ?thesis
    using assms(4,5) query_form [OF assms(1-3)]
    by (simp add: cgi_post_def strcaseeq_def entered_all)
qed

text \<open>
  C36.  A posted form comes back as it was filled in: from every encoding a browser may make of pairs of keys and values, with a
  blank as \<open>+\<close> or escaped and whatever else it escapes, and in whatever pieces it arrives, the reader gives every key of its list
  the last value the form has for it, byte for byte; an empty value clears the key, and the others keep what they have.
\<close>

theorem form_posted:
  assumes "form_body kvs (concat pieces)" and "\<forall>(k, v) \<in> set kvs. cstr k \<and> cstr v" and "distinct (map cl_key cl)"
    and "env ''REQUEST_METHOD'' = Some ''POST''" and "env ''CONTENT_TYPE'' = Some ''application/x-www-form-urlencoded''"
    and "[] \<notin> set pieces"
  shows "cgi_post env (cgi_init (map Bytes pieces)) cl = (0, map (\<lambda>c. c\<lparr>cl_data := form_value kvs c\<rparr>) cl)"
  using assms by (rule cgi_post_form)

lemma sample_form:
  "form_body [(''login'', ''b b''), (''ref'', ''/?a=1 '')] (concat [''login='', ''b+b&re'', ''f=%2f?a%3D1%20''])"
proof -
  have "form_encodes ''login'' ''login''" "form_encodes ''b b'' ''b+b''" "form_encodes ''ref'' ''ref''"
    "form_encodes ''/?a=1 '' ''%2f?a%3D1%20''"
    by (simp_all add: form_encodes_step form_encodes_simps(1) stands_for_itself_def hex_digit_def code_of_def)
  then have "form_body [(''login'', ''b b''), (''ref'', ''/?a=1 '')] (''login'' @ CHR ''='' # ''b+b'' @ CHR ''&'' # ''ref'' @ CHR ''='' # ''%2f?a%3D1%20'')"
    by (intro more one)
  then show ?thesis by simp
qed

lemma form_posted_witness:
  "cgi_post [''REQUEST_METHOD'' \<mapsto> ''POST'', ''CONTENT_TYPE'' \<mapsto> ''application/x-www-form-urlencoded'']
     (cgi_init (map Bytes [''login='', ''b+b&re'', ''f=%2f?a%3D1%20'']))
     [\<lparr>cl_key = ''login'', cl_data = None\<rparr>, \<lparr>cl_key = ''ref'', cl_data = None\<rparr>] =
   (0, [\<lparr>cl_key = ''login'', cl_data = Some ''b b''\<rparr>, \<lparr>cl_key = ''ref'', cl_data = Some ''/?a=1 ''\<rparr>])"
  by (subst form_posted [OF sample_form]) (simp_all add: form_value_def ctrl_defs)

lemma sample_form_left:
  "form_body [(''verify'', ''Log Out''), (''url'', ''https://evil/'')] ''verify=Log+Out&url=https%3A%2F%2Fevil%2F''"
proof -
  have "form_encodes ''verify'' ''verify''" "form_encodes ''Log Out'' ''Log+Out''" "form_encodes ''url'' ''url''"
    "form_encodes ''https://evil/'' ''https%3A%2F%2Fevil%2F''"
    by (simp_all add: form_encodes_step form_encodes_simps(1) stands_for_itself_def hex_digit_def code_of_def)
  then have "form_body [(''verify'', ''Log Out''), (''url'', ''https://evil/'')]
      (''verify'' @ CHR ''='' # ''Log+Out'' @ CHR ''&'' # ''url'' @ CHR ''='' # ''https%3A%2F%2Fevil%2F'')"
    by (intro more one)
  then show ?thesis by simp
qed

end
