(* ===== verification/Subfile.thy ===== *)
theory Subfile
  imports Cgi_form
begin

text \<open>
  \<open>cgi/subfile.c\<close>: the pages of the weblogin programs.  A template is printed with \<open>$x\<close> replaced by the text for the letter
  \<open>x\<close>; text that comes from the browser is printed with the characters escaped that mean something in HTML.  \<open>char\<close> is signed.
\<close>

definition SUBF_STR :: int where "SUBF_STR = 1"
definition SUBF_STR_ESC :: int where "SUBF_STR_ESC = 2"

record subfile_list =
  sl_letter :: char
  sl_type :: int
  sl_data :: "string option"

definition nasties :: string where
  "nasties = ''<>(){}[]'' @ [CHR 0x27] @ ''`'' @ [CHR 0x22] @ '' '' @ [CHR 0x5C]"

text \<open>The value of a \<open>char\<close>, and what \<open>%x\<close> prints of it.\<close>

definition signed_char :: "char \<Rightarrow> int" where
  "signed_char c = (if code_of c < 128 then int (code_of c) else int (code_of c) - 256)"

definition show_x :: "int \<Rightarrow> string" where
  "show_x i = show_hex (nat (i mod 2 ^ 32))"

definition escape_char :: "char \<Rightarrow> string" where
  "escape_char c =
     (if c \<in> set nasties \<or> signed_char c \<le> 0x1F \<or> 0x7F \<le> signed_char c then ''%'' @ show_x (signed_char c) else [c])"

definition escape_text :: "string \<Rightarrow> string" where
  "escape_text s = concat (map escape_char s)"

fun find_letter :: "subfile_list list \<Rightarrow> char \<Rightarrow> subfile_list option" where
  "find_letter [] c = None"
| "find_letter (s # sl) c = (if sl_letter s = c then Some s else find_letter sl c)"

definition print_letter :: "subfile_list list \<Rightarrow> char \<Rightarrow> string" where
  "print_letter sl c =
     (case find_letter sl c of
        None \<Rightarrow> ''$'' @ [c]
      | Some s \<Rightarrow>
          (case sl_data s of
             None \<Rightarrow> []
           | Some t \<Rightarrow>
               if sl_type s = SUBF_STR then t else if sl_type s = SUBF_STR_ESC then escape_text t else []))"

text \<open>The loop over the characters of the template.\<close>

fun subst_text :: "subfile_list list \<Rightarrow> string \<Rightarrow> string" where
  "subst_text sl [] = []"
| "subst_text sl [c] = [c]"
| "subst_text sl (c # d # s) =
     (if c \<noteq> CHR ''$'' then c # subst_text sl (d # s)
      else if d = CHR ''$'' then d # subst_text sl s
      else print_letter sl d @ subst_text sl s)"

definition no_cache :: string where
  "no_cache =
     ''Expires: Mon, 16 Apr 1973 13:10:00 GMT'' @ [LF] @
     ''Last-Modified: Mon, 16 Apr 1973 13:10:00 GMT'' @ [LF] @
     ''Cache-Control: no-store, no-cache, must-revalidate'' @ [LF] @
     ''Cache-Control: pre-check=0, post-check=0, max-age=0'' @ [LF] @
     ''Pragma: no-cache'' @ [LF]"

text \<open>What is printed, and whether the process goes on: it exits with 1 where the template cannot be opened.\<close>

definition subfile :: "string option \<Rightarrow> subfile_list list \<Rightarrow> bool \<Rightarrow> string \<times> bool" where
  "subfile template sl nocache =
     (let head = (if nocache then no_cache else []) @ ''Content-type: text/html'' @ [LF, LF]
      in case template of
           None \<Rightarrow> (head, False)
         | Some t \<Rightarrow> (head @ subst_text sl t, True))"

section \<open>What escaping is for\<close>

text \<open>Characters that are neither blank nor control nor special in HTML.\<close>

definition harmless :: "char \<Rightarrow> bool" where
  "harmless c \<longleftrightarrow> 0x20 < code_of c \<and> code_of c < 0x7F \<and> c \<notin> set nasties"

lemma code_hex_char: "d < 16 \<Longrightarrow> code_of (hex_char d) = (if d < 10 then 48 + d else 87 + d)"
proof -
  have "\<forall>d \<in> set [0..<16]. code_of (hex_char d) = (if d < 10 then 48 + d else 87 + d)"
    by (simp add: upt_conv_Cons hex_char_def code_of_def)
  then show "d < 16 \<Longrightarrow> ?thesis" by simp
qed

lemma show_hex_chars: "set (show_hex n) \<subseteq> hex_char ` {0..<16}"
proof (induction n rule: show_hex.induct)
  case (1 n)
  have d: "hex_char (n mod 16) \<in> hex_char ` {0..<16}" by (intro imageI) simp
  show ?case
  proof (cases "n < 16")
    case True
    then show ?thesis by (subst show_hex.simps) auto
  next
    case False
    then show ?thesis using 1 d by (subst show_hex.simps) simp
  qed
qed

lemma harmless_hex: "d < 16 \<Longrightarrow> harmless (hex_char d)"
proof -
  assume d: "d < 16"
  then have "code_of (hex_char d) \<in> {48..57} \<union> {97..102}" by (simp add: code_hex_char)
  moreover have "c \<in> set nasties \<Longrightarrow> code_of c \<notin> {48..57} \<union> {97..102}" for c
    by (auto simp: nasties_def code_of_def)
  ultimately show ?thesis by (auto simp: harmless_def)
qed

lemma harmless_show_x: "c \<in> set (show_x i) \<Longrightarrow> harmless c"
  using show_hex_chars harmless_hex by (fastforce simp: show_x_def)

lemma escape_char_harmless: "d \<in> set (escape_char c) \<Longrightarrow> harmless d"
proof -
  have p: "harmless (CHR ''%'')" by (simp add: harmless_def nasties_def code_of_def)
  have s: "CHR '' '' \<in> set nasties" by (simp add: nasties_def)
  have "c \<notin> set nasties \<Longrightarrow> 0x1F < signed_char c \<Longrightarrow> signed_char c < 0x7F \<Longrightarrow> harmless c"
  proof -
    assume c: "c \<notin> set nasties" "0x1F < signed_char c" "signed_char c < 0x7F"
    then have "code_of c \<noteq> code_of (CHR '' '')" using s by auto
    then have "code_of c \<noteq> 32" by (simp add: code_of_def)
    then show "harmless c" using c code_of_less [of c] by (simp add: harmless_def signed_char_def del: code_of_less split: if_splits)
  qed
  then show "d \<in> set (escape_char c) \<Longrightarrow> harmless d"
    using p harmless_show_x by (auto simp: escape_char_def split: if_splits)
qed

lemma print_letter_escaped:
  assumes "find_letter sl c = Some s" and "sl_type s = SUBF_STR_ESC"
  shows "list_all harmless (print_letter sl c)"
  using assms escape_char_harmless
  by (auto simp: print_letter_def escape_text_def list_all_iff SUBF_STR_def SUBF_STR_ESC_def split: option.splits)

text \<open>What makes up the structure of a page, and two tables that differ only in the text of escaped letters.\<close>

definition skeleton :: "string \<Rightarrow> string" where
  "skeleton p = filter (\<lambda>c. \<not> harmless c) p"

lemma skeleton_append: "skeleton (p @ q) = skeleton p @ skeleton q" "skeleton (c # q) = skeleton [c] @ skeleton q"
  by (simp_all add: skeleton_def)

definition same_but_escaped :: "subfile_list list \<Rightarrow> subfile_list list \<Rightarrow> bool" where
  "same_but_escaped = list_all2 (\<lambda>s s'. sl_letter s = sl_letter s' \<and> sl_type s = sl_type s' \<and>
     (sl_type s \<noteq> SUBF_STR_ESC \<longrightarrow> sl_data s = sl_data s'))"

lemma find_letter_same:
  "same_but_escaped sl sl' \<Longrightarrow>
   (case find_letter sl c of
      None \<Rightarrow> find_letter sl' c = None
    | Some s \<Rightarrow> \<exists>s'. find_letter sl' c = Some s' \<and> sl_type s = sl_type s' \<and> (sl_type s \<noteq> SUBF_STR_ESC \<longrightarrow> sl_data s = sl_data s'))"
  unfolding same_but_escaped_def by (induction rule: list_all2_induct) (auto split: option.splits)

lemma skeleton_harmless: "list_all harmless s \<Longrightarrow> skeleton s = []"
  by (auto simp: skeleton_def filter_empty_conv list_all_iff)

lemma skeleton_letter:
  assumes "same_but_escaped sl sl'"
  shows "skeleton (print_letter sl c) = skeleton (print_letter sl' c)"
proof (cases "find_letter sl c")
  case None
  then show ?thesis using find_letter_same [OF assms, of c] by (simp add: print_letter_def)
next
  case (Some s)
  then obtain s' where s': "find_letter sl' c = Some s'" "sl_type s = sl_type s'" "sl_type s \<noteq> SUBF_STR_ESC \<longrightarrow> sl_data s = sl_data s'"
    using find_letter_same [OF assms, of c] by auto
  show ?thesis
  proof (cases "sl_type s = SUBF_STR_ESC")
    case True
    then show ?thesis
      using skeleton_harmless [OF print_letter_escaped [OF Some True]] skeleton_harmless [OF print_letter_escaped [OF s'(1)]] s'(2)
      by simp
  next
    case False
    then show ?thesis using Some s' by (cases "sl_data s'") (simp_all add: print_letter_def)
  qed
qed

lemma skeleton_subst: "same_but_escaped sl sl' \<Longrightarrow> skeleton (subst_text sl t) = skeleton (subst_text sl' t)"
proof (induction sl t rule: subst_text.induct)
  case (3 sl c d s)
  then show ?case
    using skeleton_letter [OF "3.prems", of d] skeleton_append(2) [of c "subst_text sl (d # s)"]
      skeleton_append(2) [of c "subst_text sl' (d # s)"] skeleton_append(2) [of d "subst_text sl s"]
      skeleton_append(2) [of d "subst_text sl' s"]
    by (cases "c = CHR ''$''"; cases "d = CHR ''$''") (simp_all add: skeleton_append(1))
qed simp_all


definition sample_table :: "string \<Rightarrow> subfile_list list" where
  "sample_table r =
     [\<lparr>sl_letter = CHR ''r'', sl_type = SUBF_STR_ESC, sl_data = Some r\<rparr>,
      \<lparr>sl_letter = CHR ''t'', sl_type = SUBF_STR, sl_data = Some ''a b''\<rparr>]"


section \<open>What escaping keeps\<close>

text \<open>Text of ASCII characters from 16 on, without percent signs and plus signs, is what its escaped form unescapes to.\<close>

definition plain_char :: "char \<Rightarrow> bool" where
  "plain_char c \<longleftrightarrow> 16 \<le> code_of c \<and> code_of c < 128 \<and> c \<noteq> CHR ''%'' \<and> c \<noteq> CHR ''+''"

lemma show_hex_two: "16 \<le> n \<Longrightarrow> n < 256 \<Longrightarrow> show_hex n = [hex_char (n div 16), hex_char (n mod 16)]"
proof -
  assume n: "16 \<le> n" "n < 256"
  then have "show_hex (n div 16) = [hex_char (n div 16)]" by (subst show_hex.simps) auto
  then show ?thesis using n by (subst show_hex.simps) simp
qed

lemma unescape_escape: "\<forall>c \<in> set s. plain_char c \<Longrightarrow> unescape_loop (escape_text s) = Some s"
proof (induction s)
  case (Cons c s)
  have c: "signed_char c = int (code_of c)" "show_x (signed_char c) = [hex_char (code_of c div 16), hex_char (code_of c mod 16)]"
    "c \<noteq> CHR ''%''" "c \<noteq> CHR ''+''"
    using Cons.prems by (simp_all add: plain_char_def signed_char_def show_x_def show_hex_two)
  moreover have "to_char (strtol16 [hex_char (code_of c div 16), hex_char (code_of c mod 16)]) = c"
    by (rule to_char_hex) (simp_all add: hex_digit_def hex_char_def)
  ultimately show ?case using Cons by (auto simp: escape_text_def escape_char_def)
qed (simp add: escape_text_def)

text \<open>Other bytes do not come back: a \<open>char\<close> of 228 is printed as \<open>%ffffffe4\<close>, and one of 9 as \<open>%9\<close>.\<close>

lemma escape_sign_extends: "escape_text [chr 228] = ''%ffffffe4'' \<and> escape_text [TAB] = ''%9''"
  by (simp add: escape_text_def escape_char_def show_x_def signed_char_def show_hex.simps hex_char_def ctrl_defs code_of_def
      nasties_def chr_def char_of_def bit_iff_odd)

end
