(* ===== verification/Weblogin.thy ===== *)
theory Weblogin
  imports Weblogin_net Subfile Conf_read
begin

text \<open>
  \<open>cgi/cgi.c\<close>, the weblogin program: its variables, its pages and the pieces its \<open>main\<close> is made of.  A piece goes on with a
  value, goes to the login screen (\<open>goto loginscreen\<close>), ends the process, or does something C gives no meaning to.
  What is printed is the string \<open>wl_out\<close>.  The templates are files of the working directory.
\<close>

datatype 'a stage = Go 'a | Screen | Done int | Stuck

definition step :: "('s, 'a stage) state \<Rightarrow> ('a \<Rightarrow> ('s, 'b stage) state) \<Rightarrow> ('s, 'b stage) state" where
  "step m f = do {
     r \<leftarrow> m;
     case r of Go x \<Rightarrow> f x | Screen \<Rightarrow> ret Screen | Done n \<Rightarrow> ret (Done n) | Stuck \<Rightarrow> ret Stuck }"

section \<open>Settings\<close>

record kcgi_settings =
  cosign_host :: string
  loop_page :: string
  cryptofile :: string
  certfile :: string
  cadir :: string
  tmpldir :: string
  krbtkts :: bool
  cosign_port :: int

definition config_str :: "cosigncfg list \<Rightarrow> string \<Rightarrow> string \<Rightarrow> string" where
  "config_str cs key old = (case cosign_config_get cs key of None \<Rightarrow> old | Some v \<Rightarrow> v)"

definition kcgi_configure :: "cosigncfg list \<Rightarrow> kcgi_settings \<Rightarrow> kcgi_settings" where
  "kcgi_configure cs k =
     (let tkts = (case cosign_config_get cs ''cosignx509krbtkts'' of
                    Some v \<Rightarrow> Some v | None \<Rightarrow> cosign_config_get cs ''cosignkrbtkts'')
      in \<lparr>cosign_host = config_str cs ''cosignhost'' (cosign_host k),
          loop_page = config_str cs ''cosignloopurl'' (loop_page k),
          cryptofile = config_str cs ''cosignkey'' (cryptofile k),
          certfile = config_str cs ''cosigncert'' (certfile k),
          cadir = config_str cs ''cosigncadir'' (cadir k),
          tmpldir = config_str cs ''cosigntmpldir'' (tmpldir k),
          krbtkts = (case tkts of None \<Rightarrow> krbtkts k | Some v \<Rightarrow> strcaseeq v ''on''),
          cosign_port = (case cosign_config_get cs ''cosignport'' of None \<Rightarrow> 6663 | Some v \<Rightarrow> atoi v mod 2 ^ 16)\<rparr>)"

section \<open>State\<close>

text \<open>
  The variables of \<open>main\<close> that the login screen reads are part of the state.  \<open>wl_sl\<close> holds \<open>sl_data\<close> by letter, \<open>wl_msg\<close> is the
  static buffer \<open>prev\<close> of \<open>factor.c\<close>.
\<close>

record weblogin = cgi +
  wl_out :: string
  wl_sl :: "char \<Rightarrow> string option"
  wl_new_factors :: "string list"
  wl_msg :: string
  wl_ref :: "string option"
  wl_service :: "string option"
  wl_factor :: "string option"
  wl_scookie :: "servicelist option"
  wl_tmpl :: "string option"

type_synonym 'a web = "(weblogin, 'a) state"

definition w_set :: "(weblogin \<Rightarrow> weblogin) \<Rightarrow> unit web" where
  "w_set f = State (\<lambda>w. ((), f w))"

definition print_text :: "string \<Rightarrow> unit web" where
  "print_text s = w_set (wl_out_update (\<lambda>t. t @ s))"

definition set_sl :: "char \<Rightarrow> string option \<Rightarrow> unit web" where
  "set_sl c s = w_set (wl_sl_update (\<lambda>sl. sl(c := s)))"

section \<open>Pages\<close>

definition ERROR_HTML :: string where "ERROR_HTML = ''error.html''"
definition EXPIRED_ERROR_HTML :: string where "EXPIRED_ERROR_HTML = ''expired_error.html''"
definition LOGIN_HTML :: string where "LOGIN_HTML = ''login.html''"
definition LOGIN_ERROR_HTML :: string where "LOGIN_ERROR_HTML = ''login_error.html''"
definition REAUTH_HTML :: string where "REAUTH_HTML = ''reauth.html''"
definition SERVICE_MENU :: string where "SERVICE_MENU = ''/services/''"

definition sl_list :: "(char \<Rightarrow> string option) \<Rightarrow> subfile_list list" where
  "sl_list sl = map (\<lambda>(c, t). \<lparr>sl_letter = c, sl_type = t, sl_data = sl c\<rparr>)
     [(CHR ''l'', SUBF_STR_ESC), (CHR ''t'', SUBF_STR), (CHR ''r'', SUBF_STR_ESC), (CHR ''c'', SUBF_STR_ESC),
      (CHR ''e'', SUBF_STR), (CHR ''f'', SUBF_STR_ESC), (CHR ''d'', SUBF_STR_ESC)]"

text \<open>\<open>subfile(tmpl, sl, nocache); exit(0)\<close>\<close>

definition show_page :: "string \<Rightarrow> subfile_list list \<Rightarrow> bool \<Rightarrow> 'a stage web" where
  "show_page tmpl sl nocache = do {
     t \<leftarrow> os_open tmpl;
     (case subfile (case t of Ok f \<Rightarrow> Some (f_data f) | Err _ \<Rightarrow> None) sl nocache of
        (s, ok) \<Rightarrow> do { print_text s; ret (Done (if ok then 0 else 1)) }) }"

definition show_main :: "string \<Rightarrow> bool \<Rightarrow> 'a stage web" where
  "show_main tmpl nocache = do { w \<leftarrow> State_Monad.get; show_page tmpl (sl_list (wl_sl w)) nocache }"

definition say :: "string \<Rightarrow> string \<Rightarrow> unit web" where
  "say title msg = do { set_sl CHR ''t'' (Some title); set_sl CHR ''e'' (Some msg) }"

definition error_page :: "string \<Rightarrow> string \<Rightarrow> 'a stage web" where
  "error_page title msg = do { say title msg; show_main ERROR_HTML False }"

definition try_later :: "'a stage web" where
  "try_later = error_page ''Error: Please try later''
     ''We were unable to contact the authentication server. Please try again later.''"

definition unknown_service :: "'a stage web" where
  "unknown_service = error_page ''Error: Unknown service'' ''We were unable to locate a service matching the one provided.''"

section \<open>The loop breaker\<close>

definition LOOPWINDOW :: int where "LOOPWINDOW = 30"
definition MAXLOOPCOUNT :: int where "MAXLOOPCOUNT = 10"
definition MAXCOOKIETIME :: int where "MAXCOOKIETIME = 86400"

definition loop_cookie :: "string \<Rightarrow> int \<Rightarrow> int \<Rightarrow> string option" where
  "loop_cookie cookie time count = snprintf 255 (cookie @ ''/'' @ show_int time @ ''/'' @ show_int count)"

definition loop_error :: "'a stage web" where
  "loop_error = error_page ''Error: Loop Breaker'' ''Please try again later.''"

definition put_cookie :: "string \<Rightarrow> unit web" where
  "put_cookie c = print_text (''Set-Cookie: '' @ c @ ''; path=/; secure'' @ [LF])"

text \<open>The cookie for the third case, which starts a new count, is made but not sent.\<close>

definition loop_checker :: "string \<Rightarrow> int \<Rightarrow> int \<Rightarrow> string \<Rightarrow> unit stage web" where
  "loop_checker page time count cookie = do {
     tv \<leftarrow> gettimeofday;
     case tv of
       None \<Rightarrow> loop_error
     | Some tv \<Rightarrow>
         if LOOPWINDOW < tv_sec tv - time then
           (case loop_cookie cookie (to_int (tv_sec tv)) 1 of
              None \<Rightarrow> loop_error
            | Some c \<Rightarrow> do { put_cookie c; ret (Go ()) })
         else if MAXLOOPCOUNT \<le> count then
           (case loop_cookie cookie (to_int (tv_sec tv)) 1 of
              None \<Rightarrow> loop_error
            | Some _ \<Rightarrow> do { print_text (''Location: '' @ page @ [LF, LF]); ret (Done 0) })
         else
           (case loop_cookie cookie time (count + 1) of
              None \<Rightarrow> loop_error
            | Some c \<Rightarrow> do { put_cookie c; ret (Go ()) }) }"

section \<open>Factors and service cookies\<close>

text \<open>The factors joined by commas, nothing where there are none or they do not fit.\<close>

fun smash_on :: "string \<Rightarrow> string list \<Rightarrow> string option" where
  "smash_on t [] = Some t"
| "smash_on t (f # fs) = (if 1024 - length t < length f + 2 then None else smash_on (t @ '','' @ f) fs)"

definition smash :: "string list \<Rightarrow> string option" where
  "smash av =
     (case av of
        [] \<Rightarrow> None
      | f # fs \<Rightarrow> if 1024 < length f + 1 then None else smash_on f fs)"

definition match_factor :: "string option \<Rightarrow> string \<Rightarrow> string \<Rightarrow> bool" where
  "match_factor sfx required satisfied \<longleftrightarrow>
     required = satisfied \<or> (case sfx of None \<Rightarrow> False | Some s \<Rightarrow> suffix_match s required satisfied)"

definition mkscookie :: "string \<Rightarrow> string option web" where
  "mkscookie service_name = do {
     (rc, tmp) \<leftarrow> os_mkcookie 128;
     ret (if rc \<noteq> 0 then None else snprintf 255 (service_name @ ''='' @ tmp)) }"

text \<open>The list of new factors holds four.\<close>

definition add_factor :: "string \<Rightarrow> string list \<Rightarrow> string list" where
  "add_factor m fs = (if m \<in> set fs then fs else if length fs < COSIGN_MAXFACTORS - 1 then fs @ [m] else fs)"

section \<open>The cookie of the request\<close>

function (sequential) find_cookie :: "string \<Rightarrow> string option" where
  "find_cookie data =
     (case strtok CHR '';'' data of
        None \<Rightarrow> None
      | Some (c, rest) \<Rightarrow>
          let c = dropWhile (\<lambda>x. x = CHR '' '') c
          in if starts_with c ''cosign='' then Some c else find_cookie rest)"
  by pat_completeness auto

termination by (relation "measure length") (auto dest: strtok_shorter)

declare find_cookie.simps [simp del]

text \<open>
  \<open>cookie\<close> with \<open>cookietime\<close> and \<open>cookiecount\<close>.  The cookie starts with \<open>cosign=\<close>, so \<open>strtok\<close> finds a word.
\<close>

definition read_cookie_parts :: "string \<Rightarrow> (string \<times> int \<times> int) stage web" where
  "read_cookie_parts cookie =
     (if length cookie < 120 \<or> 1024 < length cookie then ret Screen
      else case strtok CHR ''/'' cookie of
        None \<Rightarrow> ret Stuck
      | Some (name, rest) \<Rightarrow>
          (case strtok CHR ''/'' rest of
             None \<Rightarrow> ret (Go (name, 0, 0))
           | Some (t, rest) \<Rightarrow> do {
               tv \<leftarrow> gettimeofday;
               case tv of
                 None \<Rightarrow> error_page ''Error: Login Screen'' ''Please try again later.''
               | Some tv \<Rightarrow>
                   if MAXCOOKIETIME < tv_sec tv - atoi t then ret Screen
                   else ret (Go (name, atoi t, case strtok CHR ''/'' rest of None \<Rightarrow> 0 | Some (n, _) \<Rightarrow> atoi n)) }))"

section \<open>The query string\<close>

text \<open>
  \<open>[basic&][factors=...&]service&ref\<close>: whether \<open>basic\<close> was asked for.
\<close>

definition strip_semicolon :: "string \<Rightarrow> string" where
  "strip_semicolon s = (if s \<noteq> [] \<and> last s = CHR '';'' then butlast s else s)"

definition query_service :: "(string \<times> string) option \<Rightarrow> unit stage web" where
  "query_service p =
     (case p of
        None \<Rightarrow> ret (Go ())
      | Some (s, rest) \<Rightarrow>
          let s = strip_semicolon s
          in do {
               w_set (wl_service_update (\<lambda>_. Some s));
               if \<not> starts_with s ''cosign-'' then
                 error_page ''Error: Unrecognized Service'' ''Bad service in query string.''
               else do {
                 set_sl CHR ''c'' (Some s);
                 if rest = [] then
                   error_page ''Error: malformatted referrer''
                     ''Unable to determine referring service from query string.''
                 else do {
                   w_set (wl_ref_update (\<lambda>_. Some rest));
                   set_sl CHR ''r'' (Some rest);
                   ret (Go ()) } } })"

definition next_word :: "(string \<times> string) option \<Rightarrow> (string \<times> string) option" where
  "next_word p = Option.bind p (\<lambda>(_, rest). strtok CHR ''&'' rest)"

definition read_query :: "string option \<Rightarrow> string \<Rightarrow> bool \<Rightarrow> bool stage web" where
  "read_query remote_user qs rebasic =
     (case strtok CHR ''&'' qs of
        None \<Rightarrow> error_page ''Error: Unrecognized Service''
                  ''Unable to determine referring service from query string.''
      | Some (s, rest) \<Rightarrow>
          let basic = (remote_user \<noteq> None \<and> s = ''basic'');
              p = (if basic then next_word (Some (s, rest)) else Some (s, rest))
          in do {
               p \<leftarrow> (case p of
                     Some (s, _) \<Rightarrow>
                       if starts_with s ''factors='' then do {
                         w_set (wl_factor_update (\<lambda>_. Some (drop 8 s)));
                         set_sl CHR ''f'' (Some (drop 8 s));
                         ret (next_word p) }
                       else ret p
                   | None \<Rightarrow> ret p);
               step (query_service p) (\<lambda>_. ret (Go (rebasic \<or> basic))) })"

end
