(* ===== verification/Weblogin_login.thy ===== *)
theory Weblogin_login
  imports Weblogin
begin

text \<open>
  \<open>cgi/login.c\<close> and \<open>cgi/factor.c\<close>: who checks a password.  The Kerberos and MySQL libraries, \<open>crypt\<close> and the factor programs are
  arguments: records of what their calls answer.  An error is the text of \<open>error_message\<close>.
\<close>

definition COSIGN_CGI_OK :: int where "COSIGN_CGI_OK = 0"
definition COSIGN_CGI_ERROR :: int where "COSIGN_CGI_ERROR = 1"
definition COSIGN_CGI_PASSWORD_EXPIRED :: int where "COSIGN_CGI_PASSWORD_EXPIRED = 2"

text \<open>The answer of \<open>krb5_get_init_creds_password\<close>, by the error codes the source tells apart.\<close>

datatype creds = Creds | Refused | Expired string | Krb_error string

record krb5 =
  k_init_context :: "string option"
  k_parse_name :: "string \<Rightarrow> string option"
  k_default_realm :: "string sys"
  k_realm_error :: string
  k_cc_resolve :: "string \<Rightarrow> string option"
  k_init_creds :: "string \<Rightarrow> string \<Rightarrow> creds"
  k_kt_resolve :: "string \<Rightarrow> string option"
  k_princ :: "string option \<Rightarrow> string option"
  k_verify :: "string \<Rightarrow> string option"
  k_cc_initialize :: "string option"
  k_cc_store :: "string sys"
  k_store_error :: string

text \<open>
  What the guest database answers.  \<open>mysql_store_result\<close> without a result and without an error is \<open>No_row\<close> where
  \<open>mysql_fetch_row\<close>, which is then called with a null pointer, returns one itself.
\<close>

datatype mysql_row = Query_error | No_result | No_row | Row string

record mysql =
  m_connect :: bool
  m_query :: "string \<Rightarrow> mysql_row"
  m_crypt :: "string \<Rightarrow> string \<Rightarrow> string"

section \<open>Settings\<close>

record lcgi_settings =
  keytab_path :: string
  ticket_path :: string
  cosign_princ :: "string option"
  store_tickets :: bool
  tkt_life :: int
  friend_db_name :: string
  friend_login :: string
  friend_passwd :: string

definition lcgi_configure :: "cosigncfg list \<Rightarrow> lcgi_settings \<Rightarrow> lcgi_settings" where
  "lcgi_configure cs k =
     \<lparr>keytab_path = config_str cs ''cosignkeytab'' (keytab_path k),
      ticket_path = config_str cs ''cosignticketcache'' (ticket_path k),
      cosign_princ = (case cosign_config_get cs ''cosignprincipal'' of None \<Rightarrow> cosign_princ k | Some v \<Rightarrow> Some v),
      store_tickets = (case cosign_config_get cs ''cosignstoretickets'' of
          None \<Rightarrow> store_tickets k | Some v \<Rightarrow> if strcaseeq v ''off'' then False else store_tickets k),
      tkt_life = (case cosign_config_get cs ''cosignticketlifetime'' of
          None \<Rightarrow> tkt_life k
        | Some v \<Rightarrow> (case strtol v of (n, _, errno) \<Rightarrow> if errno then 10 * 60 * 60 else to_int n)),
      friend_db_name = config_str cs ''mysqldb'' (friend_db_name k),
      friend_login = config_str cs ''mysqluser'' (friend_login k),
      friend_passwd = config_str cs ''mysqlpasswd'' (friend_passwd k)\<rparr>"

text \<open>The file has a list of page texts of its own, of which only the title and the message are ever set.\<close>

definition login_sl :: "string \<Rightarrow> string \<Rightarrow> subfile_list list" where
  "login_sl title msg =
     [\<lparr>sl_letter = CHR ''l'', sl_type = SUBF_STR, sl_data = None\<rparr>,
      \<lparr>sl_letter = CHR ''t'', sl_type = SUBF_STR, sl_data = Some title\<rparr>,
      \<lparr>sl_letter = CHR ''c'', sl_type = SUBF_STR_ESC, sl_data = None\<rparr>,
      \<lparr>sl_letter = CHR ''r'', sl_type = SUBF_STR_ESC, sl_data = None\<rparr>,
      \<lparr>sl_letter = CHR ''e'', sl_type = SUBF_STR, sl_data = Some msg\<rparr>,
      \<lparr>sl_letter = CHR ''f'', sl_type = SUBF_STR_ESC, sl_data = None\<rparr>]"

definition login_page :: "string \<Rightarrow> string \<Rightarrow> 'a stage web" where
  "login_page title msg = show_page ERROR_HTML (login_sl title msg) False"

text \<open>Where the user only has to confirm, and at the same address, the daemon is not told.\<close>

record subparams =
  sp_reauth :: bool
  sp_ipchanged :: bool

definition login_done :: "string \<Rightarrow> subparams \<Rightarrow> login_param \<Rightarrow> string \<Rightarrow> int stage web" where
  "login_done host sp lp factor = do {
     w_set (wl_new_factors_update (add_factor factor));
     if sp_reauth sp \<and> \<not> sp_ipchanged sp then ret (Go COSIGN_CGI_OK)
     else do {
       rc \<leftarrow> cosign_login host lp;
       if rc < 0 then
         login_page ''Error: Please try later''
           ''We were unable to contact the authentication server. Please try again later.''
       else ret (Go COSIGN_CGI_OK) } }"

section \<open>MySQL\<close>

definition sql_char :: "char \<Rightarrow> bool" where
  "sql_char c \<longleftrightarrow> isalpha c \<or> isdigit c \<or> c \<in> set ''@_-.''"

definition sql_query :: "string \<Rightarrow> string option" where
  "sql_query name =
     snprintf 225 (''SELECT login, passwd FROM friend WHERE login = '' @ [CHR 0x27] @ name @ [CHR 0x27] @ '' AND passwd is NOT NULL'')"

definition cosign_login_mysql ::
  "mysql \<Rightarrow> string \<Rightarrow> subparams \<Rightarrow> login_param \<Rightarrow> string \<Rightarrow> string \<Rightarrow> int stage web" where
  "cosign_login_mysql my host sp lp name passwd =
     (if \<not> m_connect my then login_page ''Database Problem'' ''Unable to connect to guest account database.''
      else if \<not> list_all sql_char name then login_page ''Invalid Input'' ''Provided login appears to be invalid''
      else case sql_query name of
        None \<Rightarrow> login_page ''Invalid Input'' ''Provided login appears to be invalid''
      | Some sql \<Rightarrow>
          (case m_query my sql of
             Query_error \<Rightarrow> login_page ''Server Problem'' ''Unable to query guest account database.''
           | No_result \<Rightarrow> login_page ''Database Connection Problem'' ''Problems connecting to the database.''
           | No_row \<Rightarrow> ret (Go COSIGN_CGI_ERROR)
           | Row stored \<Rightarrow>
               if m_crypt my passwd stored \<noteq> stored then ret (Go COSIGN_CGI_ERROR)
               else login_done host sp (lp\<lparr>lp_krb := None\<rparr>) ''friend''))"

section \<open>Kerberos\<close>

text \<open>No KDC spoofing: nothing where the ticket verifies, or no keytab is configured.\<close>

definition verify_ticket :: "krb5 \<Rightarrow> lcgi_settings \<Rightarrow> string \<Rightarrow> (string \<times> string) option" where
  "verify_ticket k ls name =
     (if keytab_path ls = [] then None
      else if 1100 < length (keytab_path ls) then Some (''Ticket Verification Error'', ''server configuration error'')
      else case k_kt_resolve k (keytab_path ls) of
        Some e \<Rightarrow> Some (''KT Resolve Error'', e)
      | None \<Rightarrow>
          (case k_princ k (cosign_princ ls) of
             Some e \<Rightarrow> Some (''Server Principal Error'', e)
           | None \<Rightarrow> (case k_verify k name of Some e \<Rightarrow> Some (''Ticket Verify Error'', e) | None \<Rightarrow> None)))"

text \<open>The path for the ticket cache, where tickets are kept.\<close>

definition ticket_cache :: "krb5 \<Rightarrow> lcgi_settings \<Rightarrow> string option stage web" where
  "ticket_cache k ls =
     (if \<not> store_tickets ls then ret (Go None)
      else do {
        (rc, tmpkrb) \<leftarrow> os_mkcookie 16;
        if rc \<noteq> 0 then login_page ''Authentication Required (kerberos error)'' ''An unknown error occurred.''
        else case snprintf MAXPATHLEN (ticket_path ls @ ''/'' @ tmpkrb) of
          None \<Rightarrow> login_page ''Authentication Required (krbpath error)'' ''An unknown error occurred.''
        | Some krbpath \<Rightarrow>
            (case k_cc_resolve k krbpath of
               Some e \<Rightarrow> login_page ''Authentication Required (kerberos error)'' e
             | None \<Rightarrow> ret (Go (Some krbpath))) })"

text \<open>\<open>krb5_cc_initialize\<close> and \<open>krb5_cc_store_cred\<close>: the library writes the ticket to the cache.\<close>

definition store_ticket :: "krb5 \<Rightarrow> string option \<Rightarrow> unit stage web" where
  "store_ticket k cache =
     (case cache of
        None \<Rightarrow> ret (Go ())
      | Some krbpath \<Rightarrow>
          (case k_cc_initialize k of
             Some e \<Rightarrow> login_page ''CC Initialize Error'' e
           | None \<Rightarrow>
               (case k_cc_store k of
                  Err _ \<Rightarrow> login_page ''CC Storing Error'' (k_store_error k)
                | Ok ticket \<Rightarrow> do {
                    t \<leftarrow> now;
                    put_fs krbpath (Some \<lparr>f_data = ticket, f_mode = 0x180, f_mtime = tv_sec t\<rparr>);
                    ret (Go ()) })))"

text \<open>Return code and, where the password has expired, \<open>*msg\<close>.\<close>

definition cosign_login_krb5 ::
  "krb5 \<Rightarrow> lcgi_settings \<Rightarrow> string \<Rightarrow> subparams \<Rightarrow> login_param \<Rightarrow> string \<Rightarrow> string \<Rightarrow> (int \<times> string option) stage web" where
  "cosign_login_krb5 k ls host sp lp name passwd =
     (case k_init_context k of
        Some e \<Rightarrow> login_page ''Authentication Required ( kerberos error )'' e
      | None \<Rightarrow>
     (case k_parse_name k name of
        Some e \<Rightarrow> login_page ''Authentication Required ( kerberos error )'' e
      | None \<Rightarrow>
     (case (if lp_realm lp = [] then k_default_realm k else Ok (lp_realm lp)) of
        Err _ \<Rightarrow> login_page ''Authentication Required ( krb realm error )'' (k_realm_error k)
      | Ok realm \<Rightarrow> step (ticket_cache k ls) (\<lambda>cache.
          case k_init_creds k name passwd of
            Refused \<Rightarrow> ret (Go (COSIGN_CGI_ERROR, None))
          | Expired e \<Rightarrow> ret (Go (COSIGN_CGI_PASSWORD_EXPIRED, Some e))
          | Krb_error e \<Rightarrow> login_page ''Error'' e
          | Creds \<Rightarrow>
              (case verify_ticket k ls name of
                 Some (title, e) \<Rightarrow> login_page title e
               | None \<Rightarrow> do {
                   w_set (wl_new_factors_update (add_factor realm));
                   if sp_reauth sp \<and> \<not> sp_ipchanged sp then ret (Go (COSIGN_CGI_OK, None))
                   else step (store_ticket k cache) (\<lambda>_. do {
                     rc \<leftarrow> cosign_login host (lp\<lparr>lp_realm := realm, lp_krb := cache\<rparr>);
                     if rc < 0 then
                       login_page ''Error: Please try later''
                         ''We were unable to contact the authentication server. Please try again later.''
                     else ret (Go (COSIGN_CGI_OK, None)) }) })))))"

section \<open>Factor programs\<close>

text \<open>How a child ended, after the \<open>kill\<close> where it was silent for too long.\<close>

datatype ending = Exited int | Signaled int | Other_end

text \<open>What the program prints until its end or its timeout, given its input, and how it ended.\<close>

type_synonym factor_programs = "string \<Rightarrow> string \<Rightarrow> string \<times> ending"

text \<open>A line for every field of the program; the caller makes sure that each has a value.\<close>

definition form_lines :: "string list \<Rightarrow> cgi_list list \<Rightarrow> string" where
  "form_lines ff cl =
     concat (map (\<lambda>f. concat (map (\<lambda>c. if cl_key c = f then (case cl_data c of None \<Rightarrow> [] | Some d \<Rightarrow> mkline d) else []) cl)) ff)"

text \<open>
  \<open>strncpy(prev, line, sizeof(prev))\<close> for every line: the buffer is static, so a program that prints nothing leaves the message of
  the one before it.
\<close>

definition last_line :: "string \<Rightarrow> string \<Rightarrow> string" where
  "last_line prev out = (case lines_of SNET_BOL out of [] \<Rightarrow> prev | ls \<Rightarrow> take 1023 (last ls))"

definition execfactor :: "factor_programs \<Rightarrow> factorlist \<Rightarrow> cgi_list list \<Rightarrow> (int \<times> string) stage web" where
  "execfactor progs fl cl = do {
     b \<leftarrow> fault;
     if b then ret (Done 1)
     else
       case progs (fl_path fl) (form_lines (fl_formfield fl) cl) of
         (out, end) \<Rightarrow> do {
           w_set (wl_msg_update (\<lambda>prev. last_line prev out));
           c \<leftarrow> fault;
           w \<leftarrow> State_Monad.get;
           if c then ret (Done 1)
           else case end of
             Exited n \<Rightarrow> if n \<in> {0, 1, 2} then ret (Go (n, wl_msg w)) else ret (Done 1)
           | Signaled n \<Rightarrow> ret (Go (1, ''Factor killed''))
           | Other_end \<Rightarrow> ret (Done 1) } }"

end
