(* ===== verification/Weblogin_main.thy ===== *)
theory Weblogin_main
  imports Weblogin_login
begin

text \<open>
  \<open>main\<close> of \<open>cgi/cgi.c\<close>: who the visitor is, a visit with a service, one without, the form of the login screen, and the
  screen itself.  Reading the configuration is \<open>Conf_read\<close>; what it gave is an argument, as are the environment, the addresses of
  the daemon's host, the result of \<open>cosign_ssl\<close> and the authenticators.
\<close>

record web_config =
  wc_rx :: regex
  wc_conf :: conf
  wc_set :: kcgi_settings
  wc_login :: lcgi_settings
  wc_env :: "string \<Rightarrow> string option"
  wc_stdin :: "net_event list"
  wc_addrs :: "nat option"
  wc_ssl :: int
  wc_krb5 :: krb5
  wc_mysql :: mysql
  wc_factors :: factor_programs

abbreviation host_of :: "web_config \<Rightarrow> string" where
  "host_of wc \<equiv> cosign_host (wc_set wc)"

section \<open>The visitor\<close>

record visitor =
  v_script :: string
  v_method :: string
  v_ip :: string
  v_server :: string
  v_port :: int
  v_user :: "string option"
  v_realm :: string
  v_tkt :: "string option"

definition need_env :: "web_config \<Rightarrow> string \<Rightarrow> string \<Rightarrow> string stage web" where
  "need_env wc name msg =
     (case wc_env wc name of None \<Rightarrow> error_page ''Error: Server Configuration'' msg | Some v \<Rightarrow> ret (Go v))"

text \<open>\<open>remote_user\<close> and \<open>realm\<close>: by certificate, by Negotiate, or as the web server has it.\<close>

definition remote_user :: "web_config \<Rightarrow> (string option \<times> string) stage web" where
  "remote_user wc =
     (case (wc_env wc ''SSL_CLIENT_S_DN'', wc_env wc ''SSL_CLIENT_I_DN'') of
        (Some subject, Some issuer) \<Rightarrow>
          (case x509_translate (wc_rx wc) (cf_certlist (wc_conf wc)) subject issuer of
             Ret (rc, login, realm) \<Rightarrow>
               if rc \<noteq> 0 then
                 error_page ''Error: X509 failed''
                   ''There was an x.509 mutual authentication configuration error. Contact your administrator.''
               else ret (Go (login, case realm of None \<Rightarrow> [] | Some r \<Rightarrow> r))
           | Exit n \<Rightarrow> ret (Done n)
           | Undefined \<Rightarrow> ret Stuck)
      | _ \<Rightarrow>
          (case (wc_env wc ''REMOTE_USER'', wc_env wc ''AUTH_TYPE'') of
             (Some user, Some auth_type) \<Rightarrow>
               if strcaseeq auth_type ''Negotiate'' then
                 (case negotiate_translate (wc_rx wc) (wc_conf wc) user of
                    Ret (rc, login, realm) \<Rightarrow>
                      if rc \<noteq> 0 then
                        error_page ''Error: Negotiate login failed''
                          ''There was a problem processing your authentication data. Contact your administrator''
                      else ret (Go (login, case realm of None \<Rightarrow> [] | Some r \<Rightarrow> r))
                  | Exit n \<Rightarrow> ret (Done n)
                  | Undefined \<Rightarrow> ret Stuck)
               else ret (Go (Some user, ''basic''))
           | (user, _) \<Rightarrow> ret (Go (user, ''basic''))))"

definition ticket_path_of :: "web_config \<Rightarrow> string option" where
  "ticket_path_of wc =
     (if \<not> krbtkts (wc_set wc) then None
      else case wc_env wc ''KRB5CCNAME'' of
        None \<Rightarrow> None
      | Some p \<Rightarrow> Some (if starts_with p ''FILE:'' then drop 5 p else p))"

definition read_visitor :: "web_config \<Rightarrow> visitor stage web" where
  "read_visitor wc =
     step (need_env wc ''SCRIPT_NAME'' ''Unable to retrieve the script name'') (\<lambda>script.
     step (need_env wc ''REQUEST_METHOD'' ''Unable to retrieve method'') (\<lambda>method.
     step (need_env wc ''REMOTE_ADDR'' ''Unable to retrieve IP address'') (\<lambda>ip.
     step (need_env wc ''SERVER_NAME'' ''Unable to retrieve server name'') (\<lambda>server.
     step (need_env wc ''SERVER_PORT'' ''Unable to retrieve server port'') (\<lambda>port.
     step (remote_user wc) (\<lambda>(user, realm).
       ret (Go \<lparr>v_script = script, v_method = method, v_ip = ip, v_server = server, v_port = atoi port,
                v_user = user, v_realm = realm, v_tkt = ticket_path_of wc\<rparr>)))))))"

text \<open>\<open>cosign_login\<close> of a user the web server has authenticated; without one, \<open>validchars\<close> reads a null pointer.\<close>

definition basic_login :: "web_config \<Rightarrow> visitor \<Rightarrow> string \<Rightarrow> unit stage web" where
  "basic_login wc v cookie =
     (case v_user v of
        None \<Rightarrow> if validchars cookie then ret Stuck else try_later
      | Some user \<Rightarrow> do {
          rc \<leftarrow> cosign_login (host_of wc)
                  \<lparr>lp_cookie = cookie, lp_ip = v_ip v, lp_user = user, lp_realm = v_realm v, lp_krb = v_tkt v\<rparr>;
          if rc < 0 then try_later else ret (Go ()) })"

section \<open>The service asked for\<close>

text \<open>\<open>scheme\<close>, the entry of the service and the URL of its handler.\<close>

definition the_service :: "web_config \<Rightarrow> string \<Rightarrow> (nat \<times> (servicelist \<times> (int \<times> int) list) option)" where
  "the_service wc service =
     (case strchr service CHR ''='' of
        None \<Rightarrow> (3, service_find (wc_rx wc) (cf_servicelist (wc_conf wc)) service)
      | Some i \<Rightarrow> (2, service_find (wc_rx wc) (cf_servicelist (wc_conf wc)) (take i service)))"

definition find_service :: "web_config \<Rightarrow> string \<Rightarrow> (nat \<times> servicelist \<times> string) stage web" where
  "find_service wc service =
     (case the_service wc service of
        (scheme, None) \<Rightarrow> do { w_set (wl_scookie_update (\<lambda>_. None)); unknown_service }
      | (scheme, Some (sl, ms)) \<Rightarrow> do {
          w_set (wl_scookie_update (\<lambda>_. Some sl));
          (case match_substitute (sl_wkurl sl) 1024 2 ms service of
             Ret None \<Rightarrow> unknown_service
           | Ret (Some url) \<Rightarrow>
               if scheme = 2 \<and> sl_flag sl AND SL_SCHEME_V2 = 0 then unknown_service else ret (Go (scheme, sl, url))
           | Exit n \<Rightarrow> ret (Done n)
           | Undefined \<Rightarrow> ret Stuck) })"

text \<open>The service cookie of a login: a new one, or in the older scheme the one the service made; then it is registered.\<close>

definition register_service :: "web_config \<Rightarrow> visitor \<Rightarrow> string \<Rightarrow> nat \<Rightarrow> string \<Rightarrow> string \<Rightarrow> string stage web" where
  "register_service wc v title scheme cookie service =
     step (if scheme = 3 then do {
             s \<leftarrow> mkscookie service;
             case s of
               None \<Rightarrow> error_page ''Error: Make Service Cookie Failed''
                         ''We were unable to create a service cookie. Please try again later.''
             | Some s \<Rightarrow> ret (Go s) }
           else ret (Go service))
       (\<lambda>s. do {
          rc \<leftarrow> cosign_register (host_of wc) cookie (v_ip v) s;
          if rc < 0 then
            error_page title ''We were unable to contact the authentication server.  Please try again later.''
          else ret (Go s) })"

definition redirect :: "nat \<Rightarrow> string \<Rightarrow> string \<Rightarrow> string \<Rightarrow> 'a stage web" where
  "redirect scheme url s ref = do {
     print_text (''Location: '' @ (if scheme = 3 then url @ ''?'' @ s @ ''&'' @ ref else ref) @ [LF, LF]);
     ret (Done 0) }"

definition service_menu :: "visitor \<Rightarrow> 'a stage web" where
  "service_menu v = do {
     print_text (''Location: https://'' @ v_server v @ (if v_port v \<noteq> 443 then '':'' @ show_int (v_port v) else []) @
       SERVICE_MENU @ [LF, LF]);
     ret (Done 0) }"

text \<open>The required factors that none of the user's satisfies.\<close>

function (sequential) words :: "char \<Rightarrow> string \<Rightarrow> string list" where
  "words d s = (case strtok d s of None \<Rightarrow> [] | Some (w, r) \<Rightarrow> w # words d r)"
  by pat_completeness auto

termination by (relation "measure (\<lambda>(d, s). length s)") (auto dest: strtok_shorter)

declare words.simps [simp del]

definition satisfies :: "string option \<Rightarrow> string list \<Rightarrow> string list \<Rightarrow> bool" where
  "satisfies sfx required satisfied \<longleftrightarrow> list_all (\<lambda>r. list_ex (match_factor sfx r) satisfied) required"

definition enough_factors :: "web_config \<Rightarrow> string option \<Rightarrow> userinfo \<Rightarrow> bool" where
  "enough_factors wc factor ui =
     (case factor of None \<Rightarrow> True | Some f \<Rightarrow> satisfies (cf_suffix (wc_conf wc)) (words CHR '','' f) (ui_factors ui))"

text \<open>A visit with a service and a reference.\<close>

definition visit_service :: "web_config \<Rightarrow> visitor \<Rightarrow> bool \<Rightarrow> string \<times> int \<times> int \<Rightarrow> string \<Rightarrow> string \<Rightarrow> unit stage web" where
  "visit_service wc v rebasic = (\<lambda>(cookie, time, count) service ref.
     step (if rebasic then basic_login wc v cookie else ret (Go ())) (\<lambda>_.
     step (find_service wc service) (\<lambda>(scheme, sl, url).
       if \<not> rebasic \<and> sl_flag sl AND SL_REAUTH \<noteq> 0 then do { _ \<leftarrow> cosign_check (host_of wc) cookie; ret Screen }
       else do {
         rc \<leftarrow> cosign_check (host_of wc) cookie;
         w \<leftarrow> State_Monad.get;
         if rc \<noteq> 0 then ret Screen
         else if ui_ipaddr (cg_ui w) \<noteq> v_ip v then ret Screen
         else if \<not> enough_factors wc (wl_factor w) (cg_ui w) then do {
           set_sl CHR ''e'' (Some ''Additional authentication is required.'');
           ret Screen }
         else
           step (register_service wc v ''Error: Register Failed'' scheme cookie service) (\<lambda>s.
           step (loop_checker (loop_page (wc_set wc)) time count cookie) (\<lambda>_.
             redirect scheme url s ref)) })))"

text \<open>A visit without one.\<close>

definition visit_menu :: "web_config \<Rightarrow> visitor \<Rightarrow> bool \<Rightarrow> string \<Rightarrow> unit stage web" where
  "visit_menu wc v rebasic cookie = do {
     rc \<leftarrow> cosign_check (host_of wc) cookie;
     if rc = 0 then service_menu v
     else if rebasic then step (basic_login wc v cookie) (\<lambda>_. service_menu v)
     else ret Screen }"

section \<open>The form of the login screen\<close>

text \<open>The keys of the form, with those of the factor programs; the array has room for twelve.\<close>

definition form_keys :: "string list" where
  "form_keys = [''login'', ''password'', ''ref'', ''service'', ''reauth'', ''required'']"

fun insert_fields :: "string list \<Rightarrow> string list \<Rightarrow> string list option" where
  "insert_fields ks [] = Some ks"
| "insert_fields ks (f # ff) =
     (if f \<in> set ks then insert_fields ks ff
      else if length ks < 12 then insert_fields (ks @ [f]) ff else None)"

definition empty_form :: "string list \<Rightarrow> cgi_list list" where
  "empty_form ks = map (\<lambda>k. \<lparr>cl_key = k, cl_data = None\<rparr>) ks"

fun field :: "cgi_list list \<Rightarrow> string \<Rightarrow> string option" where
  "field [] k = None"
| "field (c # cl) k = (if cl_key c = k then cl_data c else field cl k)"

text \<open>
  \<open>login\<close> points to the name in the form, or to \<open>ui.ui_login\<close>, whose later values it then shows; so does the entry of the form.
\<close>

datatype login_name = Given string | Of_ui

definition login_of_name :: "login_name \<Rightarrow> weblogin \<Rightarrow> string" where
  "login_of_name l w = (case l of Given s \<Rightarrow> s | Of_ui \<Rightarrow> ui_login (cg_ui w))"

definition form_now :: "login_name \<Rightarrow> cgi_list list \<Rightarrow> weblogin \<Rightarrow> cgi_list list" where
  "form_now l cl w =
     (case l of
        Given _ \<Rightarrow> cl
      | Of_ui \<Rightarrow> map (\<lambda>c. if cl_key c = ''login'' then c\<lparr>cl_data := Some (ui_login (cg_ui w))\<rparr> else c) cl)"

text \<open>\<open>while ( pick_authenticator( ... ) == 0 )\<close>: whether one let the user in, the last return code and message.\<close>

lemma try_authenticators_suffix:
  "try_authenticators x login ms = Ret (m # ms', l, r) \<Longrightarrow> length (m # ms') \<le> length ms"
  by (induction ms) (fastforce split: outcome.splits if_splits prod.splits)+

lemma pick_shrinks:
  assumes "pick_authenticator x cf login pos = Ret (rc, key, name, realm, pos', cf')" and "rc = 0"
  shows "pos' \<noteq> [] \<and> length pos' < (if pos = [] then Suc (length (cf_authenticatorlist cf) + 2) else length pos)"
  using assms
  by (auto simp: pick_authenticator_def Let_def split: outcome.splits list.splits if_splits
      dest!: try_authenticators_suffix)

function (sequential) authenticate ::
  "web_config \<Rightarrow> subparams \<Rightarrow> login_param \<Rightarrow> string \<Rightarrow> matchlist list \<Rightarrow> int \<Rightarrow> string option \<Rightarrow>
     (bool \<times> int \<times> string option) stage web" where
  "authenticate wc sp lp passwd pos rc msg =
     (case pick_authenticator (wc_rx wc) (wc_conf wc) (lp_user lp) pos of
        Ret (done, key, name, realm, pos, _) \<Rightarrow>
          if done \<noteq> 0 then ret (Go (False, rc, msg))
          else
            let name = (case name of None \<Rightarrow> [] | Some n \<Rightarrow> n);
                lp' = lp\<lparr>lp_realm := case realm of None \<Rightarrow> [] | Some r \<Rightarrow> r\<rparr>
            in (case key of
                  None \<Rightarrow> ret Stuck
                | Some key \<Rightarrow>
                    step (if key = ''mysql'' then
                            step (cosign_login_mysql (wc_mysql wc) (host_of wc) sp lp' name passwd) (\<lambda>rc. ret (Go (rc, msg)))
                          else if key = ''kerberos'' then
                            step (cosign_login_krb5 (wc_krb5 wc) (wc_login wc) (host_of wc) sp lp' name passwd)
                              (\<lambda>(rc, m). ret (Go (rc, if m = None then msg else m)))
                          else ret (Go (COSIGN_CGI_ERROR, msg)))
                      (\<lambda>(rc, msg).
                         if rc = COSIGN_CGI_OK then ret (Go (True, rc, msg))
                         else authenticate wc sp lp passwd pos rc msg))
      | Exit n \<Rightarrow> ret (Done n)
      | Undefined \<Rightarrow> ret Stuck)"
  by pat_completeness auto

termination
  by (relation "measure (\<lambda>(wc, sp, lp, passwd, pos, rc, msg).
        if pos = [] then Suc (length (cf_authenticatorlist (wc_conf wc)) + 2) else length pos)")
    (use pick_shrinks in \<open>fastforce+\<close>)

declare authenticate.simps [simp del]

lemma authenticate_induct:
  fixes wc :: web_config and sp :: subparams and lp :: login_param and passwd :: string
  assumes "\<And>pos rc msg. (\<And>key name realm pos' cf n m.
      pick_authenticator (wc_rx wc) (wc_conf wc) (lp_user lp) pos = Ret (0, Some key, name, realm, pos', cf) \<Longrightarrow>
      n \<noteq> COSIGN_CGI_OK \<Longrightarrow> P pos' n m) \<Longrightarrow> P pos rc msg"
  shows "P pos (rc :: int) (msg :: string option)"
  using assms
proof (induction wc sp lp passwd pos rc msg rule: authenticate.induct)
  case (1 wc sp lp passwd pos rc msg)
  have "P pos' n m"
    if "pick_authenticator (wc_rx wc) (wc_conf wc) (lp_user lp) pos = Ret (0, Some key, name, realm, pos', cf)" "n \<noteq> COSIGN_CGI_OK"
    for key name realm pos' cf n m
    using "1.IH" [OF that(1) refl refl refl refl refl _ refl refl refl that(2) "1.prems"] by simp
  then show ?case by (rule "1.prems")
qed

text \<open>The fields of the form that name the service, and whether the user is only to confirm who he is.\<close>

definition take_form :: "cgi_list list \<Rightarrow> bool web" where
  "take_form cl = do {
     (case field cl ''ref'' of None \<Rightarrow> ret ()
      | Some r \<Rightarrow> do { w_set (wl_ref_update (\<lambda>_. Some r)); set_sl CHR ''r'' (Some r) });
     (case field cl ''service'' of None \<Rightarrow> ret ()
      | Some s \<Rightarrow> do { w_set (wl_service_update (\<lambda>_. Some s)); set_sl CHR ''c'' (Some s) });
     (case field cl ''required'' of None \<Rightarrow> ret ()
      | Some f \<Rightarrow> do { w_set (wl_factor_update (\<lambda>_. Some f)); set_sl CHR ''f'' (Some f) });
     ret (field cl ''reauth'' = Some ''true'') }"

text \<open>Who logs in: the user the daemon has for the cookie, or the name in the form.\<close>

definition form_login :: "web_config \<Rightarrow> string \<Rightarrow> cgi_list list \<Rightarrow> login_name stage web" where
  "form_login wc cookie cl = do {
     rc \<leftarrow> cosign_check (host_of wc) cookie;
     if rc = 0 then ret (Go Of_ui)
     else case field cl ''login'' of
       None \<Rightarrow> do { say ''Authentication Required'' ''Please enter your login and password.''; ret Screen }
     | Some l \<Rightarrow> do { set_sl CHR ''l'' (Some l); ret (Go (Given l)) } }"

text \<open>The password, where there is one.\<close>

definition check_password ::
  "web_config \<Rightarrow> visitor \<Rightarrow> string \<Rightarrow> subparams \<Rightarrow> login_name \<Rightarrow> cgi_list list \<Rightarrow> unit stage web" where
  "check_password wc v cookie sp l cl =
     (case field cl ''password'' of
        None \<Rightarrow> ret (Go ())
      | Some passwd \<Rightarrow> do {
          w \<leftarrow> State_Monad.get;
          step (authenticate wc sp \<lparr>lp_cookie = cookie, lp_ip = v_ip v, lp_user = login_of_name l w, lp_realm = [], lp_krb = None\<rparr>
                  passwd [] 0 None)
            (\<lambda>(ok, rc, msg).
               if ok then do { _ \<leftarrow> cosign_check (host_of wc) cookie; ret (Go ()) }
               else if rc = COSIGN_CGI_PASSWORD_EXPIRED then do {
                 set_sl CHR ''t'' (Some ''Password Expired'');
                 set_sl CHR ''e'' msg;
                 show_main EXPIRED_ERROR_HTML False }
               else do {
                 say ''Authentication Required''
                   (case msg of
                      Some (c # m) \<Rightarrow> c # m
                    | _ \<Rightarrow> ''Password or Account Name incorrect. Is [caps lock] on?'');
                 ret Screen }) })"

text \<open>One factor program whose fields are all filled in.\<close>

definition check_factor ::
  "web_config \<Rightarrow> visitor \<Rightarrow> string \<Rightarrow> login_name \<Rightarrow> cgi_list list \<Rightarrow> factorlist \<Rightarrow> unit stage web" where
  "check_factor wc v cookie l cl fl = do {
     w \<leftarrow> State_Monad.get;
     let cl = form_now l cl w;
     if list_ex (\<lambda>f. field cl f = None) (fl_formfield fl) then ret (Go ())
     else if fl_flag fl = 2 \<and> ui_login (cg_ui w) = [] then do {
       say ''Authentication Required'' ''Primary authentication is required before secondary authentication.'';
       ret Screen }
     else step (execfactor (wc_factors wc) fl cl) (\<lambda>(rc, msg).
       if rc \<noteq> COSIGN_CGI_OK then do {
         set_sl CHR ''e'' (Some msg);
         if rc = COSIGN_CGI_PASSWORD_EXPIRED then do {
           set_sl CHR ''t'' (Some ''Password Expired'');
           show_main EXPIRED_ERROR_HTML False }
         else do { set_sl CHR ''t'' (Some ''Authentication Required''); ret Screen } }
       else do {
         w_set (wl_new_factors_update (add_factor msg));
         w \<leftarrow> State_Monad.get;
         if msg \<in> set (ui_factors (cg_ui w)) \<and> ui_ipaddr (cg_ui w) = v_ip v then ret (Go ())
         else do {
           rc \<leftarrow> cosign_login (host_of wc)
             \<lparr>lp_cookie = cookie, lp_ip = v_ip v, lp_user = login_of_name l w, lp_realm = msg, lp_krb = None\<rparr>;
           if rc < 0 then try_later
           else do { _ \<leftarrow> cosign_check (host_of wc) cookie; ret (Go ()) } } }) }"

primrec check_factors ::
  "web_config \<Rightarrow> visitor \<Rightarrow> string \<Rightarrow> login_name \<Rightarrow> cgi_list list \<Rightarrow> factorlist list \<Rightarrow> unit stage web" where
  "check_factors wc v cookie l cl [] = ret (Go ())"
| "check_factors wc v cookie l cl (fl # fls) =
     step (check_factor wc v cookie l cl fl) (\<lambda>_. check_factors wc v cookie l cl fls)"

text \<open>The service of the form: its cookie and where to go, nothing where there is no service.\<close>

definition form_service :: "web_config \<Rightarrow> visitor \<Rightarrow> string \<Rightarrow> string option \<Rightarrow> (nat \<times> string \<times> string) stage web" where
  "form_service wc v cookie service =
     (case service of
        None \<Rightarrow> ret (Go (2, [], []))
      | Some service \<Rightarrow> step (find_service wc service) (\<lambda>(scheme, sl, url). do {
          w \<leftarrow> State_Monad.get;
          if sl_flag sl AND SL_REAUTH \<noteq> 0 \<and> \<not> satisfies (cf_suffix (wc_conf wc)) (sl_factors sl) (wl_new_factors w) then do {
            set_sl CHR ''e'' (Some ''Please complete all required fields to re-authenticate.'');
            ret Screen }
          else if ui_ipaddr (cg_ui w) \<noteq> v_ip v then ret Screen
          else step (register_service wc v ''Error: Implicit Register Failed'' scheme cookie service)
                 (\<lambda>s. ret (Go (scheme, url, s))) }))"

definition post_form :: "web_config \<Rightarrow> visitor \<Rightarrow> string \<times> int \<times> int \<Rightarrow> unit stage web" where
  "post_form wc v = (\<lambda>(cookie, time, count). do {
     w_set (wl_tmpl_update (\<lambda>_. Some LOGIN_ERROR_HTML));
     (case insert_fields form_keys (concat (map fl_formfield (cf_factorlist (wc_conf wc)))) of
        None \<Rightarrow> error_page ''Error: Server Configuration'' ''Too many form fields configured.''
      | Some ks \<Rightarrow>
          (case cgi_post (wc_env wc) (cgi_init (wc_stdin wc)) (empty_form ks) of
             (rc, cl) \<Rightarrow>
               if rc \<noteq> 0 then ret (Done 1)
               else do {
                 reauth \<leftarrow> take_form cl;
                 step (form_login wc cookie cl) (\<lambda>l. do {
                   w \<leftarrow> State_Monad.get;
                   let sp = \<lparr>sp_reauth = reauth, sp_ipchanged = (ui_ipaddr (cg_ui w) \<noteq> v_ip v)\<rparr>;
                   step (check_password wc v cookie sp l cl) (\<lambda>_.
                   step (check_factors wc v cookie l cl (cf_factorlist (wc_conf wc))) (\<lambda>_. do {
                     w \<leftarrow> State_Monad.get;
                     if ui_login (cg_ui w) = [] then do {
                       say ''Authentication Required'' ''Please enter your login and password.'';
                       ret Screen }
                     else step (form_service wc v cookie (wl_service w)) (\<lambda>(scheme, url, s).
                       step (loop_checker (loop_page (wc_set wc)) time count cookie) (\<lambda>_.
                         case Option.bind (wl_ref w) (\<lambda>r. strstr r ''http'') of
                           Some ref \<Rightarrow> redirect scheme url s ref
                         | None \<Rightarrow> service_menu v)) })) }) })) })"

section \<open>The login screen\<close>

text \<open>A new login cookie; a visitor the web server knows is sent to the page that takes its word for it.\<close>

definition new_session :: "visitor \<Rightarrow> int web" where
  "new_session v = do {
     w_set (wl_tmpl_update (\<lambda>t. if t = None then Some LOGIN_HTML else t));
     (rc, new_cookiebuf) \<leftarrow> os_mkcookie 128;
     if rc \<noteq> 0 then ret 1
     else do {
       tv \<leftarrow> gettimeofday;
       case tv of
         None \<Rightarrow> do {
           r \<leftarrow> error_page ''Error: Login Screen'' ''Please try again later.'';
           ret (case (r :: unit stage) of Done n \<Rightarrow> n | _ \<Rightarrow> 0) }
       | Some tv \<Rightarrow> do {
           put_cookie (take 254 (''cosign='' @ new_cookiebuf @ ''/'' @ show_nat (nat (tv_sec tv mod 2 ^ 64))));
           w \<leftarrow> State_Monad.get;
           if v_user v \<noteq> None then do {
             print_text (''Location: https://'' @ v_server v @ (if v_port v \<noteq> 443 then '':'' @ show_int (v_port v) else []) @
               v_script v @ ''?basic'' @
               (case (wl_ref w, wl_service w) of
                  (Some ref, Some service) \<Rightarrow> ''&'' @ service @ ''&'' @ ref
                | _ \<Rightarrow> []) @ [LF, LF]);
             ret 0 }
           else do {
             r \<leftarrow> show_main (case wl_tmpl w of None \<Rightarrow> LOGIN_HTML | Some t \<Rightarrow> t) True;
             ret (case (r :: unit stage) of Done n \<Rightarrow> n | _ \<Rightarrow> 0) } } } }"

definition default_error :: "string \<Rightarrow> unit web" where
  "default_error msg = w_set (wl_sl_update (\<lambda>sl. if sl CHR ''e'' = None then sl(CHR ''e'' := Some msg) else sl))"

text \<open>The screen for a user who is logged in: what is still to be entered.\<close>

definition again_screen :: "web_config \<Rightarrow> visitor \<Rightarrow> int web" where
  "again_screen wc v = do {
     w \<leftarrow> State_Monad.get;
     let ui = cg_ui w;
     let sl = (case (wl_scookie w, wl_service w) of
                 (None, Some service) \<Rightarrow> map_option fst (snd (the_service wc service))
               | (s, _) \<Rightarrow> s);
     set_sl CHR ''l'' (Some (ui_login ui));
     tmpl \<leftarrow> (if (case sl of None \<Rightarrow> False | Some s \<Rightarrow> sl_flag s AND SL_REAUTH \<noteq> 0) then do {
                set_sl CHR ''d'' None;
                set_sl CHR ''f'' (Option.bind sl (\<lambda>s. smash (sl_factors s)));
                set_sl CHR ''t'' (Some ''Re-Authentication Required'');
                default_error ''Please Re-Authenticate.'';
                ret REAUTH_HTML }
              else if ui_ipaddr ui \<noteq> v_ip v then do {
                set_sl CHR ''d'' None;
                set_sl CHR ''f'' (case ui_factors ui of [] \<Rightarrow> None | f # _ \<Rightarrow> Some f);
                set_sl CHR ''t'' (Some ''Re-Authentication Required'');
                default_error ''Re-authenticate to confirm your new Internet address.'';
                ret REAUTH_HTML }
              else do {
                set_sl CHR ''d'' (smash (ui_factors ui));
                set_sl CHR ''f'' (wl_factor w);
                ret LOGIN_ERROR_HTML });
     r \<leftarrow> show_main tmpl True;
     ret (case (r :: unit stage) of Done n \<Rightarrow> n | _ \<Rightarrow> 0) }"

definition loginscreen :: "web_config \<Rightarrow> visitor \<Rightarrow> int web" where
  "loginscreen wc v = do {
     w \<leftarrow> State_Monad.get;
     if ui_login (cg_ui w) = [] then new_session v else again_screen wc v }"

section \<open>The program\<close>

text \<open>From the connections on.\<close>

definition with_cookie :: "web_config \<Rightarrow> visitor \<Rightarrow> bool \<Rightarrow> string \<times> int \<times> int \<Rightarrow> unit stage web" where
  "with_cookie wc v rebasic c =
     (case connlist_setup (wc_addrs wc) of
        None \<Rightarrow> error_page ''Error: Server Configuration''
                  ''We were unable to contact the authentication server.  Please try again later.''
      | Some head \<Rightarrow> do {
          w_set (cg_cl_update (\<lambda>_. head));
          if wc_ssl wc \<noteq> 0 then
            error_page ''Error: Server Configuration''
              ''Failed to initialise connections to the authentication server. Please try again later''
          else do {
            w \<leftarrow> State_Monad.get;
            case (wl_service w, wl_ref w) of
              (Some service, Some ref) \<Rightarrow> visit_service wc v rebasic c service ref
            | _ \<Rightarrow> if v_method v \<noteq> ''POST'' then visit_menu wc v rebasic (fst c) else post_form wc v c } })"

definition visit :: "web_config \<Rightarrow> visitor \<Rightarrow> bool \<Rightarrow> unit stage web" where
  "visit wc v rebasic =
     step (case wc_env wc ''QUERY_STRING'' of
             None \<Rightarrow> ret (Go rebasic)
           | Some qs \<Rightarrow> if qs = [] then ret (Go rebasic) else read_query (v_user v) qs rebasic)
       (\<lambda>rebasic.
          case Option.bind (wc_env wc ''HTTP_COOKIE'') find_cookie of
            None \<Rightarrow>
              if v_method v = ''POST'' \<or> rebasic then
                error_page ''Error: Cookies Required'' ''This service requires that cookies be enabled.''
              else ret Screen
          | Some cookie \<Rightarrow> step (read_cookie_parts cookie) (with_cookie wc v rebasic))"

text \<open>\<open>main\<close>, without the options \<open>-V\<close> and the reading of the configuration: the exit code.\<close>

definition weblogin_main :: "web_config \<Rightarrow> string list \<Rightarrow> int outcome web" where
  "weblogin_main wc args =
     (if 1 < length args then ret (Exit 1)
      else do {
        r \<leftarrow> read_visitor wc;
        case r of
          Go v \<Rightarrow> do {
            r \<leftarrow> visit wc v (case args of [a] \<Rightarrow> starts_with a ''basic'' | _ \<Rightarrow> False);
            case r of
              Done n \<Rightarrow> ret (Exit n)
            | Stuck \<Rightarrow> ret Undefined
            | _ \<Rightarrow> do { n \<leftarrow> loginscreen wc v; ret (Exit n) } }
        | Done n \<Rightarrow> ret (Exit n)
        | _ \<Rightarrow> ret Undefined })"

end
