(* ===== verification/Weblogin_facts.thy ===== *)
theory Weblogin_facts
  imports Weblogin_main Replica
begin

text \<open>
  What the weblogin program promises: the loop breaker ends a loop of redirects, the guest database is asked only for harmless
  names, a visitor who may not pass gets nothing, and a visitor who may is registered at the daemon and sent on.
\<close>

section \<open>Running the pieces\<close>

lemma run_step [simp]:
  "run_state (step m f) w =
     (case run_state m w of
        (Go x, v) \<Rightarrow> run_state (f x) v | (Screen, v) \<Rightarrow> (Screen, v) | (Done n, v) \<Rightarrow> (Done n, v) | (Stuck, v) \<Rightarrow> (Stuck, v))"
  by (cases "run_state m w"; cases "fst (run_state m w)") (auto simp: step_def)

lemma run_w_set [simp]: "run_state (w_set f) w = ((), f w)"
  by (simp add: w_set_def)

lemma run_print [simp]: "run_state (print_text s) w = ((), w\<lparr>wl_out := wl_out w @ s\<rparr>)"
  by (simp add: print_text_def)

lemma run_set_sl [simp]: "run_state (set_sl c s) w = ((), w\<lparr>wl_sl := (wl_sl w)(c := s)\<rparr>)"
  by (simp add: set_sl_def)

section \<open>The loop breaker\<close>

definition cookie_line :: "string \<Rightarrow> int \<Rightarrow> int \<Rightarrow> string" where
  "cookie_line name time count = name @ ''/'' @ show_int time @ ''/'' @ show_int count"

text \<open>What a browser keeps of \<open>Set-Cookie\<close>.\<close>

definition browser_cookie :: "string \<Rightarrow> string" where
  "browser_cookie s = takeWhile (\<lambda>c. c \<noteq> CHR '';'') (drop 12 s)"

text \<open>
  Visits one after the other, each in a process of its own, where each service sends the browser back: whether one of them ends at
  the page of the loop breaker.
\<close>

fun bounced :: "string \<Rightarrow> string \<Rightarrow> weblogin list \<Rightarrow> bool" where
  "bounced page cookie [] = False"
| "bounced page cookie (w # ws) =
     (case run_state (step (read_cookie_parts cookie) (\<lambda>(name, time, count). loop_checker page time count name)) w of
        (Go _, v) \<Rightarrow> bounced page (browser_cookie (drop (length (wl_out w)) (wl_out v))) ws
      | (_, v) \<Rightarrow> wl_out v = wl_out w @ ''Location: '' @ page @ [LF, LF])"

definition cookie_name :: "string \<Rightarrow> bool" where
  "cookie_name name \<longleftrightarrow> 120 \<le> length name \<and> length name \<le> 240 \<and> CHR ''/'' \<notin> set name \<and> CHR '';'' \<notin> set name"

definition quiet_at :: "int \<Rightarrow> int \<Rightarrow> weblogin \<Rightarrow> bool" where
  "quiet_at t d w \<longleftrightarrow> os_faults w = [] \<and> t \<le> tv_sec (os_now w) \<and> tv_sec (os_now w) \<le> t + d"

lemma show_int_chars: "c \<in> set (show_int i) \<Longrightarrow> c \<noteq> CHR ''/'' \<and> c \<noteq> CHR '';''"
  using show_nat_digits [of "nat i"] show_nat_digits [of "nat (- i)"]
  by (auto simp: show_int_def isdigit_def code_of_def split: if_splits)

lemma show_int_nonempty: "show_int i \<noteq> []"
  by (simp add: show_int_def)

lemma length_show_int: "0 \<le> i \<Longrightarrow> i < 2 ^ 31 \<Longrightarrow> length (show_int i) \<le> 10"
  using length_show_nat [of "nat i" 9] by (simp add: show_int_def)

lemma length_show_signed: "- (2 ^ 31) \<le> i \<Longrightarrow> i < 2 ^ 31 \<Longrightarrow> length (show_int i) \<le> 11"
proof -
  assume i: "- (2 ^ 31) \<le> i" "i < 2 ^ 31"
  then have "nat i < 10 ^ Suc 9" "nat (- i) < 10 ^ Suc 9" by simp_all
  then show ?thesis using length_show_nat [of "nat i" 9] length_show_nat [of "nat (- i)" 9] by (simp add: show_int_def)
qed

lemma length_show_count: "0 \<le> i \<Longrightarrow> i < 100 \<Longrightarrow> length (show_int i) \<le> 2"
  using length_show_nat [of "nat i" 1] by (simp add: show_int_def numeral_2_eq_2)

lemma cookie_line_fits:
  assumes "cookie_name name" and "0 \<le> time" and "time < 2 ^ 31" and "0 \<le> count" and "count < 100"
  shows "120 \<le> length (cookie_line name time count) \<and> length (cookie_line name time count) < 255"
  using assms length_show_int [OF assms(2,3)] length_show_count [OF assms(4,5)] by (simp add: cookie_line_def cookie_name_def)

lemma run_read_cookie_parts:
  assumes "cookie_name name" and "0 \<le> time" and "time < 2 ^ 31" and "0 \<le> count" and "count < 100"
    and "quiet_at time MAXCOOKIETIME w"
  shows "run_state (read_cookie_parts (cookie_line name time count)) w = (Go (name, time, count), w)"
proof -
  have s: "CHR ''/'' \<notin> set (show_int i)" for i using show_int_chars by blast
  have n: "name \<noteq> []" "CHR ''/'' \<notin> set name" using assms(1) by (auto simp: cookie_name_def)
  have "strtok CHR ''/'' (cookie_line name time count) = Some (name, show_int time @ CHR ''/'' # show_int count)"
    unfolding cookie_line_def using strtok_word [OF n, of "show_int time @ CHR ''/'' # show_int count"] by simp
  moreover have "strtok CHR ''/'' (show_int time @ CHR ''/'' # show_int count) = Some (show_int time, show_int count)"
    by (rule strtok_word [OF show_int_nonempty s])
  moreover have "strtok CHR ''/'' (show_int count) = Some (show_int count, [])"
    by (rule strtok_last [OF show_int_nonempty s])
  ultimately show ?thesis
    using assms cookie_line_fits [OF assms(1-5)] atoi_show_int [of time] atoi_show_int [of count]
    by (simp add: read_cookie_parts_def quiet_at_def os_simps)
qed

lemma browser_keeps:
  assumes "cookie_name name"
  shows "browser_cookie (''Set-Cookie: '' @ cookie_line name time count @ ''; path=/; secure'' @ [LF]) = cookie_line name time count"
proof -
  have "\<forall>c \<in> set (cookie_line name time count). c \<noteq> CHR '';''"
    using assms show_int_chars by (auto simp: cookie_line_def cookie_name_def)
  then show ?thesis by (simp add: browser_cookie_def takeWhile_append)
qed

lemma run_loop_checker:
  assumes "cookie_name name" and "0 \<le> time" and "time < 2 ^ 31" and "0 \<le> count" and "count \<le> MAXLOOPCOUNT"
    and "quiet_at time LOOPWINDOW w"
  shows "run_state (loop_checker page time count name) w =
    (if count = MAXLOOPCOUNT then (Done 0, w\<lparr>wl_out := wl_out w @ ''Location: '' @ page @ [LF, LF]\<rparr>)
     else (Go (), w\<lparr>wl_out := wl_out w @ ''Set-Cookie: '' @ cookie_line name time (count + 1) @ ''; path=/; secure'' @ [LF]\<rparr>))"
proof -
  have "length (show_int (to_int (tv_sec (os_now w)))) \<le> 11"
    by (rule length_show_signed) (use to_int_bounds in blast)+
  moreover have "length (show_int 1) = 1" by (simp add: show_int_def show_nat.simps)
  ultimately have 1: "length (name @ ''/'' @ show_int (to_int (tv_sec (os_now w))) @ ''/'' @ show_int 1) < 255"
    using assms(1) by (simp add: cookie_name_def)
  have 2: "length (cookie_line name time (count + 1)) < 255"
    using cookie_line_fits [of name time "count + 1"] assms by (simp add: MAXLOOPCOUNT_def)
  show ?thesis
    using assms 1 2
    by (auto simp: loop_checker_def loop_cookie_def put_cookie_def quiet_at_def os_simps cookie_line_def)
qed

lemma bounced_start:
  assumes "cookie_name name" and "0 \<le> time" and "time < 2 ^ 31" and "0 \<le> count" and "count \<le> MAXLOOPCOUNT"
    and "\<forall>w \<in> set ws. quiet_at time LOOPWINDOW w"
  shows "bounced page (cookie_line name time count) ws \<longleftrightarrow> MAXLOOPCOUNT - count < int (length ws)"
  using assms(4-6)
proof (induction ws arbitrary: count)
  case (Cons w ws)
  have q: "quiet_at time MAXCOOKIETIME w" "quiet_at time LOOPWINDOW w"
    using Cons.prems(3) by (auto simp: quiet_at_def LOOPWINDOW_def MAXCOOKIETIME_def)
  have "run_state (read_cookie_parts (cookie_line name time count)) w = (Go (name, time, count), w)"
    using Cons.prems(1,2) by (intro run_read_cookie_parts assms(1-3) q) (simp_all add: MAXLOOPCOUNT_def)
  moreover note run_loop_checker [OF assms(1-3) Cons.prems(1,2) q(2), of page]
  moreover have "count < MAXLOOPCOUNT \<Longrightarrow>
      bounced page (cookie_line name time (count + 1)) ws \<longleftrightarrow> MAXLOOPCOUNT - (count + 1) < int (length ws)"
    using Cons.prems by (intro Cons.IH) auto
  moreover note browser_keeps [OF assms(1), of time "count + 1"]
  ultimately show ?case using Cons.prems(2) by (cases "count = MAXLOOPCOUNT") auto
qed simp

text \<open>
  C38.  A loop of redirects comes to an end: of visits by the same browser within the window, each sent back by the service it
  asked for, exactly those after the limit's count end at the page of the loop breaker, wherever the count starts.
\<close>

theorem loop_breaks:
  assumes "cookie_name name" and "0 \<le> time" and "time < 2 ^ 31" and "0 \<le> count" and "count \<le> MAXLOOPCOUNT"
    and "\<forall>w \<in> set ws. quiet_at time LOOPWINDOW w"
  shows "bounced page (cookie_line name time count) ws \<longleftrightarrow> MAXLOOPCOUNT - count < int (length ws)"
  using assms by (rule bounced_start)

definition sample_visit :: weblogin where
  "sample_visit =
     \<lparr>os_fs = (\<lambda>_. None), os_now = \<lparr>tv_sec = 1000, tv_usec = 0\<rparr>, os_pid = 7, os_faults = [], os_pool = replicate 93 0,
      cg_cl = [], cg_attempts = [], cg_peer = sample_peer [], cg_proto = 0,
      cg_ui = \<lparr>ui_login = [], ui_ipaddr = [], ui_factors = []\<rparr>,
      wl_out = [], wl_sl = (\<lambda>_. None), wl_new_factors = [], wl_msg = [], wl_ref = None, wl_service = None, wl_factor = None,
      wl_scookie = None, wl_tmpl = None\<rparr>"

lemma loop_breaks_witness:
  "bounced ''/loop'' (cookie_line (''cosign='' @ replicate 125 CHR ''a'') 990 3) (replicate 8 sample_visit) \<and>
   \<not> bounced ''/loop'' (cookie_line (''cosign='' @ replicate 125 CHR ''a'') 990 3) (replicate 7 sample_visit)"
proof -
  have n: "cookie_name (''cosign='' @ replicate 125 CHR ''a'')" by (simp add: cookie_name_def)
  have w: "\<forall>w \<in> set (replicate n sample_visit). quiet_at 990 LOOPWINDOW w" for n
    by (auto simp: sample_visit_def quiet_at_def LOOPWINDOW_def)
  show ?thesis using loop_breaks [OF n _ _ _ _ w, of 3] by (simp add: MAXLOOPCOUNT_def)
qed


section \<open>The guest database\<close>

text \<open>Two databases that answer the same to the query for a name of harmless characters.\<close>

definition same_guests :: "mysql \<Rightarrow> mysql \<Rightarrow> bool" where
  "same_guests my my' \<longleftrightarrow> m_connect my = m_connect my' \<and> m_crypt my = m_crypt my' \<and>
     (\<forall>name sql. list_all sql_char name \<longrightarrow> sql_query name = Some sql \<longrightarrow> m_query my sql = m_query my' sql)"

lemma mysql_login_same:
  "same_guests my my' \<Longrightarrow> cosign_login_mysql my host sp lp name passwd = cosign_login_mysql my' host sp lp name passwd"
  by (auto simp: cosign_login_mysql_def same_guests_def split: option.splits mysql_row.splits)

lemma other_mysql [simp]:
  "need_env (wc\<lparr>wc_mysql := my\<rparr>) = need_env wc" "remote_user (wc\<lparr>wc_mysql := my\<rparr>) = remote_user wc"
  "ticket_path_of (wc\<lparr>wc_mysql := my\<rparr>) = ticket_path_of wc" "basic_login (wc\<lparr>wc_mysql := my\<rparr>) = basic_login wc"
  "the_service (wc\<lparr>wc_mysql := my\<rparr>) = the_service wc" "register_service (wc\<lparr>wc_mysql := my\<rparr>) = register_service wc"
  "enough_factors (wc\<lparr>wc_mysql := my\<rparr>) = enough_factors wc" "form_login (wc\<lparr>wc_mysql := my\<rparr>) = form_login wc"
  "check_factor (wc\<lparr>wc_mysql := my\<rparr>) = check_factor wc"
  by (simp_all add: fun_eq_iff need_env_def remote_user_def ticket_path_of_def basic_login_def the_service_def register_service_def
      enough_factors_def form_login_def check_factor_def cong: if_cong option.case_cong)

lemma other_mysql_pieces [simp]:
  "read_visitor (wc\<lparr>wc_mysql := my\<rparr>) = read_visitor wc" "find_service (wc\<lparr>wc_mysql := my\<rparr>) = find_service wc"
  "visit_menu (wc\<lparr>wc_mysql := my\<rparr>) = visit_menu wc" "again_screen (wc\<lparr>wc_mysql := my\<rparr>) = again_screen wc"
  by (simp_all add: fun_eq_iff read_visitor_def find_service_def visit_menu_def again_screen_def Let_def cong: if_cong option.case_cong)

lemma other_mysql_visits [simp]:
  "visit_service (wc\<lparr>wc_mysql := my\<rparr>) = visit_service wc" "form_service (wc\<lparr>wc_mysql := my\<rparr>) = form_service wc"
  "loginscreen (wc\<lparr>wc_mysql := my\<rparr>) = loginscreen wc"
  by (simp_all add: fun_eq_iff visit_service_def form_service_def loginscreen_def cong: if_cong option.case_cong)

lemma other_mysql_factors [simp]:
  "check_factors (wc\<lparr>wc_mysql := my\<rparr>) v cookie l cl fls = check_factors wc v cookie l cl fls"
  by (induction fls) simp_all

lemma other_mysql_authenticate:
  assumes "same_guests my (wc_mysql wc)"
  shows "authenticate (wc\<lparr>wc_mysql := my\<rparr>) sp lp passwd pos rc msg = authenticate wc sp lp passwd pos rc msg"
proof (induction pos rc msg rule: authenticate_induct [where wc = wc and lp = lp])
  case (1 pos rc msg)
  note same = mysql_login_same [OF assms]
  show ?case
  proof (cases "pick_authenticator (wc_rx wc) (wc_conf wc) (lp_user lp) pos")
    case (Ret r)
    obtain dn key name realm pos' cf where r: "r = (dn, key, name, realm, pos', cf)" by (cases r) auto
    show ?thesis
    proof (cases "dn = 0 \<and> key \<noteq> None")
      case True
      then obtain k where k: "key = Some k" by auto
      have "authenticate (wc\<lparr>wc_mysql := my\<rparr>) sp lp passwd pos' x m = authenticate wc sp lp passwd pos' x m"
        if "x \<noteq> COSIGN_CGI_OK" for x m
        using 1 Ret r True k that by blast
      then show ?thesis using Ret r True k
        by (subst (1 2) authenticate.simps) (auto simp: same Let_def intro!: arg_cong2 [where f = step])
    qed (use Ret r in \<open>subst (1 2) authenticate.simps; auto\<close>)
  qed (subst (1 2) authenticate.simps; simp)+
qed

lemma other_mysql_main:
  assumes "same_guests my (wc_mysql wc)"
  shows "check_password (wc\<lparr>wc_mysql := my\<rparr>) = check_password wc" "post_form (wc\<lparr>wc_mysql := my\<rparr>) = post_form wc"
    "with_cookie (wc\<lparr>wc_mysql := my\<rparr>) = with_cookie wc" "visit (wc\<lparr>wc_mysql := my\<rparr>) = visit wc"
proof -
  show c: "check_password (wc\<lparr>wc_mysql := my\<rparr>) = check_password wc"
    by (simp add: fun_eq_iff check_password_def other_mysql_authenticate [OF assms] cong: if_cong option.case_cong)
  show p: "post_form (wc\<lparr>wc_mysql := my\<rparr>) = post_form wc"
    by (simp add: fun_eq_iff post_form_def c Let_def cong: if_cong option.case_cong)
  show w: "with_cookie (wc\<lparr>wc_mysql := my\<rparr>) = with_cookie wc"
    by (simp add: fun_eq_iff with_cookie_def p cong: if_cong option.case_cong)
  show "visit (wc\<lparr>wc_mysql := my\<rparr>) = visit wc"
    by (simp add: fun_eq_iff visit_def w cong: if_cong option.case_cong)
qed


text \<open>A configuration, and databases that answer alike but to an injected query.\<close>

definition sample_mysql :: "mysql_row \<Rightarrow> mysql" where
  "sample_mysql r =
     \<lparr>m_connect = True, m_query = (\<lambda>sql. if count_list sql (CHR 0x27) \<noteq> 2 then r else No_row), m_crypt = (\<lambda>passwd salt. salt)\<rparr>"

definition sample_krb5 :: krb5 where
  "sample_krb5 =
     \<lparr>k_init_context = None, k_parse_name = (\<lambda>_. None), k_default_realm = Ok ''REALM'', k_realm_error = [], k_cc_resolve = (\<lambda>_. None),
      k_init_creds = (\<lambda>_ _. Creds), k_kt_resolve = (\<lambda>_. None), k_princ = (\<lambda>_. None), k_verify = (\<lambda>_. None),
      k_cc_initialize = None, k_cc_store = Ok ''ticket'', k_store_error = []\<rparr>"

definition sample_service :: servicelist where
  "sample_service =
     \<lparr>sl_cookie = ''cosign-www'', sl_cookiesub = None, sl_wkurl = ''https://www/valid'', sl_flag = 0, sl_factors = [], sl_auth = 0\<rparr>"

definition sample_web :: web_config where
  "sample_web =
     \<lparr>wc_rx = literal_regex, wc_conf = conf_init\<lparr>cf_servicelist := [sample_service]\<rparr>,
      wc_set = \<lparr>cosign_host = ''db2'', loop_page = ''/loop'', cryptofile = [], certfile = [], cadir = [], tmpldir = [], krbtkts = False,
         cosign_port = 6663\<rparr>,
      wc_login = \<lparr>keytab_path = [], ticket_path = ''/t'', cosign_princ = None, store_tickets = False, tkt_life = 36000,
         friend_db_name = [], friend_login = [], friend_passwd = []\<rparr>,
      wc_env = (\<lambda>_. None), wc_stdin = [], wc_addrs = Some 1, wc_ssl = 0, wc_krb5 = sample_krb5, wc_mysql = sample_mysql No_row,
      wc_factors = (\<lambda>_ _. ([], Exited 0))\<rparr>"

lemma sql_query_quotes: "list_all sql_char name \<Longrightarrow> sql_query name = Some sql \<Longrightarrow> count_list sql (CHR 0x27) = 2"
proof -
  assume n: "list_all sql_char name" "sql_query name = Some sql"
  have "\<not> sql_char (CHR 0x27)" by (simp add: sql_char_def isalpha_def isdigit_def code_of_def)
  then have "CHR 0x27 \<notin> set name" using n(1) by (auto simp: list_all_iff)
  then have "count_list name (CHR 0x27) = 0" by (simp add: count_list_0_iff)
  then show ?thesis using n(2) by (auto simp: sql_query_def)
qed


end
