(* ===== verification/Weblogin_typed.thy ===== *)
theory Weblogin_typed
  imports Weblogin_facts
begin

text \<open>
  Relations that hold between the states before and after every piece of the weblogin program, and the first that does: what the
  program keeps fits the arrays it is kept in.
\<close>

section \<open>The client\<close>

locale client_rel = world_rel R for R :: "'a cgi_scheme \<Rightarrow> 'a cgi_scheme \<Rightarrow> bool" +
  assumes R_peer: "R w (w\<lparr>cg_peer := p\<rparr>)"
    and R_cl: "R w (w\<lparr>cg_cl := c\<rparr>)"
    and R_attempts: "R w (w\<lparr>cg_attempts := as\<rparr>)"
    and R_proto: "R w (w\<lparr>cg_proto := pr\<rparr>)"
    and R_user: "read_user pr line (cg_ui w) = (rc, ui) \<Longrightarrow> R w (w\<lparr>cg_ui := ui\<rparr>)"
begin

lemma rel_n_talk: "state_io_rel R (n_talk m)"
  unfolding n_talk_def by (rule state_io_relI) (auto simp: R_peer split: prod.splits)

lemma rel_n_set: "state_io_rel R (n_set (cg_peer_update (\<lambda>_. p)))" "state_io_rel R (n_set (cg_cl_update (\<lambda>_. c)))"
  by (auto simp: n_set_def R_peer R_cl)

lemma rel_cgi_connect: "state_io_rel R (cgi_connect host)"
proof (rule state_io_relI)
  fix b s u
  have 1: "R s (s\<lparr>cg_attempts := as\<rparr>)" "R s (s\<lparr>cg_attempts := as, cg_proto := pr\<rparr>)" for as pr
    by (rule R_attempts) (rule R_trans [OF R_attempts [of s as] R_proto [of "s\<lparr>cg_attempts := as\<rparr>" pr]])
  assume "run_state (cgi_connect host) s = (b, u)"
  then show "R s u" using 1
    by (auto simp: cgi_connect_def R_refl split: list.splits option.splits prod.splits)
qed

lemma rel_user:
  "state_io_rel R (State (\<lambda>w. case read_user (cg_proto w) line (cg_ui w) of (rc, ui) \<Rightarrow> (rc, w\<lparr>cg_ui := ui\<rparr>)))"
  by (rule state_io_relI) (auto split: prod.splits dest: R_user)

lemmas rel_client = rel_basic rel_prims rel_calls rel_files rel_n_talk rel_n_set rel_cgi_connect rel_user

lemma rel_send_pieces: "state_io_rel R (send_pieces s n)"
proof (induction s n rule: send_pieces.induct)
  case (1 s n)
  show ?case by (subst send_pieces.simps) (intro rel_client "1.IH"; assumption)
qed

lemma rel_n_command: "state_io_rel R (n_command f args)"
  unfolding n_command_def n_reply_def by (intro rel_client)

lemma rel_commands:
  "state_io_rel R (net_login lp)" "state_io_rel R (net_logout cookie ip)" "state_io_rel R (net_register cookie ip s)"
  "state_io_rel R (net_check cookie)"
  unfolding net_login_def net_ticket_def net_logout_def net_register_def net_check_def
  by (intro rel_client rel_send_pieces rel_n_command)+

lemma rel_try_conns:
  assumes "\<And>c. state_io_rel R (pick c)" and "state_io_rel R fp"
  shows "state_io_rel R (try_conns pick fp cs)"
  by (induction cs) (simp_all only: try_conns.simps, (intro rel_client assms | simp add: try_conn_def)+)

lemma rel_choose: "state_io_rel R fp \<Longrightarrow> state_io_rel R (cosign_choose_conn host fp)"
  unfolding cosign_choose_conn_def by (intro rel_client rel_try_conns)

lemma rel_network:
  "state_io_rel R (cosign_login host lp)" "state_io_rel R (cosign_logout host cookie ip)"
  "state_io_rel R (cosign_register host cookie ip s)" "state_io_rel R (cosign_check host cookie)"
  unfolding cosign_login_def cosign_logout_def cosign_register_def cosign_check_def
  by (intro rel_client rel_choose rel_commands)+

end


section \<open>The program\<close>

locale web_rel = client_rel R for R :: "weblogin \<Rightarrow> weblogin \<Rightarrow> bool" +
  assumes R_out: "R w (wl_out_update (\<lambda>t. t @ s) w)"
    and R_sl: "R w (wl_sl_update g w)"
    and R_factors: "R w (wl_new_factors_update (add_factor m) w)"
    and R_msg: "R w (wl_msg_update (\<lambda>prev. last_line prev out) w)"
    and R_ref: "R w (w\<lparr>wl_ref := r\<rparr>)"
    and R_service: "R w (w\<lparr>wl_service := r\<rparr>)"
    and R_factor: "R w (w\<lparr>wl_factor := r\<rparr>)"
    and R_scookie: "R w (w\<lparr>wl_scookie := sc\<rparr>)"
    and R_tmpl: "R w (wl_tmpl_update h w)"
begin

lemma rel_w_set: "(\<And>w. R w (f w)) \<Longrightarrow> state_io_rel R (w_set f)"
  by (rule state_io_relI) (auto simp: w_set_def)

lemma rel_sets:
  "state_io_rel R (print_text s)" "state_io_rel R (set_sl c t)" "state_io_rel R (w_set (wl_new_factors_update (add_factor m)))"
  "state_io_rel R (w_set (wl_msg_update (\<lambda>prev. last_line prev out)))" "state_io_rel R (w_set (wl_ref_update (\<lambda>_. r)))"
  "state_io_rel R (w_set (wl_service_update (\<lambda>_. r)))" "state_io_rel R (w_set (wl_factor_update (\<lambda>_. r)))"
  "state_io_rel R (w_set (wl_scookie_update (\<lambda>_. sc)))" "state_io_rel R (w_set (wl_tmpl_update g))"
  "state_io_rel R (default_error s)" "state_io_rel R (w_set (cg_cl_update (\<lambda>_. cs)))"
  using R_out R_sl R_factors R_msg R_ref R_service R_factor R_scookie R_tmpl R_cl
  by (auto simp: print_text_def set_sl_def default_error_def intro!: rel_w_set)

lemma rel_stage:
  "(\<And>x. state_io_rel R (f x)) \<Longrightarrow> state_io_rel R m1 \<Longrightarrow> (\<And>n. state_io_rel R (g n)) \<Longrightarrow> state_io_rel R m2 \<Longrightarrow>
     state_io_rel R (case e of Go x \<Rightarrow> f x | Screen \<Rightarrow> m1 | Done n \<Rightarrow> g n | Stuck \<Rightarrow> m2)"
  by (cases e) auto

lemma rel_answers:
  "state_io_rel R m1 \<Longrightarrow> state_io_rel R m2 \<Longrightarrow> state_io_rel R m3 \<Longrightarrow> (\<And>x. state_io_rel R (f x)) \<Longrightarrow>
     state_io_rel R (case row of Query_error \<Rightarrow> m1 | No_result \<Rightarrow> m2 | No_row \<Rightarrow> m3 | Row x \<Rightarrow> f x)"
  "state_io_rel R m1 \<Longrightarrow> state_io_rel R m2 \<Longrightarrow> (\<And>x. state_io_rel R (f x)) \<Longrightarrow> (\<And>x. state_io_rel R (g x)) \<Longrightarrow>
     state_io_rel R (case cr of Creds \<Rightarrow> m1 | Refused \<Rightarrow> m2 | Expired x \<Rightarrow> f x | Krb_error x \<Rightarrow> g x)"
  "(\<And>n. state_io_rel R (e1 n)) \<Longrightarrow> (\<And>n. state_io_rel R (e2 n)) \<Longrightarrow> state_io_rel R m1 \<Longrightarrow>
     state_io_rel R (case en of Exited n \<Rightarrow> e1 n | Signaled n \<Rightarrow> e2 n | Other_end \<Rightarrow> m1)"
  by ((cases row; simp), (cases cr; simp), (cases en; simp))

lemma rel_step: "state_io_rel R m \<Longrightarrow> (\<And>x. state_io_rel R (f x)) \<Longrightarrow> state_io_rel R (step m f)"
  unfolding step_def by (intro rel_basic rel_stage)

lemmas rel_web = rel_client rel_network rel_sets rel_step rel_stage rel_answers

lemma rel_page:
  "state_io_rel R (show_page tmpl sl nocache)" "state_io_rel R (show_main tmpl nocache)" "state_io_rel R (say a b)"
  "state_io_rel R (error_page a b)" "state_io_rel R try_later" "state_io_rel R unknown_service" "state_io_rel R (login_page a b)"
  unfolding error_page_def try_later_def unknown_service_def login_page_def say_def show_main_def show_page_def
  by (intro rel_web)+

lemmas rel_shown = rel_web rel_page

lemma rel_loop_checker: "state_io_rel R (loop_checker page time count cookie)"
  unfolding loop_checker_def loop_error_def put_cookie_def by (intro rel_shown)

lemma rel_mkscookie: "state_io_rel R (mkscookie s)"
  unfolding mkscookie_def by (intro rel_shown)

lemma rel_read_cookie_parts: "state_io_rel R (read_cookie_parts cookie)"
  unfolding read_cookie_parts_def by (intro rel_shown)

lemma rel_read_query: "state_io_rel R (read_query user qs rebasic)"
  unfolding read_query_def query_service_def Let_def by (intro rel_shown)

lemma rel_login_done: "state_io_rel R (login_done host sp lp f)"
  unfolding login_done_def by (intro rel_shown)

lemma rel_mysql: "state_io_rel R (cosign_login_mysql my host sp lp name passwd)"
  unfolding cosign_login_mysql_def
  by (intro rel_shown rel_login_done)

lemma rel_krb5: "state_io_rel R (cosign_login_krb5 k ls host sp lp name passwd)"
  unfolding cosign_login_krb5_def ticket_cache_def store_ticket_def
  by (intro rel_shown)

lemma rel_execfactor: "state_io_rel R (execfactor progs fl cl)"
  unfolding execfactor_def by (intro rel_shown)

lemma rel_need_env: "state_io_rel R (need_env wc name msg)"
  unfolding need_env_def by (intro rel_shown)

lemma rel_remote_user: "state_io_rel R (remote_user wc)"
  unfolding remote_user_def by (intro rel_shown)

lemma rel_read_visitor: "state_io_rel R (read_visitor wc)"
  unfolding read_visitor_def by (intro rel_shown rel_need_env rel_remote_user)

lemma rel_basic_login: "state_io_rel R (basic_login wc v cookie)"
  unfolding basic_login_def by (intro rel_shown)

lemma rel_find_service: "state_io_rel R (find_service wc service)"
  unfolding find_service_def by (intro rel_shown)

lemma rel_register: "state_io_rel R (register_service wc v title scheme cookie service)"
  unfolding register_service_def by (intro rel_shown rel_mkscookie)

lemma rel_redirect: "state_io_rel R (redirect scheme url s ref)" "state_io_rel R (service_menu v)"
  unfolding redirect_def service_menu_def by (intro rel_shown)+

lemmas rel_pieces = rel_shown rel_loop_checker rel_basic_login rel_find_service rel_register rel_redirect

lemma rel_visits:
  "state_io_rel R (visit_service wc v rebasic c service ref)" "state_io_rel R (visit_menu wc v rebasic cookie)"
proof -
  obtain cookie' time count where c: "c = (cookie', time, count)" by (cases c)
  show "state_io_rel R (visit_service wc v rebasic c service ref)"
    unfolding visit_service_def c prod.case by (intro rel_pieces)
  show "state_io_rel R (visit_menu wc v rebasic cookie)"
    unfolding visit_menu_def by (intro rel_pieces)
qed

lemma rel_authenticate: "state_io_rel R (authenticate wc sp lp passwd pos rc msg)"
proof (induction pos rc msg rule: authenticate_induct [where wc = wc and lp = lp])
  case (1 pos rc msg)
  show ?case
  proof (cases "pick_authenticator (wc_rx wc) (wc_conf wc) (lp_user lp) pos")
    case (Ret x)
    obtain dn key name realm pos' cf where r: "x = (dn, key, name, realm, pos', cf)" by (cases x) auto
    have "state_io_rel R (authenticate wc sp lp passwd pos' n m)" if "dn = 0" "key = Some k" "n \<noteq> COSIGN_CGI_OK" for k n m
      using 1 Ret r that by blast
    then show ?thesis
      by (subst authenticate.simps) (simp only: Ret r outcome.case prod.case, intro rel_shown rel_mysql rel_krb5; simp)
  qed (subst authenticate.simps, simp only: outcome.case, intro rel_shown)+
qed

lemma rel_take_form: "state_io_rel R (take_form cl)"
  unfolding take_form_def by (intro rel_shown)

lemma rel_form_login: "state_io_rel R (form_login wc cookie cl)"
  unfolding form_login_def by (intro rel_shown)

lemma rel_check_password: "state_io_rel R (check_password wc v cookie sp l cl)"
  unfolding check_password_def by (intro rel_shown rel_authenticate)

lemma rel_check_factor: "state_io_rel R (check_factor wc v cookie l cl fl)"
  unfolding check_factor_def by (intro rel_shown rel_execfactor)

lemma rel_check_factors: "state_io_rel R (check_factors wc v cookie l cl fls)"
  by (induction fls) (simp_all only: check_factors.simps, (intro rel_shown rel_check_factor | assumption)+)

lemma rel_form_service: "state_io_rel R (form_service wc v cookie service)"
  unfolding form_service_def by (intro rel_pieces)

lemma rel_post_form: "state_io_rel R (post_form wc v c)"
  unfolding post_form_def
  by (intro rel_pieces rel_take_form rel_form_login rel_check_password rel_check_factors rel_form_service)

lemma rel_loginscreen: "state_io_rel R (loginscreen wc v)"
  unfolding loginscreen_def new_session_def again_screen_def put_cookie_def by (intro rel_pieces)

lemma rel_visit: "state_io_rel R (visit wc v rebasic)"
  unfolding visit_def with_cookie_def
  by (intro rel_pieces rel_read_query rel_read_cookie_parts rel_visits rel_post_form)

lemma rel_weblogin_main: "state_io_rel R (weblogin_main wc args)"
  unfolding weblogin_main_def by (intro rel_pieces rel_read_visitor rel_visit rel_loginscreen)

end

section \<open>Arrays\<close>

text \<open>The login, the address and the factors of the user, the new factors and the message of a factor program fit.\<close>

definition fits :: "weblogin \<Rightarrow> bool" where
  "fits w \<longleftrightarrow> length (ui_login (cg_ui w)) < 131 \<and> length (ui_ipaddr (cg_ui w)) < 256 \<and>
     length (ui_factors (cg_ui w)) < COSIGN_MAXFACTORS \<and> length (wl_new_factors w) < COSIGN_MAXFACTORS \<and> length (wl_msg w) < 1024"

lemma fits_user: "read_user pr line ui = (rc, ui') \<Longrightarrow>
    length (ui_login ui) < 131 \<and> length (ui_ipaddr ui) < 256 \<and> length (ui_factors ui) < COSIGN_MAXFACTORS \<Longrightarrow>
    length (ui_login ui') < 131 \<and> length (ui_ipaddr ui') < 256 \<and> length (ui_factors ui') < COSIGN_MAXFACTORS"
  by (auto simp: read_user_def Let_def COSIGN_MAXFACTORS_def split: if_splits)

interpretation fits: web_rel "\<lambda>w w'. fits w \<longrightarrow> fits w'"
proof unfold_locales
  fix pr line rc ui and w :: weblogin
  assume "read_user pr line (cg_ui w) = (rc, ui)"
  from fits_user [OF this] show "fits w \<longrightarrow> fits (w\<lparr>cg_ui := ui\<rparr>)" by (simp add: fits_def)
qed (auto simp: fits_def add_factor_def last_line_def COSIGN_MAXFACTORS_def split: list.splits)

text \<open>
  C40.  The weblogin program keeps its variables within the arrays C gives them: whatever the daemon replies and the factor
  programs print, the login, the address and the factors of the user, the list of new factors and the message buffer fit.
\<close>

theorem weblogin_fits:
  assumes "run_state (weblogin_main wc args) w = (r, w')" and "fits w"
  shows "fits w'"
  using state_io_relD [OF fits.rel_weblogin_main assms(1)] assms(2) by simp

lemma weblogin_fits_witness: "fits (snd (run_state (weblogin_main sample_web [''basic'']) sample_visit))"
proof (rule weblogin_fits)
  show "run_state (weblogin_main sample_web [''basic'']) sample_visit =
      (fst (run_state (weblogin_main sample_web [''basic'']) sample_visit), snd (run_state (weblogin_main sample_web [''basic'']) sample_visit))"
    by simp
  show "fits sample_visit" by (simp add: fits_def sample_visit_def COSIGN_MAXFACTORS_def)
qed

end
