(* ===== verification/Weblogin_sso.thy ===== *)
theory Weblogin_sso
  imports Weblogin_typed
begin

text \<open>
  The weblogin program and the daemon together: what the client reads and says over a connection, and a visit from the CHECK of the
  login cookie to the redirect with the service cookie.
\<close>

section \<open>Over a connection\<close>

lemma run_c_write [simp]:
  "c_faults p = [] \<Longrightarrow> run_state (c_write f args) p = (True, p\<lparr>c_sent := c_sent p @ [fmt (f @ crlf) args]\<rparr>)"
  by (simp add: c_write_def)

lemma reads_sent [simp]: "reads (p\<lparr>c_sent := s\<rparr>) ls = reads p ls"
  by (simp add: reads_def)

lemma run_n_talk: "run_state m (cg_peer w) = (r, p) \<Longrightarrow> run_state (n_talk m) w = (r, w\<lparr>cg_peer := p\<rparr>)"
  by (simp add: n_talk_def)

lemma run_n_set [simp]: "run_state (n_set f) w = ((), f w)"
  by (simp add: n_set_def)

lemma run_said:
  assumes "reads (cg_peer w) (l # ls)"
  shows "\<exists>q. (\<forall>g. run_state (do { ok \<leftarrow> n_talk (c_write f args); if \<not> ok then ret e else do { l \<leftarrow> n_talk c_reply; g l } }) w =
      run_state (g (Some l)) (w\<lparr>cg_peer := q\<rparr>)) \<and> reads q ls \<and> c_sent q = c_sent (cg_peer w) @ [fmt (f @ crlf) args]"
proof -
  let ?p = "(cg_peer w)\<lparr>c_sent := c_sent (cg_peer w) @ [fmt (f @ crlf) args]\<rparr>"
  have w: "run_state (n_talk (c_write f args)) w = (True, w\<lparr>cg_peer := ?p\<rparr>)"
    using assms by (intro run_n_talk) (simp add: reads_def)
  obtain q where q: "run_state c_reply ?p = (Some l, q)" "reads q ls" "c_sent q = c_sent ?p"
    using run_c_reply [of ?p l ls] assms by auto
  then have "run_state (n_talk c_reply) (w\<lparr>cg_peer := ?p\<rparr>) = (Some l, w\<lparr>cg_peer := q\<rparr>)"
    using run_n_talk [of c_reply "w\<lparr>cg_peer := ?p\<rparr>"] by simp
  then show ?thesis using w q(2,3) by (intro exI [of _ q]) auto
qed

lemma run_n_command:
  assumes "reads (cg_peer w) (l # ls)"
  shows "\<exists>q. run_state (n_command f args) w = (reply_code l, w\<lparr>cg_peer := q\<rparr>) \<and> reads q ls \<and>
      c_sent q = c_sent (cg_peer w) @ [fmt (f @ crlf) args]"
proof -
  obtain q where q: "\<And>g. run_state (do { ok \<leftarrow> n_talk (c_write f args); if \<not> ok then ret COSIGN_ERROR else do { l \<leftarrow> n_talk c_reply; g l } }) w =
      run_state (g (Some l)) (w\<lparr>cg_peer := q\<rparr>)" "reads q ls" "c_sent q = c_sent (cg_peer w) @ [fmt (f @ crlf) args]"
    using run_said [OF assms, of f args COSIGN_ERROR] by blast
  have "run_state (n_command f args) w = (reply_code l, w\<lparr>cg_peer := q\<rparr>)"
    unfolding n_command_def n_reply_def q(1) by simp
  then show ?thesis using q(2,3) by blast
qed

lemma run_net_check:
  assumes "reads (cg_peer w) (l # ls)" and "is_class CHR ''2'' l" and "read_user (cg_proto w) l (cg_ui w) = (rc, ui)"
  shows "\<exists>q. run_state (net_check cookie) w = (rc, w\<lparr>cg_peer := q, cg_ui := ui\<rparr>) \<and> reads q ls \<and>
      c_sent q = c_sent (cg_peer w) @ [fmt (''CHECK %s'' @ crlf) [FS cookie]]"
  using run_said [OF assms(1), of "''CHECK %s''" "[FS cookie]" COSIGN_ERROR] assms(2,3) by (auto simp: net_check_def)

text \<open>The first connection, and one that is open already.\<close>

lemma run_choose_new:
  assumes "cg_cl w = [None]" and "cg_attempts w = Some p # as" and "run_state (cgi_greet host (cg_proto w)) p = ((0, proto), q)"
    and "run_state fp (w\<lparr>cg_attempts := as, cg_proto := proto, cg_peer := q\<rparr>) = (COSIGN_OK, v)"
  shows "run_state (cosign_choose_conn host fp) w = (0, v\<lparr>cg_cl := [Some (cg_peer v)]\<rparr>)"
proof -
  have "w\<lparr>cg_cl := [None], cg_attempts := as, cg_proto := proto, cg_peer := q\<rparr> = w\<lparr>cg_attempts := as, cg_proto := proto, cg_peer := q\<rparr>"
    using assms(1) by (cases w) simp
  with assms(4) have "run_state fp (w\<lparr>cg_cl := [None], cg_attempts := as, cg_proto := proto, cg_peer := q\<rparr>) = (COSIGN_OK, v)"
    by (simp only:)
  then show ?thesis using assms(1-3) by (simp add: cosign_choose_conn_def cgi_connect_def try_conn_def COSIGN_OK_def)
qed

lemma run_choose_open:
  assumes "cg_cl w = Some p # cs" and "run_state fp (w\<lparr>cg_peer := p\<rparr>) = (COSIGN_OK, v)"
  shows "run_state (cosign_choose_conn host fp) w = (0, v\<lparr>cg_cl := Some (cg_peer v) # cs\<rparr>)"
  using assms by (simp add: cosign_choose_conn_def try_conn_def COSIGN_OK_def)

section \<open>A visitor who may not pass\<close>

text \<open>The commands change nothing of the program's own part of the state.\<close>

interpretation apart: client_rel "\<lambda>w w'. cgi.more w' = cgi.more w"
  by unfold_locales auto

lemma check_prints_nothing:
  assumes "run_state (cosign_check host cookie) w = (rc, w')"
  shows "wl_out w' = wl_out w"
proof -
  have "cgi.more w' = cgi.more w" using state_io_relD [OF apart.rel_network(4) assms] .
  then show ?thesis by (cases w, cases w') simp
qed

lemma find_service_prints_nothing:
  "run_state (find_service wc service) w = (Go r, w') \<Longrightarrow> wl_out w' = wl_out w"
  by (auto simp: find_service_def unknown_service_def error_page_def say_def show_main_def show_page_def
      split: prod.splits option.splits outcome.splits if_splits)


section \<open>The daemon's side\<close>

lemma find_check: "find_command auth_commands ''CHECK'' = Some f_check"
  by (simp add: auth_commands_def name_eval)

lemma check_at_daemon:
  assumes "serving d" and "list_all word_ok [''CHECK'', c]" and "starts_with c ''cosign=''"
    and "login_of cfg d c = Some ci" and "verdict cfg (tv_sec (os_now d)) ci = Live"
  shows "\<exists>d'. run_state (do_command cfg (join [''CHECK'', c])) d = (Ret True, d') \<and> serving d' \<and>
    d_out d' = d_out d @ [live_msg (d_protocol d) 232 ci []] \<and> os_now d' = os_now d \<and>
    login_of cfg d' = (login_of cfg d)(c \<mapsto> touched (tv_sec (os_now d)) ci) \<and> service_of cfg d' = service_of cfg d \<and>
    (\<forall>q. os_fs d q = None \<longrightarrow> os_fs d' q = None)"
proof -
  obtain al where al: "d_al d = Some al" "al_key al = CGI" "os_faults d = []" "d_auth_commands d" "tmp_free d"
    using assms(1) by (auto simp: serving_def)
  obtain p f where p: "path_of cfg c = Some p" "os_fs d p = Some f" "parse_cookie (Some f) = Ret (0, ci)"
    using assms(4) by (rule login_ofD)
  obtain d' where d': "run_state (f_check cfg [''CHECK'', c]) d = (Ret 0, d')"
    "same_but d ((os_fs d)(p \<mapsto> check_file Live (tv_sec (os_now d)) f)) [live_msg (d_protocol d) 232 ci []] d'"
    using run_check_login [OF al(3,1) _ assms(3) p, of "''CHECK''"] al(2) assms(5) by auto
  have fs: "os_fs d' = (os_fs d)(p \<mapsto> check_file Live (tv_sec (os_now d)) f)" using d'(2) by (simp add: same_but_def)
  have "tmp_name d' = tmp_name d" using d'(2) by (simp add: tmp_name_def same_but_def)
  then have "serving d'"
    using al d'(2) fs tmp_name_other [OF p(1), of d] by (auto simp: serving_def same_but_def tmp_free_def)
  moreover have "run_state (do_command cfg (join [''CHECK'', c])) d = (Ret True, d')"
    by (rule do_command_words [OF assms(2) al(4) find_check d'(1)])
  ultimately show ?thesis
    using login_of_checked [OF p fs] d'(2) fs p(2) by (intro exI [of _ d']) (auto simp: same_but_def)
qed

lemma register_at_daemon:
  assumes "serving d" and "list_all word_ok [''REGISTER'', c, ip, s]" and "login_of cfg d c = Some ci"
    and "verdict cfg (tv_sec (os_now d)) ci = Live" and "path_of cfg s = Some sp" and "os_fs d sp = None"
  shows "\<exists>d'. run_state (do_command cfg (join [''REGISTER'', c, ip, s])) d = (Ret True, d') \<and>
    service_of cfg d' = (service_of cfg d)(s \<mapsto> c) \<and>
    d_out d' = d_out d @ [fmt (''%d REGISTER successful: Cookie Stored.'' @ crlf) [FI 220]]"
proof -
  obtain al where al: "d_al d = Some al" "al_key al = CGI" "os_faults d = []" "d_auth_commands d" "tmp_free d"
    using assms(1) by (auto simp: serving_def)
  have "text_ok c" using assms(2) by (simp add: word_text)
  from register_effect [OF al(3,1,2,5) assms(3) this assms(4-6), of "''REGISTER''" ip] obtain d' where
    d': "run_state (f_register cfg [''REGISTER'', c, ip, s]) d = (Ret 0, d')" "service_of cfg d' = (service_of cfg d)(s \<mapsto> c)"
      "d_out d' = d_out d @ [fmt (''%d REGISTER successful: Cookie Stored.'' @ crlf) [FI 220]]"
    by blast
  then show ?thesis using do_command_words [OF assms(2) al(4) find_auth(2) d'(1)] by blast
qed

section \<open>A visit\<close>

text \<open>The reply to a line, without the end of its own, and the daemon afterwards.\<close>

definition exchange :: "config \<Rightarrow> string list \<Rightarrow> daemon \<Rightarrow> string \<times> daemon" where
  "exchange cfg ws d =
     (let d' = snd (run_state (do_command cfg (join ws)) d) in (chomp (concat (drop (length (d_out d)) (d_out d'))), d'))"

lemma exchange_reply:
  "run_state (do_command cfg (join ws)) d = (r, d') \<Longrightarrow> d_out d' = d_out d @ [l @ crlf] \<Longrightarrow> exchange cfg ws d = (l, d')"
  by (simp add: exchange_def)

lemma exchange_check:
  assumes "serving d" and "list_all word_ok [''CHECK'', c]" and "starts_with c ''cosign=''"
    and "login_of cfg d c = Some ci" and "verdict cfg (tv_sec (os_now d)) ci = Live"
    and "supports_factors (d_protocol d)" and "ci_realm ci = join gs" and "gs \<noteq> []"
  shows "\<exists>d'. exchange cfg [''CHECK'', c] d = (join (''232'' # ci_ipaddr_cur ci # ci_user ci # gs) @ '' '', d') \<and> serving d' \<and>
    os_now d' = os_now d \<and> login_of cfg d' c = Some (touched (tv_sec (os_now d)) ci) \<and> service_of cfg d' = service_of cfg d \<and>
    (\<forall>q. os_fs d q = None \<longrightarrow> os_fs d' q = None)"
proof -
  have "show_int 232 = ''232''" by (simp add: show_int_def show_nat.simps)
  then have l: "live_msg (d_protocol d) 232 ci [] = (join (''232'' # ci_ipaddr_cur ci # ci_user ci # gs) @ '' '') @ crlf"
    using fmt_live_code [OF assms(6-8), of 232] by simp
  obtain d' where d': "run_state (do_command cfg (join [''CHECK'', c])) d = (Ret True, d')" "serving d'"
    "d_out d' = d_out d @ [live_msg (d_protocol d) 232 ci []]" "os_now d' = os_now d"
    "login_of cfg d' = (login_of cfg d)(c \<mapsto> touched (tv_sec (os_now d)) ci)" "service_of cfg d' = service_of cfg d"
    "\<forall>q. os_fs d q = None \<longrightarrow> os_fs d' q = None"
    using check_at_daemon [OF assms(1-5)] by blast
  show ?thesis
    using exchange_reply [OF d'(1) d'(3) [unfolded l]] d'(2,4-7) by (intro exI [of _ d']) simp
qed

lemma exchange_register:
  assumes "serving d" and "list_all word_ok [''REGISTER'', c, ip, s]" and "login_of cfg d c = Some ci"
    and "verdict cfg (tv_sec (os_now d)) ci = Live" and "path_of cfg s = Some sp" and "os_fs d sp = None"
  shows "\<exists>d'. exchange cfg [''REGISTER'', c, ip, s] d = (''220 REGISTER successful: Cookie Stored.'', d') \<and>
    service_of cfg d' = (service_of cfg d)(s \<mapsto> c)"
proof -
  have "conv_d 0 False 220 = Some ''220''" by (simp add: conv_d_def width_of_def show_int_def show_nat.simps)
  then have l: "fmt (''%d REGISTER successful: Cookie Stored.'' @ crlf) [FI 220] = ''220 REGISTER successful: Cookie Stored.'' @ crlf"
    by (simp add: fmt_def snet_conv_def ctrl_defs crlf_def)
  obtain d' where d': "run_state (do_command cfg (join [''REGISTER'', c, ip, s])) d = (Ret True, d')"
    "service_of cfg d' = (service_of cfg d)(s \<mapsto> c)"
    "d_out d' = d_out d @ [fmt (''%d REGISTER successful: Cookie Stored.'' @ crlf) [FI 220]]"
    using register_at_daemon [OF assms] by blast
  show ?thesis using exchange_reply [OF d'(1) d'(3) [unfolded l]] d'(2) by (intro exI [of _ d']) simp
qed

text \<open>What the weblogin learns of the user.\<close>

lemma read_user_live:
  assumes "list_all word_ok (ip # user # gs)" and "gs \<noteq> []" and "length user < 131" and "length ip < 256"
    and "length gs < COSIGN_MAXFACTORS"
  shows "read_user 2 (join (''232'' # ip # user # gs) @ '' '') ui =
    (COSIGN_OK, \<lparr>ui_login = user, ui_ipaddr = ip, ui_factors = gs\<rparr>)"
proof -
  have "word_ok ''232''" by (simp add: word_ok_def white_def ctrl_defs)
  then have "argcargv (join (''232'' # ip # user # gs) @ '' '') = ''232'' # ip # user # gs"
    using assms(1) by (intro argcargv_join_blank) simp
  then show ?thesis using assms by (cases gs; cases ui) (simp_all add: read_user_def Let_def)
qed

lemma fmt_check: "fmt (''CHECK %s'' @ crlf) [FS c] = join [''CHECK'', c] @ crlf"
  by (simp add: fmt_def snet_conv_def ctrl_defs crlf_def)

lemma run_check_new:
  assumes "cg_cl w = [None]" and "cg_attempts w = Some p # as" and "run_state (cgi_greet host (cg_proto w)) p = ((0, proto), q)"
    and "reads q (l # ls)" and "is_class CHR ''2'' l" and "read_user proto l (cg_ui w) = (COSIGN_OK, ui)" and "validchars cookie"
  shows "\<exists>q'. run_state (cosign_check host cookie) w =
      (0, w\<lparr>cg_attempts := as, cg_proto := proto, cg_peer := q', cg_ui := ui, cg_cl := [Some q']\<rparr>) \<and>
    reads q' ls \<and> c_sent q' = c_sent q @ [join [''CHECK'', cookie] @ crlf]"
proof -
  let ?w = "w\<lparr>cg_attempts := as, cg_proto := proto, cg_peer := q\<rparr>"
  obtain q' where q': "run_state (net_check cookie) ?w = (COSIGN_OK, ?w\<lparr>cg_peer := q', cg_ui := ui\<rparr>)" "reads q' ls"
    "c_sent q' = c_sent q @ [join [''CHECK'', cookie] @ crlf]"
    using run_net_check [of ?w l ls COSIGN_OK ui cookie, unfolded fmt_check] assms(4-6) by auto
  show ?thesis
    using run_choose_new [OF assms(1-3) q'(1)] q'(2,3) assms(7) by (intro exI [of _ q']) (simp add: cosign_check_def)
qed

lemma run_register_open:
  assumes "cg_cl w = Some p # cs" and "reads p (l # ls)" and "reply_code l = COSIGN_OK" and "validchars cookie" and "validchars s"
  shows "\<exists>q'. run_state (cosign_register host cookie ip s) w = (0, w\<lparr>cg_peer := q', cg_cl := Some q' # cs\<rparr>) \<and>
    reads q' ls \<and> c_sent q' = c_sent p @ [join [''REGISTER'', cookie, ip, s] @ crlf]"
proof -
  obtain q' where q': "run_state (net_register cookie ip s) (w\<lparr>cg_peer := p\<rparr>) = (COSIGN_OK, w\<lparr>cg_peer := q'\<rparr>)" "reads q' ls"
    "c_sent q' = c_sent p @ [join [''REGISTER'', cookie, ip, s] @ crlf]"
    using run_n_command [of "w\<lparr>cg_peer := p\<rparr>" l ls "''REGISTER %s %s %s''" "[FS cookie, FS ip, FS s]", unfolded fmt_words] assms(2,3)
    by (auto simp: net_register_def)
  show ?thesis
    using run_choose_open [OF assms(1) q'(1)] q'(2,3) assms(4,5) by (intro exI [of _ q']) (simp add: cosign_register_def)
qed

text \<open>The visitor's side of a visit: the service is known, a connection can be made, the randomness for the new cookie is there, and
  the loop breaker has not been reached.\<close>

definition visitable ::
  "web_config \<Rightarrow> weblogin \<Rightarrow> string \<times> int \<times> int \<Rightarrow> string \<Rightarrow> string \<Rightarrow> string \<Rightarrow> peer \<Rightarrow> bool" where
  "visitable wc w c service url s q \<longleftrightarrow> (case c of (cookie, time, count) \<Rightarrow>
     (\<exists>sl ms. the_service wc service = (3, Some (sl, ms)) \<and> match_substitute (sl_wkurl sl) 1024 2 ms service = Ret (Some url) \<and>
        sl_flag sl AND SL_REAUTH = 0) \<and>
     cg_cl w = [None] \<and> (\<exists>p as. cg_attempts w = Some p # as \<and> run_state (cgi_greet (host_of wc) (cg_proto w)) p = ((0, 2), q)) \<and>
     (\<exists>b pool. mkcookie 128 (os_pool w) = (0, Some (b @ [NUL]), pool) \<and> s = service @ ''='' @ b) \<and> length s < 255 \<and>
     validchars s \<and> validchars cookie \<and>
     cookie_name cookie \<and> 0 \<le> time \<and> time < 2 ^ 31 \<and> 0 \<le> count \<and> count < MAXLOOPCOUNT \<and> quiet_at time LOOPWINDOW w)"

definition sent_on :: "string \<Rightarrow> int \<Rightarrow> int \<Rightarrow> string \<Rightarrow> string \<Rightarrow> string \<Rightarrow> string" where
  "sent_on cookie time count url s ref =
     ''Set-Cookie: '' @ cookie_line cookie time (count + 1) @ ''; path=/; secure'' @ [LF] @
     ''Location: '' @ url @ ''?'' @ s @ ''&'' @ ref @ [LF, LF]"

lemma run_visit_service:
  assumes "visitable wc w (cookie, time, count) service url s q" and "reads q [l1, l2]" and "is_class CHR ''2'' l1"
    and "read_user 2 l1 (cg_ui w) = (COSIGN_OK, ui)" and "reply_code l2 = COSIGN_OK"
    and "ui_ipaddr ui = v_ip v" and "enough_factors wc (wl_factor w) ui"
  shows "\<exists>w' q'. run_state (visit_service wc v False (cookie, time, count) service ref) w = (Done 0, w') \<and>
    wl_out w' = wl_out w @ sent_on cookie time count url s ref \<and> cg_cl w' = [Some q'] \<and>
    c_sent q' = c_sent q @ [join [''CHECK'', cookie] @ crlf, join [''REGISTER'', cookie, v_ip v, s] @ crlf]"
proof -
  obtain sl ms p as b pool where v: "the_service wc service = (3, Some (sl, ms))"
    "match_substitute (sl_wkurl sl) 1024 2 ms service = Ret (Some url)" "sl_flag sl AND SL_REAUTH = 0"
    "cg_cl w = [None]" "cg_attempts w = Some p # as" "run_state (cgi_greet (host_of wc) (cg_proto w)) p = ((0, 2), q)"
    "mkcookie 128 (os_pool w) = (0, Some (b @ [NUL]), pool)" "s = service @ ''='' @ b" "length s < 255" "validchars s" "validchars cookie"
    and n: "cookie_name cookie" "0 \<le> time" "time < 2 ^ 31" "0 \<le> count" "count < MAXLOOPCOUNT" "quiet_at time LOOPWINDOW w"
    using assms(1) by (auto simp: visitable_def)
  let ?w1 = "w\<lparr>wl_scookie := Some sl\<rparr>"
  have 1: "run_state (find_service wc service) w = (Go (3, sl, url), ?w1)"
    using v(1,2) by (simp add: find_service_def)
  obtain q1 where 2: "run_state (cosign_check (host_of wc) cookie) ?w1 =
      (0, ?w1\<lparr>cg_attempts := as, cg_proto := 2, cg_peer := q1, cg_ui := ui, cg_cl := [Some q1]\<rparr>)" (is "_ = (0, ?w2)") and
    q1: "reads q1 [l2]" "c_sent q1 = c_sent q @ [join [''CHECK'', cookie] @ crlf]"
    using run_check_new [of ?w1 p as "host_of wc" 2 q l1 "[l2]" ui cookie] v(4-6,11) assms(2-4) by auto
  have 3: "run_state (mkscookie service) ?w2 = (Some s, ?w2\<lparr>os_pool := pool\<rparr>)" (is "_ = (_, ?w3)")
    using run_os_mkcookie [of 128 ?w2 b pool] v(7-9) by (simp add: mkscookie_def)
  obtain q2 where 4: "run_state (cosign_register (host_of wc) cookie (v_ip v) s) ?w3 = (0, ?w3\<lparr>cg_peer := q2, cg_cl := [Some q2]\<rparr>)"
      (is "_ = (0, ?w4)") and
    q2: "c_sent q2 = c_sent q1 @ [join [''REGISTER'', cookie, v_ip v, s] @ crlf]"
    using run_register_open [of ?w3 q1 "[]" l2 "[]" cookie s "host_of wc" "v_ip v"] q1(1) assms(5) v(10,11) by auto
  have "run_state (loop_checker (loop_page (wc_set wc)) time count cookie) ?w4 =
      (Go (), ?w4\<lparr>wl_out := wl_out ?w4 @ ''Set-Cookie: '' @ cookie_line cookie time (count + 1) @ ''; path=/; secure'' @ [LF]\<rparr>)"
      (is "_ = (_, ?w5)")
    using run_loop_checker [OF n(1-4), of ?w4] n(5,6) by (simp add: quiet_at_def)
  then have "run_state (visit_service wc v False (cookie, time, count) service ref) w =
      (Done 0, ?w5\<lparr>wl_out := wl_out ?w5 @ ''Location: '' @ url @ ''?'' @ s @ ''&'' @ ref @ [LF, LF]\<rparr>)"
    using 1 2 3 4 v(3) assms(6,7)
    by (simp add: visit_service_def register_service_def redirect_def)
  then show ?thesis using q1(2) q2 by (auto simp: sent_on_def)
qed

text \<open>The daemon has a live login for the cookie, with these factors, all of which fit the weblogin's arrays.\<close>

definition logged_in :: "config \<Rightarrow> daemon \<Rightarrow> string \<Rightarrow> cinfo \<Rightarrow> string list \<Rightarrow> bool" where
  "logged_in cfg d cookie ci gs \<longleftrightarrow>
     serving d \<and> d_protocol d = 2 \<and> 0 < idle_out_time cfg \<and> starts_with cookie ''cosign='' \<and> word_ok cookie \<and>
     login_of cfg d cookie = Some ci \<and> verdict cfg (tv_sec (os_now d)) ci = Live \<and> ci_realm ci = join gs \<and> gs \<noteq> [] \<and>
     list_all word_ok (ci_ipaddr_cur ci # ci_user ci # gs) \<and>
     length (ci_user ci) < 131 \<and> length (ci_ipaddr_cur ci) < 256 \<and> length gs < COSIGN_MAXFACTORS"

lemma verdict_touched: "0 < idle_out_time cfg \<Longrightarrow> verdict cfg t ci = Live \<Longrightarrow> verdict cfg t (touched t ci) = Live"
  by (rule verdict_now) (auto simp: verdict_def touched_def split: if_splits)

lemma visit_at_daemon:
  assumes "logged_in cfg d cookie ci gs" and "ci_ipaddr_cur ci = ip" and "word_ok s" and "path_of cfg s = Some sp" and "os_fs d sp = None"
    and "exchange cfg [''CHECK'', cookie] d = (l1, d1)" and "exchange cfg [''REGISTER'', cookie, ip, s] d1 = (l2, d2)"
  shows "l1 = join (''232'' # ip # ci_user ci # gs) @ '' ''" and "l2 = ''220 REGISTER successful: Cookie Stored.''"
    and "service_of cfg d2 = (service_of cfg d)(s \<mapsto> cookie)"
proof -
  have w: "word_ok ''CHECK''" "word_ok ''REGISTER''" by (simp_all add: word_ok_def white_def ctrl_defs)
  have l: "serving d" "word_ok cookie" "starts_with cookie ''cosign=''" "login_of cfg d cookie = Some ci"
    "verdict cfg (tv_sec (os_now d)) ci = Live" "supports_factors (d_protocol d)" "ci_realm ci = join gs" "gs \<noteq> []"
    "word_ok ip" "0 < idle_out_time cfg"
    using assms(1,2) by (simp_all add: logged_in_def supports_factors_def)
  have 1: "l1 = join (''232'' # ip # ci_user ci # gs) @ '' ''" "serving d1" "os_now d1 = os_now d"
    "login_of cfg d1 cookie = Some (touched (tv_sec (os_now d)) ci)" "service_of cfg d1 = service_of cfg d" "os_fs d1 sp = None"
    using exchange_check [OF l(1) _ l(3-8)] l(2) w(1) assms(2,5,6) by auto
  have v: "verdict cfg (tv_sec (os_now d1)) (touched (tv_sec (os_now d)) ci) = Live"
    using verdict_touched [OF l(10,5)] 1(3) by simp
  show "l1 = join (''232'' # ip # ci_user ci # gs) @ '' ''" by (rule 1(1))
  show "l2 = ''220 REGISTER successful: Cookie Stored.''" "service_of cfg d2 = (service_of cfg d)(s \<mapsto> cookie)"
    using exchange_register [OF 1(2) _ 1(4) v assms(4) 1(6), of ip] l(2,9) w(2) assms(3,7) 1(5) by auto
qed

text \<open>
  C2.  Single sign-on.  A visitor whose login cookie the daemon knows, at the address of the login and with the factors asked for,
  is sent on without a form: the program asks the daemon CHECK and REGISTER over one connection, prints the login cookie with its
  new count and the redirect to the service's handler with a fresh service cookie and the page wanted, and ends; and the daemon
  now has that service cookie, and no other, in addition, for that login.
\<close>

theorem weblogin_sso:
  assumes "visitable wc w (cookie, time, count) service url s q" and "reads q [l1, l2]"
    and "logged_in cfg d cookie ci gs" and "ci_ipaddr_cur ci = v_ip v"
    and "enough_factors wc (wl_factor w) \<lparr>ui_login = ci_user ci, ui_ipaddr = v_ip v, ui_factors = gs\<rparr>"
    and "word_ok s" and "path_of cfg s = Some sp" and "os_fs d sp = None"
    and "exchange cfg [''CHECK'', cookie] d = (l1, d1)" and "exchange cfg [''REGISTER'', cookie, v_ip v, s] d1 = (l2, d2)"
  shows "\<exists>w' q'. run_state (visit_service wc v False (cookie, time, count) service ref) w = (Done 0, w') \<and>
    wl_out w' = wl_out w @ sent_on cookie time count url s ref \<and> cg_cl w' = [Some q'] \<and>
    c_sent q' = c_sent q @ [join [''CHECK'', cookie] @ crlf, join [''REGISTER'', cookie, v_ip v, s] @ crlf] \<and>
    service_of cfg d2 = (service_of cfg d)(s \<mapsto> cookie)"
proof -
  note l = visit_at_daemon [OF assms(3,4,6-10)]
  have "is_class CHR ''2'' l1" by (simp add: l(1) is_class_def)
  moreover have "read_user 2 l1 (cg_ui w) = (COSIGN_OK, \<lparr>ui_login = ci_user ci, ui_ipaddr = v_ip v, ui_factors = gs\<rparr>)"
    unfolding l(1) using assms(3,4) by (intro read_user_live) (simp_all add: logged_in_def)
  moreover have "reply_code l2 = COSIGN_OK" by (simp add: l(2) reply_code_def is_class_def)
  ultimately show ?thesis
    using run_visit_service [OF assms(1,2) _ _ _ _ assms(5)] l(3) by fastforce
qed

section \<open>A visit by bob\<close>

definition sample_cookie :: string where
  "sample_cookie = ''cosign='' @ replicate 125 CHR ''a''"

definition sample_scookie :: string where
  "sample_scookie = ''cosign-www='' @ replicate 124 CHR ''A''"

definition sso_daemon :: daemon where
  "sso_daemon = (sample_daemon [sample_cookie \<mapsto> login_file_of sample_cinfo])\<lparr>d_protocol := 2\<rparr>"

definition sso_visit :: "string list \<Rightarrow> weblogin" where
  "sso_visit ls = sample_visit\<lparr>cg_cl := [None], cg_attempts := [Some (sample_peer ls)]\<rparr>"

definition sso_visitor :: visitor where
  "sso_visitor = \<lparr>v_script = ''/cosign'', v_method = ''GET'', v_ip = ''10.0.0.1'', v_server = ''login'', v_port = 443, v_user = None,
     v_realm = ''basic'', v_tkt = None\<rparr>"

lemma sample_greeting:
  assumes "list_all status_line ls"
  shows "\<exists>q. run_state (cgi_greet ''db2'' old) (sample_peer ls) = ((0, 2), q) \<and> reads q ls"
proof -
  have st: "status_line ''220 2 Collaborative Web''" "status_line ''220 Ready''" "status_line ''220 2 Hello''"
    by (simp_all add: status_line_def plain_def ctrl_defs isdigit_def code_of_def SNET_BUFLEN_def)
  have cls: "is_class CHR ''2'' ''220 2 Collaborative Web''" "is_class CHR ''2'' ''220 Ready''" "is_class CHR ''2'' ''220 2 Hello''"
    by (simp_all add: is_class_def)
  have av: "argcargv ''220 2 Collaborative Web'' = [''220'', ''2'', ''Collaborative'', ''Web'']"
    using argcargv_join [of "[''220'', ''2'', ''Collaborative'', ''Web'']"] by (simp add: word_ok_def white_def ctrl_defs)
  have "show_nat 2 = ''2''" by (simp add: show_nat.simps)
  then have p: "to_int (fst (strtol ''2'')) = 2" using strtol_show_nat [of 2 "[]"] by (simp add: LONG_MAX_def)
  have n: "strcaseeq ''DB2'' ''db2''" by (simp add: strcaseeq_def tolower_def code_of_def chr_def char_of_def bit_iff_odd)
  show ?thesis
    unfolding cgi_greet_def expect_2_def verify_peer_def
    using assms
    by (auto simp: c_reply_one sample_peer_def snet_attach_def st cls av p n c_write_def c_starttls_def Let_def reads_def
        intro!: exI [of _ "[]"])
qed

lemma sample_cookie_path:
  "path_of sample_config sample_cookie = Some sample_cookie" "path_of sample_config sample_scookie = Some sample_scookie"
  "sample_cookie \<noteq> sample_scookie"
proof -
  show "path_of sample_config sample_cookie = Some sample_cookie" "path_of sample_config sample_scookie = Some sample_scookie"
    by (simp_all add: mkcookiepath_def sample_config_def MAXCOOKIELEN_def MAXPATHLEN_def sample_cookie_def sample_scookie_def)
  have "length sample_cookie \<noteq> length sample_scookie" by (simp add: sample_cookie_def sample_scookie_def)
  then show "sample_cookie \<noteq> sample_scookie" by metis
qed

lemma sso_logged_in: "logged_in sample_config sso_daemon sample_cookie sample_cinfo [''umich'']"
proof -
  have "cinfo_ok sample_cinfo"
    by (simp add: cinfo_ok_def sample_cinfo_def text_ok_def ctrl_defs MAXPATHLEN_def)
  from parse_login_file [OF this] have l: "login_of sample_config sso_daemon sample_cookie = Some sample_cinfo"
    by (simp add: login_of_def sample_cookie_path sso_daemon_def sample_daemon_def sample_cinfo_def)
  have "tmp_free sso_daemon"
    using tmp_name_other [OF sample_cookie_path(1), of sso_daemon] by (simp add: tmp_free_def sso_daemon_def sample_daemon_def)
  then have "serving sso_daemon" by (simp add: serving_def sso_daemon_def sample_daemon_def weblogin_def)
  moreover have "word_ok sample_cookie" "starts_with sample_cookie ''cosign=''"
    by (simp_all add: sample_cookie_def word_ok_def white_def ctrl_defs cstr_def starts_with_def)
  moreover have "d_protocol sso_daemon = 2" "tv_sec (os_now sso_daemon) = 1000" "0 < idle_out_time sample_config"
    by (simp_all add: sso_daemon_def sample_daemon_def sample_config_def)
  ultimately show ?thesis
    using l sample_live sample_live_reply(4-7) by (simp add: logged_in_def COSIGN_MAXFACTORS_def)
qed

lemma sso_visitable:
  assumes "run_state (cgi_greet ''db2'' 0) (sample_peer ls) = ((0, 2), q)"
  shows "visitable sample_web (sso_visit ls) (sample_cookie, 990, 3) ''cosign-www'' ''https://www/valid'' sample_scookie q"
proof -
  have "the_service sample_web ''cosign-www'' = (3, Some (sample_service, [(0, 10)]))"
    by (simp add: the_service_def sample_web_def sample_service_def literal_regex_def rm_def)
  moreover have "match_substitute (sl_wkurl sample_service) 1024 2 [(0, 10)] ''cosign-www'' = Ret (Some ''https://www/valid'')"
    by (simp add: match_substitute_def sample_service_def)
  moreover have "mkcookie 128 (replicate 93 0) = (0, Some (replicate 124 CHR ''A'' @ [NUL]), [])"
    by code_simp
  moreover have "validchars sample_cookie" "validchars sample_scookie" "cookie_name sample_cookie"
    by (simp_all add: sample_cookie_def sample_scookie_def cookie_name_def validchars_def valid_tab_def code_of_def)
  ultimately show ?thesis
    using assms
    by (simp add: visitable_def sso_visit_def sample_visit_def sample_web_def sample_service_def sample_scookie_def MAXLOOPCOUNT_def
        quiet_at_def LOOPWINDOW_def)
qed

lemma sso_lines:
  "list_all status_line [join [''232'', ''10.0.0.1'', ''bob'', ''umich''] @ '' '', ''220 REGISTER successful: Cookie Stored.'']"
  by (simp add: status_line_def plain_def ctrl_defs isdigit_def code_of_def SNET_BUFLEN_def)

lemma sample_answers: "ci_ipaddr_cur sample_cinfo = ''10.0.0.1''" "ci_user sample_cinfo = ''bob''"
  by (simp_all add: sample_cinfo_def)

lemma weblogin_sso_witness:
  "\<exists>ls w' (d2 :: daemon). run_state (visit_service sample_web sso_visitor False (sample_cookie, 990, 3) ''cosign-www'' ''https://www/x'')
       (sso_visit ls) = (Done 0, w') \<and>
     wl_out w' = sent_on sample_cookie 990 3 ''https://www/valid'' sample_scookie ''https://www/x'' \<and>
     service_of sample_config d2 = (service_of sample_config sso_daemon)(sample_scookie \<mapsto> sample_cookie)"
proof -
  let ?l1 = "join [''232'', ''10.0.0.1'', ''bob'', ''umich''] @ '' ''" and ?l2 = "''220 REGISTER successful: Cookie Stored.''"
  obtain q where q: "run_state (cgi_greet ''db2'' 0) (sample_peer [?l1, ?l2]) = ((0, 2), q)" "reads q [?l1, ?l2]"
    using sample_greeting [OF sso_lines] by blast
  obtain l1 d1 where e1: "exchange sample_config [''CHECK'', sample_cookie] sso_daemon = (l1, d1)" by fastforce
  obtain l2 d2 where e2: "exchange sample_config [''REGISTER'', sample_cookie, v_ip sso_visitor, sample_scookie] d1 = (l2, d2)" by fastforce
  have ip: "ci_ipaddr_cur sample_cinfo = v_ip sso_visitor" by (simp add: sample_answers sso_visitor_def)
  have s: "word_ok sample_scookie" "os_fs sso_daemon sample_scookie = None"
    using sample_cookie_path(3)
    by (simp_all add: sample_scookie_def word_ok_def white_def ctrl_defs cstr_def sso_daemon_def sample_daemon_def)
  note l = visit_at_daemon [OF sso_logged_in ip s(1) sample_cookie_path(2) s(2) e1 e2]
  have "l1 = ?l1" "l2 = ?l2" using l(1,2) ip by (simp_all add: sample_answers sso_visitor_def)
  then have r: "reads q [l1, l2]" using q(2) by simp
  have f: "enough_factors sample_web (wl_factor (sso_visit [?l1, ?l2])) ui" for ui
    by (simp add: enough_factors_def sso_visit_def sample_visit_def)
  from weblogin_sso [OF sso_visitable [OF q(1)] r sso_logged_in ip f s(1) sample_cookie_path(2) s(2) e1 e2, of "''https://www/x''"]
  obtain w' where w': "run_state (visit_service sample_web sso_visitor False (sample_cookie, 990, 3) ''cosign-www'' ''https://www/x'')
       (sso_visit [?l1, ?l2]) = (Done 0, w')"
    "wl_out w' = wl_out (sso_visit [?l1, ?l2]) @ sent_on sample_cookie 990 3 ''https://www/valid'' sample_scookie ''https://www/x''"
    "service_of sample_config d2 = (service_of sample_config sso_daemon)(sample_scookie \<mapsto> sample_cookie)"
    by blast
  have "wl_out (sso_visit [?l1, ?l2]) = []" by (simp add: sso_visit_def sample_visit_def)
  then have "wl_out w' = sent_on sample_cookie 990 3 ''https://www/valid'' sample_scookie ''https://www/x''" using w'(2) by simp
  then show ?thesis using w'(1,3) by blast
qed


end
