(* ===== verification/Logout_cgi.thy ===== *)
theory Logout_cgi
  imports Weblogin_sso
begin

text \<open>
  \<open>cgi/logout.c\<close>: the page that asks whether to log out, and the logout.  The state is that of the client, with what is printed; the
  configuration read, the environment and \<open>cosign_ssl\<close> are arguments, as in \<open>Weblogin_main\<close>.
\<close>

section \<open>Settings\<close>

record logout_settings =
  lo_host :: string
  lo_url :: string
  lo_re :: string
  lo_cryptofile :: string
  lo_certfile :: string
  lo_cadir :: string
  lo_tmpldir :: string
  lo_port :: int

definition logout_configure :: "cosigncfg list \<Rightarrow> logout_settings \<Rightarrow> logout_settings" where
  "logout_configure cs k =
     \<lparr>lo_host = config_str cs ''cosignhost'' (lo_host k),
      lo_url = config_str cs ''cosignlogouturl'' (lo_url k),
      lo_re = config_str cs ''cosignlogoutregex'' (lo_re k),
      lo_cryptofile = config_str cs ''cosignkey'' (lo_cryptofile k),
      lo_certfile = config_str cs ''cosigncert'' (lo_certfile k),
      lo_cadir = config_str cs ''cosigncadir'' (lo_cadir k),
      lo_tmpldir = config_str cs ''cosigntmpldir'' (lo_tmpldir k),
      lo_port = (case cosign_config_get cs ''cosignport'' of None \<Rightarrow> 6663 | Some v \<Rightarrow> atoi v mod 2 ^ 16)\<rparr>"

record logout_config =
  lc_rx :: regex
  lc_set :: logout_settings
  lc_env :: "string \<Rightarrow> string option"
  lc_stdin :: "net_event list"
  lc_addrs :: "nat option"
  lc_ssl :: int
  lc_version :: string

section \<open>State and pages\<close>

record logout = cgi +
  lo_out :: string

type_synonym 'a logging_out = "(logout, 'a) state"

definition lo_print :: "string \<Rightarrow> unit logging_out" where
  "lo_print s = n_set (lo_out_update (\<lambda>t. t @ s))"

definition VERIFY_LOGOUT :: string where "VERIFY_LOGOUT = ''verify-logout.html''"

definition logout_sl :: "string \<Rightarrow> string option \<Rightarrow> string option \<Rightarrow> subfile_list list" where
  "logout_sl url title err =
     [\<lparr>sl_letter = CHR ''u'', sl_type = SUBF_STR, sl_data = Some url\<rparr>,
      \<lparr>sl_letter = CHR ''t'', sl_type = SUBF_STR, sl_data = title\<rparr>,
      \<lparr>sl_letter = CHR ''r'', sl_type = SUBF_STR_ESC, sl_data = err\<rparr>]"

text \<open>\<open>subfile(tmpl, sl, 0); exit(0)\<close>: the exit code.\<close>

definition logout_page :: "string \<Rightarrow> subfile_list list \<Rightarrow> int logging_out" where
  "logout_page tmpl sl = do {
     t \<leftarrow> os_open tmpl;
     (case subfile (case t of Ok f \<Rightarrow> Some (f_data f) | Err _ \<Rightarrow> None) sl False of
        (s, ok) \<Rightarrow> do { lo_print s; ret (if ok then 0 else 1) }) }"

definition logout_error :: "string \<Rightarrow> string \<Rightarrow> string \<Rightarrow> int logging_out" where
  "logout_error url title err = logout_page ERROR_HTML (logout_sl url (Some title) (Some err))"

section \<open>Where to go afterwards\<close>

text \<open>
  \<open>rc\<close> is assigned the result of the comparison with 0, which is \<open>REG_NOMATCH\<close> for every failure of \<open>regexec\<close>.  The flag
  \<open>REG_ICASE\<close> is that of the parameter; \<open>REG_NOSUB\<close> leaves out the offsets of a match, which are not read.
\<close>

definition logout_url_check :: "regex \<Rightarrow> string \<Rightarrow> string \<Rightarrow> int" where
  "logout_url_check x re url =
     (if \<not> regcomp x True re then -1
      else case regexec x True re url of Match _ \<Rightarrow> 0 | No_match \<Rightarrow> 1 | Exec_error \<Rightarrow> 1)"

text \<open>The URL of the request, where it looks like one and is admitted, and the configured one else.\<close>

definition logout_url :: "logout_config \<Rightarrow> string option \<Rightarrow> string" where
  "logout_url lc asked =
     (case asked of
        None \<Rightarrow> lo_url (lc_set lc)
      | Some url \<Rightarrow>
          if starts_with url ''http'' \<and> logout_url_check (lc_rx lc) (lo_re (lc_set lc)) url = 0 then url else lo_url (lc_set lc))"

section \<open>The cookie\<close>

function (sequential) other_cookie :: "string \<Rightarrow> string option" where
  "other_cookie data =
     (case strtok CHR '';'' data of
        None \<Rightarrow> None
      | Some (c, rest) \<Rightarrow>
          let c = (if c \<noteq> [] \<and> hd c = CHR '' '' then tl c else c)
          in if starts_with c ''cosign='' then Some c else other_cookie rest)"
  by pat_completeness auto

termination by (relation "measure length") (auto dest: strtok_shorter)

declare other_cookie.simps [simp del]

text \<open>The cookie without the time and the count.\<close>

definition logout_cookie :: "string option \<Rightarrow> string option" where
  "logout_cookie data =
     map_option (takeWhile (\<lambda>c. c \<noteq> CHR ''/''))
       (case Option.bind data (strtok CHR '';'') of
          None \<Rightarrow> None
        | Some (c, rest) \<Rightarrow> if starts_with c ''cosign='' then Some c else other_cookie rest)"

section \<open>The program\<close>

definition clobber :: string where
  "clobber =
     no_cache @ ''Set-Cookie: cosign=null; path=/; expires=Wednesday, 16-Apr-73 02:10:00 GMT; secure'' @ [LF]"

text \<open>From the POST with the answer yes: the browser's cookie is overwritten before the daemon is told, who need not answer.\<close>

definition do_logout_post :: "logout_config \<Rightarrow> string \<Rightarrow> string \<Rightarrow> int logging_out" where
  "do_logout_post lc ip url = do {
     lo_print clobber;
     (case connlist_setup (lc_addrs lc) of
        None \<Rightarrow> logout_error url ''Server Configuration Error''
                  ''We were unable to contact the authentication server.  Please quit your web browser to complete logout.''
      | Some head \<Rightarrow> do {
          n_set (cg_cl_update (\<lambda>_. head));
          if lc_ssl lc \<noteq> 0 then
            logout_error url ''Server Configuration Error''
              ''Failed to initialise connections to the authentication server. Please quit your browser to complete logout.''
          else do {
            (case logout_cookie (lc_env lc ''HTTP_COOKIE'') of
               None \<Rightarrow> ret 0
             | Some cookie \<Rightarrow> cosign_logout (lo_host (lc_set lc)) cookie ip);
            lo_print (''Location: '' @ url @ [LF, LF]);
            ret 0 } }) }"

text \<open>\<open>main\<close>, without the reading of the configuration: the exit code.\<close>

definition logout_main :: "logout_config \<Rightarrow> string list \<Rightarrow> int logging_out" where
  "logout_main lc args =
     (if length args = 1 \<and> starts_with (hd args) ''-V'' then do { lo_print (lc_version lc @ [LF]); ret 0 }
      else
        let server_error = logout_error (lo_url (lc_set lc)) ''Error: Server Error''
        in case lc_env lc ''REMOTE_ADDR'' of
          None \<Rightarrow> server_error ''REMOTE_ADDR not set''
        | Some ip \<Rightarrow>
       (case lc_env lc ''SCRIPT_NAME'' of
          None \<Rightarrow> server_error ''SCRIPT_NAME not set''
        | Some script \<Rightarrow>
       (case lc_env lc ''REQUEST_METHOD'' of
          None \<Rightarrow> server_error ''REQUEST_METHOD not set''
        | Some method \<Rightarrow>
            if method = ''GET'' then
              logout_page VERIFY_LOGOUT (logout_sl (logout_url lc (lc_env lc ''QUERY_STRING'')) (Some ''Logout Requested'') None)
            else
              (case cgi_post (lc_env lc) (cgi_init (lc_stdin lc)) (empty_form [''verify'', ''url'']) of
                 (rc, cl) \<Rightarrow>
                   if rc \<noteq> 0 then ret 1
                   else
                     let url = logout_url lc (field cl ''url'')
                     in if field cl ''verify'' = None then
                          logout_page VERIFY_LOGOUT (logout_sl url (Some ''Logout Requested (again?)'') None)
                        else do_logout_post lc ip url))))"

section \<open>A logout\<close>

definition admitted :: "logout_config \<Rightarrow> string \<Rightarrow> bool" where
  "admitted lc url \<longleftrightarrow> url = lo_url (lc_set lc) \<or>
     starts_with url ''http'' \<and> regcomp (lc_rx lc) True (lo_re (lc_set lc)) \<and>
     (case regexec (lc_rx lc) True (lo_re (lc_set lc)) url of Match _ \<Rightarrow> True | _ \<Rightarrow> False)"

lemma logout_url_admitted: "admitted lc (logout_url lc asked)"
  by (auto simp: admitted_def logout_url_def logout_url_check_def split: option.splits exec.splits if_splits)

lemma run_lo_print [simp]: "run_state (lo_print s) w = ((), w\<lparr>lo_out := lo_out w @ s\<rparr>)"
  by (simp add: lo_print_def)

lemma fmt_logout: "fmt (''LOGOUT %s %s'' @ crlf) [FS c, FS ip] = join [''LOGOUT'', c, ip] @ crlf"
  by (rule fmt_words)

lemma run_logout_new:
  assumes "cg_cl w = [None]" and "cg_attempts w = Some p # as" and "run_state (cgi_greet host (cg_proto w)) p = ((0, proto), q)"
    and "reads q (l # ls)" and "reply_code l = COSIGN_OK" and "validchars cookie"
  shows "\<exists>q'. run_state (cosign_logout host cookie ip) w =
      (0, w\<lparr>cg_attempts := as, cg_proto := proto, cg_peer := q', cg_cl := [Some q']\<rparr>) \<and>
    c_sent q' = c_sent q @ [join [''LOGOUT'', cookie, ip] @ crlf]"
proof -
  let ?w = "w\<lparr>cg_attempts := as, cg_proto := proto, cg_peer := q\<rparr>"
  obtain q' where q': "run_state (net_logout cookie ip) ?w = (COSIGN_OK, ?w\<lparr>cg_peer := q'\<rparr>)"
    "c_sent q' = c_sent q @ [join [''LOGOUT'', cookie, ip] @ crlf]"
    using run_n_command [of ?w l ls "''LOGOUT %s %s''" "[FS cookie, FS ip]", unfolded fmt_logout] assms(4,5)
    by (auto simp: net_logout_def)
  show ?thesis
    using run_choose_new [OF assms(1-3) q'(1)] q'(2) assms(6) by (intro exI [of _ q']) (simp add: cosign_logout_def)
qed

lemma exchange_logout:
  assumes "serving d" and "list_all word_ok [''LOGOUT'', c, ip]" and "login_of cfg d c = Some ci" and "cinfo.ci_state ci \<noteq> 0"
  shows "\<exists>d'. exchange cfg [''LOGOUT'', c, ip] d = (''210 LOGOUT successful: cookie no longer valid'', d') \<and>
    login_of cfg d' = (login_of cfg d)(c \<mapsto> revoked (tv_sec (os_now d)) ci)"
proof -
  have "conv_d 0 False 210 = Some ''210''" by (simp add: conv_d_def width_of_def show_int_def show_nat.simps)
  then have l: "fmt (''%d LOGOUT successful: cookie no longer valid'' @ crlf) [FI 210] =
      ''210 LOGOUT successful: cookie no longer valid'' @ crlf"
    by (simp add: fmt_def snet_conv_def ctrl_defs crlf_def)
  obtain al where al: "d_al d = Some al" "al_key al = CGI" "os_faults d = []" "d_auth_commands d"
    using assms(1) by (auto simp: serving_def)
  obtain d' where d': "run_state (f_logout cfg [''LOGOUT'', c, ip]) d = (Ret 0, d')"
    "login_of cfg d' = (login_of cfg d)(c \<mapsto> revoked (tv_sec (os_now d)) ci)"
    "d_out d' = d_out d @ [fmt (''%d LOGOUT successful: cookie no longer valid'' @ crlf) [FI 210]]"
    using logout_effect [OF al(3,1,2) assms(3,4), of "''LOGOUT''" ip] by blast
  have "run_state (do_command cfg (join [''LOGOUT'', c, ip])) d = (Ret True, d')"
    by (rule do_command_words [OF assms(2) al(4) find_auth(3) d'(1)])
  from exchange_reply [OF this d'(3) [unfolded l]] show ?thesis using d'(2) by (intro exI [of _ d']) simp
qed

text \<open>The browser confirms the logout, and a connection to the daemon can be made.\<close>

definition confirmed :: "logout_config \<Rightarrow> logout \<Rightarrow> string \<Rightarrow> string \<Rightarrow> (string \<times> string) list \<Rightarrow> peer \<Rightarrow> bool" where
  "confirmed lc w ip cookie kvs q \<longleftrightarrow>
     lc_env lc ''REMOTE_ADDR'' = Some ip \<and> lc_env lc ''SCRIPT_NAME'' \<noteq> None \<and> lc_env lc ''REQUEST_METHOD'' = Some ''POST'' \<and>
     lc_env lc ''CONTENT_TYPE'' = Some ''application/x-www-form-urlencoded'' \<and>
     (\<exists>pieces. lc_stdin lc = map Bytes pieces \<and> form_body kvs (concat pieces) \<and> [] \<notin> set pieces) \<and>
     (\<forall>(k, v) \<in> set kvs. cstr k \<and> cstr v) \<and> (\<exists>v. map_of (rev kvs) ''verify'' = Some v \<and> v \<noteq> []) \<and>
     logout_cookie (lc_env lc ''HTTP_COOKIE'') = Some cookie \<and> validchars cookie \<and> lc_addrs lc = Some 1 \<and> lc_ssl lc = 0 \<and>
     (\<exists>p as pr. cg_attempts w = Some p # as \<and> run_state (cgi_greet (lo_host (lc_set lc)) (cg_proto w)) p = ((0, pr), q))"

text \<open>
  C5.  Logging out at the browser logs out at the daemon: a confirmed logout overwrites the browser's cookie, tells the daemon LOGOUT
  for it over a fresh connection, which revokes exactly that login, and sends the browser to the configured page or to one the
  configured expression admits, whatever page the form asks for.
\<close>

theorem logout_reaches_daemon:
  assumes "confirmed lc w ip cookie kvs q" and "reads q [l]"
    and "serving d" and "list_all word_ok [cookie, ip]" and "login_of cfg d cookie = Some ci" and "cinfo.ci_state ci \<noteq> 0"
    and "exchange cfg [''LOGOUT'', cookie, ip] d = (l, d')"
  shows "\<exists>w' q' url. run_state (logout_main lc []) w = (0, w') \<and> admitted lc url \<and>
    lo_out w' = lo_out w @ clobber @ ''Location: '' @ url @ [LF, LF] \<and>
    cg_cl w' = [Some q'] \<and> c_sent q' = c_sent q @ [join [''LOGOUT'', cookie, ip] @ crlf] \<and>
    login_of cfg d' = (login_of cfg d)(cookie \<mapsto> revoked (tv_sec (os_now d)) ci)"
proof -
  obtain pieces v p as pr sc where c: "lc_env lc ''REMOTE_ADDR'' = Some ip" "lc_env lc ''SCRIPT_NAME'' = Some sc"
    "lc_env lc ''REQUEST_METHOD'' = Some ''POST''" "lc_env lc ''CONTENT_TYPE'' = Some ''application/x-www-form-urlencoded''"
    "lc_stdin lc = map Bytes pieces" "form_body kvs (concat pieces)" "[] \<notin> set pieces" "\<forall>(k, v) \<in> set kvs. cstr k \<and> cstr v"
    "map_of (rev kvs) ''verify'' = Some v" "v \<noteq> []" "logout_cookie (lc_env lc ''HTTP_COOKIE'') = Some cookie" "validchars cookie"
    "lc_addrs lc = Some 1" "lc_ssl lc = 0" "cg_attempts w = Some p # as"
    "run_state (cgi_greet (lo_host (lc_set lc)) (cg_proto w)) p = ((0, pr), q)"
    using assms(1) by (auto simp: confirmed_def)
  have "word_ok ''LOGOUT''" by (simp add: word_ok_def white_def ctrl_defs)
  then have l: "l = ''210 LOGOUT successful: cookie no longer valid''" and
    d: "login_of cfg d' = (login_of cfg d)(cookie \<mapsto> revoked (tv_sec (os_now d)) ci)"
    using exchange_logout [OF assms(3) _ assms(5,6), of ip] assms(4,7) by auto
  let ?w = "w\<lparr>lo_out := lo_out w @ clobber, cg_cl := [None]\<rparr>"
  have "reply_code l = COSIGN_OK" by (simp add: l reply_code_def is_class_def)
  then obtain q' where q': "run_state (cosign_logout (lo_host (lc_set lc)) cookie ip) ?w =
      (0, ?w\<lparr>cg_attempts := as, cg_proto := pr, cg_peer := q', cg_cl := [Some q']\<rparr>)"
    "c_sent q' = c_sent q @ [join [''LOGOUT'', cookie, ip] @ crlf]"
    using run_logout_new [of ?w p as "lo_host (lc_set lc)" pr q l "[]" cookie ip] c(12,15,16) assms(2) by auto
  obtain cl where cl: "cgi_post (lc_env lc) (cgi_init (lc_stdin lc)) (empty_form [''verify'', ''url'']) = (0, cl)"
    "field cl ''verify'' = Some v"
    using cgi_post_form [OF c(6,8) _ c(3,4,7), of "empty_form [''verify'', ''url'']"] c(9,10) unfolding c(5)
    by (auto simp: empty_form_def form_value_def)
  have "lo_out (?w\<lparr>cg_attempts := as, cg_proto := pr, cg_peer := q', cg_cl := [Some q']\<rparr>) = lo_out w @ clobber" by simp
  moreover have "run_state (logout_main lc []) w =
      run_state (do_logout_post lc ip (logout_url lc (field cl ''url''))) w"
    using c(1-3) cl by (simp add: logout_main_def)
  ultimately show ?thesis
    using q' c(11,13,14) d logout_url_admitted [of lc "field cl ''url''"]
    by (auto simp: do_logout_post_def connlist_setup_def)
qed

section \<open>bob leaves\<close>

definition sample_env :: "string \<Rightarrow> string option" where
  "sample_env =
     [''REMOTE_ADDR'' \<mapsto> ''10.0.0.1'', ''SCRIPT_NAME'' \<mapsto> ''/logout'', ''REQUEST_METHOD'' \<mapsto> ''POST'',
      ''CONTENT_TYPE'' \<mapsto> ''application/x-www-form-urlencoded'', ''HTTP_COOKIE'' \<mapsto> ''x=1; cosign=ab/990/3'']"

definition sample_leave :: logout_config where
  "sample_leave =
     \<lparr>lc_rx = literal_regex,
      lc_set = \<lparr>lo_host = ''db2'', lo_url = ''https://www/'', lo_re = ''https://other/'', lo_cryptofile = [], lo_certfile = [], lo_cadir = [],
        lo_tmpldir = [], lo_port = 6663\<rparr>,
      lc_env = sample_env, lc_stdin = map Bytes [''verify=Log+Out&url=https%3A%2F%2Fevil%2F''],
      lc_addrs = Some 1, lc_ssl = 0, lc_version = ''3''\<rparr>"

definition sample_leaver :: "string list \<Rightarrow> logout" where
  "sample_leaver ls =
     \<lparr>os_fs = (\<lambda>_. None), os_now = \<lparr>tv_sec = 1000, tv_usec = 0\<rparr>, os_pid = 7, os_faults = [], os_pool = [],
      cg_cl = [], cg_attempts = [Some (sample_peer ls)], cg_peer = sample_peer [], cg_proto = 0,
      cg_ui = \<lparr>ui_login = [], ui_ipaddr = [], ui_factors = []\<rparr>, lo_out = []\<rparr>"

lemma sample_logout_cookie: "logout_cookie (sample_env ''HTTP_COOKIE'') = Some ''cosign=ab''"
proof -
  have "other_cookie '' cosign=ab/990/3'' = Some ''cosign=ab/990/3''"
    by (subst other_cookie.simps) (simp add: strtok_def starts_with_def)
  then show ?thesis by (simp add: logout_cookie_def sample_env_def strtok_def starts_with_def)
qed

lemma sample_db_serving: "serving sample_db"
proof -
  have "tmp_name sample_db \<noteq> ''cosign=ab''" "tmp_name sample_db \<noteq> ''cosign-www=cd''"
    using tmp_name_other sample_path by blast+
  then have "tmp_free sample_db" by (simp add: tmp_free_def sample_db_def sample_daemon_def)
  then show ?thesis by (simp add: serving_def sample_db_def sample_daemon_def weblogin_def)
qed

lemma logout_reaches_daemon_witness:
  "\<exists>ls w' url (d' :: daemon). run_state (logout_main sample_leave []) (sample_leaver ls) = (0, w') \<and> admitted sample_leave url \<and>
     lo_out w' = clobber @ ''Location: '' @ url @ [LF, LF] \<and>
     login_of sample_config d' = (login_of sample_config sample_db)(''cosign=ab'' \<mapsto> revoked 1000 sample_cinfo)"
proof -
  let ?l = "''210 LOGOUT successful: cookie no longer valid''"
  have st: "list_all status_line [?l]"
    by (simp add: status_line_def plain_def ctrl_defs isdigit_def code_of_def SNET_BUFLEN_def)
  then obtain q where q: "run_state (cgi_greet ''db2'' 0) (sample_peer [?l]) = ((0, 2), q)" "reads q [?l]"
    using sample_greeting by blast
  have w: "list_all word_ok [''cosign=ab'', ''10.0.0.1'']" "word_ok ''LOGOUT''" by (simp_all add: word_ok_def white_def ctrl_defs)
  have ci: "cinfo.ci_state sample_cinfo \<noteq> 0" by (simp add: sample_cinfo_def)
  obtain l d' where e: "exchange sample_config [''LOGOUT'', ''cosign=ab'', ''10.0.0.1''] sample_db = (l, d')" by fastforce
  then have "l = ?l" using exchange_logout [OF sample_db_serving _ sample_login ci, of "''10.0.0.1''"] w by auto
  then have r: "reads q [l]" using q(2) by simp
  have c: "confirmed sample_leave (sample_leaver [?l]) ''10.0.0.1'' ''cosign=ab'' [(''verify'', ''Log Out''), (''url'', ''https://evil/'')] q"
    using q(1) sample_logout_cookie sample_form_left unfolding confirmed_def
    by (auto simp: sample_leave_def sample_leaver_def sample_env_def ctrl_defs validchars_def valid_tab_def code_of_def
        intro!: exI [of _ "[''verify=Log+Out&url=https%3A%2F%2Fevil%2F'']"])
  have "lo_out (sample_leaver [?l]) = []" "tv_sec (os_now sample_db) = 1000"
    by (simp_all add: sample_leaver_def)
  then show ?thesis
    using logout_reaches_daemon [OF c r sample_db_serving w(1) sample_login ci e] by (auto intro!: exI [of _ "[?l]"])
qed

end
