(* ===== verification/Mod_config.thy ===== *)
theory Mod_config
  imports Cookiefs
begin

text \<open>
  \<open>filters/apache2/mod_cosign.c\<close>, the module for Apache 2 while the server reads its configuration: the settings
  (\<open>cosign_host_config\<close> of \<open>filters/common/cosign.h\<close>, built with \<open>KRB\<close> and \<open>GSS\<close>), the function of every directive, and
  the table of them.  The server has one configuration and each directory or location another, which takes from it what it
  does not set.  The list of servers is shared by address: \<open>hc_cl\<close> is an index into \<open>mc_lists\<close>.  Ports are in host order, a
  regular expression and an \<open>SSL_CTX\<close> are what they were made of.  The paths fixed at build time, the resolver, \<open>regcomp\<close>, and
  what the system and OpenSSL say of the files of \<open>CosignCrypto\<close> are arguments; memory does not run out.
\<close>

section \<open>Settings\<close>

record sin =
  sin_addr :: "32 word"
  sin_port :: "16 word"

record host_config =
  hc_host :: "string option"
  hc_service :: "string option"
  hc_siteentry :: "string option"
  hc_reqfv :: "string list option"
  hc_reqfc :: int
  hc_suffix :: "string option"
  hc_fake :: int
  hc_public :: int
  hc_redirect :: "string option"
  hc_posterror :: "string option"
  hc_validref :: "string option"
  hc_referr :: "string option"
  hc_validpreg :: "string option"
  hc_port :: "16 word"
  hc_protect :: int
  hc_configured :: int
  hc_checkip :: int
  hc_cl :: "nat option"
  hc_ctx :: "(string \<times> string \<times> string) option"
  hc_cert :: "string option"
  hc_key :: "string option"
  hc_cadir :: "string option"
  hc_filterdb :: string
  hc_hashlen :: int
  hc_proxydb :: string
  hc_tkt_prefix :: string
  hc_http :: int
  hc_noappendport :: int
  hc_proxy :: int
  hc_expiretime :: int
  hc_gss :: int
  hc_krbtkt :: int

record build_paths =
  path_filter_db :: string
  path_proxy_db :: string
  path_ticket_cache :: string

definition cosign_create_config :: "build_paths \<Rightarrow> host_config" where
  "cosign_create_config bp =
     \<lparr>hc_host = None, hc_service = None, hc_siteentry = None, hc_reqfv = None, hc_reqfc = -1, hc_suffix = None, hc_fake = -1,
      hc_public = -1, hc_redirect = None, hc_posterror = None, hc_validref = None, hc_referr = None, hc_validpreg = None,
      hc_port = 0, hc_protect = -1, hc_configured = 0, hc_checkip = IPCHECK_NEVER, hc_cl = None, hc_ctx = None,
      hc_cert = None, hc_key = None, hc_cadir = None, hc_filterdb = path_filter_db bp, hc_hashlen = 0,
      hc_proxydb = path_proxy_db bp, hc_tkt_prefix = path_ticket_cache bp, hc_http = -1, hc_noappendport = -1,
      hc_proxy = -1, hc_expiretime = 86400, hc_gss = -1, hc_krbtkt = -1\<rparr>"

text \<open>\<open>params->path\<close> is null in the server's part of the file.\<close>

datatype place = Server | Dir string

record module_conf =
  mc_conf :: "place \<Rightarrow> host_config"
  mc_lists :: "sin list list"

definition fresh_conf :: "build_paths \<Rightarrow> module_conf" where
  "fresh_conf bp = \<lparr>mc_conf = (\<lambda>_. cosign_create_config bp), mc_lists = []\<rparr>"

definition at_place :: "place \<Rightarrow> (host_config \<Rightarrow> host_config) \<Rightarrow> module_conf \<Rightarrow> module_conf" where
  "at_place p f mc = mc\<lparr>mc_conf := (mc_conf mc)(p := f (mc_conf mc p))\<rparr>"

definition unset_str :: "'a option \<Rightarrow> 'a option \<Rightarrow> 'a option" where
  "unset_str x y = (case x of None \<Rightarrow> y | Some _ \<Rightarrow> x)"

definition unset_int :: "int \<Rightarrow> int \<Rightarrow> int" where
  "unset_int x y = (if x = -1 then y else x)"

definition inherit :: "host_config \<Rightarrow> host_config \<Rightarrow> host_config" where
  "inherit scfg cfg = cfg\<lparr>
     hc_siteentry := unset_str (hc_siteentry cfg) (hc_siteentry scfg),
     hc_reqfv := unset_str (hc_reqfv cfg) (hc_reqfv scfg),
     hc_reqfc := unset_int (hc_reqfc cfg) (hc_reqfc scfg),
     hc_suffix := unset_str (hc_suffix cfg) (hc_suffix scfg),
     hc_fake := unset_int (hc_fake cfg) (hc_fake scfg),
     hc_public := unset_int (hc_public cfg) (hc_public scfg),
     hc_protect := unset_int (hc_protect cfg) (hc_protect scfg),
     hc_filterdb := hc_filterdb scfg,
     hc_hashlen := hc_hashlen scfg,
     hc_checkip := hc_checkip scfg,
     hc_proxydb := hc_proxydb scfg,
     hc_tkt_prefix := hc_tkt_prefix scfg,
     hc_service := unset_str (hc_service cfg) (hc_service scfg),
     hc_redirect := unset_str (hc_redirect cfg) (hc_redirect scfg),
     hc_host := unset_str (hc_host cfg) (hc_host scfg),
     hc_posterror := unset_str (hc_posterror cfg) (hc_posterror scfg),
     hc_port := (if hc_port cfg = 0 then hc_port scfg else hc_port cfg),
     hc_cl := unset_str (hc_cl cfg) (hc_cl scfg),
     hc_ctx := unset_str (hc_ctx cfg) (hc_ctx scfg),
     hc_proxy := unset_int (hc_proxy cfg) (hc_proxy scfg),
     hc_http := unset_int (hc_http cfg) (hc_http scfg),
     hc_noappendport := unset_int (hc_noappendport cfg) (hc_noappendport scfg),
     hc_expiretime := hc_expiretime scfg,
     hc_krbtkt := unset_int (hc_krbtkt cfg) (hc_krbtkt scfg),
     hc_gss := unset_int (hc_gss cfg) (hc_gss scfg)\<rparr>"

definition cosign_merge_cfg :: "place \<Rightarrow> module_conf \<Rightarrow> module_conf" where
  "cosign_merge_cfg p mc =
     (case p of Server \<Rightarrow> mc | Dir _ \<Rightarrow> at_place p (inherit (mc_conf mc Server)) mc)"

section \<open>Directives\<close>

text \<open>A function of the table: the error message, if there is one, and the configuration.\<close>

type_synonym settled = "(string option \<times> module_conf) outcome"

text \<open>What most of them do: merge, set, and note that the place is configured.\<close>

definition settle :: "place \<Rightarrow> (host_config \<Rightarrow> host_config) \<Rightarrow> module_conf \<Rightarrow> settled" where
  "settle p f mc = Ret (None, at_place p (\<lambda>c. (f c)\<lparr>hc_configured := 1\<rparr>) (cosign_merge_cfg p mc))"

text \<open>Those of the server alone: they do not merge.\<close>

definition settle_server :: "string \<Rightarrow> place \<Rightarrow> (host_config \<Rightarrow> host_config) \<Rightarrow> module_conf \<Rightarrow> settled" where
  "settle_server msg p f mc =
     (case p of Server \<Rightarrow> Ret (None, at_place Server f mc) | Dir _ \<Rightarrow> Ret (Some msg, mc))"

definition set_cosign_protect :: "place \<Rightarrow> int \<Rightarrow> module_conf \<Rightarrow> settled" where
  "set_cosign_protect p flag = settle p (\<lambda>c. c\<lparr>hc_protect := flag\<rparr>)"

definition set_cosign_post_error :: "place \<Rightarrow> string \<Rightarrow> module_conf \<Rightarrow> settled" where
  "set_cosign_post_error p arg = settle p (\<lambda>c. c\<lparr>hc_posterror := Some arg\<rparr>)"

definition set_cosign_valid_reference :: "regex \<Rightarrow> place \<Rightarrow> string \<Rightarrow> module_conf \<Rightarrow> settled" where
  "set_cosign_valid_reference re p arg mc =
     (if regcomp re False arg then settle p (\<lambda>c. c\<lparr>hc_validref := Some arg, hc_validpreg := Some arg\<rparr>) mc
      else Ret (Some ''ap_pregcomp failed'',
        at_place p (\<lambda>c. c\<lparr>hc_validref := Some arg, hc_validpreg := None\<rparr>) (cosign_merge_cfg p mc)))"

definition set_cosign_validation_error_redirect :: "place \<Rightarrow> string \<Rightarrow> module_conf \<Rightarrow> settled" where
  "set_cosign_validation_error_redirect p arg = settle p (\<lambda>c. c\<lparr>hc_referr := Some arg\<rparr>)"

definition set_cosign_service :: "place \<Rightarrow> string \<Rightarrow> module_conf \<Rightarrow> settled" where
  "set_cosign_service p arg =
     settle p (\<lambda>c. c\<lparr>hc_service := Some (if starts_with arg ''cosign-'' then arg else ''cosign-'' @ arg)\<rparr>)"

definition set_cosign_siteentry :: "place \<Rightarrow> string \<Rightarrow> module_conf \<Rightarrow> settled" where
  "set_cosign_siteentry p arg = settle p (\<lambda>c. c\<lparr>hc_siteentry := Some arg\<rparr>)"

text \<open>This one does not set \<open>configured\<close>.\<close>

definition set_cosign_checkip :: "place \<Rightarrow> string \<Rightarrow> module_conf \<Rightarrow> settled" where
  "set_cosign_checkip p arg mc =
     (let mc = cosign_merge_cfg p mc;
          checked = (\<lambda>n. Ret (None, at_place p (\<lambda>c. c\<lparr>hc_checkip := n\<rparr>) mc))
      in if strcaseeq arg ''never'' then checked IPCHECK_NEVER
         else if strcaseeq arg ''initial'' then checked IPCHECK_INITIAL
         else if strcaseeq arg ''always'' then checked IPCHECK_ALWAYS
         else Ret (Some ''CosignCheckIP must be never, initial, or always.'', mc))"

definition set_cosign_factor :: "place \<Rightarrow> string \<Rightarrow> module_conf \<Rightarrow> settled" where
  "set_cosign_factor p arg =
     settle p (\<lambda>c. c\<lparr>hc_reqfv := Some (argcargv arg), hc_reqfc := int (length (argcargv arg))\<rparr>)"

definition set_cosign_factorsuffix :: "place \<Rightarrow> string \<Rightarrow> module_conf \<Rightarrow> settled" where
  "set_cosign_factorsuffix p arg = settle p (\<lambda>c. c\<lparr>hc_suffix := Some arg\<rparr>)"

definition set_cosign_ignoresuffix :: "place \<Rightarrow> int \<Rightarrow> module_conf \<Rightarrow> settled" where
  "set_cosign_ignoresuffix p flag = settle p (\<lambda>c. c\<lparr>hc_fake := flag\<rparr>)"

definition set_cosign_public :: "place \<Rightarrow> int \<Rightarrow> module_conf \<Rightarrow> settled" where
  "set_cosign_public p flag = settle p (\<lambda>c. c\<lparr>hc_public := flag\<rparr>)"

definition port_or_default :: "16 word \<Rightarrow> 16 word" where
  "port_or_default port = (if port = 0 then 6663 else port)"

text \<open>The entries of the list that \<open>cl\<close> points to, whoever made it, get the port; a null \<open>cl\<close> is followed.\<close>

definition set_cosign_port :: "place \<Rightarrow> string \<Rightarrow> module_conf \<Rightarrow> settled" where
  "set_cosign_port p arg mc =
     (let mc = cosign_merge_cfg p mc;
          port = word_of_int (to_int (fst (strtol arg)))
      in case hc_cl (mc_conf mc p) of
           None \<Rightarrow> Undefined
         | Some a \<Rightarrow>
             Ret (None, (at_place p (\<lambda>c. c\<lparr>hc_port := port, hc_configured := 1\<rparr>) mc)
               \<lparr>mc_lists := (mc_lists mc)[a := map (\<lambda>s. s\<lparr>sin_port := port_or_default port\<rparr>) (mc_lists mc ! a)]\<rparr>))"

definition set_cosign_redirect :: "place \<Rightarrow> string \<Rightarrow> module_conf \<Rightarrow> settled" where
  "set_cosign_redirect p arg = settle p (\<lambda>c. c\<lparr>hc_redirect := Some arg\<rparr>)"

definition set_cosign_filterdb :: "place \<Rightarrow> string \<Rightarrow> module_conf \<Rightarrow> settled" where
  "set_cosign_filterdb p arg =
     settle_server ''CosignFilterDB not valid per dir!'' p (\<lambda>c. c\<lparr>hc_filterdb := arg\<rparr>)"

definition set_cosign_hashlen :: "place \<Rightarrow> string \<Rightarrow> module_conf \<Rightarrow> settled" where
  "set_cosign_hashlen p arg mc =
     (case p of
        Dir _ \<Rightarrow> Ret (Some ''CosignFilterHashLength not valid per dir!'', mc)
      | Server \<Rightarrow>
          let n = to_int (fst (strtol arg)); mc = at_place Server (\<lambda>c. c\<lparr>hc_hashlen := n\<rparr>) mc
          in Ret (if n < 0 \<or> 2 < n then Some ''CosignFilterHashLength must be 0, 1, or 2.'' else None, mc))"

definition set_cosign_proxydb :: "place \<Rightarrow> string \<Rightarrow> module_conf \<Rightarrow> settled" where
  "set_cosign_proxydb p arg =
     settle_server ''CosignProxyDB not valid per dir!'' p (\<lambda>c. c\<lparr>hc_proxydb := arg\<rparr>)"

definition set_cosign_tkt_prefix :: "place \<Rightarrow> string \<Rightarrow> module_conf \<Rightarrow> settled" where
  "set_cosign_tkt_prefix p arg =
     settle_server ''CosignTicketPrefix not valid per dir!'' p (\<lambda>c. c\<lparr>hc_tkt_prefix := arg\<rparr>)"

definition set_cosign_gss :: "place \<Rightarrow> int \<Rightarrow> module_conf \<Rightarrow> settled" where
  "set_cosign_gss p flag = settle p (\<lambda>c. c\<lparr>hc_gss := flag\<rparr>)"

definition set_cosign_tickets :: "place \<Rightarrow> int \<Rightarrow> module_conf \<Rightarrow> settled" where
  "set_cosign_tickets p flag = settle p (\<lambda>c. c\<lparr>hc_krbtkt := flag\<rparr>)"

definition set_cosign_proxy_cookies :: "place \<Rightarrow> int \<Rightarrow> module_conf \<Rightarrow> settled" where
  "set_cosign_proxy_cookies p flag = settle p (\<lambda>c. c\<lparr>hc_proxy := flag\<rparr>)"

text \<open>
  \<open>stat\<close> (whether it is a directory), \<open>access\<close> for reading and for reading and searching, and the calls of OpenSSL.
\<close>

record crypto =
  cr_stat :: "string \<Rightarrow> bool option"
  cr_readable :: "string \<Rightarrow> bool"
  cr_searchable :: "string \<Rightarrow> bool"
  cr_ctx_new :: bool
  cr_use_key :: "string \<Rightarrow> bool"
  cr_use_cert :: "string \<Rightarrow> bool"
  cr_check_key :: "string \<Rightarrow> string \<Rightarrow> bool"
  cr_verify :: "bool \<Rightarrow> string \<Rightarrow> bool"

definition crypto_files :: "crypto \<Rightarrow> string \<Rightarrow> string \<Rightarrow> string \<Rightarrow> string option" where
  "crypto_files cr key cert ca =
     (case cr_stat cr ca of
        None \<Rightarrow> Some ''An error occurred checking the CAdir.''
      | Some isdir \<Rightarrow>
          if \<not> cr_readable cr key then Some ''An error occured reading the Keyfile.''
          else if \<not> cr_readable cr cert then Some ''An error occured reading the Certfile.''
          else if isdir \<and> \<not> cr_searchable cr ca then Some ''An error occured reading the CADir.''
          else if \<not> isdir \<and> \<not> cr_readable cr ca then Some ''An error occurred reading the CAfile.''
          else None)"

definition crypto_loads :: "crypto \<Rightarrow> string \<Rightarrow> string \<Rightarrow> string \<Rightarrow> bool" where
  "crypto_loads cr key cert ca \<longleftrightarrow>
     cr_ctx_new cr \<and> cr_use_key cr key \<and> cr_use_cert cr cert \<and> cr_check_key cr key cert \<and>
     cr_verify cr (cr_stat cr ca = Some True) ca"

text \<open>Nor does this one.\<close>

definition set_cosign_certs :: "crypto \<Rightarrow> place \<Rightarrow> string \<Rightarrow> string \<Rightarrow> string \<Rightarrow> module_conf \<Rightarrow> settled" where
  "set_cosign_certs cr p one two three mc =
     (let mc = at_place p (\<lambda>c. c\<lparr>hc_key := Some one, hc_cert := Some two, hc_cadir := Some three\<rparr>) (cosign_merge_cfg p mc)
      in case crypto_files cr one two three of
           Some msg \<Rightarrow> Ret (Some msg, mc)
         | None \<Rightarrow>
             if crypto_loads cr one two three then Ret (None, at_place p (\<lambda>c. c\<lparr>hc_ctx := Some (one, two, three)\<rparr>) mc)
             else Exit 1)"

text \<open>Nor this one.  The new list is at a new address.\<close>

definition set_cosign_host :: "(string \<Rightarrow> 32 word list option) \<Rightarrow> place \<Rightarrow> string \<Rightarrow> module_conf \<Rightarrow> settled" where
  "set_cosign_host resolve p arg mc =
     (let mc = at_place p (\<lambda>c. c\<lparr>hc_host := Some arg\<rparr>) (cosign_merge_cfg p mc);
          port = port_or_default (hc_port (mc_conf mc p))
      in case resolve arg of
           None \<Rightarrow> Ret (Some (arg @ '': host unknown''), mc)
         | Some addrs \<Rightarrow>
             Ret (None, (at_place p (\<lambda>c. c\<lparr>hc_cl := Some (length (mc_lists mc))\<rparr>) mc)
               \<lparr>mc_lists := mc_lists mc @ [map (\<lambda>a. \<lparr>sin_addr = a, sin_port = port\<rparr>) addrs]\<rparr>))"

definition set_cosign_http :: "place \<Rightarrow> int \<Rightarrow> module_conf \<Rightarrow> settled" where
  "set_cosign_http p flag = settle p (\<lambda>c. c\<lparr>hc_http := flag\<rparr>)"

definition set_cosign_noappendport :: "place \<Rightarrow> int \<Rightarrow> module_conf \<Rightarrow> settled" where
  "set_cosign_noappendport p flag = settle p (\<lambda>c. c\<lparr>hc_noappendport := flag\<rparr>)"

definition set_cosign_expiretime :: "place \<Rightarrow> string \<Rightarrow> module_conf \<Rightarrow> settled" where
  "set_cosign_expiretime p arg =
     settle_server ''Service cookie expiration policy applies server-wide.'' p
       (\<lambda>c. c\<lparr>hc_expiretime := to_int (fst (strtol arg)), hc_configured := 1\<rparr>)"

section \<open>The table\<close>

datatype setter =
  TAKE1 "place \<Rightarrow> string \<Rightarrow> module_conf \<Rightarrow> settled"
| FLAG "place \<Rightarrow> int \<Rightarrow> module_conf \<Rightarrow> settled"
| RAW_ARGS "place \<Rightarrow> string \<Rightarrow> module_conf \<Rightarrow> settled"
| TAKE3 "place \<Rightarrow> string \<Rightarrow> string \<Rightarrow> string \<Rightarrow> module_conf \<Rightarrow> settled"

text \<open>Where a directive may stand: in the server's part alone, also in that of a directory, also in its own file.\<close>

datatype standing = RSRC_CONF | ACCESS_CONF | OR_AUTHCFG

record module_env =
  me_regex :: regex
  me_resolve :: "string \<Rightarrow> 32 word list option"
  me_crypto :: crypto

definition cosign_cmds :: "module_env \<Rightarrow> (string \<times> setter \<times> standing) list" where
  "cosign_cmds me =
     [(''CosignPostErrorRedirect'', TAKE1 set_cosign_post_error, ACCESS_CONF),
      (''CosignService'', TAKE1 set_cosign_service, ACCESS_CONF),
      (''CosignProtected'', FLAG set_cosign_protect, OR_AUTHCFG),
      (''CosignRedirect'', TAKE1 set_cosign_redirect, ACCESS_CONF),
      (''CosignValidReference'', TAKE1 (set_cosign_valid_reference (me_regex me)), ACCESS_CONF),
      (''CosignValidationErrorRedirect'', TAKE1 set_cosign_validation_error_redirect, ACCESS_CONF),
      (''CosignPort'', TAKE1 set_cosign_port, ACCESS_CONF),
      (''CosignHostname'', TAKE1 (set_cosign_host (me_resolve me)), ACCESS_CONF),
      (''CosignFilterDB'', TAKE1 set_cosign_filterdb, RSRC_CONF),
      (''CosignFilterHashLength'', TAKE1 set_cosign_hashlen, RSRC_CONF),
      (''CosignProxyDB'', TAKE1 set_cosign_proxydb, RSRC_CONF),
      (''CosignTicketPrefix'', TAKE1 set_cosign_tkt_prefix, RSRC_CONF),
      (''CosignCheckIP'', TAKE1 set_cosign_checkip, RSRC_CONF),
      (''CosignSiteEntry'', TAKE1 set_cosign_siteentry, ACCESS_CONF),
      (''CosignRequireFactor'', RAW_ARGS set_cosign_factor, OR_AUTHCFG),
      (''CosignFactorSuffix'', TAKE1 set_cosign_factorsuffix, ACCESS_CONF),
      (''CosignFactorSuffixIgnore'', FLAG set_cosign_ignoresuffix, ACCESS_CONF),
      (''CosignAllowPublicAccess'', FLAG set_cosign_public, ACCESS_CONF),
      (''CosignHttpOnly'', FLAG set_cosign_http, ACCESS_CONF),
      (''CosignNoAppendRedirectPort'', FLAG set_cosign_noappendport, ACCESS_CONF),
      (''CosignCrypto'', TAKE3 (set_cosign_certs (me_crypto me)), ACCESS_CONF),
      (''CosignGetProxyCookies'', FLAG set_cosign_proxy_cookies, ACCESS_CONF),
      (''CosignCookieExpireTime'', TAKE1 set_cosign_expiretime, RSRC_CONF),
      (''CosignGetKerberosTickets'', FLAG set_cosign_tickets, ACCESS_CONF),
      (''CosignKerberosSetupGSS'', FLAG set_cosign_gss, ACCESS_CONF)]"

text \<open>A function called with its arguments: a flag is \<open>On\<close> or \<open>Off\<close>.\<close>

fun call_setter :: "setter \<Rightarrow> place \<Rightarrow> string list \<Rightarrow> module_conf \<Rightarrow> settled option" where
  "call_setter (TAKE1 f) p [a] mc = Some (f p a mc)"
| "call_setter (RAW_ARGS f) p [a] mc = Some (f p a mc)"
| "call_setter (TAKE3 f) p [a, b, c] mc = Some (f p a b c mc)"
| "call_setter (FLAG f) p [a] mc =
     (if strcaseeq a ''on'' then Some (f p 1 mc) else if strcaseeq a ''off'' then Some (f p 0 mc) else None)"
| "call_setter _ p as mc = None"

definition may_stand :: "standing \<Rightarrow> place \<Rightarrow> bool" where
  "may_stand st p \<longleftrightarrow> p = Server \<or> st \<noteq> RSRC_CONF"

text \<open>
  The configuration a server starts with that has read a file, the directives in order, each with its place and its arguments,
  and accepted every one of them.
\<close>

type_synonym directives = "(place \<times> string \<times> string list) list"

inductive configured_as :: "module_env \<Rightarrow> build_paths \<Rightarrow> directives \<Rightarrow> module_conf \<Rightarrow> bool" for me bp where
  empty: "configured_as me bp [] (fresh_conf bp)"
| directive: "configured_as me bp fl mc \<Longrightarrow> (name, s, st) \<in> set (cosign_cmds me) \<Longrightarrow> may_stand st p \<Longrightarrow>
    call_setter s p args mc = Some (Ret (None, mc')) \<Longrightarrow> configured_as me bp (fl @ [(p, name, args)]) mc'"

end
