(* ===== verification/Mod_cosign.thy ===== *)
theory Mod_cosign
  imports Mod_config Cgi_form
begin

text \<open>
  \<open>filters/apache2/mod_cosign.c\<close> while requests are served: the handler of the location that service cookies are sent to, and
  the two hooks that guard a protected page.  A request holds what the functions read of \<open>request_rec\<close> and the tables they
  write.  \<open>ap_getword\<close> of the server and the functions on regular expressions are arguments.  The list of connections of
  the state is the one that \<open>cl\<close> of the configuration in use points to.  A \<open>goto retry\<close> within \<open>cosign_cookie_valid\<close> and the
  search for the cookie take fuel; the answer is \<open>None\<close> where it did not last.
\<close>

section \<open>Requests\<close>

datatype http_method = M_GET | M_POST | M_OTHER

datatype http_status =
  OK | DECLINED | HTTP_MOVED_PERMANENTLY | HTTP_MOVED_TEMPORARILY | HTTP_FORBIDDEN | HTTP_METHOD_NOT_ALLOWED
| HTTP_INTERNAL_SERVER_ERROR | HTTP_SERVICE_UNAVAILABLE

type_synonym table = "string \<Rightarrow> string option"

record request =
  rq_method :: http_method
  rq_handler :: "string option"
  rq_args :: "string option"
  rq_uri :: string
  rq_headers_in :: table
  rq_remote_ip :: string
  rq_auth_type :: "string option"
  rq_auth_required :: bool
  rq_server_name :: string
  rq_server_port :: int
  rq_dir_conf :: host_config
  rq_server_conf :: host_config
  rq_user :: "string option"
  rq_ap_auth_type :: "string option"
  rq_headers_out :: table
  rq_err_headers_out :: table
  rq_subprocess_env :: table
  rq_notes :: table

record apache =
  ap_getword :: "char \<Rightarrow> string \<Rightarrow> string \<times> string"
  ap_regex :: regex

text \<open>What the documentation says of \<open>ap_getword\<close>: the word up to the stop character, and what follows all of those.\<close>

definition getword_doc :: "apache \<Rightarrow> bool" where
  "getword_doc ap \<longleftrightarrow>
     (\<forall>c s. ap_getword ap c s = (takeWhile (\<lambda>x. x \<noteq> c) s, dropWhile (\<lambda>x. x = c) (dropWhile (\<lambda>x. x \<noteq> c) s)))"

type_synonym answer = "(http_status \<times> request) outcome option filtering"

definition respond :: "http_status \<Rightarrow> request \<Rightarrow> answer" where
  "respond st r = ret (Some (Ret (st, r)))"

text \<open>The factors required, and the part of the configuration that the shared code of the filters uses.\<close>

definition required :: "host_config \<Rightarrow> string list" where
  "required cfg = (if 0 < hc_reqfc cfg then take (nat (hc_reqfc cfg)) (case hc_reqfv cfg of None \<Rightarrow> [] | Some fv \<Rightarrow> fv) else [])"

definition filter_of :: "host_config \<Rightarrow> filter_config" where
  "filter_of cfg =
     \<lparr>fc_host = (case hc_host cfg of None \<Rightarrow> [] | Some h \<Rightarrow> h), fc_reqfv = required cfg, fc_suffix = hc_suffix cfg,
      fc_fake = hc_fake cfg, fc_checkip = hc_checkip cfg, fc_filterdb = hc_filterdb cfg, fc_hashlen = hc_hashlen cfg,
      fc_proxydb = hc_proxydb cfg, fc_tkt_prefix = hc_tkt_prefix cfg, fc_proxy = hc_proxy cfg, fc_krbtkt = hc_krbtkt cfg,
      fc_listed = (hc_cl cfg \<noteq> None)\<rparr>"

text \<open>The configuration of the directory, or that of the server where the directory has none.\<close>

definition the_config :: "request \<Rightarrow> host_config" where
  "the_config r = (if hc_configured (rq_dir_conf r) = 0 then rq_server_conf r else rq_dir_conf r)"

section \<open>Sending the user to the login\<close>

text \<open>\<open>%s\<close> of a null pointer.\<close>

definition pr_str :: "string option \<Rightarrow> string" where
  "pr_str s = (case s of None \<Rightarrow> ''(null)'' | Some s \<Rightarrow> s)"

definition set_location :: "string \<Rightarrow> request \<Rightarrow> request" where
  "set_location dest r = r\<lparr>rq_headers_out := (rq_headers_out r)(''Location'' \<mapsto> dest)\<rparr>"

fun comma_list :: "string list \<Rightarrow> string" where
  "comma_list [] = []"
| "comma_list [f] = f"
| "comma_list (f # fs) = f @ '','' @ comma_list fs"

text \<open>The page to come back to.\<close>

definition self_url :: "host_config \<Rightarrow> request \<Rightarrow> string" where
  "self_url cfg r =
     (let scheme = (if hc_http cfg = 1 then ''http://'' else ''https://'');
          usual = (if hc_http cfg = 1 then 80 else 443)
      in if rq_server_port r = usual \<or> hc_noappendport cfg = 1 then scheme @ rq_server_name r @ rq_uri r
         else scheme @ rq_server_name r @ '':'' @ show_int (rq_server_port r) @ rq_uri r)"

definition return_url :: "host_config \<Rightarrow> request \<Rightarrow> string" where
  "return_url cfg r =
     (case hc_siteentry cfg of
        None \<Rightarrow> self_url cfg r
      | Some s \<Rightarrow> if strcaseeq s ''none'' then self_url cfg r else s)"

definition login_query :: "host_config \<Rightarrow> request \<Rightarrow> string" where
  "login_query cfg r =
     (if 0 < hc_reqfc cfg then ''factors='' @ comma_list (required cfg) @ ''&'' else []) @
     pr_str (hc_service cfg) @ ''&'' @ return_url cfg r"

definition cosign_redirect :: "host_config \<Rightarrow> request \<Rightarrow> int \<times> request" where
  "cosign_redirect cfg r =
     (if rq_method r = M_POST then (0, set_location (pr_str (hc_posterror cfg)) r)
      else (0, set_location (pr_str (hc_redirect cfg) @ ''?'' @ login_query cfg r) r))"

definition send_to_login :: "host_config \<Rightarrow> request \<Rightarrow> http_status \<times> request" where
  "send_to_login cfg r =
     (case cosign_redirect cfg r of
        (rc, r) \<Rightarrow> if rc \<noteq> 0 then (HTTP_SERVICE_UNAVAILABLE, r) else (HTTP_MOVED_TEMPORARILY, r))"

section \<open>The location of service cookies\<close>

definition validation_failed :: "host_config \<Rightarrow> request \<Rightarrow> answer" where
  "validation_failed cfg r = respond HTTP_MOVED_PERMANENTLY (set_location (pr_str (hc_referr cfg)) r)"

text \<open>The text of \<open>Set-Cookie\<close>; \<open>%lu\<close> reads the seconds as unsigned.\<close>

definition full_cookie :: "string \<Rightarrow> int \<Rightarrow> string \<Rightarrow> string" where
  "full_cookie cookie sec dest =
     cookie @ ''/'' @ show_int (sec mod 2 ^ 64) @ (if starts_with dest ''http://'' then ''; path=/'' else ''; path=/; secure'')"

text \<open>The destination is redirected to; where \<open>gettimeofday\<close> fails, \<open>now\<close> is not assigned.\<close>

definition cookie_accepted :: "string \<Rightarrow> string \<Rightarrow> request \<Rightarrow> answer" where
  "cookie_accepted cookie dest r = do {
     t \<leftarrow> gettimeofday;
     case t of
       None \<Rightarrow> ret (Some Undefined)
     | Some tv \<Rightarrow> respond HTTP_MOVED_PERMANENTLY (set_location dest
         (r\<lparr>rq_err_headers_out := (rq_err_headers_out r)(''Set-Cookie'' \<mapsto> full_cookie cookie (tv_sec tv) dest)\<rparr>)) }"

definition validate :: "host_config \<Rightarrow> nat \<Rightarrow> string \<Rightarrow> string \<Rightarrow> request \<Rightarrow> answer" where
  "validate cfg n pair dest r = do {
     v \<leftarrow> cosign_cookie_valid (filter_of cfg) pair (Some None) (rq_remote_ip r) n;
     case v of
       None \<Rightarrow> ret None
     | Some Undefined \<Rightarrow> ret (Some Undefined)
     | Some (Exit c) \<Rightarrow> ret (Some (Exit c))
     | Some (Ret (cv, si, rekey)) \<Rightarrow>
         if cv = COSIGN_OK then cookie_accepted (case rekey of Some (Some new) \<Rightarrow> new | _ \<Rightarrow> pair) dest r
         else if cv = COSIGN_RETRY then respond HTTP_MOVED_PERMANENTLY (set_location dest r)
         else respond HTTP_SERVICE_UNAVAILABLE r }"

definition cosign_handler :: "apache \<Rightarrow> nat \<Rightarrow> request \<Rightarrow> answer" where
  "cosign_handler ap n r =
     (let cfg = rq_server_conf r
      in if rq_handler r \<noteq> Some ''cosign'' then respond DECLINED r
         else if rq_method r \<noteq> M_GET then respond HTTP_METHOD_NOT_ALLOWED r
         else if hc_configured cfg = 0 then respond HTTP_SERVICE_UNAVAILABLE r
         else if hc_validref cfg = None then respond HTTP_SERVICE_UNAVAILABLE r
         else if hc_referr cfg = None then respond HTTP_SERVICE_UNAVAILABLE r
         else case rq_args r of
           None \<Rightarrow> respond HTTP_FORBIDDEN r
         | Some qstr \<Rightarrow>
             (case ap_getword ap CHR ''&'' qstr of
                (pair, dest) \<Rightarrow>
                  if \<not> starts_with_nocase pair ''cosign-'' then validation_failed cfg r
                  else case hc_validpreg cfg of
                    None \<Rightarrow> ret (Some Undefined)
                  | Some re \<Rightarrow>
                      (case regexec (ap_regex ap) False re dest of
                         Exec_error \<Rightarrow> respond HTTP_INTERNAL_SERVER_ERROR r
                       | No_match \<Rightarrow> validation_failed cfg r
                       | Match _ \<Rightarrow>
                           if \<not> validchars pair then validation_failed cfg r else validate cfg n pair dest r)))"

section \<open>Protected pages\<close>

text \<open>The cookie of the service among those of the request, as its name and its value.\<close>

primrec service_cookie ::
  "(char \<Rightarrow> string \<Rightarrow> string \<times> string) \<Rightarrow> string \<Rightarrow> nat \<Rightarrow> string \<Rightarrow> (string \<times> string) option option" where
  "service_cookie gw service 0 data = None"
| "service_cookie gw service (Suc n) data =
     (if data = [] then Some None
      else case gw CHR '';'' data of
        (pair, data) \<Rightarrow>
          (case gw CHR ''='' pair of
             (name, val) \<Rightarrow>
               if strcaseeq name service then Some (Some (name, val))
               else service_cookie gw service n (dropWhile (\<lambda>c. c = CHR '' '') data)))"

text \<open>
  \<open>strtok( my_cookie, "/" )\<close> ends the cookie in place, and the second call finds the time it was set.
\<close>

definition cut_time :: "string \<Rightarrow> string \<times> string option" where
  "cut_time s =
     (case strtok CHR ''/'' s of
        None \<Rightarrow> (s, None)
      | Some (w, rest) \<Rightarrow> (takeWhile (\<lambda>c. c = CHR ''/'') s @ w, map_option fst (strtok CHR ''/'' rest)))"

text \<open>At the label \<open>redirect\<close>.\<close>

definition no_cookie :: "host_config \<Rightarrow> request \<Rightarrow> answer" where
  "no_cookie cfg r =
     (if hc_public cfg = 1 then respond DECLINED r
      else if rq_auth_required r then
        respond DECLINED (r\<lparr>rq_notes := (rq_notes r)(''cosign-redirect'' \<mapsto> ''true'')\<rparr>)
      else ret (Some (Ret (send_to_login cfg r))))"

text \<open>\<open>gss_krb5_ccache_name\<close> changes nothing of the request.\<close>

definition let_through :: "host_config \<Rightarrow> sinfo \<Rightarrow> request \<Rightarrow> request" where
  "let_through cfg si r = r\<lparr>rq_user := Some (si_user si), rq_ap_auth_type := Some ''Cosign'',
     rq_subprocess_env :=
       (let env = (rq_subprocess_env r)
          (''COSIGN_SERVICE'' := hc_service cfg, ''REMOTE_REALM'' \<mapsto> si_realm si, ''COSIGN_FACTOR'' \<mapsto> si_factor si)
        in if hc_krbtkt cfg = 1 then env(''KRB5CCNAME'' \<mapsto> si_krb5tkt si) else env)\<rparr>"

definition check_visit :: "host_config \<Rightarrow> nat \<Rightarrow> string \<Rightarrow> request \<Rightarrow> answer" where
  "check_visit cfg n my_cookie r = do {
     v \<leftarrow> cosign_cookie_valid (filter_of cfg) my_cookie None (rq_remote_ip r) n;
     case v of
       None \<Rightarrow> ret None
     | Some Undefined \<Rightarrow> ret (Some Undefined)
     | Some (Exit c) \<Rightarrow> ret (Some (Exit c))
     | Some (Ret (cv, si, rekey)) \<Rightarrow>
         if cv = COSIGN_ERROR then respond HTTP_SERVICE_UNAVAILABLE r
         else if cv = COSIGN_OK then respond DECLINED (let_through cfg si r)
         else no_cookie cfg r }"

definition visit_with :: "host_config \<Rightarrow> nat \<Rightarrow> string \<Rightarrow> request \<Rightarrow> answer" where
  "visit_with cfg n my_cookie r = do {
     t \<leftarrow> gettimeofday;
     case cut_time my_cookie of
       (my_cookie, misc) \<Rightarrow>
         let cookietime = (case misc of None \<Rightarrow> 0 | Some m \<Rightarrow> atoi m)
         in if 0 < cookietime \<and> t = None then ret (Some Undefined)
            else if 0 < cookietime \<and> hc_expiretime cfg < tv_sec (the t) - cookietime then no_cookie cfg r
            else if \<not> validchars my_cookie then no_cookie cfg r
            else check_visit cfg n my_cookie r }"

definition cosign_auth :: "apache \<Rightarrow> nat \<Rightarrow> request \<Rightarrow> answer" where
  "cosign_auth ap n r =
     (let cfg = the_config r
      in if hc_configured cfg = 0 \<or> hc_protect cfg = 0 then respond DECLINED r
         else case (hc_host cfg, hc_redirect cfg, hc_service cfg, hc_posterror cfg) of
           (Some _, Some _, Some service, Some _) \<Rightarrow>
             (case rq_headers_in r ''Cookie'' of
                None \<Rightarrow> no_cookie cfg r
              | Some data \<Rightarrow>
                  (case service_cookie (ap_getword ap) service (Suc (length data)) data of
                     None \<Rightarrow> ret None
                   | Some None \<Rightarrow> no_cookie cfg r
                   | Some (Some (name, val)) \<Rightarrow>
                       if length val < 120 then no_cookie cfg r else visit_with cfg n (name @ ''='' @ val) r))
         | _ \<Rightarrow> respond HTTP_SERVICE_UNAVAILABLE r)"

definition cosign_authn :: "request \<Rightarrow> http_status \<times> request" where
  "cosign_authn r =
     (case rq_auth_type r of
        None \<Rightarrow> (DECLINED, r)
      | Some authn \<Rightarrow>
          if \<not> strcaseeq authn ''Cosign'' then (DECLINED, r)
          else if rq_notes r ''cosign-redirect'' \<noteq> None then send_to_login (the_config r) r
          else if rq_user r = None then (DECLINED, r)
          else (OK, r))"

text \<open>
  The hooks in the order of the server: the check of access, and, where it does not end the request and the page requires a
  user, the check of who it is.
\<close>

definition cosign_hooks :: "apache \<Rightarrow> nat \<Rightarrow> request \<Rightarrow> answer" where
  "cosign_hooks ap n r = do {
     a \<leftarrow> cosign_auth ap n r;
     case a of
       Some (Ret (st, r)) \<Rightarrow>
         ret (Some (Ret (if (st = OK \<or> st = DECLINED) \<and> rq_auth_required r then cosign_authn r else (st, r))))
     | _ \<Rightarrow> ret a }"

end
