(* ===== verification/Mod_law.thy ===== *)
theory Mod_law
  imports Mod_config
begin

text \<open>
  What every configuration an Apache server may start with is like.  A law that a directory may inherit holds everywhere when
  every directive keeps it where it stands; the locale proves that once, and it is used for the law of the values and for
  that of the lists of servers.
\<close>

section \<open>Laws\<close>

text \<open>A law speaks of one configuration and the addresses in the lists there are.\<close>

abbreviation addresses :: "module_conf \<Rightarrow> 32 word list list" where
  "addresses mc \<equiv> map (map sin_addr) (mc_lists mc)"

locale conf_law =
  fixes ok :: "32 word list list \<Rightarrow> host_config \<Rightarrow> bool"
  assumes ok_inherit: "ok n s \<Longrightarrow> ok n c \<Longrightarrow> ok n (inherit s c)"
    and ok_more: "ok n c \<Longrightarrow> ok (n @ m) c"
    and ok_configured: "ok n (c\<lparr>hc_configured := k\<rparr>) \<longleftrightarrow> ok n c"
begin

definition everywhere :: "module_conf \<Rightarrow> bool" where
  "everywhere mc \<longleftrightarrow> (\<forall>p. ok (addresses mc) (mc_conf mc p))"

lemma everywhere_at:
  "everywhere mc \<Longrightarrow> ok (addresses mc) (f (mc_conf mc p)) \<Longrightarrow> everywhere (at_place p f mc)"
  by (simp add: everywhere_def at_place_def)

lemma everywhere_merge: "everywhere mc \<Longrightarrow> everywhere (cosign_merge_cfg p mc)"
  by (auto simp: cosign_merge_cfg_def everywhere_def at_place_def ok_inherit split: place.splits)

lemma everywhere_lists: "everywhere mc \<Longrightarrow> map (map sin_addr) ls = addresses mc \<Longrightarrow> everywhere (mc\<lparr>mc_lists := ls\<rparr>)"
  by (simp add: everywhere_def)

lemma everywhereD: "everywhere mc \<Longrightarrow> ok (addresses mc) (mc_conf mc p)"
  by (simp add: everywhere_def)

lemma at_place_lists [simp]: "mc_lists (at_place p f mc) = mc_lists mc"
  by (simp add: at_place_def)

lemma everywhere_update: "everywhere mc \<Longrightarrow> (\<And>n c. ok n c \<Longrightarrow> ok n (f c)) \<Longrightarrow> everywhere (at_place p f mc)"
  using everywhere_at everywhereD by blast

text \<open>An accepted call keeps the law.\<close>

definition kept :: "module_conf \<Rightarrow> settled \<Rightarrow> bool" where
  "kept mc r \<longleftrightarrow> (everywhere mc \<longrightarrow> (\<forall>mc'. r = Ret (None, mc') \<longrightarrow> everywhere mc'))"

lemma keptI: "(\<And>mc'. everywhere mc \<Longrightarrow> r = Ret (None, mc') \<Longrightarrow> everywhere mc') \<Longrightarrow> kept mc r"
  by (simp add: kept_def)

lemma kept_settle: "(\<And>n c. ok n c \<Longrightarrow> ok n (f c)) \<Longrightarrow> kept mc (settle p f mc)"
  by (rule keptI) (auto simp: settle_def ok_configured intro!: everywhere_update everywhere_merge)

lemma kept_settle_server:
  assumes "\<And>n c. ok n c \<Longrightarrow> ok n (f c)"
  shows "kept mc (settle_server m p f mc)"
  using assms by (intro keptI) (auto simp: settle_server_def intro!: everywhere_update split: place.splits)

lemma kept_merged:
  assumes "\<And>n c. ok n c \<Longrightarrow> ok n (f c)"
  shows "kept mc (Ret (None, at_place p f (cosign_merge_cfg p mc)))"
  using assms by (intro keptI) (auto intro!: everywhere_update everywhere_merge)

lemma same_addresses:
  "map (map sin_addr) (ls[a := map (\<lambda>s. s\<lparr>sin_port := q\<rparr>) (ls ! a)]) = map (map sin_addr) ls"
  by (cases "a < length ls") (simp_all add: map_update comp_def list_update_same_conv list_update_beyond not_less)

lemma kept_port:
  assumes "\<And>n c q. ok n c \<Longrightarrow> ok n (c\<lparr>hc_port := q\<rparr>)"
  shows "kept mc (set_cosign_port p a mc)"
proof (rule keptI)
  fix mc' assume mc: "everywhere mc" and r: "set_cosign_port p a mc = Ret (None, mc')"
  let ?m = "cosign_merge_cfg p mc"
  obtain q ls where "mc' = (at_place p (\<lambda>c. c\<lparr>hc_port := q, hc_configured := 1\<rparr>) ?m)\<lparr>mc_lists := ls\<rparr>" "map (map sin_addr) ls = addresses ?m"
    using r by (auto simp: set_cosign_port_def Let_def same_addresses split: option.splits)
  then show "everywhere mc'"
    using everywhere_merge [OF mc] assms by (auto simp: ok_configured intro!: everywhere_lists everywhere_update)
qed

lemma kept_host:
  assumes "\<And>n c h l. ok n c \<Longrightarrow> resolve h = Some l \<Longrightarrow> ok (n @ [l]) (c\<lparr>hc_host := Some h, hc_cl := Some (length n)\<rparr>)"
  shows "kept mc (set_cosign_host resolve p a mc)"
proof (rule keptI)
  fix mc' assume mc: "everywhere mc" and r: "set_cosign_host resolve p a mc = Ret (None, mc')"
  let ?m = "cosign_merge_cfg p mc"
  obtain l q where l: "resolve a = Some l"
    "mc' = (at_place p (\<lambda>c. c\<lparr>hc_host := Some a, hc_cl := Some (length (mc_lists ?m))\<rparr>) ?m)
       \<lparr>mc_lists := mc_lists ?m @ [map (\<lambda>a. \<lparr>sin_addr = a, sin_port = q\<rparr>) l]\<rparr>"
    using r by (auto simp: set_cosign_host_def Let_def at_place_def split: option.splits)
  have "ok (addresses ?m) (mc_conf ?m q)" for q by (rule everywhereD [OF everywhere_merge [OF mc]])
  then show "everywhere mc'"
    using assms [OF _ l(1), of "addresses ?m"] ok_more by (simp add: everywhere_def at_place_def l(2) comp_def)
qed

lemma kept_certs:
  assumes "\<And>n c k e d x. ok n c \<Longrightarrow> ok n (c\<lparr>hc_key := k, hc_cert := e, hc_cadir := d, hc_ctx := x\<rparr>)"
  shows "kept mc (set_cosign_certs cr p a b c mc)"
proof (rule keptI)
  fix mc' assume mc: "everywhere mc" and r: "set_cosign_certs cr p a b c mc = Ret (None, mc')"
  have "mc' = at_place p (\<lambda>e. e\<lparr>hc_key := Some a, hc_cert := Some b, hc_cadir := Some c, hc_ctx := Some (a, b, c)\<rparr>)
      (cosign_merge_cfg p mc)"
    using r by (auto simp: set_cosign_certs_def Let_def at_place_def split: option.splits if_splits)
  then show "everywhere mc'" using assms everywhere_merge [OF mc] by (auto intro!: everywhere_update)
qed

lemma kept_reference:
  assumes "\<And>n c. regcomp re False a \<Longrightarrow> ok n c \<Longrightarrow> ok n (c\<lparr>hc_validref := Some a, hc_validpreg := Some a\<rparr>)"
  shows "kept mc (set_cosign_valid_reference re p a mc)"
  using kept_settle [of "\<lambda>c. c\<lparr>hc_validref := Some a, hc_validpreg := Some a\<rparr>"] assms
  by (cases "regcomp re False a") (simp_all add: set_cosign_valid_reference_def kept_def)

lemma kept_checkip:
  assumes "\<And>n c k. k \<in> {IPCHECK_NEVER, IPCHECK_INITIAL, IPCHECK_ALWAYS} \<Longrightarrow> ok n c \<Longrightarrow> ok n (c\<lparr>hc_checkip := k\<rparr>)"
  shows "kept mc (set_cosign_checkip p a mc)"
  unfolding set_cosign_checkip_def Let_def using assms by (auto intro!: kept_merged) (simp add: kept_def)

lemma kept_hashlen:
  assumes "\<And>n c k. 0 \<le> k \<Longrightarrow> k \<le> 2 \<Longrightarrow> ok n c \<Longrightarrow> ok n (c\<lparr>hc_hashlen := k\<rparr>)"
  shows "kept mc (set_cosign_hashlen p a mc)"
proof -
  note k = assms [of "to_int (fst (strtol a))"]
  show ?thesis
    by (auto simp: set_cosign_hashlen_def kept_def Let_def intro!: everywhere_update k split: place.splits if_splits)
qed

end

text \<open>The values: what the handlers rely on when they read them.\<close>

definition flag_ok :: "int \<Rightarrow> bool" where
  "flag_ok f \<longleftrightarrow> f = -1 \<or> f = 0 \<or> f = 1"

definition values_ok :: "regex \<Rightarrow> host_config \<Rightarrow> bool" where
  "values_ok re c \<longleftrightarrow>
     (case hc_reqfv c of None \<Rightarrow> hc_reqfc c = -1 | Some fv \<Rightarrow> hc_reqfc c = int (length fv)) \<and>
     (case hc_service c of None \<Rightarrow> True | Some s \<Rightarrow> starts_with s ''cosign-'') \<and>
     hc_validpreg c = hc_validref c \<and> (case hc_validref c of None \<Rightarrow> True | Some p \<Rightarrow> regcomp re False p) \<and>
     0 \<le> hc_hashlen c \<and> hc_hashlen c \<le> 2 \<and> hc_checkip c \<in> {IPCHECK_NEVER, IPCHECK_INITIAL, IPCHECK_ALWAYS} \<and>
     list_all flag_ok [hc_fake c, hc_public c, hc_protect c, hc_http c, hc_noappendport c, hc_proxy c, hc_krbtkt c, hc_gss c]"

text \<open>There is a list of servers just where a host is named, and it holds the addresses of that host.\<close>

definition list_ok :: "(string \<Rightarrow> 32 word list option) \<Rightarrow> 32 word list list \<Rightarrow> host_config \<Rightarrow> bool" where
  "list_ok resolve ls c \<longleftrightarrow>
     (case hc_host c of
        None \<Rightarrow> hc_cl c = None
      | Some h \<Rightarrow> \<exists>a. hc_cl c = Some a \<and> a < length ls \<and> resolve h = Some (ls ! a))"

lemma unset_simps [simp]:
  "unset_str None y = y" "unset_str (Some x) y = Some x" "unset_int (-1) k = k" "i \<noteq> -1 \<Longrightarrow> unset_int i k = i"
  by (simp_all add: unset_str_def unset_int_def)

lemma flag_ok_unset: "flag_ok x \<Longrightarrow> flag_ok y \<Longrightarrow> flag_ok (unset_int x y)"
  by (auto simp: flag_ok_def unset_int_def)

lemma inherit_sel [simp]:
  "hc_reqfv (inherit s c) = unset_str (hc_reqfv c) (hc_reqfv s)" "hc_reqfc (inherit s c) = unset_int (hc_reqfc c) (hc_reqfc s)"
  "hc_service (inherit s c) = unset_str (hc_service c) (hc_service s)" "hc_host (inherit s c) = unset_str (hc_host c) (hc_host s)"
  "hc_cl (inherit s c) = unset_str (hc_cl c) (hc_cl s)" "hc_validref (inherit s c) = hc_validref c"
  "hc_validpreg (inherit s c) = hc_validpreg c" "hc_hashlen (inherit s c) = hc_hashlen s" "hc_checkip (inherit s c) = hc_checkip s"
  "hc_fake (inherit s c) = unset_int (hc_fake c) (hc_fake s)" "hc_public (inherit s c) = unset_int (hc_public c) (hc_public s)"
  "hc_protect (inherit s c) = unset_int (hc_protect c) (hc_protect s)" "hc_http (inherit s c) = unset_int (hc_http c) (hc_http s)"
  "hc_noappendport (inherit s c) = unset_int (hc_noappendport c) (hc_noappendport s)"
  "hc_proxy (inherit s c) = unset_int (hc_proxy c) (hc_proxy s)" "hc_krbtkt (inherit s c) = unset_int (hc_krbtkt c) (hc_krbtkt s)"
  "hc_gss (inherit s c) = unset_int (hc_gss c) (hc_gss s)"
  by (simp_all add: inherit_def)

interpretation good_values: conf_law "\<lambda>_. values_ok re" for re
proof unfold_locales
  fix s c :: host_config
  assume "values_ok re s" "values_ok re c"
  then show "values_ok re (inherit s c)"
    by (cases "hc_reqfv c"; cases "hc_service c") (auto simp: values_ok_def flag_ok_unset split: option.splits)
qed (simp_all add: values_ok_def cong: option.case_cong)

interpretation good_lists: conf_law "list_ok resolve" for resolve
proof unfold_locales
  fix n and s c :: host_config
  assume "list_ok resolve n s" "list_ok resolve n c"
  then show "list_ok resolve n (inherit s c)"
    by (cases "hc_cl c"; cases "hc_host c") (auto simp: list_ok_def split: option.splits)
qed (auto simp: list_ok_def nth_append split: option.splits)

section \<open>Every directive keeps them\<close>

lemmas plain_setters = set_cosign_post_error_def set_cosign_service_def set_cosign_redirect_def
  set_cosign_validation_error_redirect_def set_cosign_siteentry_def set_cosign_factor_def set_cosign_factorsuffix_def

lemmas server_setters = set_cosign_filterdb_def set_cosign_proxydb_def set_cosign_tkt_prefix_def set_cosign_expiretime_def

lemmas flag_setters = set_cosign_protect_def set_cosign_ignoresuffix_def set_cosign_public_def set_cosign_http_def
  set_cosign_noappendport_def set_cosign_proxy_cookies_def set_cosign_tickets_def set_cosign_gss_def

text \<open>The calls that were accepted, by the kind of the directive.\<close>

lemma call_accepted:
  assumes "call_setter s p args mc = Some r"
  obtains (one) f a where "s = TAKE1 f \<or> s = RAW_ARGS f" "f p a mc = r"
  | (flag) f b where "s = FLAG f" "b = 0 \<or> b = 1" "f p b mc = r"
  | (three) f a b c where "s = TAKE3 f" "f p a b c mc = r"
  using assms by (cases "(s, p, args, mc)" rule: call_setter.cases) (auto split: if_splits)

lemma values_kept:
  assumes "(name, s, st) \<in> set (cosign_cmds me)" and "call_setter s p args mc = Some r"
  shows "good_values.kept (me_regex me) mc r"
  using assms(2)
proof (cases rule: call_accepted)
  case (one f a)
  then show ?thesis
    using assms(1)
    by (auto simp: cosign_cmds_def plain_setters server_setters values_ok_def cong: option.case_cong simp del: append_Cons
        intro!: good_values.kept_settle good_values.kept_settle_server good_values.kept_port good_values.kept_host
          good_values.kept_reference good_values.kept_checkip good_values.kept_hashlen)
next
  case (flag f b)
  then show ?thesis
    using assms(1)
    by (auto simp: cosign_cmds_def flag_setters values_ok_def flag_ok_def cong: option.case_cong intro!: good_values.kept_settle)
next
  case (three f a b c)
  then show ?thesis
    using assms(1) by (auto simp: cosign_cmds_def values_ok_def cong: option.case_cong intro!: good_values.kept_certs)
qed

lemma lists_kept:
  assumes "(name, s, st) \<in> set (cosign_cmds me)" and "call_setter s p args mc = Some r"
  shows "good_lists.kept (me_resolve me) mc r"
  using assms(2)
proof (cases rule: call_accepted)
  case (one f a)
  then show ?thesis
    using assms(1)
    by (auto simp: cosign_cmds_def plain_setters server_setters list_ok_def nth_append cong: option.case_cong
        intro!: good_lists.kept_settle good_lists.kept_settle_server good_lists.kept_port good_lists.kept_host
          good_lists.kept_reference good_lists.kept_checkip good_lists.kept_hashlen)
next
  case (flag f b)
  then show ?thesis
    using assms(1) by (auto simp: cosign_cmds_def flag_setters list_ok_def cong: option.case_cong intro!: good_lists.kept_settle)
next
  case (three f a b c)
  then show ?thesis
    using assms(1) by (auto simp: cosign_cmds_def list_ok_def cong: option.case_cong intro!: good_lists.kept_certs)
qed

section \<open>The configuration of a server that starts\<close>

text \<open>No entry of a list has port 0.\<close>

definition ports_ok :: "module_conf \<Rightarrow> bool" where
  "ports_ok mc \<longleftrightarrow> list_all (list_all (\<lambda>s. sin_port s \<noteq> 0)) (mc_lists mc)"

lemma port_or_default_pos [simp]: "port_or_default q \<noteq> 0"
  by (simp add: port_or_default_def)

lemma same_lists [simp]:
  "mc_lists (cosign_merge_cfg p mc) = mc_lists mc" "mc_lists (at_place p f mc) = mc_lists mc"
  by (auto simp: cosign_merge_cfg_def at_place_def split: place.splits)

text \<open>Only two directives change the lists.\<close>

lemma lists_changed:
  assumes "(name, s, st) \<in> set (cosign_cmds me)" and "call_setter s p args mc = Some (Ret (None, mc'))"
    and "mc_lists mc' \<noteq> mc_lists mc"
  obtains (port) a where "set_cosign_port p a mc = Ret (None, mc')"
  | (host) a where "set_cosign_host (me_resolve me) p a mc = Ret (None, mc')"
proof -
  have same: "settle q f mc = Ret (None, mc') \<Longrightarrow> mc_lists mc' = mc_lists mc"
    "settle_server m q f mc = Ret (None, mc') \<Longrightarrow> mc_lists mc' = mc_lists mc"
    "set_cosign_checkip q a mc = Ret (None, mc') \<Longrightarrow> mc_lists mc' = mc_lists mc"
    "set_cosign_hashlen q a mc = Ret (None, mc') \<Longrightarrow> mc_lists mc' = mc_lists mc"
    "set_cosign_valid_reference re q a mc = Ret (None, mc') \<Longrightarrow> mc_lists mc' = mc_lists mc"
    "set_cosign_certs cr q a b c mc = Ret (None, mc') \<Longrightarrow> mc_lists mc' = mc_lists mc" for q f m a b c re cr
    by (auto simp: settle_def settle_server_def set_cosign_checkip_def set_cosign_hashlen_def set_cosign_valid_reference_def
        set_cosign_certs_def Let_def split: option.splits if_splits place.splits)
  show ?thesis
    using assms(2)
  proof (cases rule: call_accepted)
    case (one f a)
    then show ?thesis
      using assms(1,3) by (auto simp: cosign_cmds_def plain_setters server_setters intro: that dest: same)
  next
    case (flag f b)
    then show ?thesis using assms(1,3) by (auto simp: cosign_cmds_def flag_setters dest: same)
  next
    case (three f a b c)
    then show ?thesis using assms(1,3) by (auto simp: cosign_cmds_def dest: same)
  qed
qed

lemma ports_kept:
  assumes "(name, s, st) \<in> set (cosign_cmds me)" and "call_setter s p args mc = Some (Ret (None, mc'))" and "ports_ok mc"
  shows "ports_ok mc'"
proof (cases "mc_lists mc' = mc_lists mc")
  case True
  then show ?thesis using assms(3) by (simp add: ports_ok_def)
next
  case False
  from lists_changed [OF assms(1,2) False] show ?thesis
    using assms(3)
    by cases (auto simp: ports_ok_def set_cosign_port_def set_cosign_host_def Let_def list_all_iff
        split: option.splits dest!: set_update_subset_insert [THEN subsetD])
qed

text \<open>
  C28.  A server starts only with a configuration its handlers can rely on, for the server and for every directory: the number of
  factors is that of the array, a service starts with \<open>cosign-\<close>, a regular expression was compiled from the text it is shown
  with, there is a list of servers just where a \<open>CosignHostname\<close> is in force and it holds the addresses of that host,
  no server has port 0, and every number is one the code knows.  A file without \<open>CosignHostname\<close> is accepted, and
  has no list.
\<close>

theorem started_configuration:
  assumes "configured_as me bp fl mc"
  shows "values_ok (me_regex me) (mc_conf mc p) \<and> list_ok (me_resolve me) (addresses mc) (mc_conf mc p) \<and> ports_ok mc"
proof -
  have "good_values.everywhere (me_regex me) mc \<and> good_lists.everywhere (me_resolve me) mc \<and> ports_ok mc"
    using assms
  proof induction
    case empty
    have "values_ok (me_regex me) (cosign_create_config bp)" "list_ok (me_resolve me) [] (cosign_create_config bp)"
      by (simp_all add: values_ok_def list_ok_def cosign_create_config_def flag_ok_def)
    then show ?case by (simp add: good_values.everywhere_def good_lists.everywhere_def fresh_conf_def ports_ok_def)
  next
    case (directive fl mc name s st p args mc')
    then show ?case
      using values_kept [OF directive(2,4)] lists_kept [OF directive(2,4)] ports_kept [OF directive(2,4)]
      by (simp add: good_values.kept_def good_lists.kept_def)
  qed
  then show ?thesis using good_values.everywhereD good_lists.everywhereD by blast
qed

end
