(* ===== verification/Mod_facts.thy ===== *)
theory Mod_facts
  imports Mod_cosign Mod_law Filter_facts Weblogin_sso
begin

text \<open>
  What the module of Apache 2 guarantees: who gets to a protected page, where a visitor without a cookie is sent and what the
  weblogin program reads there, and what becomes of the service cookie he comes back with.
\<close>

section \<open>Who gets in\<close>

lemma run_respond [simp]: "run_state (respond st r) w = (Some (Ret (st, r)), w)"
  by (simp add: respond_def)

text \<open>
  The shared code of the filters vouches for the user \<open>si\<close> of the request: for the cookie of the service that the request
  carries, cut before its time, of valid characters, and not older than the configuration allows.
\<close>

definition vouched :: "apache \<Rightarrow> nat \<Rightarrow> host_config \<Rightarrow> request \<Rightarrow> sinfo \<Rightarrow> filter_state \<Rightarrow> bool" where
  "vouched ap n cfg r si w' \<longleftrightarrow>
     (\<exists>data service name val cookie misc rk v.
        rq_headers_in r ''Cookie'' = Some data \<and> hc_service cfg = Some service \<and>
        service_cookie (ap_getword ap) service (Suc (length data)) data = Some (Some (name, val)) \<and>
        strcaseeq name service \<and> 120 \<le> length val \<and> cut_time (name @ ''='' @ val) = (cookie, misc) \<and> validchars cookie \<and>
        (case misc of None \<Rightarrow> True | Some t \<Rightarrow> atoi t \<le> 0 \<or> tv_sec (os_now v) - atoi t \<le> hc_expiretime cfg) \<and>
        run_state (cosign_cookie_valid (filter_of cfg) cookie None (rq_remote_ip r) n) v = (Some (Ret (COSIGN_OK, si, rk)), w'))"

lemma service_cookie_name:
  "service_cookie gw service n data = Some (Some (name, val)) \<Longrightarrow> strcaseeq name service"
  by (induction n arbitrary: data) (auto split: if_splits prod.splits)

lemma run_no_cookie:
  assumes "run_state (no_cookie cfg r) w = (Some (Ret (st, r')), w')" and "hc_public cfg \<noteq> 1"
  shows "st = HTTP_MOVED_TEMPORARILY \<or>
    st = DECLINED \<and> rq_auth_required r \<and> r' = r\<lparr>rq_notes := (rq_notes r)(''cosign-redirect'' \<mapsto> ''true'')\<rparr>"
  using assms by (auto simp: no_cookie_def send_to_login_def cosign_redirect_def split: if_splits)

lemma run_gettimeofday_time:
  "run_state gettimeofday w = (t, v) \<Longrightarrow> (t = None \<or> t = Some (os_now v)) \<and> os_now v = os_now w"
  by (auto simp: gettimeofday_def fault_def now_def split: list.splits if_splits)

text \<open>What the check of access may answer.\<close>

definition turned_away :: "request \<Rightarrow> http_status \<Rightarrow> request \<Rightarrow> bool" where
  "turned_away r st r' \<longleftrightarrow>
     st = HTTP_SERVICE_UNAVAILABLE \<or> st = HTTP_MOVED_TEMPORARILY \<or>
     st = DECLINED \<and> rq_auth_required r \<and> r' = r\<lparr>rq_notes := (rq_notes r)(''cosign-redirect'' \<mapsto> ''true'')\<rparr>"

lemma no_cookie_away:
  "run_state (no_cookie cfg r) w = (Some (Ret (st, r')), w') \<Longrightarrow> hc_public cfg \<noteq> 1 \<Longrightarrow> turned_away r st r'"
  using run_no_cookie by (fastforce simp: turned_away_def)

lemma run_check_visit:
  assumes "run_state (check_visit cfg n cookie r) w = (Some (Ret (st, r')), w')" and "hc_public cfg \<noteq> 1"
  shows "turned_away r st r' \<or> (\<exists>si rk.
    run_state (cosign_cookie_valid (filter_of cfg) cookie None (rq_remote_ip r) n) w = (Some (Ret (COSIGN_OK, si, rk)), w') \<and>
    st = DECLINED \<and> r' = let_through cfg si r)"
proof -
  obtain v u where v: "run_state (cosign_cookie_valid (filter_of cfg) cookie None (rq_remote_ip r) n) w = (v, u)" by fastforce
  then obtain cv si rk where cv: "v = Some (Ret (cv, si, rk))"
    using assms(1) by (auto simp: check_visit_def split: option.splits outcome.splits)
  have run: "run_state (check_visit cfg n cookie r) w =
      (if cv = COSIGN_ERROR then (Some (Ret (HTTP_SERVICE_UNAVAILABLE, r)), u)
       else if cv = COSIGN_OK then (Some (Ret (DECLINED, let_through cfg si r)), u) else run_state (no_cookie cfg r) u)"
    using v by (simp add: check_visit_def cv)
  have away: "turned_away r HTTP_SERVICE_UNAVAILABLE r1" for r1 by (simp add: turned_away_def)
  show ?thesis
    using assms v cv no_cookie_away [of cfg r u st r' w'] away unfolding run by (auto split: if_splits)
qed

lemma run_visit_with:
  assumes "run_state (visit_with cfg n my r) w = (Some (Ret (st, r')), w')" and "hc_public cfg \<noteq> 1"
    and "cut_time my = (cookie, misc)"
  shows "turned_away r st r' \<or> (\<exists>si rk v. validchars cookie \<and>
    (case misc of None \<Rightarrow> True | Some t \<Rightarrow> atoi t \<le> 0 \<or> tv_sec (os_now v) - atoi t \<le> hc_expiretime cfg) \<and>
    run_state (cosign_cookie_valid (filter_of cfg) cookie None (rq_remote_ip r) n) v = (Some (Ret (COSIGN_OK, si, rk)), w') \<and>
    st = DECLINED \<and> r' = let_through cfg si r)"
proof -
  obtain t v where t: "run_state gettimeofday w = (t, v)" by fastforce
  let ?time = "case misc of None \<Rightarrow> 0 | Some m \<Rightarrow> atoi m"
  have run: "run_state (visit_with cfg n my r) w =
      (if 0 < ?time \<and> t = None then (Some Undefined, v)
       else if 0 < ?time \<and> hc_expiretime cfg < tv_sec (the t) - ?time then run_state (no_cookie cfg r) v
       else if \<not> validchars cookie then run_state (no_cookie cfg r) v
       else run_state (check_visit cfg n cookie r) v)"
    using t assms(3) by (cases t) (simp_all add: visit_with_def Let_def)
  consider "run_state (no_cookie cfg r) v = (Some (Ret (st, r')), w')"
    | (check) "run_state (check_visit cfg n cookie r) v = (Some (Ret (st, r')), w')" "validchars cookie"
      "\<not> (0 < ?time \<and> (t = None \<or> hc_expiretime cfg < tv_sec (the t) - ?time))"
    using assms(1) unfolding run by (auto split: if_splits)
  then show ?thesis
  proof cases
    case 1
    then show ?thesis using assms(2) no_cookie_away by blast
  next
    case check
    have "case misc of None \<Rightarrow> True | Some m \<Rightarrow> atoi m \<le> 0 \<or> tv_sec (os_now v) - atoi m \<le> hc_expiretime cfg"
      using check(3) run_gettimeofday_time [OF t] by (auto split: option.splits)
    then show ?thesis using run_check_visit [OF check(1) assms(2)] check(2) by blast
  qed
qed

lemma run_cosign_auth:
  assumes "run_state (cosign_auth ap n r) w = (Some (Ret (st, r')), w')" and "the_config r = cfg"
    and "hc_configured cfg \<noteq> 0" and "hc_protect cfg \<noteq> 0" and "hc_public cfg \<noteq> 1"
  shows "turned_away r st r' \<or> (\<exists>si. vouched ap n cfg r si w' \<and> st = DECLINED \<and> r' = let_through cfg si r)"
proof -
  consider (conf) "st = HTTP_SERVICE_UNAVAILABLE" | (none) "run_state (no_cookie cfg r) w = (Some (Ret (st, r')), w')"
    | (cookie) service data name val where "hc_service cfg = Some service" "rq_headers_in r ''Cookie'' = Some data"
        "service_cookie (ap_getword ap) service (Suc (length data)) data = Some (Some (name, val))" "120 \<le> length val"
        "run_state (visit_with cfg n (name @ ''='' @ val) r) w = (Some (Ret (st, r')), w')"
    using assms by (auto simp: cosign_auth_def Let_def simp del: service_cookie.simps split: option.splits prod.splits if_splits)
  then show ?thesis
  proof cases
    case conf
    then show ?thesis by (simp add: turned_away_def)
  next
    case none
    then show ?thesis using assms(5) no_cookie_away by blast
  next
    case cookie
    obtain c m where "cut_time (name @ ''='' @ val) = (c, m)" by fastforce
    from run_visit_with [OF cookie(5) assms(5) this] this show ?thesis
      using cookie(1-4) service_cookie_name [OF cookie(3)] unfolding vouched_def by blast
  qed
qed

definition cosign_auth_type :: "request \<Rightarrow> bool" where
  "cosign_auth_type r \<longleftrightarrow> (case rq_auth_type r of None \<Rightarrow> False | Some a \<Rightarrow> strcaseeq a ''Cosign'')"

lemma page_protected:
  assumes "run_state (cosign_hooks ap n r) w = (Some (Ret (st, r')), w')" and "st = OK \<or> st = DECLINED"
    and "the_config r = cfg" and "hc_configured cfg \<noteq> 0" and "hc_protect cfg \<noteq> 0" and "hc_public cfg \<noteq> 1"
    and "\<not> rq_auth_required r \<or> cosign_auth_type r"
  shows "\<exists>si. vouched ap n cfg r si w' \<and> rq_user r' = Some (si_user si) \<and> rq_ap_auth_type r' = Some ''Cosign'' \<and>
    rq_subprocess_env r' ''REMOTE_REALM'' = Some (si_realm si) \<and> rq_subprocess_env r' ''COSIGN_FACTOR'' = Some (si_factor si)"
proof -
  obtain st1 r1 where a: "run_state (cosign_auth ap n r) w = (Some (Ret (st1, r1)), w')"
    and h: "(st, r') = (if (st1 = OK \<or> st1 = DECLINED) \<and> rq_auth_required r1 then cosign_authn r1 else (st1, r1))"
    using assms(1) by (auto simp: cosign_hooks_def split: option.splits outcome.splits prod.splits)
  have authn: "fst (cosign_authn r1) = HTTP_MOVED_TEMPORARILY"
    if "cosign_auth_type r1" "rq_notes r1 ''cosign-redirect'' \<noteq> None"
    using that by (auto simp: cosign_authn_def cosign_auth_type_def send_to_login_def cosign_redirect_def split: option.splits)
  have "\<not> turned_away r st1 r1"
  proof
    assume t: "turned_away r st1 r1"
    then have "st1 = DECLINED \<longrightarrow> rq_auth_required r1 \<and> fst (cosign_authn r1) = HTTP_MOVED_TEMPORARILY"
      using assms(7) authn by (auto simp: turned_away_def cosign_auth_type_def)
    moreover have "st1 = OK \<or> st1 = DECLINED \<and> st = fst (cosign_authn r1) \<or> st = st1 \<and> \<not> (st1 = DECLINED \<and> rq_auth_required r1)"
      using h by (cases "cosign_authn r1") (auto split: if_splits)
    ultimately show False using t assms(2) by (auto simp: turned_away_def)
  qed
  then obtain si where si: "vouched ap n cfg r si w'" "st1 = DECLINED" "r1 = let_through cfg si r"
    using run_cosign_auth [OF a assms(3-6)] by blast
  have "r' = r1"
    using h assms(2)
    by (auto simp: cosign_authn_def send_to_login_def cosign_redirect_def split: if_splits option.splits prod.splits)
  then show ?thesis using si by (auto simp: let_through_def Let_def)
qed

text \<open>
  C7.  Nobody gets to a protected page unless the shared code vouches for him: where access is not public, and a page that requires
  a user asks for it with \<open>AuthType Cosign\<close>, a request that passes both hooks has carried a good service cookie, and the user,
  the realm and the factors that the page sees are those of that cookie.
\<close>

theorem protected_page:
  assumes "run_state (cosign_hooks ap n r) w = (Some (Ret (st, r')), w')" and "st = OK \<or> st = DECLINED"
    and "the_config r = cfg" and "hc_configured cfg \<noteq> 0" and "hc_protect cfg \<noteq> 0" and "hc_public cfg \<noteq> 1"
    and "\<not> rq_auth_required r \<or> cosign_auth_type r"
  shows "\<exists>si. vouched ap n cfg r si w' \<and> rq_user r' = Some (si_user si) \<and> rq_ap_auth_type r' = Some ''Cosign'' \<and>
    rq_subprocess_env r' ''REMOTE_REALM'' = Some (si_realm si) \<and> rq_subprocess_env r' ''COSIGN_FACTOR'' = Some (si_factor si)"
  using assms by (rule page_protected)

section \<open>Where the handler redirects to\<close>

definition admitted_dest :: "apache \<Rightarrow> host_config \<Rightarrow> string \<Rightarrow> string \<Rightarrow> bool" where
  "admitted_dest ap cfg pair dest \<longleftrightarrow>
     starts_with_nocase pair ''cosign-'' \<and> validchars pair \<and>
     (case hc_validpreg cfg of
        None \<Rightarrow> False
      | Some re \<Rightarrow> (case regexec (ap_regex ap) False re dest of Match _ \<Rightarrow> True | _ \<Rightarrow> False))"

lemma run_validate:
  assumes "run_state (validate cfg n pair dest r) w = (Some (Ret (st, r')), w')"
  shows "r' = r \<and> st = HTTP_SERVICE_UNAVAILABLE \<or> st = HTTP_MOVED_PERMANENTLY \<and> (r' = set_location dest r \<or>
    (\<exists>si rk u sec. run_state (cosign_cookie_valid (filter_of cfg) pair (Some None) (rq_remote_ip r) n) w =
        (Some (Ret (COSIGN_OK, si, rk)), u) \<and>
      r' = set_location dest (r\<lparr>rq_err_headers_out := (rq_err_headers_out r)
        (''Set-Cookie'' \<mapsto> full_cookie (case rk of Some (Some new) \<Rightarrow> new | _ \<Rightarrow> pair) sec dest)\<rparr>)))"
proof -
  obtain v u where v: "run_state (cosign_cookie_valid (filter_of cfg) pair (Some None) (rq_remote_ip r) n) w = (v, u)" by fastforce
  then obtain cv si rk where cv: "v = Some (Ret (cv, si, rk))"
    using assms by (auto simp: validate_def split: option.splits outcome.splits)
  let ?c = "case rk of Some (Some new) \<Rightarrow> new | _ \<Rightarrow> pair"
  have run: "run_state (validate cfg n pair dest r) w =
      (if cv = COSIGN_OK then run_state (cookie_accepted ?c dest r) u
       else if cv = COSIGN_RETRY then (Some (Ret (HTTP_MOVED_PERMANENTLY, set_location dest r)), u)
       else (Some (Ret (HTTP_SERVICE_UNAVAILABLE, r)), u))"
    using v by (simp add: validate_def cv)
  show ?thesis
    using assms v unfolding run cv
    by (auto simp: cookie_accepted_def split: if_splits option.splits prod.splits)
qed

text \<open>
  C8.  The location of service cookies is no open redirect, and no way to plant a cookie: it answers a redirect only to the page
  for errors, or to a destination that the configuration's regular expression matches; and it sets a cookie only when the
  shared code has vouched for the one in the query, or for the one that was given for it.  Any other answer leaves the
  request as it was.
\<close>

theorem handler_redirects:
  assumes "run_state (cosign_handler ap n r) w = (Some (Ret (st, r')), w')" and "rq_server_conf r = cfg"
  shows "st \<noteq> HTTP_MOVED_PERMANENTLY \<and> r' = r \<or>
    st = HTTP_MOVED_PERMANENTLY \<and> r' = set_location (pr_str (hc_referr cfg)) r \<or>
    st = HTTP_MOVED_PERMANENTLY \<and> (\<exists>qstr pair dest.
      rq_args r = Some qstr \<and> ap_getword ap CHR ''&'' qstr = (pair, dest) \<and> admitted_dest ap cfg pair dest \<and>
      (r' = set_location dest r \<or>
       (\<exists>si rk u sec. run_state (cosign_cookie_valid (filter_of cfg) pair (Some None) (rq_remote_ip r) n) w =
           (Some (Ret (COSIGN_OK, si, rk)), u) \<and>
         r' = set_location dest (r\<lparr>rq_err_headers_out := (rq_err_headers_out r)
           (''Set-Cookie'' \<mapsto> full_cookie (case rk of Some (Some new) \<Rightarrow> new | _ \<Rightarrow> pair) sec dest)\<rparr>))))"
proof -
  consider "st \<noteq> HTTP_MOVED_PERMANENTLY \<and> r' = r" | "st = HTTP_MOVED_PERMANENTLY \<and> r' = set_location (pr_str (hc_referr cfg)) r"
    | (valid) qstr pair dest where "rq_args r = Some qstr" "ap_getword ap CHR ''&'' qstr = (pair, dest)"
        "admitted_dest ap cfg pair dest" "run_state (validate cfg n pair dest r) w = (Some (Ret (st, r')), w')"
    using assms
    by (auto simp: cosign_handler_def Let_def validation_failed_def admitted_dest_def
        split: option.splits prod.splits if_splits exec.splits)
  then show ?thesis
  proof cases
    case valid
    then show ?thesis using run_validate [OF valid(4)] by auto
  qed blast+
qed

section \<open>The way to the login\<close>

lemma words_nil [simp]: "words d [] = []"
  by (simp add: words.simps strtok_def)

lemma words_comma_list:
  assumes "list_all (\<lambda>f. f \<noteq> [] \<and> CHR '','' \<notin> set f) fs"
  shows "words CHR '','' (comma_list fs) = fs"
  using assms
proof (induction fs rule: comma_list.induct)
  case 1
  then show ?case by simp
next
  case (2 f)
  then show ?case by (subst words.simps) (simp add: strtok_last)
next
  case (3 f g fs)
  then show ?case by (subst words.simps) (simp add: strtok_word)
qed

lemma comma_list_safe: "list_all (\<lambda>f. CHR ''&'' \<notin> set f) fs \<Longrightarrow> CHR ''&'' \<notin> set (comma_list fs)"
  by (induction fs rule: comma_list.induct) auto

text \<open>Words of the configuration that survive in a query.\<close>

definition query_safe :: "host_config \<Rightarrow> bool" where
  "query_safe cfg \<longleftrightarrow>
     (case hc_service cfg of None \<Rightarrow> False | Some s \<Rightarrow> CHR ''&'' \<notin> set s \<and> last s \<noteq> CHR '';'') \<and>
     list_all (\<lambda>f. f \<noteq> [] \<and> CHR '','' \<notin> set f \<and> CHR ''&'' \<notin> set f) (required cfg) \<and> hc_siteentry cfg \<noteq> Some []"

lemma required_factors_of:
  "values_ok re cfg \<Longrightarrow> 0 < hc_reqfc cfg \<longleftrightarrow> required cfg \<noteq> []"
  by (auto simp: values_ok_def required_def split: option.splits)

lemma return_url_nonempty: "hc_siteentry cfg \<noteq> Some [] \<Longrightarrow> return_url cfg r \<noteq> []"
  by (auto simp: return_url_def self_url_def Let_def split: option.splits)

text \<open>What the weblogin program makes of a query with factors, a service and a page.\<close>

definition query_of :: "string list \<Rightarrow> string \<Rightarrow> string \<Rightarrow> string" where
  "query_of fs s u = (if fs \<noteq> [] then ''factors='' @ comma_list fs @ ''&'' else []) @ s @ ''&'' @ u"

lemma read_query_of:
  assumes "starts_with s ''cosign-''" and "CHR ''&'' \<notin> set s" and "last s \<noteq> CHR '';''" and "u \<noteq> []"
    and "list_all (\<lambda>f. f \<noteq> [] \<and> CHR '','' \<notin> set f \<and> CHR ''&'' \<notin> set f) fs"
  shows "\<exists>v'. run_state (read_query remote (query_of fs s u) False) v = (Go False, v') \<and>
    wl_service v' = Some s \<and> wl_ref v' = Some u \<and>
    (if fs = [] then wl_factor v' = wl_factor v
     else wl_factor v' = Some (comma_list fs) \<and> words CHR '','' (comma_list fs) = fs)"
proof -
  obtain t where t: "s = ''cosign-'' @ t" using assms(1) starts_withD by blast
  have other: "\<not> starts_with s ''factors=''" "s \<noteq> ''basic''" "s \<noteq> []" "strip_semicolon s = s"
    using assms(3) by (simp_all add: t starts_with_def strip_semicolon_def)
  have service: "strtok CHR ''&'' (s @ CHR ''&'' # u) = Some (s, u)" using strtok_word other(3) assms(2) by blast
  show ?thesis
  proof (cases "fs = []")
    case True
    then have "query_of fs s u = s @ CHR ''&'' # u" by (simp add: query_of_def)
    then show ?thesis
      using True service other assms(1-4)
      by (simp add: read_query_def query_service_def w_set_def set_sl_def step_def Let_def)
  next
    case False
    let ?f = "comma_list fs"
    have f: "list_all (\<lambda>f. f \<noteq> [] \<and> CHR '','' \<notin> set f) fs" "CHR ''&'' \<notin> set ?f"
      using assms(5) comma_list_safe [of fs] by (auto simp: list_all_iff)
    have "query_of fs s u = (''factors='' @ ?f) @ CHR ''&'' # (s @ CHR ''&'' # u)"
      using False by (simp add: query_of_def)
    moreover have "strtok CHR ''&'' \<dots> = Some (''factors='' @ ?f, s @ CHR ''&'' # u)" using f(2) by (intro strtok_word) auto
    moreover have "starts_with (''factors='' @ ?f) ''factors=''" by (rule starts_with_append)
    moreover have "drop 8 (''factors='' @ ?f) = ?f" "''factors='' @ ?f \<noteq> ''basic''" by simp_all
    ultimately show ?thesis
      using False service other assms(1-4) words_comma_list [OF f(1)]
      by (simp add: read_query_def query_service_def next_word_def w_set_def set_sl_def step_def Let_def del: append_Cons append.simps)
  qed
qed

lemma read_login_query:
  assumes "values_ok re cfg" and "query_safe cfg" and "hc_service cfg = Some s"
  shows "\<exists>v'. run_state (read_query remote (login_query cfg r) False) v = (Go False, v') \<and>
    wl_service v' = Some s \<and> wl_ref v' = Some (return_url cfg r) \<and>
    (if required cfg = [] then wl_factor v' = wl_factor v
     else wl_factor v' = Some (comma_list (required cfg)) \<and> words CHR '','' (comma_list (required cfg)) = required cfg)"
proof -
  have "login_query cfg r = query_of (required cfg) s (return_url cfg r)"
    using required_factors_of [OF assms(1)] assms(3) by (auto simp: login_query_def query_of_def pr_str_def)
  then show ?thesis
    using read_query_of [of s "return_url cfg r" "required cfg"] assms return_url_nonempty
    by (auto simp: values_ok_def query_safe_def)
qed

text \<open>
  C15.  A visitor without a cookie is sent to the weblogin program, whichever of the two hooks does it, and the weblogin program
  reads from the query exactly what the configuration asks for: the service, the page to come back to, and the list of
  required factors.
\<close>

theorem login_roundtrip:
  assumes "the_config r = cfg" and "hc_configured cfg \<noteq> 0" and "hc_protect cfg \<noteq> 0" and "hc_public cfg \<noteq> 1"
    and "values_ok re cfg" and "query_safe cfg" and "hc_host cfg \<noteq> None" and "hc_posterror cfg \<noteq> None"
    and "hc_redirect cfg = Some url" and "hc_service cfg = Some s"
    and "rq_headers_in r ''Cookie'' = None" and "rq_method r \<noteq> M_POST" and "\<not> rq_auth_required r \<or> cosign_auth_type r"
  shows "\<exists>r' query v'. run_state (cosign_hooks ap n r) w = (Some (Ret (HTTP_MOVED_TEMPORARILY, r')), w) \<and>
    rq_headers_out r' ''Location'' = Some (url @ ''?'' @ query) \<and>
    run_state (read_query remote query False) v = (Go False, v') \<and>
    wl_service v' = Some s \<and> wl_ref v' = Some (return_url cfg r) \<and>
    (if required cfg = [] then wl_factor v' = wl_factor v
     else \<exists>f. wl_factor v' = Some f \<and> words CHR '','' f = required cfg)"
proof -
  have auth: "run_state (cosign_auth ap n r) w = run_state (no_cookie cfg r) w"
    using assms(1-3,7-11) by (auto simp: cosign_auth_def Let_def)
  let ?r = "if rq_auth_required r then r\<lparr>rq_notes := (rq_notes r)(''cosign-redirect'' \<mapsto> ''true'')\<rparr> else r"
  have same: "login_query cfg (r\<lparr>rq_notes := x\<rparr>) = login_query cfg r" "the_config (r\<lparr>rq_notes := x\<rparr>) = cfg" for x
  proof -
    have "self_url cfg (r\<lparr>rq_notes := x\<rparr>) = self_url cfg r" by (simp add: self_url_def Let_def cong: if_cong)
    then show "login_query cfg (r\<lparr>rq_notes := x\<rparr>) = login_query cfg r" by (simp add: login_query_def return_url_def cong: option.case_cong if_cong)
    show "the_config (r\<lparr>rq_notes := x\<rparr>) = cfg" using assms(1) by (auto simp: the_config_def)
  qed
  have "run_state (cosign_hooks ap n r) w =
      (Some (Ret (HTTP_MOVED_TEMPORARILY, set_location (url @ ''?'' @ login_query cfg r) ?r)), w)"
    using assms(4,9,12,13) auth same
    by (auto simp: cosign_hooks_def no_cookie_def send_to_login_def cosign_redirect_def pr_str_def cosign_authn_def
        cosign_auth_type_def split: option.splits)
  then show ?thesis
    using read_login_query [OF assms(5,6,10), of remote r v] by (fastforce simp: set_location_def)
qed

end
