(* ===== verification/Mod_sso.thy ===== *)
theory Mod_sso
  imports Mod_facts
begin

text \<open>
  The way back from the login: the daemon, the shared code of the filters and the module of Apache 2 together.  The location
  handler gives the service cookie of the redirect for a fresh one with REKEY, and the fresh one opens the page.
\<close>

section \<open>REKEY at the daemon\<close>

text \<open>The text of a cookie \<open>mkcookie\<close> makes for the daemon and the weblogin program.\<close>

lemma mkcookie_128:
  assumes "mkcookie 128 pool = (0, Some (b @ [NUL]), pool')"
  shows "length b = 124" and "hd b \<noteq> CHR ''=''" and "validchars b"
proof -
  have n: "nat (SZ_FBASE64_D (128 - 3)) = 93" by (simp add: SZ_FBASE64_D_def)
  have p: "93 \<le> length pool" "b @ [NUL] = fbase64_e (take 93 pool)"
    using assms n by (auto simp: mkcookie_ok_iff Let_def)
  then have "length (b @ [NUL]) = SZ_FBASE64_E 93" by (simp add: length_fbase64_e)
  then show l: "length b = 124" by (simp add: SZ_FBASE64_E_def)
  obtain s where "fbase64_e (take 93 pool) = s @ [NUL]" "set s \<subseteq> insert CHR ''='' (set alphabet)" using fbase64_e_shape by blast
  then have "set b \<subseteq> insert CHR ''='' (set alphabet)" using p(2) by simp
  then show "validchars b" using valid_alphabet valid_equals by (auto simp: validchars_def)
  obtain x y z d where "take 93 pool = x # y # z # d"
  proof (cases "take 93 pool" rule: fbase64_e.cases)
    case (2 d0 d1)
    then have "length (take 93 pool) = 2" by simp
    then show ?thesis using p(1) by simp
  next
    case (3 d0)
    then have "length (take 93 pool) = 1" by simp
    then show ?thesis using p(1) by simp
  qed (use p(1) in auto)
  then have "hd (b @ [NUL]) \<in> set alphabet" unfolding p(2) by (simp add: etab_in_alphabet)
  then show "hd b \<noteq> CHR ''=''" using l alphabet_ascii by (cases b) auto
qed

lemma join_snoc: "gs \<noteq> [] \<Longrightarrow> join (gs @ [r]) = join gs @ CHR '' '' # r"
  by (induction gs rule: join.induct) auto

lemma fmt_live_rekeyed:
  assumes "supports_factors p" and "ci_realm ci = join gs" and "gs \<noteq> []"
  shows "live_msg p 233 ci r = join (''233'' # ci_ipaddr_cur ci # ci_user ci # gs @ [r]) @ crlf"
proof -
  have "conv_d 0 False 233 = Some ''233''" by (simp add: conv_d_def width_of_def show_int_def show_nat.simps)
  moreover have "join (a # gs @ [r]) = a @ CHR '' '' # join (gs @ [r])" for a by (cases gs) simp_all
  ultimately show ?thesis
    using assms by (simp add: live_msg_def fmt_def snet_conv_def ctrl_defs crlf_def join_snoc)
qed

text \<open>
  The daemon can serve REKEY for the service cookie \<open>s\<close>: it is registered for the login cookie \<open>c\<close>, whose login with the factors
  \<open>gs\<close> is in use, and \<open>new\<close> will be its next name.
\<close>

definition registered :: "config \<Rightarrow> daemon \<Rightarrow> string \<Rightarrow> string \<Rightarrow> cinfo \<Rightarrow> string list \<Rightarrow> string \<Rightarrow> bool" where
  "registered dcfg d s c ci gs new \<longleftrightarrow>
     os_faults d = [] \<and> d_auth_commands d \<and> (\<exists>al. d_al d = Some al \<and> al_key al \<in> {CGI, SERVICE}) \<and> d_protocol d = 3 \<and>
     allowed dcfg d s \<and> starts_with s ''cosign-'' \<and> service_of dcfg d s = Some c \<and> login_of dcfg d c = Some ci \<and>
     verdict dcfg (tv_sec (os_now d)) ci = Live \<and>
     (\<exists>b pool. mkcookie 128 (os_pool d) = (0, Some (b @ [NUL]), pool) \<and> new = rekeyed s b) \<and>
     length new < 256 \<and> path_of dcfg new \<noteq> None \<and> login_of dcfg d new = None \<and> ci_realm ci = join gs \<and> gs \<noteq> [] \<and>
     list_all word_ok (s # new # ci_ipaddr_cur ci # ci_user ci # gs) \<and> length (ci_ipaddr_cur ci) < 256 \<and>
     length (ci_user ci) < 130 \<and> length (join gs) < 256"

definition rekey_line :: "cinfo \<Rightarrow> string list \<Rightarrow> string \<Rightarrow> string" where
  "rekey_line ci gs new = join (''233'' # ci_ipaddr_cur ci # ci_user ci # gs @ [new])"

lemma rekey_at_daemon:
  assumes "registered dcfg d s c ci gs new"
  shows "\<exists>d'. exchange dcfg [''REKEY'', s] d = (rekey_line ci gs new, d') \<and>
    service_of dcfg d' = (service_of dcfg d)(s := None, new \<mapsto> c)"
proof -
  obtain al b pool where r: "os_faults d = []" "d_auth_commands d" "d_al d = Some al" "al_key al \<in> {CGI, SERVICE}"
    "d_protocol d = 3" "allowed dcfg d s" "starts_with s ''cosign-''" "service_of dcfg d s = Some c" "login_of dcfg d c = Some ci"
    "verdict dcfg (tv_sec (os_now d)) ci = Live" "mkcookie 128 (os_pool d) = (0, Some (b @ [NUL]), pool)" "new = rekeyed s b"
    "length new < 256" "path_of dcfg new \<noteq> None" "login_of dcfg d new = None" "ci_realm ci = join gs" "gs \<noteq> []" "word_ok s"
    using assms by (auto simp: registered_def)
  have k: "supports_rekey 3" "supports_factors 3" "strcaseeq ''REKEY'' ''REKEY''" "word_ok ''REKEY''"
    by (simp_all add: supports_rekey_def supports_factors_def strcaseeq_def word_ok_def white_def ctrl_defs)
  obtain d' where d': "run_state (f_check dcfg [''REKEY'', s]) d = (Ret 0, d')"
    "d_out d' = d_out d @ [live_msg 3 233 ci new]" "service_of dcfg d' = (service_of dcfg d)(s := None, new \<mapsto> c)"
    using rekey_effect [OF r(1,3,4,7,6) _ _ r(8-11), of "''REKEY''"] r(5,12-15) k by auto
  have "find_command auth_commands ''REKEY'' = Some f_check" by (simp add: auth_commands_def name_eval)
  then have "run_state (do_command dcfg (join [''REKEY'', s])) d = (Ret True, d')"
    using do_command_words [of "''REKEY''" "[s]" d f_check dcfg d'] k(4) r(2,18) d'(1) by simp
  then have "exchange dcfg [''REKEY'', s] d = (rekey_line ci gs new, d')"
    using exchange_reply d'(2) fmt_live_rekeyed [OF k(2) r(16,17)] by (simp add: rekey_line_def)
  then show ?thesis using d'(3) by blast
qed

section \<open>The answer at the filter\<close>

lemma read_rekey_line:
  assumes "registered dcfg d s c ci gs new" and "find_factors cfg (fc_reqfv cfg) gs = Has"
  shows "read_check cfg True 3 (rekey_line ci gs new) si = (COSIGN_OK, learned 3 ci gs si, Some new)"
    and "is_class CHR ''2'' (rekey_line ci gs new)"
proof -
  let ?ws = "''233'' # ci_ipaddr_cur ci # ci_user ci # gs @ [new]"
  have r: "gs \<noteq> []" "list_all word_ok (new # ci_ipaddr_cur ci # ci_user ci # gs)" "length (ci_ipaddr_cur ci) < 256"
    "length (ci_user ci) < 130" "length (join gs) < 256"
    using assms(1) by (simp_all add: registered_def)
  obtain b where "new = rekeyed s b" "starts_with s ''cosign-''" using assms(1) by (auto simp: registered_def)
  then have new: "starts_with new ''cosign-''" by (auto simp: rekeyed_def dest!: starts_withD) (simp add: starts_with_def)
  obtain g hs where g: "gs = g # hs" using r(1) by (cases gs) auto
  have "word_ok ''233''" by (simp add: word_ok_def white_def ctrl_defs)
  then have av: "argcargv (rekey_line ci gs new) = ?ws"
    unfolding rekey_line_def using r(2) by (intro argcargv_join) (auto simp: list_all_iff)
  have "length g < 256" using r(5) length_first_join [of gs] by (simp add: g)
  moreover have "cat_factors g hs = (True, join gs)" using cat_factors_join r(5) by (simp add: g)
  ultimately show "read_check cfg True 3 (rekey_line ci gs new) si = (COSIGN_OK, learned 3 ci gs si, Some new)"
    using r(3,4) new assms(2) unfolding read_check_def av
    by (simp add: Let_def collect_factors_def supports_factors_def g learned_def numeral_3_eq_3 eval_nat_numeral del: join.simps)
  show "is_class CHR ''2'' (rekey_line ci gs new)" by (simp add: rekey_line_def is_class_def)
qed

lemma netcheck_rekeyed:
  assumes "answers (fl_peer w) l" and "is_class CHR ''2'' l" and "os_faults w = []" and "conn_supports_rekey c"
    and "read_check cfg True (conn_proto c) l si = (rc, si', Some new)"
  shows "\<exists>w'. run_state (netcheck_cookie cfg scookie (Some None) si c) w = ((rc, si', Some (Some new)), w') \<and> same_disk w w'"
proof -
  obtain p' where "run_state (ask ''REKEY'' scookie) (fl_peer w) = (Some l, p')" using run_ask [OF assms(1)] by blast
  then have t: "run_state (f_talk (ask ''REKEY'' scookie)) w = (Some l, w\<lparr>fl_peer := p'\<rparr>)" by (rule run_f_talk)
  obtain w' where w': "run_state (f_tick fl_pass_update) (w\<lparr>fl_peer := p'\<rparr>) = ((), w')" "same_disk (w\<lparr>fl_peer := p'\<rparr>) w'"
    using run_f_tick [of "w\<lparr>fl_peer := p'\<rparr>" fl_pass_update] assms(3) by auto
  then have "os_faults w' = []" using assms(3) by (simp add: same_disk_def)
  then show ?thesis using t w' assms(2,4,5) by (simp add: netcheck_cookie_def Let_def same_disk_def os_simps)
qed

lemma check_cookie_rekeyed:
  assumes "fl_cl w = c # cs" and "conn_sn c = Some p" and "answers p l" and "is_class CHR ''2'' l" and "os_faults w = []"
    and "conn_supports_rekey c" and "read_check cfg True (conn_proto c) l si = (COSIGN_OK, si', Some new)"
    and "fc_proxy cfg \<noteq> 1" and "fc_krbtkt cfg \<noteq> 1"
  shows "\<exists>w'. run_state (cosign_check_cookie cfg scookie (Some None) si first) w = ((COSIGN_OK, si', Some (Some new)), w') \<and> same_disk w w'"
proof -
  let ?w = "fl_peer_update (\<lambda>_. p) w"
  obtain v where v: "run_state (netcheck_cookie cfg scookie (Some None) si c) ?w = ((COSIGN_OK, si', Some (Some new)), v)" "same_disk ?w v"
    using netcheck_rekeyed [of ?w l c cfg si COSIGN_OK si' new scookie] assms(3-7) by auto
  have "same_disk w v" using v(2) by (simp add: same_disk_def)
  then show ?thesis
    using assms(1,2,8,9) v
    by (simp add: cosign_check_cookie_def pick_open_def check_conn_def f_set_def check_done_def after_ok_def on_front_def
        COSIGN_LOGGED_OUT_def COSIGN_OK_def COSIGN_ERROR_def same_disk_def)
qed

text \<open>A filter that can turn the cookie \<open>s\<close> into \<open>new\<close>: it has copies of neither, and the first connection is open.\<close>

definition can_redeem :: "filter_config \<Rightarrow> filter_state \<Rightarrow> string \<Rightarrow> string \<Rightarrow> string \<Rightarrow> string \<Rightarrow> bool" where
  "can_redeem cfg w s new path l \<longleftrightarrow>
     os_faults w = [] \<and> fc_listed cfg \<and> fc_proxy cfg \<noteq> 1 \<and> fc_krbtkt cfg \<noteq> 1 \<and>
     (case mkcookiepath (Some (fc_filterdb cfg)) (fc_hashlen cfg) s MAXPATHLEN of
        None \<Rightarrow> False | Some p \<Rightarrow> os_fs w p = None) \<and>
     mkcookiepath (Some (fc_filterdb cfg)) (fc_hashlen cfg) new MAXPATHLEN = Some path \<and> os_fs w path = None \<and>
     (case db_tmp_path (fc_filterdb cfg) (os_now w) (os_pid w) of None \<Rightarrow> False | Some tmp \<Rightarrow> os_fs w tmp = None) \<and>
     (case fl_cl w of
        [] \<Rightarrow> False
      | c # _ \<Rightarrow> conn_supports_rekey c \<and> conn_proto c = 3 \<and> (case conn_sn c of None \<Rightarrow> False | Some p \<Rightarrow> answers p l))"

lemma redeem_cookie:
  assumes "can_redeem cfg w s new path (rekey_line ci gs new)" and "registered dcfg d s c ci gs new"
    and "find_factors cfg (fc_reqfv cfg) gs = Has" and "fc_checkip cfg = IPCHECK_NEVER \<or> ip = ci_ipaddr_cur ci"
  shows "\<exists>w'. run_state (cosign_cookie_valid cfg s (Some None) ip (Suc n)) w =
      (Some (Ret (COSIGN_OK, learned 3 ci gs sinfo_zero, Some (Some new))), w') \<and>
    os_fs w' = (os_fs w)(path \<mapsto> copy_file (learned 3 ci gs sinfo_zero) (tv_sec (os_now w))) \<and>
    os_faults w' = [] \<and> os_now w' = os_now w"
proof -
  let ?si = "learned 3 ci gs sinfo_zero" and ?l = "rekey_line ci gs new"
  obtain old tmp c cs p where f: "os_faults w = []" "fc_listed cfg" "fc_proxy cfg \<noteq> 1" "fc_krbtkt cfg \<noteq> 1"
    "mkcookiepath (Some (fc_filterdb cfg)) (fc_hashlen cfg) s MAXPATHLEN = Some old" "os_fs w old = None"
    "mkcookiepath (Some (fc_filterdb cfg)) (fc_hashlen cfg) new MAXPATHLEN = Some path" "os_fs w path = None"
    "db_tmp_path (fc_filterdb cfg) (os_now w) (os_pid w) = Some tmp" "os_fs w tmp = None"
    "fl_cl w = c # cs" "conn_supports_rekey c" "conn_proto c = 3" "conn_sn c = Some p" "answers p ?l"
    using assms(1) by (auto simp: can_redeem_def split: option.splits list.splits)
  note read = read_rekey_line(1) [OF assms(2,3), of sinfo_zero] read_rekey_line(2) [OF assms(2,3)]
  obtain v where v: "run_state (cosign_check_cookie cfg s (Some None) sinfo_zero True) w = ((COSIGN_OK, ?si, Some (Some new)), v)"
    "same_disk w v"
    using check_cookie_rekeyed [OF f(11,14,15) read(2) f(1,12) _ f(3,4)] read(1) f(13) by metis
  have "si_ipaddr ?si = ci_ipaddr_cur ci" by (simp add: learned_def)
  then have "compare_copy cfg ip True lsi ?si = Store" for lsi
    using assms(4) by (auto simp: compare_copy_def IPCHECK_NEVER_def IPCHECK_ALWAYS_def IPCHECK_INITIAL_def)
  moreover have "run_state (store_copy cfg True (os_now w) path ?si) v =
      (Some COSIGN_OK, v\<lparr>os_fs := (os_fs v)(path \<mapsto> copy_file ?si (tv_sec (os_now v)))\<rparr>)"
    using f(1,8,9,10) v(2) db_tmp_not_path [OF f(7,9)] by (intro run_store_copy) (simp_all add: same_disk_def)
  ultimately have "run_state (net_turn cfg s ip (os_now w) True lsi old (Some None) sinfo_zero) w =
      ((Some COSIGN_OK, path, ?si, Some (Some new)), v\<lparr>os_fs := (os_fs v)(path \<mapsto> copy_file ?si (tv_sec (os_now v)))\<rparr>)" for lsi
    using v(1) f(7) by (simp add: net_turn_def copy_path_def Let_def)
  then show ?thesis
    using f(1,2,5,6) v(2)
    by (auto simp: cosign_cookie_valid_def os_simps parse_scookie_def Let_def same_disk_def)
qed

section \<open>From the redirect to the page\<close>

lemma validchars_no_semicolon: "validchars s \<Longrightarrow> CHR '';'' \<notin> set s"
proof -
  have "valid_tab ! code_of CHR '';'' = 0" by (simp add: valid_tab_def code_of_def)
  then show "validchars s \<Longrightarrow> CHR '';'' \<notin> set s" by (auto simp: validchars_def)
qed

text \<open>The cookie as the browser sends it back: the service, the fresh text, and the time it was set.\<close>

lemma rekeyed_parts:
  assumes "registered dcfg d s c ci gs new" and "s = service @ ''='' @ x" and "CHR ''='' \<notin> set service" and "validchars service"
  obtains b where "new = service @ ''='' @ b" and "length b = 124" and "hd b \<noteq> CHR ''=''" and "validchars new"
proof -
  obtain b pool where b: "mkcookie 128 (os_pool d) = (0, Some (b @ [NUL]), pool)" "new = rekeyed s b"
    using assms(1) by (auto simp: registered_def)
  have "takeWhile (\<lambda>c. c \<noteq> CHR ''='') s = service" using assms(2,3) by (auto simp: takeWhile_append)
  then have new: "new = service @ ''='' @ b" using b(2) by (simp add: rekeyed_def)
  have "validchars ''=''" using valid_equals by (simp add: validchars_def)
  then have "validchars new" using mkcookie_128(3) [OF b(1)] assms(4) unfolding new by (simp del: append_Cons)
  then show ?thesis using that new mkcookie_128(1,2) [OF b(1)] by blast
qed

lemma cookie_found:
  assumes "getword_doc ap" and "new = service @ ''='' @ b" and "CHR ''='' \<notin> set service" and "hd b \<noteq> CHR ''=''" and "b \<noteq> []"
    and "validchars new" and "CHR '';'' \<notin> set t"
  shows "service_cookie (ap_getword ap) service (Suc (length (new @ ''/'' @ t))) (new @ ''/'' @ t) = Some (Some (service, b @ ''/'' @ t))"
proof -
  let ?d = "new @ ''/'' @ t"
  have "CHR '';'' \<notin> set ?d" using validchars_no_semicolon [OF assms(6)] assms(7) by simp
  then have "takeWhile (\<lambda>x. x \<noteq> CHR '';'') ?d = ?d" "dropWhile (\<lambda>x. x \<noteq> CHR '';'') ?d = []"
    by (auto simp: takeWhile_eq_all_conv dropWhile_eq_Nil_conv simp del: set_append)
  then have semi: "ap_getword ap CHR '';'' ?d = (?d, [])"
    using assms(1) unfolding getword_doc_def by (simp only: dropWhile.simps)
  have "takeWhile (\<lambda>x. x \<noteq> CHR ''='') ?d = service" "dropWhile (\<lambda>x. x \<noteq> CHR ''='') ?d = ''='' @ b @ ''/'' @ t"
    using assms(2,3) by (auto simp: takeWhile_append dropWhile_append)
  moreover have "dropWhile (\<lambda>x. x = CHR ''='') (''='' @ b @ ''/'' @ t) = b @ ''/'' @ t" using assms(4,5) by (cases b) auto
  ultimately have "ap_getword ap CHR ''='' ?d = (service, b @ ''/'' @ t)" using assms(1) by (simp add: getword_doc_def)
  then show ?thesis using semi assms(2) by (simp add: strcaseeq_def)
qed

lemma cut_time_cookie:
  assumes "validchars new" and "new \<noteq> []" and "0 \<le> t"
  shows "cut_time (new @ ''/'' @ show_int t) = (new, Some (show_int t))"
proof -
  have n: "CHR ''/'' \<notin> set new" using validchars_no_slash [OF assms(1)] .
  then have "takeWhile (\<lambda>c. c = CHR ''/'') (new @ ''/'' @ show_int t) = []" using assms(2) by (cases new) auto
  moreover have "CHR ''/'' \<notin> set (show_int t)"
    using show_nat_digits [of "nat t"] assms(3) by (auto simp: show_int_def isdigit_def code_of_def)
  moreover have "show_int t \<noteq> []" using assms(3) by (simp add: show_int_def)
  ultimately show ?thesis using n assms(2) by (simp add: cut_time_def strtok_word strtok_last)
qed

text \<open>A complete configuration of the service.\<close>

definition complete_conf :: "host_config \<Rightarrow> string \<Rightarrow> bool" where
  "complete_conf cfg service \<longleftrightarrow>
     hc_configured cfg \<noteq> 0 \<and> hc_protect cfg \<noteq> 0 \<and> hc_host cfg \<noteq> None \<and> hc_redirect cfg \<noteq> None \<and> hc_posterror cfg \<noteq> None \<and>
     hc_validref cfg \<noteq> None \<and> hc_referr cfg \<noteq> None \<and> hc_service cfg = Some service \<and> CHR ''='' \<notin> set service \<and>
     IDLETIME \<le> hc_expiretime cfg"

text \<open>The browser follows the redirect of the weblogin program, and later asks for the page with the cookie it was given.\<close>

definition at_location :: "apache \<Rightarrow> host_config \<Rightarrow> request \<Rightarrow> string \<Rightarrow> string \<Rightarrow> bool" where
  "at_location ap cfg r s ref \<longleftrightarrow>
     rq_handler r = Some ''cosign'' \<and> rq_method r = M_GET \<and> rq_server_conf r = cfg \<and> rq_args r = Some (s @ ''&'' @ ref) \<and>
     ref \<noteq> [] \<and> hd ref \<noteq> CHR ''&'' \<and> admitted_dest ap cfg s ref"

definition at_page :: "host_config \<Rightarrow> request \<Rightarrow> string \<Rightarrow> int \<Rightarrow> bool" where
  "at_page cfg r new t \<longleftrightarrow>
     the_config r = cfg \<and> rq_headers_in r ''Cookie'' = Some (new @ ''/'' @ show_int t) \<and>
     (\<not> rq_auth_required r \<or> cosign_auth_type r \<and> rq_notes r ''cosign-redirect'' = None)"

lemma validchars_no_ampersand: "validchars s \<Longrightarrow> CHR ''&'' \<notin> set s"
proof -
  have "valid_tab ! code_of CHR ''&'' = 0" by (simp add: valid_tab_def code_of_def)
  then show "validchars s \<Longrightarrow> CHR ''&'' \<notin> set s" by (auto simp: validchars_def)
qed

lemma handler_validates:
  assumes "at_location ap cfg r s ref" and "hc_configured cfg \<noteq> 0" and "hc_validref cfg \<noteq> None" and "hc_referr cfg \<noteq> None"
    and "getword_doc ap"
  shows "cosign_handler ap n r = validate cfg n s ref r"
proof -
  obtain re ms where a: "starts_with_nocase s ''cosign-''" "validchars s" "hc_validpreg cfg = Some re"
    "regexec (ap_regex ap) False re ref = Match ms" "ref \<noteq> []" "hd ref \<noteq> CHR ''&''"
    using assms(1) by (auto simp: at_location_def admitted_dest_def split: option.splits exec.splits)
  have n: "CHR ''&'' \<notin> set s" using validchars_no_ampersand [OF a(2)] .
  have "takeWhile (\<lambda>x. x \<noteq> CHR ''&'') (s @ ''&'' @ ref) = s" "dropWhile (\<lambda>x. x \<noteq> CHR ''&'') (s @ ''&'' @ ref) = ''&'' @ ref"
    using n by (auto simp: takeWhile_append dropWhile_append)
  moreover have "dropWhile (\<lambda>x. x = CHR ''&'') (''&'' @ ref) = ref" using a(5,6) by (cases ref) auto
  ultimately have "ap_getword ap CHR ''&'' (s @ ''&'' @ ref) = (s, ref)" using assms(5) by (simp only: getword_doc_def)
  then show ?thesis
    using assms(1-4) a by (auto simp: at_location_def cosign_handler_def Let_def)
qed

lemma handler_redeems:
  assumes "at_location ap cfg r s ref" and "complete_conf cfg service" and "getword_doc ap"
    and "run_state (cosign_cookie_valid (filter_of cfg) s (Some None) (rq_remote_ip r) n) w =
      (Some (Ret (COSIGN_OK, si, Some (Some new))), v)" and "os_faults v = []"
  shows "run_state (cosign_handler ap n r) w = (Some (Ret (HTTP_MOVED_PERMANENTLY, set_location ref
    (r\<lparr>rq_err_headers_out := (rq_err_headers_out r)(''Set-Cookie'' \<mapsto> full_cookie new (tv_sec (os_now v)) ref)\<rparr>))), v)"
proof -
  have "cosign_handler ap n r = validate cfg n s ref r"
    using assms(2) by (intro handler_validates [OF assms(1) _ _ _ assms(3)]) (simp_all add: complete_conf_def)
  then show ?thesis using assms(4,5) by (simp add: validate_def cookie_accepted_def os_simps)
qed

lemma blank_plain: "CHR '' '' \<noteq> CR" "CHR '' '' \<noteq> LF" "CHR '' '' \<noteq> NUL"
  by (simp_all add: ctrl_defs)

lemma plain_simps [simp]: "plain []" "plain (a @ b) \<longleftrightarrow> plain a \<and> plain b" "plain (CHR '' '' # a) \<longleftrightarrow> plain a"
  by (auto simp: plain_def blank_plain)

lemma plain_join: "plain (join gs) \<longleftrightarrow> list_all plain gs"
  by (induction gs rule: join.induct) simp_all

lemma sinfo_ok_learned:
  assumes "registered dcfg d s c ci gs new" and "plain (rekey_line ci gs new)"
  shows "sinfo_ok (learned 3 ci gs sinfo_zero)"
proof -
  have r: "length (ci_ipaddr_cur ci) < 256" "length (ci_user ci) < 130" "length (join gs) < 256" "gs \<noteq> []"
    using assms(1) by (simp_all add: registered_def)
  have p: "plain (ci_ipaddr_cur ci)" "plain (ci_user ci)" "plain (join gs)"
    using assms(2) by (simp_all add: rekey_line_def plain_join del: join.simps)
  moreover from this(3) r(4) have "plain (hd gs)" by (cases gs) (simp_all add: plain_join)
  moreover have "length (hd gs) < 256" using r(3) length_first_join [OF r(4)] by simp
  ultimately show ?thesis using r by (simp add: sinfo_ok_def learned_def sinfo_zero_def MAXPATHLEN_def)
qed

lemma page_served:
  assumes "complete_conf cfg service" and "at_page cfg r new t" and "getword_doc ap" and "0 \<le> t" and "t < 2 ^ 31"
    and "new = service @ ''='' @ b" and "length b = 124" and "hd b \<noteq> CHR ''=''" and "validchars new"
    and "\<exists>si'. run_state (cosign_cookie_valid (filter_of cfg) new None (rq_remote_ip r) n) w = (Some (Ret (COSIGN_OK, si', None)), w) \<and>
      si_user si' = user \<and> si_realm si' = realm \<and> si_factor si' = factor"
    and "os_faults w = []" and "tv_sec (os_now w) - t \<le> IDLETIME"
  shows "\<exists>st r'. run_state (cosign_hooks ap n r) w = (Some (Ret (st, r')), w) \<and> (st = OK \<or> st = DECLINED) \<and>
    rq_user r' = Some user \<and> rq_subprocess_env r' ''REMOTE_REALM'' = Some realm \<and>
    rq_subprocess_env r' ''COSIGN_FACTOR'' = Some factor"
proof -
  obtain si where si: "run_state (cosign_cookie_valid (filter_of cfg) new None (rq_remote_ip r) n) w =
      (Some (Ret (COSIGN_OK, si, None)), w)" "si_user si = user" "si_realm si = realm" "si_factor si = factor"
    using assms(10) by blast
  have t: "CHR '';'' \<notin> set (show_int t)" "atoi (show_int t) = t"
    using show_nat_digits [of "nat t"] assms(4,5) atoi_show_int [of t] by (auto simp: show_int_def isdigit_def code_of_def)
  have b: "b \<noteq> []" "120 \<le> length (b @ ''/'' @ show_int t)" using assms(7) by auto
  have c: "CHR ''='' \<notin> set service" "hc_service cfg = Some service" "IDLETIME \<le> hc_expiretime cfg"
    using assms(1) by (simp_all add: complete_conf_def)
  note found = cookie_found [OF assms(3,6) c(1) assms(8) b(1) assms(9) t(1)]
  have "run_state (visit_with cfg n (service @ ''='' @ b @ ''/'' @ show_int t) r) w =
      run_state (check_visit cfg n new r) w"
    using cut_time_cookie [OF assms(9) _ assms(4)] assms(4,6,9,11,12) c(3) t(2) by (simp add: visit_with_def os_simps)
  moreover have "run_state (check_visit cfg n new r) w = (Some (Ret (DECLINED, let_through cfg si r)), w)"
    using si(1) by (simp add: check_visit_def COSIGN_OK_def COSIGN_ERROR_def)
  ultimately have "run_state (cosign_auth ap n r) w = (Some (Ret (DECLINED, let_through cfg si r)), w)"
    using assms(1,2) found b(2) by (auto simp: cosign_auth_def Let_def complete_conf_def at_page_def simp del: service_cookie.simps)
  then show ?thesis
    using assms(2) si(2-4)
    by (auto simp: cosign_hooks_def cosign_authn_def let_through_def at_page_def cosign_auth_type_def Let_def split: option.splits)
qed

text \<open>
  C3.  From the redirect of the weblogin program to the page.  The browser brings the service cookie to the location handler; the
  handler has the daemon exchange it with REKEY, sets the fresh cookie with the time, and redirects to the page wanted; the
  daemon now knows the fresh cookie, and no longer the one that was seen in the address.  For a minute the fresh cookie opens
  the page, for the user of the login with its realm and factors, whatever else has happened to the filter but its files.
\<close>

theorem redirect_to_page:
  assumes "registered dcfg d s c ci gs new" and "exchange dcfg [''REKEY'', s] d = (l, d')"
    and "can_redeem (filter_of cfg) w s new path l" and "find_factors (filter_of cfg) (required cfg) gs = Has"
    and "s = service @ ''='' @ x" and "complete_conf cfg service" and "getword_doc ap"
    and "at_location ap cfg r s ref" and "at_page cfg r2 new (tv_sec (os_now w))"
    and "hc_checkip cfg = IPCHECK_NEVER \<or> rq_remote_ip r = ci_ipaddr_cur ci \<and> rq_remote_ip r2 = ci_ipaddr_cur ci"
    and "0 \<le> tv_sec (os_now w)" and "tv_sec (os_now w) < 2 ^ 31"
    and "os_faults w2 = []" and "os_fs w2 path = os_fs w' path" and "tv_sec (os_now w2) - tv_sec (os_now w) \<le> IDLETIME"
    and "run_state (cosign_handler ap (Suc n) r) w = (a, w')"
  shows "\<exists>r' st r2'. a = Some (Ret (HTTP_MOVED_PERMANENTLY, r')) \<and> rq_headers_out r' ''Location'' = Some ref \<and>
    rq_err_headers_out r' ''Set-Cookie'' = Some (full_cookie new (tv_sec (os_now w)) ref) \<and>
    service_of dcfg d' = (service_of dcfg d)(s := None, new \<mapsto> c) \<and>
    run_state (cosign_hooks ap (Suc n) r2) w2 = (Some (Ret (st, r2')), w2) \<and> (st = OK \<or> st = DECLINED) \<and>
    rq_user r2' = Some (ci_user ci) \<and> rq_subprocess_env r2' ''REMOTE_REALM'' = Some (hd gs) \<and>
    rq_subprocess_env r2' ''COSIGN_FACTOR'' = Some (ci_realm ci)"
proof -
  let ?si = "learned 3 ci gs sinfo_zero" and ?f = "filter_of cfg"
  have l: "l = rekey_line ci gs new" and db: "service_of dcfg d' = (service_of dcfg d)(s := None, new \<mapsto> c)"
    using rekey_at_daemon [OF assms(1)] assms(2) by auto
  have ip: "fc_checkip ?f = IPCHECK_NEVER \<or> rq_remote_ip r = ci_ipaddr_cur ci" "fc_reqfv ?f = required cfg"
    "fc_checkip ?f = hc_checkip cfg"
    using assms(10) by (auto simp: filter_of_def)
  obtain v where v: "run_state (cosign_cookie_valid ?f s (Some None) (rq_remote_ip r) (Suc n)) w =
      (Some (Ret (COSIGN_OK, ?si, Some (Some new))), v)" "os_fs v = (os_fs w)(path \<mapsto> copy_file ?si (tv_sec (os_now w)))"
      "os_faults v = []" "os_now v = os_now w"
    using redeem_cookie [OF assms(3) [unfolded l] assms(1) _ ip(1)] assms(4) ip(2) by metis
  have h: "run_state (cosign_handler ap (Suc n) r) w = (Some (Ret (HTTP_MOVED_PERMANENTLY, set_location ref
      (r\<lparr>rq_err_headers_out := (rq_err_headers_out r)(''Set-Cookie'' \<mapsto> full_cookie new (tv_sec (os_now w)) ref)\<rparr>))), v)"
    using handler_redeems [OF assms(8,6,7) v(1,3)] v(4) by simp
  have line: "plain (rekey_line ci gs new)" and path: "mkcookiepath (Some (fc_filterdb ?f)) (fc_hashlen ?f) new MAXPATHLEN = Some path"
    using assms(3) by (auto simp: l can_redeem_def answers_def status_line_def split: list.splits option.splits)
  have "validchars s" using assms(8) by (simp add: at_location_def admitted_dest_def)
  then have sv: "validchars service" "CHR ''='' \<notin> set service" using assms(5,6) by (auto simp: complete_conf_def simp del: append_Cons)
  obtain b where b: "new = service @ ''='' @ b" "length b = 124" "hd b \<noteq> CHR ''=''" "validchars new"
    using rekeyed_parts [OF assms(1,5) sv(2,1)] .
  have stored: "os_fs w2 path = Some \<lparr>f_data = scookie_text ?si, f_mode = mode_0644, f_mtime = tv_sec (os_now w)\<rparr>"
    using assms(14,16) h v(2) by (simp add: copy_file_def)
  have si: "si_user ?si = ci_user ci" "si_realm ?si = hd gs" "si_factor ?si = join gs" "si_protocol ?si = 3"
    "si_ipaddr ?si = ci_ipaddr_cur ci" "supports_factors 3"
    by (simp_all add: learned_def supports_factors_def)
  have "\<exists>si'. run_state (cosign_cookie_valid ?f new None (rq_remote_ip r2) (Suc n)) w2 = (Some (Ret (COSIGN_OK, si', None)), w2) \<and>
      si_user si' = ci_user ci \<and> si_realm si' = hd gs \<and> si_factor si' = join gs"
    using fresh_copy_answers [OF assms(13) path stored sinfo_ok_learned [OF assms(1) line] assms(15), of "rq_remote_ip r2" None n]
      assms(10) ip(3) si by (auto simp: IPCHECK_NEVER_def IPCHECK_ALWAYS_def)
  from page_served [OF assms(6,9,7,11,12) b this assms(13,15)] show ?thesis
    using h assms(1,16) db by (auto simp: set_location_def registered_def)
qed

end
