(* ===== verification/Mod_apache.thy ===== *)
theory Mod_apache
  imports Mod_sso
begin

text \<open>
  \<open>filters/apache/mod_cosign.c\<close>, the module for Apache 1.3.  It is the module for Apache 2 written for the older interface
  (\<open>ap_\<close> for \<open>apr_\<close>, the user in the connection instead of the request); the functions that differ otherwise are modelled here
  and compared.  \<open>Apache13\<close> holds what it does with requests.  The last section holds the states in which either module
  does not do what it means to.
\<close>

section \<open>What Apache 1.3 does otherwise\<close>

text \<open>\<open>CADir\<close> is to be searchable even where it is a file.\<close>

definition crypto_files13 :: "crypto \<Rightarrow> string \<Rightarrow> string \<Rightarrow> string \<Rightarrow> string option" where
  "crypto_files13 cr key cert ca =
     (case cr_stat cr ca of
        None \<Rightarrow> Some ''An error occurred checking the CAdir.''
      | Some _ \<Rightarrow>
          if \<not> cr_readable cr key then Some ''An error occured reading the Keyfile.''
          else if \<not> cr_readable cr cert then Some ''An error occured reading the Certfile.''
          else if \<not> cr_searchable cr ca then Some ''An error occured reading the CADir.''
          else None)"

definition set_certs13 :: "crypto \<Rightarrow> place \<Rightarrow> string \<Rightarrow> string \<Rightarrow> string \<Rightarrow> module_conf \<Rightarrow> settled" where
  "set_certs13 cr p one two three mc =
     (let mc = at_place p (\<lambda>c. c\<lparr>hc_key := Some one, hc_cert := Some two, hc_cadir := Some three\<rparr>) (cosign_merge_cfg p mc)
      in case crypto_files13 cr one two three of
           Some msg \<Rightarrow> Ret (Some msg, mc)
         | None \<Rightarrow>
             if crypto_loads cr one two three then Ret (None, at_place p (\<lambda>c. c\<lparr>hc_ctx := Some (one, two, three)\<rparr>) mc)
             else Exit 1)"

text \<open>This one sets \<open>configured\<close>.\<close>

definition set_host13 :: "(string \<Rightarrow> 32 word list option) \<Rightarrow> place \<Rightarrow> string \<Rightarrow> module_conf \<Rightarrow> settled" where
  "set_host13 resolve p arg mc =
     (let mc = at_place p (\<lambda>c. c\<lparr>hc_host := Some arg\<rparr>) (cosign_merge_cfg p mc);
          port = port_or_default (hc_port (mc_conf mc p))
      in case resolve arg of
           None \<Rightarrow> Ret (Some (arg @ '': host unknown''), mc)
         | Some addrs \<Rightarrow>
             Ret (None, (at_place p (\<lambda>c. c\<lparr>hc_cl := Some (length (mc_lists mc)), hc_configured := 1\<rparr>) mc)
               \<lparr>mc_lists := mc_lists mc @ [map (\<lambda>a. \<lparr>sin_addr = a, sin_port = port\<rparr>) addrs]\<rparr>))"

text \<open>The number is stored as an \<open>unsigned short\<close>.\<close>

definition set_port13 :: "place \<Rightarrow> string \<Rightarrow> module_conf \<Rightarrow> settled" where
  "set_port13 p arg mc =
     (let mc = cosign_merge_cfg p mc;
          portarg = word_of_int (fst (strtol arg))
      in case hc_cl (mc_conf mc p) of
           None \<Rightarrow> Undefined
         | Some a \<Rightarrow>
             Ret (None, (at_place p (\<lambda>c. c\<lparr>hc_port := portarg, hc_configured := 1\<rparr>) mc)
               \<lparr>mc_lists := (mc_lists mc)[a := map (\<lambda>s. s\<lparr>sin_port := if portarg = 0 then 6663 else portarg\<rparr>) (mc_lists mc ! a)]\<rparr>))"

text \<open>The functions of the table that are not defined here are those of the other module, word for word.\<close>

definition cosign_cmds13 :: "module_env \<Rightarrow> (string \<times> setter \<times> standing) list" where
  "cosign_cmds13 me =
     [(''CosignPostErrorRedirect'', TAKE1 set_cosign_post_error, ACCESS_CONF),
      (''CosignService'', TAKE1 set_cosign_service, ACCESS_CONF),
      (''CosignProtected'', FLAG set_cosign_protect, OR_AUTHCFG),
      (''CosignRedirect'', TAKE1 set_cosign_redirect, ACCESS_CONF),
      (''CosignValidReference'', TAKE1 (set_cosign_valid_reference (me_regex me)), ACCESS_CONF),
      (''CosignValidationErrorRedirect'', TAKE1 set_cosign_validation_error_redirect, ACCESS_CONF),
      (''CosignPort'', TAKE1 set_port13, ACCESS_CONF),
      (''CosignHostname'', TAKE1 (set_host13 (me_resolve me)), ACCESS_CONF),
      (''CosignFilterDB'', TAKE1 set_cosign_filterdb, RSRC_CONF),
      (''CosignFilterHashLength'', TAKE1 set_cosign_hashlen, RSRC_CONF),
      (''CosignProxyDB'', TAKE1 set_cosign_proxydb, RSRC_CONF),
      (''CosignTicketPrefix'', TAKE1 set_cosign_tkt_prefix, RSRC_CONF),
      (''CosignCheckIP'', TAKE1 set_cosign_checkip, RSRC_CONF),
      (''CosignSiteEntry'', TAKE1 set_cosign_siteentry, ACCESS_CONF),
      (''CosignRequireFactor'', RAW_ARGS set_cosign_factor, OR_AUTHCFG),
      (''CosignFactorSuffix'', TAKE1 set_cosign_factorsuffix, ACCESS_CONF),
      (''CosignFactorSuffixIgnore'', FLAG set_cosign_ignoresuffix, ACCESS_CONF),
      (''CosignAllowPublicAccess'', FLAG set_cosign_public, ACCESS_CONF),
      (''CosignHttpOnly'', FLAG set_cosign_http, ACCESS_CONF),
      (''CosignNoAppendRedirectPort'', FLAG set_cosign_noappendport, ACCESS_CONF),
      (''CosignCrypto'', TAKE3 (set_certs13 (me_crypto me)), ACCESS_CONF),
      (''CosignGetProxyCookies'', FLAG set_cosign_proxy_cookies, ACCESS_CONF),
      (''CosignCookieExpireTime'', TAKE1 set_cosign_expiretime, RSRC_CONF),
      (''CosignGetKerberosTickets'', FLAG set_cosign_tickets, ACCESS_CONF),
      (''CosignKerberosSetupGSS'', FLAG set_cosign_gss, ACCESS_CONF)]"

inductive configured13 :: "module_env \<Rightarrow> build_paths \<Rightarrow> directives \<Rightarrow> module_conf \<Rightarrow> bool" for me bp where
  empty13: "configured13 me bp [] (fresh_conf bp)"
| directive13: "configured13 me bp fl mc \<Longrightarrow> (name, s, st) \<in> set (cosign_cmds13 me) \<Longrightarrow> may_stand st p \<Longrightarrow>
    call_setter s p args mc = Some (Ret (None, mc')) \<Longrightarrow> configured13 me bp (fl @ [(p, name, args)]) mc'"

text \<open>The function is in no table: no child runs it.\<close>

definition cosign_child_cleanup :: "fconn list \<Rightarrow> unit outcome" where
  "cosign_child_cleanup cl = (case teardown_conn cl of Ret _ \<Rightarrow> Ret () | Exit n \<Rightarrow> Exit n | Undefined \<Rightarrow> Undefined)"

section \<open>The two modules compared\<close>

lemma starts_with_both: "starts_with s p \<Longrightarrow> starts_with_nocase s p"
  by (simp add: starts_with_def starts_with_nocase_def)

text \<open>What Apache 1.3 accepts as \<open>CosignCrypto\<close>, Apache 2 accepts with the same effect.\<close>

lemma certs_agree:
  assumes "set_certs13 cr p a b c mc = Ret (None, mc')" and "\<And>f. cr_searchable cr f \<Longrightarrow> cr_readable cr f"
  shows "set_cosign_certs cr p a b c mc = Ret (None, mc')"
  using assms
  by (auto simp: set_certs13_def set_cosign_certs_def crypto_files13_def crypto_files_def Let_def split: option.splits if_splits)

text \<open>Their configurations differ after \<open>CosignHostname\<close> by the note that the place is configured.\<close>

lemma hosts_agree:
  assumes "set_cosign_host resolve p a mc = Ret (None, mc')"
  shows "set_host13 resolve p a mc = Ret (None, at_place p (\<lambda>c. c\<lparr>hc_configured := 1\<rparr>) mc')"
  using assms by (auto simp: set_host13_def set_cosign_host_def at_place_def Let_def split: option.splits)

text \<open>
  Two configurations that agree but for the notes of what is configured, which the older module makes wherever the other does.
\<close>

definition near :: "host_config \<Rightarrow> host_config \<Rightarrow> bool" where
  "near c d \<longleftrightarrow> c\<lparr>hc_configured := 0\<rparr> = d\<lparr>hc_configured := 0\<rparr> \<and> (hc_configured d \<noteq> 0 \<longrightarrow> hc_configured c \<noteq> 0)"

definition agree :: "module_conf \<Rightarrow> module_conf \<Rightarrow> bool" where
  "agree a b \<longleftrightarrow> mc_lists a = mc_lists b \<and> (\<forall>p. near (mc_conf a p) (mc_conf b p))"

lemma nearE:
  assumes "near c d"
  obtains k where "c = d\<lparr>hc_configured := k\<rparr>" and "hc_configured d \<noteq> 0 \<Longrightarrow> k \<noteq> 0"
proof -
  have "c = c\<lparr>hc_configured := 0\<rparr>\<lparr>hc_configured := hc_configured c\<rparr>" by simp
  also have "\<dots> = d\<lparr>hc_configured := hc_configured c\<rparr>" using assms unfolding near_def by simp
  finally show thesis using that assms by (simp add: near_def)
qed

lemma near_inherit: "near s t \<Longrightarrow> near c d \<Longrightarrow> near (inherit s c) (inherit t d)"
  by (elim nearE) (simp add: near_def inherit_def)

lemma agree_at:
  "agree a b \<Longrightarrow> (\<And>c d. near c d \<Longrightarrow> near (f c) (g d)) \<Longrightarrow> agree (at_place p f a) (at_place p g b)"
  by (simp add: agree_def at_place_def)

lemma agree_merge: "agree a b \<Longrightarrow> agree (cosign_merge_cfg p a) (cosign_merge_cfg p b)"
  by (auto simp: cosign_merge_cfg_def agree_def at_place_def near_inherit split: place.split)

lemma agree_lists: "agree a b \<Longrightarrow> agree (a\<lparr>mc_lists := ls\<rparr>) (b\<lparr>mc_lists := ls\<rparr>)"
  by (simp add: agree_def)

lemma agreeD: "agree a b \<Longrightarrow> mc_lists a = mc_lists b \<and> near (mc_conf a p) (mc_conf b p)"
  by (simp add: agree_def)

text \<open>Where the first function accepts, so does the second, and the results agree.\<close>

definition follows :: "(module_conf \<Rightarrow> settled) \<Rightarrow> (module_conf \<Rightarrow> settled) \<Rightarrow> bool" where
  "follows f g \<longleftrightarrow>
     (\<forall>a b a'. agree a b \<longrightarrow> f a = Ret (None, a') \<longrightarrow> (\<exists>b'. g b = Ret (None, b') \<and> agree a' b'))"

lemma near_configured: "near c d \<Longrightarrow> near (c\<lparr>hc_configured := 1\<rparr>) (d\<lparr>hc_configured := 1\<rparr>)"
  by (simp add: near_def)

lemma follows_settle:
  assumes "\<And>c d. near c d \<Longrightarrow> near (f c) (f d)"
  shows "follows (settle p f) (settle p f)"
  using assms by (auto simp: follows_def settle_def intro!: agree_at agree_merge near_configured)

lemma follows_at:
  assumes "\<And>c d. near c d \<Longrightarrow> near (f c) (f d)"
  shows "follows (\<lambda>mc. Ret (None, at_place p f (cosign_merge_cfg p mc))) (\<lambda>mc. Ret (None, at_place p f (cosign_merge_cfg p mc)))"
  using assms by (auto simp: follows_def intro!: agree_at agree_merge)

lemma follows_server:
  assumes "\<And>c d. near c d \<Longrightarrow> near (f c) (f d)"
  shows "follows (settle_server m p f) (settle_server m p f)"
  using assms by (auto simp: follows_def settle_server_def intro!: agree_at split: place.splits)

lemma follows_reference: "follows (set_cosign_valid_reference re p arg) (set_cosign_valid_reference re p arg)"
proof (cases "regcomp re False arg")
  case True
  have "follows (settle p (\<lambda>c. c\<lparr>hc_validref := Some arg, hc_validpreg := Some arg\<rparr>))
      (settle p (\<lambda>c. c\<lparr>hc_validref := Some arg, hc_validpreg := Some arg\<rparr>))"
    by (rule follows_settle) (elim nearE, simp add: near_def)
  then show ?thesis using True by (simp add: follows_def set_cosign_valid_reference_def)
qed (simp add: follows_def set_cosign_valid_reference_def)

lemma follows_checkip: "follows (set_cosign_checkip p arg) (set_cosign_checkip p arg)"
proof -
  have f: "follows (\<lambda>mc. Ret (None, at_place p (\<lambda>c. c\<lparr>hc_checkip := n\<rparr>) (cosign_merge_cfg p mc)))
      (\<lambda>mc. Ret (None, at_place p (\<lambda>c. c\<lparr>hc_checkip := n\<rparr>) (cosign_merge_cfg p mc)))" for n
    by (rule follows_at) (elim nearE, simp add: near_def)
  show ?thesis
    using f [of IPCHECK_NEVER] f [of IPCHECK_INITIAL] f [of IPCHECK_ALWAYS]
    by (auto simp: follows_def set_cosign_checkip_def Let_def split: if_splits)
qed

lemma follows_hashlen: "follows (set_cosign_hashlen p arg) (set_cosign_hashlen p arg)"
proof -
  have "near (c\<lparr>hc_hashlen := n\<rparr>) (d\<lparr>hc_hashlen := n\<rparr>)" if "near c d" for c d n
    using that by (elim nearE) (simp add: near_def)
  then show ?thesis
    by (auto simp: follows_def set_cosign_hashlen_def Let_def intro!: agree_at split: place.splits if_splits)
qed

lemma port_cast: "(word_of_int (to_int i) :: 16 word) = word_of_int i"
  by (rule bit_word_eqI) (simp add: to_int_def bit_signed_take_bit_iff bit_word_of_int_iff)

lemma follows_port: "follows (set_port13 p arg) (set_cosign_port p arg)"
  unfolding follows_def
proof (intro allI impI)
  have n: "near (c\<lparr>hc_port := q, hc_configured := 1\<rparr>) (d\<lparr>hc_port := q, hc_configured := 1\<rparr>)" "hc_cl c = hc_cl d"
    if "near c d" for c d q
    using that by (elim nearE; simp add: near_def)+
  fix a b a' assume ab: "agree a b" and r: "set_port13 p arg a = Ret (None, a')"
  let ?m = "cosign_merge_cfg p"
  have e: "mc_lists (?m a) = mc_lists (?m b)" "hc_cl (mc_conf (?m a) p) = hc_cl (mc_conf (?m b) p)"
    using agreeD [OF agree_merge [OF ab], of p p] n(2) by auto
  obtain i where i: "hc_cl (mc_conf (?m b) p) = Some i" using r by (auto simp: set_port13_def e Let_def split: option.splits)
  show "\<exists>b'. set_cosign_port p arg b = Ret (None, b') \<and> agree a' b'"
    using r agree_merge [OF ab, of p] agreeD [OF ab]
    by (auto simp: set_port13_def set_cosign_port_def port_cast port_or_default_def e i Let_def
        intro!: agree_lists agree_at n(1))
qed

lemma follows_host: "follows (set_host13 resolve p arg) (set_cosign_host resolve p arg)"
proof -
  have n: "near (c\<lparr>hc_host := h\<rparr>) (d\<lparr>hc_host := h\<rparr>)"
    "near (c\<lparr>hc_cl := l, hc_configured := 1\<rparr>) (d\<lparr>hc_cl := l\<rparr>)" "hc_port c = hc_port d"
    if "near c d" for c d h l
    using that by (elim nearE; simp add: near_def)+
  let ?m = "\<lambda>a. at_place p (\<lambda>c. c\<lparr>hc_host := Some arg\<rparr>) (cosign_merge_cfg p a)"
  have m: "agree (?m a) (?m b)" if "agree a b" for a b using that by (intro agree_at agree_merge n)
  show ?thesis
    unfolding follows_def
  proof (intro allI impI)
    fix a b a' assume ab: "agree a b" and r: "set_host13 resolve p arg a = Ret (None, a')"
    have e: "mc_lists (?m a) = mc_lists (?m b)" "hc_port (mc_conf (?m a) p) = hc_port (mc_conf (?m b) p)"
      using agreeD [OF m [OF ab], of p] n(3) by auto
    show "\<exists>b'. set_cosign_host resolve p arg b = Ret (None, b') \<and> agree a' b'"
      using r m [OF ab] agreeD [OF ab]
      by (auto simp: set_host13_def set_cosign_host_def e Let_def intro!: agree_lists agree_at n split: option.splits)
  qed
qed

lemma follows_certs:
  assumes "\<And>f. cr_searchable cr f \<Longrightarrow> cr_readable cr f"
  shows "follows (set_certs13 cr p one two three) (set_cosign_certs cr p one two three)"
proof -
  have n: "near (c\<lparr>hc_key := x, hc_cert := y, hc_cadir := z\<rparr>) (d\<lparr>hc_key := x, hc_cert := y, hc_cadir := z\<rparr>)"
    "near (c\<lparr>hc_ctx := t\<rparr>) (d\<lparr>hc_ctx := t\<rparr>)" if "near c d" for c d x y z t
    using that by (elim nearE; simp add: near_def)+
  show ?thesis
    unfolding follows_def
  proof (intro allI impI)
    fix a b a' assume "agree a b" and r: "set_certs13 cr p one two three a = Ret (None, a')"
    moreover have "set_cosign_certs cr p one two three a = Ret (None, a')" using certs_agree [OF r assms] .
    ultimately show "\<exists>b'. set_cosign_certs cr p one two three b = Ret (None, b') \<and> agree a' b'"
      by (auto simp: set_cosign_certs_def Let_def intro!: agree_at agree_merge n split: option.splits if_splits)
  qed
qed

text \<open>Two entries of the tables.\<close>

fun setter_follows :: "setter \<Rightarrow> setter \<Rightarrow> bool" where
  "setter_follows (TAKE1 f) (TAKE1 g) \<longleftrightarrow> (\<forall>p x. follows (f p x) (g p x))"
| "setter_follows (RAW_ARGS f) (RAW_ARGS g) \<longleftrightarrow> (\<forall>p x. follows (f p x) (g p x))"
| "setter_follows (FLAG f) (FLAG g) \<longleftrightarrow> (\<forall>p x. follows (f p x) (g p x))"
| "setter_follows (TAKE3 f) (TAKE3 g) \<longleftrightarrow> (\<forall>p x y z. follows (f p x y z) (g p x y z))"
| "setter_follows _ _ \<longleftrightarrow> False"

lemma call_follows:
  assumes "setter_follows s t" and "agree a b" and "call_setter s p args a = Some (Ret (None, a'))"
  shows "\<exists>b'. call_setter t p args b = Some (Ret (None, b')) \<and> agree a' b'"
  using assms
  by (induction s p args a rule: call_setter.induct; cases t) (auto simp: follows_def split: if_splits)

lemmas plain_setters = set_cosign_post_error_def set_cosign_service_def set_cosign_protect_def set_cosign_redirect_def
  set_cosign_validation_error_redirect_def set_cosign_siteentry_def set_cosign_factor_def set_cosign_factorsuffix_def
  set_cosign_ignoresuffix_def set_cosign_public_def set_cosign_http_def set_cosign_noappendport_def
  set_cosign_proxy_cookies_def set_cosign_tickets_def set_cosign_gss_def

lemma follows_plain:
  "follows (set_cosign_post_error p x) (set_cosign_post_error p x)" "follows (set_cosign_service p x) (set_cosign_service p x)"
  "follows (set_cosign_protect p k) (set_cosign_protect p k)" "follows (set_cosign_redirect p x) (set_cosign_redirect p x)"
  "follows (set_cosign_validation_error_redirect p x) (set_cosign_validation_error_redirect p x)"
  "follows (set_cosign_siteentry p x) (set_cosign_siteentry p x)" "follows (set_cosign_factor p x) (set_cosign_factor p x)"
  "follows (set_cosign_factorsuffix p x) (set_cosign_factorsuffix p x)"
  "follows (set_cosign_ignoresuffix p k) (set_cosign_ignoresuffix p k)"
  "follows (set_cosign_public p k) (set_cosign_public p k)" "follows (set_cosign_http p k) (set_cosign_http p k)"
  "follows (set_cosign_noappendport p k) (set_cosign_noappendport p k)"
  "follows (set_cosign_proxy_cookies p k) (set_cosign_proxy_cookies p k)"
  "follows (set_cosign_tickets p k) (set_cosign_tickets p k)" "follows (set_cosign_gss p k) (set_cosign_gss p k)"
  unfolding plain_setters by (rule follows_settle, elim nearE, simp add: near_def)+

lemma follows_plain_server:
  "follows (set_cosign_filterdb p x) (set_cosign_filterdb p x)" "follows (set_cosign_proxydb p x) (set_cosign_proxydb p x)"
  "follows (set_cosign_tkt_prefix p x) (set_cosign_tkt_prefix p x)"
  "follows (set_cosign_expiretime p x) (set_cosign_expiretime p x)"
  unfolding set_cosign_filterdb_def set_cosign_proxydb_def set_cosign_tkt_prefix_def set_cosign_expiretime_def
  by (rule follows_server, elim nearE, simp add: near_def)+

lemma tables_follow:
  assumes "\<And>f. cr_searchable (me_crypto me) f \<Longrightarrow> cr_readable (me_crypto me) f"
  shows "list_all2 (\<lambda>(n, s, st) (n', t, st'). n = n' \<and> st = st' \<and> setter_follows s t) (cosign_cmds13 me) (cosign_cmds me)"
  using assms
  by (simp add: cosign_cmds13_def cosign_cmds_def follows_plain follows_plain_server follows_reference follows_checkip
      follows_hashlen follows_port follows_host follows_certs)

lemma in_both_tables:
  assumes "\<And>f. cr_searchable (me_crypto me) f \<Longrightarrow> cr_readable (me_crypto me) f" and "(n, s, st) \<in> set (cosign_cmds13 me)"
  obtains t where "(n, t, st) \<in> set (cosign_cmds me)" and "setter_follows s t"
proof -
  obtain i where i: "i < length (cosign_cmds13 me)" "cosign_cmds13 me ! i = (n, s, st)"
    using assms(2) by (auto simp: in_set_conv_nth)
  obtain n' t st' where t: "cosign_cmds me ! i = (n', t, st')" by (cases "cosign_cmds me ! i")
  have l: "length (cosign_cmds13 me) = length (cosign_cmds me)" using list_all2_lengthD [OF tables_follow [OF assms(1)]] .
  have "n = n' \<and> st = st' \<and> setter_follows s t"
    using list_all2_nthD [OF tables_follow [OF assms(1)] i(1)] i(2) t by simp
  moreover have "(n', t, st') \<in> set (cosign_cmds me)" using i(1) l t by (metis nth_mem)
  ultimately show thesis using that by blast
qed

text \<open>
  C17.  A file, directive by directive with the places and the arguments, that Apache 1.3 starts with is one that Apache 2
  starts with, and from the same file it has the same settings for the server and for every directory and the same lists of
  servers, but for the note of what is configured, which only the older module makes of a place that has nothing but a
  \<open>CosignHostname\<close>.
\<close>

theorem configurations_agree:
  assumes "configured13 me bp fl mc" and "\<And>f. cr_searchable (me_crypto me) f \<Longrightarrow> cr_readable (me_crypto me) f"
  shows "\<exists>mc'. configured_as me bp fl mc' \<and> agree mc mc'"
  using assms(1)
proof induction
  case empty13
  have "agree (fresh_conf bp) (fresh_conf bp)" by (simp add: agree_def near_def)
  then show ?case using empty by blast
next
  case (directive13 fl mc name s st p args mc2)
  then obtain mc' where mc': "configured_as me bp fl mc'" "agree mc mc'" by blast
  obtain t where t: "(name, t, st) \<in> set (cosign_cmds me)" "setter_follows s t"
    using in_both_tables [OF assms(2) directive13.hyps(2)] by blast
  obtain b where "call_setter t p args mc' = Some (Ret (None, b))" "agree mc2 b"
    using call_follows [OF t(2) mc'(2) directive13.hyps(4)] by blast
  then show ?case using directive [OF mc'(1) t(1) directive13.hyps(3)] by blast
qed

section \<open>Divergences\<close>

text \<open>\<open>CosignPort\<close> before \<open>CosignHostname\<close> follows a null pointer, and the server does not start.\<close>

lemma port_before_host: "hc_cl (mc_conf mc Server) = None \<Longrightarrow> set_cosign_port Server a mc = Undefined"
  by (simp add: set_cosign_port_def cosign_merge_cfg_def Let_def)

text \<open>\<open>CosignPort\<close> in a directory that has no list of its own sets the port of the server's.\<close>

lemma port_reaches_server:
  assumes "hc_cl (mc_conf mc (Dir p)) = None" and "hc_cl (mc_conf mc Server) = Some 0" and "mc_lists mc = [sins]"
    and "set_cosign_port (Dir p) a mc = Ret (None, mc')"
  shows "mc_lists mc' = [map (\<lambda>s. s\<lparr>sin_port := port_or_default (word_of_int (to_int (fst (strtol a))))\<rparr>) sins] \<and>
    hc_cl (mc_conf mc' Server) = Some 0"
  using assms by (auto simp: set_cosign_port_def cosign_merge_cfg_def at_place_def Let_def)

text \<open>A directory with \<open>CosignHostname\<close> and nothing else is not configured under Apache 2: its requests use the server's.\<close>

lemma host_alone_ignored:
  assumes "set_cosign_host resolve (Dir p) a mc = Ret (None, mc')" and "hc_configured (mc_conf mc (Dir p)) = 0"
    and "rq_dir_conf r = mc_conf mc' (Dir p)"
  shows "hc_host (mc_conf mc' (Dir p)) = Some a \<and> the_config r = rq_server_conf r"
proof -
  have "hc_configured (inherit s c) = hc_configured c" for s c by (simp add: inherit_def)
  then show ?thesis
    using assms by (auto simp: set_cosign_host_def cosign_merge_cfg_def at_place_def the_config_def Let_def split: option.splits)
qed

text \<open>Apache 1.3 refuses a file of certificates that nobody may execute, and then has code to load it as a file.\<close>

lemma ca_file_refused:
  assumes "cr_stat cr ca = Some False" and "cr_readable cr key" and "cr_readable cr cert" and "cr_readable cr ca"
    and "\<not> cr_searchable cr ca"
  shows "crypto_files13 cr key cert ca \<noteq> None \<and> crypto_files cr key cert ca = None"
  using assms by (simp add: crypto_files13_def crypto_files_def)

text \<open>
  The location handler does not look whether there are servers to ask: without \<open>CosignHostname\<close> for the server as a whole it
  follows a null pointer for every cookie that is new.
\<close>

lemma handler_without_host:
  assumes "at_location ap cfg r s ref" and "hc_configured cfg \<noteq> 0" and "hc_validref cfg \<noteq> None" and "hc_referr cfg \<noteq> None"
    and "hc_cl cfg = None" and "getword_doc ap"
    and "os_faults w = []" and "mkcookiepath (Some (hc_filterdb cfg)) (hc_hashlen cfg) s MAXPATHLEN = Some path" and "os_fs w path = None"
  shows "fst (run_state (cosign_handler ap (Suc n) r) w) = Some Undefined"
proof -
  have "run_state (cosign_cookie_valid (filter_of cfg) s (Some None) (rq_remote_ip r) (Suc n)) w = (Some Undefined, w)"
    using assms(5,7-9) by (simp add: cosign_cookie_valid_def filter_of_def os_simps parse_scookie_def)
  then show ?thesis
    using handler_validates [OF assms(1-4,6)] by (simp add: validate_def)
qed

end
