(* ===== verification/Mod_samples.thy ===== *)
theory Mod_samples
  imports Mod_sso
begin

text \<open>
  A web server with the service \<open>cosign-www\<close>, for which the theorems on the module of Apache 2 are used on concrete inputs.
\<close>

section \<open>The server\<close>

definition sample_apache :: apache where
  "sample_apache =
     \<lparr>ap_getword = (\<lambda>c s. (takeWhile (\<lambda>x. x \<noteq> c) s, dropWhile (\<lambda>x. x = c) (dropWhile (\<lambda>x. x \<noteq> c) s))),
      ap_regex = literal_regex\<rparr>"

lemma sample_getword: "getword_doc sample_apache"
  by (simp add: getword_doc_def sample_apache_def)

definition sample_paths :: build_paths where
  "sample_paths = \<lparr>path_filter_db = ''/f'', path_proxy_db = ''/p'', path_ticket_cache = ''/t''\<rparr>"

definition sample_module_env :: module_env where
  "sample_module_env =
     \<lparr>me_regex = literal_regex, me_resolve = (\<lambda>h. if h = ''db'' then Some [1, 2] else None),
      me_crypto = \<lparr>cr_stat = (\<lambda>_. Some True), cr_readable = (\<lambda>_. True), cr_searchable = (\<lambda>_. True), cr_ctx_new = True,
        cr_use_key = (\<lambda>_. True), cr_use_cert = (\<lambda>_. True), cr_check_key = (\<lambda>_ _. True), cr_verify = (\<lambda>_ _. True)\<rparr>\<rparr>"

text \<open>\<open>CosignHostname db\<close>, and for a directory \<open>CosignProtected On\<close>.\<close>

definition sample_hosts :: module_conf where
  "sample_hosts =
     (at_place Server (\<lambda>c. c\<lparr>hc_cl := Some 0\<rparr>) (at_place Server (\<lambda>c. c\<lparr>hc_host := Some ''db''\<rparr>) (fresh_conf sample_paths)))
     \<lparr>mc_lists := [[\<lparr>sin_addr = 1, sin_port = 6663\<rparr>, \<lparr>sin_addr = 2, sin_port = 6663\<rparr>]]\<rparr>"

definition sample_mc :: module_conf where
  "sample_mc =
     at_place (Dir ''/x'') (\<lambda>c. c\<lparr>hc_protect := 1, hc_configured := 1\<rparr>) (cosign_merge_cfg (Dir ''/x'') sample_hosts)"

lemma sample_host_set:
  "set_cosign_host (me_resolve sample_module_env) Server ''db'' (fresh_conf sample_paths) = Ret (None, sample_hosts)"
proof -
  have "hc_port (mc_conf (at_place Server (\<lambda>c. c\<lparr>hc_host := Some ''db''\<rparr>) (fresh_conf sample_paths)) Server) = 0"
    by (simp add: at_place_def fresh_conf_def cosign_create_config_def)
  moreover have "length (mc_lists (at_place Server f (fresh_conf sample_paths))) = 0" for f
    by (simp add: fresh_conf_def at_place_def)
  ultimately show ?thesis
    by (simp add: set_cosign_host_def sample_module_env_def cosign_merge_cfg_def sample_hosts_def port_or_default_def Let_def)
qed

lemma sample_mc_reached: "configured_as sample_module_env sample_paths
     [(Server, ''CosignHostname'', [''db'']), (Dir ''/x'', ''CosignProtected'', [''On''])] sample_mc"
proof -
  have 1: "(''CosignHostname'', TAKE1 (set_cosign_host (me_resolve sample_module_env)), ACCESS_CONF) \<in> set (cosign_cmds sample_module_env)"
    "(''CosignProtected'', FLAG set_cosign_protect, OR_AUTHCFG) \<in> set (cosign_cmds sample_module_env)"
    by (simp_all add: cosign_cmds_def)
  have s: "may_stand st Server" "may_stand OR_AUTHCFG (Dir p)" for st p by (simp_all add: may_stand_def)
  have "configured_as sample_module_env sample_paths [(Server, ''CosignHostname'', [''db''])] sample_hosts"
    using configured_as.directive [OF configured_as.empty 1(1) s(1), of "[''db'']"] sample_host_set by simp
  moreover have "set_cosign_protect (Dir ''/x'') 1 sample_hosts = Ret (None, sample_mc)"
    by (simp add: set_cosign_protect_def settle_def sample_mc_def)
  ultimately show ?thesis
    using configured_as.directive [OF _ 1(2) s(2), of sample_paths "[(Server, ''CosignHostname'', [''db''])]" sample_hosts "''/x''" "[''On'']" sample_mc]
    by (simp add: strcaseeq_def tolower_def code_of_def chr_def char_of_def bit_iff_odd)
qed

lemma started_configuration_witness:
  "values_ok literal_regex (mc_conf sample_mc (Dir ''/x'')) \<and> list_ok (me_resolve sample_module_env) (addresses sample_mc) (mc_conf sample_mc (Dir ''/x'')) \<and>
   ports_ok sample_mc"
  using started_configuration [OF sample_mc_reached, of "Dir ''/x''"] by (simp add: sample_module_env_def)

section \<open>The service\<close>

definition sample_conf :: host_config where
  "sample_conf = (cosign_create_config sample_paths)
     \<lparr>hc_host := Some ''db'', hc_service := Some ''cosign-www'', hc_reqfv := Some [''umich''], hc_reqfc := 1,
      hc_redirect := Some ''https://login/'', hc_posterror := Some ''https://login/post'',
      hc_validref := Some ''https://www/x'', hc_validpreg := Some ''https://www/x'', hc_referr := Some ''https://login/bad'',
      hc_protect := 1, hc_configured := 1, hc_cl := Some 0\<rparr>"

lemmas sample_conf_defs = sample_conf_def cosign_create_config_def sample_paths_def

definition sample_request :: request where
  "sample_request =
     \<lparr>rq_method = M_GET, rq_handler = None, rq_args = None, rq_uri = ''/x'', rq_headers_in = (\<lambda>_. None),
      rq_remote_ip = ''10.0.0.1'', rq_auth_type = None, rq_auth_required = False, rq_server_name = ''www'', rq_server_port = 443,
      rq_dir_conf = sample_conf, rq_server_conf = sample_conf, rq_user = None, rq_ap_auth_type = None,
      rq_headers_out = (\<lambda>_. None), rq_err_headers_out = (\<lambda>_. None), rq_subprocess_env = (\<lambda>_. None), rq_notes = (\<lambda>_. None)\<rparr>"

lemma sample_values: "values_ok literal_regex sample_conf"
  by (simp add: values_ok_def sample_conf_defs literal_regex_def flag_ok_def starts_with_def)

lemma sample_query_safe: "query_safe sample_conf"
  by (simp add: query_safe_def sample_conf_defs required_def)

lemma login_roundtrip_witness:
  "\<exists>r' query v'. run_state (cosign_hooks sample_apache 1 sample_request) (sample_filter (\<lambda>_. None) []) =
       (Some (Ret (HTTP_MOVED_TEMPORARILY, r')), sample_filter (\<lambda>_. None) []) \<and>
     rq_headers_out r' ''Location'' = Some (''https://login/'' @ ''?'' @ query) \<and>
     run_state (read_query None query False) sample_visit = (Go False, v') \<and> wl_service v' = Some ''cosign-www''"
proof -
  have c: "the_config sample_request = sample_conf" by (simp add: the_config_def sample_request_def)
  have r: "hc_redirect sample_conf = Some ''https://login/''" "hc_service sample_conf = Some ''cosign-www''" by (simp_all add: sample_conf_defs)
  from login_roundtrip [OF c _ _ _ sample_values sample_query_safe _ _ r] show ?thesis
    by (fastforce simp: sample_conf_defs sample_request_def)
qed

text \<open>A query that brings no cookie.\<close>

lemma handler_redirects_witness:
  "\<exists>r'. run_state (cosign_handler sample_apache 1 (sample_request\<lparr>rq_handler := Some ''cosign'', rq_args := Some ''id=7''\<rparr>))
       (sample_filter (\<lambda>_. None) []) = (Some (Ret (HTTP_MOVED_PERMANENTLY, r')), sample_filter (\<lambda>_. None) []) \<and>
     rq_headers_out r' ''Location'' = Some ''https://login/bad''"
proof -
  let ?r = "sample_request\<lparr>rq_handler := Some ''cosign'', rq_args := Some ''id=7''\<rparr>" and ?w = "sample_filter (\<lambda>_. None) []"
  have g: "ap_getword sample_apache CHR ''&'' ''id=7'' = (''id=7'', [])" by (simp add: sample_apache_def)
  have n: "\<not> starts_with_nocase ''id=7'' ''cosign-''"
    by (simp add: starts_with_nocase_def tolower_def code_of_def chr_def char_of_def bit_iff_odd)
  have "\<exists>r'. run_state (cosign_handler sample_apache 1 ?r) ?w = (Some (Ret (HTTP_MOVED_PERMANENTLY, r')), ?w)"
    using g n by (simp add: cosign_handler_def validation_failed_def sample_request_def sample_conf_defs Let_def)
  then obtain r' where r: "run_state (cosign_handler sample_apache 1 ?r) ?w = (Some (Ret (HTTP_MOVED_PERMANENTLY, r')), ?w)" by blast
  have "rq_server_conf ?r = sample_conf" "rq_args ?r = Some ''id=7''" "hc_referr sample_conf = Some ''https://login/bad''"
    by (simp_all add: sample_request_def sample_conf_defs)
  then have "r' = set_location ''https://login/bad'' ?r"
    using handler_redirects [OF r] g n by (auto simp: admitted_dest_def pr_str_def)
  then show ?thesis using r by (simp add: set_location_def)
qed

section \<open>The way back\<close>

definition sample_new :: string where
  "sample_new = ''cosign-www='' @ replicate 124 CHR ''A''"

definition sample_line :: string where
  "sample_line = rekey_line sample_cinfo [''umich''] sample_new"

lemma sample_new_valid: "validchars ''cosign-www=cd''" "validchars sample_new" "word_ok sample_new" "starts_with sample_new ''cosign-''"
  by (simp_all add: sample_new_def validchars_def valid_tab_def code_of_def word_ok_def white_def ctrl_defs cstr_def starts_with_def)

lemma sample_registered: "registered sample_config sample_db ''cosign-www=cd'' ''cosign=ab'' sample_cinfo [''umich''] sample_new"
proof -
  let ?b = "replicate 124 CHR ''A''"
  have "length ?b \<noteq> length ''cd''" by simp
  then have ne: "?b \<noteq> ''cd''" by metis
  have new: "rekeyed ''cosign-www=cd'' ?b = sample_new" by (simp add: rekeyed_def sample_new_def)
  have m: "\<exists>b pool. mkcookie 128 (os_pool sample_db) = (0, Some (b @ [NUL]), pool) \<and> sample_new = rekeyed ''cosign-www=cd'' b"
    by (intro exI [of _ ?b] exI [of _ "[]"]) (simp add: new, simp add: sample_db_def sample_daemon_def, code_simp)
  have p: "path_of sample_config sample_new = Some sample_new"
    by (simp add: mkcookiepath_def sample_config_def MAXCOOKIELEN_def MAXPATHLEN_def sample_new_def)
  then have "login_of sample_config sample_db sample_new = None"
    using ne by (simp add: login_of_def sample_db_def sample_daemon_def parse_cookie_def sample_new_def)
  moreover have "word_ok ''cosign-www=cd''" by (simp add: word_ok_def white_def ctrl_defs cstr_def)
  moreover have "os_faults sample_db = []" "d_auth_commands sample_db" "d_al sample_db = Some weblogin" "d_protocol sample_db = 3"
    "tv_sec (os_now sample_db) = 1000"
    by (simp_all add: sample_db_def sample_daemon_def)
  moreover have "allowed sample_config sample_db ''cosign-www=cd''" by (simp add: allowed_def sample_config_def)
  moreover have "length sample_new < 256" by (simp add: sample_new_def)
  ultimately show ?thesis
    using m p sample_service sample_login sample_live sample_new_valid(3) sample_live_reply(4-7)
    by (simp add: registered_def weblogin_def starts_with_def)
qed

definition sample_front :: filter_state where
  "sample_front = (sample_filter (\<lambda>_. None) [])
     \<lparr>fl_cl := [\<lparr>conn_sn = Some (peer_with sample_line), conn_capa = COSIGN_CAPA_REKEY, conn_proto = 3\<rparr>]\<rparr>"

lemma sample_line_status: "status_line sample_line"
  by (simp add: status_line_def sample_line_def rekey_line_def plain_def ctrl_defs isdigit_def code_of_def SNET_BUFLEN_def
      sample_live_reply sample_new_def)

lemma sample_tmp: "\<exists>tmp. db_tmp_path ''/f'' \<lparr>tv_sec = 1000, tv_usec = 0\<rparr> 7 = Some tmp"
proof -
  have "length (show_hex 1000) \<le> 3" "length (show_hex 0) \<le> 3" "length (show_int 7) \<le> 3"
    by (simp_all add: show_hex.simps show_int_def show_nat.simps)
  then show ?thesis by (auto simp: db_tmp_path_def u32_def MAXPATHLEN_def)
qed

lemma sample_new_path: "mkcookiepath (Some ''/f'') 0 sample_new MAXPATHLEN = Some (''/f/'' @ sample_new)"
  by (simp add: mkcookiepath_def MAXCOOKIELEN_def MAXPATHLEN_def sample_new_def)

lemma sample_redeem: "can_redeem (filter_of sample_conf) sample_front ''cosign-www=cd'' sample_new (''/f/'' @ sample_new) sample_line"
  using sample_tmp sample_new_path sample_filter_path peer_answers [OF sample_line_status]
  by (auto simp: can_redeem_def filter_of_def sample_conf_defs sample_front_def sample_filter_def conn_supports_rekey_def
      COSIGN_CAPA_REKEY_def)

lemma sample_complete: "complete_conf sample_conf ''cosign-www''"
  by (simp add: complete_conf_def sample_conf_defs IDLETIME_def)

definition location_request :: request where
  "location_request = sample_request\<lparr>rq_handler := Some ''cosign'', rq_args := Some (''cosign-www=cd'' @ ''&'' @ ''https://www/x'')\<rparr>"

definition page_request :: request where
  "page_request = sample_request\<lparr>rq_headers_in := [''Cookie'' \<mapsto> sample_new @ ''/'' @ show_int 1000]\<rparr>"

lemma sample_requests:
  "at_location sample_apache sample_conf location_request ''cosign-www=cd'' ''https://www/x''"
  "at_page sample_conf page_request sample_new 1000"
proof -
  have "starts_with_nocase ''cosign-www=cd'' ''cosign-''" by (simp add: starts_with_nocase_def)
  then show "at_location sample_apache sample_conf location_request ''cosign-www=cd'' ''https://www/x''"
    using sample_new_valid(1)
    by (simp add: at_location_def location_request_def sample_request_def admitted_dest_def sample_conf_defs sample_apache_def literal_regex_def)
  show "at_page sample_conf page_request sample_new 1000"
    by (simp add: at_page_def page_request_def the_config_def sample_request_def)
qed

lemma redirect_to_page_witness:
  "\<exists>w' r' st r2'. run_state (cosign_handler sample_apache 1 location_request) sample_front =
       (Some (Ret (HTTP_MOVED_PERMANENTLY, r')), w') \<and> rq_headers_out r' ''Location'' = Some ''https://www/x'' \<and>
     run_state (cosign_hooks sample_apache 1 page_request) (sample_front\<lparr>os_fs := os_fs w'\<rparr>) =
       (Some (Ret (st, r2')), sample_front\<lparr>os_fs := os_fs w'\<rparr>) \<and> (st = OK \<or> st = DECLINED) \<and> rq_user r2' = Some ''bob''"
proof -
  obtain d' where e: "exchange sample_config [''REKEY'', ''cosign-www=cd''] sample_db = (sample_line, d')"
    using rekey_at_daemon [OF sample_registered] by (auto simp: sample_line_def)
  obtain a w' where run: "run_state (cosign_handler sample_apache 1 location_request) sample_front = (a, w')" by fastforce
  have f: "find_factors (filter_of sample_conf) (required sample_conf) [''umich''] = Has"
    by (simp add: required_def sample_conf_defs)
  have t: "tv_sec (os_now sample_front) = 1000" "os_faults (sample_front\<lparr>os_fs := x\<rparr>) = []" "hc_checkip sample_conf = IPCHECK_NEVER" for x
    by (simp_all add: sample_front_def sample_filter_def sample_conf_defs)
  show ?thesis
    using redirect_to_page [OF sample_registered e sample_redeem f, of "''cosign-www''" "''cd''" sample_apache location_request
        "''https://www/x''" page_request "sample_front\<lparr>os_fs := os_fs w'\<rparr>" w' 0 a]
      sample_complete sample_getword sample_requests t run sample_live_reply(6)
    by (auto simp: IDLETIME_def)
qed

text \<open>The page once more, from the copy alone.\<close>

definition sample_page_state :: filter_state where
  "sample_page_state = sample_filter [''/f/'' @ sample_new \<mapsto> copy_file (learned 3 sample_cinfo [''umich''] sinfo_zero) 1000] []"

lemma sample_page_run:
  "\<exists>st r'. run_state (cosign_hooks sample_apache 1 page_request) sample_page_state = (Some (Ret (st, r')), sample_page_state) \<and>
     (st = OK \<or> st = DECLINED)"
proof -
  let ?si = "learned 3 sample_cinfo [''umich''] sinfo_zero" and ?f = "filter_of sample_conf"
  have c: "mkcookiepath (Some (fc_filterdb ?f)) (fc_hashlen ?f) sample_new MAXPATHLEN = Some (''/f/'' @ sample_new)"
    "fc_checkip ?f = IPCHECK_NEVER" "os_faults sample_page_state = []" "tv_sec (os_now sample_page_state) = 1000"
    "os_fs sample_page_state (''/f/'' @ sample_new) = Some \<lparr>f_data = scookie_text ?si, f_mode = mode_0644, f_mtime = 1000\<rparr>"
    using sample_new_path by (simp_all add: filter_of_def sample_conf_defs sample_page_state_def sample_filter_def copy_file_def)
  have "plain sample_line" using sample_line_status by (simp add: status_line_def)
  then have "sinfo_ok ?si" using sinfo_ok_learned [OF sample_registered] by (simp add: sample_line_def)
  from fresh_copy_answers [OF c(3,1,5) this, of "''10.0.0.1''" None 0]
  have "\<exists>si'. run_state (cosign_cookie_valid ?f sample_new None (rq_remote_ip page_request) 1) sample_page_state =
      (Some (Ret (COSIGN_OK, si', None)), sample_page_state) \<and> si_user si' = ''bob'' \<and> si_realm si' = ''umich'' \<and> si_factor si' = ''umich''"
    using c(2,4) sample_live_reply(2,6)
    by (auto simp: learned_def IDLETIME_def IPCHECK_NEVER_def IPCHECK_ALWAYS_def page_request_def sample_request_def)
  from page_served [OF sample_complete sample_requests(2) sample_getword _ _ _ _ _ sample_new_valid(2) this c(3),
      of "replicate 124 CHR ''A''"] show ?thesis
    using c(4) by (auto simp: sample_new_def IDLETIME_def)
qed

lemma protected_page_witness:
  "\<exists>st r' si. run_state (cosign_hooks sample_apache 1 page_request) sample_page_state = (Some (Ret (st, r')), sample_page_state) \<and>
     vouched sample_apache 1 sample_conf page_request si sample_page_state \<and> rq_user r' = Some (si_user si)"
proof -
  obtain st r' where r: "run_state (cosign_hooks sample_apache 1 page_request) sample_page_state = (Some (Ret (st, r')), sample_page_state)"
    "st = OK \<or> st = DECLINED" using sample_page_run by blast
  have "the_config page_request = sample_conf" using sample_requests(2) by (simp add: at_page_def)
  from protected_page [OF r this] show ?thesis
    using r(1) by (auto simp: sample_conf_defs page_request_def sample_request_def)
qed

end
