(* ===== verification/Apache13.thy ===== *)
theory Apache13
  imports Mod_apache Mod_samples
begin

text \<open>
  \<open>filters/apache/mod_cosign.c\<close>, the module for Apache 1.3, while requests are served.  The user and the kind of
  authentication are noted in the connection there, not in the request.  \<open>as_request\<close> is the same request as the module for
  Apache 2 sees it, and the answers of the two modules are shown to be the same.
\<close>

section \<open>Requests\<close>

record conn_rec =
  cn_remote_ip :: string
  cn_user :: "string option"
  cn_ap_auth_type :: "string option"

record request_rec =
  rr_method :: http_method
  rr_handler :: "string option"
  rr_args :: "string option"
  rr_uri :: string
  rr_headers_in :: table
  rr_connection :: conn_rec
  rr_auth_type :: "string option"
  rr_auth_required :: bool
  rr_server_name :: string
  rr_server_port :: int
  rr_dir_conf :: host_config
  rr_server_conf :: host_config
  rr_headers_out :: table
  rr_err_headers_out :: table
  rr_subprocess_env :: table
  rr_notes :: table

type_synonym answer13 = "(http_status \<times> request_rec) outcome option filtering"

definition respond13 :: "http_status \<Rightarrow> request_rec \<Rightarrow> answer13" where
  "respond13 st r = ret (Some (Ret (st, r)))"

definition the_config13 :: "request_rec \<Rightarrow> host_config" where
  "the_config13 r = (if hc_configured (rr_dir_conf r) = 0 then rr_server_conf r else rr_dir_conf r)"

definition set_location13 :: "string \<Rightarrow> request_rec \<Rightarrow> request_rec" where
  "set_location13 dest r = r\<lparr>rr_headers_out := (rr_headers_out r)(''Location'' \<mapsto> dest)\<rparr>"

section \<open>Sending the user to the login\<close>

definition self_url13 :: "host_config \<Rightarrow> request_rec \<Rightarrow> string" where
  "self_url13 cfg r =
     (if hc_http cfg = 1 then
        if rr_server_port r = 80 \<or> hc_noappendport cfg = 1 then ''http://'' @ rr_server_name r @ rr_uri r
        else ''http://'' @ rr_server_name r @ '':'' @ show_int (rr_server_port r) @ rr_uri r
      else
        if rr_server_port r = 443 \<or> hc_noappendport cfg = 1 then ''https://'' @ rr_server_name r @ rr_uri r
        else ''https://'' @ rr_server_name r @ '':'' @ show_int (rr_server_port r) @ rr_uri r)"

text \<open>The loop over the factors appends to what it has.\<close>

primrec more_factors :: "string \<Rightarrow> string list \<Rightarrow> string" where
  "more_factors reqfact [] = reqfact"
| "more_factors reqfact (f # fs) = more_factors (reqfact @ '','' @ f) fs"

definition cosign_redirect13 :: "host_config \<Rightarrow> request_rec \<Rightarrow> int \<times> request_rec" where
  "cosign_redirect13 cfg r =
     (if rr_method r = M_POST then (0, set_location13 (pr_str (hc_posterror cfg)) r)
      else
        let ref = (case hc_siteentry cfg of
                     Some s \<Rightarrow> if \<not> strcaseeq s ''none'' then s else self_url13 cfg r
                   | None \<Rightarrow> self_url13 cfg r);
            dest =
              (if 0 < hc_reqfc cfg then
                 let reqfact = (case required cfg of [] \<Rightarrow> ''factors='' | f # fs \<Rightarrow> more_factors (''factors='' @ f) fs)
                 in pr_str (hc_redirect cfg) @ ''?'' @ reqfact @ ''&'' @ pr_str (hc_service cfg) @ ''&'' @ ref
               else pr_str (hc_redirect cfg) @ ''?'' @ pr_str (hc_service cfg) @ ''&'' @ ref)
        in (0, set_location13 dest r))"

section \<open>The location of service cookies\<close>

definition validation_failed13 :: "host_config \<Rightarrow> request_rec \<Rightarrow> answer13" where
  "validation_failed13 cfg r = respond13 HTTP_MOVED_PERMANENTLY (set_location13 (pr_str (hc_referr cfg)) r)"

definition cookie_accepted13 :: "string \<Rightarrow> string \<Rightarrow> request_rec \<Rightarrow> answer13" where
  "cookie_accepted13 cookie dest r = do {
     t \<leftarrow> gettimeofday;
     case t of
       None \<Rightarrow> ret (Some Undefined)
     | Some tv \<Rightarrow>
         let r = r\<lparr>rr_err_headers_out := (rr_err_headers_out r)(''Set-Cookie'' \<mapsto> full_cookie cookie (tv_sec tv) dest)\<rparr>
         in respond13 HTTP_MOVED_PERMANENTLY (set_location13 dest r) }"

definition validate13 :: "host_config \<Rightarrow> nat \<Rightarrow> string \<Rightarrow> string \<Rightarrow> request_rec \<Rightarrow> answer13" where
  "validate13 cfg n cookie dest r = do {
     v \<leftarrow> cosign_cookie_valid (filter_of cfg) cookie (Some None) (cn_remote_ip (rr_connection r)) n;
     case v of
       None \<Rightarrow> ret None
     | Some Undefined \<Rightarrow> ret (Some Undefined)
     | Some (Exit c) \<Rightarrow> ret (Some (Exit c))
     | Some (Ret (cv, si, rekey)) \<Rightarrow>
         let cookie = (case rekey of Some (Some new) \<Rightarrow> new | _ \<Rightarrow> cookie)
         in if cv = COSIGN_RETRY then respond13 HTTP_MOVED_PERMANENTLY (set_location13 dest r)
            else if cv = COSIGN_OK then cookie_accepted13 cookie dest r
            else respond13 HTTP_SERVICE_UNAVAILABLE r }"

text \<open>The prefix of the service is compared with case.\<close>

definition cosign_handler13 :: "apache \<Rightarrow> nat \<Rightarrow> request_rec \<Rightarrow> answer13" where
  "cosign_handler13 ap n r =
     (let cfg = rr_server_conf r
      in if rr_handler r \<noteq> Some ''cosign'' then respond13 DECLINED r
         else if rr_method r \<noteq> M_GET then respond13 HTTP_METHOD_NOT_ALLOWED r
         else if hc_configured cfg = 0 then respond13 HTTP_SERVICE_UNAVAILABLE r
         else if hc_validref cfg = None then respond13 HTTP_SERVICE_UNAVAILABLE r
         else if hc_referr cfg = None then respond13 HTTP_SERVICE_UNAVAILABLE r
         else case rr_args r of
           None \<Rightarrow> respond13 HTTP_FORBIDDEN r
         | Some qstr \<Rightarrow>
             (case ap_getword ap CHR ''&'' qstr of
                (pair, dest) \<Rightarrow>
                  if \<not> starts_with pair ''cosign-'' then validation_failed13 cfg r
                  else case hc_validpreg cfg of
                    None \<Rightarrow> ret (Some Undefined)
                  | Some re \<Rightarrow>
                      (case regexec (ap_regex ap) False re dest of
                         Exec_error \<Rightarrow> respond13 HTTP_INTERNAL_SERVER_ERROR r
                       | No_match \<Rightarrow> validation_failed13 cfg r
                       | Match _ \<Rightarrow>
                           if \<not> validchars pair then validation_failed13 cfg r else validate13 cfg n pair dest r)))"

section \<open>Protected pages\<close>

text \<open>At the label \<open>redirect\<close>.\<close>

definition no_cookie13 :: "host_config \<Rightarrow> request_rec \<Rightarrow> answer13" where
  "no_cookie13 cfg r =
     (if hc_public cfg = 1 then respond13 DECLINED r
      else if rr_auth_required r then
        respond13 DECLINED (r\<lparr>rr_notes := (rr_notes r)(''cosign-redirect'' \<mapsto> ''true'')\<rparr>)
      else case cosign_redirect13 cfg r of
        (rc, r) \<Rightarrow> if rc \<noteq> 0 then respond13 HTTP_SERVICE_UNAVAILABLE r else respond13 HTTP_MOVED_TEMPORARILY r)"

definition note_user :: "host_config \<Rightarrow> sinfo \<Rightarrow> request_rec \<Rightarrow> request_rec" where
  "note_user cfg si r =
     (let r = r\<lparr>rr_connection := (rr_connection r)\<lparr>cn_user := Some (si_user si), cn_ap_auth_type := Some ''Cosign''\<rparr>\<rparr>;
          env = rr_subprocess_env r;
          env = env(''COSIGN_SERVICE'' := hc_service cfg);
          env = env(''REMOTE_REALM'' \<mapsto> si_realm si);
          env = env(''COSIGN_FACTOR'' \<mapsto> si_factor si);
          env = (if hc_krbtkt cfg = 1 then env(''KRB5CCNAME'' \<mapsto> si_krb5tkt si) else env)
      in r\<lparr>rr_subprocess_env := env\<rparr>)"

definition check_visit13 :: "host_config \<Rightarrow> nat \<Rightarrow> string \<Rightarrow> request_rec \<Rightarrow> answer13" where
  "check_visit13 cfg n my_cookie r = do {
     v \<leftarrow> cosign_cookie_valid (filter_of cfg) my_cookie None (cn_remote_ip (rr_connection r)) n;
     case v of
       None \<Rightarrow> ret None
     | Some Undefined \<Rightarrow> ret (Some Undefined)
     | Some (Exit c) \<Rightarrow> ret (Some (Exit c))
     | Some (Ret (cv, si, rekey)) \<Rightarrow>
         if cv = COSIGN_ERROR then respond13 HTTP_SERVICE_UNAVAILABLE r
         else if cv = COSIGN_OK then respond13 DECLINED (note_user cfg si r)
         else no_cookie13 cfg r }"

definition visit_with13 :: "host_config \<Rightarrow> nat \<Rightarrow> string \<Rightarrow> request_rec \<Rightarrow> answer13" where
  "visit_with13 cfg n my_cookie r = do {
     t \<leftarrow> gettimeofday;
     case cut_time my_cookie of
       (my_cookie, misc) \<Rightarrow>
         let cookietime = (case misc of None \<Rightarrow> 0 | Some m \<Rightarrow> atoi m)
         in if 0 < cookietime \<and> t = None then ret (Some Undefined)
            else if 0 < cookietime \<and> hc_expiretime cfg < tv_sec (the t) - cookietime then no_cookie13 cfg r
            else if \<not> validchars my_cookie then no_cookie13 cfg r
            else check_visit13 cfg n my_cookie r }"

definition cosign_auth13 :: "apache \<Rightarrow> nat \<Rightarrow> request_rec \<Rightarrow> answer13" where
  "cosign_auth13 ap n r =
     (let cfg = the_config13 r
      in if hc_configured cfg = 0 \<or> hc_protect cfg = 0 then respond13 DECLINED r
         else case (hc_host cfg, hc_redirect cfg, hc_service cfg, hc_posterror cfg) of
           (Some _, Some _, Some service, Some _) \<Rightarrow>
             (case rr_headers_in r ''Cookie'' of
                None \<Rightarrow> no_cookie13 cfg r
              | Some data \<Rightarrow>
                  (case service_cookie (ap_getword ap) service (Suc (length data)) data of
                     None \<Rightarrow> ret None
                   | Some None \<Rightarrow> no_cookie13 cfg r
                   | Some (Some (cookiename, pair)) \<Rightarrow>
                       if length pair < 120 then no_cookie13 cfg r else visit_with13 cfg n (cookiename @ ''='' @ pair) r))
         | _ \<Rightarrow> respond13 HTTP_SERVICE_UNAVAILABLE r)"

definition cosign_authn13 :: "request_rec \<Rightarrow> http_status \<times> request_rec" where
  "cosign_authn13 r =
     (let cfg = the_config13 r
      in case rr_auth_type r of
           None \<Rightarrow> (DECLINED, r)
         | Some authn \<Rightarrow>
             if \<not> strcaseeq authn ''Cosign'' then (DECLINED, r)
             else if rr_notes r ''cosign-redirect'' \<noteq> None then
               (case cosign_redirect13 cfg r of
                  (rc, r) \<Rightarrow> if rc \<noteq> 0 then (HTTP_SERVICE_UNAVAILABLE, r) else (HTTP_MOVED_TEMPORARILY, r))
             else if cn_user (rr_connection r) = None then (DECLINED, r)
             else (OK, r))"

text \<open>The phases of the table in the order of the server: access, and where the page requires a user, who it is.\<close>

definition cosign_phases :: "apache \<Rightarrow> nat \<Rightarrow> request_rec \<Rightarrow> answer13" where
  "cosign_phases ap n r = do {
     a \<leftarrow> cosign_auth13 ap n r;
     case a of
       Some (Ret (st, r)) \<Rightarrow>
         ret (Some (Ret (if (st = OK \<or> st = DECLINED) \<and> rr_auth_required r then cosign_authn13 r else (st, r))))
     | _ \<Rightarrow> ret a }"

section \<open>The same request under Apache 2\<close>

definition as_request :: "request_rec \<Rightarrow> request" where
  "as_request r =
     \<lparr>rq_method = rr_method r, rq_handler = rr_handler r, rq_args = rr_args r, rq_uri = rr_uri r,
      rq_headers_in = rr_headers_in r, rq_remote_ip = cn_remote_ip (rr_connection r), rq_auth_type = rr_auth_type r,
      rq_auth_required = rr_auth_required r, rq_server_name = rr_server_name r, rq_server_port = rr_server_port r,
      rq_dir_conf = rr_dir_conf r, rq_server_conf = rr_server_conf r, rq_user = cn_user (rr_connection r),
      rq_ap_auth_type = cn_ap_auth_type (rr_connection r), rq_headers_out = rr_headers_out r,
      rq_err_headers_out = rr_err_headers_out r, rq_subprocess_env = rr_subprocess_env r, rq_notes = rr_notes r\<rparr>"

definition as_answer :: "answer13 \<Rightarrow> answer" where
  "as_answer m = do { a \<leftarrow> m; ret (map_option (map_outcome (apsnd as_request)) a) }"

lemma as_request_simps [simp]:
  "rq_method (as_request r) = rr_method r" "rq_handler (as_request r) = rr_handler r" "rq_args (as_request r) = rr_args r"
  "rq_uri (as_request r) = rr_uri r" "rq_headers_in (as_request r) = rr_headers_in r"
  "rq_remote_ip (as_request r) = cn_remote_ip (rr_connection r)" "rq_auth_type (as_request r) = rr_auth_type r"
  "rq_auth_required (as_request r) = rr_auth_required r" "rq_server_name (as_request r) = rr_server_name r"
  "rq_server_port (as_request r) = rr_server_port r" "rq_server_conf (as_request r) = rr_server_conf r"
  "rq_user (as_request r) = cn_user (rr_connection r)" "rq_notes (as_request r) = rr_notes r"
  "rq_err_headers_out (as_request r) = rr_err_headers_out r" "rq_dir_conf (as_request r) = rr_dir_conf r"
  "as_request (set_location13 d r) = set_location d (as_request r)"
  by (simp_all add: as_request_def set_location13_def set_location_def)

lemma as_answer_simps [simp]:
  "as_answer (ret a) = ret (map_option (map_outcome (apsnd as_request)) a)"
  "as_answer (respond13 st r) = respond st (as_request r)"
  by (simp_all add: as_answer_def respond13_def respond_def)

lemma as_answer_bind: "as_answer (do { x \<leftarrow> m; f x }) = do { x \<leftarrow> m; as_answer (f x) }"
  by (simp add: as_answer_def)

lemma bind_same: "m = m' \<Longrightarrow> (\<And>x. f x = g x) \<Longrightarrow> State_Monad.bind m f = State_Monad.bind m' g"
  by presburger

lemma as_request_same: "as_request r = as_request q \<Longrightarrow> r = q"
  by (cases r; cases q; cases "rr_connection r"; cases "rr_connection q") (simp add: as_request_def)

lemma same_seen:
  assumes "map_option (map_outcome (apsnd as_request)) a = map_option (map_outcome (apsnd as_request)) b"
  shows "a = b"
proof -
  have "inj (apsnd as_request)" by (auto simp: inj_def dest: as_request_same)
  then have "inj (map_option (map_outcome (apsnd as_request)))" by (intro option.inj_map outcome.inj_map)
  then show ?thesis using assms by (rule injD)
qed

lemma the_config_same: "the_config (as_request r) = the_config13 r"
  by (simp add: the_config_def the_config13_def)

lemma comma_list_first: "comma_list ((x @ y) # fs) = x @ comma_list (y # fs)"
  by (cases fs) simp_all

lemma more_factors_comma: "more_factors (a @ f) fs = a @ comma_list (f # fs)"
proof (induction fs arbitrary: f)
  case (Cons g gs)
  show ?case using Cons [of "f @ '','' @ g"] comma_list_first [of "f @ '',''" g gs] by simp
qed simp

section \<open>The same answers\<close>

lemma self_url_same: "self_url cfg (as_request r) = self_url13 cfg r"
  by (simp add: self_url_def self_url13_def Let_def)

lemma redirect_same: "cosign_redirect cfg (as_request r) = apsnd as_request (cosign_redirect13 cfg r)"
proof -
  have "return_url cfg (as_request r) =
      (case hc_siteentry cfg of
         Some s \<Rightarrow> if \<not> strcaseeq s ''none'' then s else self_url13 cfg r
       | None \<Rightarrow> self_url13 cfg r)"
    by (simp add: return_url_def self_url_same split: option.split)
  moreover have "(case required cfg of [] \<Rightarrow> ''factors='' | f # fs \<Rightarrow> more_factors (''factors='' @ f) fs) =
      ''factors='' @ comma_list (required cfg)"
    by (simp add: more_factors_comma split: list.split del: append.simps)
  ultimately show ?thesis
    by (simp add: cosign_redirect_def cosign_redirect13_def login_query_def Let_def)
qed

lemma send_same:
  "(case cosign_redirect13 cfg r of
      (rc, r) \<Rightarrow> if rc \<noteq> 0 then (HTTP_SERVICE_UNAVAILABLE, as_request r) else (HTTP_MOVED_TEMPORARILY, as_request r)) =
   send_to_login cfg (as_request r)"
  by (simp add: send_to_login_def redirect_same split: prod.split)

lemma failed_same: "as_answer (validation_failed13 cfg r) = validation_failed cfg (as_request r)"
  by (simp add: validation_failed13_def validation_failed_def)

lemma accepted_same: "as_answer (cookie_accepted13 cookie dest r) = cookie_accepted cookie dest (as_request r)"
proof -
  have e: "as_request (r\<lparr>rr_err_headers_out := h\<rparr>) = (as_request r)\<lparr>rq_err_headers_out := h\<rparr>" for h
    by (simp add: as_request_def)
  show ?thesis
    unfolding cookie_accepted13_def cookie_accepted_def as_answer_bind
    by (rule bind_same) (auto simp: e Let_def split: option.split)
qed

lemma validate_same: "as_answer (validate13 cfg n pair dest r) = validate cfg n pair dest (as_request r)"
  unfolding validate13_def validate_def as_answer_bind
  by (rule bind_same)
    (auto simp: accepted_same Let_def split: option.split outcome.split prod.split)

lemma no_cookie_same: "as_answer (no_cookie13 cfg r) = no_cookie cfg (as_request r)"
proof -
  have "as_request (r\<lparr>rr_notes := h\<rparr>) = (as_request r)\<lparr>rq_notes := h\<rparr>" for h by (simp add: as_request_def)
  then show ?thesis
    by (auto simp: no_cookie13_def no_cookie_def respond_def send_same [symmetric] split: prod.split)
qed

lemma note_user_same: "as_request (note_user cfg si r) = let_through cfg si (as_request r)"
  by (simp add: note_user_def let_through_def as_request_def Let_def)

lemma check_visit_same: "as_answer (check_visit13 cfg n c r) = check_visit cfg n c (as_request r)"
  unfolding check_visit13_def check_visit_def as_answer_bind
  by (rule bind_same)
    (auto simp: no_cookie_same note_user_same split: option.split outcome.split prod.split)

lemma visit_with_same: "as_answer (visit_with13 cfg n c r) = visit_with cfg n c (as_request r)"
  unfolding visit_with13_def visit_with_def as_answer_bind
  by (rule bind_same)
    (auto simp: no_cookie_same check_visit_same Let_def split: option.split prod.split)

lemma auth_same: "as_answer (cosign_auth13 ap n r) = cosign_auth ap n (as_request r)"
  by (simp add: cosign_auth13_def cosign_auth_def Let_def the_config_same no_cookie_same visit_with_same
      split: option.split prod.split)

lemma authn_same: "cosign_authn (as_request r) = apsnd as_request (cosign_authn13 r)"
  by (simp add: cosign_authn13_def cosign_authn_def Let_def the_config_same send_same [symmetric] split: option.split prod.split)

lemma phases_same: "as_answer (cosign_phases ap n r) = cosign_hooks ap n (as_request r)"
proof -
  have "do { a \<leftarrow> as_answer m; f a } = do { a \<leftarrow> m; f (map_option (map_outcome (apsnd as_request)) a) }" for m and f :: "_ \<Rightarrow> answer"
    by (simp add: as_answer_def)
  then show ?thesis
    unfolding cosign_hooks_def cosign_phases_def auth_same [symmetric] as_answer_bind
    by simp (rule bind_same, auto simp: authn_same split: option.split outcome.split prod.split)
qed

text \<open>
  C16.  A request gets the same answer under Apache 1.3 as under Apache 2, with the same headers, notes and user, in every state
  and with every failure: at a protected page always, and at the location of service cookies unless its service is spelled
  with capitals in the prefix, which the older module sends to the page for errors.
\<close>

theorem apache13_agrees:
  "(run_state (cosign_phases ap n r) w = (a, w') \<longleftrightarrow>
      run_state (cosign_hooks ap n (as_request r)) w = (map_option (map_outcome (apsnd as_request)) a, w')) \<and>
   (as_answer (cosign_handler13 ap n r) = cosign_handler ap n (as_request r) \<or>
     (\<exists>qstr pair dest. rr_args r = Some qstr \<and> ap_getword ap CHR ''&'' qstr = (pair, dest) \<and>
        starts_with_nocase pair ''cosign-'' \<and> \<not> starts_with pair ''cosign-'' \<and>
        cosign_handler13 ap n r = validation_failed13 (rr_server_conf r) r))"
proof (rule conjI)
  show "run_state (cosign_phases ap n r) w = (a, w') \<longleftrightarrow>
     run_state (cosign_hooks ap n (as_request r)) w = (map_option (map_outcome (apsnd as_request)) a, w')"
    unfolding phases_same [symmetric]
    by (auto simp: as_answer_def split: prod.splits dest!: same_seen)
qed (use starts_with_both in \<open>auto simp: cosign_handler13_def cosign_handler_def Let_def failed_same validate_same
    split: option.splits prod.splits exec.splits\<close>)

text \<open>So what guards a protected page under Apache 2 guards it here.\<close>

lemma protected_page13:
  assumes "run_state (cosign_phases ap n r) w = (Some (Ret (st, r')), w')" and "st = OK \<or> st = DECLINED"
    and "the_config13 r = cfg" and "hc_configured cfg \<noteq> 0" and "hc_protect cfg \<noteq> 0" and "hc_public cfg \<noteq> 1"
    and "\<not> rr_auth_required r \<or> cosign_auth_type (as_request r)"
  shows "\<exists>si. vouched ap n cfg (as_request r) si w' \<and> cn_user (rr_connection r') = Some (si_user si)"
proof -
  have "run_state (cosign_hooks ap n (as_request r)) w = (Some (Ret (st, as_request r')), w')"
    using assms(1) unfolding phases_same [symmetric] by (simp add: as_answer_def)
  then show ?thesis
    using page_protected [of ap n "as_request r" w st "as_request r'" w' cfg] assms(2-7) by (auto simp: the_config_same)
qed

section \<open>A server\<close>

definition sample_hosts13 :: module_conf where
  "sample_hosts13 = at_place Server (\<lambda>c. c\<lparr>hc_configured := 1\<rparr>) sample_hosts"

lemma configurations_agree_witness:
  "\<exists>mc'. configured_as sample_module_env sample_paths [(Server, ''CosignHostname'', [''db''])] mc' \<and> agree sample_hosts13 mc'"
proof (rule configurations_agree)
  have t: "(''CosignHostname'', TAKE1 (set_host13 (me_resolve sample_module_env)), ACCESS_CONF) \<in> set (cosign_cmds13 sample_module_env)"
    by (simp add: cosign_cmds13_def)
  note hosts_agree [OF sample_host_set, folded sample_hosts13_def]
  then show "configured13 sample_module_env sample_paths [(Server, ''CosignHostname'', [''db''])] sample_hosts13"
    using directive13 [OF empty13 t, where p = Server and args = "[''db'']"] by (simp add: may_stand_def)
  show "cr_readable (me_crypto sample_module_env) f" if "cr_searchable (me_crypto sample_module_env) f" for f
    using that by (simp add: sample_module_env_def)
qed

end
