(* ===== verification/Lt_config.thy ===== *)
theory Lt_config
  imports Mod_config
begin

text \<open>
  \<open>filters/lighttpd/mod_cosign.c\<close>, the plugin for Lighttpd, while it reads its configuration: what the plugin keeps for
  each context of the server's file (\<open>plugin_config\<close>), the check of it at the start (\<open>mod_cosign_set_defaults\<close>), and the
  settings put together anew for every request (\<open>mod_cosign_patch_connection\<close>).  A \<open>buffer\<close> is its text, or nothing where
  it is a null pointer or has nothing in it (\<open>used\<close> is 0).  The server's functions that read the file and decide which
  contexts a request is in, the resolver, PCRE, and the answers of the system and of OpenSSL are arguments, and so is the
  number of bytes an allocation really holds.
\<close>

section \<open>What the plugin keeps\<close>

text \<open>\<open>siteentry\<close> is a null pointer, an empty buffer or a text.\<close>

record plugin_config =
  pc_host :: "string option"
  pc_service :: "string option"
  pc_siteentry :: "string option option"
  pc_reqf :: "(string \<times> string) list"
  pc_suffix :: "string option"
  pc_fake :: "16 word"
  pc_public :: "16 word"
  pc_redirect :: "string option"
  pc_posterror :: "string option"
  pc_handleruri :: "string option"
  pc_validref :: "string option"
  pc_validpcre :: "string option"
  pc_referr :: "string option"
  pc_port :: "16 word"
  pc_protect :: "16 word"
  pc_checkip :: int
  pc_crypto :: "(string \<times> string) list"
  pc_filterdb :: "string option"
  pc_hashlen :: int
  pc_proxydb :: "string option"
  pc_tkt_prefix :: "string option"
  pc_http :: "16 word"
  pc_noappendport :: "16 word"
  pc_proxy :: "16 word"
  pc_expiretime :: int
  pc_krbtkt :: "16 word"
  pc_gss :: "16 word"

text \<open>
  \<open>cosign_host_config\<close> as the plugin fills it in for the shared code; \<open>siteentry\<close> and \<open>configured\<close> are never written.
  \<open>pd_room\<close> is the number of bytes at \<open>reqfv\<close>.
\<close>

record pd_config =
  pd_host :: "string option"
  pd_service :: "string option"
  pd_reqfv :: "string list"
  pd_reqfc :: int
  pd_room :: nat
  pd_suffix :: "string option"
  pd_fake :: int
  pd_public :: int
  pd_redirect :: "string option"
  pd_posterror :: "string option"
  pd_validref :: "string option"
  pd_referr :: "string option"
  pd_port :: "16 word"
  pd_protect :: int
  pd_checkip :: int
  pd_cl :: "sin list option"
  pd_ctx :: "(string \<times> string \<times> string) option"
  pd_cert :: "string option"
  pd_key :: "string option"
  pd_cadir :: "string option"
  pd_filterdb :: "string option"
  pd_hashlen :: int
  pd_proxydb :: "string option"
  pd_tkt_prefix :: "string option"
  pd_http :: int
  pd_noappendport :: int
  pd_proxy :: int
  pd_expiretime :: int
  pd_krbtkt :: int
  pd_gss :: int

record plugin_data =
  pl_cfg :: pd_config
  pl_storage :: "plugin_config list"
  pl_conf :: plugin_config

text \<open>\<open>calloc\<close>.\<close>

definition no_plugin_config :: plugin_config where
  "no_plugin_config =
     \<lparr>pc_host = None, pc_service = None, pc_siteentry = None, pc_reqf = [], pc_suffix = None, pc_fake = 0, pc_public = 0,
      pc_redirect = None, pc_posterror = None, pc_handleruri = None, pc_validref = None, pc_validpcre = None,
      pc_referr = None, pc_port = 0, pc_protect = 0, pc_checkip = 0, pc_crypto = [], pc_filterdb = None, pc_hashlen = 0,
      pc_proxydb = None, pc_tkt_prefix = None, pc_http = 0, pc_noappendport = 0, pc_proxy = 0, pc_expiretime = 0,
      pc_krbtkt = 0, pc_gss = 0\<rparr>"

definition no_pd_config :: pd_config where
  "no_pd_config =
     \<lparr>pd_host = None, pd_service = None, pd_reqfv = [], pd_reqfc = 0, pd_room = 0, pd_suffix = None, pd_fake = 0,
      pd_public = 0, pd_redirect = None, pd_posterror = None, pd_validref = None, pd_referr = None, pd_port = 0,
      pd_protect = 0, pd_checkip = 0, pd_cl = None, pd_ctx = None, pd_cert = None, pd_key = None, pd_cadir = None,
      pd_filterdb = None, pd_hashlen = 0, pd_proxydb = None, pd_tkt_prefix = None, pd_http = 0, pd_noappendport = 0,
      pd_proxy = 0, pd_expiretime = 0, pd_krbtkt = 0, pd_gss = 0\<rparr>"

definition mod_cosign_init :: plugin_data where
  "mod_cosign_init = \<lparr>pl_cfg = no_pd_config, pl_storage = [], pl_conf = no_plugin_config\<rparr>"

section \<open>The server\<close>

text \<open>What \<open>config_insert_values_global\<close> finds in a context for the keys it is given, by the type they are given with.\<close>

record inserted =
  in_string :: "string \<Rightarrow> string option"
  in_short :: "string \<Rightarrow> 16 word option"
  in_array :: "string \<Rightarrow> (string \<times> string) list option"

text \<open>The code \<open>pcre_exec\<close> returns, and the number of elements of the vector it wrote.\<close>

record pcre =
  pcre_compile :: "string \<Rightarrow> bool"
  pcre_exec :: "string option \<Rightarrow> string \<Rightarrow> nat \<Rightarrow> int \<times> nat"

text \<open>
  The contexts are numbered, and 0 is the global one.  \<open>lt_keys\<close> are the keys of a context in their order; \<open>lt_insert\<close> is
  nothing where the server finds a value of the wrong type.
\<close>

record lighttpd =
  lt_contexts :: nat
  lt_keys :: "nat \<Rightarrow> string list"
  lt_insert :: "nat \<Rightarrow> inserted option"
  lt_resolve :: "string \<Rightarrow> 32 word list option"
  lt_crypto :: crypto
  lt_pcre :: pcre
  lt_holds :: "nat \<Rightarrow> nat"

datatype handler = HANDLER_GO_ON | HANDLER_FINISHED | HANDLER_ERROR

section \<open>The start\<close>

text \<open>The keys, by the names of their places in the table.\<close>

definition LT_COSIGN_POST_ERROR_REDIRECT :: string where "LT_COSIGN_POST_ERROR_REDIRECT = ''cosign.post-error-redirect''"
definition LT_COSIGN_SERVICE :: string where "LT_COSIGN_SERVICE = ''cosign.service''"
definition LT_COSIGN_PROTECTED :: string where "LT_COSIGN_PROTECTED = ''cosign.protected''"
definition LT_COSIGN_REDIRECT :: string where "LT_COSIGN_REDIRECT = ''cosign.redirect''"
definition LT_COSIGN_VALIDATION_HANDLER_URI :: string where "LT_COSIGN_VALIDATION_HANDLER_URI = ''cosign.validation-handler-uri''"
definition LT_COSIGN_VALID_REFERENCE :: string where "LT_COSIGN_VALID_REFERENCE = ''cosign.valid-reference''"
definition LT_COSIGN_VALIDATION_ERROR_REDIRECT :: string where "LT_COSIGN_VALIDATION_ERROR_REDIRECT = ''cosign.validation-error-redirect''"
definition LT_COSIGN_PORT :: string where "LT_COSIGN_PORT = ''cosign.port''"
definition LT_COSIGN_HOSTNAME :: string where "LT_COSIGN_HOSTNAME = ''cosign.hostname''"
definition LT_COSIGN_FILTER_DB :: string where "LT_COSIGN_FILTER_DB = ''cosign.filter-db''"
definition LT_COSIGN_TICKET_PREFIX :: string where "LT_COSIGN_TICKET_PREFIX = ''cosign.ticket-prefix''"
definition LT_COSIGN_CHECK_IP :: string where "LT_COSIGN_CHECK_IP = ''cosign.check-ip''"
definition LT_COSIGN_REQUIRE_FACTOR :: string where "LT_COSIGN_REQUIRE_FACTOR = ''cosign.require-factor''"
definition LT_COSIGN_FACTOR_SUFFIX :: string where "LT_COSIGN_FACTOR_SUFFIX = ''cosign.factor-suffix''"
definition LT_COSIGN_FACTOR_SUFFIX_IGNORE :: string where "LT_COSIGN_FACTOR_SUFFIX_IGNORE = ''cosign.factor-suffix-ignore''"
definition LT_COSIGN_ALLOW_PUBLIC_ACCESS :: string where "LT_COSIGN_ALLOW_PUBLIC_ACCESS = ''cosign.allow-public-access''"
definition LT_COSIGN_HTTP_ONLY :: string where "LT_COSIGN_HTTP_ONLY = ''cosign.http-only''"
definition LT_COSIGN_NO_APPEND_REDIRECT_PORT :: string where "LT_COSIGN_NO_APPEND_REDIRECT_PORT = ''cosign.no-append-redirect-port''"
definition LT_COSIGN_CRYPTO :: string where "LT_COSIGN_CRYPTO = ''cosign.crypto''"
definition LT_COSIGN_GET_PROXY_COOKIES :: string where "LT_COSIGN_GET_PROXY_COOKIES = ''cosign.get-proxy-cookies''"
definition LT_COSIGN_COOKIE_EXPIRE_TIME :: string where "LT_COSIGN_COOKIE_EXPIRE_TIME = ''cosign.cookie-expire-time''"
definition LT_COSIGN_GET_KERBEROS_TICKETS :: string where "LT_COSIGN_GET_KERBEROS_TICKETS = ''cosign.get-kerberos-tickets''"
definition LT_COSIGN_KERBEROS_SETUP_GSS :: string where "LT_COSIGN_KERBEROS_SETUP_GSS = ''cosign.kerberos-setup-gss''"

lemmas key_defs =
  LT_COSIGN_POST_ERROR_REDIRECT_def LT_COSIGN_SERVICE_def LT_COSIGN_PROTECTED_def LT_COSIGN_REDIRECT_def
  LT_COSIGN_VALIDATION_HANDLER_URI_def LT_COSIGN_VALID_REFERENCE_def LT_COSIGN_VALIDATION_ERROR_REDIRECT_def
  LT_COSIGN_PORT_def LT_COSIGN_HOSTNAME_def LT_COSIGN_FILTER_DB_def LT_COSIGN_TICKET_PREFIX_def
  LT_COSIGN_CHECK_IP_def LT_COSIGN_REQUIRE_FACTOR_def LT_COSIGN_FACTOR_SUFFIX_def LT_COSIGN_FACTOR_SUFFIX_IGNORE_def
  LT_COSIGN_ALLOW_PUBLIC_ACCESS_def LT_COSIGN_HTTP_ONLY_def LT_COSIGN_NO_APPEND_REDIRECT_PORT_def
  LT_COSIGN_CRYPTO_def LT_COSIGN_GET_PROXY_COOKIES_def LT_COSIGN_COOKIE_EXPIRE_TIME_def
  LT_COSIGN_GET_KERBEROS_TICKETS_def LT_COSIGN_KERBEROS_SETUP_GSS_def

text \<open>
  A text (\<open>T_CONFIG_STRING\<close>) goes into a \<open>buffer\<close>, a number or a Boolean into an \<open>unsigned short\<close>, an array into an \<open>array\<close>.  Two
  texts are given an \<open>int\<close> as their destination.
\<close>

datatype destination =
  To_buffer "string \<Rightarrow> plugin_config \<Rightarrow> plugin_config"
| To_short "16 word \<Rightarrow> plugin_config \<Rightarrow> plugin_config"
| To_array "(string \<times> string) list \<Rightarrow> plugin_config \<Rightarrow> plugin_config"
| String_to_int

definition config_values :: "(string \<times> destination) list" where
  "config_values =
     [(LT_COSIGN_POST_ERROR_REDIRECT, To_buffer (\<lambda>v s. s\<lparr>pc_posterror := Some v\<rparr>)),
      (LT_COSIGN_SERVICE, To_buffer (\<lambda>v s. s\<lparr>pc_service := Some v\<rparr>)),
      (LT_COSIGN_PROTECTED, To_short (\<lambda>v s. s\<lparr>pc_protect := v\<rparr>)),
      (LT_COSIGN_REDIRECT, To_buffer (\<lambda>v s. s\<lparr>pc_redirect := Some v\<rparr>)),
      (LT_COSIGN_VALIDATION_HANDLER_URI, To_buffer (\<lambda>v s. s\<lparr>pc_handleruri := Some v\<rparr>)),
      (LT_COSIGN_VALID_REFERENCE, To_buffer (\<lambda>v s. s\<lparr>pc_validref := Some v\<rparr>)),
      (LT_COSIGN_VALIDATION_ERROR_REDIRECT, To_buffer (\<lambda>v s. s\<lparr>pc_referr := Some v\<rparr>)),
      (LT_COSIGN_PORT, To_short (\<lambda>v s. s\<lparr>pc_port := v\<rparr>)),
      (LT_COSIGN_HOSTNAME, To_buffer (\<lambda>v s. s\<lparr>pc_host := Some v\<rparr>)),
      (LT_COSIGN_FILTER_DB, To_buffer (\<lambda>v s. s\<lparr>pc_filterdb := Some v\<rparr>)),
      (LT_COSIGN_TICKET_PREFIX, To_buffer (\<lambda>v s. s\<lparr>pc_tkt_prefix := Some v\<rparr>)),
      (LT_COSIGN_CHECK_IP, String_to_int),
      (LT_COSIGN_REQUIRE_FACTOR, To_array (\<lambda>v s. s\<lparr>pc_reqf := v\<rparr>)),
      (LT_COSIGN_FACTOR_SUFFIX, To_buffer (\<lambda>v s. s\<lparr>pc_suffix := Some v\<rparr>)),
      (LT_COSIGN_FACTOR_SUFFIX_IGNORE, To_short (\<lambda>v s. s\<lparr>pc_fake := v\<rparr>)),
      (LT_COSIGN_ALLOW_PUBLIC_ACCESS, To_short (\<lambda>v s. s\<lparr>pc_public := v\<rparr>)),
      (LT_COSIGN_HTTP_ONLY, To_short (\<lambda>v s. s\<lparr>pc_http := v\<rparr>)),
      (LT_COSIGN_NO_APPEND_REDIRECT_PORT, To_short (\<lambda>v s. s\<lparr>pc_noappendport := v\<rparr>)),
      (LT_COSIGN_CRYPTO, To_array (\<lambda>v s. s\<lparr>pc_crypto := v\<rparr>)),
      (LT_COSIGN_GET_PROXY_COOKIES, To_short (\<lambda>v s. s\<lparr>pc_proxy := v\<rparr>)),
      (LT_COSIGN_COOKIE_EXPIRE_TIME, String_to_int),
      (LT_COSIGN_GET_KERBEROS_TICKETS, To_short (\<lambda>v s. s\<lparr>pc_krbtkt := v\<rparr>)),
      (LT_COSIGN_KERBEROS_SETUP_GSS, To_short (\<lambda>v s. s\<lparr>pc_gss := v\<rparr>))]"

definition store_value :: "inserted \<Rightarrow> string \<times> destination \<Rightarrow> plugin_config \<Rightarrow> plugin_config outcome" where
  "store_value v row s =
     (case row of
        (key, To_buffer f) \<Rightarrow> Ret (case in_string v key of None \<Rightarrow> s | Some t \<Rightarrow> f t s)
      | (key, To_short f) \<Rightarrow> Ret (case in_short v key of None \<Rightarrow> s | Some b \<Rightarrow> f b s)
      | (key, To_array f) \<Rightarrow> Ret (case in_array v key of None \<Rightarrow> s | Some a \<Rightarrow> f a s)
      | (key, String_to_int) \<Rightarrow> (if in_string v key = None then Ret s else Undefined))"

primrec store_values :: "inserted \<Rightarrow> (string \<times> destination) list \<Rightarrow> plugin_config \<Rightarrow> plugin_config outcome" where
  "store_values v [] s = Ret s"
| "store_values v (row # rows) s = (case store_value v row s of Ret s \<Rightarrow> store_values v rows s | r \<Rightarrow> r)"

definition default_config :: plugin_config where
  "default_config = no_plugin_config
     \<lparr>pc_siteentry := Some None, pc_checkip := IPCHECK_NEVER, pc_filterdb := Some ''/var/cosign/filter'',
      pc_proxydb := Some ''/var/cosign/proxy'', pc_tkt_prefix := Some ''/ticket'', pc_expiretime := 86400\<rparr>"

definition lt_set_valid_reference :: "pcre \<Rightarrow> plugin_config \<Rightarrow> int \<times> plugin_config" where
  "lt_set_valid_reference re s =
     (case pc_validref s of
        None \<Rightarrow> (0, s)
      | Some r \<Rightarrow> if pcre_compile re r then (0, s\<lparr>pc_validpcre := Some r\<rparr>) else (-1, s\<lparr>pc_validpcre := None\<rparr>))"

text \<open>The port is that of \<open>conf\<close>, which no request has filled in yet.\<close>

definition lt_set_host :: "(string \<Rightarrow> 32 word list option) \<Rightarrow> string option \<Rightarrow> plugin_data \<Rightarrow> int \<times> plugin_data" where
  "lt_set_host resolve host p =
     (if pd_cl (pl_cfg p) \<noteq> None then (0, p)
      else case host of
        None \<Rightarrow> (-1, p)
      | Some h \<Rightarrow>
          (case resolve h of
             None \<Rightarrow> (-1, p\<lparr>pl_cfg := (pl_cfg p)\<lparr>pd_cl := Some []\<rparr>\<rparr>)
           | Some addrs \<Rightarrow>
               let port = (if pc_port (pl_conf p) = 0 then 6663 else pc_port (pl_conf p))
               in (0, p\<lparr>pl_cfg := (pl_cfg p)\<lparr>pd_cl := Some (map (\<lambda>a. \<lparr>sin_addr = a, sin_port = port\<rparr>) addrs)\<rparr>\<rparr>)))"

definition lt_crypto_files :: "crypto \<Rightarrow> string \<Rightarrow> string \<Rightarrow> string \<Rightarrow> bool" where
  "lt_crypto_files cr key cert ca \<longleftrightarrow>
     (case cr_stat cr ca of
        None \<Rightarrow> False
      | Some isdir \<Rightarrow> cr_readable cr cert \<and> cr_readable cr key \<and> (if isdir then cr_searchable cr ca else cr_readable cr ca))"

text \<open>A failure after \<open>SSL_CTX_new\<close> leaves the \<open>SSL_CTX\<close>.\<close>

definition lt_set_crypto :: "crypto \<Rightarrow> (string \<times> string) list \<Rightarrow> plugin_data \<Rightarrow> int \<times> plugin_data" where
  "lt_set_crypto cr arr p =
     (if pd_ctx (pl_cfg p) \<noteq> None then (0, p)
      else case (map_of arr ''cert'', map_of arr ''key'', map_of arr ''cadir'') of
        (Some cert, Some key, Some ca) \<Rightarrow>
          if length arr \<noteq> 3 \<or> \<not> lt_crypto_files cr key cert ca \<or> \<not> cr_ctx_new cr then (-1, p)
          else (if crypto_loads cr key cert ca then 0 else -1, p\<lparr>pl_cfg := (pl_cfg p)\<lparr>pd_ctx := Some (key, cert, ca)\<rparr>\<rparr>)
      | _ \<Rightarrow> (-1, p))"

text \<open>The values of a context are in; the checks follow.\<close>

definition check_context :: "lighttpd \<Rightarrow> plugin_config \<Rightarrow> plugin_data \<Rightarrow> int \<times> plugin_data" where
  "check_context lt s p =
     (case (if pc_host s \<noteq> None then lt_set_host (lt_resolve lt) (pc_host s) p else (0, p)) of
        (rc, p) \<Rightarrow>
          if rc \<noteq> 0 then (-1, p\<lparr>pl_storage := pl_storage p @ [s]\<rparr>)
          else case (if pc_crypto s \<noteq> [] then lt_set_crypto (lt_crypto lt) (pc_crypto s) p else (0, p)) of
            (rc, p) \<Rightarrow>
              if rc \<noteq> 0 then (-1, p\<lparr>pl_storage := pl_storage p @ [s]\<rparr>)
              else case lt_set_valid_reference (lt_pcre lt) s of
                (rc, s) \<Rightarrow> (rc, p\<lparr>pl_storage := pl_storage p @ [s]\<rparr>))"

primrec set_contexts :: "lighttpd \<Rightarrow> nat list \<Rightarrow> plugin_data \<Rightarrow> (handler \<times> plugin_data) outcome" where
  "set_contexts lt [] p = Ret (HANDLER_GO_ON, p)"
| "set_contexts lt (i # is) p =
     (case lt_insert lt i of
        None \<Rightarrow> Ret (HANDLER_ERROR, p\<lparr>pl_storage := pl_storage p @ [default_config]\<rparr>)
      | Some v \<Rightarrow>
          (case store_values v config_values default_config of
             Ret s \<Rightarrow>
               (case check_context lt s p of
                  (rc, p) \<Rightarrow> if rc \<noteq> 0 then Ret (HANDLER_ERROR, p) else set_contexts lt is p)
           | Exit n \<Rightarrow> Exit n
           | Undefined \<Rightarrow> Undefined))"

definition mod_cosign_set_defaults :: "lighttpd \<Rightarrow> plugin_data \<Rightarrow> (handler \<times> plugin_data) outcome" where
  "mod_cosign_set_defaults lt p = set_contexts lt [0..<lt_contexts lt] (p\<lparr>pl_storage := []\<rparr>)"

section \<open>The settings of a request\<close>

text \<open>One branch: from the configuration of a context into \<open>conf\<close> and into what the shared code sees.\<close>

type_synonym patch = "plugin_config \<Rightarrow> plugin_data \<Rightarrow> plugin_data outcome"

definition patch ::
  "(plugin_config \<Rightarrow> plugin_config \<Rightarrow> plugin_config) \<Rightarrow> (plugin_config \<Rightarrow> pd_config \<Rightarrow> pd_config) \<Rightarrow> patch" where
  "patch f g s p = Ret (p\<lparr>pl_conf := f s (pl_conf p), pl_cfg := g s (pl_cfg p)\<rparr>)"

text \<open>
  \<open>PATCH_CFG_VECTOR\<close> asks for \<open>sizeof( char * ) + ( u + 1 )\<close> bytes and writes \<open>u + 1\<close> pointers; an empty array changes
  nothing.
\<close>

definition patch_factors :: "(nat \<Rightarrow> nat) \<Rightarrow> patch" where
  "patch_factors holds s p =
     (let p = p\<lparr>pl_conf := (pl_conf p)\<lparr>pc_reqf := pc_reqf s\<rparr>\<rparr>; cfg = pl_cfg p; u = length (pc_reqf s)
      in if u = 0 then Ret p
         else let room = (if pd_reqfc cfg < int u then holds (8 + (u + 1)) else pd_room cfg)
              in if room < 8 * (u + 1) then Undefined
                 else Ret (p\<lparr>pl_cfg := cfg\<lparr>pd_reqfv := map snd (pc_reqf s), pd_reqfc := int u, pd_room := room\<rparr>\<rparr>))"

definition patches :: "(nat \<Rightarrow> nat) \<Rightarrow> (string \<times> patch) list" where
  "patches holds =
     [(LT_COSIGN_POST_ERROR_REDIRECT, patch (\<lambda>s c. c\<lparr>pc_posterror := pc_posterror s\<rparr>) (\<lambda>s d. d\<lparr>pd_posterror := pc_posterror s\<rparr>)),
      (LT_COSIGN_SERVICE, patch (\<lambda>s c. c\<lparr>pc_service := pc_service s\<rparr>) (\<lambda>s d. d\<lparr>pd_service := pc_service s\<rparr>)),
      (LT_COSIGN_PROTECTED, patch (\<lambda>s c. c\<lparr>pc_protect := pc_protect s\<rparr>) (\<lambda>s d. d\<lparr>pd_protect := uint (pc_protect s)\<rparr>)),
      (LT_COSIGN_REDIRECT, patch (\<lambda>s c. c\<lparr>pc_redirect := pc_redirect s\<rparr>) (\<lambda>s d. d\<lparr>pd_redirect := pc_redirect s\<rparr>)),
      (LT_COSIGN_VALIDATION_HANDLER_URI, patch (\<lambda>s c. c\<lparr>pc_handleruri := pc_handleruri s\<rparr>) (\<lambda>s d. d)),
      (LT_COSIGN_VALID_REFERENCE, patch (\<lambda>s c. c\<lparr>pc_validref := pc_validref s, pc_validpcre := pc_validpcre s\<rparr>)
         (\<lambda>s d. d\<lparr>pd_validref := pc_validref s\<rparr>)),
      (LT_COSIGN_VALIDATION_ERROR_REDIRECT, patch (\<lambda>s c. c\<lparr>pc_referr := pc_referr s\<rparr>) (\<lambda>s d. d\<lparr>pd_referr := pc_referr s\<rparr>)),
      (LT_COSIGN_PORT, patch (\<lambda>s c. c\<lparr>pc_port := pc_port s\<rparr>) (\<lambda>s d. d\<lparr>pd_port := pc_port s\<rparr>)),
      (LT_COSIGN_HOSTNAME, patch (\<lambda>s c. c\<lparr>pc_host := pc_host s\<rparr>) (\<lambda>s d. d\<lparr>pd_host := pc_host s\<rparr>)),
      (LT_COSIGN_FILTER_DB, patch (\<lambda>s c. c\<lparr>pc_filterdb := pc_filterdb s\<rparr>) (\<lambda>s d. d\<lparr>pd_filterdb := pc_filterdb s\<rparr>)),
      (LT_COSIGN_TICKET_PREFIX, patch (\<lambda>s c. c\<lparr>pc_tkt_prefix := pc_tkt_prefix s\<rparr>) (\<lambda>s d. d\<lparr>pd_tkt_prefix := pc_tkt_prefix s\<rparr>)),
      (LT_COSIGN_CHECK_IP, patch (\<lambda>s c. c\<lparr>pc_checkip := pc_checkip s\<rparr>) (\<lambda>s d. d\<lparr>pd_checkip := pc_checkip s\<rparr>)),
      (LT_COSIGN_REQUIRE_FACTOR, patch_factors holds),
      (LT_COSIGN_FACTOR_SUFFIX, patch (\<lambda>s c. c\<lparr>pc_suffix := pc_suffix s\<rparr>) (\<lambda>s d. d\<lparr>pd_suffix := pc_suffix s\<rparr>)),
      (LT_COSIGN_FACTOR_SUFFIX_IGNORE, patch (\<lambda>s c. c\<lparr>pc_fake := pc_fake s\<rparr>) (\<lambda>s d. d\<lparr>pd_fake := uint (pc_fake s)\<rparr>)),
      (LT_COSIGN_ALLOW_PUBLIC_ACCESS, patch (\<lambda>s c. c\<lparr>pc_public := pc_public s\<rparr>) (\<lambda>s d. d\<lparr>pd_public := uint (pc_public s)\<rparr>)),
      (LT_COSIGN_HTTP_ONLY, patch (\<lambda>s c. c\<lparr>pc_http := pc_http s\<rparr>) (\<lambda>s d. d\<lparr>pd_http := uint (pc_http s)\<rparr>)),
      (LT_COSIGN_NO_APPEND_REDIRECT_PORT, patch (\<lambda>s c. c\<lparr>pc_noappendport := pc_noappendport s\<rparr>)
         (\<lambda>s d. d\<lparr>pd_noappendport := uint (pc_noappendport s)\<rparr>)),
      (LT_COSIGN_CRYPTO, patch (\<lambda>s c. c\<lparr>pc_crypto := pc_crypto s\<rparr>)
         (\<lambda>s d. d\<lparr>pd_cert := map_of (pc_crypto s) ''cert'', pd_key := map_of (pc_crypto s) ''key'',
           pd_cadir := map_of (pc_crypto s) ''cadir''\<rparr>)),
      (LT_COSIGN_GET_PROXY_COOKIES, patch (\<lambda>s c. c\<lparr>pc_proxy := pc_proxy s\<rparr>) (\<lambda>s d. d\<lparr>pd_proxy := uint (pc_proxy s)\<rparr>)),
      (LT_COSIGN_COOKIE_EXPIRE_TIME, patch (\<lambda>s c. c\<lparr>pc_expiretime := pc_expiretime s\<rparr>)
         (\<lambda>s d. d\<lparr>pd_expiretime := pc_expiretime s\<rparr>)),
      (LT_COSIGN_GET_KERBEROS_TICKETS, patch (\<lambda>s c. c\<lparr>pc_krbtkt := pc_krbtkt s\<rparr>) (\<lambda>s d. d\<lparr>pd_krbtkt := uint (pc_krbtkt s)\<rparr>)),
      (LT_COSIGN_KERBEROS_SETUP_GSS, patch (\<lambda>s c. c\<lparr>pc_gss := pc_gss s\<rparr>) (\<lambda>s d. d\<lparr>pd_gss := uint (pc_gss s)\<rparr>))]"

text \<open>The keys of a context in their order, those of other plugins passed over.\<close>

primrec patch_keys :: "(nat \<Rightarrow> nat) \<Rightarrow> plugin_config \<Rightarrow> string list \<Rightarrow> plugin_data \<Rightarrow> plugin_data outcome" where
  "patch_keys holds s [] p = Ret p"
| "patch_keys holds s (key # keys) p =
     (case map_of (patches holds) key of
        None \<Rightarrow> patch_keys holds s keys p
      | Some f \<Rightarrow> (case f s p of Ret p \<Rightarrow> patch_keys holds s keys p | r \<Rightarrow> r))"

text \<open>\<open>config_check_cond\<close> of the contexts beside the global one.\<close>

primrec patch_contexts :: "lighttpd \<Rightarrow> (nat \<Rightarrow> bool) \<Rightarrow> nat list \<Rightarrow> plugin_data \<Rightarrow> plugin_data outcome" where
  "patch_contexts lt in_context [] p = Ret p"
| "patch_contexts lt in_context (i # is) p =
     (if \<not> in_context i then patch_contexts lt in_context is p
      else case patch_keys (lt_holds lt) (pl_storage p ! i) (lt_keys lt i) p of
        Ret p \<Rightarrow> patch_contexts lt in_context is p
      | r \<Rightarrow> r)"

text \<open>The global context gives every key a value first.\<close>

definition mod_cosign_patch_connection :: "lighttpd \<Rightarrow> (nat \<Rightarrow> bool) \<Rightarrow> plugin_data \<Rightarrow> plugin_data outcome" where
  "mod_cosign_patch_connection lt in_context p =
     (case patch_keys (lt_holds lt) (pl_storage p ! 0) (map fst (patches (lt_holds lt))) p of
        Ret p \<Rightarrow> patch_contexts lt in_context [1..<lt_contexts lt] p
      | r \<Rightarrow> r)"

section \<open>The end\<close>

text \<open>
  The connections are closed, and the list is freed entry by entry: the loop goes on at the address of \<open>conn_next\<close> in the
  entry it has just freed.
\<close>

definition mod_cosign_free :: "plugin_data \<Rightarrow> fconn list \<Rightarrow> unit outcome" where
  "mod_cosign_free p cl =
     (if pd_cl (pl_cfg p) = None then Ret ()
      else case teardown_conn cl of
        Ret cs \<Rightarrow> if cs = [] then Ret () else Undefined
      | Exit n \<Rightarrow> Exit n
      | Undefined \<Rightarrow> Undefined)"

end
