(* ===== verification/Lt_cosign.thy ===== *)
theory Lt_cosign
  imports Lt_config Mod_cosign
begin

text \<open>
  \<open>filters/lighttpd/mod_cosign.c\<close> while requests are served: \<open>cosign_redirect\<close>, the location of service cookies, the check of
  access, and \<open>mod_cosign_uri_handler\<close>, which the server calls.  A connection holds what the functions read of \<open>connection\<close>
  and what they write; headers and environment are the entries in the order they were given to the server.  The search for
  the cookie may not end, which is the value \<open>None\<close>; for the shared code fuel is as for the modules of Apache.
\<close>

section \<open>Requests\<close>

datatype lt_method = LM_GET | LM_HEAD | LM_POST | LM_OTHER

record connection =
  co_direct :: bool
  co_method :: lt_method
  co_path :: string
  co_query :: "string option"
  co_authority :: string
  co_uri :: string
  co_server_name :: "string option"
  co_port :: "16 word"
  co_cookie :: "string option"
  co_ip :: string
  co_status :: int
  co_finished :: bool
  co_headers :: "(string \<times> string) list"
  co_authed_user :: string
  co_environment :: "(string \<times> string) list"

text \<open>A buffer given to the server with \<open>CONST_BUF_LEN\<close> or appended to another.\<close>

definition buffer_text :: "string option \<Rightarrow> string" where
  "buffer_text b = (case b of None \<Rightarrow> [] | Some s \<Rightarrow> s)"

definition insert_header :: "string \<Rightarrow> string \<Rightarrow> connection \<Rightarrow> connection" where
  "insert_header key v con = con\<lparr>co_headers := co_headers con @ [(key, v)]\<rparr>"

definition finish :: "int \<Rightarrow> connection \<Rightarrow> connection" where
  "finish st con = con\<lparr>co_status := st, co_direct := True, co_finished := True\<rparr>"

type_synonym lt_answer = "(handler \<times> connection) outcome option filtering"

definition lt_respond :: "handler \<Rightarrow> connection \<Rightarrow> lt_answer" where
  "lt_respond h con = ret (Some (Ret (h, con)))"

definition lt_finish :: "int \<Rightarrow> connection \<Rightarrow> lt_answer" where
  "lt_finish st con = lt_respond HANDLER_FINISHED (finish st con)"

section \<open>The shared code\<close>

text \<open>
  What the shared code reads; \<open>%s\<close> of a null \<open>proxydb\<close> or \<open>tkt_prefix\<close> prints \<open>(null)\<close>.  Where there are servers and the host is
  null, the comparison with the name of a certificate follows it: the answer counts as undefined once servers are asked.
\<close>

definition lt_filter :: "pd_config \<Rightarrow> string \<Rightarrow> filter_config" where
  "lt_filter d db =
     \<lparr>fc_host = buffer_text (pd_host d), fc_reqfv = take (nat (pd_reqfc d)) (pd_reqfv d), fc_suffix = pd_suffix d,
      fc_fake = pd_fake d, fc_checkip = pd_checkip d, fc_filterdb = db, fc_hashlen = pd_hashlen d,
      fc_proxydb = pr_str (pd_proxydb d), fc_tkt_prefix = pr_str (pd_tkt_prefix d), fc_proxy = pd_proxy d,
      fc_krbtkt = pd_krbtkt d, fc_listed = (pd_cl d \<noteq> None \<and> pd_host d \<noteq> None)\<rparr>"

text \<open>\<open>access\<close> fails for a null \<open>filterdb\<close>.\<close>

definition lt_cookie_valid :: "pd_config \<Rightarrow> string \<Rightarrow> rekeying \<Rightarrow> string \<Rightarrow> nat \<Rightarrow> validity outcome option filtering" where
  "lt_cookie_valid d cookie rekey ipaddr n =
     (case pd_filterdb d of
        None \<Rightarrow> ret (Some (Ret (COSIGN_ERROR, sinfo_zero, rekey)))
      | Some db \<Rightarrow> cosign_cookie_valid (lt_filter d db) cookie rekey ipaddr n)"

section \<open>Sending the user to the login\<close>

text \<open>The text before the last colon.\<close>

definition strip_port :: "string \<Rightarrow> string" where
  "strip_port s = (if CHR '':'' \<in> set s then rev (tl (dropWhile (\<lambda>c. c \<noteq> CHR '':'') (rev s))) else s)"

text \<open>This page; the port is cut from the authority after that was copied.\<close>

definition lt_self :: "plugin_config \<Rightarrow> connection \<Rightarrow> string \<times> connection" where
  "lt_self conf con =
     (let scheme = (if pc_http conf \<noteq> 0 then ''http://'' else ''https://'')
      in case co_server_name con of
           None \<Rightarrow>
             (scheme @ co_authority con @ co_uri con,
              if pc_noappendport conf \<noteq> 0 then con\<lparr>co_authority := strip_port (co_authority con)\<rparr> else con)
         | Some name \<Rightarrow>
             (scheme @ name @
              (if co_port con \<noteq> (if pc_http conf \<noteq> 0 then 80 else 443) \<and> pc_noappendport conf = 0
               then '':'' @ show_int (uint (co_port con)) else []) @ co_uri con, con))"

definition lt_ref :: "plugin_config \<Rightarrow> connection \<Rightarrow> string \<times> connection" where
  "lt_ref conf con =
     (case pc_siteentry conf of
        None \<Rightarrow> lt_self conf con
      | Some s \<Rightarrow> if \<not> strcaseeq (buffer_text s) ''none'' then (buffer_text s, con) else lt_self conf con)"

definition lt_query :: "plugin_config \<Rightarrow> string \<Rightarrow> string" where
  "lt_query conf ref =
     (if pc_reqf conf \<noteq> [] then ''factors='' @ comma_list (map snd (pc_reqf conf)) @ ''&'' else []) @
     buffer_text (pc_service conf) @ ''&'' @ ref"

definition lt_redirect :: "plugin_config \<Rightarrow> connection \<Rightarrow> int \<times> connection" where
  "lt_redirect conf con =
     (if co_method con = LM_POST then (0, finish 302 (insert_header ''Location'' (buffer_text (pc_posterror conf)) con))
      else case lt_ref conf con of
        (ref, con) \<Rightarrow>
          (0, finish 302 (insert_header ''Location'' (buffer_text (pc_redirect conf) @ ''?'' @ lt_query conf ref) con)))"

section \<open>The location of service cookies\<close>

definition lt_validation_failed :: "plugin_config \<Rightarrow> connection \<Rightarrow> lt_answer" where
  "lt_validation_failed conf con = lt_finish 301 (insert_header ''Location'' (buffer_text (pc_referr conf)) con)"

definition lt_full_cookie :: "string \<Rightarrow> int \<Rightarrow> string \<Rightarrow> string" where
  "lt_full_cookie cookie sec dest =
     cookie @ ''/'' @ show_int (sec mod 2 ^ 64) @ ''; path=/'' @ (if starts_with dest ''https://'' then ''; secure'' else [])"

text \<open>Where \<open>gettimeofday\<close> fails, \<open>now\<close> is not assigned.\<close>

definition lt_accepted :: "string \<Rightarrow> string \<Rightarrow> connection \<Rightarrow> lt_answer" where
  "lt_accepted cookie dest con = do {
     t \<leftarrow> gettimeofday;
     case t of
       None \<Rightarrow> ret (Some Undefined)
     | Some tv \<Rightarrow>
         lt_finish 301 (insert_header ''Location'' dest (insert_header ''Set-Cookie'' (lt_full_cookie cookie (tv_sec tv) dest) con)) }"

definition lt_validate :: "pd_config \<Rightarrow> nat \<Rightarrow> string \<Rightarrow> string \<Rightarrow> connection \<Rightarrow> lt_answer" where
  "lt_validate d n cookie dest con = do {
     v \<leftarrow> lt_cookie_valid d cookie (Some None) (co_ip con) n;
     case v of
       None \<Rightarrow> ret None
     | Some Undefined \<Rightarrow> ret (Some Undefined)
     | Some (Exit c) \<Rightarrow> ret (Some (Exit c))
     | Some (Ret (cv, si, rekey)) \<Rightarrow>
         if cv = COSIGN_RETRY then lt_finish 301 (insert_header ''Location'' dest con)
         else if cv = COSIGN_OK then lt_accepted (case rekey of Some (Some new) \<Rightarrow> new | _ \<Rightarrow> cookie) dest con
         else lt_finish 503 con }"

text \<open>\<open>ovec\<close> has 3 elements, \<open>sizeof( ovec )\<close> is 12.\<close>

definition OVEC :: nat where "OVEC = 3"
definition SIZEOF_OVEC :: nat where "SIZEOF_OVEC = 12"
definition PCRE_ERROR_NOMATCH :: int where "PCRE_ERROR_NOMATCH = -1"

text \<open>The subject is the destination with the NUL that ends it, as \<open>used\<close> counts it.\<close>

definition lt_match :: "pcre \<Rightarrow> plugin_config \<Rightarrow> string \<Rightarrow> int outcome" where
  "lt_match re conf dest =
     (case pcre_exec re (pc_validpcre conf) (dest @ [NUL]) SIZEOF_OVEC of
        (rc, wrote) \<Rightarrow> if OVEC < wrote then Undefined else Ret rc)"

definition lt_destination :: "pcre \<Rightarrow> plugin_config \<Rightarrow> pd_config \<Rightarrow> nat \<Rightarrow> string \<Rightarrow> connection \<Rightarrow> lt_answer" where
  "lt_destination re conf d n qs con =
     (if \<not> starts_with_nocase qs ''cosign-'' then lt_validation_failed conf con
      else if CHR ''&'' \<notin> set qs then lt_validation_failed conf con
      else
        let cookie = takeWhile (\<lambda>c. c \<noteq> CHR ''&'') qs; dest = tl (dropWhile (\<lambda>c. c \<noteq> CHR ''&'') qs)
        in if dest = [] then lt_validation_failed conf con
           else case lt_match re conf dest of
             Undefined \<Rightarrow> ret (Some Undefined)
           | Exit c \<Rightarrow> ret (Some (Exit c))
           | Ret rc \<Rightarrow>
               if rc < 0 then if rc \<noteq> PCRE_ERROR_NOMATCH then lt_finish 500 con else lt_validation_failed conf con
               else if \<not> validchars cookie then lt_validation_failed conf con
               else lt_validate d n cookie dest con)"

definition lt_handler :: "pcre \<Rightarrow> plugin_config \<Rightarrow> pd_config \<Rightarrow> nat \<Rightarrow> connection \<Rightarrow> lt_answer" where
  "lt_handler re conf d n con =
     (if pc_handleruri conf \<noteq> Some (co_path con) then lt_respond HANDLER_GO_ON con
      else if co_method con \<noteq> LM_GET \<and> co_method con \<noteq> LM_HEAD then
        lt_finish 405 (insert_header ''Location'' (buffer_text (pc_posterror conf)) con)
      else if pc_validref conf = None then lt_finish 503 con
      else if pc_referr conf = None then lt_finish 503 con
      else case co_query con of
        None \<Rightarrow> lt_finish 403 con
      | Some qs \<Rightarrow> lt_destination re conf d n qs con)"

section \<open>Protected pages\<close>

text \<open>
  The loop over the header: a name is compared as far as it goes, and where nothing after a semicolon has an equals sign, the
  loop starts over with the same text.
\<close>

partial_function (option) lt_cookie :: "string \<Rightarrow> string \<Rightarrow> string option option" where
  "lt_cookie service data =
     (if data = [] then Some None
      else let data = dropWhile (\<lambda>c. c = CHR '' '') data
        in if CHR '';'' \<notin> set data \<and> data = [] then Some None
           else if CHR ''='' \<notin> set data then lt_cookie service data
           else if starts_with_nocase service (takeWhile (\<lambda>c. c \<noteq> CHR ''='') data) then
             Some (Some (takeWhile (\<lambda>c. c \<noteq> CHR '';'') data))
           else if CHR '';'' \<notin> set data then Some None
           else lt_cookie service (tl (dropWhile (\<lambda>c. c \<noteq> CHR '';'') data)))"

text \<open>The cookie up to its last slash, and what follows that.\<close>

definition cut_slash :: "string \<Rightarrow> string \<times> string option" where
  "cut_slash s =
     (if CHR ''/'' \<in> set s then
        (rev (tl (dropWhile (\<lambda>c. c \<noteq> CHR ''/'') (rev s))), Some (rev (takeWhile (\<lambda>c. c \<noteq> CHR ''/'') (rev s))))
      else (s, None))"

text \<open>At the label \<open>redirect\<close>.\<close>

definition lt_no_cookie :: "plugin_config \<Rightarrow> connection \<Rightarrow> lt_answer" where
  "lt_no_cookie conf con =
     (if pc_public conf = 1 then lt_respond HANDLER_GO_ON con
      else case lt_redirect conf con of (rc, con) \<Rightarrow> lt_finish (if rc \<noteq> 0 then 503 else 302) con)"

definition lt_let_through :: "plugin_config \<Rightarrow> sinfo \<Rightarrow> connection \<Rightarrow> connection" where
  "lt_let_through conf si con =
     con\<lparr>co_authed_user := si_user si, co_environment := co_environment con @
       [(''COSIGN_SERVICE'', buffer_text (pc_service conf)), (''REMOTE_REALM'', si_realm si), (''COSIGN_FACTOR'', si_factor si)] @
       (if pc_krbtkt conf = 1 then [(''KRB5CCNAME'', si_krb5tkt si)] else [])\<rparr>"

definition lt_check_visit :: "plugin_config \<Rightarrow> pd_config \<Rightarrow> nat \<Rightarrow> string \<Rightarrow> connection \<Rightarrow> lt_answer" where
  "lt_check_visit conf d n cookie con = do {
     v \<leftarrow> lt_cookie_valid d cookie None (co_ip con) n;
     case v of
       None \<Rightarrow> ret None
     | Some Undefined \<Rightarrow> ret (Some Undefined)
     | Some (Exit c) \<Rightarrow> ret (Some (Exit c))
     | Some (Ret (cv, si, rekey)) \<Rightarrow>
         if cv = COSIGN_ERROR then lt_finish 503 con
         else if cv = COSIGN_OK then lt_respond HANDLER_GO_ON (lt_let_through conf si con)
         else lt_no_cookie conf con }"

definition lt_visit_with :: "plugin_config \<Rightarrow> pd_config \<Rightarrow> nat \<Rightarrow> string \<Rightarrow> connection \<Rightarrow> lt_answer" where
  "lt_visit_with conf d n my_cookie con = do {
     t \<leftarrow> gettimeofday;
     case cut_slash my_cookie of
       (cookie, misc) \<Rightarrow>
         let cookietime = (case misc of None \<Rightarrow> 0 | Some m \<Rightarrow> atoi m)
         in if 0 < cookietime \<and> t = None then ret (Some Undefined)
            else if 0 < cookietime \<and> pc_expiretime conf < tv_sec (the t) - cookietime then lt_no_cookie conf con
            else if \<not> validchars cookie then lt_no_cookie conf con
            else lt_check_visit conf d n cookie con }"

text \<open>\<open>used\<close> counts the NUL.\<close>

definition lt_auth :: "plugin_config \<Rightarrow> pd_config \<Rightarrow> nat \<Rightarrow> connection \<Rightarrow> lt_answer" where
  "lt_auth conf d n con =
     (if pc_protect conf = 0 then lt_respond HANDLER_GO_ON con
      else case (pc_host conf, pc_redirect conf, pc_service conf, pc_posterror conf) of
        (Some _, Some _, Some service, Some _) \<Rightarrow>
          (case co_cookie con of
             None \<Rightarrow> lt_no_cookie conf con
           | Some data \<Rightarrow>
               (case lt_cookie service data of
                  None \<Rightarrow> ret None
                | Some None \<Rightarrow> lt_no_cookie conf con
                | Some (Some my_cookie) \<Rightarrow>
                    if length my_cookie + 1 < 120 then lt_no_cookie conf con else lt_visit_with conf d n my_cookie con))
      | _ \<Rightarrow> lt_finish 503 con)"

section \<open>A request\<close>

definition lt_serve :: "pcre \<Rightarrow> plugin_config \<Rightarrow> pd_config \<Rightarrow> nat \<Rightarrow> connection \<Rightarrow> lt_answer" where
  "lt_serve re conf d n con =
     (if pc_handleruri conf = None then lt_respond HANDLER_ERROR con
      else if pc_handleruri conf = Some (co_path con) then do {
        a \<leftarrow> lt_handler re conf d n con;
        case a of
          Some (Ret (rc, con)) \<Rightarrow> if rc \<noteq> HANDLER_GO_ON then lt_respond rc con else lt_auth conf d n con
        | _ \<Rightarrow> ret a }
      else lt_auth conf d n con)"

text \<open>The settings put together for this request stay in the plugin.\<close>

definition mod_cosign_uri_handler ::
  "lighttpd \<Rightarrow> (nat \<Rightarrow> bool) \<Rightarrow> nat \<Rightarrow> connection \<Rightarrow> plugin_data \<Rightarrow>
     ((handler \<times> connection) outcome option \<times> plugin_data) filtering" where
  "mod_cosign_uri_handler lt in_context n con p =
     (if \<not> co_direct con then ret (Some (Ret (HANDLER_GO_ON, con)), p)
      else case mod_cosign_patch_connection lt in_context p of
        Ret p \<Rightarrow> do { a \<leftarrow> lt_serve (lt_pcre lt) (pl_conf p) (pl_cfg p) n con; ret (a, p) }
      | Exit c \<Rightarrow> ret (Some (Exit c), p)
      | Undefined \<Rightarrow> ret (Some Undefined, p))"

end
