(* ===== verification/Lt_law.thy ===== *)
theory Lt_law
  imports Lt_cosign
begin

text \<open>
  What the plugin for Lighttpd runs a request with.  For each key one context of the server's file decides; the locale
  \<open>setting\<close> states what the branches of \<open>mod_cosign_patch_connection\<close> owe to a key, and is interpreted for the keys of the table.
\<close>

section \<open>Keys\<close>

lemma keys_distinct:
  "distinct [LT_COSIGN_POST_ERROR_REDIRECT, LT_COSIGN_SERVICE, LT_COSIGN_PROTECTED, LT_COSIGN_REDIRECT,
    LT_COSIGN_VALIDATION_HANDLER_URI, LT_COSIGN_VALID_REFERENCE, LT_COSIGN_VALIDATION_ERROR_REDIRECT, LT_COSIGN_PORT,
    LT_COSIGN_HOSTNAME, LT_COSIGN_FILTER_DB, LT_COSIGN_TICKET_PREFIX, LT_COSIGN_CHECK_IP,
    LT_COSIGN_REQUIRE_FACTOR, LT_COSIGN_FACTOR_SUFFIX, LT_COSIGN_FACTOR_SUFFIX_IGNORE, LT_COSIGN_ALLOW_PUBLIC_ACCESS,
    LT_COSIGN_HTTP_ONLY, LT_COSIGN_NO_APPEND_REDIRECT_PORT, LT_COSIGN_CRYPTO, LT_COSIGN_GET_PROXY_COOKIES,
    LT_COSIGN_COOKIE_EXPIRE_TIME, LT_COSIGN_GET_KERBEROS_TICKETS, LT_COSIGN_KERBEROS_SETUP_GSS]"
  by (simp add: key_defs)

lemmas key_neq [simp] = keys_distinct [simplified] keys_distinct [THEN distinct_rev [THEN iffD2], simplified]

section \<open>What the branches leave alone\<close>

lemma patch_ret [simp]: "patch f g s p = Ret p' \<longleftrightarrow> p' = p\<lparr>pl_conf := f s (pl_conf p), pl_cfg := g s (pl_cfg p)\<rparr>"
  by (auto simp: patch_def)

lemma patch_factors_ret:
  assumes "patch_factors holds s p = Ret p'"
  shows "\<exists>v c r. p' = p\<lparr>pl_conf := (pl_conf p)\<lparr>pc_reqf := pc_reqf s\<rparr>,
    pl_cfg := (pl_cfg p)\<lparr>pd_reqfv := v, pd_reqfc := c, pd_room := r\<rparr>\<rparr>"
proof -
  have same: "pl_cfg p = (pl_cfg p)\<lparr>pd_reqfv := pd_reqfv (pl_cfg p), pd_reqfc := pd_reqfc (pl_cfg p), pd_room := pd_room (pl_cfg p)\<rparr>"
    by simp
  have keep: "p\<lparr>pl_conf := x\<rparr> = p\<lparr>pl_conf := x, pl_cfg := pl_cfg p\<rparr>" for x by simp
  show ?thesis
  proof (cases "pc_reqf s = []")
    case True
    then have "p' = p\<lparr>pl_conf := (pl_conf p)\<lparr>pc_reqf := pc_reqf s\<rparr>\<rparr>" using assms by (simp add: patch_factors_def Let_def)
    then show ?thesis using same keep by metis
  next
    case False
    then have "p' = p\<lparr>pl_conf := (pl_conf p)\<lparr>pc_reqf := pc_reqf s\<rparr>, pl_cfg := (pl_cfg p)
        \<lparr>pd_reqfv := map snd (pc_reqf s), pd_reqfc := int (length (pc_reqf s)), pd_room := pd_room (pl_cfg p')\<rparr>\<rparr>"
      using assms by (auto simp: patch_factors_def Let_def split: if_splits)
    then show ?thesis by blast
  qed
qed

text \<open>What no branch writes.\<close>

definition unpatched :: "plugin_data \<Rightarrow> plugin_config list \<times> string option option \<times> int \<times> string option \<times>
  sin list option \<times> (string \<times> string \<times> string) option \<times> int \<times> string option" where
  "unpatched p =
     (pl_storage p, pc_siteentry (pl_conf p), pc_hashlen (pl_conf p), pc_proxydb (pl_conf p),
      pd_cl (pl_cfg p), pd_ctx (pl_cfg p), pd_hashlen (pl_cfg p), pd_proxydb (pl_cfg p))"

lemma row_unpatched: "(k, f) \<in> set (patches holds) \<Longrightarrow> f s p = Ret p' \<Longrightarrow> unpatched p' = unpatched p"
  by (auto simp: patches_def unpatched_def dest!: patch_factors_ret)

lemma keys_unpatched: "patch_keys holds s ks p = Ret p' \<Longrightarrow> unpatched p' = unpatched p"
proof (induction ks arbitrary: p)
  case (Cons k ks)
  then show ?case by (auto split: option.splits outcome.splits dest!: map_of_SomeD dest: row_unpatched)
qed simp

lemma keys_storage: "patch_keys holds s ks p = Ret p' \<Longrightarrow> pl_storage p' = pl_storage p"
  using keys_unpatched by (simp add: unpatched_def)

lemma contexts_unpatched: "patch_contexts lt in_context is p = Ret p' \<Longrightarrow> unpatched p' = unpatched p"
  by (induction "is" arbitrary: p) (auto split: if_splits outcome.splits dest: keys_unpatched)

lemma connection_unpatched:
  assumes "mod_cosign_patch_connection lt in_context p = Ret p'"
  shows "unpatched p' = unpatched p"
proof -
  obtain q where "patch_keys (lt_holds lt) (pl_storage p ! 0) (map fst (patches (lt_holds lt))) p = Ret q"
    "patch_contexts lt in_context [1..<lt_contexts lt] q = Ret p'"
    using assms by (auto simp: mod_cosign_patch_connection_def split: outcome.splits)
  then show ?thesis using keys_unpatched contexts_unpatched by metis
qed

section \<open>Settings\<close>

text \<open>The last context the request is in that names the key, or the global one.\<close>

definition deciding :: "lighttpd \<Rightarrow> (nat \<Rightarrow> bool) \<Rightarrow> string \<Rightarrow> nat" where
  "deciding lt in_context key =
     last (0 # filter (\<lambda>i. in_context i \<and> key \<in> set (lt_keys lt i)) [1..<lt_contexts lt])"

locale setting =
  fixes key :: string and of_context :: "plugin_config \<Rightarrow> 'a" and seen :: "plugin_data \<Rightarrow> 'a"
  assumes known: "key \<in> fst ` set (patches holds)"
    and sets: "(key, f) \<in> set (patches holds) \<Longrightarrow> f s p = Ret p' \<Longrightarrow> seen p' = of_context s"
    and keeps: "(k, f) \<in> set (patches holds) \<Longrightarrow> k \<noteq> key \<Longrightarrow> f s p = Ret p' \<Longrightarrow> seen p' = seen p"
begin

lemma patched: "patch_keys holds s ks p = Ret p' \<Longrightarrow> seen p' = (if key \<in> set ks then of_context s else seen p)"
proof (induction ks arbitrary: p)
  case (Cons k ks)
  show ?case
  proof (cases "map_of (patches holds) k")
    case None
    then have "k \<noteq> key" using known by (metis map_of_eq_None_iff)
    then show ?thesis using Cons None by auto
  next
    case (Some f)
    then obtain q where q: "f s p = Ret q" "patch_keys holds s ks q = Ret p'"
      using Cons.prems by (auto split: outcome.splits)
    have "(k, f) \<in> set (patches holds)" using Some by (rule map_of_SomeD)
    then have "seen q = (if k = key then of_context s else seen p)" using q(1) sets keeps by auto
    then show ?thesis using Cons.IH [OF q(2)] by auto
  qed
qed simp

lemma over_contexts:
  "patch_contexts lt in_context is p = Ret p' \<Longrightarrow>
   seen p' = (let js = filter (\<lambda>i. in_context i \<and> key \<in> set (lt_keys lt i)) is
     in if js = [] then seen p else of_context (pl_storage p ! last js))"
proof (induction "is" arbitrary: p)
  case (Cons i "is")
  show ?case
  proof (cases "in_context i")
    case True
    then obtain q where q: "patch_keys (lt_holds lt) (pl_storage p ! i) (lt_keys lt i) p = Ret q"
      "patch_contexts lt in_context is q = Ret p'"
      using Cons.prems by (auto split: outcome.splits)
    show ?thesis
      using Cons.IH [OF q(2)] patched [OF q(1)] keys_storage [OF q(1)] True by (auto simp: Let_def)
  qed (use Cons in simp)
qed simp

lemma effective:
  assumes "mod_cosign_patch_connection lt in_context p = Ret p'"
  shows "seen p' = of_context (pl_storage p ! deciding lt in_context key)"
proof -
  obtain q where q: "patch_keys (lt_holds lt) (pl_storage p ! 0) (map fst (patches (lt_holds lt))) p = Ret q"
    "patch_contexts lt in_context [1..<lt_contexts lt] q = Ret p'"
    using assms by (auto simp: mod_cosign_patch_connection_def split: outcome.splits)
  have "seen q = of_context (pl_storage p ! 0)" using patched [OF q(1)] known [of "lt_holds lt"] by auto
  then show ?thesis using over_contexts [OF q(2)] keys_storage [OF q(1)] by (auto simp: deciding_def Let_def)
qed

end

lemmas row_defs = patches_def patch_ret

interpretation posterror: setting LT_COSIGN_POST_ERROR_REDIRECT "\<lambda>s. (pc_posterror s, pc_posterror s)"
  "\<lambda>p. (pc_posterror (pl_conf p), pd_posterror (pl_cfg p))"
  by unfold_locales (auto simp: row_defs dest!: patch_factors_ret)

interpretation service: setting LT_COSIGN_SERVICE "\<lambda>s. (pc_service s, pc_service s)"
  "\<lambda>p. (pc_service (pl_conf p), pd_service (pl_cfg p))"
  by unfold_locales (auto simp: row_defs dest!: patch_factors_ret)

interpretation protect: setting LT_COSIGN_PROTECTED "\<lambda>s. (pc_protect s, uint (pc_protect s))"
  "\<lambda>p. (pc_protect (pl_conf p), pd_protect (pl_cfg p))"
  by unfold_locales (auto simp: row_defs dest!: patch_factors_ret)

interpretation redirect: setting LT_COSIGN_REDIRECT "\<lambda>s. (pc_redirect s, pc_redirect s)"
  "\<lambda>p. (pc_redirect (pl_conf p), pd_redirect (pl_cfg p))"
  by unfold_locales (auto simp: row_defs dest!: patch_factors_ret)

interpretation handleruri: setting LT_COSIGN_VALIDATION_HANDLER_URI "pc_handleruri"
  "\<lambda>p. pc_handleruri (pl_conf p)"
  by unfold_locales (auto simp: row_defs dest!: patch_factors_ret)

interpretation referr: setting LT_COSIGN_VALIDATION_ERROR_REDIRECT "\<lambda>s. (pc_referr s, pc_referr s)"
  "\<lambda>p. (pc_referr (pl_conf p), pd_referr (pl_cfg p))"
  by unfold_locales (auto simp: row_defs dest!: patch_factors_ret)

interpretation port: setting LT_COSIGN_PORT "\<lambda>s. (pc_port s, pc_port s)"
  "\<lambda>p. (pc_port (pl_conf p), pd_port (pl_cfg p))"
  by unfold_locales (auto simp: row_defs dest!: patch_factors_ret)

interpretation host: setting LT_COSIGN_HOSTNAME "\<lambda>s. (pc_host s, pc_host s)"
  "\<lambda>p. (pc_host (pl_conf p), pd_host (pl_cfg p))"
  by unfold_locales (auto simp: row_defs dest!: patch_factors_ret)

interpretation filterdb: setting LT_COSIGN_FILTER_DB "\<lambda>s. (pc_filterdb s, pc_filterdb s)"
  "\<lambda>p. (pc_filterdb (pl_conf p), pd_filterdb (pl_cfg p))"
  by unfold_locales (auto simp: row_defs dest!: patch_factors_ret)

interpretation tkt_prefix: setting LT_COSIGN_TICKET_PREFIX "\<lambda>s. (pc_tkt_prefix s, pc_tkt_prefix s)"
  "\<lambda>p. (pc_tkt_prefix (pl_conf p), pd_tkt_prefix (pl_cfg p))"
  by unfold_locales (auto simp: row_defs dest!: patch_factors_ret)

interpretation checkip: setting LT_COSIGN_CHECK_IP "\<lambda>s. (pc_checkip s, pc_checkip s)"
  "\<lambda>p. (pc_checkip (pl_conf p), pd_checkip (pl_cfg p))"
  by unfold_locales (auto simp: row_defs dest!: patch_factors_ret)

interpretation reqf: setting LT_COSIGN_REQUIRE_FACTOR "pc_reqf"
  "\<lambda>p. pc_reqf (pl_conf p)"
  by unfold_locales (auto simp: row_defs dest!: patch_factors_ret)

interpretation suffix: setting LT_COSIGN_FACTOR_SUFFIX "\<lambda>s. (pc_suffix s, pc_suffix s)"
  "\<lambda>p. (pc_suffix (pl_conf p), pd_suffix (pl_cfg p))"
  by unfold_locales (auto simp: row_defs dest!: patch_factors_ret)

interpretation fake: setting LT_COSIGN_FACTOR_SUFFIX_IGNORE "\<lambda>s. (pc_fake s, uint (pc_fake s))"
  "\<lambda>p. (pc_fake (pl_conf p), pd_fake (pl_cfg p))"
  by unfold_locales (auto simp: row_defs dest!: patch_factors_ret)

interpretation public: setting LT_COSIGN_ALLOW_PUBLIC_ACCESS "\<lambda>s. (pc_public s, uint (pc_public s))"
  "\<lambda>p. (pc_public (pl_conf p), pd_public (pl_cfg p))"
  by unfold_locales (auto simp: row_defs dest!: patch_factors_ret)

interpretation http: setting LT_COSIGN_HTTP_ONLY "\<lambda>s. (pc_http s, uint (pc_http s))"
  "\<lambda>p. (pc_http (pl_conf p), pd_http (pl_cfg p))"
  by unfold_locales (auto simp: row_defs dest!: patch_factors_ret)

interpretation noappendport: setting LT_COSIGN_NO_APPEND_REDIRECT_PORT "\<lambda>s. (pc_noappendport s, uint (pc_noappendport s))"
  "\<lambda>p. (pc_noappendport (pl_conf p), pd_noappendport (pl_cfg p))"
  by unfold_locales (auto simp: row_defs dest!: patch_factors_ret)

interpretation crypto: setting LT_COSIGN_CRYPTO "pc_crypto"
  "\<lambda>p. pc_crypto (pl_conf p)"
  by unfold_locales (auto simp: row_defs dest!: patch_factors_ret)

interpretation proxy: setting LT_COSIGN_GET_PROXY_COOKIES "\<lambda>s. (pc_proxy s, uint (pc_proxy s))"
  "\<lambda>p. (pc_proxy (pl_conf p), pd_proxy (pl_cfg p))"
  by unfold_locales (auto simp: row_defs dest!: patch_factors_ret)

interpretation expiretime: setting LT_COSIGN_COOKIE_EXPIRE_TIME "\<lambda>s. (pc_expiretime s, pc_expiretime s)"
  "\<lambda>p. (pc_expiretime (pl_conf p), pd_expiretime (pl_cfg p))"
  by unfold_locales (auto simp: row_defs dest!: patch_factors_ret)

interpretation krbtkt: setting LT_COSIGN_GET_KERBEROS_TICKETS "\<lambda>s. (pc_krbtkt s, uint (pc_krbtkt s))"
  "\<lambda>p. (pc_krbtkt (pl_conf p), pd_krbtkt (pl_cfg p))"
  by unfold_locales (auto simp: row_defs dest!: patch_factors_ret)

interpretation gss: setting LT_COSIGN_KERBEROS_SETUP_GSS "\<lambda>s. (pc_gss s, uint (pc_gss s))"
  "\<lambda>p. (pc_gss (pl_conf p), pd_gss (pl_cfg p))"
  by unfold_locales (auto simp: row_defs dest!: patch_factors_ret)

interpretation validref: setting LT_COSIGN_VALID_REFERENCE "\<lambda>s. (pc_validref s, pc_validpcre s, pc_validref s)"
  "\<lambda>p. (pc_validref (pl_conf p), pc_validpcre (pl_conf p), pd_validref (pl_cfg p))"
  by unfold_locales (auto simp: row_defs dest!: patch_factors_ret)

section \<open>What a request runs with\<close>

text \<open>Setting by setting, that of the context that decides its key; three settings have no key.\<close>

definition effective_conf :: "lighttpd \<Rightarrow> (nat \<Rightarrow> bool) \<Rightarrow> plugin_config list \<Rightarrow> plugin_config" where
  "effective_conf lt in_context st =
     (let c = (\<lambda>key. st ! deciding lt in_context key)
      in \<lparr>pc_host = pc_host (c LT_COSIGN_HOSTNAME), pc_service = pc_service (c LT_COSIGN_SERVICE), pc_siteentry = None,
          pc_reqf = pc_reqf (c LT_COSIGN_REQUIRE_FACTOR), pc_suffix = pc_suffix (c LT_COSIGN_FACTOR_SUFFIX),
          pc_fake = pc_fake (c LT_COSIGN_FACTOR_SUFFIX_IGNORE), pc_public = pc_public (c LT_COSIGN_ALLOW_PUBLIC_ACCESS),
          pc_redirect = pc_redirect (c LT_COSIGN_REDIRECT), pc_posterror = pc_posterror (c LT_COSIGN_POST_ERROR_REDIRECT),
          pc_handleruri = pc_handleruri (c LT_COSIGN_VALIDATION_HANDLER_URI),
          pc_validref = pc_validref (c LT_COSIGN_VALID_REFERENCE), pc_validpcre = pc_validpcre (c LT_COSIGN_VALID_REFERENCE),
          pc_referr = pc_referr (c LT_COSIGN_VALIDATION_ERROR_REDIRECT), pc_port = pc_port (c LT_COSIGN_PORT),
          pc_protect = pc_protect (c LT_COSIGN_PROTECTED), pc_checkip = pc_checkip (c LT_COSIGN_CHECK_IP),
          pc_crypto = pc_crypto (c LT_COSIGN_CRYPTO), pc_filterdb = pc_filterdb (c LT_COSIGN_FILTER_DB), pc_hashlen = 0,
          pc_proxydb = None, pc_tkt_prefix = pc_tkt_prefix (c LT_COSIGN_TICKET_PREFIX), pc_http = pc_http (c LT_COSIGN_HTTP_ONLY),
          pc_noappendport = pc_noappendport (c LT_COSIGN_NO_APPEND_REDIRECT_PORT), pc_proxy = pc_proxy (c LT_COSIGN_GET_PROXY_COOKIES),
          pc_expiretime = pc_expiretime (c LT_COSIGN_COOKIE_EXPIRE_TIME), pc_krbtkt = pc_krbtkt (c LT_COSIGN_GET_KERBEROS_TICKETS),
          pc_gss = pc_gss (c LT_COSIGN_KERBEROS_SETUP_GSS)\<rparr>)"

text \<open>What the shared code is to see of these settings.\<close>

definition conf_filter :: "plugin_config \<Rightarrow> bool \<Rightarrow> string \<Rightarrow> filter_config" where
  "conf_filter c listed db =
     \<lparr>fc_host = buffer_text (pc_host c), fc_reqfv = map snd (pc_reqf c), fc_suffix = pc_suffix c, fc_fake = uint (pc_fake c),
      fc_checkip = pc_checkip c, fc_filterdb = db, fc_hashlen = 0, fc_proxydb = ''(null)'', fc_tkt_prefix = pr_str (pc_tkt_prefix c),
      fc_proxy = uint (pc_proxy c), fc_krbtkt = uint (pc_krbtkt c), fc_listed = (listed \<and> pc_host c \<noteq> None)\<rparr>"

lemmas effective_settings =
  posterror.effective service.effective protect.effective redirect.effective handleruri.effective referr.effective
  port.effective host.effective filterdb.effective tkt_prefix.effective checkip.effective reqf.effective suffix.effective
  fake.effective public.effective http.effective noappendport.effective crypto.effective proxy.effective
  expiretime.effective krbtkt.effective gss.effective validref.effective

lemma patched_conf:
  assumes "mod_cosign_patch_connection lt in_context p = Ret p'"
    and "pc_siteentry (pl_conf p) = None" and "pc_hashlen (pl_conf p) = 0" and "pc_proxydb (pl_conf p) = None"
  shows "pl_conf p' = effective_conf lt in_context (pl_storage p)"
  using effective_settings [OF assms(1)] connection_unpatched [OF assms(1)] assms(2-4)
  by (intro plugin_config.equality) (simp_all add: effective_conf_def unpatched_def Let_def)

lemma patched_filter:
  assumes "mod_cosign_patch_connection lt in_context p = Ret p'" and "pd_hashlen (pl_cfg p) = 0" and "pd_proxydb (pl_cfg p) = None"
  shows "lt_filter (pl_cfg p') db = (conf_filter (pl_conf p') (pd_cl (pl_cfg p) \<noteq> None) db)
    \<lparr>fc_reqfv := take (nat (pd_reqfc (pl_cfg p'))) (pd_reqfv (pl_cfg p'))\<rparr> \<and>
    pd_filterdb (pl_cfg p') = pc_filterdb (pl_conf p')"
  using effective_settings [OF assms(1)] connection_unpatched [OF assms(1)] assms(2,3)
  by (auto simp: lt_filter_def conf_filter_def unpatched_def pr_str_def)

text \<open>The required factors follow, but only where there are some.\<close>

definition factors_follow :: "plugin_data \<Rightarrow> bool" where
  "factors_follow p \<longleftrightarrow>
     (pc_reqf (pl_conf p) \<noteq> [] \<longrightarrow> take (nat (pd_reqfc (pl_cfg p))) (pd_reqfv (pl_cfg p)) = map snd (pc_reqf (pl_conf p)))"

lemma row_factors:
  "(k, f) \<in> set (patches holds) \<Longrightarrow> f s p = Ret p' \<Longrightarrow> factors_follow p \<Longrightarrow> factors_follow p'"
  by (auto simp: patches_def factors_follow_def patch_factors_def Let_def split: if_splits)

lemma keys_factors: "patch_keys holds s ks p = Ret p' \<Longrightarrow> factors_follow p \<Longrightarrow> factors_follow p'"
proof (induction ks arbitrary: p)
  case (Cons k ks)
  then show ?case by (auto split: option.splits outcome.splits dest!: map_of_SomeD dest: row_factors)
qed simp

lemma contexts_factors: "patch_contexts lt in_context is p = Ret p' \<Longrightarrow> factors_follow p \<Longrightarrow> factors_follow p'"
  by (induction "is" arbitrary: p) (auto split: if_splits outcome.splits dest: keys_factors)

lemma connection_factors:
  assumes "mod_cosign_patch_connection lt in_context p = Ret p'" and "factors_follow p"
  shows "factors_follow p'"
proof -
  obtain q where "patch_keys (lt_holds lt) (pl_storage p ! 0) (map fst (patches (lt_holds lt))) p = Ret q"
    "patch_contexts lt in_context [1..<lt_contexts lt] q = Ret p'"
    using assms(1) by (auto simp: mod_cosign_patch_connection_def split: outcome.splits)
  then show ?thesis using assms(2) keys_factors contexts_factors by metis
qed

end
