(* ===== verification/Lt_facts.thy ===== *)
theory Lt_facts
  imports Lt_law Mod_facts
begin

text \<open>
  What the plugin for Lighttpd guarantees: the configuration it starts with, the settings of a request, who gets to a protected
  page, where the location of service cookies redirects to, and what the search for the cookie finds, if it ends.
\<close>

section \<open>The configuration of a server that starts\<close>

text \<open>The states of the plugin between two requests.\<close>

inductive plugin_reached :: "lighttpd \<Rightarrow> plugin_data \<Rightarrow> bool" for lt where
  started: "mod_cosign_set_defaults lt mod_cosign_init = Ret (HANDLER_GO_ON, p) \<Longrightarrow> plugin_reached lt p"
| served: "plugin_reached lt p \<Longrightarrow> mod_cosign_patch_connection lt in_context p = Ret p' \<Longrightarrow> plugin_reached lt p'"

definition context_ok :: "pcre \<Rightarrow> plugin_config \<Rightarrow> bool" where
  "context_ok re s \<longleftrightarrow>
     pc_checkip s = IPCHECK_NEVER \<and> pc_expiretime s = 86400 \<and> pc_validpcre s = pc_validref s \<and>
     (case pc_validref s of None \<Rightarrow> True | Some r \<Rightarrow> pcre_compile re r)"

text \<open>There is a list of servers, all at the default port, if and only if a context names a host.\<close>

definition servers_ok :: "plugin_data \<Rightarrow> bool" where
  "servers_ok p \<longleftrightarrow>
     (case pd_cl (pl_cfg p) of
        None \<Rightarrow> list_all (\<lambda>s. pc_host s = None) (pl_storage p)
      | Some sins \<Rightarrow> list_all (\<lambda>x. sin_port x = 6663) sins \<and> list_ex (\<lambda>s. pc_host s \<noteq> None) (pl_storage p))"

definition plugin_ok :: "lighttpd \<Rightarrow> plugin_data \<Rightarrow> bool" where
  "plugin_ok lt p \<longleftrightarrow>
     length (pl_storage p) = lt_contexts lt \<and> list_all (context_ok (lt_pcre lt)) (pl_storage p) \<and> servers_ok p \<and>
     pc_siteentry (pl_conf p) = None \<and> pc_hashlen (pl_conf p) = 0 \<and> pc_proxydb (pl_conf p) = None \<and>
     pd_hashlen (pl_cfg p) = 0 \<and> pd_proxydb (pl_cfg p) = None \<and> factors_follow p"

lemma values_stored:
  assumes "store_values v rows s = Ret s'" and "set rows \<subseteq> set config_values"
  shows "pc_checkip s' = pc_checkip s \<and> pc_expiretime s' = pc_expiretime s \<and> pc_validpcre s' = pc_validpcre s"
  using assms
proof (induction rows arbitrary: s)
  case (Cons row rows)
  then obtain t where t: "store_value v row s = Ret t" "store_values v rows t = Ret s'" by (auto split: outcome.splits)
  have "pc_checkip t = pc_checkip s \<and> pc_expiretime t = pc_expiretime s \<and> pc_validpcre t = pc_validpcre s"
    using t(1) Cons.prems(2) by (auto simp: config_values_def store_value_def split: option.splits if_splits)
  then show ?case using Cons.IH [OF t(2)] Cons.prems(2) by simp
qed simp

text \<open>The checks of a context change the list of servers and the \<open>SSL_CTX\<close>, and keep the context.\<close>

definition outside :: "plugin_data \<Rightarrow> plugin_config \<times> plugin_config list \<times> int \<times> string option" where
  "outside p = (pl_conf p, pl_storage p, pd_hashlen (pl_cfg p), pd_proxydb (pl_cfg p))"

lemma host_checked:
  assumes "lt_set_host resolve host p = (0, p')"
  shows "outside p' = outside p"
    and "\<exists>sins. pd_cl (pl_cfg p') = Some sins \<and>
      (if pd_cl (pl_cfg p) = None then pc_port (pl_conf p) = 0 \<longrightarrow> list_all (\<lambda>x. sin_port x = 6663) sins
       else pd_cl (pl_cfg p) = Some sins)"
  using assms by (auto simp: lt_set_host_def outside_def list_all_iff Let_def split: option.splits if_splits)

lemma crypto_checked:
  "lt_set_crypto cr arr p = (0, p') \<Longrightarrow> outside p' = outside p \<and> pd_cl (pl_cfg p') = pd_cl (pl_cfg p)"
  by (auto simp: lt_set_crypto_def outside_def split: option.splits if_splits)

text \<open>A plugin in the middle of its start: no request has been served.\<close>

definition starting :: "lighttpd \<Rightarrow> plugin_data \<Rightarrow> bool" where
  "starting lt p \<longleftrightarrow>
     pl_conf p = no_plugin_config \<and> pd_hashlen (pl_cfg p) = 0 \<and> pd_proxydb (pl_cfg p) = None \<and>
     list_all (context_ok (lt_pcre lt)) (pl_storage p) \<and> servers_ok p"

lemma context_checked:
  assumes "check_context lt s p = (0, p')" and "starting lt p"
    and "pc_checkip s = IPCHECK_NEVER" and "pc_expiretime s = 86400" and "pc_validpcre s = None"
  shows "starting lt p' \<and> length (pl_storage p') = Suc (length (pl_storage p))"
proof -
  obtain q r t where q: "(if pc_host s \<noteq> None then lt_set_host (lt_resolve lt) (pc_host s) p else (0, p)) = (0, q)"
    and r: "(if pc_crypto s \<noteq> [] then lt_set_crypto (lt_crypto lt) (pc_crypto s) q else (0, q)) = (0, r)"
    and t: "lt_set_valid_reference (lt_pcre lt) s = (0, t)" "p' = r\<lparr>pl_storage := pl_storage r @ [t]\<rparr>"
    using assms(1) by (auto simp: check_context_def split: prod.splits if_splits)
  have "context_ok (lt_pcre lt) t" "pc_host t = pc_host s"
    using t(1) assms(3-5) by (auto simp: lt_set_valid_reference_def context_ok_def split: option.splits if_splits)
  moreover have "outside q = outside p" "pc_host s = None \<Longrightarrow> pd_cl (pl_cfg q) = pd_cl (pl_cfg p)"
    using q host_checked(1) by (auto split: if_splits)
  moreover have "outside r = outside q" "pd_cl (pl_cfg r) = pd_cl (pl_cfg q)"
    using r crypto_checked by (auto split: if_splits)
  moreover have "\<exists>sins. pd_cl (pl_cfg q) = Some sins \<and>
      (if pd_cl (pl_cfg p) = None then list_all (\<lambda>x. sin_port x = 6663) sins else pd_cl (pl_cfg p) = Some sins)"
    if "pc_host s \<noteq> None"
    using q host_checked(2) [of "lt_resolve lt" "pc_host s" p q] that assms(2)
    by (auto simp: starting_def no_plugin_config_def)
  ultimately show ?thesis
    using assms(2) t(2) by (cases "pc_host s") (auto simp: starting_def servers_ok_def outside_def split: option.splits if_splits)
qed

lemma contexts_checked:
  assumes "set_contexts lt is p = Ret (HANDLER_GO_ON, p')" and "starting lt p"
  shows "starting lt p' \<and> length (pl_storage p') = length (pl_storage p) + length is"
  using assms
proof (induction "is" arbitrary: p)
  case (Cons i "is")
  then obtain v s q where v: "store_values v config_values default_config = Ret s" "check_context lt s p = (0, q)"
    "set_contexts lt is q = Ret (HANDLER_GO_ON, p')"
    by (auto split: option.splits outcome.splits prod.splits if_splits)
  have "pc_checkip s = IPCHECK_NEVER" "pc_expiretime s = 86400" "pc_validpcre s = None"
    using values_stored [OF v(1)] by (auto simp: default_config_def no_plugin_config_def)
  from context_checked [OF v(2) Cons.prems(2) this] Cons.IH [OF v(3)] show ?case by simp
qed simp

lemma plugin_ok_started:
  assumes "mod_cosign_set_defaults lt mod_cosign_init = Ret (HANDLER_GO_ON, p)"
  shows "plugin_ok lt p"
proof -
  have "starting lt (mod_cosign_init\<lparr>pl_storage := []\<rparr>)"
    by (simp add: starting_def mod_cosign_init_def no_pd_config_def servers_ok_def)
  from contexts_checked [OF assms [unfolded mod_cosign_set_defaults_def] this] show ?thesis
    by (auto simp: plugin_ok_def starting_def no_plugin_config_def factors_follow_def)
qed

lemma reached_ok: "plugin_reached lt p \<Longrightarrow> plugin_ok lt p"
proof (induction rule: plugin_reached.induct)
  case (served p in_context p')
  then show ?case
    using connection_unpatched [OF served(2)] connection_factors [OF served(2)]
    by (auto simp: plugin_ok_def unpatched_def servers_ok_def cong: option.case_cong)
qed (rule plugin_ok_started)

lemma deciding_less: "0 < lt_contexts lt \<Longrightarrow> deciding lt in_context key < lt_contexts lt"
proof -
  assume "0 < lt_contexts lt"
  then have "\<forall>i \<in> set (0 # filter P [1..<lt_contexts lt]). i < lt_contexts lt" for P by auto
  then show ?thesis unfolding deciding_def by (metis last_in_set list.distinct(1))
qed

lemma effective_ok:
  assumes "plugin_ok lt p" and "0 < lt_contexts lt"
  shows "context_ok (lt_pcre lt) (effective_conf lt in_context (pl_storage p))"
proof -
  have "context_ok (lt_pcre lt) (pl_storage p ! deciding lt in_context key)" for key
    using assms deciding_less [OF assms(2)] by (auto simp: plugin_ok_def list_all_length)
  then show ?thesis by (simp add: context_ok_def effective_conf_def Let_def)
qed

text \<open>
  C29.  The settings of a request do not depend on the requests before it.  Whatever the plugin has served since its start, each
  setting is that of the last context of the file that the request is in and that names its key, or of the global one, and the
  shared code sees the same settings; the required factors too, where there are some.  A pattern is one that was compiled from
  the text it is shown with, the address of a browser is never compared, the age of a cookie is a day, and every server is
  asked at the default port, whatever the file says.
\<close>

theorem request_settings:
  assumes "plugin_reached lt p" and "0 < lt_contexts lt" and "mod_cosign_patch_connection lt in_context p = Ret p'"
    and "conf = effective_conf lt in_context (pl_storage p)"
  shows "pl_conf p' = conf \<and> pl_storage p' = pl_storage p \<and> context_ok (lt_pcre lt) conf \<and> servers_ok p' \<and>
    pd_filterdb (pl_cfg p') = pc_filterdb conf \<and>
    (pc_reqf conf \<noteq> [] \<longrightarrow> lt_filter (pl_cfg p') db = conf_filter conf (pd_cl (pl_cfg p) \<noteq> None) db)"
proof -
  have ok: "plugin_ok lt p" "plugin_ok lt p'" using reached_ok assms(1,3) plugin_reached.served by blast+
  then have c: "pl_conf p' = conf" using patched_conf [OF assms(3)] assms(4) by (simp add: plugin_ok_def)
  have f: "lt_filter (pl_cfg p') db = (conf_filter conf (pd_cl (pl_cfg p) \<noteq> None) db)
      \<lparr>fc_reqfv := take (nat (pd_reqfc (pl_cfg p'))) (pd_reqfv (pl_cfg p'))\<rparr>" "pd_filterdb (pl_cfg p') = pc_filterdb conf"
    using patched_filter [OF assms(3)] ok(1) c by (simp_all add: plugin_ok_def)
  have "take (nat (pd_reqfc (pl_cfg p'))) (pd_reqfv (pl_cfg p')) = map snd (pc_reqf conf)" if "pc_reqf conf \<noteq> []"
    using ok(2) c that by (simp add: plugin_ok_def factors_follow_def)
  then show ?thesis
    using c f ok effective_ok [OF ok(1) assms(2)] connection_unpatched [OF assms(3)] assms(4)
    by (auto simp: plugin_ok_def unpatched_def conf_filter_def)
qed

section \<open>The search for the cookie\<close>

text \<open>The texts the loop may look at: all of the header, and what follows each semicolon.\<close>

function rests :: "string \<Rightarrow> string list" where
  "rests data = (if CHR '';'' \<in> set data then data # rests (tl (dropWhile (\<lambda>c. c \<noteq> CHR '';'') data)) else [data])"
  by pat_completeness auto
termination
proof (relation "measure length")
  fix data :: string
  assume "CHR '';'' \<in> set data"
  then have "dropWhile (\<lambda>c. c \<noteq> CHR '';'') data \<noteq> []" by (simp add: dropWhile_eq_Nil_conv)
  moreover have "length (dropWhile (\<lambda>c. c \<noteq> CHR '';'') data) \<le> length data" by (rule length_dropWhile_le)
  ultimately show "(tl (dropWhile (\<lambda>c. c \<noteq> CHR '';'') data), data) \<in> measure length"
    by (cases "dropWhile (\<lambda>c. c \<noteq> CHR '';'') data") auto
qed simp

declare rests.simps [simp del]

definition after_semicolon :: "string \<Rightarrow> string" where
  "after_semicolon s = tl (dropWhile (\<lambda>c. c \<noteq> CHR '';'') s)"

definition after_equals :: "string \<Rightarrow> string" where
  "after_equals s = rev (takeWhile (\<lambda>c. c \<noteq> CHR ''='') (rev s))"

abbreviation skip :: "string \<Rightarrow> string" where
  "skip \<equiv> dropWhile (\<lambda>c. c = CHR '' '')"

text \<open>The header ends with text that no equals sign follows, after the value of its last cookie.\<close>

definition dangling :: "string \<Rightarrow> bool" where
  "dangling data \<longleftrightarrow> skip (if CHR ''='' \<in> set data then after_semicolon (after_equals data) else data) \<noteq> []"

definition named :: "string \<Rightarrow> string \<Rightarrow> bool" where
  "named service r \<longleftrightarrow> CHR ''='' \<in> set r \<and> starts_with_nocase service (takeWhile (\<lambda>c. c \<noteq> CHR ''='') (skip r))"

lemma skip_set: "c \<noteq> CHR '' '' \<Longrightarrow> c \<in> set (skip s) \<longleftrightarrow> c \<in> set s"
  by (induction s) auto

lemma skip_after: "after_semicolon (skip s) = after_semicolon s"
  unfolding after_semicolon_def by (induction s) auto

lemma search_endless:
  assumes "CHR ''='' \<notin> set data" and "skip data \<noteq> []"
  shows "lt_cookie service data = None"
proof (rule ccontr)
  assume "lt_cookie service data \<noteq> None"
  then obtain y where y: "lt_cookie service data = Some y" by blast
  have "CHR ''='' \<in> set data \<or> skip data = []"
  proof (rule lt_cookie.raw_induct [where P = "\<lambda>s data y. CHR ''='' \<in> set data \<or> skip data = []", OF _ y], goal_cases)
    case (1 f s d y)
    have "CHR ''='' \<in> set d \<or> skip d = []" if "f s (skip d) = Some y" using 1(1) [OF that] by (auto simp: skip_set)
    then show ?case using 1(2) skip_set [of "CHR ''=''" d] by (auto simp: Let_def simp del: dropWhile_eq_Nil_conv split: if_splits)
  qed
  then show False using assms by simp
qed

lemma until_append:
  "c \<notin> set xs \<Longrightarrow> takeWhile (\<lambda>x. x \<noteq> c) (xs @ ys) = xs @ takeWhile (\<lambda>x. x \<noteq> c) ys"
  "c \<notin> set xs \<Longrightarrow> dropWhile (\<lambda>x. x \<noteq> c) (xs @ ys) = dropWhile (\<lambda>x. x \<noteq> c) ys"
  by (induction xs) auto

lemma semicolon_split:
  assumes "CHR '';'' \<in> set data"
  obtains pre where "data = pre @ CHR '';'' # after_semicolon data" and "CHR '';'' \<notin> set pre"
proof -
  obtain pre r where "data = pre @ CHR '';'' # r" "CHR '';'' \<notin> set pre" using split_list_first [OF assms] by blast
  moreover from this have "after_semicolon data = r" by (simp add: after_semicolon_def until_append)
  ultimately show ?thesis using that [of pre] by simp
qed

lemma after_semicolon_none: "CHR '';'' \<notin> set s \<Longrightarrow> after_semicolon s = []"
  unfolding after_semicolon_def by (induction s) auto

lemma rests_cons:
  "rests data = (if CHR '';'' \<in> set data then data # rests (after_semicolon data) else [data])"
  by (subst rests.simps) (simp add: after_semicolon_def)

lemma rests_equals: "r \<in> set (rests data) \<Longrightarrow> CHR ''='' \<in> set r \<Longrightarrow> CHR ''='' \<in> set data"
proof (induction data rule: rests.induct)
  case (1 data)
  show ?case
  proof (cases "CHR '';'' \<in> set data")
    case True
    obtain pre where "data = pre @ CHR '';'' # after_semicolon data" using semicolon_split [OF True] by blast
    then have "set (after_semicolon data) \<subseteq> set data" by (metis set_subset_Cons set_append subset_trans sup_ge2)
    then show ?thesis using 1 True rests_cons [of data] by (auto simp: after_semicolon_def)
  next
    case False
    then show ?thesis using 1(2,3) rests_cons [of data] by auto
  qed
qed

lemma dangling_step:
  assumes "CHR ''='' \<in> set data" and "CHR '';'' \<in> set data"
  shows "dangling data = dangling (after_semicolon data)"
proof -
  obtain pre r where d: "data = pre @ CHR '';'' # r" "CHR '';'' \<notin> set pre" "after_semicolon data = r"
    using semicolon_split [OF assms(2)] by metis
  show ?thesis
  proof (cases "CHR ''='' \<in> set r")
    case True
    then have "after_equals data = after_equals r" by (simp add: d(1) after_equals_def takeWhile_append1)
    then show ?thesis using assms True d(3) by (simp add: dangling_def)
  next
    case False
    then have "after_equals data = after_equals pre @ CHR '';'' # r" by (simp add: d(1) after_equals_def until_append)
    moreover have "CHR '';'' \<notin> set (after_equals pre)"
      using d(2) by (auto simp: after_equals_def dest: set_takeWhileD)
    ultimately have "after_semicolon (after_equals data) = r" by (simp add: after_semicolon_def until_append)
    then show ?thesis using assms False d(3) by (simp add: dangling_def)
  qed
qed

lemma not_dangling_last:
  assumes "CHR ''='' \<in> set data" and "CHR '';'' \<notin> set data"
  shows "\<not> dangling data"
proof -
  have "CHR '';'' \<notin> set (after_equals data)" using assms(2) by (auto simp: after_equals_def dest: set_takeWhileD)
  then show ?thesis using assms by (simp add: dangling_def after_semicolon_none)
qed

lemma search_found:
  "lt_cookie service data =
     (case find (named service) (rests data) of
        Some r \<Rightarrow> Some (Some (takeWhile (\<lambda>c. c \<noteq> CHR '';'') (skip r)))
      | None \<Rightarrow> if dangling data then None else Some None)"
proof (induction data rule: rests.induct)
  case (1 data)
  let ?d = "skip data"
  show ?case
  proof (cases "CHR ''='' \<in> set data")
    case False
    then have none: "find (named service) (rests data) = None"
      using rests_equals by (auto simp: find_None_iff named_def)
    show ?thesis
    proof (cases "?d = []")
      case True
      then have "lt_cookie service data = Some None" by (subst lt_cookie.simps) (simp add: Let_def del: dropWhile_eq_Nil_conv)
      then show ?thesis using True False none by (simp add: dangling_def del: dropWhile_eq_Nil_conv)
    next
      case nonempty: False
      then show ?thesis using False none search_endless by (simp add: dangling_def)
    qed
  next
    case True
    then have d: "data \<noteq> []" "?d \<noteq> []" "CHR ''='' \<in> set ?d" using skip_set [of "CHR ''=''" data] by auto
    have run: "lt_cookie service data =
        (if named service data then Some (Some (takeWhile (\<lambda>c. c \<noteq> CHR '';'') ?d))
         else if CHR '';'' \<notin> set data then Some None else lt_cookie service (after_semicolon data))"
      using d True skip_set [of "CHR '';''" data] skip_after [of data]
      by (subst lt_cookie.simps) (simp add: named_def after_semicolon_def Let_def del: dropWhile_eq_Nil_conv)
    show ?thesis
    proof (cases "CHR '';'' \<in> set data")
      case sep: True
      then show ?thesis
        using 1 [OF sep] dangling_step [OF True sep] run rests_cons [of data] by (simp add: after_semicolon_def)
    next
      case False
      then show ?thesis using not_dangling_last [OF True] run rests_cons [of data] by simp
    qed
  qed
qed

text \<open>
  C25.  The search through the header of cookies ends, unless no cookie has the name of the service and the header has text after the
  last equals sign that belongs to no value: then, and only then, the request never gets an answer.  It finds a cookie if and
  only if there is one whose name the service's name starts with, and takes the first.
\<close>

theorem search_ends:
  "(lt_cookie service data = None \<longleftrightarrow> dangling data \<and> list_all (\<lambda>r. \<not> named service r) (rests data)) \<and>
   (lt_cookie service data = Some (Some my) \<longleftrightarrow> (\<exists>pre r post. rests data = pre @ r # post \<and>
      list_all (\<lambda>r. \<not> named service r) pre \<and> named service r \<and> my = takeWhile (\<lambda>c. c \<noteq> CHR '';'') (skip r)))"
proof (cases "find (named service) (rests data)")
  case None
  then have "\<forall>r \<in> set (rests data). \<not> named service r" by (auto simp: find_None_iff)
  moreover have "lt_cookie service data = (if dangling data then None else Some None)" using None by (simp add: search_found)
  ultimately show ?thesis by (auto simp: list_all_iff)
next
  case (Some r)
  have first: "r' = r" if "rests data = pre @ r' # post" "list_all (\<lambda>r. \<not> named service r) pre" "named service r'" for pre r' post
  proof -
    have "find (named service) (pre @ r' # post) = Some r'" using that(2,3) by (induction pre) auto
    then show ?thesis using Some that(1) by simp
  qed
  obtain pre post where "rests data = pre @ r # post" "named service r" "list_all (\<lambda>r. \<not> named service r) pre"
  proof -
    obtain i where i: "i < length (rests data)" "named service (rests data ! i)" "rests data ! i = r" "\<forall>j<i. \<not> named service (rests data ! j)"
      using Some by (auto simp: find_Some_iff)
    show ?thesis
      using that [of "take i (rests data)" "drop (Suc i) (rests data)"] i id_take_nth_drop [OF i(1)] by (auto simp: list_all_length)
  qed
  note r = this
  have "lt_cookie service data = Some (Some (takeWhile (\<lambda>c. c \<noteq> CHR '';'') (skip r)))" using Some by (simp add: search_found)
  moreover have "\<not> list_all (\<lambda>r. \<not> named service r) (rests data)" using r by simp
  ultimately show ?thesis using r first by (metis option.distinct(1) option.inject)
qed

section \<open>Who gets in\<close>

lemma run_lt_respond [simp]:
  "run_state (lt_respond h con) w = (Some (Ret (h, con)), w)"
  "run_state (lt_finish st con) w = (Some (Ret (HANDLER_FINISHED, finish st con)), w)"
  by (simp_all add: lt_respond_def lt_finish_def)

text \<open>
  The shared code of the filters vouches for the user \<open>si\<close> of the request: for the cookie the search finds, cut before its last
  slash, of valid characters, and not older than a day.  The cookie's name is a part of the service's from its start.
\<close>

definition lt_vouched :: "nat \<Rightarrow> plugin_config \<Rightarrow> pd_config \<Rightarrow> connection \<Rightarrow> sinfo \<Rightarrow> filter_state \<Rightarrow> bool" where
  "lt_vouched n conf d con si w' \<longleftrightarrow>
     (\<exists>data service my cookie misc rk v.
        co_cookie con = Some data \<and> pc_service conf = Some service \<and> lt_cookie service data = Some (Some my) \<and>
        (\<exists>r \<in> set (rests data). named service r \<and> my = takeWhile (\<lambda>c. c \<noteq> CHR '';'') (skip r)) \<and>
        120 \<le> length my + 1 \<and> cut_slash my = (cookie, misc) \<and> validchars cookie \<and>
        (case misc of None \<Rightarrow> True | Some t \<Rightarrow> atoi t \<le> 0 \<or> tv_sec (os_now v) - atoi t \<le> pc_expiretime conf) \<and>
        run_state (lt_cookie_valid d cookie None (co_ip con) n) v = (Some (Ret (COSIGN_OK, si, rk)), w'))"

lemma run_lt_no_cookie:
  assumes "pc_public conf \<noteq> 1"
  shows "run_state (lt_no_cookie conf con) w \<noteq> (Some (Ret (HANDLER_GO_ON, con')), w')"
    and "(Some (Ret (HANDLER_GO_ON, con')), w') \<noteq> run_state (lt_no_cookie conf con) w"
  using assms by (auto simp: lt_no_cookie_def split: if_splits prod.splits)

lemma run_lt_check_visit:
  assumes "run_state (lt_check_visit conf d n cookie con) w = (Some (Ret (HANDLER_GO_ON, con')), w')" and "pc_public conf \<noteq> 1"
  shows "\<exists>si rk. run_state (lt_cookie_valid d cookie None (co_ip con) n) w = (Some (Ret (COSIGN_OK, si, rk)), w') \<and>
    con' = lt_let_through conf si con"
proof -
  obtain v u where v: "run_state (lt_cookie_valid d cookie None (co_ip con) n) w = (v, u)" by fastforce
  then obtain cv si rk where cv: "v = Some (Ret (cv, si, rk))"
    using assms(1) by (auto simp: lt_check_visit_def split: option.splits outcome.splits)
  have run: "run_state (lt_check_visit conf d n cookie con) w =
      (if cv = COSIGN_ERROR then (Some (Ret (HANDLER_FINISHED, finish 503 con)), u)
       else if cv = COSIGN_OK then (Some (Ret (HANDLER_GO_ON, lt_let_through conf si con)), u)
       else run_state (lt_no_cookie conf con) u)"
    using v by (simp add: lt_check_visit_def cv)
  then show ?thesis using assms v cv run_lt_no_cookie [OF assms(2)] by (auto split: if_splits)
qed

lemma run_lt_visit_with:
  assumes "run_state (lt_visit_with conf d n my con) w = (Some (Ret (HANDLER_GO_ON, con')), w')" and "pc_public conf \<noteq> 1"
    and "cut_slash my = (cookie, misc)"
  shows "\<exists>si rk v. validchars cookie \<and>
    (case misc of None \<Rightarrow> True | Some t \<Rightarrow> atoi t \<le> 0 \<or> tv_sec (os_now v) - atoi t \<le> pc_expiretime conf) \<and>
    run_state (lt_cookie_valid d cookie None (co_ip con) n) v = (Some (Ret (COSIGN_OK, si, rk)), w') \<and>
    con' = lt_let_through conf si con"
proof -
  obtain t v where t: "run_state gettimeofday w = (t, v)" by fastforce
  let ?time = "case misc of None \<Rightarrow> 0 | Some m \<Rightarrow> atoi m"
  have run: "run_state (lt_visit_with conf d n my con) w =
      (if 0 < ?time \<and> t = None then (Some Undefined, v)
       else if 0 < ?time \<and> pc_expiretime conf < tv_sec (the t) - ?time then run_state (lt_no_cookie conf con) v
       else if \<not> validchars cookie then run_state (lt_no_cookie conf con) v
       else run_state (lt_check_visit conf d n cookie con) v)"
    using t assms(3) by (cases t) (simp_all add: lt_visit_with_def Let_def)
  then have check: "run_state (lt_check_visit conf d n cookie con) v = (Some (Ret (HANDLER_GO_ON, con')), w')" "validchars cookie"
    "\<not> (0 < ?time \<and> (t = None \<or> pc_expiretime conf < tv_sec (the t) - ?time))"
    using assms(1) run_lt_no_cookie [OF assms(2)] by (auto split: if_splits)
  then have "case misc of None \<Rightarrow> True | Some m \<Rightarrow> atoi m \<le> 0 \<or> tv_sec (os_now v) - atoi m \<le> pc_expiretime conf"
    using run_gettimeofday_time [OF t] by (auto split: option.splits)
  then show ?thesis using run_lt_check_visit [OF check(1) assms(2)] check(2) by blast
qed

lemma run_lt_auth:
  assumes "run_state (lt_auth conf d n con) w = (Some (Ret (HANDLER_GO_ON, con')), w')"
    and "pc_protect conf \<noteq> 0" and "pc_public conf \<noteq> 1"
  shows "\<exists>si. lt_vouched n conf d con si w' \<and> con' = lt_let_through conf si con"
proof -
  obtain service data my where c: "pc_service conf = Some service" "co_cookie con = Some data"
    "lt_cookie service data = Some (Some my)" "120 \<le> length my + 1"
    "run_state (lt_visit_with conf d n my con) w = (Some (Ret (HANDLER_GO_ON, con')), w')"
    using assms(1,2) run_lt_no_cookie [OF assms(3)] by (auto simp: lt_auth_def split: option.splits if_splits)
  obtain r where r: "find (named service) (rests data) = Some r" "my = takeWhile (\<lambda>c. c \<noteq> CHR '';'') (skip r)"
    using c(3) by (auto simp: search_found split: option.splits if_splits)
  then have "r \<in> set (rests data)" "named service r" by (auto simp: find_Some_iff)
  moreover obtain cookie misc where "cut_slash my = (cookie, misc)" by fastforce
  ultimately show ?thesis
    using run_lt_visit_with [OF c(5) assms(3)] c(1-4) r(2) unfolding lt_vouched_def by blast
qed

lemma run_lt_handler:
  assumes "run_state (lt_handler re conf d n con) w = (Some (Ret (h, con')), w')" and "pc_handleruri conf = Some (co_path con)"
  shows "h = HANDLER_FINISHED"
proof -
  have validate: "run_state (lt_validate d n cookie dest con) w = (Some (Ret (h, con')), w') \<Longrightarrow> h = HANDLER_FINISHED" for cookie dest
    by (auto simp: lt_validate_def lt_accepted_def split: option.splits outcome.splits if_splits prod.splits)
  show ?thesis
    using assms validate
    by (auto simp: lt_handler_def lt_destination_def lt_validation_failed_def Let_def
        split: option.splits outcome.splits if_splits prod.splits)
qed

text \<open>
  C9.  Under Lighttpd too nobody gets to a protected page unless the shared code vouches for him, with the settings of the context
  that decides: a request that the plugin lets go on has carried a good service cookie, and the user, the realm and the
  factors that the page sees are those of that cookie.
\<close>

theorem lt_protected_page:
  assumes "run_state (mod_cosign_uri_handler lt in_context n con p) w = ((Some (Ret (HANDLER_GO_ON, con')), p'), w')"
    and "co_direct con" and "plugin_reached lt p" and "conf = effective_conf lt in_context (pl_storage p)"
    and "pc_protect conf \<noteq> 0" and "pc_public conf \<noteq> 1"
  shows "\<exists>si. lt_vouched n conf (pl_cfg p') con si w' \<and> co_authed_user con' = si_user si \<and>
    {(''COSIGN_SERVICE'', buffer_text (pc_service conf)), (''REMOTE_REALM'', si_realm si), (''COSIGN_FACTOR'', si_factor si)}
      \<subseteq> set (co_environment con')"
proof -
  obtain q where q: "mod_cosign_patch_connection lt in_context p = Ret q" "p' = q"
    "run_state (lt_serve (lt_pcre lt) (pl_conf q) (pl_cfg q) n con) w = (Some (Ret (HANDLER_GO_ON, con')), w')"
    using assms(1,2) by (auto simp: mod_cosign_uri_handler_def split: outcome.splits prod.splits)
  have c: "pl_conf q = conf"
    using patched_conf [OF q(1)] reached_ok [OF assms(3)] assms(4) by (simp add: plugin_ok_def)
  have "run_state (lt_auth conf (pl_cfg q) n con) w = (Some (Ret (HANDLER_GO_ON, con')), w')"
    using q(3) unfolding c
    by (auto simp: lt_serve_def split: if_splits option.splits outcome.splits prod.splits dest: run_lt_handler)
  from run_lt_auth [OF this assms(5,6)] show ?thesis
    using q(2) by (auto simp: lt_let_through_def)
qed

section \<open>Where the handler redirects to\<close>

definition lt_admitted :: "pcre \<Rightarrow> plugin_config \<Rightarrow> string \<Rightarrow> string \<Rightarrow> bool" where
  "lt_admitted re conf cookie dest \<longleftrightarrow>
     starts_with_nocase (cookie @ ''&'' @ dest) ''cosign-'' \<and> validchars cookie \<and> dest \<noteq> [] \<and>
     (case lt_match re conf dest of Ret rc \<Rightarrow> 0 \<le> rc | _ \<Rightarrow> False)"

lemma run_lt_validate:
  assumes "run_state (lt_validate d n cookie dest con) w = (Some (Ret (h, con')), w')"
  shows "co_status con' = 503 \<and> co_headers con' = co_headers con \<or>
    co_status con' = 301 \<and> (co_headers con' = co_headers con @ [(''Location'', dest)] \<or>
    (\<exists>si rk u sec. run_state (lt_cookie_valid d cookie (Some None) (co_ip con) n) w = (Some (Ret (COSIGN_OK, si, rk)), u) \<and>
      co_headers con' = co_headers con @ [(''Set-Cookie'',
        lt_full_cookie (case rk of Some (Some new) \<Rightarrow> new | _ \<Rightarrow> cookie) sec dest), (''Location'', dest)]))"
proof -
  obtain v u where v: "run_state (lt_cookie_valid d cookie (Some None) (co_ip con) n) w = (v, u)" by fastforce
  then obtain cv si rk where cv: "v = Some (Ret (cv, si, rk))"
    using assms by (auto simp: lt_validate_def split: option.splits outcome.splits)
  let ?c = "case rk of Some (Some new) \<Rightarrow> new | _ \<Rightarrow> cookie"
  have run: "run_state (lt_validate d n cookie dest con) w =
      (if cv = COSIGN_RETRY then (Some (Ret (HANDLER_FINISHED, finish 301 (insert_header ''Location'' dest con))), u)
       else if cv = COSIGN_OK then run_state (lt_accepted ?c dest con) u
       else (Some (Ret (HANDLER_FINISHED, finish 503 con)), u))"
    using v by (simp add: lt_validate_def cv)
  show ?thesis
    using assms v unfolding run cv
    by (auto simp: lt_accepted_def finish_def insert_header_def split: if_splits option.splits prod.splits)
qed

lemma ampersand_split:
  "CHR ''&'' \<in> set qs \<Longrightarrow> qs = takeWhile (\<lambda>c. c \<noteq> CHR ''&'') qs @ ''&'' @ tl (dropWhile (\<lambda>c. c \<noteq> CHR ''&'') qs)"
  by (induction qs) auto

lemma run_lt_destination:
  assumes "run_state (lt_destination re conf d n qs con) w = (Some (Ret (h, con')), w')"
  obtains (error) "con' = finish 500 con"
  | (failed) "con' = finish 301 (insert_header ''Location'' (buffer_text (pc_referr conf)) con)"
  | (valid) cookie dest where "qs = cookie @ ''&'' @ dest" "lt_admitted re conf cookie dest"
      "run_state (lt_validate d n cookie dest con) w = (Some (Ret (h, con')), w')"
proof -
  let ?c = "takeWhile (\<lambda>c. c \<noteq> CHR ''&'') qs" and ?d = "tl (dropWhile (\<lambda>c. c \<noteq> CHR ''&'') qs)"
  show ?thesis
  proof (cases "starts_with_nocase qs ''cosign-'' \<and> CHR ''&'' \<in> set qs \<and> ?d \<noteq> []")
    case True
    then obtain rc where "lt_match re conf ?d = Ret rc"
      using assms by (cases "lt_match re conf ?d") (auto simp: lt_destination_def Let_def)
    then show ?thesis
      using assms True ampersand_split [of qs] error failed valid [of ?c ?d]
      by (auto simp: lt_destination_def lt_validation_failed_def lt_admitted_def Let_def split: if_splits)
  next
    case False
    then show ?thesis using assms failed by (auto simp: lt_destination_def lt_validation_failed_def Let_def split: if_splits)
  qed
qed


section \<open>The way to the login\<close>

text \<open>
  A visitor without a cookie is sent to the weblogin program, which reads from the query the service, the page to come back to
  and the required factors.
\<close>

lemma lt_login_roundtrip:
  assumes "pc_protect conf \<noteq> 0" and "pc_public conf \<noteq> 1" and "pc_host conf \<noteq> None" and "pc_posterror conf \<noteq> None"
    and "pc_redirect conf = Some url" and "pc_service conf = Some s" and "pc_siteentry conf = None"
    and "co_cookie con = None" and "co_method con \<noteq> LM_POST"
    and "starts_with s ''cosign-''" and "CHR ''&'' \<notin> set s" and "last s \<noteq> CHR '';''"
    and "list_all (\<lambda>f. f \<noteq> [] \<and> CHR '','' \<notin> set f \<and> CHR ''&'' \<notin> set f) (map snd (pc_reqf conf))"
  shows "\<exists>con' query v'. run_state (lt_auth conf d n con) w = (Some (Ret (HANDLER_FINISHED, con')), w) \<and> co_status con' = 302 \<and>
    co_headers con' = co_headers con @ [(''Location'', url @ ''?'' @ query)] \<and>
    run_state (read_query remote query False) v = (Go False, v') \<and>
    wl_service v' = Some s \<and> wl_ref v' = Some (fst (lt_self conf con)) \<and>
    (pc_reqf conf \<noteq> [] \<longrightarrow> (\<exists>f. wl_factor v' = Some f \<and> words CHR '','' f = map snd (pc_reqf conf)))"
proof -
  let ?q = "query_of (map snd (pc_reqf conf)) s (fst (lt_self conf con))"
  have auth: "run_state (lt_auth conf d n con) w = run_state (lt_no_cookie conf con) w"
    using assms(1,3-6,8) by (auto simp: lt_auth_def)
  have "lt_query conf (fst (lt_self conf con)) = ?q" using assms(6) by (simp add: lt_query_def query_of_def buffer_text_def)
  then have "\<exists>con'. run_state (lt_auth conf d n con) w = (Some (Ret (HANDLER_FINISHED, con')), w) \<and> co_status con' = 302 \<and>
      co_headers con' = co_headers con @ [(''Location'', url @ ''?'' @ ?q)]"
    using assms(2,5,7,9) auth
    by (auto simp: lt_no_cookie_def lt_redirect_def lt_ref_def lt_self_def finish_def insert_header_def buffer_text_def Let_def
        split: prod.splits option.splits)
  moreover have "fst (lt_self conf con) \<noteq> []" by (auto simp: lt_self_def Let_def split: option.splits)
  ultimately show ?thesis
    using read_query_of [OF assms(10-12) _ assms(13), of "fst (lt_self conf con)" remote v] by fastforce
qed

section \<open>Divergences\<close>

text \<open>A header of cookies without an equals sign keeps the server busy for good.\<close>

lemma header_hangs:
  assumes "run_state (lt_auth conf d n con) w = (a, w')" and "pc_protect conf \<noteq> 0" and "pc_host conf \<noteq> None"
    and "pc_redirect conf \<noteq> None" and "pc_service conf \<noteq> None" and "pc_posterror conf \<noteq> None" and "co_cookie con = Some ''x''"
  shows "a = None"
proof -
  have "lt_cookie service ''x'' = None" for service by (rule search_endless) auto
  then show ?thesis using assms by (auto simp: lt_auth_def)
qed

text \<open>The cookie of a service is taken for that of every service whose name its own name starts.\<close>

lemma cookie_of_another_service:
  assumes "CHR ''='' \<notin> set s" and "CHR '';'' \<notin> set (s @ val)" and "s \<noteq> []" and "hd s \<noteq> CHR '' ''"
  shows "lt_cookie (s @ rest) (s @ ''='' @ val) = Some (Some (s @ ''='' @ val))"
proof -
  have "skip (s @ ''='' @ val) = s @ ''='' @ val" using assms(3,4) by (cases s) auto
  moreover have "takeWhile (\<lambda>c. c \<noteq> CHR ''='') (s @ ''='' @ val) = s" using assms(1) by (simp add: until_append)
  moreover have "starts_with_nocase (s @ rest) s" by (simp add: starts_with_nocase_def)
  ultimately have "named (s @ rest) (s @ ''='' @ val)" by (simp add: named_def)
  moreover have "rests (s @ ''='' @ val) = [s @ ''='' @ val]" using assms(2) by (subst rests.simps) auto
  moreover have "takeWhile (\<lambda>c. c \<noteq> CHR '';'') (s @ ''='' @ val) = s @ ''='' @ val"
    using assms(2) by (auto simp: takeWhile_eq_all_conv)
  ultimately show ?thesis
    using \<open>skip (s @ ''='' @ val) = s @ ''='' @ val\<close> by (simp add: search_found)
qed

text \<open>Where an allocation has nothing to spare, the first required factor is written past its end.\<close>

lemma factors_overflow:
  assumes "holds = (\<lambda>n. n)" and "pc_reqf s \<noteq> []" and "pd_reqfc (pl_cfg p) = 0"
  shows "patch_factors holds s p = Undefined"
proof -
  obtain k where "length (pc_reqf s) = Suc k" using assms(2) by (cases "pc_reqf s") auto
  then show ?thesis using assms by (simp add: patch_factors_def Let_def)
qed

text \<open>A request that requires no factor is checked for those of an earlier one.\<close>

lemma factors_linger:
  assumes "pc_reqf s = []" and "patch_factors holds s p = Ret p'"
  shows "lt_filter (pl_cfg p') db = lt_filter (pl_cfg p) db \<and> pc_reqf (pl_conf p') = []"
  using assms by (auto simp: patch_factors_def Let_def)

text \<open>\<open>pcre_exec\<close> is told of 12 elements where there are 3: with a group in the pattern it writes past them.\<close>

lemma group_overflows:
  assumes "pcre_exec re (pc_validpcre conf) (dest @ [NUL]) 12 = (rc, wrote)" and "3 < wrote"
    and "qs = cookie @ ''&'' @ dest" and "dest \<noteq> []" and "CHR ''&'' \<notin> set cookie" and "starts_with_nocase qs ''cosign-''"
  shows "run_state (lt_destination re conf d n qs con) w = (Some Undefined, w)"
  using assms by (simp add: lt_destination_def lt_match_def OVEC_def SIZEOF_OVEC_def until_append Let_def)

text \<open>Without a name of the server the port stays in the address to come back to, asked for or not.\<close>

lemma port_stays:
  assumes "co_server_name con = None" and "pc_noappendport conf = 1"
  shows "fst (lt_self conf con) = (if pc_http conf \<noteq> 0 then ''http://'' else ''https://'') @ co_authority con @ co_uri con"
  using assms by (simp add: lt_self_def Let_def)

text \<open>\<open>cosign.check-ip\<close> is written as a text over a number.\<close>

lemma check_ip_undefined:
  assumes "in_string v LT_COSIGN_CHECK_IP = Some t"
  shows "store_values v config_values s = Undefined"
  using assms by (simp add: config_values_def store_value_def)

text \<open>The first host of the file is asked for every context, and the certificate compared with the host of the context.\<close>

lemma first_host_asked:
  assumes "pd_cl (pl_cfg p) = Some sins"
  shows "lt_set_host resolve host p = (0, p)"
  using assms by (simp add: lt_set_host_def)

text \<open>The plugin does not survive the end of a server that has asked anybody.\<close>

lemma end_undefined:
  assumes "pd_cl (pl_cfg p) \<noteq> None"
  shows "mod_cosign_free p cl = Undefined"
proof -
  have "teardown_conn cl \<noteq> Ret cs \<and> teardown_conn cl \<noteq> Exit k" for cs k
    by (induction cl arbitrary: cs k) (auto split: outcome.splits)
  then show ?thesis using assms by (cases "teardown_conn cl") (auto simp: mod_cosign_free_def)
qed

end
