(* ===== verification/Lt_samples.thy ===== *)
theory Lt_samples
  imports Lt_facts Mod_samples
begin

text \<open>
  A Lighttpd server with the service \<open>cosign-www\<close> and a protected context, for which the theorems on the plugin are used on
  concrete inputs.
\<close>

section \<open>The server\<close>

definition global_texts :: "(string \<times> string) list" where
  "global_texts =
     [(LT_COSIGN_HOSTNAME, ''db''), (LT_COSIGN_SERVICE, ''cosign-www''), (LT_COSIGN_REDIRECT, ''https://login/''),
      (LT_COSIGN_POST_ERROR_REDIRECT, ''https://login/post''), (LT_COSIGN_VALIDATION_HANDLER_URI, ''/valid''),
      (LT_COSIGN_VALID_REFERENCE, ''https://www/x''), (LT_COSIGN_VALIDATION_ERROR_REDIRECT, ''https://login/bad''),
      (LT_COSIGN_FILTER_DB, ''/f'')]"

definition sample_pcre :: pcre where
  "sample_pcre = \<lparr>pcre_compile = (\<lambda>_. True), pcre_exec = (\<lambda>p s n. if p = Some (butlast s) then (1, 2) else (-1, 0))\<rparr>"

definition sample_lt :: lighttpd where
  "sample_lt =
     \<lparr>lt_contexts = 2, lt_keys = (\<lambda>i. if i = 0 then map fst global_texts else [LT_COSIGN_PROTECTED]),
      lt_insert = (\<lambda>i. Some (if i = 0
        then \<lparr>in_string = map_of global_texts, in_short = (\<lambda>_. None), in_array = (\<lambda>_. None)\<rparr>
        else \<lparr>in_string = (\<lambda>_. None), in_short = [LT_COSIGN_PROTECTED \<mapsto> 1], in_array = (\<lambda>_. None)\<rparr>)),
      lt_resolve = (\<lambda>h. if h = ''db'' then Some [1, 2] else None), lt_crypto = me_crypto sample_module_env,
      lt_pcre = sample_pcre, lt_holds = (\<lambda>n. n)\<rparr>"

definition sample_global :: plugin_config where
  "sample_global = default_config
     \<lparr>pc_host := Some ''db'', pc_service := Some ''cosign-www'', pc_redirect := Some ''https://login/'',
      pc_posterror := Some ''https://login/post'', pc_handleruri := Some ''/valid'', pc_validref := Some ''https://www/x'',
      pc_validpcre := Some ''https://www/x'', pc_referr := Some ''https://login/bad'', pc_filterdb := Some ''/f''\<rparr>"

definition sample_plugin :: plugin_data where
  "sample_plugin =
     \<lparr>pl_cfg = no_pd_config\<lparr>pd_cl := Some [\<lparr>sin_addr = 1, sin_port = 6663\<rparr>, \<lparr>sin_addr = 2, sin_port = 6663\<rparr>]\<rparr>,
      pl_storage = [sample_global, default_config\<lparr>pc_protect := 1\<rparr>], pl_conf = no_plugin_config\<rparr>"

lemma sample_values_stored:
  "store_values \<lparr>in_string = map_of global_texts, in_short = (\<lambda>_. None), in_array = (\<lambda>_. None)\<rparr> config_values default_config =
     Ret (sample_global\<lparr>pc_validpcre := None\<rparr>)"
  "store_values \<lparr>in_string = (\<lambda>_. None), in_short = [LT_COSIGN_PROTECTED \<mapsto> 1], in_array = (\<lambda>_. None)\<rparr> config_values default_config =
     Ret (default_config\<lparr>pc_protect := 1\<rparr>)"
  by (simp_all add: config_values_def store_value_def global_texts_def sample_global_def default_config_def no_plugin_config_def)

lemma sample_started: "plugin_reached sample_lt sample_plugin"
proof (rule plugin_reached.started)
  have c: "[0..<lt_contexts sample_lt] = [0, 1]" by (simp add: sample_lt_def upt_rec)
  have i: "lt_insert sample_lt 0 = Some \<lparr>in_string = map_of global_texts, in_short = (\<lambda>_. None), in_array = (\<lambda>_. None)\<rparr>"
    "lt_insert sample_lt 1 = Some \<lparr>in_string = (\<lambda>_. None), in_short = [LT_COSIGN_PROTECTED \<mapsto> 1], in_array = (\<lambda>_. None)\<rparr>"
    "lt_resolve sample_lt ''db'' = Some [1, 2]" "pcre_compile (lt_pcre sample_lt) r" for r
    by (simp_all add: sample_lt_def sample_pcre_def)
  show "mod_cosign_set_defaults sample_lt mod_cosign_init = Ret (HANDLER_GO_ON, sample_plugin)"
    unfolding mod_cosign_set_defaults_def c set_contexts.simps i(1,2) option.case sample_values_stored outcome.case
    using i(3,4)
    by (simp add: check_context_def lt_set_host_def lt_set_valid_reference_def sample_plugin_def
        mod_cosign_init_def no_pd_config_def no_plugin_config_def default_config_def sample_global_def Let_def)
qed

text \<open>Without required factors the settings are always put together.\<close>

lemma keys_patched: "pc_reqf s = [] \<Longrightarrow> \<exists>q. patch_keys holds s ks p = Ret q"
proof (induction ks arbitrary: p)
  case (Cons k ks)
  have row: "\<exists>q. f s p = Ret q" if "(k, f) \<in> set (patches holds)" for f
    using that Cons.prems by (auto simp: patches_def patch_factors_def Let_def)
  show ?case
  proof (cases "map_of (patches holds) k")
    case (Some f)
    then obtain r where "f s p = Ret r" using row by (blast dest: map_of_SomeD)
    then show ?thesis using Cons Some by simp
  qed (use Cons in simp)
qed simp

lemma contexts_patched:
  "\<forall>s \<in> set (pl_storage p). pc_reqf s = [] \<Longrightarrow> \<forall>i \<in> set is. i < length (pl_storage p) \<Longrightarrow>
   \<exists>q. patch_contexts lt in_context is p = Ret q"
proof (induction "is" arbitrary: p)
  case (Cons i "is")
  obtain q where q: "patch_keys (lt_holds lt) (pl_storage p ! i) (lt_keys lt i) p = Ret q"
    using keys_patched Cons.prems by (meson list.set_intros(1) nth_mem)
  then show ?case using Cons keys_storage [OF q] by auto
qed simp

lemma sample_patches: "\<exists>q. mod_cosign_patch_connection sample_lt in_context sample_plugin = Ret q"
proof -
  have s: "\<forall>s \<in> set (pl_storage sample_plugin). pc_reqf s = []" "length (pl_storage sample_plugin) = 2" "lt_contexts sample_lt = 2"
    by (simp_all add: sample_plugin_def sample_global_def default_config_def no_plugin_config_def sample_lt_def)
  obtain q where q: "patch_keys (lt_holds sample_lt) (pl_storage sample_plugin ! 0) (map fst (patches (lt_holds sample_lt)))
      sample_plugin = Ret q"
    using keys_patched s by (metis nth_mem zero_less_numeral)
  have "\<exists>r. patch_contexts sample_lt in_context [1..<lt_contexts sample_lt] q = Ret r"
    using contexts_patched [of q "[1..<lt_contexts sample_lt]"] keys_storage [OF q] s by auto
  then show ?thesis using q by (simp add: mod_cosign_patch_connection_def)
qed

text \<open>The settings in the protected context.\<close>

definition sample_effective :: plugin_config where
  "sample_effective = sample_global\<lparr>pc_siteentry := None, pc_proxydb := None, pc_protect := 1\<rparr>"

lemma sample_effective_conf: "effective_conf sample_lt (\<lambda>_. True) (pl_storage sample_plugin) = sample_effective"
proof -
  have c: "[1..<lt_contexts sample_lt] = [1]" by (simp add: sample_lt_def upt_rec)
  have "deciding sample_lt (\<lambda>_. True) key = (if key = LT_COSIGN_PROTECTED then 1 else 0)" for key
    unfolding deciding_def c by (simp add: sample_lt_def)
  then show ?thesis
    by (simp add: effective_conf_def sample_effective_def sample_plugin_def sample_global_def default_config_def no_plugin_config_def
        Let_def)
qed

lemma request_settings_witness:
  "\<exists>q. mod_cosign_patch_connection sample_lt (\<lambda>_. True) sample_plugin = Ret q \<and> pl_conf q = sample_effective \<and>
     context_ok sample_pcre sample_effective"
proof -
  obtain q where q: "mod_cosign_patch_connection sample_lt (\<lambda>_. True) sample_plugin = Ret q" using sample_patches by blast
  have "0 < lt_contexts sample_lt" "lt_pcre sample_lt = sample_pcre" by (simp_all add: sample_lt_def)
  then show ?thesis
    using request_settings [OF sample_started _ q sample_effective_conf [symmetric], of "''/f''"] q by simp
qed

section \<open>A request for the page\<close>

definition page_connection :: connection where
  "page_connection =
     \<lparr>co_direct = True, co_method = LM_GET, co_path = ''/x'', co_query = None, co_authority = ''www'', co_uri = ''/x'',
      co_server_name = Some ''www'', co_port = 443, co_cookie = Some sample_new, co_ip = ''10.0.0.1'', co_status = 0,
      co_finished = False, co_headers = [], co_authed_user = [], co_environment = []\<rparr>"

lemma sample_effective_sel:
  "pc_handleruri sample_effective = Some ''/valid''" "pc_protect sample_effective = 1" "pc_public sample_effective = 0"
  "pc_host sample_effective = Some ''db''" "pc_redirect sample_effective = Some ''https://login/''" "pc_filterdb sample_effective = Some ''/f''"
  "pc_service sample_effective = Some ''cosign-www''" "pc_posterror sample_effective = Some ''https://login/post''"
  "pc_checkip sample_effective = IPCHECK_NEVER" "pc_validref sample_effective = Some ''https://www/x''"
  "pc_referr sample_effective = Some ''https://login/bad''"
  by (simp_all add: sample_effective_def sample_global_def default_config_def no_plugin_config_def)

text \<open>The shared code requires no factor.\<close>

definition factors_seen :: "plugin_data \<Rightarrow> string list \<times> int" where
  "factors_seen p = (pd_reqfv (pl_cfg p), pd_reqfc (pl_cfg p))"

lemma keys_factors_seen: "pc_reqf s = [] \<Longrightarrow> patch_keys holds s ks p = Ret q \<Longrightarrow> factors_seen q = factors_seen p"
proof (induction ks arbitrary: p)
  case (Cons k ks)
  have row: "factors_seen r = factors_seen p" if "(k, f) \<in> set (patches holds)" "f s p = Ret r" for f r
    using that Cons.prems(1) by (auto simp: patches_def patch_factors_def factors_seen_def Let_def)
  show ?case using Cons row by (auto split: option.splits outcome.splits dest!: map_of_SomeD)
qed simp

lemma contexts_factors_seen:
  "\<forall>s \<in> set (pl_storage p). pc_reqf s = [] \<Longrightarrow> \<forall>i \<in> set is. i < length (pl_storage p) \<Longrightarrow>
   patch_contexts lt in_context is p = Ret q \<Longrightarrow> factors_seen q = factors_seen p"
proof (induction "is" arbitrary: p)
  case (Cons i "is")
  show ?case
  proof (cases "in_context i")
    case True
    then obtain r where r: "patch_keys (lt_holds lt) (pl_storage p ! i) (lt_keys lt i) p = Ret r"
      "patch_contexts lt in_context is r = Ret q" using Cons.prems by (auto split: outcome.splits)
    have "pc_reqf (pl_storage p ! i) = []" using Cons.prems by simp
    then show ?thesis using Cons.IH [of r] r keys_storage [OF r(1)] keys_factors_seen [OF _ r(1)] Cons.prems by simp
  qed (use Cons in simp)
qed simp

lemma sample_filter_seen:
  assumes "mod_cosign_patch_connection sample_lt in_context sample_plugin = Ret q"
  shows "lt_filter (pl_cfg q) ''/f'' = (conf_filter (pl_conf q) True ''/f'')\<lparr>fc_reqfv := []\<rparr>"
    and "pd_filterdb (pl_cfg q) = pc_filterdb (pl_conf q)"
proof -
  have s: "\<forall>s \<in> set (pl_storage sample_plugin). pc_reqf s = []" "length (pl_storage sample_plugin) = 2" "lt_contexts sample_lt = 2"
    by (simp_all add: sample_plugin_def sample_global_def default_config_def no_plugin_config_def sample_lt_def)
  obtain r where r: "patch_keys (lt_holds sample_lt) (pl_storage sample_plugin ! 0) (map fst (patches (lt_holds sample_lt)))
      sample_plugin = Ret r" "patch_contexts sample_lt in_context [1..<lt_contexts sample_lt] r = Ret q"
    using assms by (auto simp: mod_cosign_patch_connection_def split: outcome.splits)
  have "pc_reqf (pl_storage sample_plugin ! 0) = []" using s by simp
  then have "factors_seen q = factors_seen sample_plugin"
    using keys_factors_seen [OF _ r(1)] contexts_factors_seen [OF _ _ r(2)] keys_storage [OF r(1)] s by simp
  moreover have "pd_hashlen (pl_cfg sample_plugin) = 0" "pd_proxydb (pl_cfg sample_plugin) = None" "pd_cl (pl_cfg sample_plugin) \<noteq> None"
    "factors_seen sample_plugin = ([], 0)"
    by (simp_all add: sample_plugin_def no_pd_config_def factors_seen_def)
  ultimately show "lt_filter (pl_cfg q) ''/f'' = (conf_filter (pl_conf q) True ''/f'')\<lparr>fc_reqfv := []\<rparr>"
    "pd_filterdb (pl_cfg q) = pc_filterdb (pl_conf q)"
    using patched_filter [OF assms] by (simp_all add: factors_seen_def)
qed

text \<open>The page from the copy alone, as under Apache.\<close>

lemma sample_copy_answers:
  assumes "fc_filterdb cfg = ''/f''" and "fc_hashlen cfg = 0" and "fc_checkip cfg = IPCHECK_NEVER" and "fc_reqfv cfg = []"
  shows "\<exists>si'. run_state (cosign_cookie_valid cfg sample_new None ''10.0.0.1'' 1) sample_page_state =
    (Some (Ret (COSIGN_OK, si', None)), sample_page_state) \<and> si_user si' = ''bob''"
proof -
  let ?si = "learned 3 sample_cinfo [''umich''] sinfo_zero"
  have c: "mkcookiepath (Some (fc_filterdb cfg)) (fc_hashlen cfg) sample_new MAXPATHLEN = Some (''/f/'' @ sample_new)"
    "os_faults sample_page_state = []" "tv_sec (os_now sample_page_state) = 1000"
    "os_fs sample_page_state (''/f/'' @ sample_new) = Some \<lparr>f_data = scookie_text ?si, f_mode = mode_0644, f_mtime = 1000\<rparr>"
    using sample_new_path assms(1,2) by (simp_all add: sample_page_state_def sample_filter_def copy_file_def)
  have "plain sample_line" using sample_line_status by (simp add: status_line_def)
  then have "sinfo_ok ?si" using sinfo_ok_learned [OF sample_registered] by (simp add: sample_line_def)
  from fresh_copy_answers [OF c(2,1,4) this, of "''10.0.0.1''" None 0] show ?thesis
    using assms(3,4) c(3) sample_live_reply(2,6)
    by (auto simp: learned_def IDLETIME_def IPCHECK_NEVER_def IPCHECK_ALWAYS_def)
qed

lemma sample_cookie_found: "lt_cookie ''cosign-www'' sample_new = Some (Some sample_new)"
  using cookie_of_another_service [of "''cosign-www''" "replicate 124 CHR ''A''" "[]"] by (simp add: sample_new_def)

lemma lt_protected_page_witness:
  "\<exists>con' q. run_state (mod_cosign_uri_handler sample_lt (\<lambda>_. True) 1 page_connection sample_plugin) sample_page_state =
       ((Some (Ret (HANDLER_GO_ON, con')), q), sample_page_state) \<and>
     (\<exists>si. lt_vouched 1 sample_effective (pl_cfg q) page_connection si sample_page_state \<and> co_authed_user con' = si_user si)"
proof -
  obtain q where q: "mod_cosign_patch_connection sample_lt (\<lambda>_. True) sample_plugin = Ret q" using sample_patches by blast
  have c: "pl_conf q = sample_effective"
    using patched_conf [OF q] reached_ok [OF sample_started] sample_effective_conf by (simp add: plugin_ok_def)
  have d: "pd_filterdb (pl_cfg q) = Some ''/f''" using sample_filter_seen [OF q] c sample_effective_sel by simp
  obtain si where si: "run_state (cosign_cookie_valid (lt_filter (pl_cfg q) ''/f'') sample_new None ''10.0.0.1'' 1) sample_page_state =
    (Some (Ret (COSIGN_OK, si, None)), sample_page_state)"
    using sample_copy_answers [of "lt_filter (pl_cfg q) ''/f''"] sample_filter_seen [OF q] c sample_effective_sel
    by (auto simp: conf_filter_def)
  have cut: "cut_slash sample_new = (sample_new, None)" by (simp add: cut_slash_def sample_new_def)
  have "os_faults sample_page_state = []" by (simp add: sample_page_state_def sample_filter_def)
  then have "run_state (lt_visit_with sample_effective (pl_cfg q) 1 sample_new page_connection) sample_page_state =
      (Some (Ret (HANDLER_GO_ON, lt_let_through sample_effective si page_connection)), sample_page_state)"
    using si d cut sample_new_valid(2)
    by (simp add: lt_visit_with_def lt_check_visit_def lt_cookie_valid_def os_simps page_connection_def COSIGN_OK_def COSIGN_ERROR_def)
  moreover have "\<not> length sample_new + 1 < 120" by (simp add: sample_new_def)
  ultimately have "run_state (lt_serve sample_pcre sample_effective (pl_cfg q) 1 page_connection) sample_page_state =
      (Some (Ret (HANDLER_GO_ON, lt_let_through sample_effective si page_connection)), sample_page_state)"
    using sample_cookie_found sample_effective_sel by (simp add: lt_serve_def lt_auth_def page_connection_def)
  then have run: "run_state (mod_cosign_uri_handler sample_lt (\<lambda>_. True) 1 page_connection sample_plugin) sample_page_state =
      ((Some (Ret (HANDLER_GO_ON, lt_let_through sample_effective si page_connection)), q), sample_page_state)"
    using q c by (simp add: mod_cosign_uri_handler_def page_connection_def sample_lt_def)
  have "co_direct page_connection" by (simp add: page_connection_def)
  from lt_protected_page [OF run this sample_started sample_effective_conf [symmetric]] show ?thesis
    using run sample_effective_sel by simp blast
qed

section \<open>A request for the location of service cookies\<close>


end
