(* ===== verification/Logname.thy ===== *)
theory Logname
  imports Prelude
begin

text \<open>
  \<open>daemon/logname.c\<close>: the names of syslog levels and facilities.  The values are those of
  \<open>syslog.h\<close>; the facilities \<open>kern\<close>, \<open>ftp\<close> and \<open>authpriv\<close> are there.
\<close>

record syslogname_entry =
  sl_name :: string
  sl_value :: int

definition sln :: "string \<Rightarrow> int \<Rightarrow> syslogname_entry" where
  "sln n v = \<lparr>sl_name = n, sl_value = v\<rparr>"

definition sysloglevel_table :: "syslogname_entry list" where
  "sysloglevel_table =
     [sln ''emerg'' 0, sln ''alert'' 1, sln ''crit'' 2, sln ''err'' 3, sln ''warning'' 4,
      sln ''notice'' 5, sln ''info'' 6, sln ''debug'' 7]"

definition syslogfacility_table :: "syslogname_entry list" where
  "syslogfacility_table =
     [sln ''kern'' (0 * 8), sln ''user'' (1 * 8), sln ''mail'' (2 * 8), sln ''daemon'' (3 * 8),
      sln ''auth'' (4 * 8), sln ''syslog'' (5 * 8), sln ''lpr'' (6 * 8), sln ''news'' (7 * 8),
      sln ''uucp'' (8 * 8), sln ''cron'' (9 * 8), sln ''ftp'' (11 * 8), sln ''authpriv'' (10 * 8),
      sln ''local0'' (16 * 8), sln ''local1'' (17 * 8), sln ''local2'' (18 * 8),
      sln ''local3'' (19 * 8), sln ''local4'' (20 * 8), sln ''local5'' (21 * 8),
      sln ''local6'' (22 * 8), sln ''local7'' (23 * 8)]"

fun syslogname :: "string \<Rightarrow> syslogname_entry list \<Rightarrow> int" where
  "syslogname name [] = -1"
| "syslogname name (e # es) = (if strcaseeq (sl_name e) name then sl_value e else syslogname name es)"

lemma tolower_idem: "tolower (tolower c) = tolower c"
  by (auto simp: tolower_def)

lemma syslogname_case: "syslogname (map tolower name) es = syslogname name es"
  by (induction es) (simp_all add: strcaseeq_def comp_def tolower_idem)

lemma syslogname_entries:
  "list_all (\<lambda>e. syslogname (sl_name e) sysloglevel_table = sl_value e) sysloglevel_table"
  "list_all (\<lambda>e. syslogname (sl_name e) syslogfacility_table = sl_value e) syslogfacility_table"
  by (simp_all add: sysloglevel_table_def syslogfacility_table_def sln_def strcaseeq_def
      tolower_def code_of_def)

end
