(* ===== verification/Startup.thy ===== *)
theory Startup
  imports Conf_read Logname
begin

text \<open>
  What the daemon and the monster share when they start: the options of the command line as \<open>getopt\<close> gives them, the values of
  the configuration, and \<open>cosign_ssl\<close> of \<open>common/conf.c\<close>.  The locale \<open>option_setting\<close> states what one option sets.
\<close>

section \<open>Options\<close>

text \<open>Whether the letter is in the string of options, and whether a colon follows it there.\<close>

fun takes_argument :: "string \<Rightarrow> char \<Rightarrow> bool option" where
  "takes_argument [] c = None"
| "takes_argument (x # xs) c =
     (if x = c \<and> c \<noteq> CHR '':'' then Some (take 1 xs = '':'') else takes_argument xs c)"

text \<open>The options of one word, with the words that follow it: the argument is the rest of the word, or the next word.\<close>

fun getopt_word :: "string \<Rightarrow> string \<Rightarrow> string list \<Rightarrow> (char \<times> string) list \<times> string list" where
  "getopt_word os [] ws = ([], ws)"
| "getopt_word os (c # cs) ws =
     (case takes_argument os c of
        None \<Rightarrow> (case getopt_word os cs ws of (r, ws) \<Rightarrow> ((CHR ''?'', []) # r, ws))
      | Some False \<Rightarrow> (case getopt_word os cs ws of (r, ws) \<Rightarrow> ((c, []) # r, ws))
      | Some True \<Rightarrow>
          if cs \<noteq> [] then ([(c, cs)], ws)
          else case ws of [] \<Rightarrow> ([(CHR ''?'', [])], []) | w # ws \<Rightarrow> ([(c, w)], ws))"

lemma getopt_word_rest: "getopt_word os cs ws = (r, ws') \<Longrightarrow> length ws' \<le> length ws"
  by (induction os cs ws arbitrary: r ws' rule: getopt_word.induct)
    (auto split: option.splits bool.splits prod.splits if_splits list.splits)

text \<open>
  Options up to the first word that is none; what is left is not empty where \<open>optind\<close> differs from \<open>ac\<close>.  A \<open>getopt\<close> that
  goes on after such a word has it among what is left all the same, and the programs then exit with their usage.
\<close>

function getopt :: "string \<Rightarrow> string list \<Rightarrow> (char \<times> string) list \<times> string list" where
  "getopt os [] = ([], [])"
| "getopt os (w # ws) =
     (if w = ''--'' then ([], ws)
      else if take 1 w = ''-'' \<and> w \<noteq> ''-'' then
        (case getopt_word os (tl w) ws of
           (r, ws') \<Rightarrow> (case getopt os ws' of (rs, rest) \<Rightarrow> (r @ rs, rest)))
      else ([], w # ws))"
  by pat_completeness auto
termination
  by (relation "measure (length \<circ> snd)") (auto dest: getopt_word_rest [OF sym] simp: less_Suc_eq_le)

text \<open>The options one after the other; one may end the process.\<close>

primrec each_option :: "(char \<times> string \<Rightarrow> 's \<Rightarrow> 's outcome) \<Rightarrow> (char \<times> string) list \<Rightarrow> 's \<Rightarrow> 's outcome" where
  "each_option f [] s = Ret s"
| "each_option f (x # xs) s = (case f x s of Ret s \<Rightarrow> each_option f xs s | Exit n \<Rightarrow> Exit n | Undefined \<Rightarrow> Undefined)"

text \<open>The argument of the last option of a letter.\<close>

definition last_option :: "char \<Rightarrow> (char \<times> string) list \<Rightarrow> string option" where
  "last_option c opts = (case filter (\<lambda>x. fst x = c) opts of [] \<Rightarrow> None | x # xs \<Rightarrow> Some (snd (last (x # xs))))"

lemma last_option_cons:
  "last_option c (x # xs) = (case last_option c xs of None \<Rightarrow> if fst x = c then Some (snd x) else None | Some a \<Rightarrow> Some a)"
  by (auto simp: last_option_def split: list.splits)

lemma last_option_nil [simp]: "last_option c [] = None"
  by (simp add: last_option_def)

locale option_setting =
  fixes opt :: char and f :: "char \<times> string \<Rightarrow> 's \<Rightarrow> 's outcome" and get :: "'s \<Rightarrow> 'a" and val :: "string \<Rightarrow> 'a"
  assumes sets: "f (opt, a) s = Ret s' \<Longrightarrow> get s' = val a"
    and keeps: "c \<noteq> opt \<Longrightarrow> f (c, a) s = Ret s' \<Longrightarrow> get s' = get s"
begin

lemma last_wins:
  "each_option f opts s = Ret s' \<Longrightarrow> get s' = (case last_option opt opts of None \<Rightarrow> get s | Some a \<Rightarrow> val a)"
proof (induction opts arbitrary: s)
  case (Cons x xs)
  obtain c a where x: "x = (c, a)" by fastforce
  obtain t where t: "f (c, a) s = Ret t" "each_option f xs t = Ret s'"
    using Cons.prems by (auto simp: x split: outcome.splits)
  have "get t = (if c = opt then val a else get s)" using t(1) sets keeps by auto
  then show ?case using Cons.IH [OF t(2)] by (auto simp: x last_option_cons split: option.splits)
qed simp

end

section \<open>Values of the configuration\<close>

text \<open>The values of \<open>configure\<close>.\<close>

record built =
  bd_dir :: string
  bd_tickets :: string
  bd_conf :: string
  bd_key :: string
  bd_cert :: string
  bd_cadir :: string
  bd_facility :: int

definition from_config :: "cosigncfg list \<Rightarrow> string \<Rightarrow> (string \<Rightarrow> 's \<Rightarrow> 's) \<Rightarrow> 's \<Rightarrow> 's" where
  "from_config cf key f s = (case cosign_config_get cf key of None \<Rightarrow> s | Some v \<Rightarrow> f v s)"

lemma from_config_keeps: "(\<And>v s. g (f v s) = g s) \<Longrightarrow> g (from_config cf k f s) = g s"
  by (simp add: from_config_def split: option.split)

lemma from_config_app:
  "g (from_config cf k f s) = (case cosign_config_get cf k of None \<Rightarrow> g s | Some v \<Rightarrow> g (f v s))"
  by (simp add: from_config_def split: option.split)

text \<open>A setting of the command line goes before one of the file, and that before the built-in one.\<close>

definition chosen :: "(string \<Rightarrow> 'a) \<Rightarrow> string option \<Rightarrow> string option \<Rightarrow> 'a \<Rightarrow> 'a" where
  "chosen val opt conf dflt = (case opt of Some a \<Rightarrow> val a | None \<Rightarrow> case conf of Some a \<Rightarrow> val a | None \<Rightarrow> dflt)"

text \<open>\<open>htons( atoi( val ))\<close>, in host order.\<close>

definition port_of :: "string \<Rightarrow> 16 word" where
  "port_of s = word_of_int (atoi s)"

section \<open>TLS\<close>

text \<open>What the system says of the files, and OpenSSL of their contents.\<close>

record tls_files =
  tf_stat :: "string \<Rightarrow> bool option"
  tf_readable :: "string \<Rightarrow> bool"
  tf_searchable :: "string \<Rightarrow> bool"
  tf_ctx_new :: bool
  tf_use_key :: "string \<Rightarrow> bool"
  tf_use_cert :: "string \<Rightarrow> bool"
  tf_check_key :: "string \<Rightarrow> string \<Rightarrow> bool"
  tf_verify :: "bool \<Rightarrow> string \<Rightarrow> bool"

text \<open>An \<open>SSL_CTX\<close> is what it was made of; a new one takes the place of the old one when all went well.\<close>

type_synonym ssl_ctx = "string \<times> string \<times> string"

definition cosign_ssl :: "tls_files \<Rightarrow> string \<Rightarrow> string \<Rightarrow> string \<Rightarrow> ssl_ctx option \<Rightarrow> int \<times> ssl_ctx option" where
  "cosign_ssl tf cryptofile certfile capath ctx =
     (case tf_stat tf capath of
        None \<Rightarrow> (1, ctx)
      | Some isdir \<Rightarrow>
          if \<not> tf_readable tf cryptofile then (1, ctx)
          else if \<not> tf_readable tf certfile then (1, ctx)
          else if isdir \<and> \<not> tf_searchable tf capath then (1, ctx)
          else if \<not> isdir \<and> \<not> tf_readable tf capath then (1, ctx)
          else if \<not> tf_ctx_new tf then (1, ctx)
          else if \<not> tf_use_key tf cryptofile then (1, ctx)
          else if \<not> tf_use_cert tf certfile then (1, ctx)
          else if \<not> tf_check_key tf cryptofile certfile then (1, ctx)
          else if \<not> tf_verify tf isdir capath then (1, ctx)
          else (0, Some (cryptofile, certfile, capath)))"

lemma cosign_ssl_result:
  "cosign_ssl tf key cert ca ctx = (rc, ctx') \<Longrightarrow>
   rc = 0 \<and> ctx' = Some (key, cert, ca) \<or> rc = 1 \<and> ctx' = ctx"
  by (auto simp: cosign_ssl_def split: option.splits if_splits)

section \<open>Processes\<close>

datatype forked = In_child | Fork_failed | In_parent int

text \<open>What happens while a program leaves its terminal.\<close>

record leaving =
  lv_fork :: forked
  lv_setsid :: bool
  lv_open :: bool

definition disassociate :: "leaving \<Rightarrow> unit outcome" where
  "disassociate lv =
     (case lv_fork lv of
        In_child \<Rightarrow> if \<not> lv_setsid lv then Exit 1 else if \<not> lv_open lv then Exit 1 else Ret ()
      | Fork_failed \<Rightarrow> Exit 1
      | In_parent pid \<Rightarrow> Exit 0)"

end
