(* ===== verification/Monster_start.thy ===== *)
theory Monster_start
  imports Startup Sweep
begin

text \<open>
  \<open>main\<close> of \<open>daemon/monster.c\<close> up to its endless loop: options, configuration, the addresses of the servers and TLS, and
  which settings the passes run with.
\<close>

section \<open>Settings\<close>

record keeper_settings =
  mt_idle_cache :: int
  mt_interval :: int
  mt_hard_timeout :: int
  mt_loggedout_cache :: int
  mt_debug :: int
  mt_hashlen :: int
  mt_dir :: string
  mt_cryptofile :: string
  mt_certfile :: string
  mt_cadir :: string
  mt_net_timeout :: int
  mt_port :: "16 word"
  mt_host :: "string option"
  mt_facility :: int
  mt_level :: int
  mt_fg :: bool
  mt_err :: nat

definition monster_default :: "built \<Rightarrow> keeper_settings" where
  "monster_default bd =
     \<lparr>mt_idle_cache = 60 * 30 + 60 * 60 * 2 + 60 * 60 * 2, mt_interval = 60 * 2, mt_hard_timeout = 60 * 60 * 12,
      mt_loggedout_cache = 60 * 60 * 2, mt_debug = 0, mt_hashlen = 0, mt_dir = bd_dir bd, mt_cryptofile = bd_key bd,
      mt_certfile = bd_cert bd, mt_cadir = bd_cadir bd, mt_net_timeout = 60 * 4, mt_port = 0, mt_host = None,
      mt_facility = bd_facility bd, mt_level = 6, mt_fg = False, mt_err = 0\<rparr>"

definition monster_configure :: "cosigncfg list \<Rightarrow> keeper_settings \<Rightarrow> keeper_settings" where
  "monster_configure cf s =
     (let s = from_config cf ''cosigndb'' (\<lambda>v s. s\<lparr>mt_dir := v\<rparr>) s;
          s = from_config cf ''cosigncadir'' (\<lambda>v s. s\<lparr>mt_cadir := v\<rparr>) s;
          s = from_config cf ''cosigncert'' (\<lambda>v s. s\<lparr>mt_certfile := v\<rparr>) s;
          s = from_config cf ''cosignkey'' (\<lambda>v s. s\<lparr>mt_cryptofile := v\<rparr>) s;
          s = from_config cf ''cosignnettimeout'' (\<lambda>v s. s\<lparr>mt_net_timeout := atoi v\<rparr>) s;
          s = from_config cf ''cosignport'' (\<lambda>v s. s\<lparr>mt_port := port_of v\<rparr>) (s\<lparr>mt_port := 6663\<rparr>)
      in from_config cf ''cosigndbhashlen'' (\<lambda>v s. s\<lparr>mt_hashlen := atoi v\<rparr>) s)"

definition MONSTER_OPTS :: string where "MONSTER_OPTS = ''c:dF:fh:H:i:I:l:L:p:Vx:y:z:''"

definition monster_option :: "char \<times> string \<Rightarrow> keeper_settings \<Rightarrow> keeper_settings outcome" where
  "monster_option x s =
     (case x of (c, optarg) \<Rightarrow>
        if c = CHR ''c'' then Ret s
        else if c = CHR ''d'' then Ret (s\<lparr>mt_debug := mt_debug s + 1\<rparr>)
        else if c = CHR ''F'' then
          (if syslogname optarg syslogfacility_table = -1 then Exit 1
           else Ret (s\<lparr>mt_facility := syslogname optarg syslogfacility_table\<rparr>))
        else if c = CHR ''f'' then Ret (s\<lparr>mt_fg := True\<rparr>)
        else if c = CHR ''h'' then Ret (s\<lparr>mt_host := Some optarg\<rparr>)
        else if c = CHR ''H'' then Ret (s\<lparr>mt_hard_timeout := atoi optarg\<rparr>)
        else if c = CHR ''i'' then Ret (s\<lparr>mt_idle_cache := atoi optarg\<rparr>)
        else if c = CHR ''I'' then Ret (s\<lparr>mt_interval := atoi optarg\<rparr>)
        else if c = CHR ''l'' then Ret (s\<lparr>mt_loggedout_cache := atoi optarg\<rparr>)
        else if c = CHR ''L'' then
          (if syslogname optarg sysloglevel_table = -1 then Exit 1
           else Ret (s\<lparr>mt_level := syslogname optarg sysloglevel_table\<rparr>))
        else if c = CHR ''p'' then Ret (s\<lparr>mt_port := port_of optarg\<rparr>)
        else if c = CHR ''V'' then Exit 0
        else if c = CHR ''x'' then Ret (s\<lparr>mt_cadir := optarg\<rparr>)
        else if c = CHR ''y'' then Ret (s\<lparr>mt_certfile := optarg\<rparr>)
        else if c = CHR ''z'' then Ret (s\<lparr>mt_cryptofile := optarg\<rparr>)
        else Ret (s\<lparr>mt_err := mt_err s + 1\<rparr>))"

definition monster_settings :: "built \<Rightarrow> files \<Rightarrow> nat \<Rightarrow> string list \<Rightarrow> (keeper_settings \<times> conf) outcome" where
  "monster_settings bd fs fds args =
     (case getopt MONSTER_OPTS args of
        (opts, rest) \<Rightarrow>
          let conf = (case last_option CHR ''c'' opts of None \<Rightarrow> bd_conf bd | Some f \<Rightarrow> f)
          in case cosign_config fs fds conf conf_init of
               Ret (rc, cf) \<Rightarrow>
                 if rc < 0 then Exit 1
                 else
                   (case each_option monster_option opts (monster_configure (cf_cfg cf) (monster_default bd)) of
                      Ret s \<Rightarrow> if mt_err s \<noteq> 0 \<or> rest \<noteq> [] then Exit (-1) else Ret (s, cf)
                    | Exit n \<Rightarrow> Exit n
                    | Undefined \<Rightarrow> Undefined)
             | Exit n \<Rightarrow> Exit n
             | Undefined \<Rightarrow> Undefined)"

section \<open>The servers\<close>

record monster_startup =
  ms_hostname :: "string option"
  ms_resolve :: "string \<Rightarrow> (32 word) list option"
  ms_tls :: tls_files
  ms_chdir :: bool
  ms_leaving :: leaving

text \<open>The addresses the entries of the list hold, with the port, the entries as the passes see them, and the context.\<close>

record monster_started =
  md_config :: monster_config
  md_interval :: int
  md_addresses :: "((32 word) \<times> (16 word)) list"
  md_head :: "conn list"
  md_ctx :: "ssl_ctx option"

definition monster_hosts ::
  "monster_startup \<Rightarrow> keeper_settings \<Rightarrow> (string \<times> ((32 word) \<times> (16 word)) list \<times> ssl_ctx option) outcome" where
  "monster_hosts su s =
     (case mt_host s of
        None \<Rightarrow> Ret ([], [], None)
      | Some host \<Rightarrow>
          (case ms_hostname su of
             None \<Rightarrow> Exit 1
           | Some name \<Rightarrow>
               (case ms_resolve su host of
                  None \<Rightarrow> Exit 1
                | Some as \<Rightarrow>
                    (case cosign_ssl (ms_tls su) (mt_cryptofile s) (mt_certfile s) (mt_cadir s) None of
                       (rc, ctx) \<Rightarrow> if rc \<noteq> 0 then Exit 1 else Ret (name, map (\<lambda>a. (a, mt_port s)) as, ctx)))))"

definition monster_start :: "built \<Rightarrow> files \<Rightarrow> nat \<Rightarrow> monster_startup \<Rightarrow> string list \<Rightarrow> monster_started outcome" where
  "monster_start bd fs fds su args =
     (case monster_settings bd fs fds args of
        Exit n \<Rightarrow> Exit n
      | Undefined \<Rightarrow> Undefined
      | Ret (s, cf) \<Rightarrow>
          (case monster_hosts su s of
             Exit n \<Rightarrow> Exit n
           | Undefined \<Rightarrow> Undefined
           | Ret (name, as, ctx) \<Rightarrow>
               let st = \<lparr>md_config =
                     \<lparr>m_hashlen = mt_hashlen s, idle_cache = mt_idle_cache s, loggedout_cache = mt_loggedout_cache s,
                      hard_timeout = mt_hard_timeout s, cosign_host = (case mt_host s of None \<Rightarrow> [] | Some h \<Rightarrow> h),
                      m_hostname = name\<rparr>,
                     md_interval = mt_interval s, md_addresses = as,
                     md_head = map (\<lambda>_. \<lparr>cl_sn = None, cl_last_time = 0\<rparr>) as, md_ctx = ctx\<rparr>
               in if \<not> ms_chdir su then Exit 1
                  else if \<not> mt_fg s \<and> mt_debug s = 0 then
                    (case disassociate (ms_leaving su) of Ret _ \<Rightarrow> Ret st | Exit n \<Rightarrow> Exit n | Undefined \<Rightarrow> Undefined)
                  else Ret st))"

section \<open>Which settings\<close>

interpretation monster_port: option_setting "CHR ''p''" monster_option mt_port port_of
  by unfold_locales (auto simp: monster_option_def split: if_splits)

interpretation monster_idle: option_setting "CHR ''i''" monster_option mt_idle_cache atoi
  by unfold_locales (auto simp: monster_option_def split: if_splits)

interpretation monster_hard: option_setting "CHR ''H''" monster_option mt_hard_timeout atoi
  by unfold_locales (auto simp: monster_option_def split: if_splits)

interpretation monster_loggedout: option_setting "CHR ''l''" monster_option mt_loggedout_cache atoi
  by unfold_locales (auto simp: monster_option_def split: if_splits)

interpretation monster_interval: option_setting "CHR ''I''" monster_option mt_interval atoi
  by unfold_locales (auto simp: monster_option_def split: if_splits)

interpretation monster_host: option_setting "CHR ''h''" monster_option mt_host Some
  by unfold_locales (auto simp: monster_option_def split: if_splits)

interpretation monster_cadir: option_setting "CHR ''x''" monster_option mt_cadir id
  by unfold_locales (auto simp: monster_option_def split: if_splits)

interpretation monster_cert: option_setting "CHR ''y''" monster_option mt_certfile id
  by unfold_locales (auto simp: monster_option_def split: if_splits)

interpretation monster_key: option_setting "CHR ''z''" monster_option mt_cryptofile id
  by unfold_locales (auto simp: monster_option_def split: if_splits)

lemmas monster_last_wins = monster_port.last_wins monster_idle.last_wins monster_hard.last_wins monster_loggedout.last_wins
  monster_interval.last_wins monster_host.last_wins monster_cadir.last_wins monster_cert.last_wins monster_key.last_wins

lemma monster_options_keep:
  "each_option monster_option opts s = Ret s' \<Longrightarrow> mt_hashlen s' = mt_hashlen s \<and> mt_dir s' = mt_dir s"
proof (induction opts arbitrary: s)
  case (Cons x xs)
  obtain t where t: "monster_option x s = Ret t" "each_option monster_option xs t = Ret s'"
    using Cons.prems by (auto split: outcome.splits)
  have "mt_hashlen t = mt_hashlen s \<and> mt_dir t = mt_dir s"
    using t(1) by (cases x) (auto simp: monster_option_def split: if_splits)
  then show ?case using Cons.IH [OF t(2)] by simp
qed simp

lemmas monster_configure_keeps = from_config_keeps [of mt_dir] from_config_keeps [of mt_cadir]
  from_config_keeps [of mt_certfile] from_config_keeps [of mt_cryptofile] from_config_keeps [of mt_port]
  from_config_keeps [of mt_hashlen] from_config_keeps [of mt_host] from_config_keeps [of mt_idle_cache]
  from_config_keeps [of mt_hard_timeout] from_config_keeps [of mt_loggedout_cache] from_config_keeps [of mt_interval]

lemmas monster_configure_sets = from_config_app [of mt_dir] from_config_app [of mt_cadir] from_config_app [of mt_certfile]
  from_config_app [of mt_cryptofile] from_config_app [of mt_port] from_config_app [of mt_hashlen]

lemma monster_configured:
  "mt_dir (monster_configure cf s) = chosen id None (cosign_config_get cf ''cosigndb'') (mt_dir s)"
  "mt_cadir (monster_configure cf s) = chosen id None (cosign_config_get cf ''cosigncadir'') (mt_cadir s)"
  "mt_certfile (monster_configure cf s) = chosen id None (cosign_config_get cf ''cosigncert'') (mt_certfile s)"
  "mt_cryptofile (monster_configure cf s) = chosen id None (cosign_config_get cf ''cosignkey'') (mt_cryptofile s)"
  "mt_port (monster_configure cf s) = chosen port_of None (cosign_config_get cf ''cosignport'') 6663"
  "mt_hashlen (monster_configure cf s) = chosen atoi None (cosign_config_get cf ''cosigndbhashlen'') (mt_hashlen s)"
  "mt_host (monster_configure cf s) = mt_host s"
  "mt_idle_cache (monster_configure cf s) = mt_idle_cache s"
  "mt_hard_timeout (monster_configure cf s) = mt_hard_timeout s"
  "mt_loggedout_cache (monster_configure cf s) = mt_loggedout_cache s"
  "mt_interval (monster_configure cf s) = mt_interval s"
  by (simp_all add: monster_configure_def Let_def monster_configure_keeps)
    (subst monster_configure_sets, force simp: monster_configure_keeps chosen_def split: option.split)+

text \<open>The settings of the passes, in terms of the options and of the configuration.\<close>

definition monster_settings_of :: "built \<Rightarrow> cosigncfg list \<Rightarrow> (char \<times> string) list \<Rightarrow> keeper_settings \<Rightarrow> bool" where
  "monster_settings_of bd cf opts s \<longleftrightarrow>
     mt_dir s = chosen id None (cosign_config_get cf ''cosigndb'') (bd_dir bd) \<and>
     mt_hashlen s = chosen atoi None (cosign_config_get cf ''cosigndbhashlen'') 0 \<and>
     mt_cryptofile s = chosen id (last_option CHR ''z'' opts) (cosign_config_get cf ''cosignkey'') (bd_key bd) \<and>
     mt_certfile s = chosen id (last_option CHR ''y'' opts) (cosign_config_get cf ''cosigncert'') (bd_cert bd) \<and>
     mt_cadir s = chosen id (last_option CHR ''x'' opts) (cosign_config_get cf ''cosigncadir'') (bd_cadir bd) \<and>
     mt_port s = chosen port_of (last_option CHR ''p'' opts) (cosign_config_get cf ''cosignport'') 6663 \<and>
     mt_idle_cache s = chosen atoi (last_option CHR ''i'' opts) None (60 * 30 + 60 * 60 * 2 + 60 * 60 * 2) \<and>
     mt_hard_timeout s = chosen atoi (last_option CHR ''H'' opts) None (60 * 60 * 12) \<and>
     mt_loggedout_cache s = chosen atoi (last_option CHR ''l'' opts) None (60 * 60 * 2) \<and>
     mt_interval s = chosen atoi (last_option CHR ''I'' opts) None (60 * 2) \<and>
     mt_host s = last_option CHR ''h'' opts"

lemma monster_options_settings:
  assumes "each_option monster_option opts (monster_configure cf (monster_default bd)) = Ret s"
  shows "monster_settings_of bd cf opts s"
  using monster_last_wins [OF assms] monster_options_keep [OF assms]
  by (auto simp: monster_settings_of_def monster_configured monster_default_def chosen_def split: option.splits)

lemma monster_settings_Ret:
  assumes "monster_settings bd fs fds args = Ret (s, cf)"
  obtains opts where "getopt MONSTER_OPTS args = (opts, [])"
    and "cosign_config fs fds (case last_option CHR ''c'' opts of None \<Rightarrow> bd_conf bd | Some f \<Rightarrow> f) conf_init = Ret (0, cf)"
    and "monster_settings_of bd (cf_cfg cf) opts s"
proof -
  obtain opts rest where o: "getopt MONSTER_OPTS args = (opts, rest)" by fastforce
  let ?f = "case last_option CHR ''c'' opts of None \<Rightarrow> bd_conf bd | Some f \<Rightarrow> f"
  obtain rc cf' where r: "cosign_config fs fds ?f conf_init = Ret (rc, cf')"
    using assms unfolding monster_settings_def o by (auto simp: Let_def split: outcome.splits)
  have "\<not> rc < 0" using assms unfolding monster_settings_def o by (auto simp: Let_def r)
  then have rc: "rc = 0" using r by (auto simp: cosign_config_def split: outcome.splits if_splits)
  obtain s' where s': "each_option monster_option opts (monster_configure (cf_cfg cf') (monster_default bd)) = Ret s'"
    using assms unfolding monster_settings_def o by (auto simp: Let_def r rc split: outcome.splits)
  have *: "s' = s" "cf' = cf" "rest = []"
    using assms unfolding monster_settings_def o by (auto simp: Let_def r rc s' split: if_splits)
  show thesis
    by (rule that [of opts]) (use o r rc * monster_options_settings [OF s'] in auto)
qed

lemma monster_start_Ret:
  assumes "monster_start bd fs fds su args = Ret st"
  obtains s cf where "monster_settings bd fs fds args = Ret (s, cf)"
    and "m_hashlen (md_config st) = mt_hashlen s" "idle_cache (md_config st) = mt_idle_cache s"
    and "loggedout_cache (md_config st) = mt_loggedout_cache s" "hard_timeout (md_config st) = mt_hard_timeout s"
    and "list_all (\<lambda>a. snd a = mt_port s) (md_addresses st)"
    and "md_head st = map (\<lambda>_. \<lparr>cl_sn = None, cl_last_time = 0\<rparr>) (md_addresses st)"
    and "if mt_host s = None then md_addresses st = [] \<and> md_ctx st = None
         else md_ctx st = Some (mt_cryptofile s, mt_certfile s, mt_cadir s)"
proof -
  obtain s cf where s: "monster_settings bd fs fds args = Ret (s, cf)"
    using assms by (auto simp: monster_start_def split: outcome.splits)
  obtain name as ctx where h: "monster_hosts su s = Ret (name, as, ctx)"
    using assms by (auto simp: monster_start_def s split: outcome.splits)
  have a: "list_all (\<lambda>a. snd a = mt_port s) as"
    "if mt_host s = None then as = [] \<and> ctx = None else ctx = Some (mt_cryptofile s, mt_certfile s, mt_cadir s)"
    using h by (auto simp: monster_hosts_def list_all_iff split: option.splits prod.splits if_splits dest: cosign_ssl_result)
  have "m_hashlen (md_config st) = mt_hashlen s \<and> idle_cache (md_config st) = mt_idle_cache s \<and>
      loggedout_cache (md_config st) = mt_loggedout_cache s \<and> hard_timeout (md_config st) = mt_hard_timeout s \<and>
      md_addresses st = as \<and> md_head st = map (\<lambda>_. \<lparr>cl_sn = None, cl_last_time = 0\<rparr>) as \<and> md_ctx st = ctx"
    using assms by (auto simp: monster_start_def s h Let_def split: if_splits outcome.splits)
  then show thesis using that [OF s] a by simp
qed

end
