(* ===== verification/Cosignd.thy ===== *)
theory Cosignd
  imports Startup Command Pusher
begin

text \<open>
  \<open>daemon/daemon.c\<close>: the settings of \<open>cosignd\<close> from the configuration and the command line, the set-up of its socket and of
  the pusher, and the loop that accepts connections, reads the configuration again after a SIGHUP and looks after its
  children.  The results of the system calls are arguments; a fork is followed into the process that the result names.
\<close>

section \<open>Settings\<close>

text \<open>The global variables of the file, and the variables of \<open>main\<close> that options set; the port is in host order.\<close>

record settings =
  ds_debug :: bool
  ds_backlog :: int
  ds_tlsopt :: bool
  ds_idle_out_time :: int
  ds_grey_time :: int
  ds_hashlen :: int
  ds_strict_checks :: bool
  ds_dir :: string
  ds_tickets :: string
  ds_cryptofile :: string
  ds_certfile :: string
  ds_cadir :: string
  ds_replhost :: "string option"
  ds_net_timeout :: int
  ds_port :: "16 word"
  ds_facility :: int
  ds_level :: int
  ds_fg :: bool
  ds_dontrun :: bool
  ds_err :: nat

definition default_settings :: "built \<Rightarrow> settings" where
  "default_settings bd =
     \<lparr>ds_debug = False, ds_backlog = 5, ds_tlsopt = False, ds_idle_out_time = 60 * 60 * 2, ds_grey_time = 60 * 30,
      ds_hashlen = 0, ds_strict_checks = True, ds_dir = bd_dir bd, ds_tickets = bd_tickets bd, ds_cryptofile = bd_key bd,
      ds_certfile = bd_cert bd, ds_cadir = bd_cadir bd, ds_replhost = None, ds_net_timeout = 60 * 4, ds_port = 0,
      ds_facility = bd_facility bd, ds_level = 6, ds_fg = False, ds_dontrun = False, ds_err = 0\<rparr>"

definition daemon_configure :: "cosigncfg list \<Rightarrow> settings \<Rightarrow> settings" where
  "daemon_configure cf s =
     (let s = from_config cf ''cosigndb'' (\<lambda>v s. s\<lparr>ds_dir := v\<rparr>) s;
          s = from_config cf ''cosigndticketcache'' (\<lambda>v s. s\<lparr>ds_tickets := v\<rparr>) s;
          s = from_config cf ''cosigncadir'' (\<lambda>v s. s\<lparr>ds_cadir := v\<rparr>) s;
          s = from_config cf ''cosigncert'' (\<lambda>v s. s\<lparr>ds_certfile := v\<rparr>) s;
          s = from_config cf ''cosignkey'' (\<lambda>v s. s\<lparr>ds_cryptofile := v\<rparr>) s;
          s = from_config cf ''cosignnettimeout'' (\<lambda>v s. s\<lparr>ds_net_timeout := atoi v\<rparr>) s;
          s = from_config cf ''cosignport'' (\<lambda>v s. s\<lparr>ds_port := port_of v\<rparr>) s;
          s = from_config cf ''cosigndbhashlen'' (\<lambda>v s. s\<lparr>ds_hashlen := atoi v\<rparr>) s
      in from_config cf ''cosignstrictcheck'' (\<lambda>v s. if strcaseeq v ''off'' then s\<lparr>ds_strict_checks := False\<rparr> else s) s)"

definition COSIGN_OPTS :: string where "COSIGN_OPTS = ''b:c:dD:F:fg:h:i:L:np:VXx:y:z:''"

definition daemon_option :: "char \<times> string \<Rightarrow> settings \<Rightarrow> settings outcome" where
  "daemon_option x s =
     (case x of (c, optarg) \<Rightarrow>
        if c = CHR ''b'' then Ret (s\<lparr>ds_backlog := atoi optarg\<rparr>)
        else if c = CHR ''c'' then Ret s
        else if c = CHR ''d'' then Ret (s\<lparr>ds_debug := True\<rparr>)
        else if c = CHR ''D'' then Ret (s\<lparr>ds_dir := optarg\<rparr>)
        else if c = CHR ''F'' then
          (if syslogname optarg syslogfacility_table = -1 then Exit 1
           else Ret (s\<lparr>ds_facility := syslogname optarg syslogfacility_table\<rparr>))
        else if c = CHR ''f'' then Ret (s\<lparr>ds_fg := True\<rparr>)
        else if c = CHR ''g'' then Ret (s\<lparr>ds_grey_time := atoi optarg\<rparr>)
        else if c = CHR ''h'' then Ret (s\<lparr>ds_replhost := Some optarg\<rparr>)
        else if c = CHR ''i'' then Ret (s\<lparr>ds_idle_out_time := atoi optarg\<rparr>)
        else if c = CHR ''L'' then
          (if syslogname optarg sysloglevel_table = -1 then Exit 1
           else Ret (s\<lparr>ds_level := syslogname optarg sysloglevel_table\<rparr>))
        else if c = CHR ''n'' then Ret (s\<lparr>ds_dontrun := True\<rparr>)
        else if c = CHR ''p'' then Ret (s\<lparr>ds_port := port_of optarg\<rparr>)
        else if c = CHR ''V'' then Exit 0
        else if c = CHR ''X'' then Ret (s\<lparr>ds_tlsopt := True\<rparr>)
        else if c = CHR ''x'' then Ret (s\<lparr>ds_cadir := optarg\<rparr>)
        else if c = CHR ''y'' then Ret (s\<lparr>ds_certfile := optarg\<rparr>)
        else if c = CHR ''z'' then Ret (s\<lparr>ds_cryptofile := optarg\<rparr>)
        else Ret (s\<lparr>ds_err := ds_err s + 1\<rparr>))"

text \<open>The first loop over the options looks for the configuration file, the second for all others.\<close>

definition daemon_settings :: "built \<Rightarrow> files \<Rightarrow> nat \<Rightarrow> string list \<Rightarrow> (settings \<times> conf \<times> string) outcome" where
  "daemon_settings bd fs fds args =
     (case getopt COSIGN_OPTS args of
        (opts, rest) \<Rightarrow>
          let conf = (case last_option CHR ''c'' opts of None \<Rightarrow> bd_conf bd | Some f \<Rightarrow> f)
          in case cosign_config fs fds conf conf_init of
               Ret (rc, cf) \<Rightarrow>
                 if rc < 0 then Exit 1
                 else
                   (case each_option daemon_option opts (daemon_configure (cf_cfg cf) (default_settings bd)) of
                      Ret s \<Rightarrow> if ds_err s \<noteq> 0 \<or> rest \<noteq> [] then Exit 1 else Ret (s, cf, conf)
                    | Exit n \<Rightarrow> Exit n
                    | Undefined \<Rightarrow> Undefined)
             | Exit n \<Rightarrow> Exit n
             | Undefined \<Rightarrow> Undefined)"

section \<open>The set-up\<close>

text \<open>\<open>pusherpid\<close> is 0 and \<open>pushersn\<close> null without a host to replicate to.\<close>

record server =
  sv_settings :: settings
  sv_conf_file :: string
  sv_conf :: conf
  sv_ctx :: "ssl_ctx option"
  sv_pusherpid :: int
  sv_pushersn :: bool
  sv_reconfig :: int
  sv_child_signal :: int

text \<open>What the system answers; \<open>su_hosts\<close> says whether \<open>pusherhosts\<close> succeeds.\<close>

record startup =
  su_tls :: tls_files
  su_service :: "16 word option"
  su_socket :: bool
  su_bind :: bool
  su_listen :: bool
  su_chdir :: bool
  su_hosts :: bool
  su_leaving :: leaving
  su_pipe :: bool
  su_fork :: forked
  su_close :: bool
  su_attach :: bool
  su_sigaction :: bool

text \<open>The process goes on to accept connections, or is the pusher.\<close>

datatype role = Accepting server | Pushing server

text \<open>Up to the log, by the port that is listened to.\<close>

definition daemon_listen :: "startup \<Rightarrow> settings \<Rightarrow> (16 word) outcome" where
  "daemon_listen su s =
     (let port = (if ds_port s = 0 then (case su_service su of None \<Rightarrow> 6663 | Some p \<Rightarrow> p) else ds_port s)
      in if \<not> su_socket su then Exit 1
         else if \<not> su_bind su then Exit 1
         else if \<not> su_listen su then Exit 1
         else if \<not> su_chdir su then Exit 1
         else if ds_replhost s \<noteq> None \<and> \<not> su_hosts su then Exit 1
         else if \<not> ds_fg s \<and> \<not> ds_debug s then
           (case disassociate (su_leaving su) of Ret _ \<Rightarrow> Ret port | Exit n \<Rightarrow> Exit n | Undefined \<Rightarrow> Undefined)
         else Ret port)"

text \<open>The pusher: which process goes on, its id, and whether there is a pipe to it.\<close>

definition daemon_pusher :: "startup \<Rightarrow> settings \<Rightarrow> (bool \<times> int \<times> bool) outcome" where
  "daemon_pusher su s =
     (if ds_replhost s = None then Ret (True, 0, False)
      else if \<not> su_pipe su then Exit 1
      else case su_fork su of
        In_child \<Rightarrow> if \<not> su_close su then Exit 1 else Ret (False, 0, False)
      | Fork_failed \<Rightarrow> Exit 1
      | In_parent pid \<Rightarrow> if \<not> su_close su then Exit 1 else if \<not> su_attach su then Exit 1 else Ret (True, pid, True))"

definition cosignd_start :: "built \<Rightarrow> files \<Rightarrow> nat \<Rightarrow> startup \<Rightarrow> string list \<Rightarrow> role outcome" where
  "cosignd_start bd fs fds su args =
     (case daemon_settings bd fs fds args of
        Exit n \<Rightarrow> Exit n
      | Undefined \<Rightarrow> Undefined
      | Ret (s, cf, file) \<Rightarrow>
          (case cosign_ssl (su_tls su) (ds_cryptofile s) (ds_certfile s) (ds_cadir s) None of
             (rc, ctx) \<Rightarrow>
               if rc \<noteq> 0 then Exit 1
               else if ds_dontrun s then Exit 0
               else case daemon_listen su s of
                 Exit n \<Rightarrow> Exit n
               | Undefined \<Rightarrow> Undefined
               | Ret port \<Rightarrow>
                   (case daemon_pusher su s of
                      Exit n \<Rightarrow> Exit n
                    | Undefined \<Rightarrow> Undefined
                    | Ret (goes_on, pid, sn) \<Rightarrow>
                        let sv = \<lparr>sv_settings = s\<lparr>ds_port := port\<rparr>, sv_conf_file = file, sv_conf = cf, sv_ctx = ctx,
                                  sv_pusherpid = pid, sv_pushersn = sn, sv_reconfig = 0, sv_child_signal = 0\<rparr>
                        in if \<not> goes_on then Ret (Pushing sv)
                           else if \<not> su_sigaction su then Exit 1
                           else Ret (Accepting sv))))"

section \<open>The loop\<close>

text \<open>
  One turn: the files and what the system answers.  \<open>tw_waits\<close> are the children \<open>waitpid\<close> reports, and \<open>tw_wait_error\<close> says that it
  ended with an error other than \<open>ECHILD\<close>.
\<close>

record turn =
  tw_files :: files
  tw_fds :: nat
  tw_tls :: tls_files
  tw_kill :: bool
  tw_waits :: "(int \<times> wait_status) list"
  tw_wait_error :: bool
  tw_accept :: bool
  tw_fork :: forked
  tw_sigaction :: bool

definition hup :: "server \<Rightarrow> server" where
  "hup sv = sv\<lparr>sv_reconfig := sv_reconfig sv + 1\<rparr>"

definition chld :: "server \<Rightarrow> server" where
  "chld sv = sv\<lparr>sv_child_signal := sv_child_signal sv + 1\<rparr>"

text \<open>A configuration that cannot be read, or certificates that cannot be loaded, leave the old ones.\<close>

definition daemon_reload :: "turn \<Rightarrow> server \<Rightarrow> server outcome" where
  "daemon_reload tw sv =
     (if 0 < sv_reconfig sv then
        let s = sv_settings sv
        in case cosign_config (tw_files tw) (tw_fds tw) (sv_conf_file sv) (sv_conf sv) of
          Exit n \<Rightarrow> Exit n
        | Undefined \<Rightarrow> Undefined
        | Ret (_, cf) \<Rightarrow>
            (case cosign_ssl (tw_tls tw) (ds_cryptofile s) (ds_certfile s) (ds_cadir s) (sv_ctx sv) of
               (_, ctx) \<Rightarrow>
                 if sv_pusherpid sv \<noteq> 0 \<and> \<not> tw_kill tw then Exit 1
                 else Ret (sv\<lparr>sv_reconfig := 0, sv_conf := cf, sv_ctx := ctx\<rparr>))
      else Ret sv)"

text \<open>
  \<open>waitpid\<close> is asked until it reports none.  What is logged of a child does not matter here; the end of the pusher ends the
  daemon.
\<close>

primrec daemon_wait :: "int \<Rightarrow> (int \<times> wait_status) list \<Rightarrow> unit outcome" where
  "daemon_wait pusherpid [] = Ret ()"
| "daemon_wait pusherpid (w # ws) = 
     (if fst w \<le> 0 then Ret () else if fst w = pusherpid then Exit 1 else daemon_wait pusherpid ws)"

definition daemon_reap :: "turn \<Rightarrow> server \<Rightarrow> server outcome" where
  "daemon_reap tw sv =
     (if 0 < sv_child_signal sv then
        (case daemon_wait (sv_pusherpid sv) (tw_waits tw) of
           Ret _ \<Rightarrow> if tw_wait_error tw then Exit 1 else Ret (sv\<lparr>sv_child_signal := 0\<rparr>)
         | Exit n \<Rightarrow> Exit n
         | Undefined \<Rightarrow> Undefined)
      else Ret sv)"

text \<open>The parent goes on; the child of the fork serves the connection.\<close>

datatype after_turn = Goes_on server | Serves server

definition daemon_accept :: "turn \<Rightarrow> server \<Rightarrow> after_turn outcome" where
  "daemon_accept tw sv =
     (if \<not> tw_accept tw then Ret (Goes_on sv)
      else case tw_fork tw of
        In_child \<Rightarrow> if \<not> tw_sigaction tw then Exit 1 else Ret (Serves sv)
      | _ \<Rightarrow> Ret (Goes_on sv))"

definition daemon_turn :: "turn \<Rightarrow> server \<Rightarrow> after_turn outcome" where
  "daemon_turn tw sv =
     (case daemon_reload tw sv of
        Exit n \<Rightarrow> Exit n
      | Undefined \<Rightarrow> Undefined
      | Ret sv \<Rightarrow>
          (case daemon_reap tw sv of
             Exit n \<Rightarrow> Exit n
           | Undefined \<Rightarrow> Undefined
           | Ret sv \<Rightarrow> daemon_accept tw sv))"

text \<open>
  What the child runs with: the settings and lists of the server, and what the file does not set (the version, the name of the
  host, the regular expressions, the messages of the system).
\<close>

definition child_config :: "config \<Rightarrow> server \<Rightarrow> config" where
  "child_config host sv =
     (let s = sv_settings sv
      in host\<lparr>hashlen := ds_hashlen s, idle_out_time := ds_idle_out_time s, grey_time := ds_grey_time s,
           strict_checks := ds_strict_checks s, tlsopt := ds_tlsopt s, cosign_tickets := ds_tickets s,
           authlist := cf_authlist (sv_conf sv), servicelist := cf_servicelist (sv_conf sv), pushersn := sv_pushersn sv\<rparr>)"

definition serve :: "config \<Rightarrow> server \<Rightarrow> daemon \<Rightarrow> int outcome option \<times> daemon" where
  "serve host sv w = run_state (command (child_config host sv)) w"

text \<open>
  The states at the head of the loop: signals arrive at any time.  \<open>rs\<close> are the files of the reloads so far, the newest first, each with
  the number of files that could be opened then.
\<close>

definition reread :: "turn \<Rightarrow> server \<Rightarrow> (files \<times> nat) list \<Rightarrow> (files \<times> nat) list" where
  "reread tw sv rs = (if 0 < sv_reconfig sv then (tw_files tw, tw_fds tw) # rs else rs)"

inductive cosignd_reached ::
  "built \<Rightarrow> files \<Rightarrow> nat \<Rightarrow> startup \<Rightarrow> string list \<Rightarrow> (files \<times> nat) list \<Rightarrow> server \<Rightarrow> bool" for bd fs fds su args where
  started: "cosignd_start bd fs fds su args = Ret (Accepting sv) \<Longrightarrow> cosignd_reached bd fs fds su args [] sv"
| sighup: "cosignd_reached bd fs fds su args rs sv \<Longrightarrow> cosignd_reached bd fs fds su args rs (hup sv)"
| sigchld: "cosignd_reached bd fs fds su args rs sv \<Longrightarrow> cosignd_reached bd fs fds su args rs (chld sv)"
| again: "cosignd_reached bd fs fds su args rs sv \<Longrightarrow> daemon_turn tw sv = Ret (Goes_on sv') \<Longrightarrow>
    cosignd_reached bd fs fds su args (reread tw sv rs) sv'"

end
