(* ===== verification/Cosignd_facts.thy ===== *)
theory Cosignd_facts
  imports Cosignd Session
begin

text \<open>
  Which setting the daemon starts with, and what holds at the head of its loop whatever signals, files and children there were.
\<close>

section \<open>Settings\<close>

interpretation daemon_dir: option_setting "CHR ''D''" daemon_option ds_dir id
  by unfold_locales (auto simp: daemon_option_def split: if_splits)

interpretation daemon_port: option_setting "CHR ''p''" daemon_option ds_port port_of
  by unfold_locales (auto simp: daemon_option_def split: if_splits)

interpretation daemon_cadir: option_setting "CHR ''x''" daemon_option ds_cadir id
  by unfold_locales (auto simp: daemon_option_def split: if_splits)

interpretation daemon_cert: option_setting "CHR ''y''" daemon_option ds_certfile id
  by unfold_locales (auto simp: daemon_option_def split: if_splits)

interpretation daemon_key: option_setting "CHR ''z''" daemon_option ds_cryptofile id
  by unfold_locales (auto simp: daemon_option_def split: if_splits)

interpretation daemon_grey: option_setting "CHR ''g''" daemon_option ds_grey_time atoi
  by unfold_locales (auto simp: daemon_option_def split: if_splits)

interpretation daemon_idle: option_setting "CHR ''i''" daemon_option ds_idle_out_time atoi
  by unfold_locales (auto simp: daemon_option_def split: if_splits)

interpretation daemon_replhost: option_setting "CHR ''h''" daemon_option ds_replhost Some
  by unfold_locales (auto simp: daemon_option_def split: if_splits)

interpretation daemon_tls: option_setting "CHR ''X''" daemon_option ds_tlsopt "\<lambda>_. True"
  by unfold_locales (auto simp: daemon_option_def split: if_splits)

lemmas daemon_last_wins = daemon_dir.last_wins daemon_port.last_wins daemon_cadir.last_wins daemon_cert.last_wins
  daemon_key.last_wins daemon_grey.last_wins daemon_idle.last_wins daemon_replhost.last_wins daemon_tls.last_wins

text \<open>What no option sets.\<close>

lemma options_keep:
  "each_option daemon_option opts s = Ret s' \<Longrightarrow>
   ds_hashlen s' = ds_hashlen s \<and> ds_strict_checks s' = ds_strict_checks s \<and> ds_tickets s' = ds_tickets s \<and>
   ds_net_timeout s' = ds_net_timeout s \<and> ds_err s \<le> ds_err s'"
proof (induction opts arbitrary: s)
  case (Cons x xs)
  obtain c a where x: "x = (c, a)" by fastforce
  obtain t where t: "daemon_option (c, a) s = Ret t" "each_option daemon_option xs t = Ret s'"
    using Cons.prems by (auto simp: x split: outcome.splits)
  have "ds_hashlen t = ds_hashlen s \<and> ds_strict_checks t = ds_strict_checks s \<and> ds_tickets t = ds_tickets s \<and>
      ds_net_timeout t = ds_net_timeout s \<and> ds_err s \<le> ds_err t"
    using t(1) by (auto simp: daemon_option_def split: if_splits)
  then show ?case using Cons.IH [OF t(2)] by auto
qed simp

lemmas configure_keeps = from_config_keeps [of ds_dir] from_config_keeps [of ds_tickets] from_config_keeps [of ds_cadir]
  from_config_keeps [of ds_certfile] from_config_keeps [of ds_cryptofile] from_config_keeps [of ds_port]
  from_config_keeps [of ds_hashlen] from_config_keeps [of ds_strict_checks] from_config_keeps [of ds_replhost]
  from_config_keeps [of ds_grey_time] from_config_keeps [of ds_idle_out_time] from_config_keeps [of ds_tlsopt]

lemmas configure_sets = from_config_app [of ds_dir] from_config_app [of ds_tickets] from_config_app [of ds_cadir]
  from_config_app [of ds_certfile] from_config_app [of ds_cryptofile] from_config_app [of ds_port]
  from_config_app [of ds_hashlen] from_config_app [of ds_strict_checks]

lemma configured:
  "ds_dir (daemon_configure cf s) = chosen id None (cosign_config_get cf ''cosigndb'') (ds_dir s)"
  "ds_tickets (daemon_configure cf s) = chosen id None (cosign_config_get cf ''cosigndticketcache'') (ds_tickets s)"
  "ds_cadir (daemon_configure cf s) = chosen id None (cosign_config_get cf ''cosigncadir'') (ds_cadir s)"
  "ds_certfile (daemon_configure cf s) = chosen id None (cosign_config_get cf ''cosigncert'') (ds_certfile s)"
  "ds_cryptofile (daemon_configure cf s) = chosen id None (cosign_config_get cf ''cosignkey'') (ds_cryptofile s)"
  "ds_port (daemon_configure cf s) = chosen port_of None (cosign_config_get cf ''cosignport'') (ds_port s)"
  "ds_hashlen (daemon_configure cf s) = chosen atoi None (cosign_config_get cf ''cosigndbhashlen'') (ds_hashlen s)"
  "ds_strict_checks (daemon_configure cf s) =
     (ds_strict_checks s \<and> \<not> (\<exists>v. cosign_config_get cf ''cosignstrictcheck'' = Some v \<and> strcaseeq v ''off''))"
  "ds_replhost (daemon_configure cf s) = ds_replhost s"
  "ds_grey_time (daemon_configure cf s) = ds_grey_time s"
  "ds_idle_out_time (daemon_configure cf s) = ds_idle_out_time s"
  "ds_tlsopt (daemon_configure cf s) = ds_tlsopt s"
  by (simp_all add: daemon_configure_def Let_def configure_keeps)
    (subst configure_sets, force simp: configure_keeps chosen_def split: option.split)+

text \<open>Every setting of the connections is the one the administrator gave.\<close>

definition settings_of :: "built \<Rightarrow> cosigncfg list \<Rightarrow> (char \<times> string) list \<Rightarrow> settings \<Rightarrow> bool" where
  "settings_of bd cf opts s \<longleftrightarrow>
     ds_dir s = chosen id (last_option CHR ''D'' opts) (cosign_config_get cf ''cosigndb'') (bd_dir bd) \<and>
     ds_cryptofile s = chosen id (last_option CHR ''z'' opts) (cosign_config_get cf ''cosignkey'') (bd_key bd) \<and>
     ds_certfile s = chosen id (last_option CHR ''y'' opts) (cosign_config_get cf ''cosigncert'') (bd_cert bd) \<and>
     ds_cadir s = chosen id (last_option CHR ''x'' opts) (cosign_config_get cf ''cosigncadir'') (bd_cadir bd) \<and>
     ds_port s = chosen port_of (last_option CHR ''p'' opts) (cosign_config_get cf ''cosignport'') 0 \<and>
     ds_tickets s = chosen id None (cosign_config_get cf ''cosigndticketcache'') (bd_tickets bd) \<and>
     ds_hashlen s = chosen atoi None (cosign_config_get cf ''cosigndbhashlen'') 0 \<and>
     ds_idle_out_time s = chosen atoi (last_option CHR ''i'' opts) None (60 * 60 * 2) \<and>
     ds_grey_time s = chosen atoi (last_option CHR ''g'' opts) None (60 * 30) \<and>
     (ds_tlsopt s \<longleftrightarrow> last_option CHR ''X'' opts \<noteq> None) \<and>
     ds_replhost s = last_option CHR ''h'' opts \<and>
     (ds_strict_checks s \<longleftrightarrow>
        \<not> (\<exists>v. cosign_config_get cf ''cosignstrictcheck'' = Some v \<and> strcaseeq v ''off''))"

lemma options_settings:
  assumes "each_option daemon_option opts (daemon_configure cf (default_settings bd)) = Ret s"
  shows "settings_of bd cf opts s"
  using daemon_last_wins [OF assms] options_keep [OF assms]
  by (auto simp: settings_of_def configured default_settings_def chosen_def split: option.splits)

lemma daemon_settings_Ret:
  assumes "daemon_settings bd fs fds args = Ret (s, cf, conf)"
  obtains opts where "getopt COSIGN_OPTS args = (opts, [])"
    and "conf = (case last_option CHR ''c'' opts of None \<Rightarrow> bd_conf bd | Some f \<Rightarrow> f)"
    and "cosign_config fs fds conf conf_init = Ret (0, cf)"
    and "settings_of bd (cf_cfg cf) opts s" and "ds_err s = 0"
proof -
  obtain opts rest where o: "getopt COSIGN_OPTS args = (opts, rest)" by fastforce
  let ?f = "case last_option CHR ''c'' opts of None \<Rightarrow> bd_conf bd | Some f \<Rightarrow> f"
  obtain rc cf' where r: "cosign_config fs fds ?f conf_init = Ret (rc, cf')"
    using assms unfolding daemon_settings_def o by (auto simp: Let_def split: outcome.splits)
  have rc: "rc = 0 \<or> rc = -1"
    using r by (auto simp: cosign_config_def split: outcome.splits if_splits)
  have "\<not> rc < 0" using assms unfolding daemon_settings_def o by (auto simp: Let_def r)
  with rc have rc: "rc = 0" by auto
  obtain s' where s': "each_option daemon_option opts (daemon_configure (cf_cfg cf') (default_settings bd)) = Ret s'"
    using assms unfolding daemon_settings_def o by (auto simp: Let_def r rc split: outcome.splits)
  have *: "s' = s" "cf' = cf" "conf = ?f" "rest = []" "ds_err s = 0"
    using assms unfolding daemon_settings_def o by (auto simp: Let_def r rc s' split: if_splits)
  show thesis
    by (rule that [of opts]) (use o r rc s' * options_settings [OF s'] in auto)
qed

section \<open>Start and reload\<close>

text \<open>Reading the configuration never ends the process; it may be undefined (lemma \<open>read_config_factor_null\<close>).\<close>

lemma conf_lines_no_exit:
  "(\<And>path c n. rec path c \<noteq> Exit n) \<Longrightarrow> conf_lines rec fs fds ls ins c \<noteq> Exit n"
proof (induction ls arbitrary: ins c)
  case (Cons l ls)
  have "factor_flags av i \<noteq> Exit n" for av i n by (induction av i rule: factor_flags.induct) auto
  then have "conf_factor av c \<noteq> Exit n" for av c n
    by (auto simp: conf_factor_def Let_def split: if_splits outcome.splits option.splits)
  then have "conf_line rec fs fds av ins c \<noteq> Exit n" for av n ins c
    using Cons.prems by (auto simp: conf_line_def Let_def split: if_splits outcome.splits)
  then show ?case using Cons by (auto simp: Let_def split: outcome.splits)
qed simp

lemma cosign_config_no_exit: "cosign_config fs fds path c \<noteq> Exit n"
proof -
  have "read_config fs fds path c \<noteq> Exit n" for path c n
    by (induction fds arbitrary: path c n) (auto simp: conf_lines_no_exit split: option.splits)
  then show ?thesis by (auto simp: cosign_config_def split: outcome.splits if_splits)
qed

lemma cosign_config_Ret:
  assumes "cosign_config fs fds path c = Ret (rc, c')"
  shows "rc = 0 \<and> services_ok (cf_servicelist c') (cf_authlist c') \<or>
    rc = -1 \<and> cf_authlist c' = cf_authlist c \<and> cf_servicelist c' = cf_servicelist c \<and> cf_cfg c' = cf_cfg c"
  using cosign_config_lists [where fs = fs and fds = fds and path = path and c = c] assms
  by (auto simp: cosign_config_def split: outcome.splits if_splits)

text \<open>
  The lists come from a file that was read to its end, the newest of those that were: \<open>rs\<close> are the files, the newest first.  What
  the static variables held before, but for the new lists, is left open.
\<close>

definition no_new_lists :: "conf \<Rightarrow> bool" where
  "no_new_lists c \<longleftrightarrow> cf_new_authlist c = [] \<and> cf_new_servicelist c = [] \<and> cf_new_cfg c = []"

definition reads_whole :: "files \<times> nat \<Rightarrow> string \<Rightarrow> conf \<Rightarrow> bool" where
  "reads_whole r path live \<longleftrightarrow> (\<exists>c c'. no_new_lists c \<and> read_config (fst r) (snd r) path c = Ret (True, c') \<and>
     cf_authlist live = cf_new_authlist c' \<and> cf_servicelist live = cf_new_servicelist c')"

definition reads_not :: "files \<times> nat \<Rightarrow> string \<Rightarrow> bool" where
  "reads_not r path \<longleftrightarrow> (\<exists>c c'. no_new_lists c \<and> read_config (fst r) (snd r) path c = Ret (False, c'))"

definition lists_from :: "string \<Rightarrow> (files \<times> nat) list \<Rightarrow> conf \<Rightarrow> bool" where
  "lists_from path rs live \<longleftrightarrow>
     (\<exists>newer r older. rs = newer @ r # older \<and> reads_whole r path live \<and> list_all (\<lambda>r. reads_not r path) newer)"

lemma lists_from_new: "reads_whole r path live \<Longrightarrow> lists_from path (r # rs) live"
  unfolding lists_from_def by (intro exI [of _ "[]"]) simp

lemma lists_from_old:
  assumes "reads_not r path" and "lists_from path rs live" and "cf_authlist live' = cf_authlist live"
    and "cf_servicelist live' = cf_servicelist live"
  shows "lists_from path (r # rs) live'"
proof -
  obtain newer q older where "rs = newer @ q # older" "reads_whole q path live" "list_all (\<lambda>r. reads_not r path) newer"
    using assms(2) by (auto simp: lists_from_def)
  then show ?thesis
    unfolding lists_from_def using assms by (intro exI [of _ "r # newer"] exI [of _ q] exI [of _ older]) (simp add: reads_whole_def)
qed

lemma lists_from_cong:
  "lists_from path rs live \<Longrightarrow> cf_authlist live' = cf_authlist live \<Longrightarrow> cf_servicelist live' = cf_servicelist live \<Longrightarrow>
   lists_from path rs live'"
  by (simp add: lists_from_def reads_whole_def)

lemma cosign_config_read:
  assumes "cosign_config fs fds path c = Ret (rc, c')"
  shows "rc = 0 \<and> reads_whole (fs, fds) path c' \<or>
    rc = -1 \<and> reads_not (fs, fds) path \<and> cf_authlist c' = cf_authlist c \<and> cf_servicelist c' = cf_servicelist c"
proof -
  let ?c = "c\<lparr>cf_new_authlist := [], cf_new_servicelist := [], cf_new_cfg := []\<rparr>"
  have n: "no_new_lists ?c" by (simp add: no_new_lists_def)
  obtain ok c1 where r: "read_config fs fds path ?c = Ret (ok, c1)"
    using assms by (auto simp: cosign_config_def split: outcome.splits)
  show ?thesis
  proof (cases ok)
    case True
    then have "rc = 0" "cf_authlist c' = cf_new_authlist c1" "cf_servicelist c' = cf_new_servicelist c1"
      using assms r by (auto simp: cosign_config_def)
    then show ?thesis using r n True unfolding reads_whole_def by force
  next
    case False
    then have "rc = -1" using assms r by (auto simp: cosign_config_def)
    moreover have "reads_not (fs, fds) path" using r n False unfolding reads_not_def by force
    ultimately show ?thesis using cosign_config_Ret [OF assms] by auto
  qed
qed

definition listening_port :: "startup \<Rightarrow> settings \<Rightarrow> 16 word" where
  "listening_port su s = (if ds_port s = 0 then (case su_service su of None \<Rightarrow> 6663 | Some p \<Rightarrow> p) else ds_port s)"

lemma daemon_listen_Ret: "daemon_listen su s = Ret port \<Longrightarrow> port = listening_port su s"
  by (auto simp: daemon_listen_def listening_port_def Let_def split: if_splits outcome.splits)

lemma daemon_pusher_Ret:
  "daemon_pusher su s = Ret (True, pid, sn) \<Longrightarrow>
   (sn \<longleftrightarrow> ds_replhost s \<noteq> None) \<and> (ds_replhost s = None \<longrightarrow> pid = 0)"
  by (auto simp: daemon_pusher_def split: if_splits forked.splits)

text \<open>What was settled at the start, and what every configuration in force has.\<close>

definition in_force :: "built \<Rightarrow> files \<Rightarrow> nat \<Rightarrow> startup \<Rightarrow> string list \<Rightarrow> (files \<times> nat) list \<Rightarrow> server \<Rightarrow> bool" where
  "in_force bd fs fds su args rs sv \<longleftrightarrow>
     (\<exists>s cf. daemon_settings bd fs fds args = Ret (s, cf, sv_conf_file sv) \<and>
        sv_settings sv = s\<lparr>ds_port := listening_port su s\<rparr> \<and>
        sv_ctx sv = Some (ds_cryptofile s, ds_certfile s, ds_cadir s) \<and>
        (sv_pushersn sv \<longleftrightarrow> ds_replhost s \<noteq> None) \<and> (ds_replhost s = None \<longrightarrow> sv_pusherpid sv = 0)) \<and>
     services_ok (cf_servicelist (sv_conf sv)) (cf_authlist (sv_conf sv)) \<and>
     lists_from (sv_conf_file sv) (rs @ [(fs, fds)]) (sv_conf sv) \<and>
     0 \<le> sv_reconfig sv \<and> 0 \<le> sv_child_signal sv"

lemma start_in_force:
  assumes "cosignd_start bd fs fds su args = Ret (Accepting sv)"
  shows "in_force bd fs fds su args [] sv"
proof -
  obtain s cf conf where s: "daemon_settings bd fs fds args = Ret (s, cf, conf)"
    using assms by (auto simp: cosignd_start_def split: outcome.splits)
  obtain rc ctx where c: "cosign_ssl (su_tls su) (ds_cryptofile s) (ds_certfile s) (ds_cadir s) None = (rc, ctx)"
    by fastforce
  have rc: "rc = 0" "\<not> ds_dontrun s" using assms by (auto simp: cosignd_start_def s c split: if_splits)
  obtain port where p: "daemon_listen su s = Ret port"
    using assms by (auto simp: cosignd_start_def s c rc split: outcome.splits)
  obtain b pid sn where u: "daemon_pusher su s = Ret (b, pid, sn)"
    using assms by (auto simp: cosignd_start_def s c rc p split: outcome.splits)
  have b: b using assms by (auto simp: cosignd_start_def s c rc p u Let_def split: if_splits)
  have sv: "sv = \<lparr>sv_settings = s\<lparr>ds_port := port\<rparr>, sv_conf_file = conf, sv_conf = cf, sv_ctx = ctx,
      sv_pusherpid = pid, sv_pushersn = sn, sv_reconfig = 0, sv_child_signal = 0\<rparr>"
    using assms by (auto simp: cosignd_start_def s c rc p u b Let_def split: if_splits)
  have "services_ok (cf_servicelist cf) (cf_authlist cf)" "lists_from conf [(fs, fds)] cf"
    using s by (rule daemon_settings_Ret; use cosign_config_Ret cosign_config_read lists_from_new in fastforce)+
  then show ?thesis
    using s cosign_ssl_result [OF c] rc daemon_listen_Ret [OF p] daemon_pusher_Ret [of su s pid sn] u b
    by (auto simp: in_force_def sv)
qed

text \<open>A reload, by what it keeps and what it takes over.\<close>

lemma daemon_reload_Ret:
  assumes "daemon_reload tw sv = Ret sv'"
  shows "\<exists>cf ctx. sv' = sv\<lparr>sv_reconfig := if 0 < sv_reconfig sv then 0 else sv_reconfig sv, sv_conf := cf, sv_ctx := ctx\<rparr> \<and>
     (if 0 < sv_reconfig sv
      then (\<exists>rc. cosign_config (tw_files tw) (tw_fds tw) (sv_conf_file sv) (sv_conf sv) = Ret (rc, cf)) \<and>
        (ctx = sv_ctx sv \<or> ctx = Some (ds_cryptofile (sv_settings sv), ds_certfile (sv_settings sv), ds_cadir (sv_settings sv)))
      else cf = sv_conf sv \<and> ctx = sv_ctx sv)"
proof (cases "0 < sv_reconfig sv")
  case True
  let ?s = "sv_settings sv"
  obtain rc cf where c: "cosign_config (tw_files tw) (tw_fds tw) (sv_conf_file sv) (sv_conf sv) = Ret (rc, cf)"
    using assms True by (auto simp: daemon_reload_def Let_def split: outcome.splits)
  obtain rc2 ctx where t: "cosign_ssl (tw_tls tw) (ds_cryptofile ?s) (ds_certfile ?s) (ds_cadir ?s) (sv_ctx sv) = (rc2, ctx)"
    by fastforce
  have "sv' = sv\<lparr>sv_reconfig := 0, sv_conf := cf, sv_ctx := ctx\<rparr>"
    using assms True by (auto simp: daemon_reload_def Let_def c t split: if_splits)
  then show ?thesis using True c cosign_ssl_result [OF t] by auto
qed (use assms in \<open>auto simp: daemon_reload_def\<close>)

lemma daemon_reap_Ret:
  assumes "daemon_reap tw sv = Ret sv'"
  shows "sv' = sv\<lparr>sv_child_signal := if 0 < sv_child_signal sv then 0 else sv_child_signal sv\<rparr>"
  using assms by (auto simp: daemon_reap_def split: outcome.splits if_splits)

lemma daemon_accept_Ret: "daemon_accept tw sv = Ret r \<Longrightarrow> r = Goes_on sv \<or> r = Serves sv"
  by (auto simp: daemon_accept_def split: if_splits forked.splits)

lemma daemon_turn_Ret:
  assumes "daemon_turn tw sv = Ret r"
  obtains v w where "daemon_reload tw sv = Ret v" and "daemon_reap tw v = Ret w" and "r = Goes_on w \<or> r = Serves w"
  using assms daemon_accept_Ret by (fastforce simp: daemon_turn_def split: outcome.splits)

lemma reload_in_force:
  assumes "in_force bd fs fds su args rs sv" and "daemon_reload tw sv = Ret sv'"
  shows "in_force bd fs fds su args (reread tw sv rs) sv'"
proof -
  obtain cf ctx where c: "sv' = sv\<lparr>sv_reconfig := if 0 < sv_reconfig sv then 0 else sv_reconfig sv, sv_conf := cf, sv_ctx := ctx\<rparr>"
    and i: "if 0 < sv_reconfig sv
      then (\<exists>rc. cosign_config (tw_files tw) (tw_fds tw) (sv_conf_file sv) (sv_conf sv) = Ret (rc, cf)) \<and>
        (ctx = sv_ctx sv \<or> ctx = Some (ds_cryptofile (sv_settings sv), ds_certfile (sv_settings sv), ds_cadir (sv_settings sv)))
      else cf = sv_conf sv \<and> ctx = sv_ctx sv"
    using daemon_reload_Ret [OF assms(2)] by blast
  have "services_ok (cf_servicelist cf) (cf_authlist cf)"
    using i assms(1) by (auto simp: in_force_def split: if_splits dest!: cosign_config_Ret)
  moreover have "lists_from (sv_conf_file sv) (reread tw sv rs @ [(fs, fds)]) cf"
  proof (cases "0 < sv_reconfig sv")
    case True
    then obtain rc where "cosign_config (tw_files tw) (tw_fds tw) (sv_conf_file sv) (sv_conf sv) = Ret (rc, cf)" using i by auto
    from cosign_config_read [OF this] show ?thesis
      using True assms(1) by (auto simp: reread_def in_force_def intro: lists_from_new lists_from_old)
  qed (use i assms(1) in \<open>simp add: reread_def in_force_def\<close>)
  ultimately show ?thesis using assms(1) i by (auto simp: in_force_def c split: if_splits)
qed

lemma turn_in_force:
  assumes "in_force bd fs fds su args rs sv" and "daemon_turn tw sv = Ret r" and "r = Goes_on sv' \<or> r = Serves sv'"
  shows "in_force bd fs fds su args (reread tw sv rs) sv'"
  using assms(2)
proof (rule daemon_turn_Ret)
  fix v w assume v: "daemon_reload tw sv = Ret v" and w: "daemon_reap tw v = Ret w" and r: "r = Goes_on w \<or> r = Serves w"
  have "in_force bd fs fds su args (reread tw sv rs) v" using assms(1) v by (rule reload_in_force)
  then have "in_force bd fs fds su args (reread tw sv rs) w" by (auto simp: in_force_def daemon_reap_Ret [OF w])
  then show ?thesis using r assms(3) by auto
qed

lemma reached_in_force: "cosignd_reached bd fs fds su args rs sv \<Longrightarrow> in_force bd fs fds su args rs sv"
proof (induction rule: cosignd_reached.induct)
  case (started sv)
  then show ?case by (rule start_in_force)
next
  case (sighup rs sv)
  then show ?case by (auto simp: in_force_def hup_def)
next
  case (sigchld rs sv)
  then show ?case by (auto simp: in_force_def chld_def)
next
  case (again rs sv tw sv')
  then show ?case by (blast intro: turn_in_force)
qed

text \<open>A turn, by how it ends.\<close>

lemma same_ctx:
  "in_force bd fs fds su args rs v \<Longrightarrow> in_force bd fs fds su args rs' w \<Longrightarrow>
   sv_settings v = sv_settings w \<and> sv_ctx v = sv_ctx w"
  by (auto simp: in_force_def)

lemma turn_keeps:
  assumes "in_force bd fs fds su args rs sv" and "daemon_reload tw sv = Ret v" and "daemon_reap tw v = Ret w"
  shows "sv_reconfig w = 0 \<and> sv_child_signal w = 0 \<and>
    (if sv_reconfig sv = 0 then sv_conf w = sv_conf sv
     else \<exists>rc. cosign_config (tw_files tw) (tw_fds tw) (sv_conf_file sv) (sv_conf sv) = Ret (rc, sv_conf w) \<and>
       (rc \<noteq> 0 \<longrightarrow> cf_authlist (sv_conf w) = cf_authlist (sv_conf sv) \<and>
         cf_servicelist (sv_conf w) = cf_servicelist (sv_conf sv)))"
proof -
  have "0 \<le> sv_reconfig sv" "0 \<le> sv_child_signal sv" using assms(1) by (auto simp: in_force_def)
  then show ?thesis
    using daemon_reload_Ret [OF assms(2)] daemon_reap_Ret [OF assms(3)]
    by (cases "sv_reconfig sv = 0") (auto dest: cosign_config_Ret)
qed

lemma daemon_wait_ends:
  "daemon_wait p ws =
     (if p \<in> fst ` set (takeWhile (\<lambda>w. 0 < fst w) ws) then Exit 1 else Ret ())"
  by (induction ws) auto

lemma turn_undefined:
  "daemon_turn tw sv = Undefined \<longleftrightarrow>
   0 < sv_reconfig sv \<and> cosign_config (tw_files tw) (tw_fds tw) (sv_conf_file sv) (sv_conf sv) = Undefined"
  by (auto simp: daemon_turn_def daemon_reload_def daemon_reap_def daemon_accept_def daemon_wait_ends Let_def
      split: outcome.splits if_splits forked.splits prod.splits)

text \<open>What the server must do to go on: reach the pusher, which is still there, have its children waited for, and, where it is the child
  that serves, set its signals.\<close>

definition turn_ends :: "turn \<Rightarrow> server \<Rightarrow> bool" where
  "turn_ends tw sv \<longleftrightarrow>
     0 < sv_reconfig sv \<and> sv_pusherpid sv \<noteq> 0 \<and> \<not> tw_kill tw \<or>
     0 < sv_child_signal sv \<and>
       (sv_pusherpid sv \<in> fst ` set (takeWhile (\<lambda>w. 0 < fst w) (tw_waits tw)) \<or> tw_wait_error tw) \<or>
     tw_accept tw \<and> tw_fork tw = In_child \<and> \<not> tw_sigaction tw"

lemma reload_exits:
  "daemon_reload tw sv = Exit n \<longleftrightarrow> n = 1 \<and> 0 < sv_reconfig sv \<and> sv_pusherpid sv \<noteq> 0 \<and> \<not> tw_kill tw \<and>
     cosign_config (tw_files tw) (tw_fds tw) (sv_conf_file sv) (sv_conf sv) \<noteq> Undefined"
  using cosign_config_no_exit [of "tw_files tw" "tw_fds tw" "sv_conf_file sv" "sv_conf sv"]
  by (auto simp: daemon_reload_def Let_def split: outcome.splits prod.splits)

lemma reap_exits:
  "daemon_reap tw sv = Exit n \<longleftrightarrow> n = 1 \<and> 0 < sv_child_signal sv \<and>
     (sv_pusherpid sv \<in> fst ` set (takeWhile (\<lambda>w. 0 < fst w) (tw_waits tw)) \<or> tw_wait_error tw)"
  by (auto simp: daemon_reap_def daemon_wait_ends)

lemma reap_defined: "daemon_reap tw sv \<noteq> Undefined"
  by (auto simp: daemon_reap_def daemon_wait_ends)

lemma accept_exits:
  "daemon_accept tw sv = Exit n \<longleftrightarrow> n = 1 \<and> tw_accept tw \<and> tw_fork tw = In_child \<and> \<not> tw_sigaction tw"
  by (auto simp: daemon_accept_def split: forked.splits)

lemma turn_exits:
  "daemon_turn tw sv = Exit n \<longleftrightarrow> n = 1 \<and> turn_ends tw sv \<and>
     \<not> (0 < sv_reconfig sv \<and> cosign_config (tw_files tw) (tw_fds tw) (sv_conf_file sv) (sv_conf sv) = Undefined)"
proof (cases "daemon_reload tw sv")
  case (Ret v)
  then have v: "sv_pusherpid v = sv_pusherpid sv" "sv_child_signal v = sv_child_signal sv"
    using daemon_reload_Ret [OF Ret] by auto
  have no: "\<not> (0 < sv_reconfig sv \<and> sv_pusherpid sv \<noteq> 0 \<and> \<not> tw_kill tw)"
    "\<not> (0 < sv_reconfig sv \<and> cosign_config (tw_files tw) (tw_fds tw) (sv_conf_file sv) (sv_conf sv) = Undefined)"
    using Ret by (auto simp: daemon_reload_def Let_def split: outcome.splits prod.splits if_splits)
  have t: "daemon_turn tw sv = (case daemon_reap tw v of Exit n \<Rightarrow> Exit n | Undefined \<Rightarrow> Undefined | Ret w \<Rightarrow> daemon_accept tw w)"
    using Ret by (simp add: daemon_turn_def)
  show ?thesis
  proof (cases "daemon_reap tw v")
    case (Ret w)
    then have "\<not> (0 < sv_child_signal sv \<and>
        (sv_pusherpid sv \<in> fst ` set (takeWhile (\<lambda>w. 0 < fst w) (tw_waits tw)) \<or> tw_wait_error tw))"
      using reap_exits [of tw v 1] v by auto
    then show ?thesis using no Ret accept_exits by (auto simp: t turn_ends_def)
  next
    case (Exit m)
    then show ?thesis using no reap_exits [of tw v m] v by (auto simp: t turn_ends_def)
  qed (simp add: reap_defined)
next
  case (Exit m)
  then show ?thesis using reload_exits [of tw sv m] by (auto simp: daemon_turn_def turn_ends_def)
next
  case Undefined
  then have u: "daemon_turn tw sv = Undefined" by (simp add: daemon_turn_def)
  moreover have "0 < sv_reconfig sv \<and> cosign_config (tw_files tw) (tw_fds tw) (sv_conf_file sv) (sv_conf sv) = Undefined"
    using turn_undefined [of tw sv] u by simp
  ultimately show ?thesis by simp
qed

lemma turn_serves:
  assumes "daemon_turn tw sv = Ret r"
  shows "(\<exists>w. r = Serves w) \<longleftrightarrow> tw_accept tw \<and> tw_fork tw = In_child"
  using assms by (auto simp: daemon_turn_def daemon_accept_def split: outcome.splits if_splits forked.splits)

section \<open>The daemon\<close>

text \<open>
  C13.  At the head of the loop, after any sequence of turns and signals: the settings are those the command line, then the
  configuration read at the start, then the built-in values give; the key, the certificate and the authorities in use are the
  configured ones; there is a connection to the pusher just when there is a host to replicate to; the lists in force are
  those of the newest file that was read to its end, among the file of the start and those of the reloads; and every service of
  theirs belongs to a listed web server.
\<close>

theorem cosignd_keeps:
  assumes "cosignd_reached bd fs fds su args rs sv"
  shows "\<exists>opts s cf. getopt COSIGN_OPTS args = (opts, []) \<and>
    sv_conf_file sv = (case last_option CHR ''c'' opts of None \<Rightarrow> bd_conf bd | Some f \<Rightarrow> f) \<and>
    cosign_config fs fds (sv_conf_file sv) conf_init = Ret (0, cf) \<and> settings_of bd (cf_cfg cf) opts s \<and>
    sv_settings sv = s\<lparr>ds_port := listening_port su s\<rparr> \<and>
    sv_ctx sv = Some (ds_cryptofile s, ds_certfile s, ds_cadir s) \<and>
    (sv_pushersn sv \<longleftrightarrow> ds_replhost s \<noteq> None) \<and>
    lists_from (sv_conf_file sv) (rs @ [(fs, fds)]) (sv_conf sv) \<and>
    services_ok (cf_servicelist (sv_conf sv)) (cf_authlist (sv_conf sv))"
proof -
  obtain s cf where s: "daemon_settings bd fs fds args = Ret (s, cf, sv_conf_file sv)"
    and i: "sv_settings sv = s\<lparr>ds_port := listening_port su s\<rparr>"
      "sv_ctx sv = Some (ds_cryptofile s, ds_certfile s, ds_cadir s)" "sv_pushersn sv \<longleftrightarrow> ds_replhost s \<noteq> None"
      "lists_from (sv_conf_file sv) (rs @ [(fs, fds)]) (sv_conf sv)" "services_ok (cf_servicelist (sv_conf sv)) (cf_authlist (sv_conf sv))"
    using reached_in_force [OF assms] by (auto simp: in_force_def)
  show ?thesis using s by (rule daemon_settings_Ret) (use i in blast)
qed

text \<open>
  C14.  What ends the daemon, and what does not.  A turn ends it, always with status 1, exactly where a reload cannot reach the pusher,
  where the pusher is among the children that ended, where \<open>waitpid\<close> fails for another reason than that there is no child, and, in
  the process that is to serve, where its signals cannot be set; it is undefined exactly where reading the configuration is.  All else,
  a configuration or certificates that cannot be read, a connection that cannot be accepted or a fork that fails, leaves it
  running with the same settings, and with the lists it had unless a file was read to its end; and a connection is served
  exactly where it was accepted and the fork is followed into the child.
\<close>

theorem daemon_turn_ends:
  assumes "cosignd_reached bd fs fds su args rs sv"
  shows "(daemon_turn tw sv = Undefined \<longleftrightarrow>
      0 < sv_reconfig sv \<and> cosign_config (tw_files tw) (tw_fds tw) (sv_conf_file sv) (sv_conf sv) = Undefined) \<and>
    (daemon_turn tw sv = Exit n \<longleftrightarrow> n = 1 \<and> turn_ends tw sv \<and>
      \<not> (0 < sv_reconfig sv \<and> cosign_config (tw_files tw) (tw_fds tw) (sv_conf_file sv) (sv_conf sv) = Undefined)) \<and>
    (daemon_turn tw sv = Ret r \<longrightarrow>
      (\<exists>sv'. r = (if tw_accept tw \<and> tw_fork tw = In_child then Serves sv' else Goes_on sv') \<and>
        sv_settings sv' = sv_settings sv \<and> sv_ctx sv' = sv_ctx sv \<and> sv_reconfig sv' = 0 \<and> sv_child_signal sv' = 0 \<and>
        (if sv_reconfig sv = 0 then sv_conf sv' = sv_conf sv
         else \<exists>rc. cosign_config (tw_files tw) (tw_fds tw) (sv_conf_file sv) (sv_conf sv) = Ret (rc, sv_conf sv') \<and>
           (rc \<noteq> 0 \<longrightarrow> cf_authlist (sv_conf sv') = cf_authlist (sv_conf sv) \<and>
             cf_servicelist (sv_conf sv') = cf_servicelist (sv_conf sv)))))"
proof (intro conjI impI turn_undefined turn_exits)
  have inv: "in_force bd fs fds su args rs sv" using assms by (rule reached_in_force)
  assume ret: "daemon_turn tw sv = Ret r"
  then show "\<exists>sv'. r = (if tw_accept tw \<and> tw_fork tw = In_child then Serves sv' else Goes_on sv') \<and>
        sv_settings sv' = sv_settings sv \<and> sv_ctx sv' = sv_ctx sv \<and> sv_reconfig sv' = 0 \<and> sv_child_signal sv' = 0 \<and>
        (if sv_reconfig sv = 0 then sv_conf sv' = sv_conf sv
         else \<exists>rc. cosign_config (tw_files tw) (tw_fds tw) (sv_conf_file sv) (sv_conf sv) = Ret (rc, sv_conf sv') \<and>
           (rc \<noteq> 0 \<longrightarrow> cf_authlist (sv_conf sv') = cf_authlist (sv_conf sv) \<and>
             cf_servicelist (sv_conf sv') = cf_servicelist (sv_conf sv)))"
  proof (rule daemon_turn_Ret)
    fix v w assume v: "daemon_reload tw sv = Ret v" and w: "daemon_reap tw v = Ret w" and r: "r = Goes_on w \<or> r = Serves w"
    have iw: "in_force bd fs fds su args (reread tw sv rs) w" using turn_in_force [OF inv ret] r by blast
    show ?thesis
      using r turn_keeps [OF inv v w] same_ctx [OF inv iw] turn_serves [OF ret] by (intro exI [of _ w]) auto
  qed
qed

text \<open>
  C11.  Without the option for debugging, whatever a client of the running daemon sends and whatever fails, the cookie files and
  the messages to the other servers stay as they are unless one of its handshakes showed a certificate that the lists in force
  admit as that of a \<open>cgi\<close> or \<open>service\<close> host: lists that come from a file that was read to its end.
\<close>

theorem server_files_safe:
  assumes "cosignd_reached bd fs fds su args rs sv" and "daemon_turn tw sv = Ret (Serves sv')"
    and "last_option CHR ''X'' (fst (getopt COSIGN_OPTS args)) = None"
    and "\<not> d_auth_commands w" and "no_host (child_config host sv') w"
  shows "case serve host sv' w of (r, w') \<Rightarrow> r \<noteq> None \<and> os_fs w' = os_fs w \<and> d_push w' = d_push w"
proof -
  have "in_force bd fs fds su args (reread tw sv rs) sv'" using turn_in_force [OF reached_in_force [OF assms(1)] assms(2)] by blast
  then obtain s cf where s: "daemon_settings bd fs fds args = Ret (s, cf, sv_conf_file sv')"
    and i: "sv_settings sv' = s\<lparr>ds_port := listening_port su s\<rparr>" by (auto simp: in_force_def)
  have "\<not> ds_tlsopt s" using s by (rule daemon_settings_Ret) (use assms(3) in \<open>auto simp: settings_of_def\<close>)
  then have "\<not> tlsopt (child_config host sv')" by (simp add: child_config_def i Let_def)
  then have f: "files_rel w w'" if "serve host sv' w = (r, w')" for r w'
    using command_files [OF _ assms(4,5)] that unfolding serve_def by blast
  obtain r w' where "serve host sv' w = (r, w')" by fastforce
  moreover from this have "r \<noteq> None" using command_ends [of "child_config host sv'" w] unfolding serve_def by simp
  ultimately show ?thesis using f by (simp add: files_rel_def)
qed

end
