(* ===== verification/Monster_facts.thy ===== *)
theory Monster_facts
  imports Monster_start Cosignd_facts
begin

text \<open>
  The daemon and the monster work on one database and know nothing of each other: what the monster, started with the same
  configuration, does to the logins the daemon honours.
\<close>

text \<open>Both read the length of the hash from the file only.\<close>

lemma same_hashlen:
  assumes "cosignd_reached bd fs fds su args rs sv" and "monster_start bd fs fds ms margs = Ret st"
    and "sv_conf_file sv = (case last_option CHR ''c'' (fst (getopt MONSTER_OPTS margs)) of None \<Rightarrow> bd_conf bd | Some f \<Rightarrow> f)"
  shows "hashlen (child_config host sv) = m_hashlen (md_config st)"
proof -
  obtain s cf where s: "daemon_settings bd fs fds args = Ret (s, cf, sv_conf_file sv)"
    and i: "sv_settings sv = s\<lparr>ds_port := listening_port su s\<rparr>"
    using reached_in_force [OF assms(1)] by (auto simp: in_force_def)
  obtain m cf' where m: "monster_settings bd fs fds margs = Ret (m, cf')" and h: "m_hashlen (md_config st) = mt_hashlen m"
    using assms(2) by (rule monster_start_Ret)
  have c: "cosign_config fs fds (sv_conf_file sv) conf_init = Ret (0, cf)"
    and d: "ds_hashlen s = chosen atoi None (cosign_config_get (cf_cfg cf) ''cosigndbhashlen'') 0"
    using s by (rule daemon_settings_Ret; simp add: settings_of_def)+
  have "mt_hashlen m = chosen atoi None (cosign_config_get (cf_cfg cf) ''cosigndbhashlen'') 0"
    using m by (rule monster_settings_Ret) (use c assms(3) in \<open>auto simp: monster_settings_of_def\<close>)
  then show ?thesis using d h by (simp add: child_config_def i Let_def)
qed

lemma honoured_over:
  assumes "verdict cfg t ci \<in> {Live, Grey_window}"
  shows "over mc t ci \<longleftrightarrow> \<not> (t - ci_itime ci \<le> idle_cache mc \<and> t - atoi (ci_ctime ci) \<le> hard_timeout mc)"
  using assms by (auto simp: over_def verdict_def split: if_splits)

lemma honoured_idle:
  assumes "verdict cfg t ci \<in> {Live, Grey_window}" and "idle_out_time cfg \<le> i" and "idle_out_time cfg + grey_time cfg \<le> i"
  shows "t - ci_itime ci \<le> i"
  using assms by (auto simp: verdict_def idle_state_def split: if_splits)

lemma honoured_stays:
  assumes "swept mc t fs D w'" and "hashlen cfg = m_hashlen mc" and "login_of cfg w c = Some ci" and "os_fs w = fs"
    and "starts_with c ''cosign=''" and "\<not> over mc t ci"
  shows "login_of cfg w' c = Some ci \<and>
    (\<forall>s. starts_with s ''cosign-'' \<longrightarrow> service_of cfg w s = Some c \<longrightarrow> service_of cfg w' s = Some c)"
proof -
  obtain p where p: "path_of cfg c = Some p" "parse_cookie (fs p) = Ret (0, ci)" "fs p \<noteq> None"
    using assms(3) by (rule login_ofD) (use that assms(4) in simp)
  then have cp: "cookie_path mc c = Some p" by (simp add: assms(2))
  have alive: "\<not> dead mc t (fs p)" using p(2) assms(6) by (simp add: dead_def)
  moreover have "\<not> starts_with c ''cosign-''" using assms(5) by (auto simp: starts_with_def)
  ultimately have "os_fs w' p = fs p" using sweptD [OF assms(1) cp] by (auto simp: due_def)
  then have 1: "login_of cfg w' c = Some ci" using p by (simp add: login_of_def)
  have "service_of cfg w' s = Some c" if s: "starts_with s ''cosign-''" and of: "service_of cfg w s = Some c" for s
  proof -
    obtain q where q: "path_of cfg s = Some q" "parse_service (fs q) = Some c"
      using of by (rule service_ofD) (use that assms(4) in simp)
    then have cq: "cookie_path mc s = Some q" by (simp add: assms(2))
    have "\<not> orphan mc t fs (fs q)"
      using q(2) cp alive p(3) by (auto simp: orphan_def)
    moreover have "\<not> starts_with s ''cosign=''" using s by (auto simp: starts_with_def)
    ultimately have "os_fs w' q = fs q" using sweptD [OF assms(1) cq] by (auto simp: due_def)
    then show ?thesis using q by (simp add: service_of_def)
  qed
  with 1 show ?thesis by blast
qed

lemma honoured_goes:
  assumes "swept mc t fs D w'" and "hashlen cfg = m_hashlen mc" and "login_of cfg w c = Some ci" and "os_fs w = fs"
    and "starts_with c ''cosign=''" and "over mc t ci"
  shows "(c \<in> D \<longrightarrow> login_of cfg w' c = None) \<and>
    (\<forall>s \<in> D. starts_with s ''cosign-'' \<longrightarrow> service_of cfg w s = Some c \<longrightarrow> service_of cfg w' s = None)"
proof -
  obtain p where p: "path_of cfg c = Some p" "parse_cookie (fs p) = Ret (0, ci)"
    using assms(3) by (rule login_ofD) (use that assms(4) in simp)
  then have cp: "cookie_path mc c = Some p" and d: "dead mc t (fs p)" by (simp_all add: assms(2,6) dead_def)
  have gone: "os_fs w' q = None" if "n \<in> D" "cookie_path mc n = Some q" "due mc t fs n (fs q)" for n q
  proof -
    have "os_fs w' q = (if due mc t fs n (fs q) then None else fs q) \<or> n \<notin> D \<and> os_fs w' q = fs q"
      using assms(1) that(2) unfolding swept_def by blast
    then show ?thesis using that by simp
  qed
  have "login_of cfg w' c = None" if "c \<in> D"
    using gone [OF that cp] d assms(5) p(1) by (simp add: due_def login_of_def parse_cookie_def)
  moreover have "service_of cfg w' s = None" if "s \<in> D" and s: "starts_with s ''cosign-''" and of: "service_of cfg w s = Some c" for s
  proof -
    obtain q where q: "path_of cfg s = Some q" "parse_service (fs q) = Some c"
      using of by (rule service_ofD) (use that assms(4) in simp)
    then have "due mc t fs s (fs q)" using s cp d by (simp add: due_def orphan_def)
    then show ?thesis using gone [OF that(1)] q(1) by (simp add: assms(2) service_of_def parse_service_def)
  qed
  ultimately show ?thesis by blast
qed

text \<open>
  C12.  What a pass of a monster that was started with the daemon's configuration does to a login the daemon honours: it
  keeps the login and every service cookie registered with it if the login was used within the monster's idle time and began
  within its hard timeout, which is counted from the time the user signed on and knows nothing of use; otherwise it removes the
  login and those of its service cookies that are in the directories it reads, though the daemon would still have answered for
  them.  Where the monster's idle time covers the daemon's idle time and grey window, the first condition always holds, and only
  the hard timeout takes an honoured login.
\<close>

theorem monster_spares_logins:
  assumes "cosignd_reached bd fs fds su args rs sv" and "monster_start bd fs fds ms margs = Ret st"
    and "sv_conf_file sv = (case last_option CHR ''c'' (fst (getopt MONSTER_OPTS margs)) of None \<Rightarrow> bd_conf bd | Some f \<Rightarrow> f)"
    and "os_faults w = []" and "apart (md_config st) (os_fs w)"
    and "hashdirs (m_hashlen (md_config st)) = Some ds" and "list_all (\<lambda>d. listing d \<noteq> None) ds"
    and "cfg = child_config host sv" and "starts_with c ''cosign=''" and "login_of cfg w c = Some ci"
    and "verdict cfg (tv_sec (os_now w)) ci \<in> {Live, Grey_window}"
  shows "(\<exists>w'. run_state (monster_pass (md_config st) listing) w = (Ret (), w') \<and>
      (if tv_sec (os_now w) - ci_itime ci \<le> idle_cache (md_config st) \<and>
          tv_sec (os_now w) - atoi (ci_ctime ci) \<le> hard_timeout (md_config st)
       then login_of cfg w' c = Some ci \<and>
         (\<forall>s. starts_with s ''cosign-'' \<longrightarrow> service_of cfg w s = Some c \<longrightarrow> service_of cfg w' s = Some c)
       else (c \<in> listed listing ds \<longrightarrow> login_of cfg w' c = None) \<and>
         (\<forall>s \<in> listed listing ds. starts_with s ''cosign-'' \<longrightarrow> service_of cfg w s = Some c \<longrightarrow> service_of cfg w' s = None))) \<and>
    (ds_idle_out_time (sv_settings sv) \<le> idle_cache (md_config st) \<and>
      ds_idle_out_time (sv_settings sv) + ds_grey_time (sv_settings sv) \<le> idle_cache (md_config st) \<longrightarrow>
      tv_sec (os_now w) - ci_itime ci \<le> idle_cache (md_config st))"
proof -
  have h: "hashlen cfg = m_hashlen (md_config st)" using same_hashlen [OF assms(1-3)] assms(8) by simp
  obtain w' where w': "run_state (monster_pass (md_config st) listing) w = (Ret (), w')"
    "swept (md_config st) (tv_sec (os_now w)) (os_fs w) (listed listing ds) w'"
    using pass_sweeps [OF assms(4-7)] by blast
  have i: "idle_out_time cfg = ds_idle_out_time (sv_settings sv)" "grey_time cfg = ds_grey_time (sv_settings sv)"
    by (simp_all add: assms(8) child_config_def Let_def)
  show ?thesis
    using w'(1) honoured_over [OF assms(11), of "md_config st"] honoured_stays [OF w'(2) h assms(10) refl assms(9)]
      honoured_goes [OF w'(2) h assms(10) refl assms(9)] honoured_idle [OF assms(11), of "idle_cache (md_config st)", unfolded i]
    by simp
qed

text \<open>The condition on the times holds where neither program is given an idle time or a grey window.\<close>

lemma default_times:
  assumes "cosignd_reached bd fs fds su args rs sv" and "monster_start bd fs fds ms margs = Ret st"
    and "last_option CHR ''i'' (fst (getopt COSIGN_OPTS args)) = None"
    and "last_option CHR ''g'' (fst (getopt COSIGN_OPTS args)) = None"
    and "last_option CHR ''i'' (fst (getopt MONSTER_OPTS margs)) = None"
  shows "ds_idle_out_time (sv_settings sv) + ds_grey_time (sv_settings sv) \<le> idle_cache (md_config st)"
proof -
  obtain s cf where s: "daemon_settings bd fs fds args = Ret (s, cf, sv_conf_file sv)"
    and i: "sv_settings sv = s\<lparr>ds_port := listening_port su s\<rparr>"
    using reached_in_force [OF assms(1)] by (auto simp: in_force_def)
  have "ds_idle_out_time s + ds_grey_time s = 60 * 60 * 2 + 60 * 30"
    using s by (rule daemon_settings_Ret) (use assms(3,4) in \<open>auto simp: settings_of_def chosen_def\<close>)
  moreover obtain m cf' where m: "monster_settings bd fs fds margs = Ret (m, cf')" and h: "idle_cache (md_config st) = mt_idle_cache m"
    using assms(2) by (rule monster_start_Ret)
  moreover have "mt_idle_cache m = 60 * 30 + 60 * 60 * 2 + 60 * 60 * 2"
    using m by (rule monster_settings_Ret) (use assms(5) in \<open>auto simp: monster_settings_of_def chosen_def\<close>)
  ultimately show ?thesis by (simp add: i)
qed

section \<open>Where the two differ\<close>

text \<open>The manual of the monster overrides \<open>cosigndb\<close> with an option \<open>-D\<close>; only the daemon has one.\<close>

lemma monster_no_directory:
  "\<exists>opts rest. getopt MONSTER_OPTS [''-D'', ''d''] = (opts, rest) \<and> opts = [(CHR ''?'', [])] \<and> rest = [''d'']"
  "getopt COSIGN_OPTS [''-D'', ''d''] = ([(CHR ''D'', ''d'')], [])"
  by (simp_all add: MONSTER_OPTS_def COSIGN_OPTS_def)

text \<open>Where no port is set and the services of the host name one, the daemon listens there and the monster connects elsewhere.\<close>

lemma ports_differ:
  assumes "settings_of bd cf opts s" and "monster_settings_of bd cf mopts m" and "su_service su = Some p"
    and "cosign_config_get cf ''cosignport'' = None" and "last_option CHR ''p'' opts = None" and "last_option CHR ''p'' mopts = None"
  shows "listening_port su s = p" and "mt_port m = 6663"
  using assms by (simp_all add: settings_of_def monster_settings_of_def listening_port_def chosen_def)

end
