(* ===== verification/Cosignd_samples.thy ===== *)
theory Cosignd_samples
  imports Monster_facts
begin

text \<open>
  A daemon that is started in the foreground with a file of two lines, gets a SIGHUP after the file was removed and a SIGCHLD,
  and then serves a client whose certificate is of nobody it knows: the theorems of \<open>Cosignd_facts\<close> applied to it.
\<close>

definition sample_lines :: "string list" where
  "sample_lines = [''cgi weblogin'', ''set cosigndb /db'', ''set cosignport 6664'']"

definition sample_built :: built where
  "sample_built = \<lparr>bd_dir = ''/var'', bd_tickets = ''/tkt'', bd_conf = ''conf'', bd_key = ''key'', bd_cert = ''cert'',
     bd_cadir = ''ca'', bd_facility = 24\<rparr>"

definition sample_tls :: "bool \<Rightarrow> tls_files" where
  "sample_tls ok = \<lparr>tf_stat = \<lambda>_. Some True, tf_readable = \<lambda>_. True, tf_searchable = \<lambda>_. True, tf_ctx_new = ok,
     tf_use_key = \<lambda>_. True, tf_use_cert = \<lambda>_. True, tf_check_key = \<lambda>_ _. True, tf_verify = \<lambda>_ _. True\<rparr>"

definition sample_startup :: startup where
  "sample_startup = \<lparr>su_tls = sample_tls True, su_service = None, su_socket = True, su_bind = True, su_listen = True,
     su_chdir = True, su_hosts = True, su_leaving = \<lparr>lv_fork = In_child, lv_setsid = True, lv_open = True\<rparr>,
     su_pipe = True, su_fork = In_parent 7, su_close = True, su_attach = True, su_sigaction = True\<rparr>"

definition sample_args :: "string list" where
  "sample_args = [''-fc'', ''c'', ''-h'', ''replica'', ''-x/ca'', ''-i'', ''60'']"

definition sample_conf :: conf where
  "sample_conf = conf_init
     \<lparr>cf_authlist := [auth_entry CGI ''weblogin''], cf_new_authlist := [auth_entry CGI ''weblogin''],
      cf_cfg := [\<lparr>cc_key = ''cosigndb'', cc_value = [''/db'']\<rparr>, \<lparr>cc_key = ''cosignport'', cc_value = [''6664'']\<rparr>],
      cf_new_cfg := [\<lparr>cc_key = ''cosigndb'', cc_value = [''/db'']\<rparr>, \<lparr>cc_key = ''cosignport'', cc_value = [''6664'']\<rparr>]\<rparr>"

lemma sample_config_read:
  "cosign_config (one_file (file_of_lines sample_lines)) 1 ''c'' conf_init = Ret (0, sample_conf)"
  unfolding cosign_config_def sample_lines_def sample_conf_def One_nat_def
  by (subst read_one_file) (simp_all add: conf_eval conf_init_def conf_set_def)

lemma sample_getopt:
  "getopt COSIGN_OPTS sample_args =
     ([(CHR ''f'', []), (CHR ''c'', ''c''), (CHR ''h'', ''replica''), (CHR ''x'', ''/ca''), (CHR ''i'', ''60'')], [])"
  by (simp add: COSIGN_OPTS_def sample_args_def)

definition sample_settings :: settings where
  "sample_settings =
     \<lparr>ds_debug = False, ds_backlog = 5, ds_tlsopt = False, ds_idle_out_time = 60, ds_grey_time = 60 * 30, ds_hashlen = 0,
      ds_strict_checks = True, ds_dir = ''/db'', ds_tickets = ''/tkt'', ds_cryptofile = ''key'', ds_certfile = ''cert'',
      ds_cadir = ''/ca'', ds_replhost = Some ''replica'', ds_net_timeout = 60 * 4, ds_port = 6664, ds_facility = 24,
      ds_level = 6, ds_fg = True, ds_dontrun = False, ds_err = 0\<rparr>"

lemma sample_numbers: "atoi ''60'' = 60" "atoi ''6664'' = 6664" "atoi ''900'' = 900" "atoi ''43200'' = 43200" "atoi ''50'' = 50"
  using atoi_show_int [of 60] atoi_show_int [of 6664] atoi_show_int [of 900] atoi_show_int [of 43200] atoi_show_int [of 50] by (simp_all add: show_int_def show_nat.simps)

lemmas sample_settings_defs = sample_settings_def daemon_option_def daemon_configure_def default_settings_def from_config_def
  sample_built_def sample_conf_def conf_init_def port_of_def Let_def

lemma sample_daemon_settings:
  "daemon_settings sample_built (one_file (file_of_lines sample_lines)) 1 sample_args = Ret (sample_settings, sample_conf, ''c'')"
proof -
  have "last_option CHR ''c'' [(CHR ''f'', []), (CHR ''c'', ''c''), (CHR ''h'', ''replica''), (CHR ''x'', ''/ca''),
      (CHR ''i'', ''60'')] = Some ''c''"
    by (simp add: last_option_def)
  moreover have "each_option daemon_option [(CHR ''f'', []), (CHR ''c'', ''c''), (CHR ''h'', ''replica''), (CHR ''x'', ''/ca''),
      (CHR ''i'', ''60'')] (daemon_configure (cf_cfg sample_conf) (default_settings sample_built)) = Ret sample_settings"
    by (simp add: sample_settings_defs sample_numbers)
  moreover have "ds_err sample_settings = 0" by (simp add: sample_settings_def)
  ultimately show ?thesis
    by (simp add: daemon_settings_def sample_getopt sample_config_read Let_def del: each_option.simps One_nat_def)
qed

definition sample_server :: server where
  "sample_server =
     \<lparr>sv_settings = sample_settings, sv_conf_file = ''c'', sv_conf = sample_conf, sv_ctx = Some (''key'', ''cert'', ''/ca''),
      sv_pusherpid = 7, sv_pushersn = True, sv_reconfig = 0, sv_child_signal = 0\<rparr>"

lemma sample_running:
  "cosignd_reached sample_built (one_file (file_of_lines sample_lines)) 1 sample_startup sample_args [] sample_server"
  by (rule started)
    (simp add: cosignd_start_def sample_daemon_settings cosign_ssl_def sample_startup_def sample_tls_def sample_settings_def
      daemon_listen_def daemon_pusher_def sample_server_def del: One_nat_def)

text \<open>The file is gone, the certificates cannot be loaded, a child has ended, and a client arrives.\<close>

definition sample_turn :: turn where
  "sample_turn = \<lparr>tw_files = \<lambda>_. None, tw_fds = 1, tw_tls = sample_tls False, tw_kill = True, tw_waits = [(8, Exited 1)],
     tw_wait_error = False, tw_accept = True, tw_fork = In_child, tw_sigaction = True\<rparr>"

definition sample_signalled :: server where
  "sample_signalled = chld (hup sample_server)"

lemma sample_reached:
  "cosignd_reached sample_built (one_file (file_of_lines sample_lines)) 1 sample_startup sample_args [] sample_signalled"
  unfolding sample_signalled_def by (intro sighup sigchld sample_running)

definition sample_left :: server where
  "sample_left = sample_server\<lparr>sv_conf := sample_conf\<lparr>cf_new_authlist := [], cf_new_cfg := []\<rparr>\<rparr>"

lemma sample_turned: "daemon_turn sample_turn sample_signalled = Ret (Serves sample_left)"
  by (simp add: daemon_turn_def daemon_reload_def daemon_reap_def daemon_accept_def sample_turn_def sample_signalled_def
      hup_def chld_def sample_server_def cosign_config_def cosign_ssl_def sample_tls_def sample_left_def Let_def
      sample_conf_def conf_init_def)

section \<open>The theorems used\<close>

theorem cosignd_keeps_witness:
  "\<exists>s. \<exists>cf :: conf. settings_of sample_built (cf_cfg cf) (fst (getopt COSIGN_OPTS sample_args)) s \<and>
     sample_settings = s\<lparr>ds_port := listening_port sample_startup s\<rparr>"
proof -
  have i: "sv_settings sample_signalled = sample_settings"
    by (simp add: sample_signalled_def hup_def chld_def sample_server_def)
  obtain opts s and cf :: conf where "getopt COSIGN_OPTS sample_args = (opts, [])" "settings_of sample_built (cf_cfg cf) opts s"
    "sv_settings sample_signalled = s\<lparr>ds_port := listening_port sample_startup s\<rparr>"
    using cosignd_keeps [OF sample_reached] by blast
  then show ?thesis using i by (metis fst_conv)
qed

theorem daemon_turn_ends_witness:
  "sv_reconfig sample_signalled = 1 \<and> sv_settings sample_left = sv_settings sample_signalled \<and> sv_reconfig sample_left = 0 \<and>
   cf_authlist (sv_conf sample_left) = [auth_entry CGI ''weblogin'']"
  using daemon_turn_ends [OF sample_reached, of sample_turn]
  by (auto simp: sample_turned sample_signalled_def hup_def chld_def sample_server_def sample_conf_def sample_left_def)

text \<open>A client that starts TLS as a host that is not listed, and tries to log somebody out.\<close>

definition stranger :: daemon where
  "stranger = (sample_start [])
     \<lparr>d_handshakes := [\<lparr>hs_rc = 1, hs_peer = Some ''elsewhere'', hs_net = [Bytes (''LOGOUT cosign=x 10.0.0.1'' @ [LF])]\<rparr>]\<rparr>"

theorem server_files_safe_witness:
  "case serve sample_config sample_left stranger of (r, w') \<Rightarrow>
     r \<noteq> None \<and> os_fs w' = os_fs stranger \<and> d_push w' = d_push stranger"
proof (rule server_files_safe [OF sample_reached sample_turned])
  show "last_option CHR ''X'' (fst (getopt COSIGN_OPTS sample_args)) = None"
    by (simp add: sample_getopt last_option_def)
  show "\<not> d_auth_commands stranger" by (simp add: stranger_def sample_start_def)
  show "no_host (child_config sample_config sample_left) stranger"
    by (simp add: no_host_def stranger_def admits_def child_config_def Let_def sample_left_def sample_server_def
        sample_conf_def sample_config_def literal_regex_def auth_entry_def authlist_find.simps)
qed

text \<open>A monster with the same file, and a database with a login that is a hundred seconds old.\<close>

definition sample_monster_startup :: monster_startup where
  "sample_monster_startup = \<lparr>ms_hostname = Some ''db1'', ms_resolve = \<lambda>_. Some [1, 2], ms_tls = sample_tls True, ms_chdir = True,
     ms_leaving = \<lparr>lv_fork = In_child, lv_setsid = True, lv_open = True\<rparr>\<rparr>"

definition sample_monster_args :: "string \<Rightarrow> string list" where
  "sample_monster_args h = [''-f'', ''-h'', ''db'', ''-c'', ''c'', ''-H'', h]"

definition sample_monster_started :: "string \<Rightarrow> monster_started" where
  "sample_monster_started h =
     \<lparr>md_config = \<lparr>m_hashlen = 0, idle_cache = 60 * 30 + 60 * 60 * 2 + 60 * 60 * 2, loggedout_cache = 60 * 60 * 2,
        hard_timeout = atoi h, cosign_host = ''db'', m_hostname = ''db1''\<rparr>,
      md_interval = 60 * 2, md_addresses = [(1, 6664), (2, 6664)],
      md_head = [\<lparr>cl_sn = None, cl_last_time = 0\<rparr>, \<lparr>cl_sn = None, cl_last_time = 0\<rparr>], md_ctx = Some (''key'', ''cert'', ''ca'')\<rparr>"

lemma sample_monster_getopt:
  "getopt MONSTER_OPTS (sample_monster_args h) = ([(CHR ''f'', []), (CHR ''h'', ''db''), (CHR ''c'', ''c''), (CHR ''H'', h)], [])"
  by (simp add: MONSTER_OPTS_def sample_monster_args_def)

lemma sample_monster_start:
  "monster_start sample_built (one_file (file_of_lines sample_lines)) 1 sample_monster_startup (sample_monster_args h) =
     Ret (sample_monster_started h)"
proof -
  have o: "last_option CHR ''c'' [(CHR ''f'', []), (CHR ''h'', ''db''), (CHR ''c'', ''c''), (CHR ''H'', h)] = Some ''c''"
    by (simp add: last_option_def)
  obtain m where m: "each_option monster_option [(CHR ''f'', []), (CHR ''h'', ''db''), (CHR ''c'', ''c''), (CHR ''H'', h)]
      (monster_configure (cf_cfg sample_conf) (monster_default sample_built)) = Ret m"
    "mt_hashlen m = 0" "mt_idle_cache m = 60 * 30 + 60 * 60 * 2 + 60 * 60 * 2" "mt_loggedout_cache m = 60 * 60 * 2"
    "mt_hard_timeout m = atoi h" "mt_host m = Some ''db''" "mt_interval m = 60 * 2" "mt_port m = 6664"
    "mt_cryptofile m = ''key''" "mt_certfile m = ''cert''" "mt_cadir m = ''ca''" "mt_fg m" "mt_err m = 0"
    by (simp add: monster_option_def monster_configure_def monster_default_def from_config_def sample_built_def
        sample_conf_def conf_init_def port_of_def Let_def sample_numbers)
  then have "monster_settings sample_built (one_file (file_of_lines sample_lines)) 1 (sample_monster_args h) = Ret (m, sample_conf)"
    by (simp add: monster_settings_def sample_monster_getopt sample_config_read o Let_def del: each_option.simps One_nat_def)
  then show ?thesis
    by (simp add: monster_start_def monster_hosts_def m sample_monster_startup_def cosign_ssl_def sample_tls_def
        sample_monster_started_def del: One_nat_def)
qed

theorem monster_spares_logins_witness:
  "(\<exists>w'. run_state (monster_pass (md_config (sample_monster_started ''43200'')) (\<lambda>_. Some [''cosign=ab''])) (sample_monster 1000) =
       (Ret (), w') \<and> login_of (child_config sample_config sample_signalled) w' ''cosign=ab'' = Some sample_cinfo) \<and>
   (\<exists>w'. run_state (monster_pass (md_config (sample_monster_started ''50'')) (\<lambda>_. Some [''cosign=ab''])) (sample_monster 1000) =
       (Ret (), w') \<and> login_of (child_config sample_config sample_signalled) w' ''cosign=ab'' = None)"
proof -
  let ?cfg = "child_config sample_config sample_signalled"
  let ?mc = "\<lambda>h. md_config (sample_monster_started h)"
  have cfg: "hashlen ?cfg = 0" "idle_out_time ?cfg = 60" "grey_time ?cfg = 1800"
    by (simp_all add: child_config_def Let_def sample_signalled_def hup_def chld_def sample_server_def sample_settings_def)
  have md: "m_hashlen (?mc h) = 0" "idle_cache (?mc h) = 16200" "hard_timeout (?mc h) = atoi h" for h
    by (simp_all add: sample_monster_started_def)
  have w: "os_faults (sample_monster 1000) = []" "os_fs (sample_monster 1000) = os_fs sample_db"
    "tv_sec (os_now (sample_monster 1000)) = 1000" by (simp_all add: sample_monster_def)
  have l: "login_of ?cfg (sample_monster 1000) ''cosign=ab'' = Some sample_cinfo"
    using sample_login unfolding login_of_def cfg w by (simp add: sample_config_def)
  have v: "verdict ?cfg 1000 sample_cinfo \<in> {Live, Grey_window}"
    by (simp add: verdict_def idle_state_def cfg) (simp add: sample_cinfo_def)
  have c: "sv_conf_file sample_signalled = ''c''"
    by (simp add: sample_signalled_def hup_def chld_def sample_server_def)
  have pass: "\<exists>w'. run_state (monster_pass (?mc h) (\<lambda>_. Some [''cosign=ab''])) (sample_monster 1000) = (Ret (), w') \<and>
      (if 1000 - ci_itime sample_cinfo \<le> 16200 \<and> 1000 - atoi (ci_ctime sample_cinfo) \<le> atoi h
       then login_of ?cfg w' ''cosign=ab'' = Some sample_cinfo
       else ''cosign=ab'' \<in> listed (\<lambda>_. Some [''cosign=ab'']) [''.''] \<longrightarrow> login_of ?cfg w' ''cosign=ab'' = None)" for h
  proof -
    have t: "(\<exists>w'. P w' \<and> (if b then A w' \<and> A' w' else C w' \<and> C' w')) \<and> X \<Longrightarrow> \<exists>w'. P w' \<and> (if b then A w' else C w')"
      for P A A' C C' :: "monster \<Rightarrow> bool" and b X by (cases b) auto
    show ?thesis
      by (rule t [OF monster_spares_logins [OF sample_reached sample_monster_start _ w(1) _ _ _ refl _ l, of h "[''.'']", unfolded w md]])
        (use v sample_apart [OF md(1)] in \<open>simp_all add: c md hashdirs_def sample_monster_getopt last_option_def starts_with_def w\<close>)
  qed
  have "1000 - ci_itime sample_cinfo \<le> 16200" "1000 - atoi (ci_ctime sample_cinfo) \<le> atoi ''43200''"
    "\<not> 1000 - atoi (ci_ctime sample_cinfo) \<le> atoi ''50''"
    by (simp_all add: sample_cinfo_def sample_numbers)
  then show ?thesis using pass [of "''43200''"] pass [of "''50''"] by (simp add: listed_def)
qed

end
