(* ===== verification/Spec2Isabelle.thy ===== *)
theory Spec2Isabelle
  imports Divergences Snet_write Wildcard Logout_cgi Apache13 Lt_samples Cosignd_samples
begin

text \<open>
  Cosign is a single sign-on for web servers.  A user logs in at a weblogin server; its CGI tells the daemon \<open>cosignd\<close> on
  the same host (LOGIN, REGISTER, LOGOUT).  The daemon keeps one file per cookie: a login cookie's file says who is logged in
  since when, a service cookie's file names its login cookie.  The filter of every other web server asks the daemon about
  the service cookie of a request (CHECK, REKEY) and fetches proxy cookies and tickets (RETR); it keeps a copy of the
  answer for a minute.  The pusher passes what the daemon stores on to replicas, the monster removes old cookies and sends
  the replicas the times of last use.  This library models these programs and proves what they promise each other.

  The theories, from the bottom; each definition has the name of the C function or of the piece of it that it models.

  \<open>Prelude\<close>: C strings and numbers; what \<open>strtol\<close>, \<open>atoi\<close>, \<open>snprintf\<close> and the conversions of \<open>printf\<close> do; the outcomes
  of a C function (\<open>Ret\<close>, \<open>Exit\<close>, and \<open>Undefined\<close> where C gives the run no meaning); and the locale \<open>io_preorder\<close>, by which
  a relation between the states before and after is carried through a program by its structure.

  \<open>Fbase64\<close>, \<open>Mkcookie\<close>, \<open>Argcargv\<close>, \<open>Wildcard\<close>, \<open>Rate\<close>, \<open>Logname\<close>, \<open>Conf\<close>, \<open>Conf_read\<close>: the files of \<open>common/\<close> and
  \<open>daemon/logname.c\<close>.  The lemmas: the decoder inverts the encoder; cookies fit their buffers and have files of their own;
  the in-place parser of lines stays in its buffer and refines a tokenizer on lists; the wildcard matcher decides its
  declarative relation; what reading a configuration leaves in the lists.

  \<open>Snet\<close>: \<open>libsnet/snet.c\<close>, its read buffer, line reader, formatter and STARTTLS.  A connection is the list of what the
  next reads deliver.  A line does not depend on how its bytes arrive; formatted text fits the buffer it grows.
  \<open>Snet_write\<close>: writing in pieces under a timeout.  What the system answers to each call is a list of its own, which every turn
  of the loop shortens, so no fuel is needed; what is sent is the beginning of the buffer, and the time that is left is exact.

  \<open>Os\<close>: the system calls, over a record of files, clock, process id, entropy and a schedule of failures, so that every error
  branch of the sources is a branch of the model.  \<open>Cparse\<close>: \<open>daemon/cparse.c\<close>, the files behind cookies.

  \<open>Daemon\<close>, \<open>Cmd_login\<close>, \<open>Cmd_logout\<close>, \<open>Cmd_check\<close>, \<open>Command\<close>: \<open>daemon/command.c\<close>, handler by handler in the state
  monad of \<open>daemon\<close> (the system, the connection, the host's entry in the configuration, what went to the pusher), and the
  command loop.  \<open>Session\<close> takes a connection as a step relation and shows by rule induction what holds in every reachable
  state.  \<open>Revoke\<close>: a logged out cookie stays logged out under every order of commands and every failure.  \<open>Database\<close> and
  \<open>Database_login\<close> give the abstract database (\<open>login_of\<close>, \<open>service_of\<close>) and the effect of each command on it, and run a
  sign-on from LOGIN to the CHECK after LOGOUT.

  \<open>Mnet\<close>, \<open>Monster\<close>, \<open>Sweep\<close>, \<open>Pusher\<close>, \<open>Replica\<close>: \<open>daemon/mnet.c\<close>, \<open>monster.c\<close>, \<open>pusher.c\<close>.  A pass of the monster
  removes exactly the cookies that are due; the pusher's parent always has a pipe to each child; and what the daemon pushes,
  read by the parent, written by its child and taken by the replica's command loop, leaves the replica with the same session,
  of whose factors only the first is passed on by a LOGIN.

  \<open>Startup\<close>, \<open>Cosignd\<close>, \<open>Cosignd_facts\<close>, \<open>Monster_start\<close>, \<open>Monster_facts\<close>, \<open>Cosignd_samples\<close>: \<open>daemon/daemon.c\<close>, the start of
  \<open>monster.c\<close>, and \<open>cosign_ssl\<close> of \<open>common/conf.c\<close>.  The locale \<open>option_setting\<close>, interpreted for the options of both programs,
  gives the setting in force; an inductive relation takes the daemon through its turns and signals.  In every state the
  settings are the administrator's and the lists those of the newest file that was read to its end; exactly what ends the
  daemon; a connection, from its first byte to its end, changes nothing for a host that is not listed; and a monster with the
  same configuration keeps a login that is within its idle time and its hard timeout and removes any other, so that one
  the daemon honours goes with the hard timeout, of which the daemon knows nothing.

  \<open>Scookie\<close>, \<open>Filter_net\<close>, \<open>Filter_conn\<close>, \<open>Cookiefs\<close>, \<open>Filter_facts\<close>: \<open>filters/common/\<close>.  Composed with the daemon's reply,
  a visit shows the filter who is logged in; a logout reaches it within a minute; a reply is good only with every required
  factor; a visit ends.

  \<open>Mod_config\<close>, \<open>Mod_law\<close>, \<open>Mod_cosign\<close>, \<open>Mod_facts\<close>, \<open>Mod_sso\<close>, \<open>Mod_samples\<close>: \<open>filters/apache2/mod_cosign.c\<close>.  The directives, and by a
  locale of laws what every configuration they can leave is like, its list of the daemon's addresses among it; the location handler and the hooks; who gets to a protected
  page, what the weblogin program reads in the redirect it is sent, and, with the daemon's REKEY, the way from there to the
  page.  \<open>Mod_apache\<close>, \<open>Apache13\<close>: \<open>filters/apache/mod_cosign.c\<close>.  The same file leaves the settings the other module leaves,
  but for one note, by a relation that every entry of the two tables keeps; and its answers to a request are the same, by an
  abstraction of the requests.  There too is where either module fails.

  \<open>Lt_config\<close>, \<open>Lt_cosign\<close>, \<open>Lt_law\<close>, \<open>Lt_facts\<close>, \<open>Lt_samples\<close>: \<open>filters/lighttpd/mod_cosign.c\<close>.  The start of the plugin and the
  settings it puts together for each request, which the locale \<open>setting\<close>, interpreted for every key, shows to be those of the
  contexts that decide; the location handler and the check of access, with what they guarantee; and the search for the cookie,
  a \<open>partial_function\<close> because it may not end, with when it does.

  \<open>Cgi_form\<close>, \<open>Subfile\<close>, \<open>Weblogin_net\<close>, \<open>Weblogin\<close>, \<open>Weblogin_login\<close>, \<open>Weblogin_main\<close>, \<open>Logout_cgi\<close>: \<open>libcgi/cgi.c\<close> and
  \<open>cgi/\<close>.  A form comes back as it was filled in, however the browser encodes it, and what a page escapes cannot change how the
  page is built; then the client of the
  daemon (\<open>network.c\<close>), the authenticators (\<open>login.c\<close>, \<open>factor.c\<close>), \<open>main\<close> of \<open>cgi.c\<close>, cut into the pieces it is made of, each
  of which goes on with a value, goes to the login screen or ends the process, and \<open>logout.c\<close>.  \<open>Weblogin_facts\<close>: the loop breaker
  ends a loop of redirects, and the guest database is asked only for harmless names.  \<open>Weblogin_typed\<close>: relations carried through
  the whole program, by which its variables fit their arrays.  \<open>Weblogin_sso\<close> composes it with the daemon's command loop: a visit
  with a live login registers the service cookie and redirects, any other ends at the login screen; \<open>Logout_cgi\<close> does so for a logout.

  \<open>Divergences\<close> and some lemmas of the other theories run the model where the code does not do what it means to.

  Bounds.  Loops that need not end take fuel.  The command loop takes the length of its input, each line of which takes at
  least a byte (\<open>command_terminates\<close>), as do the replies of several lines; the loop of TIME likewise (\<open>time_loop_stops\<close>); a
  configuration that includes itself is cut off by the depth the reader is given; a visit takes two turns
  (\<open>visit_ends\<close>); the search for a cookie in a header takes the length of the header, of which every step uses a character.
  The loops of the daemon and of the monster have no end: a turn, and a pass, is a function, which always returns.  Integers of C
  are \<open>int\<close> or words with the wrap-around written out where a value can leave their range.

  Parameters.  Code that is not part of the sources is an argument: regular expressions, the TLS handshake and the name in
  the certificate, OpenSSL's random bytes and what it says of files, the Kerberos and MySQL libraries, \<open>ap_getword\<close> of Apache,
  the resolver, PCRE and the functions of Lighttpd that read its file, the factor programs, \<open>readdir\<close>, the outcomes of
  \<open>fork\<close>, \<open>pipe\<close>, \<open>waitpid\<close> and of the calls on sockets.  Hypotheses about them say only what their documentation does.

  Not modelled: log messages; memory allocation that fails; the descriptors a daemon closes when it leaves its terminal; SASL;
  the upload of files in \<open>libcgi\<close>, which nothing calls.  The clock stands still while one command is handled, and
  processes interleave between commands, not within one.
\<close>

end
